(* ===== verification/Go_Base.thy ===== *)
theory Go_Base
  imports Main "HOL-Library.Char_ord" "HOL-Library.List_Lexorder" "HOL-Library.State_Monad" "HOL-Library.AList"
begin

text \<open>
  The part of Go and of its standard library that the rest of the development shares:
  errors as values, the functions of package \<^verbatim>\<open>strings\<close> and \<^verbatim>\<open>strconv\<close> the sources
  call, maps with a chosen iteration order, and effectful code.

  A Go \<^verbatim>\<open>string\<close> is a list of bytes (\<open>char list\<close>).  The case and space functions are
  those of Go on ASCII text; bytes above 127 are left alone.  Code that talks to a
  database or a remote service is a value of \<open>('w, 'a) state\<close>: it takes the state of
  the outside world and returns a result and the next state.
\<close>

named_theorems go_string_simps \<open>evaluation rules of the string functions\<close>
named_theorems world_simps \<open>rules that run effectful code\<close>

section \<open>Errors as values\<close>

datatype sentinel =
    ErrProjectNotFound | ErrProjectExists | ErrCompanyExists
  | ErrRecordNotFound
  | ErrTeamAlreadyExists | ErrInviteAlreadyExists | ErrUserAlreadyMember
  | ErrNotFound

text \<open>
  An error is a package level value, a plain message (\<^verbatim>\<open>errors.New\<close>, \<^verbatim>\<open>fmt.Errorf\<close>
  without \<^verbatim>\<open>%w\<close>), or an error with text before and after it (\<^verbatim>\<open>fmt.Errorf\<close> with \<^verbatim>\<open>%w\<close>).
\<close>

datatype go_error = Sentinel sentinel | Msg string | Wrap string go_error string

fun errors_is :: "go_error \<Rightarrow> sentinel \<Rightarrow> bool" where
  "errors_is (Sentinel s) t = (s = t)"
| "errors_is (Msg m) t = False"
| "errors_is (Wrap a e b) t = errors_is e t"

fun sentinel_text :: "sentinel \<Rightarrow> string" where
  "sentinel_text ErrProjectNotFound = ''project not found''"
| "sentinel_text ErrProjectExists = ''project already exists''"
| "sentinel_text ErrCompanyExists = ''company already exists''"
| "sentinel_text ErrRecordNotFound = ''record not found''"
| "sentinel_text ErrTeamAlreadyExists = ''fossa: team already exists''"
| "sentinel_text ErrInviteAlreadyExists = ''fossa: invitation already exists''"
| "sentinel_text ErrUserAlreadyMember = ''fossa: user is already a member''"
| "sentinel_text ErrNotFound = ''not found''"

fun error_text :: "go_error \<Rightarrow> string" where
  "error_text (Sentinel s) = sentinel_text s"
| "error_text (Msg m) = m"
| "error_text (Wrap a e b) = a @ error_text e @ b"

type_synonym 'a result = "go_error + 'a"

abbreviation Err :: "go_error \<Rightarrow> 'a result" where "Err e \<equiv> Inl e"
abbreviation Ok :: "'a \<Rightarrow> 'a result" where "Ok x \<equiv> Inr x"

section \<open>Effectful code\<close>

type_synonym ('w, 'a) io = "('w, 'a) state"

abbreviation ret :: "'a \<Rightarrow> ('w, 'a) io" where "ret x \<equiv> State_Monad.return x"

text \<open>
  \<open>try\<close> is Go's \<^verbatim>\<open>x, err := f(); if err != nil { return ..., err }\<close>: it stops at an
  error and hands it on unchanged.
\<close>

definition try_bind :: "('w, 'a result) io \<Rightarrow> ('a \<Rightarrow> ('w, 'b result) io) \<Rightarrow> ('w, 'b result) io" where
  "try_bind m k = do { r \<leftarrow> m; case r of Inl e \<Rightarrow> ret (Inl e) | Inr x \<Rightarrow> k x }"

lemma run_try_bind [simp]:
  "run_state (try_bind m k) w =
     (case run_state m w of
        (Inl e, w') \<Rightarrow> (Inl e, w')
      | (Inr x, w') \<Rightarrow> run_state (k x) w')"
  by (simp add: try_bind_def split: prod.splits sum.splits)

text \<open>Taking a run apart: the elimination rules the proofs about effectful code use.\<close>

lemma run_bindE:
  assumes "run_state (State_Monad.bind m k) w = (y, w')"
  obtains x w1 where "run_state m w = (x, w1)" and "run_state (k x) w1 = (y, w')"
  using assms by (cases "run_state m w") auto

lemma run_try_OkE:
  assumes "run_state (try_bind m k) w = (Inr y, w')"
  obtains x w1 where "run_state m w = (Inr x, w1)" and "run_state (k x) w1 = (Inr y, w')"
  using assms by (auto split: prod.splits sum.splits)

lemma run_try_ErrE:
  assumes "run_state (try_bind m k) w = (Inl e, w')"
  obtains "run_state m w = (Inl e, w')"
    | x w1 where "run_state m w = (Inr x, w1)" and "run_state (k x) w1 = (Inl e, w')"
  using assms by (auto split: prod.splits sum.splits)

text \<open>For the concrete runs: a pair from its first component, and a statement over a pair.\<close>

lemma run_eqI: "fst x = r \<Longrightarrow> x = (r, snd x)"
  by auto

lemma let_pairI: "x = (r, w) \<Longrightarrow> P r w \<Longrightarrow> (let (r', w') = x in P r' w')"
  by simp

text \<open>A call that keeps a property of the world whatever it answers, and sequences of such calls.\<close>

definition keeps :: "('w \<Rightarrow> 'w \<Rightarrow> bool) \<Rightarrow> ('w, 'a) io \<Rightarrow> bool" where
  "keeps R m \<longleftrightarrow> (\<forall>w x w'. run_state m w = (x, w') \<longrightarrow> R w w')"

named_theorems keeps_rules \<open>calls and combinators that keep a relation between worlds\<close>

lemma keepsD: "keeps R m \<Longrightarrow> run_state m w = (x, w') \<Longrightarrow> R w w'"
  by (auto simp: keeps_def)

lemma keepsI: "(\<And>w x w'. run_state m w = (x, w') \<Longrightarrow> R w w') \<Longrightarrow> keeps R m"
  by (auto simp: keeps_def)

lemma keeps_ret: "reflp R \<Longrightarrow> keeps R (ret x)"
  by (auto simp: keeps_def reflp_def)

lemma keeps_bind:
  "transp R \<Longrightarrow> keeps R m \<Longrightarrow> (\<And>x. keeps R (k x)) \<Longrightarrow> keeps R (State_Monad.bind m k)"
  by (intro keepsI) (metis keepsD run_bindE transpE)

lemma keeps_try:
  assumes "transp R" and "reflp R" and "keeps R m" and "\<And>x. keeps R (k x)"
  shows "keeps R (try_bind m k)"
  unfolding try_bind_def
  using assms by (intro keeps_bind) (auto split: sum.split intro: keeps_ret)

text \<open>A \<^verbatim>\<open>for\<close> loop over a slice whose body has effects and an accumulator.\<close>

fun for_each :: "'x list \<Rightarrow> ('x \<Rightarrow> 'a \<Rightarrow> ('w, 'a) io) \<Rightarrow> 'a \<Rightarrow> ('w, 'a) io" where
  "for_each [] body a = ret a"
| "for_each (x # xs) body a = do { a' \<leftarrow> body x a; for_each xs body a' }"

text \<open>The same loop where the body may return out of the function with an error.\<close>

fun for_each_try :: "'x list \<Rightarrow> ('x \<Rightarrow> ('w, unit result) io) \<Rightarrow> ('w, unit result) io" where
  "for_each_try [] body = ret (Inr ())"
| "for_each_try (x # xs) body = try_bind (body x) (\<lambda>_. for_each_try xs body)"

lemma for_each_invariant:
  assumes "\<And>x a w a' w'. x \<in> set xs \<Longrightarrow> I a w \<Longrightarrow> run_state (body x a) w = (a', w') \<Longrightarrow> I a' w'"
    and "I a w" and "run_state (for_each xs body a) w = (a', w')"
  shows "I a' w'"
  using assms
proof (induction xs arbitrary: a w)
  case Nil
  then show ?case by simp
next
  case (Cons x xs)
  obtain a1 w1 where s: "run_state (body x a) w = (a1, w1)" by (cases "run_state (body x a) w")
  have "I a1 w1" using Cons.prems(1)[OF _ Cons.prems(2) s] by simp
  moreover have "run_state (for_each xs body a1) w1 = (a', w')" using Cons.prems(3) s by simp
  ultimately show ?case using Cons.IH Cons.prems(1) by (meson list.set_intros(2))
qed

lemma for_each_try_invariant:
  assumes "\<And>x w r w'. x \<in> set xs \<Longrightarrow> I w \<Longrightarrow> run_state (body x) w = (r, w') \<Longrightarrow> I w'"
    and "I w" and "run_state (for_each_try xs body) w = (r, w')"
  shows "I w'"
  using assms
proof (induction xs arbitrary: w)
  case Nil
  then show ?case by simp
next
  case (Cons x xs)
  obtain r1 w1 where s: "run_state (body x) w = (r1, w1)" by (cases "run_state (body x) w")
  have i1: "I w1" using Cons.prems(1)[OF _ Cons.prems(2) s] by simp
  show ?case
  proof (cases r1)
    case (Inl e)
    then show ?thesis using Cons.prems(3) s i1 by simp
  next
    case (Inr u)
    then have "run_state (for_each_try xs body) w1 = (r, w')" using Cons.prems(3) s by simp
    then show ?thesis using Cons.IH[OF _ i1] Cons.prems(1) by (meson list.set_intros(2))
  qed
qed

section \<open>Maps and panics\<close>

text \<open>A Go map is an association list with distinct keys; storing under a key replaces its value.\<close>

type_synonym ('k, 'v) gomap = "('k \<times> 'v) list"

fun map_put :: "'k \<Rightarrow> 'v \<Rightarrow> ('k, 'v) gomap \<Rightarrow> ('k, 'v) gomap" where
  "map_put k v [] = [(k, v)]"
| "map_put k v ((k', v') # m) = (if k' = k then (k, v) # m else (k', v') # map_put k v m)"

text \<open>A call that may end in a Go panic.\<close>

datatype 'a go = Panic | Return 'a

section \<open>Package strings\<close>

definition is_space :: "char \<Rightarrow> bool" where
  "is_space c \<longleftrightarrow> c \<in> {CHR 0x09, CHR 0x0A, CHR 0x0B, CHR 0x0C, CHR 0x0D, CHR '' ''}"

definition is_upper :: "char \<Rightarrow> bool" where "is_upper c \<longleftrightarrow> CHR ''A'' \<le> c \<and> c \<le> CHR ''Z''"
definition is_lower :: "char \<Rightarrow> bool" where "is_lower c \<longleftrightarrow> CHR ''a'' \<le> c \<and> c \<le> CHR ''z''"
definition is_digit :: "char \<Rightarrow> bool" where "is_digit c \<longleftrightarrow> CHR ''0'' \<le> c \<and> c \<le> CHR ''9''"

definition lower_char :: "char \<Rightarrow> char" where
  "lower_char c = (if is_upper c then char_of (of_char c + (32::nat)) else c)"

text \<open>\<^verbatim>\<open>strings.ToLower\<close>, \<^verbatim>\<open>strings.EqualFold\<close>, \<^verbatim>\<open>strings.TrimSpace\<close>, \<^verbatim>\<open>strings.Trim\<close>.\<close>

definition to_lower :: "string \<Rightarrow> string" where "to_lower s = map lower_char s"

definition equal_fold :: "string \<Rightarrow> string \<Rightarrow> bool" where
  "equal_fold s t \<longleftrightarrow> to_lower s = to_lower t"

definition trim_by :: "(char \<Rightarrow> bool) \<Rightarrow> string \<Rightarrow> string" where
  "trim_by P s = rev (dropWhile P (rev (dropWhile P s)))"

definition trim_space :: "string \<Rightarrow> string" where "trim_space s = trim_by is_space s"

definition trim :: "string \<Rightarrow> string \<Rightarrow> string" where
  "trim s cutset = trim_by (\<lambda>c. c \<in> set cutset) s"

definition trim_right :: "string \<Rightarrow> string \<Rightarrow> string" where
  "trim_right s cutset = rev (dropWhile (\<lambda>c. c \<in> set cutset) (rev s))"

definition has_prefix :: "string \<Rightarrow> string \<Rightarrow> bool" where
  "has_prefix s p \<longleftrightarrow> take (length p) s = p"

definition has_suffix :: "string \<Rightarrow> string \<Rightarrow> bool" where
  "has_suffix s p \<longleftrightarrow> has_prefix (rev s) (rev p)"

definition trim_prefix :: "string \<Rightarrow> string \<Rightarrow> string" where
  "trim_prefix s p = (if has_prefix s p then drop (length p) s else s)"

definition trim_suffix :: "string \<Rightarrow> string \<Rightarrow> string" where
  "trim_suffix s p = (if has_suffix s p then take (length s - length p) s else s)"

fun contains :: "string \<Rightarrow> string \<Rightarrow> bool" where
  "contains [] sub = (sub = [])"
| "contains (c # s) sub = (has_prefix (c # s) sub \<or> contains s sub)"

text \<open>\<^verbatim>\<open>strings.Split\<close> with a separator of one byte, and with a longer one.\<close>

fun split_char :: "char \<Rightarrow> string \<Rightarrow> string list" where
  "split_char d [] = [[]]"
| "split_char d (c # s) =
     (if c = d then [] # split_char d s
      else case split_char d s of [] \<Rightarrow> [[c]] | w # ws \<Rightarrow> (c # w) # ws)"

function split_str :: "string \<Rightarrow> string \<Rightarrow> string \<Rightarrow> string list" where
  "split_str sep acc s =
     (if sep \<noteq> [] \<and> s \<noteq> [] \<and> has_prefix s sep
      then rev acc # split_str sep [] (drop (length sep) s)
      else case s of [] \<Rightarrow> [rev acc] | c # cs \<Rightarrow> split_str sep (c # acc) cs)"
  by pat_completeness auto
termination
  by (relation "measure (\<lambda>(sep, acc, s). length s)") auto

declare split_str.simps [simp del]

definition split :: "string \<Rightarrow> string \<Rightarrow> string list" where
  "split s sep = split_str sep [] s"

text \<open>\<^verbatim>\<open>strings.Fields\<close> and \<^verbatim>\<open>strings.Join\<close>.\<close>

fun fields_aux :: "string \<Rightarrow> string \<Rightarrow> string list" where
  "fields_aux acc [] = (if acc = [] then [] else [rev acc])"
| "fields_aux acc (c # s) =
     (if is_space c then (if acc = [] then fields_aux [] s else rev acc # fields_aux [] s)
      else fields_aux (c # acc) s)"

definition fields :: "string \<Rightarrow> string list" where "fields s = fields_aux [] s"

fun join :: "string list \<Rightarrow> string \<Rightarrow> string" where
  "join [] sep = []"
| "join [w] sep = w"
| "join (w # v # ws) sep = w @ sep @ join (v # ws) sep"

section \<open>Package strconv\<close>

definition digit_val :: "char \<Rightarrow> nat" where "digit_val c = of_char c - 48"

definition digits_val :: "string \<Rightarrow> nat" where
  "digits_val s = foldl (\<lambda>n c. 10 * n + digit_val c) 0 s"

text \<open>
  \<^verbatim>\<open>strconv.Atoi\<close>: an optional sign and at least one digit, and the value must fit the
  64 bits of an \<^verbatim>\<open>int\<close>; \<open>None\<close> is Go's error.
\<close>

definition atoi :: "string \<Rightarrow> int option" where
  "atoi s =
     (let neg = (s \<noteq> [] \<and> hd s = CHR ''-'');
          ds = (if s \<noteq> [] \<and> hd s \<in> {CHR ''-'', CHR ''+''} then tl s else s);
          v = (if neg then - int (digits_val ds) else int (digits_val ds))
      in if ds \<noteq> [] \<and> list_all is_digit ds \<and> - (2 ^ 63) \<le> v \<and> v < 2 ^ 63 then Some v else None)"

fun nat_digits :: "nat \<Rightarrow> string" where
  "nat_digits n = (if n < 10 then [char_of (48 + n)] else nat_digits (n div 10) @ [char_of (48 + n mod 10)])"

declare nat_digits.simps [simp del]

definition itoa :: "int \<Rightarrow> string" where
  "itoa i = (if i < 0 then CHR ''-'' # nat_digits (nat (- i)) else nat_digits (nat i))"

text \<open>\<^verbatim>\<open>%q\<close> (\<^verbatim>\<open>strconv.Quote\<close>) on ASCII text.\<close>

definition hex_digit :: "nat \<Rightarrow> char" where
  "hex_digit n = (if n < 10 then char_of (48 + n) else char_of (87 + n))"

definition quote_char :: "char \<Rightarrow> string" where
  "quote_char c =
     (if c = CHR 0x22 then [CHR 0x5C, CHR 0x22]
      else if c = CHR 0x5C then [CHR 0x5C, CHR 0x5C]
      else if c = CHR 0x07 then [CHR 0x5C, CHR ''a'']
      else if c = CHR 0x08 then [CHR 0x5C, CHR ''b'']
      else if c = CHR 0x0C then [CHR 0x5C, CHR ''f'']
      else if c = CHR 0x0A then [CHR 0x5C, CHR ''n'']
      else if c = CHR 0x0D then [CHR 0x5C, CHR ''r'']
      else if c = CHR 0x09 then [CHR 0x5C, CHR ''t'']
      else if c = CHR 0x0B then [CHR 0x5C, CHR ''v'']
      else if of_char c < (32::nat) \<or> c = CHR 0x7F
        then [CHR 0x5C, CHR ''x'', hex_digit (of_char c div 16), hex_digit (of_char c mod 16)]
      else [c])"

definition quote :: "string \<Rightarrow> string" where
  "quote s = [CHR 0x22] @ concat (map quote_char s) @ [CHR 0x22]"

section \<open>Laws of the string functions\<close>

lemma lower_char_idem [simp]: "lower_char (lower_char c) = lower_char c"
proof -
  have "\<not> is_upper (char_of (of_char c + (32::nat)))" if "is_upper c"
  proof -
    have "of_char c + (32::nat) \<le> 122" "97 \<le> of_char c + (32::nat)"
      using that by (auto simp: is_upper_def less_eq_char_def)
    then show ?thesis by (simp add: is_upper_def less_eq_char_def)
  qed
  then show ?thesis by (simp add: lower_char_def)
qed

lemma to_lower_idem [simp]: "to_lower (to_lower s) = to_lower s"
  by (simp add: to_lower_def)

lemma to_lower_Nil_iff [simp]: "to_lower s = [] \<longleftrightarrow> s = []" "to_lower [] = []"
  by (simp_all add: to_lower_def)

lemma length_to_lower [simp]: "length (to_lower s) = length s"
  by (simp add: to_lower_def)

lemma equal_fold_refl [simp]: "equal_fold s s"
  by (simp add: equal_fold_def)

lemma equal_fold_to_lower [simp]:
  "equal_fold (to_lower s) t = equal_fold s t" "equal_fold s (to_lower t) = equal_fold s t"
  by (simp_all add: equal_fold_def)

lemma dropWhile_hd: "dropWhile P s \<noteq> [] \<Longrightarrow> \<not> P (hd (dropWhile P s))"
  by (induction s) auto

lemma trim_by_Nil [simp]: "trim_by P [] = []"
  by (simp add: trim_by_def)

lemma set_trim_by: "set (trim_by P s) \<subseteq> set s"
  by (auto simp: trim_by_def dest!: set_dropWhileD)

lemma trim_by_ends:
  assumes "trim_by P s \<noteq> []"
  shows "\<not> P (hd (trim_by P s))" "\<not> P (last (trim_by P s))"
proof -
  let ?d = "dropWhile P s" and ?e = "dropWhile P (rev (dropWhile P s))"
  have e: "?e \<noteq> []" using assms by (simp add: trim_by_def)
  then show "\<not> P (last (trim_by P s))"
    by (simp add: trim_by_def last_rev dropWhile_hd)
  have "?d \<noteq> []"
  proof
    assume "?d = []"
    with e show False by simp
  qed
  moreover have "last ?e = hd ?d"
  proof -
    obtain ys where "rev ?d = ys @ ?e" by (metis takeWhile_dropWhile_id)
    then show ?thesis using e by (metis hd_rev last_appendR rev_rev_ident)
  qed
  ultimately show "\<not> P (hd (trim_by P s))"
    using e by (simp add: trim_by_def hd_rev dropWhile_hd)
qed

lemma trim_by_id:
  assumes "s \<noteq> [] \<Longrightarrow> \<not> P (hd s) \<and> \<not> P (last s)"
  shows "trim_by P s = s"
proof (cases "s = []")
  case False
  then have "dropWhile P s = s" "dropWhile P (rev s) = rev s"
    using assms by (auto intro!: dropWhile_eq_self_iff[THEN iffD2] simp: hd_rev)
  then show ?thesis by (simp add: trim_by_def)
qed simp

lemma trim_by_idem [simp]: "trim_by P (trim_by P s) = trim_by P s"
  by (rule trim_by_id) (simp add: trim_by_ends)

lemma trim_space_idem [simp]: "trim_space (trim_space s) = trim_space s"
  by (simp add: trim_space_def)

lemma trim_space_Nil [simp]: "trim_space [] = []"
  by (simp add: trim_space_def)

lemma is_space_lower [simp]: "is_space (lower_char c) = is_space c"
proof (cases "is_upper c")
  case True
  have "65 \<le> (of_char c :: nat)" "65 \<le> (of_char (lower_char c) :: nat)"
  proof -
    show "65 \<le> (of_char c :: nat)" using True by (simp add: is_upper_def less_eq_char_def)
    moreover have "(of_char c :: nat) + 32 < 256"
      using True by (simp add: is_upper_def less_eq_char_def)
    ultimately show "65 \<le> (of_char (lower_char c) :: nat)" using True by (simp add: lower_char_def)
  qed
  then have "\<not> is_space c" "\<not> is_space (lower_char c)" by (auto simp: is_space_def)
  then show ?thesis by simp
qed (simp add: lower_char_def)

lemma trim_space_to_lower: "trim_space (to_lower s) = to_lower (trim_space s)"
  by (simp add: trim_space_def trim_by_def to_lower_def dropWhile_map comp_def rev_map)

lemma has_prefix_Nil [simp]: "has_prefix s []"
  by (simp add: has_prefix_def)

lemma has_prefix_append [simp]: "has_prefix (p @ s) p"
  by (simp add: has_prefix_def)

lemma has_prefix_split: "has_prefix s p \<Longrightarrow> s = p @ drop (length p) s"
  by (metis append_take_drop_id has_prefix_def)

lemma trim_prefix_append [simp]: "trim_prefix (p @ s) p = s"
  by (simp add: trim_prefix_def)

lemma contains_iff: "contains s sub \<longleftrightarrow> (\<exists>us vs. s = us @ sub @ vs)"
proof (induction s)
  case (Cons c s)
  show ?case
  proof
    assume "contains (c # s) sub"
    then consider "has_prefix (c # s) sub" | "contains s sub" by auto
    then show "\<exists>us vs. c # s = us @ sub @ vs"
    proof cases
      case 1
      then show ?thesis using has_prefix_split by (metis append_Nil)
    next
      case 2
      then show ?thesis using Cons.IH by (metis append_Cons)
    qed
  next
    assume "\<exists>us vs. c # s = us @ sub @ vs"
    then obtain us vs where e: "c # s = us @ sub @ vs" by blast
    show "contains (c # s) sub"
    proof (cases us)
      case Nil
      with e have "has_prefix (c # s) sub" by (metis append_Nil has_prefix_append)
      then show ?thesis by simp
    next
      case (Cons u us')
      then show ?thesis using e Cons.IH by auto
    qed
  qed
qed auto

lemma split_char_neq_Nil [simp]: "split_char d s \<noteq> []"
  by (induction s) (auto split: list.splits)

lemma join_split_char: "join (split_char d s) [d] = s"
proof (induction s)
  case (Cons c s)
  obtain w ws where "split_char d s = w # ws" by (meson neq_Nil_conv split_char_neq_Nil)
  with Cons show ?case by (cases ws) auto
qed simp

lemma split_char_no_sep: "w \<in> set (split_char d s) \<Longrightarrow> d \<notin> set w"
  by (induction s arbitrary: w) (auto split: list.splits if_splits)

lemma split_char_single: "d \<notin> set s \<Longrightarrow> split_char d s = [s]"
  by (induction s) auto

lemma split_char_append: "d \<notin> set w \<Longrightarrow> split_char d (w @ d # s) = w # split_char d s"
  by (induction w) auto

lemma split_char_join:
  "ws \<noteq> [] \<Longrightarrow> (\<And>w. w \<in> set ws \<Longrightarrow> d \<notin> set w) \<Longrightarrow> split_char d (join ws [d]) = ws"
proof (induction ws)
  case (Cons w ws)
  then show ?case by (cases ws) (auto simp: split_char_single split_char_append)
qed simp

lemma split_str_neq_Nil [simp]: "split_str sep acc s \<noteq> []"
  by (induction sep acc s rule: split_str.induct) (subst split_str.simps, auto split: list.splits)

lemma split_str_none:
  "\<not> contains s sep \<Longrightarrow> sep \<noteq> [] \<Longrightarrow> split_str sep acc s = [rev acc @ s]"
proof (induction s arbitrary: acc)
  case Nil
  then show ?case by (subst split_str.simps) simp
next
  case (Cons c s)
  then show ?case by (subst split_str.simps) simp
qed

lemma split_str_first:
  assumes "sep \<noteq> []" and "\<And>us vs. p @ sep = us @ sep @ vs \<Longrightarrow> vs = []"
  shows "split_str sep acc (p @ sep @ s) = (rev acc @ p) # split_str sep [] s"
  using assms(2)
proof (induction p arbitrary: acc)
  case Nil
  show ?case using assms(1) by (subst split_str.simps) simp
next
  case (Cons c p)
  have np: "\<not> has_prefix (c # p @ sep @ s) sep"
  proof
    assume "has_prefix (c # p @ sep @ s) sep"
    then have "take (length sep) ((c # p @ sep) @ s) = sep" by (simp add: has_prefix_def)
    then have "take (length sep) (c # p @ sep) = sep" by (subst (asm) take_append) simp
    then have "(c # p) @ sep = [] @ sep @ drop (length sep) (c # p @ sep)"
      by (metis append_Cons append_Nil append_take_drop_id)
    then have "drop (length sep) (c # p @ sep) = []" by (rule Cons.prems)
    then show False by simp
  qed
  have "split_str sep (c # acc) (p @ sep @ s) = (rev (c # acc) @ p) # split_str sep [] s"
    using Cons.prems by (intro Cons.IH) (metis append_Cons)
  then show ?case using np by (subst split_str.simps) simp
qed

section \<open>Lists\<close>

lemma find_SomeD: "find P xs = Some x \<Longrightarrow> x \<in> set xs \<and> P x"
  by (auto simp: find_Some_iff)

section \<open>Decimal numbers: printing and parsing\<close>

lemma digits_val_snoc: "digits_val (s @ [c]) = 10 * digits_val s + digit_val c"
  by (simp add: digits_val_def)

lemma digit_char: "n < 10 \<Longrightarrow> is_digit (char_of (48 + n :: nat)) \<and> digit_val (char_of (48 + n)) = n"
  by (simp add: is_digit_def digit_val_def less_eq_char_def)

lemma nat_digits_ok: "list_all is_digit (nat_digits n) \<and> nat_digits n \<noteq> [] \<and> digits_val (nat_digits n) = n"
proof (induction n rule: nat_digits.induct)
  case (1 n)
  show ?case
  proof (cases "n < 10")
    case True
    then show ?thesis using digit_char[OF True]
      by (subst (1 2 3) nat_digits.simps) (simp add: digits_val_def)
  next
    case False
    have d: "n mod 10 < 10" by simp
    show ?thesis using 1 False digit_char[OF d]
      by (subst (1 2 3) nat_digits.simps) (simp add: digits_val_snoc)
  qed
qed

lemma nat_digits_hd: "is_digit (hd (nat_digits n))"
  using nat_digits_ok[of n] by (cases "nat_digits n") auto

lemma not_digit_sign: "\<not> is_digit (CHR ''-'')" "\<not> is_digit (CHR ''+'')"
  by (simp_all add: is_digit_def less_eq_char_def)

lemma atoi_itoa: "- (2 ^ 63) \<le> i \<Longrightarrow> i < 2 ^ 63 \<Longrightarrow> atoi (itoa i) = Some i"
  using nat_digits_ok[of "nat i"] nat_digits_ok[of "nat (- i)"] nat_digits_hd[of "nat i"] not_digit_sign
  by (auto simp: atoi_def itoa_def Let_def)

lemma nat_digits_inj: "nat_digits m = nat_digits n \<Longrightarrow> m = n"
  by (metis nat_digits_ok)

lemma itoa_inj: "itoa i = itoa j \<Longrightarrow> i = j"
proof -
  assume e: "itoa i = itoa j"
  have neq: "CHR ''-'' # s \<noteq> nat_digits n" for s n
    using nat_digits_hd[of n] not_digit_sign by (metis list.sel(1))
  show "i = j"
  proof (cases "i < 0"; cases "j < 0")
    assume "i < 0" "j < 0"
    with e have "nat (- i) = nat (- j)" by (intro nat_digits_inj) (simp add: itoa_def)
    with \<open>i < 0\<close> \<open>j < 0\<close> show ?thesis by simp
  next
    assume "\<not> i < 0" "\<not> j < 0"
    with e have "nat i = nat j" by (intro nat_digits_inj) (simp add: itoa_def)
    with \<open>\<not> i < 0\<close> \<open>\<not> j < 0\<close> show ?thesis by simp
  qed (use e neq in \<open>auto simp: itoa_def dest: sym\<close>)
qed

end
