(* ===== verification/Model_Types.thy ===== *)
theory Model_Types
  imports Go_Base
begin

text \<open>
  The data model of \<^verbatim>\<open>model/main.go\<close>: the row types of the database, the string
  enumerations \<^verbatim>\<open>MaintainerStatus\<close> and \<^verbatim>\<open>Maturity\<close> with their \<^verbatim>\<open>IsValid\<close>, \<^verbatim>\<open>Scan\<close> and
  \<^verbatim>\<open>Value\<close> methods.  A record holds the columns of a table; the fields gorm fills from
  other tables (\<^verbatim>\<open>Company\<close>, \<^verbatim>\<open>Projects\<close>, \<^verbatim>\<open>Maintainers\<close>, \<^verbatim>\<open>Services\<close>, \<^verbatim>\<open>Staff\<close>) are in record
  extensions, used where the code preloads them.  Ids (\<^verbatim>\<open>uint\<close>) are \<open>nat\<close>, a pointer is an
  \<open>option\<close>, an instant is an \<open>int\<close> number of nanoseconds.
\<close>

section \<open>String enumerations\<close>

type_synonym maintainer_status = string
type_synonym maturity = string

abbreviation ActiveMaintainer :: maintainer_status where "ActiveMaintainer \<equiv> ''Active''"
abbreviation EmeritusMaintainer :: maintainer_status where "EmeritusMaintainer \<equiv> ''Emeritus''"
abbreviation RetiredMaintainer :: maintainer_status where "RetiredMaintainer \<equiv> ''Retired''"
abbreviation ArchivedMaintainer :: maintainer_status where "ArchivedMaintainer \<equiv> ''Archived''"

definition status_is_valid :: "maintainer_status \<Rightarrow> bool" where
  "status_is_valid s \<longleftrightarrow>
     s \<in> {ActiveMaintainer, EmeritusMaintainer, RetiredMaintainer, ArchivedMaintainer}"

text \<open>What a database driver hands to \<^verbatim>\<open>Scan\<close>: a string, or a value of another Go type.\<close>

datatype driver_value = DString string | DOther string

fun status_scan :: "driver_value \<Rightarrow> maintainer_status result" where
  "status_scan (DString v) = Ok v"
| "status_scan (DOther ty) = Err (Msg (''cannot scan '' @ ty @ '' into MaintainerStatus''))"

definition status_value :: "maintainer_status \<Rightarrow> driver_value result" where
  "status_value s =
     (if \<not> status_is_valid s then Err (Msg (''invalid MaintainerStatus '' @ quote s)) else Ok (DString s))"

abbreviation Sandbox :: maturity where "Sandbox \<equiv> ''Sandbox''"
abbreviation Incubating :: maturity where "Incubating \<equiv> ''Incubating''"
abbreviation Graduated :: maturity where "Graduated \<equiv> ''Graduated''"
abbreviation Archived :: maturity where "Archived \<equiv> ''Archived''"

definition maturity_is_valid :: "maturity \<Rightarrow> bool" where
  "maturity_is_valid m \<longleftrightarrow> m \<in> {Sandbox, Incubating, Graduated, Archived}"

fun maturity_scan :: "driver_value \<Rightarrow> maturity result" where
  "maturity_scan (DString v) = Ok v"
| "maturity_scan (DOther ty) = Err (Msg (''cannot scan '' @ ty @ '' into Maturity''))"

definition maturity_value :: "maturity \<Rightarrow> driver_value result" where
  "maturity_value m =
     (if \<not> maturity_is_valid m then Err (Msg (''invalid Maturity '' @ quote m)) else Ok (DString m))"

section \<open>Rows\<close>

abbreviation EMAIL_MISSING :: string where "EMAIL_MISSING \<equiv> ''EMAIL_MISSING''"
abbreviation GITHUB_MISSING :: string where "GITHUB_MISSING \<equiv> ''GITHUB_MISSING''"
abbreviation GITHUB_EMAIL_MISSING :: string where "GITHUB_EMAIL_MISSING \<equiv> ''GITHUB_EMAIL_MISSING''"
abbreviation MML_MISSING :: string where "MML_MISSING \<equiv> ''MML_MISSING''"

text \<open>The embedded \<^verbatim>\<open>gorm.Model\<close>: primary key and times, a deletion time for a soft delete.\<close>

record gorm_model =
  row_id :: nat
  created_at :: int
  updated_at :: int
  deleted_at :: "int option"

record company = gorm_model +
  co_name :: string

record project = gorm_model +
  pr_name :: string
  pr_parent_id :: "nat option"
  pr_maturity :: maturity
  pr_github_org :: string
  pr_legacy_ref :: string
  pr_dot_project_ref :: string
  pr_onboarding_issue :: "string option"
  pr_mailing_list :: "string option"

record maintainer = gorm_model +
  mt_name :: string
  mt_email :: string
  mt_github :: string
  mt_github_email :: string
  mt_status :: maintainer_status
  mt_import_warnings :: string
  mt_registered_at :: "int option"
  mt_company_id :: "nat option"

record maintainer_project =
  mp_maintainer_id :: nat
  mp_project_id :: nat

record foundation = gorm_model +
  fo_name :: string

record staff_member = gorm_model +
  sm_name :: string
  sm_email :: string
  sm_github :: string
  sm_github_email :: string
  sm_registered_at :: "int option"
  sm_foundation_id :: "nat option"

record service = gorm_model +
  sv_name :: string
  sv_description :: string

record service_team = gorm_model +
  st_project_id :: nat
  st_service_id :: nat
  st_service_team_id :: int
  st_service_team_name :: "string option"
  st_project_name :: "string option"

record service_user = gorm_model +
  su_service_id :: nat
  su_service_user_id :: int
  su_email :: string
  su_ref :: string
  su_github_name :: "string option"

record service_user_teams = gorm_model +
  ut_service_id :: nat
  ut_service_user_id :: int
  ut_service_team_id :: nat
  ut_maintainer_id :: "nat option"
  ut_collaborator_id :: "nat option"

record collaborator = gorm_model +
  cb_name :: string
  cb_email :: string
  cb_github_email :: "string option"
  cb_github :: "string option"
  cb_last_login :: int
  cb_registered_at :: int

record maintainer_ref_cache =
  rc_project_id :: nat
  rc_etag :: string
  rc_last_modified :: "int option"
  rc_body_hash :: string
  rc_last_checked :: "int option"

record audit_log = gorm_model +
  al_project_id :: "nat option"
  al_maintainer_id :: "nat option"
  al_service_id :: "nat option"
  al_staff_id :: "nat option"
  al_action :: string
  al_message :: string
  al_metadata :: string

text \<open>
  Two tables the programs migrate or declare and never fill: their many-to-many relations are tables of
  their own and no columns.
\<close>

record foundation_officer = gorm_model +
  fo_officer_name :: string
  fo_officer_email :: string
  fo_officer_github :: string
  fo_registered_at :: "int option"
  fo_company_id :: "nat option"

record reconciliation_result = gorm_model +
  re_service :: service
  re_project_id :: "nat option"
  re_missing_maintainer_ids :: "nat option list"

text \<open>The Go values with associations loaded.\<close>

record loaded_maintainer = maintainer +
  mt_company :: company

record maintainer_details = loaded_maintainer +
  mt_projects :: "project list"

record loaded_project = project +
  pr_maintainers :: "loaded_maintainer list"
  pr_services :: "service list"

record project_info =
  pj_project :: project
  pj_maintainers :: "maintainer list"
  pj_services :: "service list"

text \<open>Zero values, as \<^verbatim>\<open>var x model.T\<close> gives them.\<close>

definition zero_company :: company where
  "zero_company = \<lparr>row_id = 0, created_at = 0, updated_at = 0, deleted_at = None, co_name = []\<rparr>"

definition zero_maintainer :: maintainer where
  "zero_maintainer =
     \<lparr>row_id = 0, created_at = 0, updated_at = 0, deleted_at = None,
      mt_name = [], mt_email = [], mt_github = [], mt_github_email = [], mt_status = [],
      mt_import_warnings = [], mt_registered_at = None, mt_company_id = None\<rparr>"

definition zero_audit_log :: audit_log where
  "zero_audit_log =
     \<lparr>row_id = 0, created_at = 0, updated_at = 0, deleted_at = None,
      al_project_id = None, al_maintainer_id = None, al_service_id = None, al_staff_id = None,
      al_action = [], al_message = [], al_metadata = []\<rparr>"

definition zero_service_team :: service_team where
  "zero_service_team =
     \<lparr>row_id = 0, created_at = 0, updated_at = 0, deleted_at = None,
      st_project_id = 0, st_service_id = 0, st_service_team_id = 0,
      st_service_team_name = None, st_project_name = None\<rparr>"

definition zero_project :: project where
  "zero_project =
     \<lparr>row_id = 0, created_at = 0, updated_at = 0, deleted_at = None,
      pr_name = [], pr_parent_id = None, pr_maturity = [], pr_github_org = [], pr_legacy_ref = [],
      pr_dot_project_ref = [], pr_onboarding_issue = None, pr_mailing_list = None\<rparr>"

definition zero_foundation :: foundation where
  "zero_foundation = \<lparr>row_id = 0, created_at = 0, updated_at = 0, deleted_at = None, fo_name = []\<rparr>"

definition zero_service :: service where
  "zero_service =
     \<lparr>row_id = 0, created_at = 0, updated_at = 0, deleted_at = None, sv_name = [], sv_description = []\<rparr>"

definition zero_staff_member :: staff_member where
  "zero_staff_member =
     \<lparr>row_id = 0, created_at = 0, updated_at = 0, deleted_at = None, sm_name = [], sm_email = [],
      sm_github = [], sm_github_email = [], sm_registered_at = None, sm_foundation_id = None\<rparr>"

definition zero_service_user :: service_user where
  "zero_service_user =
     \<lparr>row_id = 0, created_at = 0, updated_at = 0, deleted_at = None, su_service_id = 0,
      su_service_user_id = 0, su_email = [], su_ref = [], su_github_name = None\<rparr>"

definition zero_service_user_teams :: service_user_teams where
  "zero_service_user_teams =
     \<lparr>row_id = 0, created_at = 0, updated_at = 0, deleted_at = None, ut_service_id = 0,
      ut_service_user_id = 0, ut_service_team_id = 0, ut_maintainer_id = None, ut_collaborator_id = None\<rparr>"

definition zero_collaborator :: collaborator where
  "zero_collaborator =
     \<lparr>row_id = 0, created_at = 0, updated_at = 0, deleted_at = None, cb_name = [], cb_email = [],
      cb_github_email = None, cb_github = None, cb_last_login = 0, cb_registered_at = 0\<rparr>"

text \<open>
  The \<^verbatim>\<open>default:\<close> of the struct tags: gorm puts it in place of the zero value of a field
  when it creates a row.
\<close>

definition or_default :: "string \<Rightarrow> string \<Rightarrow> string" where
  "or_default d v = (if v = [] then d else v)"

definition project_defaults :: "project \<Rightarrow> project" where
  "project_defaults p =
     p\<lparr>pr_mailing_list := (case pr_mailing_list p of None \<Rightarrow> Some MML_MISSING | Some l \<Rightarrow> Some l)\<rparr>"

definition maintainer_defaults :: "maintainer \<Rightarrow> maintainer" where
  "maintainer_defaults m =
     m\<lparr>mt_email := or_default EMAIL_MISSING (mt_email m),
       mt_github := or_default GITHUB_MISSING (mt_github m),
       mt_github_email := or_default GITHUB_MISSING (mt_github_email m)\<rparr>"

definition staff_defaults :: "staff_member \<Rightarrow> staff_member" where
  "staff_defaults s =
     s\<lparr>sm_email := or_default EMAIL_MISSING (sm_email s),
       sm_github := or_default GITHUB_MISSING (sm_github s),
       sm_github_email := or_default GITHUB_EMAIL_MISSING (sm_github_email s)\<rparr>"

definition collaborator_defaults :: "collaborator \<Rightarrow> collaborator" where
  "collaborator_defaults c =
     c\<lparr>cb_email := or_default EMAIL_MISSING (cb_email c),
       cb_github_email := (case cb_github_email c of None \<Rightarrow> Some GITHUB_EMAIL_MISSING | Some e \<Rightarrow> Some e),
       cb_github := (case cb_github c of None \<Rightarrow> Some GITHUB_MISSING | Some h \<Rightarrow> Some h)\<rparr>"

definition service_user_defaults :: "service_user \<Rightarrow> service_user" where
  "service_user_defaults s = s\<lparr>su_email := or_default EMAIL_MISSING (su_email s)\<rparr>"

lemma project_defaults_simps [simp]:
  "row_id (project_defaults p) = row_id p" "pr_name (project_defaults p) = pr_name p"
  "pr_parent_id (project_defaults p) = pr_parent_id p" "pr_maturity (project_defaults p) = pr_maturity p"
  "pr_github_org (project_defaults p) = pr_github_org p" "pr_legacy_ref (project_defaults p) = pr_legacy_ref p"
  "pr_dot_project_ref (project_defaults p) = pr_dot_project_ref p"
  "pr_onboarding_issue (project_defaults p) = pr_onboarding_issue p"
  "deleted_at (project_defaults p) = deleted_at p"
  by (simp_all add: project_defaults_def)

section \<open>What the enumerations guarantee\<close>

lemma status_value_Ok_iff: "status_value s = Ok v \<longleftrightarrow> status_is_valid s \<and> v = DString s"
  by (auto simp: status_value_def)

lemma maturity_value_Ok_iff: "maturity_value m = Ok v \<longleftrightarrow> maturity_is_valid m \<and> v = DString m"
  by (auto simp: maturity_value_def)

lemma status_valid_constants [simp]:
  "status_is_valid ActiveMaintainer" "status_is_valid EmeritusMaintainer"
  "status_is_valid RetiredMaintainer" "status_is_valid ArchivedMaintainer" "\<not> status_is_valid []"
  by (simp_all add: status_is_valid_def)

text \<open>The database holds only valid values, and reading back what was written is the identity.\<close>

theorem status_value_scan_roundtrip:
  assumes "status_value s = Ok v"
  shows "status_scan v = Ok s \<and> status_is_valid s"
  using assms by (auto simp: status_value_Ok_iff)

theorem maturity_value_scan_roundtrip:
  assumes "maturity_value m = Ok v"
  shows "maturity_scan v = Ok m \<and> maturity_is_valid m"
  using assms by (auto simp: maturity_value_Ok_iff)

end
