(* ===== verification/Gorm_Iface.thy ===== *)
theory Gorm_Iface
  imports Model_Types "HOL-Library.Multiset"
begin

text \<open>
  The database as the program sees it through gorm.  gorm and the database server are not
  part of the repository, so their calls are the fields of a parameter \<open>G\<close> of type
  \<open>'w gorm\<close>: every call may fail, and may change the state \<open>'w\<close> of the outside world.
  What the program relies on is stated by two locales.  \<open>gorm_table\<close> is the contract of one
  table (the rows a query returns, what an insert, an update and a delete leave behind);
  \<open>gorm_db\<close> puts the tables together and adds transactions and the association loaders.
  A where clause is the HOL predicate it denotes.  The rows of a table are the rows queries
  can see: soft-deleted rows are not among them.
\<close>

section \<open>The calls\<close>

record ('w, 'r) table =
  t_first :: "('r \<Rightarrow> bool) \<Rightarrow> ('w, 'r result) io"
  t_newest :: "('r \<Rightarrow> bool) \<Rightarrow> ('w, 'r result) io"
  t_find :: "('r \<Rightarrow> bool) \<Rightarrow> ('w, 'r list result) io"
  t_count :: "('r \<Rightarrow> bool) \<Rightarrow> ('w, nat result) io"
  t_create :: "'r \<Rightarrow> ('w, 'r result) io"
  t_update :: "('r \<Rightarrow> bool) \<Rightarrow> ('r \<Rightarrow> 'r) \<Rightarrow> ('w, nat result) io"
  t_delete :: "('r \<Rightarrow> bool) \<Rightarrow> ('w, nat result) io"

record 'w gorm =
  companies :: "('w, company) table"
  projects :: "('w, project) table"
  maintainers :: "('w, maintainer) table"
  staff_members :: "('w, staff_member) table"
  foundations :: "('w, foundation) table"
  services :: "('w, service) table"
  service_teams :: "('w, service_team) table"
  audit_logs :: "('w, audit_log) table"
  service_users :: "('w, service_user) table"
  service_user_teams :: "('w, service_user_teams) table"
  collaborators :: "('w, collaborator) table"
  load_company :: "maintainer \<Rightarrow> ('w, company result) io"
  load_maintainers :: "nat \<Rightarrow> ('w, loaded_maintainer list result) io"
  load_projects :: "nat \<Rightarrow> ('w, project list result) io"
  load_services :: "nat \<Rightarrow> ('w, service list result) io"
  append_project :: "nat \<Rightarrow> nat \<Rightarrow> ('w, unit result) io"
  ref_cache_first :: "nat \<Rightarrow> ('w, maintainer_ref_cache result) io"
  ref_cache_save :: "maintainer_ref_cache \<Rightarrow> ('w, unit result) io"
  tx_begin :: "('w, unit result) io"
  tx_commit :: "('w, unit result) io"
  tx_rollback :: "('w, unit) io"
  ping_db :: "('w, unit result) io"

text \<open>
  \<^verbatim>\<open>FirstOrCreate\<close>: the first row the condition selects, or else a new row with the
  given initial values.
\<close>

definition first_or_create :: "('w, 'r) table \<Rightarrow> ('r \<Rightarrow> bool) \<Rightarrow> 'r \<Rightarrow> ('w, 'r result) io" where
  "first_or_create T p r =
     do { x \<leftarrow> t_first T p;
          case x of
            Inr y \<Rightarrow> ret (Inr y)
          | Inl e \<Rightarrow> if errors_is e ErrRecordNotFound then t_create T r else ret (Inl e) }"

section \<open>What the database holds\<close>

record tables =
  tb_companies :: "company list"
  tb_projects :: "project list"
  tb_maintainers :: "maintainer list"
  tb_maintainer_projects :: "maintainer_project list"
  tb_staff :: "staff_member list"
  tb_foundations :: "foundation list"
  tb_services :: "service list"
  tb_service_projects :: "(nat \<times> nat) list"
  tb_service_teams :: "service_team list"
  tb_ref_caches :: "maintainer_ref_cache list"
  tb_audit_logs :: "audit_log list"
  tb_service_users :: "service_user list"
  tb_service_user_teams :: "service_user_teams list"
  tb_collaborators :: "collaborator list"

text \<open>The current tables, and those at the start of the running transaction.\<close>

record db =
  cur :: tables
  saved :: tables

abbreviation put_companies :: "company list \<Rightarrow> db \<Rightarrow> db" where
  "put_companies rs d \<equiv> d\<lparr>cur := (cur d)\<lparr>tb_companies := rs\<rparr>\<rparr>"
abbreviation put_projects :: "project list \<Rightarrow> db \<Rightarrow> db" where
  "put_projects rs d \<equiv> d\<lparr>cur := (cur d)\<lparr>tb_projects := rs\<rparr>\<rparr>"
abbreviation put_maintainers :: "maintainer list \<Rightarrow> db \<Rightarrow> db" where
  "put_maintainers rs d \<equiv> d\<lparr>cur := (cur d)\<lparr>tb_maintainers := rs\<rparr>\<rparr>"
abbreviation put_staff :: "staff_member list \<Rightarrow> db \<Rightarrow> db" where
  "put_staff rs d \<equiv> d\<lparr>cur := (cur d)\<lparr>tb_staff := rs\<rparr>\<rparr>"
abbreviation put_foundations :: "foundation list \<Rightarrow> db \<Rightarrow> db" where
  "put_foundations rs d \<equiv> d\<lparr>cur := (cur d)\<lparr>tb_foundations := rs\<rparr>\<rparr>"
abbreviation put_services :: "service list \<Rightarrow> db \<Rightarrow> db" where
  "put_services rs d \<equiv> d\<lparr>cur := (cur d)\<lparr>tb_services := rs\<rparr>\<rparr>"
abbreviation put_service_teams :: "service_team list \<Rightarrow> db \<Rightarrow> db" where
  "put_service_teams rs d \<equiv> d\<lparr>cur := (cur d)\<lparr>tb_service_teams := rs\<rparr>\<rparr>"
abbreviation put_audit_logs :: "audit_log list \<Rightarrow> db \<Rightarrow> db" where
  "put_audit_logs rs d \<equiv> d\<lparr>cur := (cur d)\<lparr>tb_audit_logs := rs\<rparr>\<rparr>"

abbreviation put_service_users :: "service_user list \<Rightarrow> db \<Rightarrow> db" where
  "put_service_users rs d \<equiv> d\<lparr>cur := (cur d)\<lparr>tb_service_users := rs\<rparr>\<rparr>"
abbreviation put_service_user_teams :: "service_user_teams list \<Rightarrow> db \<Rightarrow> db" where
  "put_service_user_teams rs d \<equiv> d\<lparr>cur := (cur d)\<lparr>tb_service_user_teams := rs\<rparr>\<rparr>"
abbreviation put_collaborators :: "collaborator list \<Rightarrow> db \<Rightarrow> db" where
  "put_collaborators rs d \<equiv> d\<lparr>cur := (cur d)\<lparr>tb_collaborators := rs\<rparr>\<rparr>"

text \<open>A row with the columns gorm fills by itself blanked out: what the caller chose.\<close>

definition chosen :: "'m gorm_model_scheme \<Rightarrow> 'm gorm_model_scheme" where
  "chosen r = r\<lparr>row_id := 0, created_at := 0, updated_at := 0\<rparr>"

definition stamp :: "int \<Rightarrow> 'm gorm_model_scheme \<Rightarrow> 'm gorm_model_scheme" where
  "stamp t r = r\<lparr>updated_at := t\<rparr>"

text \<open>The associations, as joins over the tables.\<close>

definition company_of :: "tables \<Rightarrow> maintainer \<Rightarrow> company" where
  "company_of d m =
     (case mt_company_id m of
        None \<Rightarrow> zero_company
      | Some i \<Rightarrow> (case find (\<lambda>c. row_id c = i) (tb_companies d) of
                    None \<Rightarrow> zero_company | Some c \<Rightarrow> c))"

definition with_company :: "company \<Rightarrow> maintainer \<Rightarrow> loaded_maintainer" where
  "with_company c m = maintainer.extend m (loaded_maintainer.fields c)"

definition linked :: "tables \<Rightarrow> nat \<Rightarrow> nat \<Rightarrow> bool" where
  "linked d m p \<longleftrightarrow>
     (\<exists>l \<in> set (tb_maintainer_projects d). mp_maintainer_id l = m \<and> mp_project_id l = p)"

definition maintainers_of :: "tables \<Rightarrow> nat \<Rightarrow> loaded_maintainer list" where
  "maintainers_of d p =
     map (\<lambda>m. with_company (company_of d m) m) (filter (\<lambda>m. linked d (row_id m) p) (tb_maintainers d))"

definition projects_of :: "tables \<Rightarrow> nat \<Rightarrow> project list" where
  "projects_of d m = filter (\<lambda>p. linked d m (row_id p)) (tb_projects d)"

definition services_of :: "tables \<Rightarrow> nat \<Rightarrow> service list" where
  "services_of d p = filter (\<lambda>s. (p, row_id s) \<in> set (tb_service_projects d)) (tb_services d)"

lemma with_company_simps [simp]:
  "row_id (with_company c m) = row_id m" "mt_github (with_company c m) = mt_github m"
  "mt_email (with_company c m) = mt_email m" "mt_name (with_company c m) = mt_name m"
  "mt_status (with_company c m) = mt_status m" "mt_company_id (with_company c m) = mt_company_id m"
  "mt_company (with_company c m) = c"
  by (simp_all add: with_company_def maintainer.defs loaded_maintainer.defs)

section \<open>The contract of one table\<close>

locale gorm_table =
  fixes T :: "('w, 'm gorm_model_scheme) table"
    and tabs :: "'w \<Rightarrow> db"
    and get :: "db \<Rightarrow> 'm gorm_model_scheme list"
    and put :: "'m gorm_model_scheme list \<Rightarrow> db \<Rightarrow> db"
  assumes first_Ok: "run_state (t_first T p) w = (Inr r, w') \<Longrightarrow>
      tabs w' = tabs w \<and> r \<in> set (get (tabs w)) \<and> p r \<and>
      (\<forall>x \<in> set (get (tabs w)). p x \<longrightarrow> row_id r \<le> row_id x)"
    and first_Err: "run_state (t_first T p) w = (Inl e, w') \<Longrightarrow>
      tabs w' = tabs w \<and> (errors_is e ErrRecordNotFound \<longrightarrow> (\<forall>x \<in> set (get (tabs w)). \<not> p x))"
    and newest_Ok: "run_state (t_newest T p) w = (Inr r, w') \<Longrightarrow>
      tabs w' = tabs w \<and> r \<in> set (get (tabs w)) \<and> p r \<and>
      (\<forall>x \<in> set (get (tabs w)). p x \<longrightarrow> created_at x \<le> created_at r)"
    and newest_Err: "run_state (t_newest T p) w = (Inl e, w') \<Longrightarrow> tabs w' = tabs w"
    and find_Ok: "run_state (t_find T p) w = (Inr rs, w') \<Longrightarrow>
      tabs w' = tabs w \<and> mset rs = mset (filter p (get (tabs w)))"
    and find_Err: "run_state (t_find T p) w = (Inl e, w') \<Longrightarrow> tabs w' = tabs w"
    and count_Ok: "run_state (t_count T p) w = (Inr n, w') \<Longrightarrow>
      tabs w' = tabs w \<and> n = length (filter p (get (tabs w)))"
    and count_Err: "run_state (t_count T p) w = (Inl e, w') \<Longrightarrow> tabs w' = tabs w"
    and create_Ok: "run_state (t_create T r) w = (Inr r', w') \<Longrightarrow>
      chosen r' = chosen r \<and> row_id r' \<noteq> 0 \<and>
      (row_id r = 0 \<longrightarrow> row_id r' \<notin> row_id ` set (get (tabs w))) \<and>
      tabs w' = put (get (tabs w) @ [r']) (tabs w)"
    and create_Err: "run_state (t_create T r) w = (Inl e, w') \<Longrightarrow> tabs w' = tabs w"
    and update_Ok: "run_state (t_update T p f) w = (Inr n, w') \<Longrightarrow>
      n = length (filter p (get (tabs w))) \<and>
      (\<exists>t. tabs w' = put (map (\<lambda>r. if p r then stamp t (f r) else r) (get (tabs w))) (tabs w))"
    and update_Err: "run_state (t_update T p f) w = (Inl e, w') \<Longrightarrow> tabs w' = tabs w"
    and delete_Ok: "run_state (t_delete T p) w = (Inr n, w') \<Longrightarrow>
      n = length (filter p (get (tabs w))) \<and> tabs w' = put (filter (\<lambda>r. \<not> p r) (get (tabs w))) (tabs w)"
    and delete_Err: "run_state (t_delete T p) w = (Inl e, w') \<Longrightarrow> tabs w' = tabs w"
begin

text \<open>Queries leave the tables alone, whatever they answer.\<close>

lemma first_tabs: "run_state (t_first T p) w = (x, w') \<Longrightarrow> tabs w' = tabs w"
  using first_Ok[of p w _ w'] first_Err[of p w _ w'] by (cases x) auto

lemma newest_tabs: "run_state (t_newest T p) w = (x, w') \<Longrightarrow> tabs w' = tabs w"
  using newest_Ok[of p w _ w'] newest_Err[of p w _ w'] by (cases x) auto

lemma find_tabs: "run_state (t_find T p) w = (x, w') \<Longrightarrow> tabs w' = tabs w"
  using find_Ok[of p w _ w'] find_Err[of p w _ w'] by (cases x) auto

lemma count_tabs: "run_state (t_count T p) w = (x, w') \<Longrightarrow> tabs w' = tabs w"
  using count_Ok[of p w _ w'] count_Err[of p w _ w'] by (cases x) auto

lemmas query_tabs = first_tabs newest_tabs find_tabs count_tabs

lemma find_set: "run_state (t_find T p) w = (Inr rs, w') \<Longrightarrow> set rs = {r \<in> set (get (tabs w)). p r}"
  by (metis find_Ok set_filter set_mset_mset)

lemma count_pos_iff:
  "run_state (t_count T p) w = (Inr n, w') \<Longrightarrow> 0 < n \<longleftrightarrow> (\<exists>r \<in> set (get (tabs w)). p r)"
  by (auto dest!: count_Ok simp: filter_empty_conv)

text \<open>
  \<^verbatim>\<open>FirstOrCreate\<close> returns a row that was there, or a new one with the initial values.
\<close>

lemma first_or_create_Ok:
  assumes "run_state (first_or_create T p r) w = (Inr x, w')"
  shows "(tabs w' = tabs w \<and> x \<in> set (get (tabs w)) \<and> p x) \<or>
    ((\<forall>y \<in> set (get (tabs w)). \<not> p y) \<and> chosen x = chosen r \<and> row_id x \<noteq> 0 \<and>
      tabs w' = put (get (tabs w) @ [x]) (tabs w))"
proof -
  obtain y w1 where f: "run_state (t_first T p) w = (y, w1)" by (cases "run_state (t_first T p) w")
  show ?thesis
  proof (cases y)
    case (Inr z)
    then show ?thesis using assms f first_Ok[of p w z w1] by (simp add: first_or_create_def)
  next
    case (Inl e)
    with assms f have nf: "errors_is e ErrRecordNotFound"
      and c: "run_state (t_create T r) w1 = (Inr x, w')"
      by (auto simp: first_or_create_def split: if_splits)
    show ?thesis using first_Err[of p w e w1] create_Ok[OF c] f Inl nf by auto
  qed
qed

lemma first_or_create_Err:
  assumes "run_state (first_or_create T p r) w = (Inl e, w')"
  shows "tabs w' = tabs w"
  using assms
  by (auto simp: first_or_create_def split: prod.splits sum.splits if_splits
      dest!: first_Err create_Err)

end

section \<open>The contract of the database\<close>

locale gorm_db =
  co: gorm_table "companies G" tabs "\<lambda>d. tb_companies (cur d)" "\<lambda>rs d. put_companies rs d" +
  pr: gorm_table "projects G" tabs "\<lambda>d. tb_projects (cur d)" "\<lambda>rs d. put_projects rs d" +
  mt: gorm_table "maintainers G" tabs "\<lambda>d. tb_maintainers (cur d)" "\<lambda>rs d. put_maintainers rs d" +
  sm: gorm_table "staff_members G" tabs "\<lambda>d. tb_staff (cur d)" "\<lambda>rs d. put_staff rs d" +
  fo: gorm_table "foundations G" tabs "\<lambda>d. tb_foundations (cur d)" "\<lambda>rs d. put_foundations rs d" +
  sv: gorm_table "services G" tabs "\<lambda>d. tb_services (cur d)" "\<lambda>rs d. put_services rs d" +
  st: gorm_table "service_teams G" tabs "\<lambda>d. tb_service_teams (cur d)" "\<lambda>rs d. put_service_teams rs d" +
  al: gorm_table "audit_logs G" tabs "\<lambda>d. tb_audit_logs (cur d)" "\<lambda>rs d. put_audit_logs rs d" +
  su: gorm_table "service_users G" tabs "\<lambda>d. tb_service_users (cur d)" "\<lambda>rs d. put_service_users rs d" +
  ut: gorm_table "service_user_teams G" tabs "\<lambda>d. tb_service_user_teams (cur d)"
    "\<lambda>rs d. put_service_user_teams rs d" +
  cb: gorm_table "collaborators G" tabs "\<lambda>d. tb_collaborators (cur d)" "\<lambda>rs d. put_collaborators rs d"
  for G :: "'w gorm" and tabs :: "'w \<Rightarrow> db" +
  assumes load_company_Ok: "run_state (load_company G m) w = (Inr c, w') \<Longrightarrow>
      tabs w' = tabs w \<and> c = company_of (cur (tabs w)) m"
    and load_company_Err: "run_state (load_company G m) w = (Inl e, w') \<Longrightarrow> tabs w' = tabs w"
    and load_maintainers_Ok: "run_state (load_maintainers G p) w = (Inr ms, w') \<Longrightarrow>
      tabs w' = tabs w \<and> mset ms = mset (maintainers_of (cur (tabs w)) p)"
    and load_maintainers_Err: "run_state (load_maintainers G p) w = (Inl e, w') \<Longrightarrow> tabs w' = tabs w"
    and load_projects_Ok: "run_state (load_projects G i) w = (Inr ps, w') \<Longrightarrow>
      tabs w' = tabs w \<and> mset ps = mset (projects_of (cur (tabs w)) i)"
    and load_projects_Err: "run_state (load_projects G i) w = (Inl e, w') \<Longrightarrow> tabs w' = tabs w"
    and load_services_Ok: "run_state (load_services G p) w = (Inr ss, w') \<Longrightarrow>
      tabs w' = tabs w \<and> mset ss = mset (services_of (cur (tabs w)) p)"
    and load_services_Err: "run_state (load_services G p) w = (Inl e, w') \<Longrightarrow> tabs w' = tabs w"
    and append_project_Ok: "run_state (append_project G i p) w = (Inr u, w') \<Longrightarrow>
      (\<exists>ls. tabs w' = (tabs w)\<lparr>cur := (cur (tabs w))\<lparr>tb_maintainer_projects := ls\<rparr>\<rparr> \<and>
        set ls = insert \<lparr>mp_maintainer_id = i, mp_project_id = p\<rparr>
                   (set (tb_maintainer_projects (cur (tabs w)))))"
    and append_project_Err: "run_state (append_project G i p) w = (Inl e, w') \<Longrightarrow> tabs w' = tabs w"
    and ref_cache_first_Ok: "run_state (ref_cache_first G p) w = (Inr rc, w') \<Longrightarrow>
      tabs w' = tabs w \<and> rc \<in> set (tb_ref_caches (cur (tabs w))) \<and> rc_project_id rc = p"
    and ref_cache_first_Err: "run_state (ref_cache_first G p) w = (Inl e, w') \<Longrightarrow>
      tabs w' = tabs w \<and> (errors_is e ErrRecordNotFound \<longrightarrow>
        (\<forall>x \<in> set (tb_ref_caches (cur (tabs w))). rc_project_id x \<noteq> p))"
    and ref_cache_save_Ok: "run_state (ref_cache_save G rc) w = (Inr u, w') \<Longrightarrow>
      tabs w' = (tabs w)\<lparr>cur := (cur (tabs w))\<lparr>tb_ref_caches :=
        rc # filter (\<lambda>x. rc_project_id x \<noteq> rc_project_id rc) (tb_ref_caches (cur (tabs w)))\<rparr>\<rparr>"
    and ref_cache_save_Err: "run_state (ref_cache_save G rc) w = (Inl e, w') \<Longrightarrow> tabs w' = tabs w"
    and begin_Ok: "run_state (tx_begin G) w = (Inr u, w') \<Longrightarrow> tabs w' = (tabs w)\<lparr>saved := cur (tabs w)\<rparr>"
    and begin_Err: "run_state (tx_begin G) w = (Inl e, w') \<Longrightarrow> cur (tabs w') = cur (tabs w)"
    and commit_Ok: "run_state (tx_commit G) w = (Inr u, w') \<Longrightarrow> tabs w' = tabs w"
    and commit_Err: "run_state (tx_commit G) w = (Inl e, w') \<Longrightarrow>
      tabs w' = (tabs w)\<lparr>cur := saved (tabs w)\<rparr>"
    and rollback: "run_state (tx_rollback G) w = (v, w') \<Longrightarrow>
      tabs w' = (tabs w)\<lparr>cur := saved (tabs w)\<rparr>"

end
