(* ===== verification/Gorm_Memory.thy ===== *)
theory Gorm_Memory
  imports Gorm_Iface
begin

text \<open>
  A database in memory that keeps the contract of \<open>Gorm_Iface\<close>: lists for tables, the next
  free id for an insert, a clock for the time columns, and a saved copy for transactions.
  It shows that the contract can be kept, and it is the database on which the witnesses of
  the store and of the handlers run.
\<close>

record mem_world =
  mw_db :: db
  mw_now :: int

definition fresh_id :: "'m gorm_model_scheme list \<Rightarrow> nat" where
  "fresh_id rs = Suc (foldr max (map row_id rs) 0)"

definition mem_table ::
  "(db \<Rightarrow> 'm gorm_model_scheme list) \<Rightarrow> ('m gorm_model_scheme list \<Rightarrow> db \<Rightarrow> db) \<Rightarrow>
   ('z mem_world_scheme, 'm gorm_model_scheme) table" where
  "mem_table get put =
     \<lparr>t_first = (\<lambda>p. State (\<lambda>w.
        (case sort_key row_id (filter p (get (mw_db w))) of
           [] \<Rightarrow> Inl (Sentinel ErrRecordNotFound) | r # _ \<Rightarrow> Inr r, w))),
      t_newest = (\<lambda>p. State (\<lambda>w.
        (case sort_key (\<lambda>r. - created_at r) (filter p (get (mw_db w))) of
           [] \<Rightarrow> Inl (Sentinel ErrRecordNotFound) | r # _ \<Rightarrow> Inr r, w))),
      t_find = (\<lambda>p. State (\<lambda>w. (Inr (filter p (get (mw_db w))), w))),
      t_count = (\<lambda>p. State (\<lambda>w. (Inr (length (filter p (get (mw_db w)))), w))),
      t_create = (\<lambda>r. State (\<lambda>w.
        (let rs = get (mw_db w);
             r' = r\<lparr>row_id := (if row_id r = 0 then fresh_id rs else row_id r),
                    created_at := mw_now w, updated_at := mw_now w\<rparr>
         in (Inr r', w\<lparr>mw_db := put (rs @ [r']) (mw_db w)\<rparr>)))),
      t_update = (\<lambda>p f. State (\<lambda>w.
        (let rs = get (mw_db w)
         in (Inr (length (filter p rs)),
             w\<lparr>mw_db := put (map (\<lambda>r. if p r then stamp (mw_now w) (f r) else r) rs) (mw_db w)\<rparr>)))),
      t_delete = (\<lambda>p. State (\<lambda>w.
        (let rs = get (mw_db w)
         in (Inr (length (filter p rs)), w\<lparr>mw_db := put (filter (\<lambda>r. \<not> p r) rs) (mw_db w)\<rparr>))))\<rparr>"

definition mem_read :: "(tables \<Rightarrow> 'a) \<Rightarrow> ('z mem_world_scheme, 'a result) io" where
  "mem_read f = State (\<lambda>w. (Inr (f (cur (mw_db w))), w))"

definition mem_gorm :: "'z mem_world_scheme gorm" where
  "mem_gorm =
     \<lparr>companies = mem_table (\<lambda>d. tb_companies (cur d)) (\<lambda>rs d. put_companies rs d),
      projects = mem_table (\<lambda>d. tb_projects (cur d)) (\<lambda>rs d. put_projects rs d),
      maintainers = mem_table (\<lambda>d. tb_maintainers (cur d)) (\<lambda>rs d. put_maintainers rs d),
      staff_members = mem_table (\<lambda>d. tb_staff (cur d)) (\<lambda>rs d. put_staff rs d),
      foundations = mem_table (\<lambda>d. tb_foundations (cur d)) (\<lambda>rs d. put_foundations rs d),
      services = mem_table (\<lambda>d. tb_services (cur d)) (\<lambda>rs d. put_services rs d),
      service_teams = mem_table (\<lambda>d. tb_service_teams (cur d)) (\<lambda>rs d. put_service_teams rs d),
      audit_logs = mem_table (\<lambda>d. tb_audit_logs (cur d)) (\<lambda>rs d. put_audit_logs rs d),
      service_users = mem_table (\<lambda>d. tb_service_users (cur d)) (\<lambda>rs d. put_service_users rs d),
      service_user_teams = mem_table (\<lambda>d. tb_service_user_teams (cur d)) (\<lambda>rs d. put_service_user_teams rs d),
      collaborators = mem_table (\<lambda>d. tb_collaborators (cur d)) (\<lambda>rs d. put_collaborators rs d),
      load_company = (\<lambda>m. mem_read (\<lambda>d. company_of d m)),
      load_maintainers = (\<lambda>p. mem_read (\<lambda>d. maintainers_of d p)),
      load_projects = (\<lambda>m. mem_read (\<lambda>d. projects_of d m)),
      load_services = (\<lambda>p. mem_read (\<lambda>d. services_of d p)),
      append_project = (\<lambda>m p. State (\<lambda>w.
        (Inr (), w\<lparr>mw_db := (mw_db w)\<lparr>cur := (cur (mw_db w))\<lparr>tb_maintainer_projects :=
           List.insert \<lparr>mp_maintainer_id = m, mp_project_id = p\<rparr>
             (tb_maintainer_projects (cur (mw_db w)))\<rparr>\<rparr>\<rparr>))),
      ref_cache_first = (\<lambda>p. State (\<lambda>w.
        (case find (\<lambda>c. rc_project_id c = p) (tb_ref_caches (cur (mw_db w))) of
           None \<Rightarrow> Inl (Sentinel ErrRecordNotFound) | Some c \<Rightarrow> Inr c, w))),
      ref_cache_save = (\<lambda>c. State (\<lambda>w.
        (Inr (), w\<lparr>mw_db := (mw_db w)\<lparr>cur := (cur (mw_db w))\<lparr>tb_ref_caches :=
           c # filter (\<lambda>x. rc_project_id x \<noteq> rc_project_id c) (tb_ref_caches (cur (mw_db w)))\<rparr>\<rparr>\<rparr>))),
      tx_begin = State (\<lambda>w. (Inr (), w\<lparr>mw_db := (mw_db w)\<lparr>saved := cur (mw_db w)\<rparr>\<rparr>)),
      tx_commit = State (\<lambda>w. (Inr (), w)),
      tx_rollback = State (\<lambda>w. ((), w\<lparr>mw_db := (mw_db w)\<lparr>cur := saved (mw_db w)\<rparr>\<rparr>)),
      ping_db = State (\<lambda>w. (Inr (), w))\<rparr>"

lemma row_id_le_foldr: "r \<in> set rs \<Longrightarrow> row_id r \<le> foldr max (map row_id rs) 0"
  by (induction rs) (auto simp: le_max_iff_disj)

lemma fresh_id_notin: "fresh_id rs \<notin> row_id ` set rs"
proof
  assume "fresh_id rs \<in> row_id ` set rs"
  then obtain r where r: "r \<in> set rs" "fresh_id rs = row_id r" by auto
  show False using row_id_le_foldr[OF r(1)] r(2) by (simp add: fresh_id_def)
qed

lemma sort_key_hd:
  fixes f :: "'a \<Rightarrow> 'k::linorder"
  assumes "sort_key f xs = y # ys"
  shows "y \<in> set xs \<and> (\<forall>x \<in> set xs. f y \<le> f x)"
proof -
  have s: "set xs = set (y # ys)" using assms by (metis set_sort)
  have "sorted (map f (y # ys))" using assms by (metis sorted_sort_key)
  then show ?thesis using s by auto
qed

lemma mem_table_contract: "gorm_table (mem_table get put) mw_db get put"
proof (unfold_locales, goal_cases)
  case (1 p w r w')
  then show ?case
    by (auto simp: mem_table_def split: list.splits dest!: sort_key_hd)
next
  case (2 p w e w')
  then show ?case
    by (auto simp: mem_table_def split: list.splits) (metis filter_empty_conv set_empty set_sort)
next
  case (3 p w r w')
  then show ?case
    by (auto simp: mem_table_def split: list.splits dest!: sort_key_hd)
next
  case (9 r w r' w')
  then show ?case
    using fresh_id_notin[of "get (mw_db w)"]
    by (auto simp: mem_table_def Let_def chosen_def fresh_id_def)
qed (auto simp: mem_table_def Let_def split: list.splits)

interpretation mem: gorm_db mem_gorm mw_db
  by (intro gorm_db.intro gorm_db_axioms.intro)
     (auto simp: mem_gorm_def mem_read_def mem_table_contract find_None_iff
       split: option.splits dest!: find_SomeD)

text \<open>Evaluation rules for runs on this database.\<close>

lemmas mem_simps = mem_gorm_def mem_table_def mem_read_def fresh_id_def

section \<open>A small database\<close>

text \<open>
  Two companies, two projects, two maintainers (one of them linked to the first project), a
  staff member: the input of the concrete runs.
\<close>

definition demo_company :: "nat \<Rightarrow> string \<Rightarrow> company" where
  "demo_company i n = zero_company\<lparr>row_id := i, co_name := n\<rparr>"

definition demo_project :: "nat \<Rightarrow> string \<Rightarrow> maturity \<Rightarrow> project" where
  "demo_project i n m = zero_project\<lparr>row_id := i, pr_name := n, pr_maturity := m\<rparr>"

definition demo_maintainer :: "nat \<Rightarrow> string \<Rightarrow> string \<Rightarrow> string \<Rightarrow> nat option \<Rightarrow> maintainer" where
  "demo_maintainer i n e h c =
     zero_maintainer\<lparr>row_id := i, mt_name := n, mt_email := e, mt_github := h,
       mt_status := ActiveMaintainer, mt_company_id := c\<rparr>"

definition demo_staff :: staff_member where
  "demo_staff =
     \<lparr>row_id = 1, created_at = 0, updated_at = 0, deleted_at = None,
      sm_name = ''Sam'', sm_email = ''sam@cncf.io'', sm_github = ''SamStaff'',
      sm_github_email = ''sam@cncf.io'', sm_registered_at = None, sm_foundation_id = None\<rparr>"

definition demo_service :: service where
  "demo_service =
     \<lparr>row_id = 1, created_at = 0, updated_at = 0, deleted_at = None,
      sv_name = ''FOSSA'', sv_description = ''licence scanning''\<rparr>"

definition demo_tables :: tables where
  "demo_tables =
     \<lparr>tb_companies = [demo_company 1 ''Acme'', demo_company 2 ''Globex''],
      tb_projects = [demo_project 1 ''alpha'' Sandbox, demo_project 2 ''beta'' Graduated],
      tb_maintainers = [demo_maintainer 1 ''Ann'' ''ann@acme.io'' ''ann'' (Some 1),
                        demo_maintainer 2 ''Bob'' ''bob@globex.io'' ''Bob-X'' (Some 2)],
      tb_maintainer_projects = [\<lparr>mp_maintainer_id = 1, mp_project_id = 1\<rparr>],
      tb_staff = [demo_staff], tb_foundations = [], tb_services = [demo_service],
      tb_service_projects = [], tb_service_teams = [], tb_ref_caches = [], tb_audit_logs = [],
      tb_service_users = [], tb_service_user_teams = [], tb_collaborators = []\<rparr>"

definition demo_world :: mem_world where
  "demo_world = \<lparr>mw_db = \<lparr>cur = demo_tables, saved = demo_tables\<rparr>, mw_now = 7\<rparr>"

lemmas demo_simps =
  demo_world_def demo_tables_def demo_company_def demo_project_def demo_maintainer_def demo_staff_def
  demo_service_def zero_company_def zero_project_def zero_maintainer_def

end
