(* ===== verification/Sql_Store.thy ===== *)
theory Sql_Store
  imports Gorm_Memory
begin

text \<open>
  \<^verbatim>\<open>db/store_impl.go\<close>: the store, one definition per method, over the database calls
  \<open>G\<close>.  What the methods promise on a database that keeps the contract \<open>gorm_db\<close> is in
  \<open>Store_Laws\<close>, \<open>Store_Reads\<close> and \<open>Store_History\<close>.
\<close>

section \<open>Reading\<close>

definition map_index :: "('v \<Rightarrow> 'k) \<Rightarrow> 'v list \<Rightarrow> ('k, 'v) gomap" where
  "map_index f xs = foldl (\<lambda>m x. map_put (f x) x m) [] xs"

definition ping :: "'w gorm option \<Rightarrow> ('w, unit result) io" where
  "ping s = (case s of
     None \<Rightarrow> ret (Err (Msg ''sql store is not initialized''))
   | Some G \<Rightarrow> ping_db G)"

definition get_service_by_name :: "'w gorm \<Rightarrow> string \<Rightarrow> ('w, service result) io" where
  "get_service_by_name G name = t_first (services G) (\<lambda>s. sv_name s = name)"

definition with_associations :: "loaded_maintainer list \<Rightarrow> service list \<Rightarrow> project \<Rightarrow> loaded_project" where
  "with_associations ms ss p = project.extend p (loaded_project.fields ms ss)"

definition not_found_as :: "go_error \<Rightarrow> 'a result \<Rightarrow> 'a result" where
  "not_found_as e' r =
     (case r of Inl e \<Rightarrow> if errors_is e ErrRecordNotFound then Inl e' else Inl e | Inr x \<Rightarrow> Inr x)"

definition get_project_by_id :: "'w gorm \<Rightarrow> nat \<Rightarrow> ('w, loaded_project result) io" where
  "get_project_by_id G pid =
     do { r \<leftarrow> try_bind (t_first (projects G) (\<lambda>p. row_id p = pid)) (\<lambda>p.
                try_bind (load_maintainers G (row_id p)) (\<lambda>ms.
                try_bind (load_services G (row_id p)) (\<lambda>ss.
                ret (Inr (with_associations ms ss p)))));
          ret (not_found_as (Sentinel ErrProjectNotFound) r) }"

text \<open>\<^verbatim>\<open>Preload("Maintainers.Company")\<close> and \<^verbatim>\<open>Preload("Company")\<close> on the rows of a \<^verbatim>\<open>Find\<close>.\<close>

fun preload_maintainers :: "'w gorm \<Rightarrow> project list \<Rightarrow> ('w, loaded_project list result) io" where
  "preload_maintainers G [] = ret (Inr [])"
| "preload_maintainers G (p # ps) =
     try_bind (load_maintainers G (row_id p)) (\<lambda>ms.
     try_bind (preload_maintainers G ps) (\<lambda>lps.
     ret (Inr (with_associations ms [] p # lps))))"

fun preload_companies :: "'w gorm \<Rightarrow> maintainer list \<Rightarrow> ('w, loaded_maintainer list result) io" where
  "preload_companies G [] = ret (Inr [])"
| "preload_companies G (m # ms) =
     try_bind (load_company G m) (\<lambda>c.
     try_bind (preload_companies G ms) (\<lambda>lms.
     ret (Inr (with_company c m # lms))))"

definition list_projects_with_maintainers :: "'w gorm \<Rightarrow> ('w, loaded_project list result) io" where
  "list_projects_with_maintainers G =
     try_bind (t_find (projects G) (\<lambda>_. True)) (preload_maintainers G)"

text \<open>\<open>joined\<close> is the query of the raw join with the teams of a service: a row for every team.\<close>

definition get_projects_using_service ::
  "'w gorm \<Rightarrow> (nat \<Rightarrow> ('w, project list result) io) \<Rightarrow> nat \<Rightarrow> ('w, loaded_project list result) io" where
  "get_projects_using_service G joined sid = try_bind (joined sid) (preload_maintainers G)"

definition get_maintainers_by_project :: "'w gorm \<Rightarrow> nat \<Rightarrow> ('w, loaded_maintainer list result) io" where
  "get_maintainers_by_project G pid =
     do { r \<leftarrow> try_bind (t_first (projects G) (\<lambda>p. row_id p = pid)) (\<lambda>p.
                load_maintainers G (row_id p));
          ret (not_found_as (Sentinel ErrProjectNotFound) r) }"

definition get_service_team_by_project ::
  "'w gorm \<Rightarrow> nat \<Rightarrow> nat \<Rightarrow> ('w, service_team option result) io" where
  "get_service_team_by_project G pid sid =
     do { r \<leftarrow> t_first (service_teams G) (\<lambda>s. st_project_id s = pid \<and> st_service_id s = sid);
          ret (case r of
                 Inr s \<Rightarrow> Inr (Some s)
               | Inl e \<Rightarrow> if errors_is e ErrRecordNotFound then Inr None else Inl e) }"

definition get_maintainer_ref_cache :: "'w gorm \<Rightarrow> nat \<Rightarrow> ('w, maintainer_ref_cache option result) io" where
  "get_maintainer_ref_cache G pid =
     do { r \<leftarrow> ref_cache_first G pid;
          ret (case r of
                 Inr c \<Rightarrow> Inr (Some c)
               | Inl e \<Rightarrow> if errors_is e ErrRecordNotFound then Inr None else Inl e) }"

definition upsert_maintainer_ref_cache :: "'w gorm \<Rightarrow> maintainer_ref_cache option \<Rightarrow> ('w, unit result) io" where
  "upsert_maintainer_ref_cache G c =
     (case c of None \<Rightarrow> ret (Inr ()) | Some cache \<Rightarrow> ref_cache_save G cache)"

definition get_maintainer_map_by_email :: "'w gorm \<Rightarrow> ('w, (string, loaded_maintainer) gomap result) io" where
  "get_maintainer_map_by_email G =
     try_bind (t_find (maintainers G) (\<lambda>_. True)) (\<lambda>ms.
     try_bind (preload_companies G ms) (\<lambda>lms.
     ret (Inr (map_index mt_email lms))))"

definition get_maintainer_map_by_github ::
  "'w gorm \<Rightarrow> ('w, (string, loaded_maintainer) gomap result) io" where
  "get_maintainer_map_by_github G =
     try_bind (t_find (maintainers G) (\<lambda>_. True)) (\<lambda>ms.
     try_bind (preload_companies G ms) (\<lambda>lms.
     ret (Inr (map_index mt_github lms))))"

definition get_project_service_team_map ::
  "'w gorm \<Rightarrow> string \<Rightarrow> ('w, (nat, service_team) gomap result) io" where
  "get_project_service_team_map G serviceName =
     do { r \<leftarrow> get_service_by_name G serviceName;
          case r of
            Inl e \<Rightarrow> ret (Inl (Msg (''failed to get service, '' @ serviceName @ '', by name: '' @ error_text e)))
          | Inr sv \<Rightarrow> do {
              ts \<leftarrow> t_find (service_teams G) (\<lambda>s. st_service_id s = row_id sv);
              ret (case ts of
                     Inl e \<Rightarrow> Inl (Wrap (''querying ServiceTeam for service_id '' @ itoa (int (row_id sv)) @ '': '') e [])
                   | Inr sts \<Rightarrow> Inr (map_index st_project_id sts)) } }"

definition get_project_map_by_name :: "'w gorm \<Rightarrow> ('w, (string, loaded_project) gomap result) io" where
  "get_project_map_by_name G =
     try_bind (t_find (projects G) (\<lambda>_. True)) (\<lambda>ps.
     try_bind (preload_maintainers G ps) (\<lambda>lps.
     ret (Inr (map_index pr_name lps))))"

definition list_companies :: "'w gorm \<Rightarrow> ('w, company list result) io" where
  "list_companies G = t_find (companies G) (\<lambda>_. True)"

text \<open>\<^verbatim>\<open>Preload("Foundation")\<close>: the staff member with its foundation's name, empty if it has none.\<close>

fun preload_foundations :: "'w gorm \<Rightarrow> staff_member list \<Rightarrow> ('w, (staff_member \<times> string) list result) io" where
  "preload_foundations G [] = ret (Inr [])"
| "preload_foundations G (s # ss) =
     try_bind (t_find (foundations G) (\<lambda>f. sm_foundation_id s = Some (row_id f))) (\<lambda>fs.
     try_bind (preload_foundations G ss) (\<lambda>rest.
     ret (Inr ((s, case fs of [] \<Rightarrow> [] | f # _ \<Rightarrow> fo_name f) # rest))))"

definition list_staff_members :: "'w gorm \<Rightarrow> ('w, (staff_member \<times> string) list result) io" where
  "list_staff_members G =
     try_bind (t_find (staff_members G) (\<lambda>_. True)) (preload_foundations G)"

definition is_staff_github_account :: "'w gorm \<Rightarrow> string \<Rightarrow> ('w, bool result) io" where
  "is_staff_github_account G githubAccount =
     (if githubAccount = [] then ret (Inr False)
      else try_bind (t_count (staff_members G) (\<lambda>s. to_lower (sm_github s) = to_lower githubAccount))
             (\<lambda>n. ret (Inr (0 < n))))"

section \<open>Writing\<close>

text \<open>
  \<^verbatim>\<open>database/sql\<close> converts a \<^verbatim>\<open>MaintainerStatus\<close> or \<^verbatim>\<open>Maturity\<close> argument with its \<^verbatim>\<open>Value\<close>
  method before a statement is sent, so an invalid one is an error and nothing is written.
\<close>

definition sql_argument :: "driver_value result \<Rightarrow> ('w, 'a result) io \<Rightarrow> ('w, 'a result) io" where
  "sql_argument v m =
     (case v of Inl e \<Rightarrow> ret (Inl (Wrap ''sql: converting argument type: '' e [])) | Inr _ \<Rightarrow> m)"

definition update_project_legacy_maintainer_ref :: "'w gorm \<Rightarrow> nat \<Rightarrow> string \<Rightarrow> ('w, unit result) io" where
  "update_project_legacy_maintainer_ref G pid ref =
     try_bind (t_update (projects G) (\<lambda>p. row_id p = pid) (\<lambda>p. p\<lparr>pr_legacy_ref := ref\<rparr>)) (\<lambda>n.
     ret (if n = 0 then Inl (Sentinel ErrProjectNotFound) else Inr ()))"

definition update_project_maturity :: "'w gorm \<Rightarrow> nat \<Rightarrow> maturity \<Rightarrow> ('w, unit result) io" where
  "update_project_maturity G pid m =
     try_bind (sql_argument (maturity_value m)
       (t_update (projects G) (\<lambda>p. row_id p = pid) (\<lambda>p. p\<lparr>pr_maturity := m\<rparr>))) (\<lambda>n.
     ret (if n = 0 then Inl (Sentinel ErrProjectNotFound) else Inr ()))"

definition normalize_or_sentinel :: "string \<Rightarrow> string \<Rightarrow> string" where
  "normalize_or_sentinel value sent =
     (let trimmed = trim_space value in if trimmed = [] then sent else trimmed)"

definition create_company :: "'w gorm \<Rightarrow> string \<Rightarrow> ('w, company result) io" where
  "create_company G name =
     (let trimmed = trim_space name in
      if trimmed = [] then ret (Inl (Msg ''company name is required''))
      else do {
        r \<leftarrow> t_first (companies G) (\<lambda>c. to_lower (co_name c) = to_lower trimmed);
        case r of
          Inr _ \<Rightarrow> ret (Inl (Sentinel ErrCompanyExists))
        | Inl e \<Rightarrow>
            if errors_is e ErrRecordNotFound
            then t_create (companies G) (zero_company\<lparr>co_name := trimmed\<rparr>)
            else ret (Inl e) })"

definition update_maintainer_status :: "'w gorm \<Rightarrow> nat \<Rightarrow> maintainer_status \<Rightarrow> ('w, unit result) io" where
  "update_maintainer_status G mid status =
     (if \<not> status_is_valid status then ret (Inl (Msg (''invalid maintainer status '' @ quote status)))
      else try_bind (t_update (maintainers G) (\<lambda>m. row_id m = mid) (\<lambda>m. m\<lparr>mt_status := status\<rparr>)) (\<lambda>n.
           ret (if n = 0 then Inl (Sentinel ErrRecordNotFound) else Inr ())))"

definition update_maintainers_status :: "'w gorm \<Rightarrow> nat list \<Rightarrow> maintainer_status \<Rightarrow> ('w, unit result) io" where
  "update_maintainers_status G ids status =
     (if ids = [] then ret (Inr ())
      else if \<not> status_is_valid status then ret (Inl (Msg (''invalid maintainer status '' @ quote status)))
      else try_bind (t_update (maintainers G) (\<lambda>m. row_id m \<in> set ids) (\<lambda>m. m\<lparr>mt_status := status\<rparr>))
             (\<lambda>n. ret (Inr ())))"

definition with_details :: "company \<Rightarrow> project list \<Rightarrow> maintainer \<Rightarrow> maintainer_details" where
  "with_details c ps m =
     loaded_maintainer.extend (with_company c m) (maintainer_details.fields ps)"

definition update_maintainer_details ::
  "'w gorm \<Rightarrow> nat \<Rightarrow> string \<Rightarrow> string \<Rightarrow> string \<Rightarrow> maintainer_status \<Rightarrow> nat option \<Rightarrow>
   ('w, maintainer_details result) io" where
  "update_maintainer_details G mid name email github status companyID =
     (if \<not> status_is_valid status then ret (Inl (Msg (''invalid maintainer status '' @ quote status)))
      else
        try_bind (case companyID of
                    None \<Rightarrow> ret (Inr zero_company)
                  | Some cid \<Rightarrow> t_first (companies G) (\<lambda>c. row_id c = cid)) (\<lambda>_.
        try_bind (t_update (maintainers G) (\<lambda>m. row_id m = mid) (\<lambda>m.
                    m\<lparr>mt_name := trim_space name,
                      mt_email := normalize_or_sentinel email EMAIL_MISSING,
                      mt_github := normalize_or_sentinel github GITHUB_MISSING,
                      mt_status := status,
                      mt_company_id := companyID\<rparr>)) (\<lambda>_.
        try_bind (t_first (maintainers G) (\<lambda>m. row_id m = mid)) (\<lambda>m.
        try_bind (load_company G m) (\<lambda>c.
        try_bind (load_projects G (row_id m)) (\<lambda>ps.
        ret (Inr (with_details c ps m))))))))"

text \<open>A lookup whose \<^verbatim>\<open>ErrRecordNotFound\<close> is not an error: the variable keeps its zero value.\<close>

definition maintainer_or_zero :: "'w gorm \<Rightarrow> (maintainer \<Rightarrow> bool) \<Rightarrow> ('w, maintainer result) io" where
  "maintainer_or_zero G p =
     do { r \<leftarrow> t_first (maintainers G) p;
          ret (case r of
                 Inr m \<Rightarrow> Inr m
               | Inl e \<Rightarrow> if errors_is e ErrRecordNotFound then Inr zero_maintainer else Inl e) }"

text \<open>
  \<^verbatim>\<open>FirstOrCreate(&c)\<close> after \<^verbatim>\<open>Where("name = ?", company)\<close>: gorm takes initial values from
  struct and map conditions only, so the row a string condition leads to is the zero \<^verbatim>\<open>c\<close>.
\<close>

definition upsert_company :: "'w gorm \<Rightarrow> string \<Rightarrow> ('w, company option result) io" where
  "upsert_company G company =
     (if company = [] then ret (Inr None)
      else try_bind (first_or_create (companies G) (\<lambda>c. co_name c = company) zero_company)
             (\<lambda>c. ret (Inr (Some c))))"

definition upsert_body ::
  "'w gorm \<Rightarrow> nat \<Rightarrow> string \<Rightarrow> string \<Rightarrow> string \<Rightarrow> string \<Rightarrow> ('w, (maintainer \<times> company option) result) io" where
  "upsert_body G pid name email githubHandle company =
     try_bind (do { r \<leftarrow> t_first (projects G) (\<lambda>p. row_id p = pid);
                    ret (not_found_as (Sentinel ErrProjectNotFound) r) }) (\<lambda>project.
     try_bind (if githubHandle \<noteq> []
               then maintainer_or_zero G (\<lambda>m. to_lower (mt_github m) = to_lower githubHandle)
               else ret (Inr zero_maintainer)) (\<lambda>m1.
     try_bind (if row_id m1 = 0 \<and> email \<noteq> []
               then maintainer_or_zero G (\<lambda>m. to_lower (mt_email m) = to_lower email)
               else ret (Inr m1)) (\<lambda>m2.
     try_bind (upsert_company G company) (\<lambda>companyModel.
     try_bind (if row_id m2 = 0
               then t_create (maintainers G) (zero_maintainer
                 \<lparr>mt_name := name,
                  mt_email := normalize_or_sentinel email EMAIL_MISSING,
                  mt_github := normalize_or_sentinel githubHandle GITHUB_MISSING,
                  mt_github_email := GITHUB_MISSING,
                  mt_status := ActiveMaintainer,
                  mt_company_id := map_option row_id companyModel\<rparr>)
               else ret (Inr m2)) (\<lambda>m3.
     try_bind (append_project G (row_id m3) (row_id project)) (\<lambda>_.
     ret (Inr (m3, companyModel))))))))"

text \<open>The values the second half of \<^verbatim>\<open>UpsertMaintainer\<close> writes: what the row holds, else what was passed.\<close>

definition final_name :: "maintainer \<Rightarrow> string \<Rightarrow> string" where
  "final_name m name =
     (if trim_space (mt_name m) = [] \<and> trim_space name \<noteq> [] then name else mt_name m)"

definition final_github :: "maintainer \<Rightarrow> string \<Rightarrow> string" where
  "final_github m githubHandle =
     (if (mt_github m = [] \<or> mt_github m = GITHUB_MISSING) \<and> trim_space githubHandle \<noteq> []
      then githubHandle else mt_github m)"

definition final_email :: "maintainer \<Rightarrow> string \<Rightarrow> string" where
  "final_email m email =
     (if (mt_email m = [] \<or> mt_email m = EMAIL_MISSING) \<and> trim_space email \<noteq> []
      then email else mt_email m)"

definition final_company :: "maintainer \<Rightarrow> company option \<Rightarrow> nat option" where
  "final_company m c = (if mt_company_id m = None then map_option row_id c else mt_company_id m)"

definition upsert_finish ::
  "'w gorm \<Rightarrow> string \<Rightarrow> string \<Rightarrow> string \<Rightarrow> maintainer \<Rightarrow> company option \<Rightarrow>
   ('w, maintainer_details result) io" where
  "upsert_finish G name email githubHandle m c =
     update_maintainer_details G (row_id m) (final_name m name) (final_email m email)
       (final_github m githubHandle)
       (if status_is_valid (mt_status m) then mt_status m else ActiveMaintainer)
       (final_company m c)"

definition upsert_maintainer ::
  "'w gorm \<Rightarrow> nat \<Rightarrow> string \<Rightarrow> string \<Rightarrow> string \<Rightarrow> string \<Rightarrow> ('w, maintainer_details result) io" where
  "upsert_maintainer G pid name email githubHandle company =
     try_bind (tx_begin G) (\<lambda>_.
     do { r \<leftarrow> upsert_body G pid name email githubHandle company;
          case r of
            Inl e \<Rightarrow> do { _ \<leftarrow> tx_rollback G; ret (Inl e) }
          | Inr (m, c) \<Rightarrow>
              try_bind (tx_commit G) (\<lambda>_. upsert_finish G name email githubHandle m c) })"

text \<open>\<^verbatim>\<open>db.Transaction\<close>: begin, the function, then commit, or roll back and hand on its error.\<close>

definition transaction :: "'w gorm \<Rightarrow> ('w, unit result) io \<Rightarrow> ('w, unit result) io" where
  "transaction G body =
     try_bind (tx_begin G) (\<lambda>_.
     do { r \<leftarrow> body;
          case r of
            Inl e \<Rightarrow> do { _ \<leftarrow> tx_rollback G; ret (Inl e) }
          | Inr _ \<Rightarrow> tx_commit G })"

definition company_must_exist :: "'w gorm \<Rightarrow> string \<Rightarrow> nat \<Rightarrow> ('w, company result) io" where
  "company_must_exist G what cid =
     do { r \<leftarrow> t_first (companies G) (\<lambda>c. row_id c = cid);
          ret (not_found_as (Msg (what @ '' company '' @ itoa (int cid) @ '' not found'')) r) }"

definition merge_companies :: "'w gorm \<Rightarrow> nat \<Rightarrow> nat \<Rightarrow> ('w, unit result) io" where
  "merge_companies G fromID toID =
     (if fromID = toID then ret (Inl (Msg ''fromID and toID must differ''))
      else transaction G (
        try_bind (company_must_exist G ''target'' toID) (\<lambda>_.
        try_bind (company_must_exist G ''source'' fromID) (\<lambda>_.
        try_bind (t_update (maintainers G) (\<lambda>m. mt_company_id m = Some fromID)
                    (\<lambda>m. m\<lparr>mt_company_id := Some toID\<rparr>)) (\<lambda>_.
        try_bind (t_delete (companies G) (\<lambda>c. row_id c = fromID)) (\<lambda>_.
        ret (Inr ())))))))"

definition log_audit_event :: "'w gorm \<Rightarrow> audit_log \<Rightarrow> ('w, unit result) io" where
  "log_audit_event G event =
     (let event' = (if al_message event = [] then event\<lparr>al_message := al_action event\<rparr> else event)
      in try_bind (t_create (audit_logs G) event') (\<lambda>_. ret (Inr ())))"

definition create_service_team ::
  "'w gorm \<Rightarrow> nat \<Rightarrow> string \<Rightarrow> int \<Rightarrow> string \<Rightarrow> ('w, service_team result) io" where
  "create_service_team G pid projectName serviceID serviceName =
     do { r \<leftarrow> first_or_create (service_teams G) (\<lambda>s. st_service_team_id s = serviceID)
                (zero_service_team\<lparr>st_service_team_id := serviceID, st_service_id := 1,
                   st_service_team_name := Some serviceName, st_project_id := pid,
                   st_project_name := Some projectName\<rparr>);
          ret (case r of
                 Inl _ \<Rightarrow> Inl (Msg (''CreateServiceTeamsForUser had partial errors:'' @ [CHR 0x0A]))
               | Inr s \<Rightarrow> Inr s) }"

end
