(* ===== verification/Store_Laws.thy ===== *)
theory Store_Laws
  imports Sql_Store
begin

text \<open>
  What the methods of \<open>Sql_Store\<close> promise on every database that keeps the contract
  \<open>gorm_db\<close>.  The lemmas of each method are proved once in the locale; the theorems that
  close the theory state them with the contract as a hypothesis, and run them on the
  database of \<open>Gorm_Memory\<close>.
\<close>

section \<open>Good rows\<close>

text \<open>Every stored maintainer status and project maturity is one of the enumeration's values.\<close>

definition valid_rows :: "tables \<Rightarrow> bool" where
  "valid_rows d \<longleftrightarrow>
     list_all (\<lambda>m. status_is_valid (mt_status m)) (tb_maintainers d) \<and>
     list_all (\<lambda>p. maturity_is_valid (pr_maturity p)) (tb_projects d)"

lemma valid_rows_set:
  "valid_rows d \<longleftrightarrow> (\<forall>m \<in> set (tb_maintainers d). status_is_valid (mt_status m)) \<and>
     (\<forall>p \<in> set (tb_projects d). maturity_is_valid (pr_maturity p))"
  by (simp add: valid_rows_def list_all_iff)

text \<open>A stored maintainer that \<^verbatim>\<open>UpsertMaintainer\<close> takes for the given handle and e-mail.\<close>

definition matching :: "string \<Rightarrow> string \<Rightarrow> maintainer \<Rightarrow> bool" where
  "matching h e m \<longleftrightarrow> h \<noteq> [] \<and> equal_fold (mt_github m) h \<or> e \<noteq> [] \<and> equal_fold (mt_email m) e"

text \<open>The calls of the store that write, as steps between states of the world.\<close>

inductive store_step :: "'w gorm \<Rightarrow> 'w \<Rightarrow> 'w \<Rightarrow> bool" for G where
  legacy_ref: "run_state (update_project_legacy_maintainer_ref G i ref) w = (r, w') \<Longrightarrow> store_step G w w'"
| maturity: "run_state (update_project_maturity G i m) w = (r, w') \<Longrightarrow> store_step G w w'"
| company: "run_state (create_company G n) w = (rc, w') \<Longrightarrow> store_step G w w'"
| status: "run_state (update_maintainer_status G i s) w = (r, w') \<Longrightarrow> store_step G w w'"
| statuses: "run_state (update_maintainers_status G ids s) w = (r, w') \<Longrightarrow> store_step G w w'"
| details: "run_state (update_maintainer_details G i n e h s c) w = (rd, w') \<Longrightarrow> store_step G w w'"
| upsert: "run_state (upsert_maintainer G i n e h co) w = (rd, w') \<Longrightarrow> store_step G w w'"
| merge: "run_state (merge_companies G a b) w = (r, w') \<Longrightarrow> store_step G w w'"
| audit: "run_state (log_audit_event G ev) w = (r, w') \<Longrightarrow> store_step G w w'"
| team: "run_state (create_service_team G i pn t tn) w = (rt, w') \<Longrightarrow> store_step G w w'"
| ref_cache: "run_state (upsert_maintainer_ref_cache G rc) w = (r, w') \<Longrightarrow> store_step G w w'"

section \<open>Lemmas under the contract\<close>

context gorm_db
begin

lemmas reads_tabs =
  co.query_tabs pr.query_tabs mt.query_tabs sm.query_tabs fo.query_tabs sv.query_tabs st.query_tabs
  al.query_tabs

lemma load_tabs:
  "run_state (load_company G m) w = (x, w') \<Longrightarrow> tabs w' = tabs w"
  "run_state (load_maintainers G p) w = (y, w') \<Longrightarrow> tabs w' = tabs w"
  "run_state (load_projects G p) w = (z, w') \<Longrightarrow> tabs w' = tabs w"
  "run_state (load_services G p) w = (u, w') \<Longrightarrow> tabs w' = tabs w"
  "run_state (ref_cache_first G p) w = (v, w') \<Longrightarrow> tabs w' = tabs w"
  using load_company_Ok load_company_Err load_maintainers_Ok load_maintainers_Err
    load_projects_Ok load_projects_Err load_services_Ok load_services_Err
    ref_cache_first_Ok ref_cache_first_Err
  by (metis sum.exhaust)+

text \<open>Only transaction control touches the saved tables.\<close>

abbreviation same_saved :: "'w \<Rightarrow> 'w \<Rightarrow> bool" where
  "same_saved w w' \<equiv> saved (tabs w') = saved (tabs w)"

lemma rel_saved: "reflp same_saved" "transp same_saved"
  by (auto intro: reflpI transpI)

lemma saved_calls:
  "keeps same_saved (t_first (companies G) pc)" "keeps same_saved (t_create (companies G) c)"
  "keeps same_saved (t_delete (companies G) pc)" "keeps same_saved (t_first (projects G) pp)"
  "keeps same_saved (t_first (maintainers G) pm)" "keeps same_saved (t_create (maintainers G) m)"
  "keeps same_saved (t_update (maintainers G) pm fm)" "keeps same_saved (append_project G i j)"
proof -
  show "keeps same_saved (t_first (companies G) pc)" "keeps same_saved (t_first (projects G) pp)"
    "keeps same_saved (t_first (maintainers G) pm)"
    by (auto intro!: keepsI dest: co.first_tabs pr.first_tabs mt.first_tabs)
  show "keeps same_saved (t_create (companies G) c)"
  proof (rule keepsI)
    fix w x w'
    assume "run_state (t_create (companies G) c) w = (x, w')"
    then show "same_saved w w'" using co.create_Ok co.create_Err by (cases x) force+
  qed
  show "keeps same_saved (t_delete (companies G) pc)"
  proof (rule keepsI)
    fix w x w'
    assume "run_state (t_delete (companies G) pc) w = (x, w')"
    then show "same_saved w w'" using co.delete_Ok co.delete_Err by (cases x) force+
  qed
  show "keeps same_saved (t_create (maintainers G) m)"
  proof (rule keepsI)
    fix w x w'
    assume "run_state (t_create (maintainers G) m) w = (x, w')"
    then show "same_saved w w'" using mt.create_Ok mt.create_Err by (cases x) force+
  qed
  show "keeps same_saved (t_update (maintainers G) pm fm)"
  proof (rule keepsI)
    fix w x w'
    assume "run_state (t_update (maintainers G) pm fm) w = (x, w')"
    then show "same_saved w w'" using mt.update_Ok mt.update_Err by (cases x) force+
  qed
  show "keeps same_saved (append_project G i j)"
  proof (rule keepsI)
    fix w x w'
    assume "run_state (append_project G i j) w = (x, w')"
    then show "same_saved w w'" using append_project_Ok append_project_Err by (cases x) force+
  qed
qed

lemmas saved_intros =
  saved_calls keeps_try[OF rel_saved(2) rel_saved(1)] keeps_bind[OF rel_saved(2)]
  keeps_ret[OF rel_saved(1)]

lemma company_must_exist_saved: "keeps same_saved (company_must_exist G what i)"
  by (auto simp: company_must_exist_def intro!: saved_intros)

lemma company_must_exist_Ok:
  assumes "run_state (company_must_exist G what i) w = (Inr c, w')"
  shows "tabs w' = tabs w \<and> c \<in> set (tb_companies (cur (tabs w))) \<and> row_id c = i"
  using assms
  by (auto simp: company_must_exist_def not_found_as_def split: prod.splits sum.splits if_splits
      dest!: co.first_Ok)

text \<open>A transaction: its body runs on the tables as they are, and an error undoes what it did.\<close>

lemma transaction_Ok:
  assumes "run_state (transaction G body) w = (Inr u, w')"
  obtains w1 w2 v where "cur (tabs w1) = cur (tabs w)" "run_state body w1 = (Inr v, w2)"
    "tabs w' = tabs w2"
proof -
  from assms obtain w1 w2 v where "run_state (tx_begin G) w = (Inr v, w1)"
    and "run_state body w1 = (Inr v, w2)" and "run_state (tx_commit G) w2 = (Inr u, w')"
    by (auto simp: transaction_def split: prod.splits sum.splits)
  then show thesis using that[of w1 v w2] by (auto dest!: begin_Ok commit_Ok)
qed

lemma transaction_Err:
  assumes "run_state (transaction G body) w = (Inl e, w')" and "keeps same_saved body"
  shows "cur (tabs w') = cur (tabs w)"
  using assms
  by (auto simp: transaction_def keeps_def split: prod.splits sum.splits
      dest!: begin_Ok begin_Err commit_Err rollback)

lemma get_maintainers_Ok:
  assumes "run_state (get_maintainers_by_project G i) w = (Inr ms, w')"
  shows "tabs w' = tabs w \<and> i \<in> row_id ` set (tb_projects (cur (tabs w))) \<and>
    mset ms = mset (maintainers_of (cur (tabs w)) i)"
  using assms
  by (auto simp: get_maintainers_by_project_def not_found_as_def split: prod.splits sum.splits if_splits
      dest!: pr.first_Ok load_maintainers_Ok)

lemma get_maintainers_tabs: "run_state (get_maintainers_by_project G i) w = (x, w') \<Longrightarrow> tabs w' = tabs w"
  by (auto simp: get_maintainers_by_project_def split: prod.splits sum.splits
      dest!: pr.first_tabs load_tabs)

text \<open>Merging two companies.\<close>

lemma merge_companies_Ok:
  assumes "run_state (merge_companies G a b) w = (Inr u, w')"
  shows "a \<noteq> b \<and>
    (\<exists>t. tb_maintainers (cur (tabs w')) =
      map (\<lambda>m. if mt_company_id m = Some a then stamp t (m\<lparr>mt_company_id := Some b\<rparr>) else m)
        (tb_maintainers (cur (tabs w)))) \<and>
    tb_companies (cur (tabs w')) = filter (\<lambda>c. row_id c \<noteq> a) (tb_companies (cur (tabs w))) \<and>
    b \<in> row_id ` set (tb_companies (cur (tabs w'))) \<and>
    cur (tabs w') = (cur (tabs w))\<lparr>tb_maintainers := tb_maintainers (cur (tabs w')),
                                   tb_companies := tb_companies (cur (tabs w'))\<rparr>"
proof -
  have ab: "a \<noteq> b" using assms by (auto simp: merge_companies_def)
  from assms ab obtain w1 w2 w3 w4 w5 cb ca n k where b: "cur (tabs w1) = cur (tabs w)" and
    tb: "run_state (company_must_exist G ''target'' b) w1 = (Inr cb, w2)" and
    ta: "run_state (company_must_exist G ''source'' a) w2 = (Inr ca, w3)" and
    up: "run_state (t_update (maintainers G) (\<lambda>m. mt_company_id m = Some a)
               (\<lambda>m. m\<lparr>mt_company_id := Some b\<rparr>)) w3 = (Inr n, w4)" and
    de: "run_state (t_delete (companies G) (\<lambda>c. row_id c = a)) w4 = (Inr k, w5)" and
    cm: "tabs w' = tabs w5"
    by (auto simp: merge_companies_def simp del: run_try_bind elim!: transaction_Ok run_try_OkE)
  show ?thesis
    using b company_must_exist_Ok[OF tb] company_must_exist_Ok[OF ta]
      mt.update_Ok[OF up] co.delete_Ok[OF de] cm ab
    by (auto simp: image_iff)
qed

lemma merge_companies_Err:
  assumes "run_state (merge_companies G a b) w = (Inl e, w')"
  shows "cur (tabs w') = cur (tabs w)"
  using assms
  by (auto simp: merge_companies_def simp del: run_try_bind split: if_splits
      elim!: transaction_Err intro!: saved_intros company_must_exist_saved)


text \<open>The rows stay good.\<close>

abbreviation keeps_valid :: "'w \<Rightarrow> 'w \<Rightarrow> bool" where
  "keeps_valid w w' \<equiv> valid_rows (cur (tabs w)) \<longrightarrow> valid_rows (cur (tabs w'))"

text \<open>For the calls inside a transaction: the rows to fall back on stay good as well.\<close>

abbreviation keeps_both :: "'w \<Rightarrow> 'w \<Rightarrow> bool" where
  "keeps_both w w' \<equiv> keeps_valid w w' \<and> same_saved w w'"

lemma rel_valid: "reflp keeps_valid" "transp keeps_valid"
  by (auto intro: reflpI transpI)

lemma keeps_valid_tabs:
  "(\<And>w x w'. run_state m w = (x, w') \<Longrightarrow> tabs w' = tabs w) \<Longrightarrow> keeps keeps_valid m"
  by (auto intro!: keepsI)

lemma valid_reads:
  "keeps keeps_valid (t_first (companies G) pc)" "keeps keeps_valid (t_first (projects G) pp)"
  "keeps keeps_valid (t_first (maintainers G) pm)" "keeps keeps_valid (t_first (service_teams G) pt)"
  "keeps keeps_valid (load_company G m)" "keeps keeps_valid (load_projects G i)"
  by (auto intro!: keeps_valid_tabs dest: co.first_tabs pr.first_tabs mt.first_tabs st.first_tabs load_tabs)

lemma valid_create_company: "keeps keeps_valid (t_create (companies G) c)"
proof (intro keepsI impI)
  fix w x w'
  assume "run_state (t_create (companies G) c) w = (x, w')" "valid_rows (cur (tabs w))"
  then show "valid_rows (cur (tabs w'))"
    by (cases x) (auto simp: valid_rows_def dest!: co.create_Ok co.create_Err)
qed

lemma valid_delete_company: "keeps keeps_valid (t_delete (companies G) p)"
proof (intro keepsI impI)
  fix w x w'
  assume "run_state (t_delete (companies G) p) w = (x, w')" "valid_rows (cur (tabs w))"
  then show "valid_rows (cur (tabs w'))"
    by (cases x) (auto simp: valid_rows_def dest!: co.delete_Ok co.delete_Err)
qed

lemma valid_create_audit: "keeps keeps_valid (t_create (audit_logs G) a)"
proof (intro keepsI impI)
  fix w x w'
  assume "run_state (t_create (audit_logs G) a) w = (x, w')" "valid_rows (cur (tabs w))"
  then show "valid_rows (cur (tabs w'))"
    by (cases x) (auto simp: valid_rows_def dest!: al.create_Ok al.create_Err)
qed

lemma valid_create_team: "keeps keeps_valid (t_create (service_teams G) t)"
proof (intro keepsI impI)
  fix w x w'
  assume "run_state (t_create (service_teams G) t) w = (x, w')" "valid_rows (cur (tabs w))"
  then show "valid_rows (cur (tabs w'))"
    by (cases x) (auto simp: valid_rows_def dest!: st.create_Ok st.create_Err)
qed

lemma chosen_maintainer_status: "chosen m = chosen m' \<Longrightarrow> mt_status m = mt_status (m' :: maintainer)"
  by (metis chosen_def maintainer.select_convs(5) maintainer.surjective gorm_model.update_convs)

lemma valid_create_maintainer:
  assumes "status_is_valid (mt_status m)"
  shows "keeps keeps_valid (t_create (maintainers G) m)"
proof (intro keepsI impI)
  fix w x w'
  assume "run_state (t_create (maintainers G) m) w = (x, w')" "valid_rows (cur (tabs w))"
  then show "valid_rows (cur (tabs w'))"
    using assms by (cases x)
      (auto simp: valid_rows_def dest!: mt.create_Ok mt.create_Err chosen_maintainer_status)
qed

lemma stamp_fields [simp]:
  "mt_status (stamp t m) = mt_status m" "mt_company_id (stamp t m) = mt_company_id m"
  "mt_github (stamp t m) = mt_github m" "mt_email (stamp t m) = mt_email m"
  "pr_maturity (stamp t p) = pr_maturity p" "row_id (stamp t r) = row_id r"
  by (simp_all add: stamp_def)

lemma valid_update_maintainers:
  assumes "\<And>m. status_is_valid (mt_status m) \<Longrightarrow> status_is_valid (mt_status (f m))"
  shows "keeps keeps_valid (t_update (maintainers G) p f)"
proof (intro keepsI impI)
  fix w x w'
  assume r: "run_state (t_update (maintainers G) p f) w = (x, w')" and "valid_rows (cur (tabs w))"
  then show "valid_rows (cur (tabs w'))"
  proof (cases x)
    case (Inr n)
    then show ?thesis
      using r mt.update_Ok[of p f w n w'] assms \<open>valid_rows (cur (tabs w))\<close>
      by (auto simp: valid_rows_set)
  qed (use mt.update_Err in auto)
qed

lemma valid_update_projects:
  assumes "\<And>m. maturity_is_valid (pr_maturity m) \<Longrightarrow> maturity_is_valid (pr_maturity (f m))"
  shows "keeps keeps_valid (t_update (projects G) p f)"
proof (intro keepsI impI)
  fix w x w'
  assume r: "run_state (t_update (projects G) p f) w = (x, w')" and "valid_rows (cur (tabs w))"
  then show "valid_rows (cur (tabs w'))"
  proof (cases x)
    case (Inr n)
    then show ?thesis
      using r pr.update_Ok[of p f w n w'] assms \<open>valid_rows (cur (tabs w))\<close>
      by (auto simp: valid_rows_set)
  qed (use pr.update_Err in auto)
qed


lemmas valid_intros =
  valid_reads valid_create_company valid_delete_company valid_create_audit valid_create_team
  valid_create_maintainer valid_update_maintainers valid_update_projects
  keeps_try[OF rel_valid(2) rel_valid(1)] keeps_bind[OF rel_valid(2)] keeps_ret[OF rel_valid(1)]

lemma valid_append_project: "keeps keeps_valid (append_project G i p)"
proof (intro keepsI impI)
  fix w x w'
  assume "run_state (append_project G i p) w = (x, w')" "valid_rows (cur (tabs w))"
  then show "valid_rows (cur (tabs w'))"
    by (cases x) (auto simp: valid_rows_def dest!: append_project_Ok append_project_Err)
qed

lemma valid_save_cache: "keeps keeps_valid (ref_cache_save G c)"
proof (intro keepsI impI)
  fix w x w'
  assume "run_state (ref_cache_save G c) w = (x, w')" "valid_rows (cur (tabs w))"
  then show "valid_rows (cur (tabs w'))"
    by (cases x) (auto simp: valid_rows_def dest!: ref_cache_save_Ok ref_cache_save_Err)
qed

lemma valid_first_or_create_company:
  "keeps keeps_valid (first_or_create (companies G) p c)"
  by (auto simp: first_or_create_def split: sum.split intro!: valid_intros)

lemma valid_first_or_create_team: "keeps keeps_valid (first_or_create (service_teams G) p c)"
  by (auto simp: first_or_create_def split: sum.split intro!: valid_intros)

lemma valid_update_maintainer_details:
  "keeps keeps_valid (update_maintainer_details G i n e h s c)"
  by (auto simp: update_maintainer_details_def split: option.split intro!: valid_intros)

lemma valid_maintainer_or_zero: "keeps keeps_valid (maintainer_or_zero G p)"
  by (auto simp: maintainer_or_zero_def intro!: valid_intros)

lemma valid_upsert_body: "keeps keeps_valid (upsert_body G i n e h c)"
  by (auto simp: upsert_body_def upsert_company_def zero_maintainer_def
      intro!: valid_intros valid_append_project valid_first_or_create_company valid_maintainer_or_zero)

lemma saved_upsert_body: "keeps same_saved (upsert_body G i n e h c)"
  by (auto simp: upsert_body_def upsert_company_def maintainer_or_zero_def first_or_create_def
      split: sum.split intro!: saved_intros)

lemma transaction_cases:
  assumes "run_state (transaction G body) w = (x, w')" and "keeps same_saved body"
  shows "cur (tabs w') = cur (tabs w) \<or>
    (\<exists>w1 w2 v. cur (tabs w1) = cur (tabs w) \<and> run_state body w1 = (v, w2) \<and> tabs w' = tabs w2)"
proof (cases x)
  case (Inl e)
  then show ?thesis using transaction_Err assms by blast
next
  case (Inr u)
  then show ?thesis using transaction_Ok assms by metis
qed

lemma valid_merge_companies: "keeps keeps_valid (merge_companies G a b)"
proof (intro keepsI impI)
  fix w x w'
  assume r: "run_state (merge_companies G a b) w = (x, w')" and v: "valid_rows (cur (tabs w))"
  show "valid_rows (cur (tabs w'))"
  proof (cases x)
    case (Inl e)
    then show ?thesis using merge_companies_Err r v by simp
  next
    case (Inr u)
    have ok: "run_state (merge_companies G a b) w = (Inr u, w')" using r Inr by simp
    obtain t where m: "tb_maintainers (cur (tabs w')) =
      map (\<lambda>m. if mt_company_id m = Some a then stamp t (m\<lparr>mt_company_id := Some b\<rparr>) else m)
        (tb_maintainers (cur (tabs w)))"
      using merge_companies_Ok[OF ok] by blast
    have e: "cur (tabs w') = (cur (tabs w))\<lparr>tb_maintainers := tb_maintainers (cur (tabs w')),
                                   tb_companies := tb_companies (cur (tabs w'))\<rparr>"
      using merge_companies_Ok[OF ok] by blast
    have "tb_projects (cur (tabs w')) = tb_projects (cur (tabs w))"
      by (subst e) simp
    with m show ?thesis using v by (auto simp: valid_rows_set)
  qed
qed

text \<open>\<^verbatim>\<open>UpsertMaintainer\<close>: its first half is a transaction, the second an update of the row.\<close>

lemma upsert_maintainer_cases:
  assumes "run_state (upsert_maintainer G i n e h co) w = (x, w')"
  obtains (stopped) er where "x = Inl er" "cur (tabs w') = cur (tabs w)"
  | (finished) w1 w2 w3 m c where "cur (tabs w1) = cur (tabs w)"
      "run_state (upsert_body G i n e h co) w1 = (Inr (m, c), w2)" "tabs w3 = tabs w2"
      "run_state (upsert_finish G n e h m c) w3 = (x, w')"
proof -
  obtain b w1 where b: "run_state (tx_begin G) w = (b, w1)" by (cases "run_state (tx_begin G) w")
  show thesis
  proof (cases b)
    case (Inl er)
    then show thesis using assms b begin_Err stopped by (auto simp: upsert_maintainer_def)
  next
    case (Inr u)
    obtain y w2 where y: "run_state (upsert_body G i n e h co) w1 = (y, w2)"
      by (cases "run_state (upsert_body G i n e h co) w1")
    have s: "saved (tabs w2) = cur (tabs w)" "cur (tabs w1) = cur (tabs w)"
      using keepsD[OF saved_upsert_body y] begin_Ok[of w u w1] b Inr by auto
    show thesis
    proof (cases y)
      case Err: (Inl er)
      obtain v where rb: "run_state (tx_rollback G) w2 = (v, w')" and "x = Inl er"
        using assms b Inr y Err by (auto simp: upsert_maintainer_def split: prod.splits)
      then show thesis using stopped rollback[OF rb] s by simp
    next
      case Ok: (Inr mc)
      obtain m c where mc: "mc = (m, c)" by (cases mc)
      obtain z w3 where z: "run_state (tx_commit G) w2 = (z, w3)" by (cases "run_state (tx_commit G) w2")
      show thesis
      proof (cases z)
        case cErr: (Inl er)
        then have "x = Inl er" "w' = w3" using assms b Inr y Ok mc z
          by (auto simp: upsert_maintainer_def)
        then show thesis using s z cErr commit_Err[of w2 er w3] stopped by simp
      next
        case cOk: (Inr v)
        then have "run_state (upsert_finish G n e h m c) w3 = (x, w')" using assms b Inr y Ok mc z
          by (auto simp: upsert_maintainer_def)
        then show thesis using finished[OF s(2)] y Ok mc z cOk commit_Ok[of w2 v w3] by simp
      qed
    qed
  qed
qed

lemma valid_upsert_maintainer: "keeps keeps_valid (upsert_maintainer G i n e h co)"
proof (intro keepsI impI)
  fix w x w'
  assume "run_state (upsert_maintainer G i n e h co) w = (x, w')" and v: "valid_rows (cur (tabs w))"
  then show "valid_rows (cur (tabs w'))"
  proof (cases rule: upsert_maintainer_cases)
    case (finished w1 w2 w3 m c)
    have "valid_rows (cur (tabs w2))" using keepsD[OF valid_upsert_body finished(2)] finished(1) v by simp
    then show ?thesis
      using keepsD[OF valid_update_maintainer_details finished(4)[unfolded upsert_finish_def]] finished(3)
      by simp
  qed (use v in simp)
qed

lemma store_step_valid: "store_step G w w' \<Longrightarrow> keeps_valid w w'"
proof (induction rule: store_step.induct)
  case (legacy_ref i ref w r w')
  have "keeps keeps_valid (update_project_legacy_maintainer_ref G i ref)"
    by (auto simp: update_project_legacy_maintainer_ref_def intro!: valid_intros)
  from keepsD[OF this legacy_ref] show ?case .
next
  case (maturity i m w r w')
  have "keeps keeps_valid (update_project_maturity G i m)"
    by (auto simp: update_project_maturity_def sql_argument_def maturity_value_def intro!: valid_intros)
  from keepsD[OF this maturity] show ?case .
next
  case (company n w rc w')
  have "keeps keeps_valid (create_company G n)"
    by (auto simp: create_company_def Let_def split: sum.split intro!: valid_intros)
  from keepsD[OF this company] show ?case .
next
  case (status i s w r w')
  have "keeps keeps_valid (update_maintainer_status G i s)"
    by (auto simp: update_maintainer_status_def intro!: valid_intros)
  from keepsD[OF this status] show ?case .
next
  case (statuses ids s w r w')
  have "keeps keeps_valid (update_maintainers_status G ids s)"
    by (auto simp: update_maintainers_status_def intro!: valid_intros)
  from keepsD[OF this statuses] show ?case .
next
  case (audit ev w r w')
  have "keeps keeps_valid (log_audit_event G ev)"
    by (auto simp: log_audit_event_def Let_def intro!: valid_intros)
  from keepsD[OF this audit] show ?case .
next
  case (team i pn t tn w rt w')
  have "keeps keeps_valid (create_service_team G i pn t tn)"
    by (auto simp: create_service_team_def intro!: valid_intros valid_first_or_create_team)
  from keepsD[OF this team] show ?case .
next
  case (ref_cache rc w r w')
  have "keeps keeps_valid (upsert_maintainer_ref_cache G rc)"
    by (auto simp: upsert_maintainer_ref_cache_def split: option.split
        intro!: valid_intros valid_save_cache)
  from keepsD[OF this ref_cache] show ?case .
next
  case (details i n e h s c w rd w')
  then show ?case by (rule keepsD[OF valid_update_maintainer_details])
next
  case (upsert i n e h co w rd w')
  then show ?case by (rule keepsD[OF valid_upsert_maintainer])
next
  case (merge a b w r w')
  then show ?case by (rule keepsD[OF valid_merge_companies])
qed

lemma store_reachable_valid:
  assumes "rtranclp (store_step G) w w'" and "valid_rows (cur (tabs w))"
  shows "valid_rows (cur (tabs w'))"
  using assms by (induction rule: rtranclp_induct) (auto dest: store_step_valid)


text \<open>What an insert or an update of \<^verbatim>\<open>UpsertMaintainer\<close> does to the rows.\<close>

lemma maintainer_or_zero_Ok:
  assumes "run_state (maintainer_or_zero G p) w = (Inr m, w')"
  shows "tabs w' = tabs w \<and>
    (m \<in> set (tb_maintainers (cur (tabs w))) \<and> p m \<or>
     m = zero_maintainer \<and> (\<forall>x \<in> set (tb_maintainers (cur (tabs w))). \<not> p x))"
  using assms
  by (auto simp: maintainer_or_zero_def split: prod.splits sum.splits if_splits
      dest!: mt.first_Ok mt.first_Err)

lemma upsert_company_Ok:
  assumes "run_state (upsert_company G co) w = (Inr c, w')"
  shows "tb_maintainers (cur (tabs w')) = tb_maintainers (cur (tabs w)) \<and>
    tb_maintainer_projects (cur (tabs w')) = tb_maintainer_projects (cur (tabs w)) \<and>
    tb_projects (cur (tabs w')) = tb_projects (cur (tabs w))"
  using assms
  by (auto simp: upsert_company_def split: prod.splits sum.splits if_splits
      dest!: co.first_or_create_Ok)

lemma chosen_maintainer_fields:
  "chosen m = chosen m' \<Longrightarrow> mt_status m = mt_status (m' :: maintainer) \<and> mt_github m = mt_github m' \<and>
     mt_email m = mt_email m' \<and> mt_name m = mt_name m'"
  by (cases m; cases m') (simp add: chosen_def)

lemma upsert_body_Ok:
  assumes r: "run_state (upsert_body G i n e h co) w = (Inr (m, c), w')"
    and nz: "\<forall>x \<in> set (tb_maintainers (cur (tabs w))). row_id x \<noteq> 0"
  shows "i \<in> row_id ` set (tb_projects (cur (tabs w))) \<and>
    set (tb_maintainer_projects (cur (tabs w'))) =
      insert \<lparr>mp_maintainer_id = row_id m, mp_project_id = i\<rparr>
        (set (tb_maintainer_projects (cur (tabs w)))) \<and>
    (if \<exists>x \<in> set (tb_maintainers (cur (tabs w))). matching h e x
     then tb_maintainers (cur (tabs w')) = tb_maintainers (cur (tabs w)) \<and>
          m \<in> set (tb_maintainers (cur (tabs w))) \<and> matching h e m
     else tb_maintainers (cur (tabs w')) = tb_maintainers (cur (tabs w)) @ [m] \<and>
          mt_github m = normalize_or_sentinel h GITHUB_MISSING)"
proof -
  from r obtain p w1 m1 w2 m2 w3 w4 w5 u where
    p: "run_state (do { r \<leftarrow> t_first (projects G) (\<lambda>p. row_id p = i);
                    ret (not_found_as (Sentinel ErrProjectNotFound) r) }) w = (Inr p, w1)" and
    m1: "run_state (if h \<noteq> []
               then maintainer_or_zero G (\<lambda>m. to_lower (mt_github m) = to_lower h)
               else ret (Inr zero_maintainer)) w1 = (Inr m1, w2)" and
    m2: "run_state (if row_id m1 = 0 \<and> e \<noteq> []
               then maintainer_or_zero G (\<lambda>m. to_lower (mt_email m) = to_lower e)
               else ret (Inr m1)) w2 = (Inr m2, w3)" and
    c: "run_state (upsert_company G co) w3 = (Inr c, w4)" and
    m3: "run_state (if row_id m2 = 0
               then t_create (maintainers G) (zero_maintainer
                 \<lparr>mt_name := n,
                  mt_email := normalize_or_sentinel e EMAIL_MISSING,
                  mt_github := normalize_or_sentinel h GITHUB_MISSING,
                  mt_github_email := GITHUB_MISSING,
                  mt_status := ActiveMaintainer,
                  mt_company_id := map_option row_id c\<rparr>)
               else ret (Inr m2)) w4 = (Inr m, w5)" and
    ap: "run_state (append_project G (row_id m) (row_id p)) w5 = (Inr u, w')"
    unfolding upsert_body_def
    by (elim run_try_OkE) (simp split: prod.splits sum.splits, blast)
  have P: "tabs w1 = tabs w" "p \<in> set (tb_projects (cur (tabs w)))" "row_id p = i"
    using p by (auto simp: not_found_as_def split: prod.splits sum.splits if_splits dest!: pr.first_Ok)
  have M1: "tabs w2 = tabs w"
    "m1 \<in> set (tb_maintainers (cur (tabs w))) \<and> h \<noteq> [] \<and> equal_fold (mt_github m1) h \<or>
     m1 = zero_maintainer \<and>
     (h \<noteq> [] \<longrightarrow> (\<forall>x \<in> set (tb_maintainers (cur (tabs w))). \<not> equal_fold (mt_github x) h))"
    using m1 P(1) by (auto simp: equal_fold_def split: if_splits dest!: maintainer_or_zero_Ok)
  have z: "row_id zero_maintainer = 0" by (simp add: zero_maintainer_def)
  have M2: "tabs w3 = tabs w"
    "m2 \<in> set (tb_maintainers (cur (tabs w))) \<and> matching h e m2 \<or>
     m2 = zero_maintainer \<and> (\<forall>x \<in> set (tb_maintainers (cur (tabs w))). \<not> matching h e x)"
    using m2 M1 nz z
    by (auto simp: matching_def equal_fold_def split: if_splits dest!: maintainer_or_zero_Ok)
  have C: "tb_maintainers (cur (tabs w4)) = tb_maintainers (cur (tabs w))"
    "tb_maintainer_projects (cur (tabs w4)) = tb_maintainer_projects (cur (tabs w))"
    using upsert_company_Ok[OF c] M2(1) by auto
  have M3: "tb_maintainer_projects (cur (tabs w5)) = tb_maintainer_projects (cur (tabs w)) \<and>
    (if \<exists>x \<in> set (tb_maintainers (cur (tabs w))). matching h e x
     then tb_maintainers (cur (tabs w5)) = tb_maintainers (cur (tabs w)) \<and>
          m \<in> set (tb_maintainers (cur (tabs w))) \<and> matching h e m
     else tb_maintainers (cur (tabs w5)) = tb_maintainers (cur (tabs w)) @ [m] \<and>
          mt_github m = normalize_or_sentinel h GITHUB_MISSING)"
    using m3 C M2 nz z
    by (auto split: if_splits dest!: mt.create_Ok chosen_maintainer_fields)
  obtain ls where A: "tabs w' = (tabs w5)\<lparr>cur := (cur (tabs w5))\<lparr>tb_maintainer_projects := ls\<rparr>\<rparr>"
    "set ls = insert \<lparr>mp_maintainer_id = row_id m, mp_project_id = row_id p\<rparr>
                   (set (tb_maintainer_projects (cur (tabs w5))))"
    using append_project_Ok[OF ap] by blast
  show ?thesis using A M3 P by (auto split: if_splits)
qed

lemma with_details_simps [simp]:
  "row_id (with_details c ps m) = row_id m" "mt_github (with_details c ps m) = mt_github m"
  "mt_email (with_details c ps m) = mt_email m" "mt_name (with_details c ps m) = mt_name m"
  "mt_status (with_details c ps m) = mt_status m" "mt_company_id (with_details c ps m) = mt_company_id m"
  "mt_company (with_details c ps m) = c" "mt_projects (with_details c ps m) = ps"
  by (simp_all add: with_details_def with_company_def loaded_maintainer.defs maintainer_details.defs
      maintainer.defs)

lemma update_maintainer_details_Ok:
  assumes "run_state (update_maintainer_details G i n e h s c) w = (Inr d, w')"
  shows "status_is_valid s \<and> row_id d = i \<and> mt_status d = s \<and> mt_company_id d = c \<and>
    mt_github d = normalize_or_sentinel h GITHUB_MISSING \<and>
    mt_email d = normalize_or_sentinel e EMAIL_MISSING \<and> mt_name d = trim_space n \<and>
    (\<forall>cid. c = Some cid \<longrightarrow> cid \<in> row_id ` set (tb_companies (cur (tabs w')))) \<and>
    mset (mt_projects d) = mset (projects_of (cur (tabs w')) i) \<and>
    map row_id (tb_maintainers (cur (tabs w'))) = map row_id (tb_maintainers (cur (tabs w))) \<and>
    (\<exists>ms. cur (tabs w') = (cur (tabs w))\<lparr>tb_maintainers := ms\<rparr>)"
proof -
  from assms obtain x w1 k w2 m w3 cm w4 ps where v: "status_is_valid s"
    and x: "run_state (case c of None \<Rightarrow> ret (Inr zero_company)
                  | Some cid \<Rightarrow> t_first (companies G) (\<lambda>c. row_id c = cid)) w = (Inr x, w1)"
    and up: "run_state (t_update (maintainers G) (\<lambda>m. row_id m = i) (\<lambda>m.
                    m\<lparr>mt_name := trim_space n,
                      mt_email := normalize_or_sentinel e EMAIL_MISSING,
                      mt_github := normalize_or_sentinel h GITHUB_MISSING,
                      mt_status := s,
                      mt_company_id := c\<rparr>)) w1 = (Inr k, w2)"
    and m: "run_state (t_first (maintainers G) (\<lambda>m. row_id m = i)) w2 = (Inr m, w3)"
    and lc: "run_state (load_company G m) w3 = (Inr cm, w4)"
    and lp: "run_state (load_projects G (row_id m)) w4 = (Inr ps, w')"
    and d: "d = with_details cm ps m"
    unfolding update_maintainer_details_def
    by (auto simp del: run_try_bind split: if_splits elim!: run_try_OkE)
  have X: "tabs w1 = tabs w" "\<forall>cid. c = Some cid \<longrightarrow> cid \<in> row_id ` set (tb_companies (cur (tabs w)))"
    using x by (auto split: option.splits dest!: co.first_Ok)
  obtain t where U: "tabs w2 = put_maintainers (map (\<lambda>r. if row_id r = i then stamp t (r\<lparr>mt_name := trim_space n,
                      mt_email := normalize_or_sentinel e EMAIL_MISSING,
                      mt_github := normalize_or_sentinel h GITHUB_MISSING,
                      mt_status := s,
                      mt_company_id := c\<rparr>) else r) (tb_maintainers (cur (tabs w)))) (tabs w)"
    using mt.update_Ok[OF up] X(1) by auto
  have M: "tabs w3 = tabs w2" "m \<in> set (tb_maintainers (cur (tabs w2)))" "row_id m = i"
    using mt.first_Ok[OF m] by auto
  have L: "tabs w' = tabs w2" "mset ps = mset (projects_of (cur (tabs w2)) i)"
    using load_company_Ok[OF lc] load_projects_Ok[OF lp] M by auto
  obtain r where "m = stamp t (r\<lparr>mt_name := trim_space n,
                      mt_email := normalize_or_sentinel e EMAIL_MISSING,
                      mt_github := normalize_or_sentinel h GITHUB_MISSING,
                      mt_status := s,
                      mt_company_id := c\<rparr>)"
    using M(2,3) U by (auto split: if_splits)
  then have F: "mt_status d = s" "mt_company_id d = c" "row_id d = i" "mt_projects d = ps"
    "mt_github d = normalize_or_sentinel h GITHUB_MISSING"
    "mt_email d = normalize_or_sentinel e EMAIL_MISSING" "mt_name d = trim_space n"
    using M(3) by (simp_all add: d stamp_def)
  have T: "tb_companies (cur (tabs w')) = tb_companies (cur (tabs w))"
    "map row_id (tb_maintainers (cur (tabs w'))) = map row_id (tb_maintainers (cur (tabs w)))"
    "\<exists>ms. cur (tabs w') = (cur (tabs w))\<lparr>tb_maintainers := ms\<rparr>"
    using L(1) U by auto
  show ?thesis using F T X(2) L v by simp
qed

lemma upsert_maintainer_Ok:
  assumes "run_state (upsert_maintainer G i n e h co) w = (Inr d, w')"
    and nz: "\<forall>x \<in> set (tb_maintainers (cur (tabs w))). row_id x \<noteq> 0"
  shows "i \<in> row_id ` set (tb_projects (cur (tabs w))) \<and>
    set (tb_maintainer_projects (cur (tabs w'))) =
      insert \<lparr>mp_maintainer_id = row_id d, mp_project_id = i\<rparr>
        (set (tb_maintainer_projects (cur (tabs w)))) \<and>
    status_is_valid (mt_status d) \<and>
    (if \<exists>x \<in> set (tb_maintainers (cur (tabs w))). matching h e x
     then map row_id (tb_maintainers (cur (tabs w'))) = map row_id (tb_maintainers (cur (tabs w))) \<and>
          (\<exists>x \<in> set (tb_maintainers (cur (tabs w))). matching h e x \<and> row_id x = row_id d)
     else map row_id (tb_maintainers (cur (tabs w'))) =
            map row_id (tb_maintainers (cur (tabs w))) @ [row_id d])"
  using assms(1)
proof (cases rule: upsert_maintainer_cases)
  case (finished w1 w2 w3 m c)
  have nz1: "\<forall>x \<in> set (tb_maintainers (cur (tabs w1))). row_id x \<noteq> 0"
    using nz finished(1) by simp
  note b = upsert_body_Ok[OF finished(2) nz1]
  note f = update_maintainer_details_Ok[OF finished(4)[unfolded upsert_finish_def]]
  have l: "tb_maintainer_projects (cur (tabs w')) = tb_maintainer_projects (cur (tabs w2))"
    using f finished(3) by auto
  have "row_id d = row_id m" "status_is_valid (mt_status d)"
    "map row_id (tb_maintainers (cur (tabs w'))) = map row_id (tb_maintainers (cur (tabs w2)))"
    using f finished(3) by auto
  then show ?thesis using b l finished(1) by (simp split: if_splits) blast
qed simp

lemma chosen_company_name: "chosen c = chosen c' \<Longrightarrow> co_name c = co_name (c' :: company)"
  by (cases c; cases c') (simp add: chosen_def)

lemma create_company_Ok:
  assumes "run_state (create_company G n) w = (Inr c, w')"
  shows "trim_space n \<noteq> [] \<and> co_name c = trim_space n \<and>
    (\<forall>x \<in> set (tb_companies (cur (tabs w))). \<not> equal_fold (co_name x) (trim_space n)) \<and>
    cur (tabs w') = (cur (tabs w))\<lparr>tb_companies := tb_companies (cur (tabs w)) @ [c]\<rparr>"
proof -
  from assms obtain e w1 where t: "trim_space n \<noteq> []" and nf: "errors_is e ErrRecordNotFound"
    and f: "run_state (t_first (companies G) (\<lambda>c. to_lower (co_name c) = to_lower (trim_space n))) w
              = (Inl e, w1)"
    and c: "run_state (t_create (companies G) (zero_company\<lparr>co_name := trim_space n\<rparr>)) w1 = (Inr c, w')"
    by (auto simp: create_company_def Let_def split: prod.splits sum.splits if_splits)
  show ?thesis
    using co.first_Err[OF f] nf co.create_Ok[OF c] t chosen_company_name[of c]
    by (auto simp: equal_fold_def)
qed

lemma create_company_Err:
  assumes "run_state (create_company G n) w = (Inl e, w')"
  shows "tabs w' = tabs w"
  using assms
  by (auto simp: create_company_def Let_def split: prod.splits sum.splits if_splits
      dest!: co.first_Ok co.first_Err co.create_Err)

lemma is_staff_Ok:
  assumes "run_state (is_staff_github_account G h) w = (Inr b, w')"
  shows "tabs w' = tabs w \<and>
    (b \<longleftrightarrow> h \<noteq> [] \<and> (\<exists>s \<in> set (tb_staff (cur (tabs w))). equal_fold (sm_github s) h))"
  using assms
  by (auto simp: is_staff_github_account_def equal_fold_def split: prod.splits sum.splits if_splits
      dest: sm.count_tabs sm.count_pos_iff)

lemma get_maintainer_ref_cache_Ok:
  assumes "run_state (get_maintainer_ref_cache G i) w = (Inr r, w')"
  shows "(r = None \<longrightarrow> (\<forall>x \<in> set (tb_ref_caches (cur (tabs w))). rc_project_id x \<noteq> i)) \<and>
    (\<forall>x. r = Some x \<longrightarrow> x \<in> set (tb_ref_caches (cur (tabs w))) \<and> rc_project_id x = i)"
proof -
  obtain y w1 where f: "run_state (ref_cache_first G i) w = (y, w1)"
    by (cases "run_state (ref_cache_first G i) w")
  then show ?thesis using assms ref_cache_first_Ok[of i w _ w1] ref_cache_first_Err[of i w _ w1]
    by (cases y) (auto simp: get_maintainer_ref_cache_def split: if_splits)
qed

lemma ref_cache_roundtrip:
  assumes s: "run_state (upsert_maintainer_ref_cache G (Some c)) w = (Inr u, w1)"
    and g: "run_state (get_maintainer_ref_cache G i) w1 = (Inr r, w2)"
  shows "(i = rc_project_id c \<longrightarrow> r = Some c) \<and>
    (i \<noteq> rc_project_id c \<longrightarrow>
      (case r of None \<Rightarrow> \<forall>x \<in> set (tb_ref_caches (cur (tabs w))). rc_project_id x \<noteq> i
       | Some x \<Rightarrow> x \<in> set (tb_ref_caches (cur (tabs w))) \<and> rc_project_id x = i))"
proof -
  have "run_state (ref_cache_save G c) w = (Inr u, w1)"
    using s by (simp add: upsert_maintainer_ref_cache_def)
  from ref_cache_save_Ok[OF this]
  have S: "set (tb_ref_caches (cur (tabs w1))) =
      insert c {x \<in> set (tb_ref_caches (cur (tabs w))). rc_project_id x \<noteq> rc_project_id c}"
    by simp
  note G = get_maintainer_ref_cache_Ok[OF g, unfolded S]
  show ?thesis using G by (cases r) auto
qed

end

section \<open>Properties of the store\<close>

text \<open>
  C30: when \<^verbatim>\<open>MergeCompanies(a, b)\<close> succeeds, \<open>a\<close> and \<open>b\<close> differ, every maintainer of company \<open>a\<close> is
  now of company \<open>b\<close> and no other maintainer has moved, the row of \<open>a\<close> is the only company
  removed, the target \<open>b\<close> exists, and no other table has changed.
\<close>

theorem merge_companies_effect:
  assumes "gorm_db G tabs" and "run_state (merge_companies G a b) w = (Inr u, w')"
  shows "a \<noteq> b \<and>
    map mt_company_id (tb_maintainers (cur (tabs w'))) =
      map (\<lambda>m. if mt_company_id m = Some a then Some b else mt_company_id m)
        (tb_maintainers (cur (tabs w))) \<and>
    map row_id (tb_maintainers (cur (tabs w'))) = map row_id (tb_maintainers (cur (tabs w))) \<and>
    tb_companies (cur (tabs w')) = filter (\<lambda>c. row_id c \<noteq> a) (tb_companies (cur (tabs w))) \<and>
    b \<in> row_id ` set (tb_companies (cur (tabs w'))) \<and>
    cur (tabs w') = (cur (tabs w))\<lparr>tb_maintainers := tb_maintainers (cur (tabs w')),
                                   tb_companies := tb_companies (cur (tabs w'))\<rparr>"
proof -
  note m = gorm_db.merge_companies_Ok[OF assms]
  then obtain t where "tb_maintainers (cur (tabs w')) =
      map (\<lambda>m. if mt_company_id m = Some a then stamp t (m\<lparr>mt_company_id := Some b\<rparr>) else m)
        (tb_maintainers (cur (tabs w)))" by blast
  then have "map mt_company_id (tb_maintainers (cur (tabs w'))) =
      map (\<lambda>m. if mt_company_id m = Some a then Some b else mt_company_id m)
        (tb_maintainers (cur (tabs w)))"
    "map row_id (tb_maintainers (cur (tabs w'))) = map row_id (tb_maintainers (cur (tabs w)))"
    by auto
  with m show ?thesis by blast
qed

theorem merge_companies_effect_witness:
  "let (r, w') = run_state (merge_companies mem_gorm 1 2) demo_world
   in r = Inr () \<and> map mt_company_id (tb_maintainers (cur (mw_db w'))) = [Some 2, Some 2]"
proof -
  have "fst (run_state (merge_companies mem_gorm 1 2) demo_world) = Inr ()" by code_simp
  note r = run_eqI[OF this]
  have "map (\<lambda>m. if mt_company_id m = Some 1 then Some 2 else mt_company_id m)
          (tb_maintainers (cur (mw_db demo_world))) = [Some 2, Some 2]" by code_simp
  with merge_companies_effect[OF mem.gorm_db_axioms r] show ?thesis
    by (intro let_pairI[OF r]) simp
qed

text \<open>
  C31: when \<^verbatim>\<open>MergeCompanies\<close> fails, at whatever call, the tables are what they were before it.
\<close>

theorem merge_companies_atomic:
  assumes "gorm_db G tabs" and "run_state (merge_companies G a b) w = (Inl e, w')"
  shows "cur (tabs w') = cur (tabs w)"
  by (rule gorm_db.merge_companies_Err[OF assms])

theorem merge_companies_atomic_witness:
  "let (r, w') = run_state (merge_companies mem_gorm 9 2) demo_world
   in r = Inl (Msg ''source company 9 not found'') \<and> cur (mw_db w') = demo_tables"
proof -
  have "fst (run_state (merge_companies mem_gorm 9 2) demo_world)
      = Inl (Msg ''source company 9 not found'')" by code_simp
  note r = run_eqI[OF this]
  have "cur (mw_db demo_world) = demo_tables" by (simp add: demo_world_def)
  with merge_companies_atomic[OF mem.gorm_db_axioms r] show ?thesis
    by (intro let_pairI[OF r]) simp
qed

text \<open>
  C32: when \<^verbatim>\<open>UpsertMaintainer\<close> succeeds, the project existed and is now linked to the returned
  maintainer, and that is the only new link.  A maintainer whose handle or e-mail matches,
  whatever the case, is taken, and then no row is added; otherwise exactly one row is.
\<close>

theorem upsert_maintainer_effect:
  assumes "gorm_db G tabs" and "run_state (upsert_maintainer G i n e h co) w = (Inr d, w')"
    and "\<forall>x \<in> set (tb_maintainers (cur (tabs w))). row_id x \<noteq> 0"
  shows "i \<in> row_id ` set (tb_projects (cur (tabs w))) \<and>
    set (tb_maintainer_projects (cur (tabs w'))) =
      insert \<lparr>mp_maintainer_id = row_id d, mp_project_id = i\<rparr>
        (set (tb_maintainer_projects (cur (tabs w)))) \<and>
    status_is_valid (mt_status d) \<and>
    (if \<exists>x \<in> set (tb_maintainers (cur (tabs w))). matching h e x
     then map row_id (tb_maintainers (cur (tabs w'))) = map row_id (tb_maintainers (cur (tabs w))) \<and>
          (\<exists>x \<in> set (tb_maintainers (cur (tabs w))). matching h e x \<and> row_id x = row_id d)
     else map row_id (tb_maintainers (cur (tabs w'))) =
            map row_id (tb_maintainers (cur (tabs w))) @ [row_id d])"
  by (rule gorm_db.upsert_maintainer_Ok[OF assms])

theorem upsert_maintainer_effect_witness:
  "let (r, w') = run_state (upsert_maintainer mem_gorm 2 ''Bob'' [] ''bob-x'' []) demo_world
   in (\<forall>e. r \<noteq> Inl e) \<and> tb_maintainer_projects (cur (mw_db w')) \<noteq> [] \<and>
      map row_id (tb_maintainers (cur (mw_db w'))) = [1, 2]"
proof -
  let ?r = "run_state (upsert_maintainer mem_gorm 2 ''Bob'' [] ''bob-x'' []) demo_world"
  obtain d w' where r: "?r = (Inr d, w')"
  proof -
    have "case fst ?r of Inl _ \<Rightarrow> False | Inr _ \<Rightarrow> True" by code_simp
    then show thesis using that by (cases ?r) (auto split: sum.splits)
  qed
  have nz: "\<forall>x \<in> set (tb_maintainers (cur (mw_db demo_world))). row_id x \<noteq> 0"
    by (simp add: demo_simps)
  have m: "\<exists>x \<in> set (tb_maintainers (cur (mw_db demo_world))). matching ''bob-x'' [] x"
    by (simp add: demo_simps matching_def) code_simp
  have ids: "map row_id (tb_maintainers (cur (mw_db demo_world))) = [1, 2]"
    by (simp add: demo_simps)
  show ?thesis
    using upsert_maintainer_effect[OF mem.gorm_db_axioms r nz] m ids by (auto simp: r)
qed

text \<open>
  C33: no sequence of writing calls of the store, in any order and with any arguments and
  failures, leaves a maintainer with an invalid status or a project with an invalid maturity.
\<close>

theorem store_keeps_rows_valid:
  assumes "gorm_db G tabs" and "(store_step G)\<^sup>*\<^sup>* w w'" and "valid_rows (cur (tabs w))"
  shows "valid_rows (cur (tabs w'))"
  by (rule gorm_db.store_reachable_valid[OF assms])

theorem store_keeps_rows_valid_witness:
  "let w' = snd (run_state (update_maintainer_status mem_gorm 1 EmeritusMaintainer) demo_world)
   in valid_rows (cur (mw_db w')) \<and> map mt_status (tb_maintainers (cur (mw_db w'))) = [EmeritusMaintainer, ActiveMaintainer]"
proof -
  let ?r = "run_state (update_maintainer_status mem_gorm 1 EmeritusMaintainer) demo_world"
  have "store_step mem_gorm demo_world (snd ?r)" by (rule store_step.status) (rule surjective_pairing)
  then have s: "(store_step mem_gorm)\<^sup>*\<^sup>* demo_world (snd ?r)" by blast
  have v: "valid_rows (cur (mw_db demo_world))" by code_simp
  have "map mt_status (tb_maintainers (cur (mw_db (snd ?r)))) = [EmeritusMaintainer, ActiveMaintainer]"
    by code_simp
  then show ?thesis using store_keeps_rows_valid[OF mem.gorm_db_axioms s v] unfolding Let_def by blast
qed

text \<open>
  \<^verbatim>\<open>CreateCompany\<close> stores the trimmed name, only if it is not empty and no company has it
  in any letter case, and adds one row; when it fails it has changed nothing.
\<close>

theorem create_company_no_duplicates:
  assumes "gorm_db G tabs" and "run_state (create_company G n) w = (r, w')"
  shows "case r of
      Inl e \<Rightarrow> tabs w' = tabs w
    | Inr c \<Rightarrow> trim_space n \<noteq> [] \<and> co_name c = trim_space n \<and>
        (\<forall>x \<in> set (tb_companies (cur (tabs w))). \<not> equal_fold (co_name x) (trim_space n)) \<and>
        cur (tabs w') = (cur (tabs w))\<lparr>tb_companies := tb_companies (cur (tabs w)) @ [c]\<rparr>"
  using gorm_db.create_company_Ok[OF assms(1)] gorm_db.create_company_Err[OF assms(1)] assms(2)
  by (cases r) auto

theorem create_company_no_duplicates_witness:
  "fst (run_state (create_company mem_gorm '' ACME '') demo_world) = Inl (Sentinel ErrCompanyExists) \<and>
   mw_db (snd (run_state (create_company mem_gorm '' ACME '') demo_world)) = mw_db demo_world"
proof -
  let ?r = "run_state (create_company mem_gorm '' ACME '') demo_world"
  have f: "fst ?r = Inl (Sentinel ErrCompanyExists)" by code_simp
  show ?thesis using create_company_no_duplicates[OF mem.gorm_db_axioms run_eqI[OF f]] f by simp
qed

text \<open>
  Reading the reference cache of a project after it was saved gives the saved entry, and
  the entries of other projects are as before.
\<close>

theorem ref_cache_read_after_write:
  assumes "gorm_db G tabs"
    and "run_state (upsert_maintainer_ref_cache G (Some c)) w = (Inr u, w1)"
    and "run_state (get_maintainer_ref_cache G i) w1 = (Inr r, w2)"
  shows "(i = rc_project_id c \<longrightarrow> r = Some c) \<and>
    (i \<noteq> rc_project_id c \<longrightarrow>
      (case r of None \<Rightarrow> \<forall>x \<in> set (tb_ref_caches (cur (tabs w))). rc_project_id x \<noteq> i
       | Some x \<Rightarrow> x \<in> set (tb_ref_caches (cur (tabs w))) \<and> rc_project_id x = i))"
  by (rule gorm_db.ref_cache_roundtrip[OF assms])

definition demo_cache :: maintainer_ref_cache where
  "demo_cache = \<lparr>rc_project_id = 2, rc_etag = ''e1'', rc_last_modified = None, rc_body_hash = ''h'',
     rc_last_checked = Some 3\<rparr>"

theorem ref_cache_read_after_write_witness:
  "fst (run_state (get_maintainer_ref_cache mem_gorm 2)
     (snd (run_state (upsert_maintainer_ref_cache mem_gorm (Some demo_cache)) demo_world)))
   = Inr (Some demo_cache)"
proof -
  let ?w1 = "snd (run_state (upsert_maintainer_ref_cache mem_gorm (Some demo_cache)) demo_world)"
  have "fst (run_state (upsert_maintainer_ref_cache mem_gorm (Some demo_cache)) demo_world) = Inr ()"
    by code_simp
  note u = run_eqI[OF this]
  have "case fst (run_state (get_maintainer_ref_cache mem_gorm 2) ?w1) of Inl _ \<Rightarrow> False | Inr _ \<Rightarrow> True"
    by code_simp
  then obtain r where f: "fst (run_state (get_maintainer_ref_cache mem_gorm 2) ?w1) = Inr r"
    by (auto split: sum.splits)
  note g = run_eqI[OF f]
  have "rc_project_id demo_cache = 2" by (simp add: demo_cache_def)
  then have "r = Some demo_cache"
    using conjunct1[OF ref_cache_read_after_write[OF mem.gorm_db_axioms u g]] by simp
  with f show ?thesis by (simp only:)
qed

end
