(* ===== verification/Ref_Parse.thy ===== *)
theory Ref_Parse
  imports Go_Base
begin

text \<open>
  \<^verbatim>\<open>refparse/maintainer_refs.go\<close>: the GitHub handles found in the text of a maintainers
  file.  Each regular expression is the matcher it denotes under Go's leftmost-first rule,
  on ASCII text; the set of handles is a list whose order does not matter.
\<close>

section \<open>Handles and boundaries\<close>

text \<open>\<^verbatim>\<open>[a-z0-9-]\<close>, \<^verbatim>\<open>[a-z0-9_-]\<close> and \<^verbatim>\<open>\w\<close> under \<^verbatim>\<open>(?i)\<close>, and \<^verbatim>\<open>\s\<close>.\<close>

definition is_alnum :: "char \<Rightarrow> bool" where
  "is_alnum c \<longleftrightarrow> is_lower (lower_char c) \<or> is_digit c"

definition handle_char :: "char \<Rightarrow> bool" where
  "handle_char c \<longleftrightarrow> is_alnum c \<or> c = CHR ''-''"

definition name_char :: "char \<Rightarrow> bool" where
  "name_char c \<longleftrightarrow> handle_char c \<or> c = CHR ''_''"

definition word_char :: "char \<Rightarrow> bool" where
  "word_char c \<longleftrightarrow> is_alnum c \<or> c = CHR ''_''"

definition re_space :: "char \<Rightarrow> bool" where
  "re_space c \<longleftrightarrow> c \<in> {CHR 0x09, CHR 0x0A, CHR 0x0C, CHR 0x0D, CHR '' ''}"

text \<open>\<^verbatim>\<open>[a-z0-9-]{1,39}\<close>: as many characters as there are, at most 39.\<close>

definition take_handle :: "string \<Rightarrow> string" where
  "take_handle s = take 39 (takeWhile handle_char s)"

lemma length_take_handle: "length (take_handle s) \<le> length s"
  by (simp add: take_handle_def min.coboundedI1[OF length_takeWhile_le])

text \<open>\<^verbatim>\<open>(^|[^a-z0-9_-])@([a-z0-9-]{1,39})\<close>; the flag says that the text starts here.\<close>

function at_handles :: "bool \<Rightarrow> string \<Rightarrow> string list" where
  "at_handles start [] = []"
| "at_handles start (c # cs) =
     (if start \<and> c = CHR ''@'' \<and> take_handle cs \<noteq> []
      then take_handle cs # at_handles False (drop (length (take_handle cs)) cs)
      else case cs of
             [] \<Rightarrow> []
           | d # ds \<Rightarrow>
               if \<not> name_char c \<and> d = CHR ''@'' \<and> take_handle ds \<noteq> []
               then take_handle ds # at_handles False (drop (length (take_handle ds)) ds)
               else at_handles False cs)"
  by pat_completeness auto
termination
  by (relation "measure (\<lambda>(b, s). length s)") auto

text \<open>\<^verbatim>\<open>github\.com/([a-z0-9-]{1,39})\<close>, dropping a handle that a path segment follows.\<close>

definition reserved :: "string \<Rightarrow> bool" where
  "reserved h \<longleftrightarrow> h \<in> {''organizations'', ''orgs'', ''repos''}"

definition url_prefix :: string where "url_prefix = ''github.com/''"

function url_handles :: "string \<Rightarrow> string list" where
  "url_handles s =
     (case s of
        [] \<Rightarrow> []
      | c # cs \<Rightarrow>
          let rest = drop (length url_prefix) s; h = take_handle rest; after = drop (length h) rest
          in if has_prefix (to_lower s) url_prefix \<and> h \<noteq> []
             then (if reserved (to_lower h) \<or> (after \<noteq> [] \<and> hd after = CHR ''/'')
                   then url_handles after else h # url_handles after)
             else url_handles cs)"
  by pat_completeness auto
termination
  by (relation "measure length") (auto simp: url_prefix_def)

declare at_handles.simps(2) [simp del] url_handles.simps [simp del]

text \<open>\<^verbatim>\<open>([a-z0-9][a-z0-9-]{0,38})\b\<close>: the longest candidate that ends at a word boundary.\<close>

definition word_boundary :: "string \<Rightarrow> nat \<Rightarrow> bool" where
  "word_boundary s n \<longleftrightarrow>
     (0 < n \<and> word_char (s ! (n - 1))) \<noteq> (n < length s \<and> word_char (s ! n))"

definition handle_at :: "string \<Rightarrow> string option" where
  "handle_at s =
     (if s \<noteq> [] \<and> is_alnum (hd s)
      then map_option (\<lambda>n. take n s) (find (word_boundary s) (rev [1..<Suc (length (take_handle s))]))
      else None)"

definition skip_space :: "string \<Rightarrow> string" where "skip_space s = dropWhile re_space s"

text \<open>\<^verbatim>\<open>^\s*[-*]\s*(handle)\b\<close> and \<^verbatim>\<open>^\s*github\s*:\s*(handle)\b\<close> on one line.\<close>

definition list_item :: "string \<Rightarrow> string option" where
  "list_item line =
     (case skip_space line of
        [] \<Rightarrow> None
      | c # s \<Rightarrow> if c = CHR ''-'' \<or> c = CHR ''*'' then handle_at (skip_space s) else None)"

definition github_key :: "string \<Rightarrow> string option" where
  "github_key line =
     (let s = skip_space line in
      if has_prefix (to_lower s) ''github''
      then (case skip_space (drop 6 s) of
              [] \<Rightarrow> None
            | c # t \<Rightarrow> if c = CHR '':'' then handle_at (skip_space t) else None)
      else None)"

definition unreserved :: "string option \<Rightarrow> string list" where
  "unreserved m = (case m of None \<Rightarrow> [] | Some h \<Rightarrow> if reserved (to_lower h) then [] else [to_lower h])"

definition line_handles :: "string \<Rightarrow> string list" where
  "line_handles line = unreserved (list_item line) @ unreserved (github_key line)"

section \<open>Markdown tables\<close>

definition header_match :: "string \<Rightarrow> bool" where
  "header_match header \<longleftrightarrow> to_lower (trim_space header) \<in>
     {''github'', ''github id'', ''github username'', ''github handle'', ''github account''}"

definition is_separator_row :: "string list \<Rightarrow> bool" where
  "is_separator_row cells \<longleftrightarrow> cells \<noteq> [] \<and>
     list_all (\<lambda>cell. list_all (\<lambda>ch. ch = CHR ''-'' \<or> ch = CHR '':'') (trim_space cell)) cells"

definition parse_row :: "string \<Rightarrow> string list" where
  "parse_row line =
     (if \<not> contains line ''|'' then []
      else let trimmed = trim_space line in
           if trimmed = [] then []
           else map trim_space (split_char (CHR ''|'') (trim_suffix (trim_prefix trimmed ''|'') ''|'')))"

definition is_valid_handle :: "string \<Rightarrow> bool" where
  "is_valid_handle h0 \<longleftrightarrow>
     (let handle = to_lower (trim_space h0) in
      handle \<noteq> [] \<and> \<not> reserved handle \<and> length handle \<le> 39 \<and>
      list_all (\<lambda>r. is_lower r \<or> is_digit r \<or> r = CHR ''-'') handle)"

fun find_index :: "('a \<Rightarrow> bool) \<Rightarrow> 'a list \<Rightarrow> nat option" where
  "find_index P [] = None"
| "find_index P (x # xs) = (if P x then Some 0 else map_option Suc (find_index P xs))"

definition clean_cell :: "string \<Rightarrow> string" where
  "clean_cell cell = trim_prefix (trim (trim_space cell) ''`'') ''@''"

text \<open>The rows of a table, up to a line that is no row or is another separator.\<close>

fun table_rows :: "nat \<Rightarrow> string list \<Rightarrow> string list" where
  "table_rows idx [] = []"
| "table_rows idx (line # rest) =
     (let cells = parse_row line in
      if cells = [] \<or> is_separator_row cells then []
      else if length cells \<le> idx then table_rows idx rest
      else if trim_space (cells ! idx) = [] then table_rows idx rest
      else if \<not> is_valid_handle (clean_cell (cells ! idx)) then table_rows idx rest
      else to_lower (clean_cell (cells ! idx)) # table_rows idx rest)"

fun table_handles :: "string list \<Rightarrow> string list" where
  "table_handles (header # separator # rest) =
     (let cells = parse_row header; sep = parse_row separator in
      if cells = [] \<or> sep = [] \<or> \<not> is_separator_row sep then table_handles (separator # rest)
      else case find_index header_match cells of
             None \<Rightarrow> table_handles (separator # rest)
           | Some idx \<Rightarrow> table_rows idx rest @ table_handles rest)"
| "table_handles _ = []"

section \<open>The exported functions\<close>

definition extract_github_handles :: "string \<Rightarrow> string list" where
  "extract_github_handles refBody =
     (if refBody = [] then []
      else table_handles (split_char (CHR 0x0A) refBody) @
           map to_lower (at_handles True refBody) @
           map to_lower (url_handles refBody) @
           concat (map line_handles (split_char (CHR 0x0A) refBody)))"

text \<open>
  \<^verbatim>\<open>(?i)(^|[^a-z0-9_-])@?HANDLE([^a-z0-9_-]|$)\<close> with the handle quoted: \<open>after_handle\<close>
  matches from the handle on, \<open>ref_match\<close> tries each position.
\<close>

definition after_handle :: "string \<Rightarrow> string \<Rightarrow> bool" where
  "after_handle h s \<longleftrightarrow>
     equal_fold (take (length h) s) h \<and>
     (drop (length h) s = [] \<or> \<not> name_char (hd (drop (length h) s)))"

definition opt_at :: "string \<Rightarrow> string \<Rightarrow> bool" where
  "opt_at h s \<longleftrightarrow> (s \<noteq> [] \<and> hd s = CHR ''@'' \<and> after_handle h (tl s)) \<or> after_handle h s"

fun ref_match :: "string \<Rightarrow> string \<Rightarrow> bool" where
  "ref_match h [] = False"
| "ref_match h (c # s) = (\<not> name_char c \<and> opt_at h s \<or> ref_match h s)"

definition maintainer_ref_contains :: "string \<Rightarrow> string \<Rightarrow> bool result" where
  "maintainer_ref_contains refBody handle =
     (if handle = [] then Err (Msg ''handle is empty'')
      else Ok (opt_at handle refBody \<or> ref_match handle refBody))"

section \<open>What the matchers find\<close>

lemma of_char_lower:
  "is_upper c \<Longrightarrow> of_char (lower_char c) = (of_char c :: nat) + 32 \<and>
     65 \<le> (of_char c :: nat) \<and> (of_char c :: nat) \<le> 90"
  by (auto simp: lower_char_def is_upper_def less_eq_char_def)

lemma lower_char_dash: "lower_char c = CHR ''-'' \<longleftrightarrow> c = CHR ''-''"
proof (cases "is_upper c")
  case True
  have "of_char (lower_char c) \<noteq> (of_char (CHR ''-'') :: nat)" "(of_char c :: nat) \<noteq> of_char (CHR ''-'')"
    using of_char_lower[OF True] by auto
  then show ?thesis by metis
qed (simp add: lower_char_def)

lemma digit_not_upper: "is_digit c \<Longrightarrow> lower_char c = c"
  by (auto simp: is_digit_def lower_char_def is_upper_def less_eq_char_def)

lemma handle_char_lower:
  "handle_char c \<longleftrightarrow> is_lower (lower_char c) \<or> is_digit (lower_char c) \<or> lower_char c = CHR ''-''"
proof -
  have "is_digit c" if "is_digit (lower_char c)"
  proof (cases "is_upper c")
    case True
    have "(of_char (lower_char c) :: nat) \<le> of_char (CHR ''9'')"
      using that by (simp add: is_digit_def less_eq_char_def)
    then show ?thesis using of_char_lower[OF True] by simp
  qed (use that in \<open>simp add: lower_char_def\<close>)
  then show ?thesis
    by (auto simp: handle_char_def is_alnum_def lower_char_dash digit_not_upper)
qed

text \<open>A well-formed handle: lower case letters, digits and dashes, one to 39 of them.\<close>

definition good_handle :: "string \<Rightarrow> bool" where
  "good_handle h \<longleftrightarrow> h \<noteq> [] \<and> length h \<le> 39 \<and>
     list_all (\<lambda>r. is_lower r \<or> is_digit r \<or> r = CHR ''-'') h"

lemma good_handle_lower:
  "h \<noteq> [] \<Longrightarrow> length h \<le> 39 \<Longrightarrow> list_all handle_char h \<Longrightarrow> good_handle (to_lower h)"
  by (auto simp: good_handle_def to_lower_def list_all_iff handle_char_lower)

lemma take_handle_ok: "list_all handle_char (take_handle s) \<and> length (take_handle s) \<le> 39"
  by (auto simp: take_handle_def list_all_iff dest: in_set_takeD set_takeWhileD)

lemma good_take_handle: "take_handle s \<noteq> [] \<Longrightarrow> good_handle (to_lower (take_handle s))"
  using take_handle_ok by (simp add: good_handle_lower)

text \<open>Each match is a maximal run of handle characters at some position.\<close>

lemma minus_less_Suc: "n - m < Suc n" "n - m < Suc (Suc n)" for n m :: nat
  by auto

lemma at_handles_run: "h \<in> set (at_handles b s) \<Longrightarrow> \<exists>t. h = take_handle t \<and> h \<noteq> []"
proof (induction s arbitrary: b rule: length_induct)
  case (1 s)
  show ?case
  proof (cases s)
    case (Cons c cs)
    have IH: "\<exists>t. h = take_handle t \<and> h \<noteq> []" if "h \<in> set (at_handles False t)" "length t < length s" for t
      using 1(1) that by blast
    from 1(2) Cons show ?thesis
    proof (cases "b \<and> c = CHR ''@'' \<and> take_handle cs \<noteq> []")
      case True
      then have "h = take_handle cs \<or> h \<in> set (at_handles False (drop (length (take_handle cs)) cs))"
        using 1(2) Cons by (simp add: at_handles.simps(2))
      then show ?thesis using IH[of "drop (length (take_handle cs)) cs"] True Cons by (auto simp: minus_less_Suc)
    next
      case nf: False
      show ?thesis
      proof (cases cs)
        case Nil
        then show ?thesis using 1(2) Cons nf by (auto simp: at_handles.simps(2) take_handle_def)
      next
        case ds: (Cons d ds)
        then show ?thesis
          using 1(2) Cons nf IH[of "drop (length (take_handle ds)) ds"] IH[of cs]
          by (subst (asm) Cons, subst (asm) at_handles.simps(2)) (auto simp: minus_less_Suc split: if_splits)
      qed
    qed
  qed (use 1(2) in simp)
qed

lemma url_handles_run: "h \<in> set (url_handles s) \<Longrightarrow> \<exists>t. h = take_handle t \<and> h \<noteq> []"
proof (induction s rule: length_induct)
  case (1 s)
  show ?case
  proof (cases s)
    case Nil
    then show ?thesis using 1(2) by (simp add: url_handles.simps)
  next
    case (Cons c cs)
    let ?rest = "drop (length url_prefix) s"
    let ?after = "drop (length (take_handle ?rest)) ?rest"
    have "length ?after < length s" using Cons by (simp add: url_prefix_def)
    moreover have "h \<in> set (url_handles ?after) \<or> h = take_handle ?rest \<and> h \<noteq> [] \<or> h \<in> set (url_handles cs)"
      using 1(2) Cons by (subst (asm) url_handles.simps) (auto simp: Let_def split: if_splits)
    ultimately show ?thesis using 1(1) Cons by (metis length_Cons lessI)
  qed
qed

lemma at_handles_good: "h \<in> set (at_handles b s) \<Longrightarrow> good_handle (to_lower h)"
  using at_handles_run good_take_handle by blast

lemma url_handles_good: "h \<in> set (url_handles s) \<Longrightarrow> good_handle (to_lower h)"
  using url_handles_run good_take_handle by blast

lemma handle_at_good: "handle_at s = Some h \<Longrightarrow> good_handle (to_lower h)"
proof -
  assume a: "handle_at s = Some h"
  have ne: "s \<noteq> [] \<and> is_alnum (hd s)"
  proof (rule ccontr)
    assume "\<not> (s \<noteq> [] \<and> is_alnum (hd s))"
    then have "handle_at s = None" unfolding handle_at_def by (rule if_not_P)
    with a show False by simp
  qed
  have m: "map_option (\<lambda>n. take n s) (find (word_boundary s) (rev [1..<Suc (length (take_handle s))])) = Some h"
    using a unfolding handle_at_def if_P[OF ne] .
  obtain n where f: "find (word_boundary s) (rev [1..<Suc (length (take_handle s))]) = Some n"
    and h: "take n s = h"
    using m unfolding map_option_eq_Some by blast
  have n: "0 < n" "n \<le> length (take_handle s)"
    using find_SomeD[OF f] by auto
  obtain k where t: "take_handle s = take k s"
    by (metis take_handle_def takeWhile_eq_take take_take)
  have "take n s = take n (take_handle s)"
    using n unfolding t by (auto simp: min_def split: if_splits)
  moreover have "list_all handle_char (take n (take_handle s))"
    using take_handle_ok[of s] by (auto simp: list_all_iff dest: in_set_takeD)
  ultimately show ?thesis using n ne take_handle_ok[of s] unfolding h[symmetric]
    by (intro good_handle_lower) auto
qed

lemma unreserved_good: "(\<And>g. m = Some g \<Longrightarrow> good_handle (to_lower g)) \<Longrightarrow> h \<in> set (unreserved m) \<Longrightarrow> good_handle h"
  by (auto simp: unreserved_def split: option.splits if_splits)

lemma list_item_good: "list_item l = Some g \<Longrightarrow> good_handle (to_lower g)"
  by (auto simp: list_item_def split: list.splits if_splits dest: handle_at_good)

lemma github_key_good: "github_key l = Some g \<Longrightarrow> good_handle (to_lower g)"
  by (auto simp: github_key_def Let_def split: list.splits if_splits dest: handle_at_good)

lemma line_handles_good: "h \<in> set (line_handles l) \<Longrightarrow> good_handle h"
  using unreserved_good list_item_good github_key_good
  unfolding line_handles_def set_append by blast

lemma table_rows_good: "h \<in> set (table_rows idx ls) \<Longrightarrow> good_handle (trim_space h)"
proof (induction idx ls rule: table_rows.induct)
  case (2 idx line rest)
  then show ?case
    by (auto simp: Let_def is_valid_handle_def good_handle_def trim_space_to_lower split: if_splits)
qed simp

text \<open>A mention that stands alone is found, wherever it is.\<close>

lemma takeWhile_boundary: "list_all P h \<Longrightarrow> (q = [] \<or> \<not> P (hd q)) \<Longrightarrow> takeWhile P (h @ q) = h"
  by (induction h) (auto simp: takeWhile_eq_Nil_iff)

lemma take_handle_mention:
  "list_all handle_char h \<Longrightarrow> length h \<le> 39 \<Longrightarrow> (q = [] \<or> \<not> handle_char (hd q)) \<Longrightarrow>
   take_handle (h @ q) = h"
  by (simp add: take_handle_def takeWhile_boundary)

lemma take_handle_append_stop:
  assumes "\<not> handle_char x"
  shows "length (take_handle (u @ x # v)) \<le> length u"
proof -
  have "length (takeWhile handle_char (u @ x # v)) \<le> length u"
    using assms by (induction u) auto
  then show ?thesis by (simp add: take_handle_def)
qed

lemma at_handles_complete:
  assumes "list_all handle_char h" "h \<noteq> []" "length h \<le> 39" "q = [] \<or> \<not> handle_char (hd q)"
    and "p = [] \<and> b \<or> p \<noteq> [] \<and> \<not> name_char (last p)"
  shows "h \<in> set (at_handles b (p @ CHR ''@'' # h @ q))"
  using assms(5)
proof (induction p arbitrary: b rule: length_induct)
  case (1 p)
  note th = take_handle_mention[OF assms(1,3,4)]
  have at: "\<not> handle_char (CHR ''@'')" by code_simp
  show ?case
  proof (cases p)
    case Nil
    then show ?thesis using 1(2) th assms(2) by (simp add: at_handles.simps(2))
  next
    case p1: (Cons c p')
    have lp: "\<not> name_char (last p)" using 1(2) p1 by simp
    define cs where "cs = p' @ CHR ''@'' # h @ q"
    have skip: "h \<in> set (at_handles False (drop (length (take_handle (u @ CHR ''@'' # h @ q))) (u @ CHR ''@'' # h @ q)))"
      if u: "p = v @ u" "v \<noteq> []" "take_handle (u @ CHR ''@'' # h @ q) \<noteq> []" for u v
    proof -
      have "u \<noteq> []" using u(3) at by (auto simp: take_handle_def)
      then have un: "u = butlast u @ [last u]" "last u = last p" using u(1) by auto
      have nh: "\<not> handle_char (last u)" using lp un(2) by (simp add: name_char_def)
      have len: "length (take_handle (u @ CHR ''@'' # h @ q)) \<le> length (butlast u)"
        using take_handle_append_stop[OF nh, of "butlast u" "CHR ''@'' # h @ q"] un(1)
        by (metis append.assoc append_Cons append_Nil)
      let ?k = "length (take_handle (u @ CHR ''@'' # h @ q))"
      have "length (butlast u) < length u" using \<open>u \<noteq> []\<close> by simp
      with len have k: "?k < length u" by (rule le_less_trans)
      then have d: "drop ?k (u @ CHR ''@'' # h @ q) = drop ?k u @ CHR ''@'' # h @ q" by simp
      have "drop ?k u \<noteq> []" "last (drop ?k u) = last p" "length (drop ?k u) < length p"
        using k un(2) u(1,2) by (auto simp: neq_Nil_conv)
      then show ?thesis using 1(1)[rule_format, of "drop ?k u" False] lp unfolding d by simp
    qed
    show ?thesis
    proof (cases "b \<and> c = CHR ''@'' \<and> take_handle cs \<noteq> []")
      case True
      have e: "at_handles b (c # cs) = take_handle cs # at_handles False (drop (length (take_handle cs)) cs)"
        using True unfolding at_handles.simps(2) by simp
      have "h \<in> set (at_handles False (drop (length (take_handle cs)) cs))"
        using skip[of "[c]" p'] p1 True unfolding cs_def by simp
      moreover have "p @ CHR ''@'' # h @ q = c # cs" by (simp add: p1 cs_def)
      ultimately show ?thesis using e by simp
    next
      case nf: False
      obtain d ds where ds: "cs = d # ds" by (cases cs) (auto simp: cs_def)
      show ?thesis
      proof (cases "\<not> name_char c \<and> d = CHR ''@'' \<and> take_handle ds \<noteq> []")
        case True
        have "h \<in> set (take_handle ds # at_handles False (drop (length (take_handle ds)) ds))"
        proof (cases p')
          case Nil
          then show ?thesis using ds th by (simp add: cs_def)
        next
          case (Cons d' u)
          then have "ds = u @ CHR ''@'' # h @ q" using ds by (simp add: cs_def)
          then show ?thesis using skip[of "[c, d']" u] True p1 Cons by simp
        qed
        moreover have "at_handles b (c # cs) =
            take_handle ds # at_handles False (drop (length (take_handle ds)) ds)"
          using True unfolding at_handles.simps(2) if_not_P[OF nf] by (auto simp: ds)
        moreover have "p @ CHR ''@'' # h @ q = c # cs" by (simp add: p1 cs_def)
        ultimately show ?thesis by simp
      next
        case nn: False
        have "at_handles b (c # cs) = at_handles False cs"
          using nn unfolding at_handles.simps(2) if_not_P[OF nf] by (auto simp: ds)
        moreover have "p @ CHR ''@'' # h @ q = c # cs" by (simp add: p1 cs_def)
        ultimately have e: "at_handles b (p @ CHR ''@'' # h @ q) = at_handles False cs" by simp
        show ?thesis
        proof (cases "p' = []")
          case True
          then show ?thesis using nn ds lp p1 th assms(2) by (auto simp: cs_def)
        next
          case False
          then have "h \<in> set (at_handles False (p' @ CHR ''@'' # h @ q))"
            using 1(1) lp p1 by (metis last_ConsR length_Cons lessI)
          then show ?thesis using e by (simp add: cs_def)
        qed
      qed
    qed
  qed
qed

lemma has_prefix_rev_iff: "name_char (CHR ''@'') = False"
  by code_simp

text \<open>The optional \<^verbatim>\<open>@\<close> of the pattern adds nothing: a match is an occurrence between boundaries.\<close>

definition standalone :: "string \<Rightarrow> string \<Rightarrow> bool" where
  "standalone h s \<longleftrightarrow>
     (\<exists>p m q. s = p @ m @ q \<and> equal_fold m h \<and> (p = [] \<or> \<not> name_char (last p)) \<and>
        (q = [] \<or> \<not> name_char (hd q)))"

lemma after_handle_iff:
  "after_handle h s \<longleftrightarrow> (\<exists>m q. s = m @ q \<and> equal_fold m h \<and> (q = [] \<or> \<not> name_char (hd q)))"
proof
  assume "after_handle h s"
  then show "\<exists>m q. s = m @ q \<and> equal_fold m h \<and> (q = [] \<or> \<not> name_char (hd q))"
    unfolding after_handle_def by (metis append_take_drop_id)
next
  assume "\<exists>m q. s = m @ q \<and> equal_fold m h \<and> (q = [] \<or> \<not> name_char (hd q))"
  then obtain m q where "s = m @ q" "equal_fold m h" "q = [] \<or> \<not> name_char (hd q)" by blast
  moreover from this(2) have "length m = length h" by (metis equal_fold_def length_to_lower)
  ultimately show "after_handle h s" by (simp add: after_handle_def)
qed

lemma ref_match_iff:
  "ref_match h s \<longleftrightarrow> (\<exists>p c r. s = p @ c # r \<and> \<not> name_char c \<and> opt_at h r)"
proof (induction s)
  case (Cons x s)
  show ?case
  proof
    assume "ref_match h (x # s)"
    then consider "\<not> name_char x" "opt_at h s" | "ref_match h s" by auto
    then show "\<exists>p c r. x # s = p @ c # r \<and> \<not> name_char c \<and> opt_at h r"
      using Cons.IH by cases (metis append_Nil, metis append_Cons)
  next
    assume "\<exists>p c r. x # s = p @ c # r \<and> \<not> name_char c \<and> opt_at h r"
    then obtain p c r where "x # s = p @ c # r" "\<not> name_char c" "opt_at h r" by blast
    then show "ref_match h (x # s)" using Cons.IH by (cases p) auto
  qed
qed simp

lemma opt_at_standalone:
  assumes "opt_at h r" and "p = [] \<or> \<not> name_char (last p)"
  shows "standalone h (p @ r)"
proof -
  from assms(1) consider "after_handle h r" | t where "r = CHR ''@'' # t" "after_handle h t"
    unfolding opt_at_def by (cases r) auto
  then show ?thesis
  proof cases
    case 1
    then show ?thesis using assms(2) unfolding after_handle_iff standalone_def by blast
  next
    case 2
    then obtain m q where "t = m @ q" "equal_fold m h" "q = [] \<or> \<not> name_char (hd q)"
      unfolding after_handle_iff by blast
    then have "p @ r = (p @ ''@'') @ m @ q \<and> \<not> name_char (last (p @ ''@''))"
      using 2 has_prefix_rev_iff by simp
    then show ?thesis
      unfolding standalone_def using \<open>equal_fold m h\<close> \<open>q = [] \<or> \<not> name_char (hd q)\<close> by blast
  qed
qed

lemma ref_contains_iff: "opt_at h s \<or> ref_match h s \<longleftrightarrow> standalone h s"
proof
  assume "opt_at h s \<or> ref_match h s"
  then show "standalone h s"
  proof
    assume "opt_at h s"
    then show ?thesis using opt_at_standalone[of h s "[]"] by simp
  next
    assume "ref_match h s"
    then obtain p c r where "s = p @ c # r" "\<not> name_char c" "opt_at h r"
      unfolding ref_match_iff by blast
    then show ?thesis using opt_at_standalone[of h r "p @ [c]"] by simp
  qed
next
  assume "standalone h s"
  then obtain p m q where s: "s = p @ m @ q" "equal_fold m h" "q = [] \<or> \<not> name_char (hd q)"
    and p: "p = [] \<or> \<not> name_char (last p)" unfolding standalone_def by blast
  then have a: "opt_at h (m @ q)" unfolding opt_at_def after_handle_iff by blast
  show "opt_at h s \<or> ref_match h s"
  proof (cases "p = []")
    case True
    then show ?thesis using a s by simp
  next
    case False
    then have "s = butlast p @ last p # m @ q" using s by simp
    then show ?thesis using a p False unfolding ref_match_iff by blast
  qed
qed

section \<open>Properties\<close>

text \<open>
  C40: \<^verbatim>\<open>MaintainerRefContains\<close> says yes exactly when the handle occurs, in any letter case,
  between characters that are not letters, digits, \<^verbatim>\<open>-\<close> or \<^verbatim>\<open>_\<close>; an empty handle is an error.
\<close>

theorem maintainer_ref_contains_spec:
  "maintainer_ref_contains s h =
     (if h = [] then Inl (Msg ''handle is empty'') else Inr (standalone h s))"
  by (simp add: maintainer_ref_contains_def ref_contains_iff)

text \<open>
  Every handle \<^verbatim>\<open>ExtractGitHubHandles\<close> returns is, up to surrounding blanks, one to 39
  lower case letters, digits and dashes; only the cells of a table can carry blanks.
\<close>

theorem extracted_handles_are_good:
  assumes "h \<in> set (extract_github_handles s)"
  shows "good_handle (trim_space h) \<and>
    (h \<notin> set (table_handles (split_char (CHR 0x0A) s)) \<longrightarrow> good_handle h)"
proof -
  have sp: "is_lower r \<or> is_digit r \<or> r = CHR ''-'' \<Longrightarrow> \<not> is_space r" for r
    by (auto simp: is_lower_def is_digit_def is_space_def less_eq_char_def)
  have trim: "trim_space g = g" if "good_handle g" for g
    unfolding trim_space_def
    using that sp by (intro trim_by_id) (auto simp: good_handle_def list_all_iff)
  have tab: "good_handle (trim_space g)" if "g \<in> set (table_handles ls)" for g ls
    using that
    by (induction ls rule: table_handles.induct)
      (auto simp: Let_def split: if_splits option.splits dest: table_rows_good)
  from assms consider "h \<in> set (table_handles (split_char (CHR 0x0A) s))" | "good_handle h"
    by (auto simp: extract_github_handles_def split: if_splits
        dest: line_handles_good at_handles_good url_handles_good)
  then show ?thesis using tab trim by cases auto
qed

text \<open>
  A mention \<^verbatim>\<open>@handle\<close> that stands at the start of the text or after a character that is no
  name character, and that a character outside \<^verbatim>\<open>[a-z0-9-]\<close> ends, is always extracted.
\<close>

theorem mentions_are_extracted:
  assumes "list_all handle_char h" "h \<noteq> []" "length h \<le> 39" "q = [] \<or> \<not> handle_char (hd q)"
    and "p = [] \<or> \<not> name_char (last p)"
  shows "to_lower h \<in> set (extract_github_handles (p @ CHR ''@'' # h @ q))"
proof -
  have "h \<in> set (at_handles True (p @ CHR ''@'' # h @ q))"
    using assms by (intro at_handles_complete) auto
  then show ?thesis by (simp add: extract_github_handles_def)
qed

text \<open>Blanks inside the back quotes of a table cell end up in the handle.\<close>

definition demo_ref :: string where
  "demo_ref = ''|GitHub|'' @ [CHR 0x0A] @ ''|-|'' @ [CHR 0x0A] @ ''|` a`|''"

lemma table_handle_keeps_blank: "extract_github_handles demo_ref = ['' a'']"
  by code_simp

theorem extracted_handles_are_good_witness:
  "extract_github_handles demo_ref = ['' a''] \<and> good_handle (trim_space '' a'') \<and> \<not> good_handle '' a''"
proof -
  have "'' a'' \<in> set (extract_github_handles demo_ref)" by (simp add: table_handle_keeps_blank)
  moreover have "\<not> good_handle '' a''" by code_simp
  ultimately show ?thesis using extracted_handles_are_good table_handle_keeps_blank by blast
qed

theorem mentions_are_extracted_witness:
  "''bob-x'' \<in> set (extract_github_handles (''(cc '' @ CHR ''@'' # ''Bob-X'' @ '')''))"
proof -
  have "to_lower ''Bob-X'' = ''bob-x''" by code_simp
  moreover have "list_all handle_char ''Bob-X''" "\<not> handle_char (hd '')'')" "\<not> name_char (last ''(cc '')"
    by code_simp+
  ultimately show ?thesis using mentions_are_extracted[of "''Bob-X''" "'')''" "''(cc ''"] by simp
qed

end
