(* ===== verification/Bff_Base.thy ===== *)
theory Bff_Base
  imports Store_Laws Ref_Parse
begin

text \<open>
  The frame of \<^verbatim>\<open>cmd/web-bff/main.go\<close>: requests, replies and JSON values, the configuration,
  the calls to the outside (clock, random numbers, OAuth, GitHub, HTTP), and the functions that
  read parameters and build parts of replies.
\<close>

section \<open>Requests and replies\<close>

record web_request =
  wq_method :: string
  wq_path :: string
  wq_query :: "(string \<times> string list) list"
  wq_cookies :: "(string \<times> string) list"
  wq_headers :: "(string \<times> string) list"
  wq_remote :: string

definition query_values :: "web_request \<Rightarrow> string \<Rightarrow> string list" where
  "query_values r key = (case map_of (wq_query r) key of None \<Rightarrow> [] | Some vs \<Rightarrow> vs)"

definition query_get :: "web_request \<Rightarrow> string \<Rightarrow> string" where
  "query_get r key = (case query_values r key of [] \<Rightarrow> [] | v # _ \<Rightarrow> v)"

definition cookie_of :: "web_request \<Rightarrow> string \<Rightarrow> string option" where
  "cookie_of r name = map_of (wq_cookies r) name"

definition header_of :: "web_request \<Rightarrow> string \<Rightarrow> string" where
  "header_of r name = (case map_of (wq_headers r) name of None \<Rightarrow> [] | Some v \<Rightarrow> v)"

datatype json =
    J_str string | J_int int | J_bool bool | J_time int | J_list "json list" | J_obj "(string \<times> json) list"

datatype body = No_Body | Text string | Json json

record cookie =
  ck_name :: string
  ck_value :: string
  ck_domain :: string
  ck_max_age :: int
  ck_secure :: bool

record reply =
  rs_status :: nat
  rs_headers :: "(string \<times> string) list"
  rs_cookies :: "cookie list"
  rs_body :: body

text \<open>\<^verbatim>\<open>http.Error\<close>, a bare status, and a JSON reply.\<close>

definition http_error :: "string \<Rightarrow> nat \<Rightarrow> reply" where
  "http_error msg code = \<lparr>rs_status = code, rs_headers = [], rs_cookies = [], rs_body = Text msg\<rparr>"

definition just_status :: "nat \<Rightarrow> reply" where
  "just_status code = \<lparr>rs_status = code, rs_headers = [], rs_cookies = [], rs_body = No_Body\<rparr>"

definition json_reply :: "json \<Rightarrow> reply" where
  "json_reply j = \<lparr>rs_status = 200, rs_headers = [(''Content-Type'', ''application/json'')], rs_cookies = [],
                  rs_body = Json j\<rparr>"

definition redirect_to :: "string \<Rightarrow> reply" where
  "redirect_to url = \<lparr>rs_status = 302, rs_headers = [(''Location'', url)], rs_cookies = [], rs_body = No_Body\<rparr>"

text \<open>Fields with \<^verbatim>\<open>omitempty\<close>.\<close>

definition omit_str :: "string \<Rightarrow> string \<Rightarrow> (string \<times> json) list" where
  "omit_str k v = (if v = [] then [] else [(k, J_str v)])"

definition omit_opt :: "string \<Rightarrow> ('a \<Rightarrow> json) \<Rightarrow> 'a option \<Rightarrow> (string \<times> json) list" where
  "omit_opt k f v = (case v of None \<Rightarrow> [] | Some x \<Rightarrow> [(k, f x)])"

definition j_nat :: "nat \<Rightarrow> json" where "j_nat n = J_int (int n)"

section \<open>Configuration and outside calls\<close>

record config =
  cf_cookie_name :: string
  cf_state_cookie :: string
  cf_web_base_url :: string
  cf_cookie_domain :: string
  cf_cookie_secure :: bool
  cf_session_ttl :: int
  cf_state_ttl :: int
  cf_web_origin :: string
  cf_test_mode :: bool
  cf_github_token :: string

text \<open>\<^verbatim>\<open>net/url\<close>: scheme, host and path of what was parsed, and the rest the code only prints.\<close>

record parsed_url =
  pu_scheme :: string
  pu_host :: string
  pu_path :: string
  pu_rest :: string

record gh_issue =
  gi_number :: int
  gi_title :: string
  gi_url :: string
  gi_is_pull :: bool

record http_answer =
  ha_status :: nat
  ha_body :: string

record 'w env =
  en_now :: "('w, int) io"
  en_random_token :: "nat \<Rightarrow> ('w, string result) io"
  en_auth_code_url :: "string \<Rightarrow> string"
  en_exchange :: "string \<Rightarrow> ('w, string result) io"
  en_github_login :: "string \<Rightarrow> ('w, string result) io"
  en_issue_title :: "string \<Rightarrow> string \<Rightarrow> int \<Rightarrow> ('w, string result) io"
  en_issues_page :: "int \<Rightarrow> ('w, (gh_issue list \<times> int) result) io"
  en_http_get :: "string \<Rightarrow> ('w, http_answer result) io"
  en_parse_url :: "string \<Rightarrow> parsed_url option"
  en_url_string :: "parsed_url \<Rightarrow> string"

section \<open>Parameters\<close>

abbreviation role_staff :: string where "role_staff \<equiv> ''staff''"
abbreviation role_maintainer :: string where "role_maintainer \<equiv> ''maintainer''"

definition parse_int_param :: "web_request \<Rightarrow> string \<Rightarrow> int \<Rightarrow> int \<Rightarrow> int \<Rightarrow> int" where
  "parse_int_param r key fallback lo hi =
     (let raw = query_get r key in
      if raw = [] then fallback
      else case atoi raw of
             None \<Rightarrow> fallback
           | Some value \<Rightarrow> if value < lo then lo else if value > hi then hi else value)"

definition parse_csv_param :: "web_request \<Rightarrow> string \<Rightarrow> string list" where
  "parse_csv_param r key =
     filter (\<lambda>i. i \<noteq> []) (map trim_space (concat (map (split_char (CHR '','')) (query_values r key))))"

definition parse_id_param :: "string \<Rightarrow> string \<Rightarrow> nat result" where
  "parse_id_param path prefix =
     (let trimmed = trim (trim_prefix path prefix) ''/'' in
      if trimmed = [] then Err (Msg ''missing id'')
      else case atoi trimmed of
             None \<Rightarrow> Err (Msg ''invalid id'')
           | Some value \<Rightarrow> if value \<le> 0 then Err (Msg ''invalid id'') else Ok (nat value))"

definition parse_maturity :: "string \<Rightarrow> maturity option" where
  "parse_maturity value =
     (let v = to_lower (trim_space value) in
      if v = ''sandbox'' then Some Sandbox
      else if v = ''incubating'' then Some Incubating
      else if v = ''graduated'' then Some Graduated
      else if v = ''archived'' then Some Archived
      else None)"

definition normalize_value :: "string \<Rightarrow> string \<Rightarrow> string" where
  "normalize_value value sent = (if value = sent then [] else value)"

definition sanitize_redirect :: "string \<Rightarrow> string" where
  "sanitize_redirect raw =
     (if raw = [] then []
      else if has_prefix raw ''/'' \<and> \<not> has_prefix raw ''//'' then raw else [])"

definition origin_from_base_url :: "'w env \<Rightarrow> string \<Rightarrow> string" where
  "origin_from_base_url E baseURL =
     (case en_parse_url E baseURL of
        None \<Rightarrow> []
      | Some p \<Rightarrow> if pu_scheme p = [] \<or> pu_host p = [] then [] else pu_scheme p @ ''://'' @ pu_host p)"

definition env_or :: "(string \<Rightarrow> string) \<Rightarrow> string \<Rightarrow> string \<Rightarrow> string" where
  "env_or getenv key fallback = (if getenv key \<noteq> [] then getenv key else fallback)"

definition parse_duration :: "(string \<Rightarrow> int option) \<Rightarrow> string \<Rightarrow> int \<Rightarrow> int" where
  "parse_duration parse raw fallback =
     (if raw = [] then fallback else case parse raw of None \<Rightarrow> fallback | Some v \<Rightarrow> v)"

text \<open>\<^verbatim>\<open>net.SplitHostPort\<close> is the parameter \<open>split_host\<close>.\<close>

definition client_ip :: "(string \<Rightarrow> string option) \<Rightarrow> web_request option \<Rightarrow> string" where
  "client_ip split_host req =
     (case req of
        None \<Rightarrow> []
      | Some r \<Rightarrow>
          let forwarded = header_of r ''X-Forwarded-For''; realIP = trim_space (header_of r ''X-Real-IP'') in
          if forwarded \<noteq> [] then trim_space (hd (split_char (CHR '','') forwarded))
          else if realIP \<noteq> [] then realIP
          else case split_host (wq_remote r) of Some host \<Rightarrow> host | None \<Rightarrow> wq_remote r)"

text \<open>\<^verbatim>\<open>strings.SplitN(part, "=", 2)\<close> is the split at the first equals sign.\<close>

definition key_value :: "string \<Rightarrow> (string \<times> string) option" where
  "key_value part =
     (if CHR ''='' \<in> set part
      then Some (takeWhile (\<lambda>c. c \<noteq> CHR ''='') part, tl (dropWhile (\<lambda>c. c \<noteq> CHR ''='') part))
      else None)"

definition dsn_values :: "string \<Rightarrow> (string, string) gomap" where
  "dsn_values dsn =
     foldl (\<lambda>m part. case key_value part of None \<Rightarrow> m | Some (k, v) \<Rightarrow> map_put k v m) [] (Go_Base.fields dsn)"

definition dsn_get :: "(string, string) gomap \<Rightarrow> string \<Rightarrow> string" where
  "dsn_get kv k = (case map_of kv k of None \<Rightarrow> [] | Some v \<Rightarrow> v)"

definition redact_postgres_dsn :: "string \<Rightarrow> string result" where
  "redact_postgres_dsn dsn =
     (let kv = dsn_values dsn; user = dsn_get kv ''user''; host = dsn_get kv ''host'';
          port = dsn_get kv ''port''; dbname = dsn_get kv ''dbname'' in
      if host = [] \<or> dbname = [] then Err (Msg ''missing host/dbname in DSN'')
      else Ok (''user='' @ user @ '' host='' @ host @ '' port='' @ (if port = [] then ''5432'' else port) @
               '' dbname='' @ dbname @ '' password=***''))"

section \<open>GitHub URLs\<close>

definition path_parts :: "parsed_url \<Rightarrow> string list" where
  "path_parts p = split_char (CHR ''/'') (trim (pu_path p) ''/'')"

definition parse_github_issue_url :: "'w env \<Rightarrow> string \<Rightarrow> (string \<times> string \<times> int) result" where
  "parse_github_issue_url E raw =
     (case en_parse_url E raw of
        None \<Rightarrow> Err (Msg ''invalid issue url'')
      | Some p \<Rightarrow>
          if pu_host p \<noteq> ''github.com'' \<and> pu_host p \<noteq> ''www.github.com''
          then Err (Msg ''issue url must be github.com'')
          else let parts = path_parts p in
            if length parts < 4 \<or> parts ! 2 \<noteq> ''issues''
            then Err (Msg ''issue url must be in form https://github.com/org/repo/issues/123'')
            else case atoi (parts ! 3) of
                   None \<Rightarrow> Err (Msg ''invalid issue number'')
                 | Some n \<Rightarrow> if n \<le> 0 then Err (Msg ''invalid issue number'')
                            else Ok (parts ! 0, parts ! 1, n))"

definition issue_number_from_url :: "'w env \<Rightarrow> string option \<Rightarrow> int option" where
  "issue_number_from_url E raw =
     (case raw of
        None \<Rightarrow> None
      | Some v0 \<Rightarrow>
          let value = trim_space v0 in
          if value = [] then None
          else case en_parse_url E value of
                 None \<Rightarrow> None
               | Some p \<Rightarrow>
                   let parts = path_parts p in
                   if length parts < 4 \<or> parts ! 2 \<noteq> ''issues'' then None
                   else case atoi (parts ! 3) of
                          None \<Rightarrow> None | Some n \<Rightarrow> if n \<le> 0 then None else Some n)"

definition parse_github_org_from_url :: "'w env \<Rightarrow> string \<Rightarrow> string result" where
  "parse_github_org_from_url E raw =
     (case en_parse_url E raw of
        None \<Rightarrow> Err (Msg ''invalid github url'')
      | Some p \<Rightarrow>
          if pu_host p \<noteq> ''github.com'' \<and> pu_host p \<noteq> ''www.github.com'' \<and>
             pu_host p \<noteq> ''raw.githubusercontent.com''
          then Err (Msg ''maintainer url must be on github.com or raw.githubusercontent.com'')
          else let parts = path_parts p in
            if length parts < 2 then Err (Msg ''maintainer url must include org and repo'')
            else Ok (parts ! 0))"

end
