(* ===== verification/Bff_Sessions.thy ===== *)
theory Bff_Sessions
  imports Bff_Base
begin

text \<open>
  Login and sessions of \<^verbatim>\<open>cmd/web-bff/main.go\<close>: the two stores behind mutexes (every method
  runs alone, so a history of the server is a sequence of operations), the OAuth handlers, and
  the middleware every API route passes.
\<close>

section \<open>The stores\<close>

record session =
  se_id :: string
  se_login :: string
  se_role :: string
  se_created :: int
  se_expires :: int

type_synonym session_store = "string \<Rightarrow> session option"

definition new_session_store :: session_store where "new_session_store = Map.empty"

definition session_set :: "session \<Rightarrow> session_store \<Rightarrow> session_store" where
  "session_set s m = m(se_id s \<mapsto> s)"

definition session_get :: "int \<Rightarrow> string \<Rightarrow> session_store \<Rightarrow> session option" where
  "session_get now i m =
     (case m i of None \<Rightarrow> None | Some s \<Rightarrow> if se_expires s < now then None else Some s)"

definition session_delete :: "string \<Rightarrow> session_store \<Rightarrow> session option \<times> session_store" where
  "session_delete i m = (case m i of None \<Rightarrow> (None, m) | Some s \<Rightarrow> (Some s, m(i := None)))"

record state_entry =
  sn_redirect :: string
  sn_expires :: int

type_synonym state_store = "string \<Rightarrow> state_entry option"

definition new_state_store :: state_store where "new_state_store = Map.empty"

definition state_set :: "string \<Rightarrow> state_entry \<Rightarrow> state_store \<Rightarrow> state_store" where
  "state_set k e m = m(k \<mapsto> e)"

definition state_consume :: "int \<Rightarrow> string \<Rightarrow> state_store \<Rightarrow> state_entry option \<times> state_store" where
  "state_consume now k m =
     (case m k of
        None \<Rightarrow> (None, m(k := None))
      | Some e \<Rightarrow> if sn_expires e < now then (None, m(k := None)) else (Some e, m(k := None)))"

section \<open>Who may log in\<close>

definition authorize_login :: "'w gorm \<Rightarrow> string \<Rightarrow> ('w, string option) io" where
  "authorize_login G login =
     (if login = [] then ret None
      else do {
        staff \<leftarrow> list_staff_members G;
        case staff of
          Inl _ \<Rightarrow> ret None
        | Inr members \<Rightarrow>
            if list_ex (\<lambda>(m, _). equal_fold (sm_github m) login) members then ret (Some role_staff)
            else do {
              ms \<leftarrow> get_maintainer_map_by_github G;
              ret (case ms of
                     Inl _ \<Rightarrow> None
                   | Inr mm \<Rightarrow>
                       if list_ex (\<lambda>(ghLogin, m). mt_github m \<noteq> [] \<and> mt_github m \<noteq> GITHUB_MISSING \<and>
                                                 equal_fold ghLogin login) mm
                       then Some role_maintainer else None) } })"

definition get_maintainer_by_login :: "'w gorm \<Rightarrow> string \<Rightarrow> ('w, maintainer result) io" where
  "get_maintainer_by_login G login =
     (if trim_space login = [] then ret (Err (Msg ''missing login''))
      else try_bind (t_first (maintainers G) (\<lambda>m. to_lower (mt_github m) = to_lower login)) (\<lambda>m.
           ret (if trim_space (mt_github m) = [] \<or> mt_github m = GITHUB_MISSING
                then Err (Msg ''maintainer has no github account'') else Ok m)))"

section \<open>Handlers\<close>

record bff =
  bf_sessions :: session_store
  bf_states :: state_store

definition session_cookie :: "config \<Rightarrow> string \<Rightarrow> int \<Rightarrow> cookie" where
  "session_cookie cf value age =
     \<lparr>ck_name = cf_cookie_name cf, ck_value = value, ck_domain = cf_cookie_domain cf,
      ck_max_age = age, ck_secure = cf_cookie_secure cf\<rparr>"

definition seconds :: "int \<Rightarrow> int" where "seconds d = d div 1000000000"

definition handle_login :: "config \<Rightarrow> 'w env \<Rightarrow> web_request \<Rightarrow> bff \<Rightarrow> ('w, reply \<times> bff) io" where
  "handle_login cf E r b =
     do { t \<leftarrow> en_random_token E 32;
          case t of
            Inl _ \<Rightarrow> ret (http_error ''failed to start login'' 500, b)
          | Inr state \<Rightarrow> do {
              now \<leftarrow> en_now E;
              let entry = \<lparr>sn_redirect = sanitize_redirect (query_get r ''next''),
                           sn_expires = now + cf_state_ttl cf\<rparr>;
              ret ((redirect_to (en_auth_code_url E state))\<lparr>rs_cookies :=
                     [\<lparr>ck_name = cf_state_cookie cf, ck_value = state, ck_domain = [],
                       ck_max_age = seconds (cf_state_ttl cf), ck_secure = cf_cookie_secure cf\<rparr>]\<rparr>,
                   b\<lparr>bf_states := state_set state entry (bf_states b)\<rparr>) } }"

definition create_session ::
  "config \<Rightarrow> 'w env \<Rightarrow> string \<Rightarrow> string \<Rightarrow> bff \<Rightarrow> ('w, (cookie \<times> bff) result) io" where
  "create_session cf E login role b =
     try_bind (en_random_token E 48) (\<lambda>sessionID.
     do { now \<leftarrow> en_now E;
          ret (Inr (session_cookie cf sessionID (seconds (cf_session_ttl cf)),
                    b\<lparr>bf_sessions := session_set \<lparr>se_id = sessionID, se_login = login, se_role = role,
                        se_created = now, se_expires = now + cf_session_ttl cf\<rparr> (bf_sessions b)\<rparr>)) })"

text \<open>The second half of the callback: the code is exchanged and the user let in or not.\<close>

definition finish_login ::
  "config \<Rightarrow> 'w env \<Rightarrow> 'w gorm \<Rightarrow> string \<Rightarrow> state_entry \<Rightarrow> bff \<Rightarrow> ('w, reply \<times> bff) io" where
  "finish_login cf E G code entry b =
     do { token \<leftarrow> en_exchange E code;
          case token of
            Inl _ \<Rightarrow> ret (http_error ''failed to exchange oauth code'' 400, b)
          | Inr tok \<Rightarrow> do {
              u \<leftarrow> en_github_login E tok;
              case u of
                Inl _ \<Rightarrow> ret (http_error ''failed to fetch github user'' 502, b)
              | Inr ghLogin \<Rightarrow> do {
                  let login = to_lower ghLogin;
                  auth \<leftarrow> authorize_login G login;
                  case auth of
                    None \<Rightarrow> ret (http_error ''unauthorized'' 403, b)
                  | Some role \<Rightarrow> do {
                      s \<leftarrow> create_session cf E login role b;
                      ret (case s of
                             Inl _ \<Rightarrow> (http_error ''failed to establish session'' 500, b)
                           | Inr (ck, b') \<Rightarrow>
                               ((redirect_to (if sn_redirect entry = [] then cf_web_base_url cf
                                              else cf_web_base_url cf @ sn_redirect entry))\<lparr>rs_cookies := [ck]\<rparr>,
                                b')) } } } }"

definition handle_callback ::
  "config \<Rightarrow> 'w env \<Rightarrow> 'w gorm \<Rightarrow> web_request \<Rightarrow> bff \<Rightarrow> ('w, reply \<times> bff) io" where
  "handle_callback cf E G r b =
     (let state = query_get r ''state''; code = query_get r ''code'' in
      if state = [] \<or> code = [] then ret (http_error ''missing oauth parameters'' 400, b)
      else if cookie_of r (cf_state_cookie cf) \<noteq> Some state
      then ret (http_error ''invalid oauth state'' 400, b)
      else do {
        now \<leftarrow> en_now E;
        let (entry, states') = state_consume now state (bf_states b);
        let b' = b\<lparr>bf_states := states'\<rparr>;
        case entry of
          None \<Rightarrow> ret (http_error ''oauth state expired'' 400, b')
        | Some e \<Rightarrow> finish_login cf E G code e b' })"

definition handle_test_login ::
  "config \<Rightarrow> 'w env \<Rightarrow> 'w gorm \<Rightarrow> web_request \<Rightarrow> bff \<Rightarrow> ('w, reply \<times> bff) io" where
  "handle_test_login cf E G r b =
     (if \<not> cf_test_mode cf then ret (http_error ''404 page not found'' 404, b)
      else if wq_method r = ''OPTIONS'' then ret (just_status 204, b)
      else let login = trim_space (query_get r ''login'') in
        if login = [] then ret (http_error ''missing login'' 400, b)
        else do {
          auth \<leftarrow> authorize_login G login;
          case auth of
            None \<Rightarrow> ret (http_error ''unauthorized'' 403, b)
          | Some role \<Rightarrow> do {
              s \<leftarrow> create_session cf E login role b;
              ret (case s of
                     Inl _ \<Rightarrow> (http_error ''failed to create session'' 500, b)
                   | Inr (ck, b') \<Rightarrow>
                       ((json_reply (J_obj [(''status'', J_str ''ok'')]))\<lparr>rs_cookies := [ck]\<rparr>, b')) } })"

definition handle_logout :: "config \<Rightarrow> web_request \<Rightarrow> bff \<Rightarrow> reply \<times> bff" where
  "handle_logout cf r b =
     (if wq_method r = ''OPTIONS'' then (just_status 204, b)
      else let b' = (case cookie_of r (cf_cookie_name cf) of
                       None \<Rightarrow> b
                     | Some v \<Rightarrow> b\<lparr>bf_sessions := snd (session_delete v (bf_sessions b))\<rparr>)
           in ((just_status 204)\<lparr>rs_cookies := [session_cookie cf [] (- 1)]\<rparr>, b'))"

definition handle_me :: "'w gorm \<Rightarrow> session option \<Rightarrow> ('w, reply) io" where
  "handle_me G sess =
     (case sess of
        None \<Rightarrow> ret (http_error ''unauthorized'' 401)
      | Some s \<Rightarrow>
          let base = [(''login'', J_str (se_login s)), (''role'', J_str (se_role s))] in
          if se_role s = role_maintainer
          then do {
            m \<leftarrow> get_maintainer_by_login G (se_login s);
            ret (json_reply (J_obj (base @ (case m of
                   Inl _ \<Rightarrow> [] | Inr mt \<Rightarrow> [(''maintainerId'', j_nat (row_id mt))])))) }
          else ret (json_reply (J_obj base)))"

text \<open>The middleware.\<close>

definition cors_headers :: "config \<Rightarrow> (string \<times> string) list" where
  "cors_headers cf =
     (if cf_web_origin cf = [] then []
      else [(''Access-Control-Allow-Origin'', cf_web_origin cf),
            (''Access-Control-Allow-Credentials'', ''true''), (''Vary'', ''Origin'')])"

definition with_cors ::
  "config \<Rightarrow> (web_request \<Rightarrow> 's \<Rightarrow> ('w, reply \<times> 's) io) \<Rightarrow> web_request \<Rightarrow> 's \<Rightarrow> ('w, reply \<times> 's) io" where
  "with_cors cf next_handler r s =
     (if wq_method r = ''OPTIONS''
      then ret ((just_status 204)\<lparr>rs_headers := cors_headers cf @
             [(''Access-Control-Allow-Methods'', ''GET,POST,PATCH,OPTIONS''),
              (''Access-Control-Allow-Headers'', ''Content-Type'')]\<rparr>, s)
      else do { (rep, s') \<leftarrow> next_handler r s;
                ret (rep\<lparr>rs_headers := cors_headers cf @ rs_headers rep\<rparr>, s') })"

definition require_session ::
  "config \<Rightarrow> 'w env \<Rightarrow> session_store \<Rightarrow> (session \<Rightarrow> web_request \<Rightarrow> ('w, reply) io) \<Rightarrow> web_request \<Rightarrow>
   ('w, reply) io" where
  "require_session cf E sessions next_handler r =
     (case cookie_of r (cf_cookie_name cf) of
        None \<Rightarrow> ret (http_error ''unauthorized'' 401)
      | Some v \<Rightarrow> do {
          now \<leftarrow> en_now E;
          case session_get now v sessions of
            None \<Rightarrow> ret (http_error ''unauthorized'' 401)
          | Some sess \<Rightarrow> next_handler sess r })"

end
