(* ===== verification/Store_Reads.thy ===== *)
theory Store_Reads
  imports Sql_Store
begin

text \<open>
  What the loading methods of the store answer: indexed maps, and rows with their associations.
  The lemmas are shared by the login of the web application and by the sync job.
\<close>

section \<open>Indexing\<close>

lemma map_put_set: "(k, v) \<in> set (map_put k' v' m) \<Longrightarrow> (k, v) = (k', v') \<or> (k, v) \<in> set m"
  by (induction m) (auto split: if_splits)

lemma map_index_set: "(k, v) \<in> set (map_index f xs) \<Longrightarrow> v \<in> set xs \<and> k = f v"
proof -
  have "(k, v) \<in> set (foldl (\<lambda>m x. map_put (f x) x m) m0 xs) \<Longrightarrow>
      (k, v) \<in> set m0 \<or> v \<in> set xs \<and> k = f v" for m0
    by (induction xs arbitrary: m0) (auto dest: map_put_set)
  from this[of "[]"] show "(k, v) \<in> set (map_index f xs) \<Longrightarrow> v \<in> set xs \<and> k = f v"
    by (simp add: map_index_def)
qed

text \<open>An index of a set of values: one entry per key, with a value of that key.\<close>

definition map_indexes :: "('v \<Rightarrow> 'k) \<Rightarrow> ('k, 'v) gomap \<Rightarrow> 'v set \<Rightarrow> bool" where
  "map_indexes f m vs \<longleftrightarrow>
     distinct (map fst m) \<and> set (map snd m) \<subseteq> vs \<and> (\<forall>(k, v) \<in> set m. k = f v) \<and> fst ` set m = f ` vs"

lemma map_put_keys:
  "map fst (map_put k v m) = (if k \<in> fst ` set m then map fst m else map fst m @ [k])"
  by (induction m) (force simp: image_iff)+

lemma map_indexes_index: "map_indexes f (map_index f xs) (set xs)"
proof -
  have "distinct (map fst (foldl (\<lambda>m x. map_put (f x) x m) m0 xs)) \<and>
      fst ` set (foldl (\<lambda>m x. map_put (f x) x m) m0 xs) = fst ` set m0 \<union> f ` set xs"
    if "distinct (map fst m0)" for m0
    using that
  proof (induction xs arbitrary: m0)
    case (Cons x xs)
    have "fst ` set (map_put (f x) x m0) = insert (f x) (fst ` set m0)"
      using arg_cong[OF map_put_keys[of "f x" x m0], of set] by auto
    then show ?case using Cons by (simp add: map_put_keys)
  qed simp
  from this[of "[]"] show ?thesis
    by (auto simp: map_indexes_def map_index_def[symmetric] dest: map_index_set)
qed

section \<open>Loading\<close>

context gorm_db
begin

lemma preload_foundations_Ok:
  "run_state (preload_foundations G ss) w = (Inr r, w') \<Longrightarrow> tabs w' = tabs w \<and> map fst r = ss"
  by (induction ss arbitrary: w r)
    (auto split: prod.splits sum.splits dest!: fo.find_tabs)

lemma list_staff_members_Ok:
  assumes "run_state (list_staff_members G) w = (Inr r, w')"
  shows "tabs w' = tabs w \<and> fst ` set r = set (tb_staff (cur (tabs w)))"
proof -
  obtain ss w1 where f: "run_state (t_find (staff_members G) (\<lambda>_. True)) w = (Inr ss, w1)"
    and p: "run_state (preload_foundations G ss) w1 = (Inr r, w')"
    using assms unfolding list_staff_members_def by (elim run_try_OkE)
  show ?thesis using sm.find_Ok[OF f] sm.find_set[OF f] preload_foundations_Ok[OF p]
    by (auto simp flip: list.set_map)
qed

lemma preload_companies_Ok:
  "run_state (preload_companies G ms) w = (Inr r, w') \<Longrightarrow>
   tabs w' = tabs w \<and> r = map (\<lambda>m. with_company (company_of (cur (tabs w)) m) m) ms"
proof (induction ms arbitrary: w r)
  case (Cons m ms)
  obtain c w1 r' where c: "run_state (load_company G m) w = (Inr c, w1)"
    and r': "run_state (preload_companies G ms) w1 = (Inr r', w')" and r: "r = with_company c m # r'"
    using Cons.prems by (auto split: prod.splits sum.splits)
  show ?case using Cons.IH[OF r'] load_company_Ok[OF c] r by simp
qed simp

lemma preload_maintainers_Ok:
  "run_state (preload_maintainers G ps) w = (Inr r, w') \<Longrightarrow> tabs w' = tabs w \<and>
     list_all2 (\<lambda>p lp. \<exists>ms. lp = with_associations ms [] p \<and>
       mset ms = mset (maintainers_of (cur (tabs w)) (row_id p))) ps r"
proof (induction ps arbitrary: w r)
  case (Cons p ps)
  obtain ms w1 r' where ms: "run_state (load_maintainers G (row_id p)) w = (Inr ms, w1)"
    and r': "run_state (preload_maintainers G ps) w1 = (Inr r', w')" and r: "r = with_associations ms [] p # r'"
    using Cons.prems by (auto split: prod.splits sum.splits)
  show ?case using Cons.IH[OF r'] load_maintainers_Ok[OF ms] r by auto
qed simp

text \<open>
  \<^verbatim>\<open>GetProjectsUsingService\<close> on the rows a join gives while no team is deleted: as many times as the
  project has teams of the service, each with its maintainers.
\<close>

definition rows_joined :: "tables \<Rightarrow> nat \<Rightarrow> project list" where
  "rows_joined d sid =
     concat (map (\<lambda>t. filter (\<lambda>p. row_id p = st_project_id t) (tb_projects d))
       (filter (\<lambda>t. st_service_id t = sid) (tb_service_teams d)))"

lemma projects_using_service_Ok:
  assumes "\<And>w ps w'. run_state (joined sid) w = (Inr ps, w') \<Longrightarrow>
      tabs w' = tabs w \<and> mset ps = mset (rows_joined (cur (tabs w)) sid)"
    and "run_state (get_projects_using_service G joined sid) w = (Inr r, w')"
  shows "\<exists>ps. mset ps = mset (rows_joined (cur (tabs w)) sid) \<and>
    list_all2 (\<lambda>p lp. \<exists>ms. lp = with_associations ms [] p \<and>
       mset ms = mset (maintainers_of (cur (tabs w)) (row_id p))) ps r"
proof -
  obtain ps w1 where j: "run_state (joined sid) w = (Inr ps, w1)"
    and p: "run_state (preload_maintainers G ps) w1 = (Inr r, w')"
    using assms(2) unfolding get_projects_using_service_def by (elim run_try_OkE)
  show ?thesis using assms(1)[OF j] preload_maintainers_Ok[OF p] by auto
qed

lemma project_map_by_name_Ok:
  assumes "run_state (get_project_map_by_name G) w = (Inr mm, w')"
  shows "tabs w' = tabs w \<and> (\<exists>lps. map_indexes pr_name mm (set lps) \<and>
    (\<forall>lp \<in> set lps. \<exists>p \<in> set (tb_projects (cur (tabs w))). \<exists>ms. lp = with_associations ms [] p \<and>
       mset ms = mset (maintainers_of (cur (tabs w)) (row_id p))) \<and>
    pr_name ` set lps = pr_name ` set (tb_projects (cur (tabs w))))"
proof -
  obtain ps w1 r where f: "run_state (t_find (projects G) (\<lambda>_. True)) w = (Inr ps, w1)"
    and p: "run_state (preload_maintainers G ps) w1 = (Inr r, w')" and mm: "mm = map_index pr_name r"
    using assms unfolding get_project_map_by_name_def by (elim run_try_OkE) auto
  note l = preload_maintainers_Ok[OF p]
  have t: "tabs w1 = tabs w" and ps: "set ps = set (tb_projects (cur (tabs w)))"
    using pr.find_Ok[OF f] pr.find_set[OF f] by auto
  have n: "map pr_name r = map pr_name ps"
    using l[THEN conjunct2] by (induction rule: list_all2_induct) (auto simp: with_associations_def project.defs)
  have el: "\<exists>p \<in> set ps. \<exists>ms. lp = with_associations ms [] p \<and>
       mset ms = mset (maintainers_of (cur (tabs w)) (row_id p))" if "lp \<in> set r" for lp
  proof -
    obtain i where i: "i < length r" "lp = r ! i" using \<open>lp \<in> set r\<close> by (auto simp: in_set_conv_nth)
    moreover have "length ps = length r" using l[THEN conjunct2] by (rule list_all2_lengthD)
    ultimately have "ps ! i \<in> set ps" and "\<exists>ms. lp = with_associations ms [] (ps ! i) \<and>
       mset ms = mset (maintainers_of (cur (tabs w)) (row_id (ps ! i)))"
      using list_all2_nthD[OF l[THEN conjunct2], of i] t by auto
    then show ?thesis by blast
  qed
  have "pr_name ` set r = pr_name ` set ps" using n by (metis list.set_map)
  moreover have "tabs w' = tabs w" using l t by simp
  ultimately show ?thesis
    using map_indexes_index[of pr_name r] el unfolding mm ps by blast
qed

lemma maintainer_map_by_email_Ok:
  assumes "run_state (get_maintainer_map_by_email G) w = (Inr mm, w')"
  shows "tabs w' = tabs w \<and> map_indexes mt_email mm
    ((\<lambda>m. with_company (company_of (cur (tabs w)) m) m) ` set (tb_maintainers (cur (tabs w))))"
proof -
  obtain ms w1 r where f: "run_state (t_find (maintainers G) (\<lambda>_. True)) w = (Inr ms, w1)"
    and p: "run_state (preload_companies G ms) w1 = (Inr r, w')" and mm: "mm = map_index mt_email r"
    using assms unfolding get_maintainer_map_by_email_def by (elim run_try_OkE) auto
  show ?thesis using mt.find_Ok[OF f] mt.find_set[OF f] preload_companies_Ok[OF p] map_indexes_index[of mt_email r]
    unfolding mm by simp
qed

end

end
