(* ===== verification/Bff_Session_Laws.thy ===== *)
theory Bff_Session_Laws
  imports Bff_Sessions Store_Reads
begin

text \<open>
  What login and sessions guarantee, over every history of the two stores and of the login
  handlers.
\<close>

section \<open>Histories of the stores\<close>

datatype state_op = Put_State string state_entry | Take_State int string

fun state_step :: "state_op \<Rightarrow> state_store \<Rightarrow> state_store" where
  "state_step (Put_State k e) m = state_set k e m"
| "state_step (Take_State t k) m = snd (state_consume t k m)"

lemma state_consume_gone: "snd (state_consume t k m) k = None"
  by (auto simp: state_consume_def split: option.splits)

lemma state_consume_other: "k' \<noteq> k \<Longrightarrow> snd (state_consume t k m) k' = m k'"
  by (auto simp: state_consume_def split: option.splits)

lemma state_stays_gone:
  "m k = None \<Longrightarrow> \<forall>e. Put_State k e \<notin> set ops \<Longrightarrow> fold state_step ops m k = None"
proof (induction ops arbitrary: m)
  case (Cons op ops)
  have "state_step op m k = None"
  proof (cases op)
    case (Put_State k' e)
    then show ?thesis using Cons.prems by (auto simp: state_set_def)
  next
    case (Take_State t k')
    then show ?thesis using Cons.prems(1) state_consume_gone state_consume_other
      by (cases "k' = k") auto
  qed
  then show ?case using Cons by simp
qed simp

datatype session_op = Put_Session session | Drop_Session string

fun session_step :: "session_op \<Rightarrow> session_store \<Rightarrow> session_store" where
  "session_step (Put_Session s) m = session_set s m"
| "session_step (Drop_Session i) m = snd (session_delete i m)"

text \<open>An operation that says what the store holds under a key.\<close>

fun about :: "string \<Rightarrow> session_op \<Rightarrow> bool" where
  "about i (Put_Session s) = (se_id s = i)"
| "about i (Drop_Session j) = (j = i)"

lemma session_step_about:
  "session_step op m i = (if about i op then (case op of Put_Session s \<Rightarrow> Some s | Drop_Session _ \<Rightarrow> None) else m i)"
  by (cases op) (auto simp: session_set_def session_delete_def split: option.splits)

lemma session_history:
  "fold session_step ops Map.empty i = Some s \<longleftrightarrow>
     (\<exists>pre post. ops = pre @ Put_Session s # post \<and> se_id s = i \<and> (\<forall>op \<in> set post. \<not> about i op))"
proof (induction ops rule: rev_induct)
  case (snoc op ops)
  have f: "fold session_step (ops @ [op]) Map.empty i = session_step op (fold session_step ops Map.empty) i"
    by simp
  show ?case
  proof (cases "about i op")
    case True
    show ?thesis
    proof
      assume "fold session_step (ops @ [op]) Map.empty i = Some s"
      then have "op = Put_Session s" using True unfolding f session_step_about
        by (cases op) auto
      then show "\<exists>pre post. ops @ [op] = pre @ Put_Session s # post \<and> se_id s = i \<and> (\<forall>op \<in> set post. \<not> about i op)"
        using True by (intro exI[of _ ops] exI[of _ "[]"]) auto
    next
      assume "\<exists>pre post. ops @ [op] = pre @ Put_Session s # post \<and> se_id s = i \<and> (\<forall>op \<in> set post. \<not> about i op)"
      then obtain pre post where "ops @ [op] = pre @ Put_Session s # post" "\<forall>op \<in> set post. \<not> about i op"
        by blast
      then have "op = Put_Session s" using True by (cases post rule: rev_cases) auto
      then show "fold session_step (ops @ [op]) Map.empty i = Some s"
        using True unfolding f session_step_about by simp
    qed
  next
    case False
    have "(\<exists>pre post. ops @ [op] = pre @ Put_Session s # post \<and> se_id s = i \<and> (\<forall>op \<in> set post. \<not> about i op))
      \<longleftrightarrow> (\<exists>pre post. ops = pre @ Put_Session s # post \<and> se_id s = i \<and> (\<forall>op \<in> set post. \<not> about i op))"
      (is "?L \<longleftrightarrow> ?R")
    proof
      assume ?L
      then obtain pre post where p: "ops @ [op] = pre @ Put_Session s # post" "se_id s = i"
        "\<forall>op \<in> set post. \<not> about i op" by blast
      then show ?R using False
        by (cases post rule: rev_cases) auto
    next
      assume ?R
      then obtain pre post where "ops = pre @ Put_Session s # post" "se_id s = i"
        "\<forall>op \<in> set post. \<not> about i op" by blast
      then show ?L using False by (intro exI[of _ pre] exI[of _ "post @ [op]"]) auto
    qed
    then show ?thesis using snoc False unfolding f session_step_about by simp
  qed
qed simp

section \<open>Who is let in\<close>

context gorm_db
begin

lemma maintainer_map_by_github_Ok:
  assumes "run_state (get_maintainer_map_by_github G) w = (Inr mm, w')" and "(k, m) \<in> set mm"
  shows "k = mt_github m \<and> k \<in> mt_github ` set (tb_maintainers (cur (tabs w)))"
proof -
  obtain ms w1 r where f: "run_state (t_find (maintainers G) (\<lambda>_. True)) w = (Inr ms, w1)"
    and p: "run_state (preload_companies G ms) w1 = (Inr r, w')" and mm: "mm = map_index mt_github r"
    using assms(1) unfolding get_maintainer_map_by_github_def by (elim run_try_OkE) auto
  have "m \<in> set r" "k = mt_github m" using map_index_set assms(2) mm by fastforce+
  moreover have "set ms = set (tb_maintainers (cur (tabs w)))" using mt.find_set[OF f] by simp
  moreover have "mt_github ` set r = mt_github ` set ms"
    using preload_companies_Ok[OF p] by (auto simp: image_iff)
  ultimately show ?thesis by (metis imageI)
qed

lemma authorize_login_sound:
  assumes "run_state (authorize_login G login) w = (Some role, w')"
  shows "login \<noteq> [] \<and>
    (if \<exists>s \<in> set (tb_staff (cur (tabs w))). equal_fold (sm_github s) login
     then role = role_staff
     else role = role_maintainer \<and>
       (\<exists>h \<in> mt_github ` set (tb_maintainers (cur (tabs w))).
          equal_fold h login \<and> h \<noteq> [] \<and> h \<noteq> GITHUB_MISSING))"
proof -
  have ne: "login \<noteq> []" using assms by (auto simp: authorize_login_def)
  obtain x w1 where x: "run_state (list_staff_members G) w = (x, w1)" by (metis prod.collapse)
  with assms ne obtain r where r: "x = Inr r" by (cases x) (auto simp: authorize_login_def)
  have s: "tabs w1 = tabs w" "fst ` set r = set (tb_staff (cur (tabs w)))"
    using list_staff_members_Ok x r by blast+
  have st: "list_ex (\<lambda>(m, _). equal_fold (sm_github m) login) r \<longleftrightarrow>
      (\<exists>s \<in> set (tb_staff (cur (tabs w))). equal_fold (sm_github s) login)"
    unfolding s(2)[symmetric] by (force simp: list_ex_iff)
  show ?thesis
  proof (cases "list_ex (\<lambda>(m, _). equal_fold (sm_github m) login) r")
    case True
    then show ?thesis using assms ne x r st by (auto simp: authorize_login_def)
  next
    case False
    obtain y w2 where y: "run_state (get_maintainer_map_by_github G) w1 = (y, w2)" by (metis prod.collapse)
    with assms ne x r False obtain mm k m where mm: "y = Inr mm" and km: "(k, m) \<in> set mm"
      and c: "mt_github m \<noteq> []" "mt_github m \<noteq> GITHUB_MISSING" "equal_fold k login" "role = role_maintainer"
      by (cases y) (auto simp: authorize_login_def list_ex_iff split: if_splits)
    have "k = mt_github m" "k \<in> mt_github ` set (tb_maintainers (cur (tabs w)))"
      using maintainer_map_by_github_Ok[of w1 mm w2 k m] y mm km s(1) by auto
    then show ?thesis using c ne False st by auto
  qed
qed

end

section \<open>Histories of the login handlers\<close>

definition safe_redirect :: "string \<Rightarrow> bool" where
  "safe_redirect p \<longleftrightarrow> p = [] \<or> (has_prefix p ''/'' \<and> \<not> has_prefix p ''//'')"

definition states_safe :: "bff \<Rightarrow> bool" where
  "states_safe b \<longleftrightarrow> (\<forall>k e. bf_states b k = Some e \<longrightarrow> safe_redirect (sn_redirect e))"

inductive bff_step :: "config \<Rightarrow> 'w env \<Rightarrow> 'w gorm \<Rightarrow> bff \<times> 'w \<Rightarrow> bff \<times> 'w \<Rightarrow> bool" for cf E G where
  login: "run_state (handle_login cf E r b) w = ((rep, b'), w') \<Longrightarrow> bff_step cf E G (b, w) (b', w')"
| callback: "run_state (handle_callback cf E G r b) w = ((rep, b'), w') \<Longrightarrow> bff_step cf E G (b, w) (b', w')"
| test_login: "run_state (handle_test_login cf E G r b) w = ((rep, b'), w') \<Longrightarrow> bff_step cf E G (b, w) (b', w')"
| logout: "handle_logout cf r b = (rep, b') \<Longrightarrow> bff_step cf E G (b, w) (b', w)"
| elsewhere: "bff_step cf E G (b, w) (b, w')"

lemma create_session_states:
  "run_state (create_session cf E login role b) w = (Inr (ck, b'), w') \<Longrightarrow> bf_states b' = bf_states b"
  by (auto simp: create_session_def split: prod.splits sum.splits)

lemma finish_login_states:
  "run_state (finish_login cf E G code e b) w = ((rep, b'), w') \<Longrightarrow> bf_states b' = bf_states b"
  by (auto simp: finish_login_def Let_def split: prod.splits sum.splits option.splits
      dest!: create_session_states)

lemma callback_states:
  assumes "run_state (handle_callback cf E G r b) w = ((rep, b'), w')" and "bf_states b' k = Some e"
  shows "bf_states b k = Some e"
proof (cases "query_get r ''state'' = [] \<or> query_get r ''code'' = [] \<or>
    cookie_of r (cf_state_cookie cf) \<noteq> Some (query_get r ''state'')")
  case True
  then show ?thesis using assms by (auto simp: handle_callback_def Let_def split: if_splits)
next
  case False
  obtain now w1 where now: "run_state (en_now E) w = (now, w1)" by (metis prod.collapse)
  obtain x m where c: "state_consume now (query_get r ''state'') (bf_states b) = (x, m)" by (metis prod.collapse)
  have "bf_states b' = m"
    using assms(1) False now c
    by (cases x) (auto simp: handle_callback_def Let_def dest!: finish_login_states)
  moreover have "m k = Some e \<Longrightarrow> bf_states b k = Some e"
    using c by (auto simp: state_consume_def split: option.splits if_splits)
  ultimately show ?thesis using assms(2) by simp
qed

lemma sanitize_safe: "safe_redirect (sanitize_redirect raw)"
  by (simp add: safe_redirect_def sanitize_redirect_def)

lemma bff_step_safe: "bff_step cf E G x y \<Longrightarrow> states_safe (fst x) \<Longrightarrow> states_safe (fst y)"
proof (induction rule: bff_step.induct)
  case (login r b w rep b' w')
  then show ?case
    by (auto simp: handle_login_def Let_def states_safe_def state_set_def sanitize_safe
        split: prod.splits sum.splits if_splits)
next
  case (callback r b w rep b' w')
  then show ?case using callback_states unfolding states_safe_def by fastforce
next
  case (test_login r b w rep b' w')
  then have "bf_states b' = bf_states b"
    by (auto simp: handle_test_login_def Let_def split: if_splits prod.splits option.splits sum.splits
        dest!: create_session_states)
  then show ?case using test_login by (simp add: states_safe_def)
next
  case (logout r b rep b' w)
  then show ?case by (auto simp: handle_logout_def Let_def states_safe_def split: if_splits option.splits)
qed simp

lemma bff_reachable_safe: "(bff_step cf E G)\<^sup>*\<^sup>* x y \<Longrightarrow> states_safe (fst x) \<Longrightarrow> states_safe (fst y)"
  by (induction rule: rtranclp_induct) (auto dest: bff_step_safe)

text \<open>A run of the callback that opens a session, taken apart.\<close>

lemma finish_login_session:
  assumes "run_state (finish_login cf E G code e b) w = ((rep, b'), w')"
    and "bf_sessions b' \<noteq> bf_sessions b"
  obtains tok ghLogin role w1 w2 w3 w4 where
    "run_state (en_exchange E code) w = (Inr tok, w1)"
    "run_state (en_github_login E tok) w1 = (Inr ghLogin, w2)"
    "run_state (authorize_login G (to_lower ghLogin)) w2 = (Some role, w3)"
    "rs_status rep = 302"
    "rs_headers rep = [(''Location'', cf_web_base_url cf @ sn_redirect e)]"
    "\<exists>s. bf_sessions b' = session_set s (bf_sessions b) \<and> se_login s = to_lower ghLogin \<and> se_role s = role"
proof -
  obtain t w1 where t: "run_state (en_exchange E code) w = (t, w1)" by (metis prod.collapse)
  with assms obtain tok where tok: "t = Inr tok" by (cases t) (auto simp: finish_login_def)
  obtain u w2 where u: "run_state (en_github_login E tok) w1 = (u, w2)" by (metis prod.collapse)
  with assms t tok obtain gh where gh: "u = Inr gh" by (cases u) (auto simp: finish_login_def)
  obtain a w3 where a: "run_state (authorize_login G (to_lower gh)) w2 = (a, w3)" by (metis prod.collapse)
  with assms t tok u gh obtain role where role: "a = Some role"
    by (cases a) (auto simp: finish_login_def Let_def)
  obtain c w4 where c: "run_state (create_session cf E (to_lower gh) role b) w3 = (c, w4)" by (metis prod.collapse)
  with assms t tok u gh a role obtain ck b1 where ck: "c = Inr (ck, b1)"
    by (cases c) (auto simp: finish_login_def Let_def)
  have res: "b' = b1" "rep = (redirect_to (if sn_redirect e = [] then cf_web_base_url cf
                                else cf_web_base_url cf @ sn_redirect e))\<lparr>rs_cookies := [ck]\<rparr>"
    using assms t tok u gh a role c ck by (auto simp: finish_login_def Let_def)
  have s: "\<exists>s. bf_sessions b1 = session_set s (bf_sessions b) \<and> se_login s = to_lower gh \<and> se_role s = role"
    using c ck by (auto simp: create_session_def split: prod.splits sum.splits)
  show thesis
    by (rule that[of tok w1 gh w2 role w3])
      (use t tok u gh a role res s in \<open>auto simp: redirect_to_def\<close>)
qed

lemma callback_session:
  assumes "run_state (handle_callback cf E G r b) w = ((rep, b'), w')"
    and "bf_sessions b' \<noteq> bf_sessions b"
  obtains now w1 e m where
    "query_get r ''state'' \<noteq> []" "cookie_of r (cf_state_cookie cf) = Some (query_get r ''state'')"
    "bf_states b (query_get r ''state'') = Some e" "now \<le> sn_expires e"
    "bf_states b' (query_get r ''state'') = None"
    "run_state (en_now E) w = (now, w1)"
    "run_state (finish_login cf E G (query_get r ''code'') e (b\<lparr>bf_states := m\<rparr>)) w1 = ((rep, b'), w')"
proof -
  let ?st = "query_get r ''state''"
  have c: "?st \<noteq> []" "query_get r ''code'' \<noteq> []" "cookie_of r (cf_state_cookie cf) = Some ?st"
    using assms by (auto simp: handle_callback_def Let_def split: if_splits)
  obtain now w1 where now: "run_state (en_now E) w = (now, w1)" by (metis prod.collapse)
  obtain x m where m: "state_consume now ?st (bf_states b) = (x, m)" by (metis prod.collapse)
  with assms c now obtain e where e: "x = Some e"
    by (cases x) (auto simp: handle_callback_def Let_def)
  have f: "run_state (finish_login cf E G (query_get r ''code'') e (b\<lparr>bf_states := m\<rparr>)) w1 = ((rep, b'), w')"
    using assms c now m e by (auto simp: handle_callback_def Let_def)
  have "bf_states b' = m" using finish_login_states[OF f] by simp
  moreover have "m ?st = None" "bf_states b ?st = Some e" "now \<le> sn_expires e"
    using m e by (auto simp: state_consume_def split: option.splits if_splits)
  ultimately show thesis using that[OF c(1,3) _ _ _ now f] by simp
qed

lemma finish_login_found:
  assumes "run_state (finish_login cf E G code e b) w = ((rep, b'), w')" and "rs_status rep = 302"
  shows "rs_headers rep = [(''Location'', cf_web_base_url cf @ sn_redirect e)]"
  using assms
  by (auto simp: finish_login_def Let_def http_error_def redirect_to_def
      split: prod.splits sum.splits option.splits)

lemma callback_found:
  assumes "run_state (handle_callback cf E G r b) w = ((rep, b'), w')" and "rs_status rep = 302"
  shows "\<exists>k e. bf_states b k = Some e \<and>
    rs_headers rep = [(''Location'', cf_web_base_url cf @ sn_redirect e)]"
proof -
  let ?st = "query_get r ''state''"
  have c: "\<not> (?st = [] \<or> query_get r ''code'' = [])" "cookie_of r (cf_state_cookie cf) = Some ?st"
    using assms by (auto simp: handle_callback_def Let_def http_error_def split: if_splits)
  obtain now w1 where now: "run_state (en_now E) w = (now, w1)" by (metis prod.collapse)
  obtain x m where m: "state_consume now ?st (bf_states b) = (x, m)" by (metis prod.collapse)
  with assms c now obtain e where e: "x = Some e"
    by (cases x) (auto simp: handle_callback_def Let_def http_error_def)
  have f: "run_state (finish_login cf E G (query_get r ''code'') e (b\<lparr>bf_states := m\<rparr>)) w1 = ((rep, b'), w')"
    using assms c now m e by (auto simp: handle_callback_def Let_def)
  have "bf_states b ?st = Some e"
    using m e by (auto simp: state_consume_def split: option.splits if_splits)
  then show ?thesis using finish_login_found[OF f assms(2)] by blast
qed

section \<open>Properties\<close>

text \<open>
  C11: an OAuth state is good for one callback: once it has been presented, whether it was
  accepted or not, no later callback accepts it, whatever logins and callbacks come in
  between, unless a login issues the same token again.
\<close>

theorem oauth_state_is_single_use:
  assumes "\<forall>e. Put_State k e \<notin> set ops"
  shows "fst (state_consume t' k (fold state_step ops (snd (state_consume t k m)))) = None"
proof -
  have "fold state_step ops (snd (state_consume t k m)) k = None"
    by (rule state_stays_gone[OF state_consume_gone assms])
  then show ?thesis by (simp add: state_consume_def[of t'])
qed

theorem oauth_state_is_single_use_witness:
  "fst (state_consume 1 ''k'' (state_set ''k'' \<lparr>sn_redirect = [], sn_expires = 9\<rparr> Map.empty)) \<noteq> None \<and>
   fst (state_consume 2 ''k'' (fold state_step [Put_State ''j'' \<lparr>sn_redirect = [], sn_expires = 9\<rparr>, Take_State 3 ''j'']
     (snd (state_consume 1 ''k'' (state_set ''k'' \<lparr>sn_redirect = [], sn_expires = 9\<rparr> Map.empty))))) = None"
  using oauth_state_is_single_use[of "''k''"
      "[Put_State ''j'' \<lparr>sn_redirect = [], sn_expires = 9\<rparr>, Take_State 3 ''j'']"]
  by (auto simp: state_set_def state_consume_def)

text \<open>
  C12: a session is returned for an id exactly when it is the last one stored under that id, no
  logout of the id came after, and it has not expired.
\<close>

theorem session_get_after_history:
  "session_get now i (fold session_step ops new_session_store) = Some s \<longleftrightarrow>
     now \<le> se_expires s \<and>
     (\<exists>pre post. ops = pre @ Put_Session s # post \<and> se_id s = i \<and> (\<forall>op \<in> set post. \<not> about i op))"
  unfolding new_session_store_def session_history[symmetric]
  by (auto simp: session_get_def not_less split: option.splits)

theorem session_get_after_history_witness:
  "session_get 5 ''i'' (fold session_step [Put_Session \<lparr>se_id = ''i'', se_login = ''l'', se_role = ''staff'',
       se_created = 0, se_expires = 9\<rparr>, Drop_Session ''j''] new_session_store) \<noteq> None"
proof -
  let ?s = "\<lparr>se_id = ''i'', se_login = ''l'', se_role = ''staff'', se_created = 0, se_expires = 9\<rparr>"
  have "\<exists>pre post. [Put_Session ?s, Drop_Session ''j''] = pre @ Put_Session ?s # post \<and> se_id ?s = ''i'' \<and>
      (\<forall>op \<in> set post. \<not> about ''i'' op)"
    by (intro exI[of _ "[]"] exI[of _ "[Drop_Session ''j'']"]) simp
  then show ?thesis
    using session_get_after_history[of 5 "''i''" "[Put_Session ?s, Drop_Session ''j'']" ?s] by simp
qed


definition demo_config :: config where
  "demo_config = \<lparr>cf_cookie_name = ''md_session'', cf_state_cookie = ''md_oauth_state'',
     cf_web_base_url = ''http://w'', cf_cookie_domain = [], cf_cookie_secure = True,
     cf_session_ttl = 100, cf_state_ttl = 50, cf_web_origin = ''http://w'', cf_test_mode = False,
     cf_github_token = []\<rparr>"

definition demo_env :: "mem_world env" where
  "demo_env = \<lparr>en_now = State (\<lambda>w. (mw_now w, w)),
     en_random_token = (\<lambda>n. ret (Inr (if n = 48 then ''sid'' else ''st''))),
     en_auth_code_url = (\<lambda>s. ''http://gh?state='' @ s), en_exchange = (\<lambda>c. ret (Inr c)),
     en_github_login = (\<lambda>t. ret (Inr ''SamStaff'')), en_issue_title = (\<lambda>_ _ _. ret (Inr ''t'')),
     en_issues_page = (\<lambda>_. ret (Inr ([], 0))), en_http_get = (\<lambda>_. ret (Inl (Msg ''down''))),
     en_parse_url = (\<lambda>_. None), en_url_string = pu_path\<rparr>"

definition demo_bff :: bff where
  "demo_bff = \<lparr>bf_sessions = new_session_store,
     bf_states = [''st'' \<mapsto> \<lparr>sn_redirect = ''/p'', sn_expires = 40\<rparr>]\<rparr>"

definition demo_callback :: web_request where
  "demo_callback = \<lparr>wq_method = ''GET'', wq_path = ''/auth/callback'',
     wq_query = [(''state'', [''st'']), (''code'', [''c''])], wq_cookies = [(''md_oauth_state'', ''st'')],
     wq_headers = [], wq_remote = []\<rparr>"


text \<open>
  C10: from an empty start, whatever logins, callbacks and logouts have happened, a callback
  that redirects sends the browser to the configured site followed by nothing or by a path
  that begins with one slash: no login can be made to end on another site.
\<close>

theorem login_redirect_stays_on_site:
  assumes "(bff_step cf E G)\<^sup>*\<^sup>* (\<lparr>bf_sessions = new_session_store, bf_states = new_state_store\<rparr>, w0) (b, w)"
    and "run_state (handle_callback cf E G r b) w = ((rep, b'), w')" and "rs_status rep = 302"
  shows "\<exists>p. safe_redirect p \<and> rs_headers rep = [(''Location'', cf_web_base_url cf @ p)]"
proof -
  have "states_safe b"
    using bff_reachable_safe[OF assms(1)] by (simp add: states_safe_def new_state_store_def)
  then show ?thesis using callback_found[OF assms(2,3)] unfolding states_safe_def by blast
qed

theorem login_redirect_stays_on_site_witness:
  "\<exists>p rep. fst (fst (run_state (handle_callback demo_config demo_env mem_gorm demo_callback
        (snd (fst (run_state (handle_login demo_config demo_env
           (demo_callback\<lparr>wq_query := [(''next'', [''//evil''])]\<rparr>)
           \<lparr>bf_sessions = new_session_store, bf_states = new_state_store\<rparr>) demo_world)))) demo_world)) = rep \<and>
     rs_headers rep = [(''Location'', ''http://w'' @ p)] \<and> safe_redirect p"
proof -
  let ?start = "\<lparr>bf_sessions = new_session_store, bf_states = new_state_store\<rparr>"
  let ?l = "run_state (handle_login demo_config demo_env
           (demo_callback\<lparr>wq_query := [(''next'', [''//evil''])]\<rparr>) ?start) demo_world"
  let ?b = "snd (fst ?l)"
  let ?x = "run_state (handle_callback demo_config demo_env mem_gorm demo_callback ?b) demo_world"
  have l: "?l = ((fst (fst ?l), ?b), snd ?l)" by simp
  have "bff_step demo_config demo_env mem_gorm (?start, demo_world) (?b, snd ?l)"
    by (rule bff_step.login[OF l])
  moreover have "snd ?l = demo_world"
    by (simp add: handle_login_def demo_env_def Let_def)
  ultimately have st: "(bff_step demo_config demo_env mem_gorm)\<^sup>*\<^sup>* (?start, demo_world) (?b, demo_world)"
    by (simp add: r_into_rtranclp)
  have r: "?x = ((fst (fst ?x), snd (fst ?x)), snd ?x)" by simp
  have "rs_status (fst (fst ?x)) = 302" by code_simp
  from login_redirect_stays_on_site[OF st r this] show ?thesis
    by (auto simp: demo_config_def)
qed

text \<open>
  \<^verbatim>\<open>authorizeLogin\<close> gives the role \<^verbatim>\<open>staff\<close> only to the GitHub account of a staff member and
  the role \<^verbatim>\<open>maintainer\<close> only to an account of a maintainer that is not missing, both in any
  letter case; a staff member is never let in as a maintainer.
\<close>

theorem only_known_accounts_are_authorized:
  assumes "gorm_db G tabs" and "run_state (authorize_login G login) w = (Some role, w')"
  shows "login \<noteq> [] \<and>
    (if \<exists>s \<in> set (tb_staff (cur (tabs w))). equal_fold (sm_github s) login
     then role = role_staff
     else role = role_maintainer \<and>
       (\<exists>h \<in> mt_github ` set (tb_maintainers (cur (tabs w))).
          equal_fold h login \<and> h \<noteq> [] \<and> h \<noteq> GITHUB_MISSING))"
  by (rule gorm_db.authorize_login_sound[OF assms])

theorem only_known_accounts_are_authorized_witness:
  "fst (run_state (authorize_login mem_gorm ''BOB-x'') demo_world) = Some role_maintainer \<and>
   (\<exists>h \<in> mt_github ` set (tb_maintainers demo_tables). equal_fold h ''BOB-x'')"
proof -
  have f: "fst (run_state (authorize_login mem_gorm ''BOB-x'') demo_world) = Some role_maintainer"
    by code_simp
  have c: "cur (mw_db demo_world) = demo_tables" by (simp add: demo_world_def)
  show ?thesis
    using only_known_accounts_are_authorized[OF mem.gorm_db_axioms run_eqI[OF f]] f
    unfolding c by (auto split: if_splits)
qed

text \<open>
  Behind \<^verbatim>\<open>requireSession\<close> a handler runs only with a stored session that has not expired;
  otherwise the answer is 401 and nothing the handler could do happens.
\<close>

theorem no_session_no_handler:
  assumes "run_state (en_now E) w = (now, w1)"
    and "\<forall>v. cookie_of r (cf_cookie_name cf) = Some v \<longrightarrow> session_get now v sessions = None"
  shows "fst (run_state (require_session cf E sessions h r) w) = http_error ''unauthorized'' 401 \<and>
    run_state (require_session cf E sessions h r) w = run_state (require_session cf E sessions h' r) w"
  using assms by (auto simp: require_session_def split: option.splits)

theorem no_session_no_handler_witness:
  "fst (run_state (require_session demo_config demo_env new_session_store (\<lambda>_ _. ret (just_status 200))
     demo_callback) demo_world) = http_error ''unauthorized'' 401"
proof -
  have n: "run_state (en_now demo_env) demo_world = (7, demo_world)"
    by (simp add: demo_env_def demo_world_def)
  have "\<forall>v. cookie_of demo_callback (cf_cookie_name demo_config) = Some v \<longrightarrow> session_get 7 v new_session_store = None"
    by (simp add: session_get_def new_session_store_def)
  from no_session_no_handler[OF n this] show ?thesis by blast
qed

end
