(* ===== verification/Bff_Routes.thy ===== *)
theory Bff_Routes
  imports Bff_Session_Laws
begin

text \<open>
  \<^verbatim>\<open>main\<close> of \<^verbatim>\<open>cmd/web-bff/main.go\<close>: the settings, and the table of routes with what is
  wrapped around each handler.  \<^verbatim>\<open>http.ServeMux\<close> is part of Go's library and is written out for
  patterns without methods, hosts and wildcards.
\<close>

section \<open>Settings\<close>

record bff_settings =
  bg_config :: config
  bg_addr :: string
  bg_driver :: string
  bg_dsn :: string
  bg_client_id :: string
  bg_client_secret :: string
  bg_redirect_url :: string

text \<open>\<open>Inl\<close> is \<^verbatim>\<open>logger.Fatal\<close>.\<close>

definition bff_settings_of ::
  "'w env \<Rightarrow> (string \<Rightarrow> int option) \<Rightarrow> (string \<Rightarrow> string) \<Rightarrow> bff_settings result" where
  "bff_settings_of E duration getenv =
     (let dbDriver = env_or getenv ''MD_DB_DRIVER'' ''sqlite''; dbDSN = env_or getenv ''MD_DB_DSN'' [];
          webBaseURL = env_or getenv ''WEB_APP_BASE_URL'' ''http://localhost:3000'';
          redirectURL = env_or getenv ''GITHUB_OAUTH_REDIRECT_URL'' ''http://localhost:8000/auth/callback'';
          testMode = (env_or getenv ''BFF_TEST_MODE'' [] = ''true'');
          clientID = getenv ''GITHUB_OAUTH_CLIENT_ID''; clientSecret = getenv ''GITHUB_OAUTH_CLIENT_SECRET'' in
      if \<not> testMode \<and> (clientID = [] \<or> clientSecret = [])
      then Inl (Msg ''web-bff: GITHUB_OAUTH_CLIENT_ID and GITHUB_OAUTH_CLIENT_SECRET must be set'')
      else if dbDriver = ''postgres'' \<and> dbDSN = []
      then Inl (Msg ''web-bff: MD_DB_DSN is required when MD_DB_DRIVER=postgres'')
      else case en_parse_url E redirectURL of
        None \<Rightarrow> Inl (Msg ''web-bff: invalid GITHUB_OAUTH_REDIRECT_URL'')
      | Some u \<Rightarrow> Inr
          \<lparr>bg_config =
             \<lparr>cf_cookie_name = env_or getenv ''SESSION_COOKIE_NAME'' ''md_session'',
              cf_state_cookie = env_or getenv ''OAUTH_STATE_COOKIE_NAME'' ''md_oauth_state'',
              cf_web_base_url = trim_right webBaseURL ''/'',
              cf_cookie_domain = getenv ''SESSION_COOKIE_DOMAIN'',
              cf_cookie_secure = (env_or getenv ''SESSION_COOKIE_SECURE'' [] = ''true'' \<or> pu_scheme u = ''https''),
              cf_session_ttl = parse_duration duration (env_or getenv ''SESSION_TTL'' []) 28800000000000,
              cf_state_ttl = 600000000000,
              cf_web_origin = origin_from_base_url E webBaseURL,
              cf_test_mode = testMode,
              cf_github_token = trim_space (getenv ''GITHUB_API_TOKEN'')\<rparr>,
           bg_addr = env_or getenv ''BFF_ADDR'' '':8000'', bg_driver = dbDriver,
           bg_dsn = (if dbDriver = ''postgres'' then dbDSN else env_or getenv ''MD_DB_PATH'' ''/data/onboarding.db''),
           bg_client_id = (if testMode \<and> clientID = [] then ''test-client'' else clientID),
           bg_client_secret = (if testMode \<and> clientSecret = [] then ''test-secret'' else clientSecret),
           bg_redirect_url = redirectURL\<rparr>)"

text \<open>In test mode the two calls to GitHub are replaced.\<close>

definition main_env :: "config \<Rightarrow> 'w env \<Rightarrow> 'w env" where
  "main_env cf E =
     (if cf_test_mode cf
      then E\<lparr>en_issue_title := (\<lambda>_ _ _. ret (Inr ''[PROJECT ONBOARDING] KubeElasti'')),
             en_issues_page := (\<lambda>_. ret (Inr ([\<lparr>gi_number = 123, gi_title = ''[PROJECT ONBOARDING] KubeElasti'',
                gi_url = ''https://github.com/cncf/sandbox/issues/123'', gi_is_pull = False\<rparr>], 0)))\<rparr>
      else E)"

section \<open>The multiplexer\<close>

datatype route =
    Health | Login | Callback | Test_login | Logout | Me | Projects | Recent_projects | Project | Search
  | Maintainers_status | Maintainers_from_ref | Maintainer | Audit | Companies_merge | Companies | Company
  | Onboarding_resolve | Onboarding_issues | Api_other

definition routes :: "(string \<times> route) list" where
  "routes =
     [(''/healthz'', Health), (''/auth/login'', Login), (''/auth/callback'', Callback),
      (''/auth/test-login'', Test_login), (''/auth/logout'', Logout), (''/api/me'', Me),
      (''/api/projects'', Projects), (''/api/projects/recent'', Recent_projects), (''/api/projects/'', Project),
      (''/api/search'', Search), (''/api/maintainers/status'', Maintainers_status),
      (''/api/maintainers/from-ref'', Maintainers_from_ref), (''/api/maintainers/'', Maintainer),
      (''/api/audit'', Audit), (''/api/companies/merge'', Companies_merge), (''/api/companies'', Companies),
      (''/api/companies/'', Company), (''/api/onboarding/resolve'', Onboarding_resolve),
      (''/api/onboarding/issues'', Onboarding_issues), (''/api/'', Api_other)]"

text \<open>\<^verbatim>\<open>cleanPath\<close>: no empty segments, no dots; a slash at the end stays.\<close>

definition clean_path :: "string \<Rightarrow> string" where
  "clean_path p =
     (let segs = foldl (\<lambda>acc s. if s = [] \<or> s = ''.'' then acc else if s = ''..'' then butlast acc else acc @ [s])
                   [] (split_char (CHR ''/'') p);
          np = CHR ''/'' # join segs ''/'' in
      if p \<noteq> [] \<and> last p = CHR ''/'' \<and> np \<noteq> ''/'' then np @ ''/'' else np)"

text \<open>A pattern that ends in a slash matches what it is a prefix of; the longest one wins.\<close>

definition pattern_matches :: "string \<Rightarrow> string \<Rightarrow> bool" where
  "pattern_matches path pat = (if has_suffix pat ''/'' then has_prefix path pat else path = pat)"

definition mux_match :: "(string \<times> 'r) list \<Rightarrow> string \<Rightarrow> 'r option" where
  "mux_match table path =
     (case rev (sort_key (\<lambda>x. length (fst x)) (filter (\<lambda>x. pattern_matches path (fst x)) table)) of
        [] \<Rightarrow> None | (_, r) # _ \<Rightarrow> Some r)"

datatype 'r muxed = Not_found | Moved string | Found 'r

text \<open>
  A path that no pattern spells out goes to the same path with a slash when a pattern is that; then
  a path that is not clean goes to the clean one.  \<^verbatim>\<open>CONNECT\<close> paths are not cleaned.
\<close>

definition mux :: "(string \<times> 'r) list \<Rightarrow> string \<Rightarrow> string \<Rightarrow> 'r muxed" where
  "mux table method path0 =
     (let path = (if method = ''CONNECT'' then path0 else clean_path path0) in
      if path \<notin> fst ` set table \<and> \<not> has_suffix path ''/'' \<and> path @ ''/'' \<in> fst ` set table
      then Moved (path @ ''/'')
      else if path \<noteq> path0 then Moved path
      else case mux_match table path of None \<Rightarrow> Not_found | Some r \<Rightarrow> Found r)"

section \<open>The wrapped handlers\<close>

definition open_route :: "route \<Rightarrow> bool" where
  "open_route rt \<longleftrightarrow> rt \<in> {Health, Login, Callback, Test_login, Logout}"

text \<open>
  \<open>sessions\<close> is the session store in the memory of the process, \<open>h\<close> the handlers; those behind
  \<^verbatim>\<open>requireSession\<close> are given the session, the others none.
\<close>

definition guarded ::
  "config \<Rightarrow> 'w env \<Rightarrow> ('w \<Rightarrow> session_store) \<Rightarrow> (session \<Rightarrow> web_request \<Rightarrow> ('w, reply) io) \<Rightarrow> web_request \<Rightarrow>
   ('w, reply) io" where
  "guarded cf E sessions h r = State (\<lambda>w. run_state (require_session cf E (sessions w) h r) w)"

definition cors_of :: "config \<Rightarrow> (web_request \<Rightarrow> ('w, reply) io) \<Rightarrow> web_request \<Rightarrow> ('w, reply) io" where
  "cors_of cf h r =
     do { (rep, _) \<leftarrow> with_cors cf (\<lambda>r _. do { rep \<leftarrow> h r; ret (rep, ()) }) r (); ret rep }"

definition serve_health :: "web_request \<Rightarrow> ('w, reply) io" where
  "serve_health r = ret (just_status 200)"

definition route_handler ::
  "config \<Rightarrow> 'w env \<Rightarrow> ('w \<Rightarrow> session_store) \<Rightarrow> (route \<Rightarrow> session option \<Rightarrow> web_request \<Rightarrow> ('w, reply) io) \<Rightarrow>
   route \<Rightarrow> web_request \<Rightarrow> ('w, reply) io" where
  "route_handler cf E sessions h rt r =
     (if rt = Health then serve_health r
      else if rt = Login \<or> rt = Callback then h rt None r
      else if rt = Test_login \<or> rt = Logout then cors_of cf (h rt None) r
      else cors_of cf (guarded cf E sessions (\<lambda>s. h rt (Some s))) r)"

definition bff_serve ::
  "config \<Rightarrow> 'w env \<Rightarrow> ('w \<Rightarrow> session_store) \<Rightarrow> (route \<Rightarrow> session option \<Rightarrow> web_request \<Rightarrow> ('w, reply) io) \<Rightarrow>
   web_request \<Rightarrow> ('w, reply) io" where
  "bff_serve cf E sessions h r =
     (case mux routes (wq_method r) (wq_path r) of
        Not_found \<Rightarrow> ret (http_error ''404 page not found'' 404)
      | Moved p \<Rightarrow> ret ((redirect_to p)\<lparr>rs_status := 301\<rparr>)
      | Found rt \<Rightarrow> route_handler cf E sessions h rt r)"

section \<open>No way around the session\<close>

lemma mux_match_in:
  "mux_match table path = Some r \<Longrightarrow> \<exists>pat. (pat, r) \<in> set table \<and> pattern_matches path pat"
proof -
  assume m: "mux_match table path = Some r"
  let ?l = "sort_key (\<lambda>x. length (fst x)) (filter (\<lambda>x. pattern_matches path (fst x)) table)"
  obtain x xs where l: "rev ?l = x # xs" and r: "r = snd x" using m
    by (auto simp: mux_match_def split: list.splits)
  have "x \<in> set (rev ?l)" unfolding l by simp
  then have "x \<in> set table" "pattern_matches path (fst x)" by auto
  then show ?thesis using r by (metis prod.collapse)
qed

lemma api_route_guarded:
  assumes "has_prefix path ''/api/''" and "mux routes method path = Found rt"
  shows "\<not> open_route rt"
proof -
  from assms(2) have "mux_match routes path = Some rt"
    by (auto simp: mux_def Let_def split: if_splits option.splits)
  from mux_match_in[OF this] obtain pat where p: "(pat, rt) \<in> set routes" "pattern_matches path pat" by blast
  have "(pat, rt) \<in> set (filter (\<lambda>x. open_route (snd x)) routes)" if "open_route rt" using p that by simp
  moreover have "list_all (\<lambda>x. \<not> has_suffix (fst x) ''/'' \<and> \<not> has_prefix (fst x) ''/api/'')
      (filter (\<lambda>x. open_route (snd x)) routes)" by code_simp
  ultimately have "\<not> has_suffix pat ''/'' \<and> \<not> has_prefix pat ''/api/''" if "open_route rt"
    using that by (fastforce simp: list_all_iff)
  then show ?thesis using p(2) assms(1) by (auto simp: pattern_matches_def)
qed

text \<open>
  C19: no request under \<^verbatim>\<open>/api/\<close> gets past the session check, however its path is spelled and
  whatever its method: without a live session the answer does not depend on the handlers, nothing a
  handler could do happens, and it is a redirect to a spelling of the path, the reply to a preflight
  request, or 401.
\<close>

theorem every_api_route_needs_a_session:
  assumes "has_prefix (wq_path r) ''/api/''" and "run_state (en_now E) w = (now, w1)"
    and "\<forall>v. cookie_of r (cf_cookie_name cf) = Some v \<longrightarrow> session_get now v (sessions w) = None"
  shows "run_state (bff_serve cf E sessions h r) w = run_state (bff_serve cf E sessions h' r) w \<and>
    rs_status (fst (run_state (bff_serve cf E sessions h r) w)) \<in> {204, 301, 401, 404}"
proof (cases "mux routes (wq_method r) (wq_path r)")
  case (Found rt)
  have g: "run_state (require_session cf E (sessions w) k r) w = run_state (require_session cf E (sessions w) k' r) w"
    "fst (run_state (require_session cf E (sessions w) k r) w) = http_error ''unauthorized'' 401" for k k'
    using assms(2,3) by (auto simp: require_session_def split: option.splits)
  have "bff_serve cf E sessions h r = cors_of cf (guarded cf E sessions (\<lambda>s. h rt (Some s))) r" for h
    using api_route_guarded[OF assms(1) Found] Found
    by (auto simp: bff_serve_def route_handler_def open_route_def)
  note serve = this
  obtain w2 where h: "run_state (require_session cf E (sessions w) (\<lambda>s. h rt (Some s)) r) w = (http_error ''unauthorized'' 401, w2)"
    using g(2) by (metis prod.collapse)
  then have h': "run_state (require_session cf E (sessions w) (\<lambda>s. h' rt (Some s)) r) w = (http_error ''unauthorized'' 401, w2)"
    using g(1) by metis
  show ?thesis
    unfolding serve by (simp add: cors_of_def with_cors_def guarded_def just_status_def http_error_def h h'[unfolded http_error_def]
        h[unfolded http_error_def])
qed (simp_all add: bff_serve_def http_error_def redirect_to_def)

theorem every_api_route_needs_a_session_witness:
  "run_state (bff_serve demo_config demo_env (\<lambda>_. new_session_store) (\<lambda>_ _ _. ret (just_status 200))
     (demo_callback\<lparr>wq_path := ''/api/companies/merge''\<rparr>)) demo_world =
   run_state (bff_serve demo_config demo_env (\<lambda>_. new_session_store) (\<lambda>_ _ _. ret (just_status 500))
     (demo_callback\<lparr>wq_path := ''/api/companies/merge''\<rparr>)) demo_world"
proof -
  let ?r = "demo_callback\<lparr>wq_path := ''/api/companies/merge''\<rparr>"
  have p: "has_prefix (wq_path ?r) ''/api/''" by (simp add: has_prefix_def)
  have n: "run_state (en_now demo_env) demo_world = (7, demo_world)"
    by (simp add: demo_env_def demo_world_def)
  have s: "\<forall>v. cookie_of ?r (cf_cookie_name demo_config) = Some v \<longrightarrow> session_get 7 v new_session_store = None"
    by (simp add: session_get_def new_session_store_def)
  show ?thesis
    by (rule every_api_route_needs_a_session[where sessions = "\<lambda>_. new_session_store", OF p n s, THEN conjunct1])
qed

end
