(* ===== verification/Bff_Ref.thy ===== *)
theory Bff_Ref
  imports Bff_Base
begin

text \<open>
  The part of \<^verbatim>\<open>cmd/web-bff/main.go\<close> that compares the maintainers of a project with the text
  of its maintainers file, and summarises maintainers for replies.
\<close>

section \<open>Summaries\<close>

definition shown_github :: "'z maintainer_scheme \<Rightarrow> string" where
  "shown_github m = normalize_value (trim_space (mt_github m)) GITHUB_MISSING"

definition summary_key :: "'z maintainer_scheme \<Rightarrow> string" where
  "summary_key m = trim_space (mt_name m) @ ''|'' @ shown_github m"

text \<open>The maintainers listed: not the empty key, and only the first of each key.\<close>

fun first_of_key :: "string list \<Rightarrow> 'z maintainer_scheme list \<Rightarrow> 'z maintainer_scheme list" where
  "first_of_key seen [] = []"
| "first_of_key seen (m # ms) =
     (let key = summary_key m in
      if key = ''|'' then first_of_key seen ms
      else if key \<in> set seen then first_of_key seen ms
      else m # first_of_key (key # seen) ms)"

definition summary_json :: "'z maintainer_scheme \<Rightarrow> json" where
  "summary_json m = J_obj [(''id'', j_nat (row_id m)), (''name'', J_str (trim_space (mt_name m))),
                           (''github'', J_str (shown_github m))]"

definition summarize_maintainers :: "'z maintainer_scheme list \<Rightarrow> json list" where
  "summarize_maintainers ms = map summary_json (first_of_key [] ms)"

definition detail_json :: "(nat \<Rightarrow> bool) \<Rightarrow> loaded_maintainer \<Rightarrow> json" where
  "detail_json refMatches m =
     J_obj ([(''id'', j_nat (row_id m)), (''name'', J_str (trim_space (mt_name m))),
             (''github'', J_str (shown_github m)), (''inMaintainerRef'', J_bool (refMatches (row_id m))),
             (''status'', J_str (mt_status m))] @
            omit_str ''company'' (trim_space (co_name (mt_company m))))"

definition summarize_maintainer_details :: "loaded_maintainer list \<Rightarrow> (nat \<Rightarrow> bool) \<Rightarrow> json list" where
  "summarize_maintainer_details ms refMatches = map (detail_json refMatches) (first_of_key [] ms)"

section \<open>Fetching the file\<close>

definition rewrite_maintainer_ref_url :: "'w env \<Rightarrow> string \<Rightarrow> string result" where
  "rewrite_maintainer_ref_url E refURL =
     (case en_parse_url E refURL of
        None \<Rightarrow> Err (Msg ''invalid maintainer ref url'')
      | Some p \<Rightarrow>
          if pu_scheme p \<noteq> ''http'' \<and> pu_scheme p \<noteq> ''https'' then Err (Msg ''invalid maintainer ref url'')
          else let parts = path_parts p in
            Ok (en_url_string E
              (if equal_fold (pu_host p) ''github.com'' \<and> 5 \<le> length parts \<and> parts ! 2 = ''blob''
               then p\<lparr>pu_host := ''raw.githubusercontent.com'',
                      pu_path := ''/'' @ parts ! 0 @ ''/'' @ parts ! 1 @ ''/'' @ parts ! 3 @ ''/'' @
                                 join (drop 4 parts) ''/''\<rparr>
               else p)))"

definition fetch_maintainer_ref :: "'w env \<Rightarrow> string \<Rightarrow> ('w, string result) io" where
  "fetch_maintainer_ref E refURL =
     (case rewrite_maintainer_ref_url E refURL of
        Inl _ \<Rightarrow> ret (Err (Msg ''invalid maintainer ref url''))
      | Inr rewritten \<Rightarrow>
          try_bind (en_http_get E rewritten) (\<lambda>a.
          ret (if ha_status a \<noteq> 200 then Err (Msg (''unexpected status '' @ itoa (int (ha_status a))))
               else Ok (take (2 ^ 20) (ha_body a)))))"

section \<open>Comparing\<close>

definition has_account :: "'z maintainer_scheme \<Rightarrow> bool" where
  "has_account m \<longleftrightarrow> trim_space (mt_github m) \<noteq> [] \<and> trim_space (mt_github m) \<noteq> GITHUB_MISSING"

definition build_maintainer_ref_matches :: "string \<Rightarrow> 'z maintainer_scheme list \<Rightarrow> nat \<Rightarrow> bool" where
  "build_maintainer_ref_matches refBody ms i \<longleftrightarrow>
     refBody \<noteq> [] \<and>
     list_ex (\<lambda>m. row_id m = i \<and> has_account m \<and>
                  maintainer_ref_contains refBody (trim_space (mt_github m)) = Inr True) ms"

definition build_maintainer_ref_only :: "string \<Rightarrow> 'z maintainer_scheme list \<Rightarrow> string list" where
  "build_maintainer_ref_only refBody ms =
     (let internal = map (\<lambda>m. to_lower (trim_space (mt_github m))) (filter has_account ms)
      in sort (remdups (filter (\<lambda>h. h \<notin> set internal) (extract_github_handles refBody))))"

text \<open>
  The line a handle was first found on.  The function has copies of the closures of package refparse,
  with the same text; \<open>header_match\<close>, \<open>is_separator_row\<close>, \<open>parse_row\<close> and \<open>is_valid_handle\<close> stand for both.
\<close>

definition put_line :: "string \<Rightarrow> string \<Rightarrow> (string, string) gomap \<Rightarrow> (string, string) gomap" where
  "put_line line handle m = (if map_of m handle = None then m @ [(handle, trim_space line)] else m)"

fun table_row_lines ::
  "nat \<Rightarrow> string list \<Rightarrow> (string, string) gomap \<Rightarrow> (string, string) gomap" where
  "table_row_lines idx [] m = m"
| "table_row_lines idx (line # rest) m =
     (let cells = parse_row line in
      if cells = [] \<or> is_separator_row cells then m
      else if length cells \<le> idx then table_row_lines idx rest m
      else if trim_space (cells ! idx) = [] then table_row_lines idx rest m
      else if \<not> is_valid_handle (clean_cell (cells ! idx)) then table_row_lines idx rest m
      else table_row_lines idx rest (put_line line (to_lower (clean_cell (cells ! idx))) m))"

fun table_lines :: "string list \<Rightarrow> (string, string) gomap \<Rightarrow> (string, string) gomap" where
  "table_lines (header # separator # rest) m =
     (let cells = parse_row header; sep = parse_row separator in
      if cells = [] \<or> sep = [] \<or> \<not> is_separator_row sep then table_lines (separator # rest) m
      else case find_index header_match cells of
             None \<Rightarrow> table_lines (separator # rest) m
           | Some idx \<Rightarrow> table_lines rest (table_row_lines idx rest m))"
| "table_lines _ m = m"

definition handles_of_line :: "string \<Rightarrow> string list" where
  "handles_of_line line =
     map to_lower (at_handles True line) @ map to_lower (url_handles line) @ line_handles line"

definition build_maintainer_ref_lines :: "string \<Rightarrow> (string, string) gomap" where
  "build_maintainer_ref_lines refBody =
     (let lines = split_char (CHR 0x0A) refBody in
      foldl (\<lambda>m line. foldl (\<lambda>m h. put_line line h m) m (handles_of_line line)) (table_lines lines []) lines)"

section \<open>Every extracted handle has a line, and every line a handle\<close>

definition keys :: "(string, string) gomap \<Rightarrow> string set" where "keys m = fst ` set m"

lemma keys_put_line: "keys (put_line l h m) = insert h (keys m)"
  by (auto simp: keys_def put_line_def map_of_eq_None_iff dest: map_of_SomeD intro: rev_image_eqI)

lemma keys_put_lines: "keys (foldl (\<lambda>m h. put_line l h m) m hs) = set hs \<union> keys m"
  by (induction hs arbitrary: m) (auto simp: keys_put_line)

lemma keys_table_row_lines: "keys (table_row_lines idx ls m) = set (table_rows idx ls) \<union> keys m"
  by (induction idx ls m rule: table_row_lines.induct) (auto simp: Let_def keys_put_line)

lemma keys_table_lines: "keys (table_lines ls m) = set (table_handles ls) \<union> keys m"
  by (induction ls m rule: table_lines.induct)
    (auto simp: Let_def keys_table_row_lines split: option.splits)

lemma keys_fold_lines:
  "keys (foldl (\<lambda>m line. foldl (\<lambda>m h. put_line line h m) m (f line)) m ls) =
     (\<Union>l \<in> set ls. set (f l)) \<union> keys m"
  by (induction ls arbitrary: m) (auto simp: keys_put_lines)

text \<open>The matchers work line by line.\<close>

lemma nl_not_handle: "\<not> handle_char (CHR 0x0A)" "\<not> name_char (CHR 0x0A)"
  by code_simp+

lemma take_handle_nl: "take_handle (u @ CHR 0x0A # v) = take_handle u"
proof -
  have "takeWhile handle_char (u @ CHR 0x0A # v) = takeWhile handle_char u"
    using nl_not_handle(1) by (induction u) auto
  then show ?thesis by (simp add: take_handle_def)
qed

lemma drop_take_handle_nl:
  "drop (length (take_handle u)) (u @ CHR 0x0A # v) = drop (length (take_handle u)) u @ CHR 0x0A # v"
  by (simp add: length_take_handle)

lemma at_handles_nl:
  "CHR 0x0A \<notin> set u \<Longrightarrow> at_handles b (u @ CHR 0x0A # v) = at_handles b u @ at_handles True v"
proof (induction u arbitrary: b rule: length_induct)
  case (1 u)
  show ?case
  proof (cases u)
    case Nil
    then show ?thesis
      by (cases v) (auto simp: at_handles.simps(2) nl_not_handle)
  next
    case (Cons c cs)
    have IH: "at_handles False (t @ CHR 0x0A # v) = at_handles False t @ at_handles True v"
      if "length t < length u" "set t \<subseteq> set u" for t
      using 1(1)[rule_format, of t False] that 1(2) by auto
    have IHd: "at_handles False (drop k t @ CHR 0x0A # v) = at_handles False (drop k t) @ at_handles True v"
      if "length t < length u" "set t \<subseteq> set u" for k t
      using that by (intro IH) (auto dest: in_set_dropD)
    show ?thesis
    proof (cases "b \<and> c = CHR ''@'' \<and> take_handle cs \<noteq> []")
      case True
      then show ?thesis
        using IHd[of cs "length (take_handle cs)"] Cons
        by (auto simp: at_handles.simps(2) take_handle_nl length_take_handle)
    next
      case nf: False
      show ?thesis
      proof (cases cs)
        case Nil
        have "take_handle [] = []" by (simp add: take_handle_def)
        moreover have "take_handle (CHR 0x0A # v) = []" using take_handle_nl[of "[]" v] calculation by simp
        ultimately have "at_handles b ([c] @ CHR 0x0A # v) = at_handles False (CHR 0x0A # v)"
          using nf Nil by (subst append_Cons, subst at_handles.simps(2)) auto
        also have "\<dots> = at_handles True v"
          by (cases v) (auto simp: at_handles.simps(2) nl_not_handle)
        finally have "at_handles b ([c] @ CHR 0x0A # v) = at_handles True v" .
        moreover have "at_handles b [c] = []"
          using nf Nil by (simp add: at_handles.simps(2) take_handle_def)
        ultimately show ?thesis using Cons Nil by simp
      next
        case ds: (Cons d ds)
        let ?hit = "\<not> name_char c \<and> d = CHR ''@'' \<and> take_handle ds \<noteq> []"
        have nf': "\<not> (b \<and> c = CHR ''@'' \<and> take_handle (cs @ CHR 0x0A # v) \<noteq> [])"
          using nf unfolding take_handle_nl .
        have e1: "at_handles b (c # (cs @ CHR 0x0A # v)) =
            (if ?hit then take_handle ds # at_handles False (drop (length (take_handle ds)) ds @ CHR 0x0A # v)
             else at_handles False (cs @ CHR 0x0A # v))"
          unfolding at_handles.simps(2) if_not_P[OF nf']
          by (simp only: ds append_Cons list.case take_handle_nl drop_take_handle_nl)
        have e2: "at_handles b (c # cs) =
            (if ?hit then take_handle ds # at_handles False (drop (length (take_handle ds)) ds)
             else at_handles False cs)"
          unfolding at_handles.simps(2) if_not_P[OF nf] by (simp only: ds list.case)
        have sub: "length ds < length u" "set ds \<subseteq> set u" "length cs < length u" "set cs \<subseteq> set u"
          using Cons ds by auto
        have "at_handles b (c # (cs @ CHR 0x0A # v)) = at_handles b (c # cs) @ at_handles True v"
          unfolding e1 e2 using IH[OF sub(3,4)] IHd[OF sub(1,2)] by simp
        then show ?thesis using Cons by simp
      qed
    qed
  qed
qed

lemma has_prefix_stop: "c \<notin> set p \<Longrightarrow> has_prefix (x @ c # y) p = has_prefix x p"
proof (induction p arbitrary: x)
  case (Cons a p)
  then show ?case by (cases x) (auto simp: has_prefix_def)
qed simp

lemma url_handles_nl: "CHR 0x0A \<notin> set u \<Longrightarrow> url_handles (u @ CHR 0x0A # v) = url_handles u @ url_handles v"
proof (induction u rule: length_induct)
  case (1 u)
  have pre: "has_prefix (to_lower (t @ CHR 0x0A # v)) url_prefix = has_prefix (to_lower t) url_prefix" for t
  proof -
    have "lower_char (CHR 0x0A) = CHR 0x0A" "CHR 0x0A \<notin> set url_prefix"
      by (code_simp, simp add: url_prefix_def)
    then show ?thesis by (simp add: to_lower_def has_prefix_stop)
  qed
  show ?case
  proof (cases u)
    case Nil
    have "\<not> has_prefix (to_lower (CHR 0x0A # v)) url_prefix"
      using pre[of "[]"] by (simp add: has_prefix_def url_prefix_def)
    then show ?thesis using Nil by (subst url_handles.simps) (simp add: url_handles.simps[of "[]"] Let_def)
  next
    case (Cons c cs)
    show ?thesis
    proof (cases "has_prefix (to_lower u) url_prefix")
      case False
      then have "url_handles (u @ CHR 0x0A # v) = url_handles (cs @ CHR 0x0A # v)"
        "url_handles u = url_handles cs"
        using pre[of u] Cons by (subst url_handles.simps, simp add: Let_def)+
      then show ?thesis using 1 Cons by simp
    next
      case True
      have len: "length url_prefix \<le> length u"
        using True by (metis has_prefix_split length_append length_to_lower le_add1)
      define r where "r = drop (length url_prefix) u"
      have d: "drop (length url_prefix) (u @ CHR 0x0A # v) = r @ CHR 0x0A # v"
        using len by (simp add: r_def)
      define a where "a = drop (length (take_handle r)) r"
      have IH: "url_handles (a @ CHR 0x0A # v) = url_handles a @ url_handles v"
      proof -
        have "length a < length u" using Cons by (simp add: a_def r_def url_prefix_def)
        moreover have "CHR 0x0A \<notin> set a"
          using 1(2) by (auto simp: a_def r_def dest!: in_set_dropD)
        ultimately show ?thesis using 1(1) by blast
      qed
      have IHc: "url_handles (cs @ CHR 0x0A # v) = url_handles cs @ url_handles v"
        using 1 Cons by simp
      have hd: "(a @ CHR 0x0A # v \<noteq> [] \<and> hd (a @ CHR 0x0A # v) = CHR ''/'') = (a \<noteq> [] \<and> hd a = CHR ''/'')"
        by (cases a) auto
      have cu: "u @ CHR 0x0A # v = c # cs @ CHR 0x0A # v" using Cons by simp
      have e1: "url_handles (u @ CHR 0x0A # v) =
          (if take_handle r \<noteq> []
           then (if reserved (to_lower (take_handle r)) \<or> (a \<noteq> [] \<and> hd a = CHR ''/'')
                 then url_handles (a @ CHR 0x0A # v) else take_handle r # url_handles (a @ CHR 0x0A # v))
           else url_handles (cs @ CHR 0x0A # v))"
        by (subst url_handles.simps, subst cu, unfold list.case Let_def d take_handle_nl
            drop_take_handle_nl a_def[symmetric] hd pre) (simp add: True)
      have e2: "url_handles u =
          (if take_handle r \<noteq> []
           then (if reserved (to_lower (take_handle r)) \<or> (a \<noteq> [] \<and> hd a = CHR ''/'')
                 then url_handles a else take_handle r # url_handles a)
           else url_handles cs)"
        by (subst url_handles.simps, subst (1) Cons, unfold list.case Let_def r_def[symmetric]
            a_def[symmetric]) (simp add: True)
      show ?thesis unfolding e1 e2 IH IHc by simp
    qed
  qed
qed

text \<open>So the handles of a text are those of its lines and of its tables.\<close>

lemma split_char_Cons_line:
  "\<exists>l ls. split_char d s = l # ls \<and> d \<notin> set l \<and> (ls = [] \<and> s = l \<or> (\<exists>t. s = l @ d # t \<and> ls = split_char d t))"
proof (induction s)
  case (Cons c s)
  then obtain l ls where *: "split_char d s = l # ls" "d \<notin> set l"
    "ls = [] \<and> s = l \<or> (\<exists>t. s = l @ d # t \<and> ls = split_char d t)" by blast
  show ?case
  proof (cases "c = d")
    case True
    then show ?thesis by (intro exI[of _ "[]"] exI[of _ "split_char d s"]) auto
  next
    case False
    then show ?thesis using * by (intro exI[of _ "c # l"] exI[of _ ls]) auto
  qed
qed simp

lemma by_lines:
  "at_handles True s = concat (map (at_handles True) (split_char (CHR 0x0A) s)) \<and>
   url_handles s = concat (map url_handles (split_char (CHR 0x0A) s))"
proof (induction s rule: length_induct)
  case (1 s)
  obtain l ls where *: "split_char (CHR 0x0A) s = l # ls" "CHR 0x0A \<notin> set l"
    "ls = [] \<and> s = l \<or> (\<exists>t. s = l @ CHR 0x0A # t \<and> ls = split_char (CHR 0x0A) t)"
    using split_char_Cons_line by blast
  show ?case
  proof (cases "ls = [] \<and> s = l")
    case True
    then show ?thesis using *(1) by simp
  next
    case False
    then obtain t where t: "s = l @ CHR 0x0A # t" "ls = split_char (CHR 0x0A) t" using *(3) by blast
    then have IH: "at_handles True t = concat (map (at_handles True) ls)"
      "url_handles t = concat (map url_handles ls)"
      using 1 by simp_all
    show ?thesis unfolding *(1) using IH *(2) by (simp add: t(1) at_handles_nl url_handles_nl)
  qed
qed

section \<open>Properties\<close>

text \<open>
  C15: the two readings of a maintainers file agree: \<^verbatim>\<open>buildMaintainerRefLines\<close> has a line for
  exactly the handles that \<^verbatim>\<open>ExtractGitHubHandles\<close> finds.
\<close>

theorem ref_lines_cover_extracted_handles:
  "fst ` set (build_maintainer_ref_lines s) = set (extract_github_handles s)"
proof (cases "s = []")
  case True
  then show ?thesis
    by (simp add: build_maintainer_ref_lines_def extract_github_handles_def handles_of_line_def
        url_handles.simps line_handles_def list_item_def github_key_def skip_space_def unreserved_def
        has_prefix_def)
next
  case False
  have "keys (build_maintainer_ref_lines s) =
      (\<Union>l \<in> set (split_char (CHR 0x0A) s). set (handles_of_line l)) \<union>
      set (table_handles (split_char (CHR 0x0A) s))"
    by (simp add: build_maintainer_ref_lines_def Let_def keys_fold_lines keys_table_lines)
      (simp add: keys_def)
  moreover have "(\<Union>l \<in> set (split_char (CHR 0x0A) s). set (handles_of_line l)) =
      to_lower ` set (at_handles True s) \<union> to_lower ` set (url_handles s) \<union>
      (\<Union>l \<in> set (split_char (CHR 0x0A) s). set (line_handles l))"
    by (subst (1) by_lines[THEN conjunct1], subst (1) by_lines[THEN conjunct2])
      (auto simp: handles_of_line_def)
  ultimately show ?thesis
    using False by (auto simp: extract_github_handles_def keys_def)
qed

text \<open>
  C0: the handles that \<^verbatim>\<open>buildMaintainerRefOnly\<close> lists are sorted, without repetitions, and are
  exactly the extracted ones that no maintainer of the project has as an account.
\<close>

theorem ref_only_is_the_difference:
  "sorted (build_maintainer_ref_only s ms) \<and> distinct (build_maintainer_ref_only s ms) \<and>
   set (build_maintainer_ref_only s ms) =
     set (extract_github_handles s) - (\<lambda>m. to_lower (trim_space (mt_github m))) ` {m \<in> set ms. has_account m}"
  by (auto simp: build_maintainer_ref_only_def Let_def)

end
