(* ===== verification/Onboarding_Tasks.thy ===== *)
theory Onboarding_Tasks
  imports Go_Base
begin

text \<open>
  \<^verbatim>\<open>onboarding/task.go\<close>: the project name in the title of an onboarding issue and the
  check list items in its body.
\<close>

section \<open>Model\<close>

record task =
  tk_name :: string
  tk_number :: nat
  tk_owner :: string
  tk_complete :: bool

definition title_prefix :: string where "title_prefix = ''PROJECT ONBOARDING]''"

definition get_project_name_from_project_title :: "string \<Rightarrow> string result" where
  "get_project_name_from_project_title title =
     (if title = [] then Err (Msg ''title cannot be empty'')
      else let parts = split title title_prefix in
           if length parts < 2
           then Err (Msg (''title '' @ quote title @ '' does not contain the substring '' @ title_prefix))
           else Ok (trim_space (parts ! 1)))"

text \<open>
  \<^verbatim>\<open>bufio.Scanner\<close>: the text between newlines, without a final carriage return and without an
  empty last line; it stops at a line that does not fit its buffer of 65536 bytes.
\<close>

definition drop_cr :: "string \<Rightarrow> string" where
  "drop_cr l = (if l \<noteq> [] \<and> last l = CHR 0x0D then butlast l else l)"

definition scan_lines :: "string \<Rightarrow> string list" where
  "scan_lines s =
     (let parts = split_char (CHR 0x0A) s;
          ls = (if last parts = [] then butlast parts else parts)
      in map drop_cr (takeWhile (\<lambda>l. length l < 65536) ls))"

definition is_cncf_heading :: "string \<Rightarrow> bool" where
  "is_cncf_heading line \<longleftrightarrow>
     line = ''Things that the CNCF will do or help the project to do:'' \<or>
     line = ''**Things that the CNCF will do or help the project to do:**''"

definition done_mark :: string where "done_mark = ''- [x]''"
definition open_mark :: string where "open_mark = ''- [ ]''"

fun task_loop :: "string \<Rightarrow> nat \<Rightarrow> string list \<Rightarrow> task list" where
  "task_loop owner n [] = []"
| "task_loop owner n (line # ls) =
     (if is_cncf_heading line then task_loop ''CNCF'' n ls
      else if has_prefix line done_mark
      then \<lparr>tk_name = trim_space (trim_prefix line done_mark), tk_number = n, tk_owner = owner,
            tk_complete = True\<rparr> # task_loop owner (Suc n) ls
      else if has_prefix line open_mark
      then \<lparr>tk_name = trim_space (trim_prefix line open_mark), tk_number = n, tk_owner = owner,
            tk_complete = False\<rparr> # task_loop owner (Suc n) ls
      else task_loop owner n ls)"

definition get_onboarding_tasks :: "string \<Rightarrow> string \<Rightarrow> task list" where
  "get_onboarding_tasks projectName issueDescription =
     task_loop projectName 1 (scan_lines issueDescription)"

section \<open>Lemmas\<close>

lemma split_title:
  assumes "CHR '']'' \<notin> set p"
  shows "split (p @ title_prefix @ n) title_prefix = p # split n title_prefix"
proof -
  have "vs = []" if e: "p @ title_prefix = us @ title_prefix @ vs" for us vs
  proof (rule ccontr)
    assume "vs \<noteq> []"
    obtain q where q: "title_prefix = q @ '']''" "CHR '']'' \<notin> set q"
      by (rule that[of "''PROJECT ONBOARDING''"]) (simp_all add: title_prefix_def)
    have "butlast (p @ q @ '']'') = butlast (us @ title_prefix @ vs)"
      using e q(1) by simp
    then have "p @ q = us @ title_prefix @ butlast vs"
      using \<open>vs \<noteq> []\<close> by (simp add: butlast_append)
    moreover have "CHR '']'' \<in> set title_prefix" by (simp add: title_prefix_def)
    ultimately have "CHR '']'' \<in> set (p @ q)" by simp
    then show False using assms q(2) by simp
  qed
  then show ?thesis
    unfolding split_def by (subst split_str_first) (auto simp: title_prefix_def)
qed

lemma split_title_none: "\<not> contains s title_prefix \<Longrightarrow> split s title_prefix = [s]"
  by (simp add: split_def split_str_none title_prefix_def)

lemma marks_distinct: "has_prefix line done_mark \<Longrightarrow> \<not> has_prefix line open_mark"
  by (auto simp: has_prefix_def done_mark_def open_mark_def)

lemma task_loop_numbers: "map tk_number (task_loop owner n ls) = [n..<n + length (task_loop owner n ls)]"
proof (induction owner n ls rule: task_loop.induct)
  case (2 owner n line ls)
  have c: "[n..<Suc (n + k)] = n # [Suc n..<Suc (n + k)]" for k
    by (simp add: upt_conv_Cons del: upt_Suc)
  show ?case using 2 by (simp add: c del: upt_Suc)
qed simp

text \<open>Text with the given tasks of one owner, as GitHub writes a check list.\<close>

definition task_line :: "task \<Rightarrow> string" where
  "task_line t = (if tk_complete t then done_mark else open_mark) @ '' '' @ tk_name t"

lemma trim_space_lead: "trim_space ('' '' @ s) = trim_space s"
  by (simp add: trim_space_def trim_by_def is_space_def)

lemma task_loop_line:
  "task_loop owner n (task_line t # ls) =
     \<lparr>tk_name = trim_space (tk_name t), tk_number = n, tk_owner = owner, tk_complete = tk_complete t\<rparr> #
       task_loop owner (Suc n) ls"
proof (cases "tk_complete t")
  case True
  have "\<not> is_cncf_heading (done_mark @ '' '' @ s)" for s
    by (simp add: is_cncf_heading_def done_mark_def)
  then show ?thesis using True trim_space_lead by (simp add: task_line_def)
next
  case False
  have "\<not> is_cncf_heading (open_mark @ '' '' @ s)" "\<not> has_prefix (open_mark @ '' '' @ s) done_mark" for s
    by (simp_all add: is_cncf_heading_def open_mark_def done_mark_def has_prefix_def)
  then show ?thesis using False trim_space_lead by (simp add: task_line_def)
qed

lemma task_loop_lines:
  "task_loop owner n (map task_line ts) =
     map (\<lambda>(i, t). \<lparr>tk_name = trim_space (tk_name t), tk_number = n + i, tk_owner = owner,
                    tk_complete = tk_complete t\<rparr>) (zip [0..<length ts] ts)"
proof (induction ts arbitrary: n)
  case (Cons t ts)
  have "zip [0..<length (t # ts)] (t # ts) = (0, t) # map (\<lambda>(i, t). (Suc i, t)) (zip [0..<length ts] ts)"
    by (simp add: upt_conv_Cons map_Suc_upt[symmetric] zip_map1 del: upt_Suc)
  then show ?case using Cons by (simp add: task_loop_line comp_def case_prod_unfold del: upt_Suc task_loop.simps(2))
qed simp

lemma scan_lines_join:
  assumes "ls \<noteq> []" "last ls \<noteq> []"
    and "\<And>l. l \<in> set ls \<Longrightarrow> CHR 0x0A \<notin> set l \<and> CHR 0x0D \<notin> set l \<and> length l < 65536"
  shows "scan_lines (join ls [CHR 0x0A]) = ls"
proof -
  have s: "split_char (CHR 0x0A) (join ls [CHR 0x0A]) = ls"
    using assms by (intro split_char_join) auto
  have t: "takeWhile (\<lambda>l. length l < 65536) ls = ls" using assms(3) by simp
  have c: "map drop_cr ls = ls"
    using assms(3) by (intro map_idI) (auto simp: drop_cr_def dest: last_in_set)
  show ?thesis using assms(1,2) by (simp add: scan_lines_def s t c Let_def)
qed

section \<open>Properties\<close>

text \<open>
  Of a title that has the marker once, \<^verbatim>\<open>[PROJECT ONBOARDING] name\<close>, the name is returned
  without the blanks around it.
\<close>

theorem project_name_from_title:
  assumes "CHR '']'' \<notin> set p" and "\<not> contains n title_prefix"
  shows "get_project_name_from_project_title (p @ title_prefix @ n) = Inr (trim_space n)"
proof -
  have "p @ title_prefix @ n \<noteq> []" by (simp add: title_prefix_def)
  then show ?thesis
    using assms by (simp add: get_project_name_from_project_title_def split_title split_title_none)
qed

theorem project_name_from_title_witness:
  "get_project_name_from_project_title (''['' @ title_prefix @ '' Kubernetes '') = Inr ''Kubernetes''"
proof -
  have "\<not> contains '' Kubernetes '' title_prefix" "trim_space '' Kubernetes '' = ''Kubernetes''"
    by code_simp+
  then show ?thesis using project_name_from_title[of "''[''" "'' Kubernetes ''"] by simp
qed

text \<open>
  the items of a check list are numbered from one in the order of the text; those before
  the CNCF heading belong to the project, those after it to the CNCF, with the name and the
  tick mark that the line has.
\<close>

theorem onboarding_tasks_of_checklist:
  assumes "list_all (\<lambda>t. CHR 0x0A \<notin> set (tk_name t) \<and> CHR 0x0D \<notin> set (tk_name t) \<and>
                         length (tk_name t) < 65000) (mine @ cncfs)"
    and "is_cncf_heading heading"
  shows "get_onboarding_tasks proj (join (map task_line mine @ heading # map task_line cncfs) [CHR 0x0A]) =
     map (\<lambda>(i, t). \<lparr>tk_name = trim_space (tk_name t), tk_number = i + 1, tk_owner = proj,
                    tk_complete = tk_complete t\<rparr>) (zip [0..<length mine] mine) @
     map (\<lambda>(i, t). \<lparr>tk_name = trim_space (tk_name t), tk_number = length mine + i + 1, tk_owner = ''CNCF'',
                    tk_complete = tk_complete t\<rparr>) (zip [0..<length cncfs] cncfs)"
proof -
  have h: "heading \<noteq> []" "CHR 0x0A \<notin> set heading" "CHR 0x0D \<notin> set heading" "length heading < 65536"
    using assms(2) by (auto simp: is_cncf_heading_def)
  have t: "CHR 0x0A \<notin> set (task_line t) \<and> CHR 0x0D \<notin> set (task_line t) \<and>
      length (task_line t) < 65536 \<and> task_line t \<noteq> []"
    if "t \<in> set mine \<union> set cncfs" for t
  proof -
    have "CHR 0x0A \<notin> set (tk_name t)" "CHR 0x0D \<notin> set (tk_name t)" "length (tk_name t) < 65000"
      using that assms(1) by (auto simp: list_all_iff)
    then show ?thesis by (simp add: task_line_def done_mark_def open_mark_def)
  qed
  have l: "CHR 0x0A \<notin> set l \<and> CHR 0x0D \<notin> set l \<and> length l < 65536 \<and> l \<noteq> []"
    if "l \<in> set (map task_line mine @ heading # map task_line cncfs)" for l
    using that t h by auto
  have "last (map task_line mine @ heading # map task_line cncfs)
      \<in> set (map task_line mine @ heading # map task_line cncfs)"
    by (rule last_in_set) simp
  then have sc: "scan_lines (join (map task_line mine @ heading # map task_line cncfs) [CHR 0x0A]) =
      map task_line mine @ heading # map task_line cncfs"
    using l by (intro scan_lines_join) (simp, blast, blast)
  have app: "task_loop o' n (map task_line ts @ ls) =
      task_loop o' n (map task_line ts) @ task_loop o' (n + length ts) ls" for o' n ts ls
    by (induction ts arbitrary: n) (auto simp: task_loop_line simp del: task_loop.simps(2))
  show ?thesis
    unfolding get_onboarding_tasks_def sc app task_loop_lines
    using assms(2) by (simp add: task_loop_lines case_prod_unfold)
qed

definition demo_tasks :: "task list" where
  "demo_tasks = [\<lparr>tk_name = ''a b'', tk_number = 0, tk_owner = [], tk_complete = True\<rparr>,
                 \<lparr>tk_name = ''c '', tk_number = 0, tk_owner = [], tk_complete = False\<rparr>]"

theorem onboarding_tasks_of_checklist_witness:
  "map tk_number (get_onboarding_tasks ''P''
      (join (map task_line demo_tasks @ ''Things that the CNCF will do or help the project to do:''
             # map task_line demo_tasks) [CHR 0x0A])) = [1, 2, 3, 4]"
proof -
  have a: "list_all (\<lambda>t. CHR 0x0A \<notin> set (tk_name t) \<and> CHR 0x0D \<notin> set (tk_name t) \<and>
                         length (tk_name t) < 65000) (demo_tasks @ demo_tasks)"
    by (simp add: demo_tasks_def)
  have b: "is_cncf_heading ''Things that the CNCF will do or help the project to do:''"
    by (simp add: is_cncf_heading_def)
  show ?thesis unfolding onboarding_tasks_of_checklist[OF a b] by (simp add: demo_tasks_def)
qed

end
