(* ===== verification/Bff_Projects.thy ===== *)
theory Bff_Projects
  imports Bff_Ref Bff_Sessions Onboarding_Tasks
begin

text \<open>
  The project routes of \<^verbatim>\<open>cmd/web-bff/main.go\<close>: reading, creating and updating a project, and
  the list of open onboarding issues with its cache.  A handler takes the session the
  middleware found and the decoded body (\<open>None\<close> when decoding failed).
\<close>

section \<open>Audit metadata\<close>

text \<open>
  What the handlers hand to \<^verbatim>\<open>json.Marshal\<close>: maps, strings and numbers.  The keys of a map are
  written in order, the characters \<^verbatim>\<open><\<close>, \<^verbatim>\<open>>\<close> and \<^verbatim>\<open>&\<close> as escapes.
\<close>

datatype meta = M_str string | M_nat nat | M_map "(string \<times> meta) list"

definition json_char :: "char \<Rightarrow> string" where
  "json_char c =
     (if c = CHR 0x22 then [CHR 0x5C, CHR 0x22]
      else if c = CHR 0x5C then [CHR 0x5C, CHR 0x5C]
      else if c = CHR 0x0A then [CHR 0x5C, CHR ''n'']
      else if c = CHR 0x0D then [CHR 0x5C, CHR ''r'']
      else if c = CHR 0x09 then [CHR 0x5C, CHR ''t'']
      else if c = CHR 0x08 then [CHR 0x5C, CHR ''b'']
      else if c = CHR 0x0C then [CHR 0x5C, CHR ''f'']
      else if of_char c < (32::nat) \<or> c \<in> {CHR ''<'', CHR ''>'', CHR ''&''}
        then [CHR 0x5C, CHR ''u'', CHR ''0'', CHR ''0'', hex_digit (of_char c div 16), hex_digit (of_char c mod 16)]
      else [c])"

definition json_string :: "string \<Rightarrow> string" where
  "json_string s = [CHR 0x22] @ concat (map json_char s) @ [CHR 0x22]"

fun meta_text :: "meta \<Rightarrow> string" where
  "meta_text (M_str s) = json_string s"
| "meta_text (M_nat n) = nat_digits n"
| "meta_text (M_map kvs) =
     ''{'' @ join (map (\<lambda>(k, t). json_string k @ '':'' @ t) (sort_key fst (map (\<lambda>(k, v). (k, meta_text v)) kvs)))
       '','' @ ''}''"

definition actor_meta :: "session \<Rightarrow> meta" where
  "actor_meta s = M_map [(''login'', M_str (se_login s)), (''role'', M_str (se_role s))]"

definition change :: "string \<Rightarrow> string \<Rightarrow> meta" where
  "change from_value to_value = M_map [(''from'', M_str from_value), (''to'', M_str to_value)]"

definition changes_meta :: "session \<Rightarrow> (string \<times> meta) list \<Rightarrow> string" where
  "changes_meta s changes = meta_text (M_map [(''actor'', actor_meta s), (''changes'', M_map changes)])"

text \<open>An audit record whose failure is only logged.\<close>

definition write_audit :: "'w gorm \<Rightarrow> audit_log \<Rightarrow> ('w, unit) io" where
  "write_audit G event = do { _ \<leftarrow> t_create (audit_logs G) event; ret () }"

section \<open>The staff member behind a session\<close>

definition staff_by_login :: "'w gorm \<Rightarrow> string \<Rightarrow> ('w, staff_member result) io" where
  "staff_by_login G login = t_first (staff_members G) (\<lambda>s. to_lower (sm_github s) = to_lower login)"

text \<open>The id for the audit record, if any, and the name to show: the login if there is no other.\<close>

definition acting_staff :: "'w gorm \<Rightarrow> session \<Rightarrow> ('w, nat option \<times> string) io" where
  "acting_staff G sess =
     (if se_login sess = [] then ret (None, [])
      else do {
        r \<leftarrow> staff_by_login G (se_login sess);
        ret (case r of
               Inl _ \<Rightarrow> (None, se_login sess)
             | Inr s \<Rightarrow> (Some (row_id s), if sm_name s = [] then se_login sess else sm_name s)) })"

definition lookup_staff_id :: "'w gorm \<Rightarrow> string \<Rightarrow> ('w, nat option) io" where
  "lookup_staff_id G login =
     (if login = [] then ret None
      else do { r \<leftarrow> staff_by_login G login;
                ret (case r of Inl _ \<Rightarrow> None | Inr s \<Rightarrow> Some (row_id s)) })"

definition staff_display :: "'w gorm \<Rightarrow> session \<Rightarrow> nat option \<Rightarrow> ('w, string) io" where
  "staff_display G sess staffID =
     (case staffID of
        None \<Rightarrow> ret (se_login sess)
      | Some i \<Rightarrow> do {
          r \<leftarrow> t_first (staff_members G) (\<lambda>s. row_id s = i);
          ret (case r of Inl _ \<Rightarrow> se_login sess
                       | Inr s \<Rightarrow> if sm_name s = [] then se_login sess else sm_name s) })"

definition is_staff_session :: "session option \<Rightarrow> bool" where
  "is_staff_session sess = (case sess of None \<Rightarrow> False | Some s \<Rightarrow> se_role s = role_staff)"

abbreviation forbidden :: reply where "forbidden \<equiv> http_error ''forbidden'' 403"
abbreviation ok_reply :: reply where "ok_reply \<equiv> json_reply (J_obj [(''status'', J_str ''ok'')])"

section \<open>Reading a project\<close>

record ref_view =
  rv_status :: string
  rv_url :: string
  rv_checked :: "int option"
  rv_body :: string
  rv_matches :: "nat \<Rightarrow> bool"
  rv_only :: "string list"
  rv_lines :: "(string, string) gomap"

definition look_at_ref :: "'w env \<Rightarrow> loaded_project \<Rightarrow> ('w, ref_view) io" where
  "look_at_ref E p =
     (let refURL = trim_space (pr_legacy_ref p);
          none = \<lparr>rv_status = ''missing'', rv_url = [], rv_checked = None, rv_body = [],
                  rv_matches = (\<lambda>_. False), rv_only = [], rv_lines = []\<rparr> in
      if refURL = [] then ret none
      else do {
        b \<leftarrow> fetch_maintainer_ref E refURL;
        case b of
          Inl _ \<Rightarrow> ret (none\<lparr>rv_status := ''error'', rv_url := refURL\<rparr>)
        | Inr body \<Rightarrow> do {
            now \<leftarrow> en_now E;
            ret \<lparr>rv_status = ''fetched'', rv_url = refURL, rv_checked = Some now, rv_body = body,
                 rv_matches = build_maintainer_ref_matches body (pr_maintainers p),
                 rv_only = build_maintainer_ref_only body (pr_maintainers p),
                 rv_lines = build_maintainer_ref_lines body\<rparr> } })"

definition project_actions :: "string list" where
  "project_actions = [''PROJECT_MAINTAINER_REF_UPDATE'', ''PROJECT_MATURITY_UPDATE'']"

text \<open>Who updated the project last, and the id of the audit record that says so.\<close>

definition last_update :: "'w gorm \<Rightarrow> nat \<Rightarrow> ('w, string \<times> nat option) io" where
  "last_update G i =
     do { a \<leftarrow> t_newest (audit_logs G) (\<lambda>e. al_project_id e = Some i \<and> al_action e \<in> set project_actions);
          case a of
            Inl _ \<Rightarrow> ret ([], None)
          | Inr e \<Rightarrow> do {
              name \<leftarrow> (case al_staff_id e of
                         None \<Rightarrow> ret []
                       | Some sid \<Rightarrow> do { s \<leftarrow> t_first (staff_members G) (\<lambda>s. row_id s = sid);
                                         ret (case s of Inl _ \<Rightarrow> [] | Inr st \<Rightarrow> sm_name st) });
              ret (if name = [] then ''Staff'' else name, Some (row_id e)) } }"

definition opt_trim :: "string option \<Rightarrow> string" where
  "opt_trim v = (case v of None \<Rightarrow> [] | Some x \<Rightarrow> trim_space x)"

definition service_json :: "service \<Rightarrow> json" where
  "service_json s = J_obj [(''id'', j_nat (row_id s)), (''name'', J_str (sv_name s)),
                           (''description'', J_str (sv_description s))]"

definition project_detail_json :: "loaded_project \<Rightarrow> ref_view \<Rightarrow> string \<Rightarrow> nat option \<Rightarrow> json" where
  "project_detail_json p v updatedBy auditID =
     J_obj ([(''id'', j_nat (row_id p)), (''name'', J_str (pr_name p)), (''maturity'', J_str (pr_maturity p))] @
       omit_opt ''parentProjectId'' j_nat (pr_parent_id p) @
       omit_str ''legacyMaintainerRef'' (trim_space (pr_legacy_ref p)) @
       omit_str ''dotProjectYamlRef'' (trim_space (pr_dot_project_ref p)) @
       [(''maintainerRefStatus'', J_obj (omit_str ''url'' (rv_url v) @ [(''status'', J_str (rv_status v))] @
          omit_opt ''checkedAt'' J_time (rv_checked v)))] @
       omit_str ''legacyMaintainerRefBody'' (rv_body v) @
       [(''refOnlyGitHub'', J_list (map J_str (rv_only v)))] @
       (if rv_lines v = [] then []
        else [(''refLines'', J_obj (map (\<lambda>(h, l). (h, J_str l)) (rv_lines v)))]) @
       omit_str ''onboardingIssue'' (opt_trim (pr_onboarding_issue p)) @
       omit_str ''mailingList''
         (opt_trim (map_option (\<lambda>m. normalize_value m MML_MISSING) (pr_mailing_list p))) @
       [(''maintainers'', J_list (summarize_maintainer_details (pr_maintainers p) (rv_matches v))),
        (''services'', J_list (map service_json (pr_services p))),
        (''createdAt'', J_time (created_at p)), (''updatedAt'', J_time (updated_at p))] @
       omit_opt ''deletedAt'' J_time (deleted_at p) @
       omit_str ''updatedBy'' updatedBy @
       omit_opt ''updatedAuditId'' j_nat auditID)"

definition handle_project_get ::
  "'w env \<Rightarrow> 'w gorm \<Rightarrow> session option \<Rightarrow> web_request \<Rightarrow> ('w, reply) io" where
  "handle_project_get E G sess r =
     (case parse_id_param (wq_path r) ''/api/projects/'' of
        Inl _ \<Rightarrow> ret (http_error ''invalid project id'' 400)
      | Inr i \<Rightarrow> (case sess of
          None \<Rightarrow> ret (http_error ''unauthorized'' 401)
        | Some s \<Rightarrow> do {
            x \<leftarrow> get_project_by_id G i;
            case x of
              Inl e \<Rightarrow> ret (if errors_is e ErrProjectNotFound then http_error ''project not found'' 404
                          else http_error ''failed to load project'' 500)
            | Inr p \<Rightarrow> do {
                allowed \<leftarrow> (if se_role s = role_maintainer
                           then do { m \<leftarrow> get_maintainer_by_login G (se_login s); ret (case m of Inl _ \<Rightarrow> False | Inr _ \<Rightarrow> True) }
                           else ret (se_role s = role_staff));
                if \<not> allowed then ret forbidden
                else do {
                  v \<leftarrow> look_at_ref E p;
                  (updatedBy, auditID) \<leftarrow> last_update G i;
                  ret (json_reply (project_detail_json p v updatedBy auditID)) } } }))"

section \<open>Creating a project\<close>

record project_create_request =
  pc_onboarding_issue :: string
  pc_project_name :: string
  pc_github_org :: string
  pc_parent_id :: "nat option"
  pc_legacy_ref :: string
  pc_dot_project_ref :: string
  pc_maturity :: string

definition ensure_project_name_available :: "'w gorm \<Rightarrow> string \<Rightarrow> ('w, unit result) io" where
  "ensure_project_name_available G name =
     do { r \<leftarrow> t_first (projects G) (\<lambda>p. pr_name p = name);
          ret (case r of
                 Inr _ \<Rightarrow> Inl (Sentinel ErrProjectExists)
               | Inl e \<Rightarrow> if errors_is e ErrRecordNotFound then Inr () else Inl e) }"

text \<open>
  The GitHub organisation of the two maintainer file URLs and of the request, which must all
  be the same; the error is the text of the 400 reply.
\<close>

definition infer_org :: "'w env \<Rightarrow> project_create_request \<Rightarrow> string + string" where
  "infer_org E q =
     (let legacy = trim_space (pc_legacy_ref q); dotp = trim_space (pc_dot_project_ref q);
          org = trim_space (pc_github_org q) in
      if legacy = [] \<and> dotp = [] then Inl ''legacyMaintainerRef or dotProjectYamlRef is required''
      else case (if legacy = [] then Inr [] else parse_github_org_from_url E legacy) of
        Inl e \<Rightarrow> Inl (error_text e)
      | Inr o1 \<Rightarrow>
          (case (if dotp = [] then Inr o1 else parse_github_org_from_url E dotp) of
             Inl e \<Rightarrow> Inl (error_text e)
           | Inr o2 \<Rightarrow>
               if dotp \<noteq> [] \<and> o1 \<noteq> [] \<and> \<not> equal_fold o1 o2
               then Inl ''legacyMaintainerRef and dotProjectYamlRef must reference the same GitHub org''
               else if org \<noteq> [] \<and> \<not> equal_fold org o2
               then Inl ''githubOrg must match the GitHub org in the maintainer file URLs''
               else if o2 = [] then Inl ''failed to infer github org from maintainer file URLs''
               else Inr o2))"

definition requested_maturity :: "project_create_request \<Rightarrow> maturity option" where
  "requested_maturity q =
     (if pc_maturity q = [] then Some Sandbox
      else let m = trim_space (pc_maturity q) in if maturity_is_valid m then Some m else None)"

text \<open>Insert the row, write the audit record, drop the cache.\<close>

definition store_new_project ::
  "'w gorm \<Rightarrow> session \<Rightarrow> project_create_request \<Rightarrow> string \<Rightarrow> string \<Rightarrow> maturity \<Rightarrow> ('w, reply \<times> bool) io" where
  "store_new_project G sess q projectName org mat =
     (let issue = trim_space (pc_onboarding_issue q) in
      do { r \<leftarrow> sql_argument (maturity_value mat)
                (t_create (projects G) (project_defaults (zero_project
                  \<lparr>pr_name := projectName, pr_maturity := mat, pr_github_org := org,
                   pr_parent_id := pc_parent_id q, pr_legacy_ref := trim_space (pc_legacy_ref q),
                   pr_dot_project_ref := trim_space (pc_dot_project_ref q),
                   pr_onboarding_issue := Some issue\<rparr>)));
           case r of
             Inl _ \<Rightarrow> ret (http_error ''failed to create project'' 500, False)
           | Inr p \<Rightarrow> do {
               staffID \<leftarrow> lookup_staff_id G (se_login sess);
               actorName \<leftarrow> staff_display G sess staffID;
               _ \<leftarrow> write_audit G (zero_audit_log
                 \<lparr>al_staff_id := staffID, al_action := ''PROJECT_CREATE'',
                  al_message := ''Project created by '' @ actorName,
                  al_metadata := meta_text (M_map
                    [(''projectName'', M_map [(''to'', M_str projectName)]),
                     (''githubOrg'', M_map [(''to'', M_str org)]),
                     (''maturity'', M_map [(''to'', M_str mat)]),
                     (''onboardingIssue'', M_map [(''to'', M_str issue)])]),
                  al_project_id := Some (row_id p)\<rparr>);
               ret (json_reply (J_obj
                      [(''id'', j_nat (row_id p)), (''name'', J_str (pr_name p)),
                       (''maturity'', J_str (pr_maturity p)), (''githubOrg'', J_str (pr_github_org p)),
                       (''createdAt'', J_time (created_at p))]), True) } })"

definition check_parent :: "'w gorm \<Rightarrow> nat option \<Rightarrow> ('w, reply option) io" where
  "check_parent G parent =
     (case parent of
        None \<Rightarrow> ret None
      | Some i \<Rightarrow> do {
          r \<leftarrow> get_project_by_id G i;
          ret (case r of
                 Inr _ \<Rightarrow> None
               | Inl e \<Rightarrow> Some (if errors_is e ErrProjectNotFound then http_error ''parent project not found'' 400
                               else http_error ''failed to validate parent project'' 500)) })"

text \<open>The checks after the title of the issue is known; the flag says whether to drop the cache.\<close>

definition create_named_project ::
  "'w env \<Rightarrow> 'w gorm \<Rightarrow> session \<Rightarrow> project_create_request \<Rightarrow> string \<Rightarrow> ('w, reply \<times> bool) io" where
  "create_named_project E G sess q projectName =
     (if pc_project_name q \<noteq> [] \<and> trim_space (pc_project_name q) \<noteq> projectName
      then ret (http_error ''projectName must match onboarding issue title'' 400, False)
      else case infer_org E q of
        Inl msg \<Rightarrow> ret (http_error msg 400, False)
      | Inr org \<Rightarrow> do {
          bad \<leftarrow> check_parent G (pc_parent_id q);
          case bad of
            Some rep \<Rightarrow> ret (rep, False)
          | None \<Rightarrow> (case requested_maturity q of
              None \<Rightarrow> ret (http_error ''invalid maturity'' 400, False)
            | Some mat \<Rightarrow> do {
                a \<leftarrow> ensure_project_name_available G projectName;
                case a of
                  Inl e \<Rightarrow> ret (if errors_is e ErrProjectExists then http_error ''project already exists'' 409
                              else http_error ''failed to validate project'' 500, False)
                | Inr _ \<Rightarrow> store_new_project G sess q projectName org mat }) })"

definition handle_project_create ::
  "config \<Rightarrow> 'w env \<Rightarrow> 'w gorm \<Rightarrow> session option \<Rightarrow> web_request \<Rightarrow> project_create_request option \<Rightarrow>
   ('w, reply \<times> bool) io" where
  "handle_project_create cf E G sess r req =
     (if wq_method r = ''OPTIONS'' then ret (just_status 204, False)
      else case sess of
        None \<Rightarrow> ret (forbidden, False)
      | Some s \<Rightarrow>
          if se_role s \<noteq> role_staff then ret (forbidden, False)
          else case req of
            None \<Rightarrow> ret (http_error ''invalid request'' 400, False)
          | Some q \<Rightarrow>
              let issue = trim_space (pc_onboarding_issue q) in
              if issue = [] then ret (http_error ''onboardingIssue is required'' 400, False)
              else case parse_github_issue_url E issue of
                Inl e \<Rightarrow> ret (http_error (error_text e) 400, False)
              | Inr (owner, repo, number) \<Rightarrow>
                  if owner \<noteq> ''cncf'' \<or> repo \<noteq> ''sandbox''
                  then ret (http_error ''onboardingIssue must be from github.com/cncf/sandbox'' 400, False)
                  else if cf_github_token cf = [] \<and> \<not> cf_test_mode cf
                  then ret (http_error ''github api token not configured'' 500, False)
                  else do {
                    t \<leftarrow> en_issue_title E owner repo number;
                    case t of
                      Inl _ \<Rightarrow> ret (http_error ''failed to fetch onboarding issue'' 502, False)
                    | Inr title \<Rightarrow> (case get_project_name_from_project_title title of
                        Inl e \<Rightarrow> ret (http_error (error_text e) 400, False)
                      | Inr projectName \<Rightarrow> create_named_project E G s q projectName) })"

section \<open>Updating a project\<close>

definition is_url :: "string \<Rightarrow> bool" where
  "is_url ref \<longleftrightarrow> has_prefix ref ''http://'' \<or> has_prefix ref ''https://''"

definition update_failure :: "go_error \<Rightarrow> reply" where
  "update_failure e = (if errors_is e ErrProjectNotFound then http_error ''project not found'' 404
                       else http_error ''failed to update project'' 500)"

definition handle_project_maintainer_ref_update ::
  "'w gorm \<Rightarrow> session option \<Rightarrow> web_request \<Rightarrow> string option \<Rightarrow> ('w, reply) io" where
  "handle_project_maintainer_ref_update G sess r req =
     (if wq_method r = ''OPTIONS'' then ret (just_status 204)
      else case parse_id_param (wq_path r) ''/api/projects/'' of
        Inl _ \<Rightarrow> ret (http_error ''invalid project id'' 400)
      | Inr i \<Rightarrow> (case sess of
          None \<Rightarrow> ret forbidden
        | Some s \<Rightarrow>
            if se_role s \<noteq> role_staff then ret forbidden
            else case req of
              None \<Rightarrow> ret (http_error ''invalid request'' 400)
            | Some legacyRef \<Rightarrow>
                let ref = trim_space legacyRef in
                if ref \<noteq> [] \<and> \<not> is_url ref then ret (http_error ''maintainerRef must be a URL'' 400)
                else do {
                  before \<leftarrow> get_project_by_id G i;
                  case before of
                    Inl e \<Rightarrow> ret (update_failure e)
                  | Inr p \<Rightarrow> do {
                      u \<leftarrow> update_project_legacy_maintainer_ref G i ref;
                      case u of
                        Inl e \<Rightarrow> ret (update_failure e)
                      | Inr _ \<Rightarrow> do {
                          (staffID, staffName) \<leftarrow> acting_staff G s;
                          _ \<leftarrow> write_audit G (zero_audit_log
                            \<lparr>al_project_id := Some i, al_staff_id := staffID,
                             al_action := ''PROJECT_MAINTAINER_REF_UPDATE'',
                             al_message := ''Project maintainer ref updated by '' @ staffName,
                             al_metadata := changes_meta s
                               [(''maintainerRef'', change (trim_space (pr_legacy_ref p)) ref)]\<rparr>);
                          ret ok_reply } } }))"

definition handle_project_maturity_update ::
  "'w gorm \<Rightarrow> session option \<Rightarrow> web_request \<Rightarrow> string option \<Rightarrow> ('w, reply) io" where
  "handle_project_maturity_update G sess r req =
     (if wq_method r = ''OPTIONS'' then ret (just_status 204)
      else case parse_id_param (trim_suffix (wq_path r) ''/maturity'') ''/api/projects/'' of
        Inl _ \<Rightarrow> ret (http_error ''invalid project id'' 400)
      | Inr i \<Rightarrow> (case sess of
          None \<Rightarrow> ret forbidden
        | Some s \<Rightarrow>
            if se_role s \<noteq> role_staff then ret forbidden
            else case req of
              None \<Rightarrow> ret (http_error ''invalid request'' 400)
            | Some m \<Rightarrow> (case parse_maturity m of
                None \<Rightarrow> ret (http_error ''invalid maturity'' 400)
              | Some next_maturity \<Rightarrow> do {
                  before \<leftarrow> get_project_by_id G i;
                  case before of
                    Inl e \<Rightarrow> ret (update_failure e)
                  | Inr p \<Rightarrow> do {
                      u \<leftarrow> update_project_maturity G i next_maturity;
                      case u of
                        Inl e \<Rightarrow> ret (update_failure e)
                      | Inr _ \<Rightarrow> do {
                          (staffID, staffName) \<leftarrow> acting_staff G s;
                          _ \<leftarrow> write_audit G (zero_audit_log
                            \<lparr>al_project_id := Some i, al_staff_id := staffID,
                             al_action := ''PROJECT_MATURITY_UPDATE'',
                             al_message := ''Project maturity updated by '' @ staffName,
                             al_metadata := changes_meta s
                               [(''maturity'', change (pr_maturity p) next_maturity)]\<rparr>);
                          ret ok_reply } } })))"

end
