(* ===== verification/Bff_Onboarding.thy ===== *)
theory Bff_Onboarding
  imports Bff_Projects
begin

text \<open>
  The open onboarding issues of \<^verbatim>\<open>cmd/web-bff/main.go\<close>: fetching them from GitHub, leaving out
  those that already have a project, the cache in front, and the two routes that show them.
  The cache is a value \<open>issue_cache option\<close> (\<open>None\<close> is the nil pointer) handed through the
  operations; the methods lock it only to read or replace it.
\<close>

section \<open>Issues\<close>

record issue_summary =
  oi_number :: int
  oi_title :: string
  oi_url :: string
  oi_project :: string

record issue_cache =
  ic_expires :: int
  ic_raw :: "issue_summary list"
  ic_issues :: "issue_summary list"

text \<open>The zero \<^verbatim>\<open>time.Time\<close> lies before every time the clock shows.\<close>

definition invalidate_onboarding_cache :: "int \<Rightarrow> issue_cache option \<Rightarrow> issue_cache option" where
  "invalidate_onboarding_cache zero_time cache =
     map_option (\<lambda>c. c\<lparr>ic_expires := zero_time, ic_issues := [], ic_raw := []\<rparr>) cache"

definition onboarding_cache_ttl :: int where "onboarding_cache_ttl = 900000000000"

definition summary_of :: "gh_issue \<Rightarrow> issue_summary" where
  "summary_of i =
     \<lparr>oi_number = gi_number i, oi_title = gi_title i, oi_url = gi_url i,
      oi_project = (case get_project_name_from_project_title (gi_title i) of Inl _ \<Rightarrow> [] | Inr n \<Rightarrow> n)\<rparr>"

text \<open>
  The loop over the pages of the search; \<open>page\<close> is 0 at first, and an answer whose next page is
  0 (or is missing) ends it.  GitHub decides whether it ends, hence the fuel.
\<close>

fun fetch_issues_from ::
  "'w env \<Rightarrow> nat \<Rightarrow> int \<Rightarrow> issue_summary list \<Rightarrow> ('w, issue_summary list result option) io" where
  "fetch_issues_from E 0 page issues = ret None"
| "fetch_issues_from E (Suc fuel) page issues =
     do { r \<leftarrow> en_issues_page E page;
          case r of
            Inl e \<Rightarrow> ret (Some (Inl e))
          | Inr (result, next_page) \<Rightarrow>
              let issues' = issues @ map summary_of result in
              if next_page = 0 then ret (Some (Inr issues')) else fetch_issues_from E fuel next_page issues' }"

definition fetch_onboarding_issues_from_github ::
  "'w env \<Rightarrow> nat \<Rightarrow> ('w, issue_summary list result option) io" where
  "fetch_onboarding_issues_from_github E fuel = fetch_issues_from E fuel 0 []"

text \<open>The condition of the count: an issue url, a project name, both, or no condition at all.\<close>

definition has_project :: "issue_summary \<Rightarrow> project \<Rightarrow> bool" where
  "has_project i p =
     (let by_url = (case pr_onboarding_issue p of None \<Rightarrow> False | Some u \<Rightarrow> to_lower u = to_lower (oi_url i));
          by_name = (to_lower (pr_name p) = to_lower (oi_project i)) in
      if oi_url i \<noteq> [] \<and> oi_project i \<noteq> [] then by_url \<or> by_name
      else if oi_url i \<noteq> [] then by_url
      else if oi_project i \<noteq> [] then by_name
      else True)"

fun filter_issues :: "'w gorm \<Rightarrow> issue_summary list \<Rightarrow> ('w, issue_summary list result) io" where
  "filter_issues G [] = ret (Inr [])"
| "filter_issues G (i # is) =
     try_bind (t_count (projects G) (has_project i)) (\<lambda>n.
     try_bind (filter_issues G is) (\<lambda>rest.
     ret (Inr (if n = 0 then i # rest else rest))))"

type_synonym 'w fetcher = "('w, issue_summary list result) io"

definition fetch_and_filter_onboarding_issues ::
  "'w fetcher \<Rightarrow> 'w gorm option \<Rightarrow> ('w, (issue_summary list \<times> issue_summary list) result) io" where
  "fetch_and_filter_onboarding_issues fetch store =
     try_bind fetch (\<lambda>raw.
     case store of
       None \<Rightarrow> ret (Inr (raw, raw))
     | Some G \<Rightarrow> try_bind (filter_issues G raw) (\<lambda>filtered. ret (Inr (raw, filtered))))"

text \<open>
  \<^verbatim>\<open>getOnboardingIssues\<close> and \<^verbatim>\<open>getOnboardingIssuesRaw\<close>: the second component is the cache
  afterwards.  The time of expiry is counted from the clock read before the fetch.
\<close>

definition get_onboarding_issues ::
  "'w env \<Rightarrow> 'w fetcher option \<Rightarrow> 'w gorm option \<Rightarrow> issue_cache option \<Rightarrow>
   ('w, issue_summary list result \<times> issue_cache option) io" where
  "get_onboarding_issues E fetcher store cache =
     (case fetcher of
        None \<Rightarrow> ret (Inl (Msg ''onboarding issue fetcher not configured''), cache)
      | Some fetch \<Rightarrow> (case cache of
          None \<Rightarrow> do {
            r \<leftarrow> fetch_and_filter_onboarding_issues fetch store;
            ret (case r of Inl e \<Rightarrow> Inl e | Inr (raw, filtered) \<Rightarrow> Inr filtered, cache) }
        | Some c \<Rightarrow> do {
            now \<leftarrow> en_now E;
            if now < ic_expires c \<and> ic_issues c \<noteq> [] then ret (Inr (ic_issues c), cache)
            else do {
              r \<leftarrow> fetch_and_filter_onboarding_issues fetch store;
              ret (case r of
                     Inl e \<Rightarrow> (Inl e, cache)
                   | Inr (raw, filtered) \<Rightarrow>
                       (Inr filtered, Some \<lparr>ic_expires = now + onboarding_cache_ttl, ic_raw = raw,
                                            ic_issues = filtered\<rparr>)) } }))"

definition get_onboarding_issues_raw ::
  "'w env \<Rightarrow> 'w fetcher option \<Rightarrow> 'w gorm option \<Rightarrow> issue_cache option \<Rightarrow>
   ('w, issue_summary list result \<times> issue_cache option) io" where
  "get_onboarding_issues_raw E fetcher store cache =
     (case fetcher of
        None \<Rightarrow> ret (Inl (Msg ''onboarding issue fetcher not configured''), cache)
      | Some fetch \<Rightarrow> (case cache of
          None \<Rightarrow> do {
            r \<leftarrow> fetch_and_filter_onboarding_issues fetch store;
            ret (case r of Inl e \<Rightarrow> Inl e | Inr (raw, filtered) \<Rightarrow> Inr raw, cache) }
        | Some c \<Rightarrow> do {
            now \<leftarrow> en_now E;
            if now < ic_expires c \<and> ic_raw c \<noteq> [] then ret (Inr (ic_raw c), cache)
            else do {
              r \<leftarrow> fetch_and_filter_onboarding_issues fetch store;
              ret (case r of
                     Inl e \<Rightarrow> (Inl e, cache)
                   | Inr (raw, filtered) \<Rightarrow>
                       (Inr raw, Some \<lparr>ic_expires = now + onboarding_cache_ttl, ic_raw = raw,
                                       ic_issues = filtered\<rparr>)) } }))"

section \<open>Routes\<close>

definition issue_json :: "issue_summary \<Rightarrow> json" where
  "issue_json i = J_obj ([(''number'', J_int (oi_number i)), (''title'', J_str (oi_title i)),
                          (''url'', J_str (oi_url i))] @ omit_str ''projectName'' (oi_project i))"

definition handle_onboarding_issues ::
  "config \<Rightarrow> 'w env \<Rightarrow> 'w fetcher option \<Rightarrow> 'w gorm option \<Rightarrow> session option \<Rightarrow> web_request \<Rightarrow>
   issue_cache option \<Rightarrow> ('w, reply \<times> issue_cache option) io" where
  "handle_onboarding_issues cf E fetcher store sess r cache =
     (if wq_method r \<noteq> ''GET'' then ret (http_error ''method not allowed'' 405, cache)
      else if \<not> is_staff_session sess then ret (forbidden, cache)
      else if cf_github_token cf = [] \<and> \<not> cf_test_mode cf
      then ret (http_error ''github api token not configured'' 500, cache)
      else do {
        (x, cache') \<leftarrow> get_onboarding_issues E fetcher store cache;
        ret (case x of
               Inl _ \<Rightarrow> http_error ''failed to fetch onboarding issues'' 502
             | Inr issues \<Rightarrow> json_reply (J_obj [(''issues'', J_list (map issue_json issues))]), cache') })"

definition handle_resolve_onboarding ::
  "config \<Rightarrow> 'w env \<Rightarrow> session option \<Rightarrow> web_request \<Rightarrow> string option \<Rightarrow> ('w, reply) io" where
  "handle_resolve_onboarding cf E sess r req =
     (if wq_method r \<noteq> ''POST'' then ret (http_error ''method not allowed'' 405)
      else if \<not> is_staff_session sess then ret forbidden
      else case req of
        None \<Rightarrow> ret (http_error ''invalid request'' 400)
      | Some u \<Rightarrow>
          let issueURL = trim_space u in
          if issueURL = [] then ret (http_error ''issueUrl is required'' 400)
          else if cf_github_token cf = [] then ret (http_error ''github api token not configured'' 500)
          else case parse_github_issue_url E issueURL of
            Inl e \<Rightarrow> ret (http_error (error_text e) 400)
          | Inr (owner, repo, number) \<Rightarrow> do {
              t \<leftarrow> en_issue_title E owner repo number;
              ret (case t of
                     Inl _ \<Rightarrow> http_error ''failed to fetch onboarding issue'' 502
                   | Inr title \<Rightarrow> (case get_project_name_from_project_title title of
                       Inl e \<Rightarrow> http_error (error_text e) 400
                     | Inr projectName \<Rightarrow>
                         json_reply (J_obj [(''title'', J_str title), (''projectName'', J_str projectName)]))) })"

text \<open>The dispatch of \<^verbatim>\<open>/api/projects\<close> (\<^verbatim>\<open>POST\<close>) with the cache it drops, and of \<^verbatim>\<open>/api/projects/{id}\<close>.\<close>

definition create_project_route ::
  "int \<Rightarrow> config \<Rightarrow> 'w env \<Rightarrow> 'w gorm \<Rightarrow> session option \<Rightarrow> web_request \<Rightarrow> project_create_request option \<Rightarrow>
   issue_cache option \<Rightarrow> ('w, reply \<times> issue_cache option) io" where
  "create_project_route zero_time cf E G sess r req cache =
     do { (rep, drop_it) \<leftarrow> handle_project_create cf E G sess r req;
          ret (rep, if drop_it then invalidate_onboarding_cache zero_time cache else cache) }"

definition handle_project ::
  "'w env \<Rightarrow> 'w gorm \<Rightarrow> session option \<Rightarrow> web_request \<Rightarrow> string option \<Rightarrow> ('w, reply) io" where
  "handle_project E G sess r req =
     (if wq_method r = ''PATCH''
      then if has_suffix (wq_path r) ''/maturity'' then handle_project_maturity_update G sess r req
           else handle_project_maintainer_ref_update G sess r req
      else handle_project_get E G sess r)"

end
