(* ===== verification/Bff_Maintainers.thy ===== *)
theory Bff_Maintainers
  imports Bff_Projects
begin

text \<open>
  The maintainer routes of \<^verbatim>\<open>cmd/web-bff/main.go\<close>: showing one maintainer, editing it (by the
  staff or by the maintainer), setting the status of several, and adding the maintainer a
  project's reference file names.
\<close>

section \<open>What a reply and an audit record say\<close>

definition project_links :: "project list \<Rightarrow> json" where
  "project_links ps = J_list (map (\<lambda>p. J_obj [(''id'', j_nat (row_id p)), (''name'', J_str (pr_name p))]) ps)"

definition shown_email :: "'z maintainer_scheme \<Rightarrow> string" where
  "shown_email m = normalize_value (mt_email m) EMAIL_MISSING"

definition shown_github_email :: "'z maintainer_scheme \<Rightarrow> string" where
  "shown_github_email m = normalize_value (mt_github_email m) GITHUB_MISSING"

definition plain_github :: "'z maintainer_scheme \<Rightarrow> string" where
  "plain_github m = normalize_value (mt_github m) GITHUB_MISSING"

text \<open>\<^verbatim>\<open>maintainerDetailResponse\<close>; \<open>show_mail\<close> tells whether the two addresses are filled in.\<close>

definition maintainer_json :: "maintainer \<Rightarrow> company \<Rightarrow> project list \<Rightarrow> bool \<Rightarrow> string \<Rightarrow> json" where
  "maintainer_json m c ps show_mail updatedBy =
     J_obj ([(''id'', j_nat (row_id m)), (''name'', J_str (mt_name m)),
             (''email'', J_str (if show_mail then shown_email m else [])),
             (''github'', J_str (plain_github m)),
             (''githubEmail'', J_str (if show_mail then shown_github_email m else [])),
             (''status'', J_str (mt_status m))] @
            omit_opt ''companyId'' j_nat (mt_company_id m) @
            omit_str ''company'' (co_name c) @
            [(''projects'', project_links ps), (''createdAt'', J_time (created_at m)),
             (''updatedAt'', J_time (updated_at m))] @
            omit_opt ''deletedAt'' J_time (deleted_at m) @
            omit_str ''updatedBy'' updatedBy)"

definition or_missing :: "string \<Rightarrow> string \<Rightarrow> string" where
  "or_missing missing s = (if trim_space s = [] then missing else trim_space s)"

text \<open>A field goes into the changes when it differs.\<close>

definition field_change :: "string \<Rightarrow> string \<Rightarrow> string \<Rightarrow> (string \<times> meta) list" where
  "field_change field b a = (if b \<noteq> a then [(field, change b a)] else [])"

definition common_changes :: "maintainer \<Rightarrow> 'z maintainer_scheme \<Rightarrow> (string \<times> meta) list" where
  "common_changes b a =
     field_change ''name'' (or_missing ''NAME_MISSING'' (mt_name b)) (or_missing ''NAME_MISSING'' (mt_name a)) @
     field_change ''email'' (shown_email b) (shown_email a) @
     field_change ''github'' (plain_github b) (plain_github a)"

definition field_list :: "(string \<times> meta) list \<Rightarrow> string" where
  "field_list changes = join (sort (map fst changes)) '', ''"

section \<open>Showing a maintainer\<close>

text \<open>
  Who asks: nobody but a maintainer with a row of their own and the staff gets past; the
  result is the row of a maintainer, \<open>None\<close> for the staff, or the refusal.
\<close>

definition requester_of :: "'w gorm \<Rightarrow> session \<Rightarrow> ('w, reply + maintainer option) io" where
  "requester_of G s =
     (if se_role s = role_maintainer
      then do { m \<leftarrow> get_maintainer_by_login G (se_login s);
                ret (case m of Inl _ \<Rightarrow> Inl forbidden | Inr x \<Rightarrow> Inr (Some x)) }
      else if se_role s \<noteq> role_staff then ret (Inl forbidden)
      else ret (Inr None))"

definition load_maintainer :: "'w gorm \<Rightarrow> nat \<Rightarrow> ('w, (maintainer \<times> company \<times> project list) result) io" where
  "load_maintainer G i =
     try_bind (t_first (maintainers G) (\<lambda>m. row_id m = i)) (\<lambda>m.
     try_bind (load_company G m) (\<lambda>c.
     try_bind (load_projects G (row_id m)) (\<lambda>ps.
     ret (Inr (m, c, ps)))))"

definition maintainer_updated_by :: "'w gorm \<Rightarrow> nat \<Rightarrow> ('w, string) io" where
  "maintainer_updated_by G i =
     do { a \<leftarrow> t_newest (audit_logs G) (\<lambda>e. al_maintainer_id e = Some i \<and> al_action e = ''MAINTAINER_UPDATE'');
          case a of
            Inl _ \<Rightarrow> ret []
          | Inr e \<Rightarrow> (case al_staff_id e of
              None \<Rightarrow> ret []
            | Some sid \<Rightarrow> do { s \<leftarrow> t_first (staff_members G) (\<lambda>s. row_id s = sid);
                              ret (case s of Inl _ \<Rightarrow> [] | Inr st \<Rightarrow> sm_name st) }) }"

definition maintainer_get :: "'w gorm \<Rightarrow> session \<Rightarrow> maintainer option \<Rightarrow> nat \<Rightarrow> ('w, reply) io" where
  "maintainer_get G s requester i =
     do { x \<leftarrow> load_maintainer G i;
          case x of
            Inl _ \<Rightarrow> ret (http_error ''maintainer not found'' 404)
          | Inr (m, c, ps) \<Rightarrow> do {
              updatedBy \<leftarrow> maintainer_updated_by G i;
              let isSelf = (case requester of None \<Rightarrow> False | Some q \<Rightarrow> row_id q = i);
              ret (json_reply (maintainer_json m c ps (se_role s = role_staff \<or> isSelf) updatedBy)) } }"

section \<open>Editing a maintainer\<close>

record maintainer_update_request =
  mu_name :: string
  mu_email :: string
  mu_github :: string
  mu_status :: string
  mu_company_id :: "nat option"

definition company_name_of :: "'w gorm \<Rightarrow> nat option \<Rightarrow> ('w, string) io" where
  "company_name_of G cid =
     (case cid of
        None \<Rightarrow> ret []
      | Some i \<Rightarrow> do { c \<leftarrow> t_first (companies G) (\<lambda>c. row_id c = i);
                      ret (case c of Inl _ \<Rightarrow> [] | Inr x \<Rightarrow> trim_space (co_name x)) })"

definition company_change ::
  "'w gorm \<Rightarrow> maintainer \<Rightarrow> maintainer_details \<Rightarrow> ('w, (string \<times> meta) list) io" where
  "company_change G b a =
     (if mt_company_id b = mt_company_id a then ret []
      else do {
        bn \<leftarrow> company_name_of G (mt_company_id b);
        let an = trim_space (co_name (mt_company a));
        ret [(''company'', change (if bn = [] then ''COMPANY_MISSING'' else bn)
                             (if an = [] then ''COMPANY_MISSING'' else an))] })"

text \<open>After the row was written: the audit record and the reply.\<close>

definition maintainer_updated :: "'w gorm \<Rightarrow> session \<Rightarrow> nat \<Rightarrow> maintainer \<Rightarrow> maintainer_details \<Rightarrow> ('w, reply) io" where
  "maintainer_updated G s i b a =
     do { (staffID, staffName) \<leftarrow> acting_staff G s;
          cc \<leftarrow> company_change G b a;
          let changes = common_changes b a @ field_change ''status'' (mt_status b) (mt_status a) @ cc;
          _ \<leftarrow> write_audit G (zero_audit_log
            \<lparr>al_maintainer_id := Some i, al_staff_id := staffID, al_action := ''MAINTAINER_UPDATE'',
             al_message := (if changes = [] then ''Maintainer updated by '' @ staffName
                            else ''Maintainer ['' @ field_list changes @ ''] updated by '' @ staffName),
             al_metadata := changes_meta s changes\<rparr>);
          ret (json_reply (maintainer_json (maintainer.truncate a) (mt_company a) (mt_projects a) True staffName)) }"

definition update_error :: "go_error \<Rightarrow> reply" where
  "update_error e = (if errors_is e ErrRecordNotFound then http_error ''maintainer not found'' 404
                     else http_error ''failed to update maintainer'' 500)"

definition maintainer_edit ::
  "'w gorm \<Rightarrow> session \<Rightarrow> bool \<Rightarrow> nat \<Rightarrow> maintainer_update_request option \<Rightarrow> ('w, reply) io" where
  "maintainer_edit G s editSelf i req =
     (case req of
        None \<Rightarrow> ret (http_error ''invalid request'' 400)
      | Some q \<Rightarrow> do {
          x \<leftarrow> t_first (maintainers G) (\<lambda>m. row_id m = i);
          case x of
            Inl e \<Rightarrow> ret (update_error e)
          | Inr b \<Rightarrow>
              let status = (if editSelf then mt_status b else trim_space (mu_status q));
                  name = (if editSelf then mt_name b else mu_name q);
                  github = (if editSelf then mt_github b else mu_github q) in
              if \<not> status_is_valid status then ret (http_error ''invalid status'' 400)
              else do {
                u \<leftarrow> update_maintainer_details G i name (mu_email q) github status (mu_company_id q);
                case u of
                  Inl e \<Rightarrow> ret (update_error e)
                | Inr a \<Rightarrow> maintainer_updated G s i b a } })"

definition maintainer_patch ::
  "'w gorm \<Rightarrow> session \<Rightarrow> nat \<Rightarrow> maintainer_update_request option \<Rightarrow> ('w, reply) io" where
  "maintainer_patch G s i req =
     (if se_role s = role_maintainer
      then do { m \<leftarrow> get_maintainer_by_login G (se_login s);
                case m of
                  Inl _ \<Rightarrow> ret forbidden
                | Inr q \<Rightarrow> if row_id q \<noteq> i then ret forbidden else maintainer_edit G s True i req }
      else if se_role s \<noteq> role_staff then ret forbidden
      else maintainer_edit G s False i req)"

definition handle_maintainer ::
  "'w gorm \<Rightarrow> session option \<Rightarrow> web_request \<Rightarrow> maintainer_update_request option \<Rightarrow> ('w, reply) io" where
  "handle_maintainer G sess r req =
     (if wq_method r = ''OPTIONS'' then ret (just_status 204)
      else case parse_id_param (wq_path r) ''/api/maintainers/'' of
        Inl _ \<Rightarrow> ret (http_error ''invalid maintainer id'' 400)
      | Inr i \<Rightarrow> (case sess of
          None \<Rightarrow> ret (http_error ''unauthorized'' 401)
        | Some s \<Rightarrow> do {
            who \<leftarrow> requester_of G s;
            case who of
              Inl rep \<Rightarrow> ret rep
            | Inr requester \<Rightarrow>
                if wq_method r = ''GET'' then maintainer_get G s requester i
                else if wq_method r = ''PATCH'' \<or> wq_method r = ''PUT'' then maintainer_patch G s i req
                else ret (http_error ''method not allowed'' 405) }))"

section \<open>Status of several maintainers\<close>

definition handle_maintainer_status_update ::
  "'w gorm \<Rightarrow> session option \<Rightarrow> web_request \<Rightarrow> (nat list \<times> string) option \<Rightarrow> ('w, reply) io" where
  "handle_maintainer_status_update G sess r req =
     (if wq_method r = ''OPTIONS'' then ret (just_status 204)
      else if wq_method r \<noteq> ''POST'' then ret (http_error ''method not allowed'' 405)
      else if \<not> is_staff_session sess then ret forbidden
      else case req of
        None \<Rightarrow> ret (http_error ''invalid request'' 400)
      | Some (ids, st) \<Rightarrow>
          if ids = [] then ret (http_error ''no maintainer ids provided'' 400)
          else let status = trim_space st in
            if \<not> status_is_valid status then ret (http_error ''invalid status'' 400)
            else do {
              u \<leftarrow> update_maintainers_status G ids status;
              ret (case u of Inl _ \<Rightarrow> http_error ''failed to update maintainers'' 500 | Inr _ \<Rightarrow> ok_reply) })"

section \<open>Adding a maintainer from the reference file\<close>

record add_maintainer_request =
  am_project_id :: nat
  am_name :: string
  am_github :: string
  am_email :: string
  am_company :: string

definition trimmed_request :: "add_maintainer_request \<Rightarrow> add_maintainer_request" where
  "trimmed_request q = q\<lparr>am_name := trim_space (am_name q), am_github := trim_space (am_github q),
                         am_email := trim_space (am_email q), am_company := trim_space (am_company q)\<rparr>"

text \<open>The row the upsert is going to find: by handle, then by e-mail address.\<close>

definition lookup_optional :: "'w gorm \<Rightarrow> (maintainer \<Rightarrow> bool) \<Rightarrow> ('w, maintainer option result) io" where
  "lookup_optional G P =
     do { x \<leftarrow> t_first (maintainers G) P;
          ret (case x of
                 Inr m \<Rightarrow> Inr (Some m)
               | Inl e \<Rightarrow> if errors_is e ErrRecordNotFound then Inr None else Inl e) }"

definition maintainer_before :: "'w gorm \<Rightarrow> add_maintainer_request \<Rightarrow> ('w, maintainer option result) io" where
  "maintainer_before G q =
     try_bind (if am_github q \<noteq> []
               then lookup_optional G (\<lambda>m. to_lower (mt_github m) = to_lower (am_github q))
               else ret (Inr None)) (\<lambda>b.
     if b = None \<and> am_email q \<noteq> []
     then lookup_optional G (\<lambda>m. to_lower (mt_email m) = to_lower (am_email q))
     else ret (Inr b))"

definition new_field :: "string \<Rightarrow> string \<Rightarrow> (string \<times> meta) list" where
  "new_field field v = (if v = [] then [] else [(field, M_map [(''to'', M_str v)])])"

definition company_after :: "'w gorm \<Rightarrow> add_maintainer_request \<Rightarrow> maintainer_details \<Rightarrow> ('w, string) io" where
  "company_after G q a =
     do { let a1 = trim_space (co_name (mt_company a));
          a2 \<leftarrow> (if a1 = [] then company_name_of G (mt_company_id a) else ret a1);
          ret (if a2 = [] then trim_space (am_company q) else a2) }"

definition added_changes ::
  "'w gorm \<Rightarrow> add_maintainer_request \<Rightarrow> maintainer option \<Rightarrow> maintainer_details \<Rightarrow> ('w, (string \<times> meta) list) io" where
  "added_changes G q before a =
     (case before of
        None \<Rightarrow> ret (new_field ''name'' (am_name q) @ new_field ''email'' (am_email q) @
                    new_field ''github'' (am_github q) @ new_field ''company'' (am_company q))
      | Some b \<Rightarrow> do {
          bc \<leftarrow> company_name_of G (mt_company_id b);
          ac \<leftarrow> company_after G q a;
          ret (common_changes b a @
               field_change ''company'' (if bc = [] then ''COMPANY_MISSING'' else bc)
                 (if ac = [] then ''COMPANY_MISSING'' else ac)) })"

definition added_audit ::
  "'w gorm \<Rightarrow> session \<Rightarrow> add_maintainer_request \<Rightarrow> maintainer option \<Rightarrow> maintainer_details \<Rightarrow> ('w, unit) io" where
  "added_audit G s q before a =
     do { staffID \<leftarrow> lookup_staff_id G (se_login s);
          staffName \<leftarrow> staff_display G s staffID;
          changes \<leftarrow> added_changes G q before a;
          if changes = [] then ret ()
          else write_audit G (zero_audit_log
            \<lparr>al_project_id := Some (am_project_id q), al_maintainer_id := Some (row_id a),
             al_staff_id := staffID,
             al_action := (if before = None then ''MAINTAINER_CREATE'' else ''MAINTAINER_UPDATE''),
             al_message := (if before = None then ''Maintainer created by '' @ staffName
                            else ''Maintainer ['' @ field_list changes @ ''] updated by '' @ staffName),
             al_metadata := changes_meta s changes\<rparr>) }"

definition added_json :: "maintainer_details \<Rightarrow> json" where
  "added_json a =
     J_obj ([(''id'', j_nat (row_id a)), (''name'', J_str (mt_name a)), (''github'', J_str (plain_github a))] @
            omit_str ''email'' (shown_email a) @ omit_str ''company'' (co_name (mt_company a)))"

definition handle_maintainer_from_ref ::
  "'w gorm \<Rightarrow> session option \<Rightarrow> web_request \<Rightarrow> add_maintainer_request option \<Rightarrow> ('w, reply) io" where
  "handle_maintainer_from_ref G sess r req =
     (if wq_method r \<noteq> ''POST'' then ret (http_error ''method not allowed'' 405)
      else case sess of
        None \<Rightarrow> ret forbidden
      | Some s \<Rightarrow>
          if se_role s \<noteq> role_staff then ret forbidden
          else case req of
            None \<Rightarrow> ret (http_error ''invalid request'' 400)
          | Some q0 \<Rightarrow>
              let q = trimmed_request q0 in
              if am_project_id q = 0 \<or> am_github q = [] then ret (http_error ''missing required fields'' 400)
              else do {
                b \<leftarrow> maintainer_before G q;
                case b of
                  Inl _ \<Rightarrow> ret (http_error ''failed to load maintainer'' 500)
                | Inr before \<Rightarrow> do {
                    u \<leftarrow> upsert_maintainer G (am_project_id q) (am_name q) (am_email q) (am_github q) (am_company q);
                    case u of
                      Inl e \<Rightarrow> ret (if errors_is e ErrProjectNotFound then http_error ''project not found'' 404
                                  else http_error ''failed to create maintainer'' 500)
                    | Inr a \<Rightarrow> do { _ \<leftarrow> added_audit G s q before a; ret (json_reply (added_json a)) } } })"

end
