(* ===== verification/Bff_Lists.thy ===== *)
theory Bff_Lists
  imports Bff_Onboarding Bff_Maintainers
begin

text \<open>
  The lists of \<^verbatim>\<open>cmd/web-bff/main.go\<close>: all projects, recent projects, the audit log and the
  search.  The handlers build where clauses and leave their meaning to the database: a clause is a
  datum, and the queries are parameters that take clauses, an order and a window of rows.
\<close>

section \<open>Queries\<close>

text \<open>\<open>Like e p\<close> is \<^verbatim>\<open>e LIKE p\<close> for a column expression; \<open>Any_Like\<close> is the disjunction.\<close>

datatype clause = Maturity_In "string list" | Like string string | Any_Like "(string \<times> string) list"

record recent_row =
  rw_id :: nat
  rw_name :: string
  rw_onboarding_issue :: "string option"
  rw_created_at :: int

text \<open>
  Counts are of distinct rows.  \<open>lq_staff\<close> is the preload of the staff member of an audit record.
  The last six calls are the queries of the search in PostgreSQL: the words, the pattern, and the
  window.
\<close>

record 'w list_queries =
  lq_count_projects :: "clause list \<Rightarrow> ('w, nat result) io"
  lq_project_ids :: "clause list \<Rightarrow> string \<Rightarrow> int \<Rightarrow> int \<Rightarrow> ('w, nat list result) io"
  lq_projects_by_id :: "nat list \<Rightarrow> ('w, loaded_project list result) io"
  lq_recent_rows :: "clause list \<Rightarrow> ('w, recent_row list result) io"
  lq_created_audits :: "nat list \<Rightarrow> ('w, (audit_log \<times> staff_member option) list result) io"
  lq_count_audits :: "('w, nat result) io"
  lq_audits :: "int \<Rightarrow> int \<Rightarrow> ('w, (audit_log \<times> staff_member option) list result) io"
  lq_is_postgres :: bool
  lq_find_projects :: "clause list \<Rightarrow> int \<Rightarrow> int \<Rightarrow> ('w, project list result) io"
  lq_count_maintainers :: "clause list \<Rightarrow> ('w, nat result) io"
  lq_find_maintainers :: "clause list \<Rightarrow> int \<Rightarrow> int \<Rightarrow> ('w, maintainer_details list result) io"
  lq_count_companies :: "clause list \<Rightarrow> ('w, nat result) io"
  lq_find_companies :: "clause list \<Rightarrow> int \<Rightarrow> int \<Rightarrow> ('w, company list result) io"
  pg_count_projects :: "string \<Rightarrow> ('w, nat result) io"
  pg_find_projects :: "string \<Rightarrow> int \<Rightarrow> int \<Rightarrow> ('w, project list result) io"
  pg_count_maintainers :: "string \<Rightarrow> string \<Rightarrow> ('w, nat result) io"
  pg_find_maintainers :: "string \<Rightarrow> string \<Rightarrow> int \<Rightarrow> int \<Rightarrow> ('w, (maintainer \<times> string) list result) io"
  pg_maintainer_projects :: "nat list \<Rightarrow> ('w, (nat \<times> nat \<times> string) list result) io"
  pg_count_companies :: "string \<Rightarrow> string \<Rightarrow> ('w, nat result) io"
  pg_find_companies :: "string \<Rightarrow> string \<Rightarrow> int \<Rightarrow> int \<Rightarrow> ('w, company list result) io"

definition like_any :: "string \<Rightarrow> string" where "like_any s = ''%'' @ s @ ''%''"

text \<open>A reply of a failed query, or the rest of the handler.\<close>

definition or_fail :: "string \<Rightarrow> ('w, 'a result) io \<Rightarrow> ('a \<Rightarrow> ('w, reply) io) \<Rightarrow> ('w, reply) io" where
  "or_fail msg m k =
     do { x \<leftarrow> m; case x of Inl _ \<Rightarrow> ret (http_error msg 500) | Inr y \<Rightarrow> k y }"

section \<open>All projects\<close>

text \<open>\<^verbatim>\<open>strings.NewReplacer(" ", "", "-", "", "_", "")\<close>.\<close>

definition compact :: "string \<Rightarrow> string" where
  "compact s = filter (\<lambda>c. c \<notin> {CHR '' '', CHR ''-'', CHR ''_''}) s"

definition project_clauses :: "string list \<Rightarrow> string \<Rightarrow> string \<Rightarrow> clause list" where
  "project_clauses maturityFilters namePrefix query =
     (if maturityFilters \<noteq> [] then [Maturity_In maturityFilters] else []) @
     (if namePrefix \<noteq> [] then [Like ''LOWER(projects.name)'' (to_lower namePrefix @ ''%'')] else []) @
     (if query \<noteq> []
      then let like = like_any (to_lower query) in
           [Any_Like [(''LOWER(projects.name)'', like), (''LOWER(projects.maintainer_ref)'', like),
              (''LOWER(maint.name)'', like), (''LOWER(maint.git_hub_account)'', like), (''LOWER(comp.name)'', like),
              (''REPLACE(REPLACE(REPLACE(LOWER(comp.name)))'', like_any (compact (to_lower query)))]]
      else [])"

definition project_summary_json :: "loaded_project \<Rightarrow> json" where
  "project_summary_json p =
     J_obj [(''id'', j_nat (row_id p)), (''name'', J_str (pr_name p)), (''maturity'', J_str (pr_maturity p)),
            (''maintainers'', J_list (summarize_maintainers (pr_maintainers p)))]"

text \<open>The loaded rows in the order of the ids; an id that was not loaded is left out.\<close>

definition in_order_of :: "nat list \<Rightarrow> loaded_project list \<Rightarrow> loaded_project list" where
  "in_order_of ids results = List.map_filter (map_of (map_index row_id results)) ids"

definition projects_list :: "'w list_queries \<Rightarrow> web_request \<Rightarrow> ('w, reply) io" where
  "projects_list Q r =
     (let query = trim_space (query_get r ''query''); namePrefix = trim_space (query_get r ''namePrefix'');
          limit = parse_int_param r ''limit'' 20 1 100; offset = parse_int_param r ''offset'' 0 0 10000000;
          direction = (if to_lower (query_get r ''direction'') = ''desc'' then ''desc'' else ''asc'');
          clauses = project_clauses (parse_csv_param r ''maturity'') namePrefix query in
      or_fail ''failed to count projects'' (lq_count_projects Q clauses) (\<lambda>n_total.
      or_fail ''failed to load projects'' (lq_project_ids Q clauses (''projects.name '' @ direction) limit offset) (\<lambda>ids.
      or_fail ''failed to load projects'' (if ids \<noteq> [] then lq_projects_by_id Q ids else ret (Inr [])) (\<lambda>results.
      ret (json_reply (J_obj [(''total'', j_nat n_total),
             (''projects'', J_list (map project_summary_json (in_order_of ids results)))]))))))"

text \<open>
  A \<^verbatim>\<open>POST\<close> is handed to the route that creates a project, with the state of the process that route
  may change.
\<close>

definition handle_projects ::
  "'w gorm \<Rightarrow> 'w list_queries \<Rightarrow> ('c \<Rightarrow> ('w, reply \<times> 'c) io) \<Rightarrow> session option \<Rightarrow> web_request \<Rightarrow> 'c \<Rightarrow>
   ('w, reply \<times> 'c) io" where
  "handle_projects G Q create sess r c =
     (if wq_method r = ''POST'' then create c
      else case sess of
        None \<Rightarrow> ret (http_error ''unauthorized'' 401, c)
      | Some s \<Rightarrow>
          if se_role s = role_maintainer
          then do { m \<leftarrow> get_maintainer_by_login G (se_login s);
                    case m of Inl _ \<Rightarrow> ret (forbidden, c)
                    | Inr _ \<Rightarrow> do { rep \<leftarrow> projects_list Q r; ret (rep, c) } }
          else if se_role s \<noteq> role_staff then ret (forbidden, c)
          else do { rep \<leftarrow> projects_list Q r; ret (rep, c) })"

section \<open>Recent projects\<close>

text \<open>The comparison of \<^verbatim>\<open>sort.Slice\<close>: does the first row come before the second?\<close>

definition recent_less :: "'w env \<Rightarrow> string \<Rightarrow> string \<Rightarrow> recent_row \<Rightarrow> recent_row \<Rightarrow> bool" where
  "recent_less E sortBy direction left right =
     (let asc = (direction = ''asc'') in
      if sortBy = ''name''
      then (if asc then to_lower (rw_name left) < to_lower (rw_name right)
            else to_lower (rw_name left) > to_lower (rw_name right))
      else if sortBy = ''obissue''
      then (let l = issue_number_from_url E (rw_onboarding_issue left);
                r = issue_number_from_url E (rw_onboarding_issue right) in
            if (l \<noteq> None) \<noteq> (r \<noteq> None) then l \<noteq> None \<and> r = None
            else if l = r then (if asc then rw_id left < rw_id right else rw_id left > rw_id right)
            else if asc then the l < the r else the l > the r)
      else if asc then rw_created_at left < rw_created_at right
      else rw_created_at left > rw_created_at right)"

text \<open>A Go slice expression: a panic outside the bounds.\<close>

definition go_slice :: "'a list \<Rightarrow> int \<Rightarrow> int \<Rightarrow> 'a list go" where
  "go_slice xs i j =
     (if 0 \<le> i \<and> i \<le> j \<and> j \<le> int (length xs) then Return (take (nat (j - i)) (drop (nat i) xs)) else Panic)"

definition page_of_rows :: "'a list \<Rightarrow> int \<Rightarrow> int \<Rightarrow> 'a list go" where
  "page_of_rows rows limit offset =
     (let n = int (length rows);
          start = (if offset > n then n else offset);
          end = (if offset + limit > n then n else offset + limit)
      in go_slice rows start end)"

definition recent_clauses :: "string list \<Rightarrow> string \<Rightarrow> string \<Rightarrow> string \<Rightarrow> clause list" where
  "recent_clauses maturityFilters nameFilter maintainerFileFilter maintainerFilter =
     (if maturityFilters \<noteq> [] then [Maturity_In maturityFilters] else []) @
     (if nameFilter \<noteq> [] then [Like ''LOWER(projects.name)'' (like_any (to_lower nameFilter))] else []) @
     (if maintainerFileFilter \<noteq> []
      then [Like ''LOWER(projects.maintainer_ref)'' (like_any (to_lower maintainerFileFilter))] else []) @
     (if maintainerFilter \<noteq> []
      then [Any_Like [(''LOWER(maint.name)'', like_any (to_lower maintainerFilter)),
                      (''LOWER(maint.git_hub_account)'', like_any (to_lower maintainerFilter))]] else [])"

definition em_dash :: string where "em_dash = [CHR 0xE2, CHR 0x80, CHR 0x94]"

definition added_by_label :: "audit_log \<times> staff_member option \<Rightarrow> string" where
  "added_by_label a =
     (let named = (case snd a of
                     None \<Rightarrow> []
                   | Some s \<Rightarrow> if trim_space (sm_name s) = [] then trim_space (sm_github s) else trim_space (sm_name s));
          label = (if named = [] then (case al_staff_id (fst a) of None \<Rightarrow> [] | Some i \<Rightarrow> ''Staff #'' @ itoa (int i)) else named)
      in if label = [] then em_dash else label)"

text \<open>The first record of a project decides.\<close>

definition added_by :: "(audit_log \<times> staff_member option) list \<Rightarrow> (nat, string) gomap" where
  "added_by audits =
     foldl (\<lambda>m a. case al_project_id (fst a) of
              None \<Rightarrow> m
            | Some p \<Rightarrow> if map_of m p \<noteq> None then m else map_put p (added_by_label a) m) [] audits"

definition recent_project_json ::
  "(int \<Rightarrow> string) \<Rightarrow> (nat, string) gomap \<Rightarrow> string list \<Rightarrow> loaded_project \<Rightarrow> json" where
  "recent_project_json rfc3339 addedBy openIssues p =
     (let by = (case map_of addedBy (row_id p) of None \<Rightarrow> [] | Some l \<Rightarrow> l);
          issue = (case pr_onboarding_issue p of None \<Rightarrow> [] | Some i \<Rightarrow> trim_space i);
          state = (if issue = [] then []
                   else if to_lower issue \<in> set openIssues then ''open'' else ''closed'');
          ms = summarize_maintainers (pr_maintainers p) in
      J_obj ([(''id'', j_nat (row_id p)), (''name'', J_str (pr_name p)), (''maturity'', J_str (pr_maturity p)),
              (''addedBy'', J_str (if by = [] then em_dash else by))] @
             omit_str ''onboardingIssue'' issue @ omit_str ''onboardingIssueStatus'' state @
             omit_str ''legacyMaintainerRef'' (trim_space (pr_legacy_ref p)) @
             omit_str ''githubOrg'' (trim_space (pr_github_org p)) @
             omit_str ''dotProjectYamlRef'' (trim_space (pr_dot_project_ref p)) @
             omit_str ''createdAt'' (rfc3339 (created_at p)) @
             (if ms = [] then [] else [(''maintainers'', J_list ms)])))"

text \<open>The rest of the handler, once the ids of the page are known.\<close>

definition recent_page ::
  "'w env \<Rightarrow> 'w fetcher option \<Rightarrow> 'w gorm option \<Rightarrow> 'w list_queries \<Rightarrow> (int \<Rightarrow> string) \<Rightarrow> nat \<Rightarrow> nat list
     \<Rightarrow> issue_cache option \<Rightarrow> ('w, reply \<times> issue_cache option) io" where
  "recent_page E fetcher store Q rfc3339 n_total ids cache =
     do { ps \<leftarrow> (if ids \<noteq> [] then lq_projects_by_id Q ids else ret (Inr []));
          case ps of
            Inl _ \<Rightarrow> ret (http_error ''failed to load projects'' 500, cache)
          | Inr found \<Rightarrow>
              do { au \<leftarrow> (if ids \<noteq> [] then lq_created_audits Q ids else ret (Inr []));
                   (raw, cache) \<leftarrow> get_onboarding_issues_raw E fetcher store cache;
                   let by = (case au of Inl _ \<Rightarrow> [] | Inr audits \<Rightarrow> added_by audits);
                       open_issues = (case raw of Inl _ \<Rightarrow> [] | Inr is \<Rightarrow> map (\<lambda>i. to_lower (oi_url i)) is) in
                   ret (json_reply (J_obj [(''total'', j_nat n_total),
                     (''projects'', J_list (map (recent_project_json rfc3339 by open_issues) (in_order_of ids found)))]),
                     cache) } }"

definition handle_recent_projects ::
  "((recent_row \<Rightarrow> recent_row \<Rightarrow> bool) \<Rightarrow> recent_row list \<Rightarrow> recent_row list) \<Rightarrow> 'w env \<Rightarrow> 'w fetcher option
     \<Rightarrow> 'w gorm option \<Rightarrow> 'w list_queries \<Rightarrow> (int \<Rightarrow> string) \<Rightarrow> session option \<Rightarrow> web_request
     \<Rightarrow> issue_cache option \<Rightarrow> ('w, (reply \<times> issue_cache option) go) io" where
  "handle_recent_projects sort_slice E fetcher store Q rfc3339 sess r cache =
     (if wq_method r \<noteq> ''GET'' then ret (Return (http_error ''method not allowed'' 405, cache))
      else case sess of
        None \<Rightarrow> ret (Return (http_error ''unauthorized'' 401, cache))
      | Some s \<Rightarrow>
          if se_role s \<noteq> role_staff \<and> se_role s \<noteq> role_maintainer then ret (Return (forbidden, cache))
          else let limit = parse_int_param r ''limit'' 10 1 50; offset = parse_int_param r ''offset'' 0 0 10000000;
                   raw_sort = to_lower (trim_space (query_get r ''sort''));
                   sortBy = (if raw_sort = [] then ''created'' else raw_sort);
                   direction = (if to_lower (trim_space (query_get r ''direction'')) = ''asc'' then ''asc'' else ''desc'');
                   clauses = recent_clauses (parse_csv_param r ''maturity'') (trim_space (query_get r ''projectName''))
                     (trim_space (query_get r ''maintainerFile'')) (trim_space (query_get r ''maintainer'')) in
          do { n \<leftarrow> lq_count_projects Q clauses;
               case n of
                 Inl _ \<Rightarrow> ret (Return (http_error ''failed to load projects'' 500, cache))
               | Inr n_total \<Rightarrow>
                   do { rs \<leftarrow> lq_recent_rows Q clauses;
                        case rs of
                          Inl _ \<Rightarrow> ret (Return (http_error ''failed to load projects'' 500, cache))
                        | Inr rows \<Rightarrow>
                            (case page_of_rows (sort_slice (recent_less E sortBy direction) rows) limit offset of
                               Panic \<Rightarrow> ret Panic
                             | Return page \<Rightarrow>
                                 do { x \<leftarrow> recent_page E fetcher store Q rfc3339 n_total (map rw_id page) cache;
                                      ret (Return x) }) } })"

section \<open>The audit log\<close>

definition audit_json :: "audit_log \<times> staff_member option \<Rightarrow> json" where
  "audit_json x =
     (let a = fst x in
      J_obj ([(''id'', j_nat (row_id a)), (''action'', J_str (al_action a)), (''message'', J_str (al_message a))] @
             omit_str ''metadata'' (al_metadata a) @ [(''createdAt'', J_time (created_at a))] @
             omit_opt ''projectId'' j_nat (al_project_id a) @ omit_opt ''maintainerId'' j_nat (al_maintainer_id a) @
             omit_opt ''serviceId'' j_nat (al_service_id a) @ omit_opt ''staffId'' j_nat (al_staff_id a) @
             (case snd x of None \<Rightarrow> [] | Some s \<Rightarrow> omit_str ''staffName'' (sm_name s) @ omit_str ''staffLogin'' (sm_github s))))"

definition handle_audit :: "'w list_queries \<Rightarrow> session option \<Rightarrow> web_request \<Rightarrow> ('w, reply) io" where
  "handle_audit Q sess r =
     (if wq_method r = ''OPTIONS'' then ret (just_status 204)
      else if wq_method r \<noteq> ''GET'' then ret (http_error ''method not allowed'' 405)
      else if \<not> is_staff_session sess then ret forbidden
      else let limit = parse_int_param r ''limit'' 20 1 200; offset = parse_int_param r ''offset'' 0 0 10000000 in
        or_fail ''failed to load audit logs'' (lq_count_audits Q) (\<lambda>n_total.
        or_fail ''failed to load audit logs'' (lq_audits Q limit offset) (\<lambda>logs.
        ret (json_reply (J_obj [(''total'', j_nat n_total), (''logs'', J_list (map audit_json logs))])))))"

section \<open>Search\<close>

definition search_project_json :: "project \<Rightarrow> json" where
  "search_project_json p =
     J_obj ([(''id'', j_nat (row_id p)), (''name'', J_str (pr_name p))] @
            omit_str ''githubOrg'' (trim_space (pr_github_org p)) @
            omit_opt ''onboardingIssue'' J_str (pr_onboarding_issue p) @
            omit_str ''legacyMaintainerRef'' (trim_space (pr_legacy_ref p)) @
            omit_str ''dotProjectYamlRef'' (trim_space (pr_dot_project_ref p)))"

definition search_maintainer_json :: "'z maintainer_scheme \<Rightarrow> string \<Rightarrow> (nat \<times> string) list \<Rightarrow> json" where
  "search_maintainer_json m companyName ps =
     J_obj ([(''id'', j_nat (row_id m)), (''name'', J_str (trim_space (mt_name m))),
             (''github'', J_str (normalize_value (mt_github m) GITHUB_MISSING))] @
            omit_str ''email'' (normalize_value (mt_email m) EMAIL_MISSING) @ omit_str ''company'' companyName @
            (if ps = [] then []
             else [(''projects'', J_list (map (\<lambda>(i, n). J_obj [(''id'', j_nat i), (''name'', J_str n)]) ps))]))"

definition company_result_json :: "company \<Rightarrow> json" where
  "company_result_json c = J_obj [(''id'', j_nat (row_id c)), (''name'', J_str (co_name c))]"

definition search_reply :: "string \<Rightarrow> json list \<Rightarrow> json list \<Rightarrow> json list \<Rightarrow> nat \<Rightarrow> nat \<Rightarrow> nat \<Rightarrow> reply" where
  "search_reply query ps ms cs nps nms ncs =
     json_reply (J_obj [(''query'', J_str query), (''projects'', J_list ps), (''maintainers'', J_list ms),
       (''companies'', J_list cs), (''projectsTotal'', j_nat nps), (''maintainersTotal'', j_nat nms),
       (''companiesTotal'', j_nat ncs)])"

abbreviation "search_projects_failed \<equiv> ''failed to search projects''"
abbreviation "search_maintainers_failed \<equiv> ''failed to search maintainers''"
abbreviation "search_companies_failed \<equiv> ''failed to search companies''"

text \<open>The projects of the found maintainers, under the maintainer's id, in the order of the rows.\<close>

definition projects_of_maintainer :: "(nat \<times> nat \<times> string) list \<Rightarrow> nat \<Rightarrow> (nat \<times> string) list" where
  "projects_of_maintainer rows i = map snd (filter (\<lambda>row. fst row = i) rows)"

definition handle_search_postgres ::
  "'w list_queries \<Rightarrow> string \<Rightarrow> int \<Rightarrow> int \<Rightarrow> int \<Rightarrow> int \<Rightarrow> ('w, reply) io" where
  "handle_search_postgres Q query limit po mo co =
     (let like = like_any query in
      or_fail search_projects_failed (pg_count_projects Q query) (\<lambda>projectsTotal.
      or_fail search_projects_failed (pg_find_projects Q query limit po) (\<lambda>found.
      or_fail search_maintainers_failed (pg_count_maintainers Q query like) (\<lambda>maintainersTotal.
      or_fail search_maintainers_failed (pg_find_maintainers Q query like limit mo) (\<lambda>rows.
      or_fail search_maintainers_failed
        (if rows \<noteq> [] then pg_maintainer_projects Q (map (\<lambda>x. row_id (fst x)) rows) else ret (Inr [])) (\<lambda>prows.
      or_fail search_companies_failed (pg_count_companies Q like query) (\<lambda>companiesTotal.
      or_fail search_companies_failed (pg_find_companies Q like query limit co) (\<lambda>firms.
      ret (search_reply query (map search_project_json found)
        (map (\<lambda>(m, c). search_maintainer_json m c (projects_of_maintainer prows (row_id m))) rows)
        (map company_result_json firms) projectsTotal maintainersTotal companiesTotal)))))))))"

definition project_search_clauses :: "string \<Rightarrow> clause list" where
  "project_search_clauses like =
     [Any_Like [(''LOWER(name)'', like), (''LOWER(maintainer_ref)'', like), (''LOWER(dot_project_yaml_ref)'', like),
                (''LOWER(git_hub_org)'', like)]]"

definition maintainer_search_clauses :: "string \<Rightarrow> clause list" where
  "maintainer_search_clauses like =
     [Any_Like [(''LOWER(name)'', like), (''LOWER(email)'', like), (''LOWER(git_hub_account)'', like)]]"

definition handle_search_fallback ::
  "'w list_queries \<Rightarrow> string \<Rightarrow> int \<Rightarrow> int \<Rightarrow> int \<Rightarrow> int \<Rightarrow> ('w, reply) io" where
  "handle_search_fallback Q query limit po mo co =
     (let like = like_any (to_lower query) in
      or_fail search_projects_failed (lq_count_projects Q (project_search_clauses like)) (\<lambda>projectsTotal.
      or_fail search_projects_failed (lq_find_projects Q (project_search_clauses like) limit po) (\<lambda>found.
      or_fail search_maintainers_failed (lq_count_maintainers Q (maintainer_search_clauses like)) (\<lambda>maintainersTotal.
      or_fail search_maintainers_failed (lq_find_maintainers Q (maintainer_search_clauses like) limit mo) (\<lambda>ms.
      or_fail search_companies_failed (lq_count_companies Q [Like ''LOWER(name)'' like]) (\<lambda>companiesTotal.
      or_fail search_companies_failed (lq_find_companies Q [Like ''LOWER(name)'' like] limit co) (\<lambda>firms.
      ret (search_reply query (map search_project_json found)
        (map (\<lambda>m. search_maintainer_json m (co_name (mt_company m)) (map (\<lambda>p. (row_id p, pr_name p)) (mt_projects m))) ms)
        (map company_result_json firms) projectsTotal maintainersTotal companiesTotal))))))))"

definition handle_search :: "'w list_queries \<Rightarrow> session option \<Rightarrow> web_request \<Rightarrow> ('w, reply) io" where
  "handle_search Q sess r =
     (if wq_method r \<noteq> ''GET'' then ret (http_error ''method not allowed'' 405)
      else if \<not> is_staff_session sess then ret forbidden
      else let query = trim_space (query_get r ''query'') in
        if query = [] then ret (http_error ''query is required'' 400)
        else let limit = 20;
                 po = (parse_int_param r ''projectsPage'' 1 1 1000 - 1) * limit;
                 mo = (parse_int_param r ''maintainersPage'' 1 1 1000 - 1) * limit;
                 co = (parse_int_param r ''companiesPage'' 1 1 1000 - 1) * limit in
             if lq_is_postgres Q then handle_search_postgres Q query limit po mo co
             else handle_search_fallback Q query limit po mo co)"

end
