(* ===== verification/Bff_Companies.thy ===== *)
theory Bff_Companies
  imports Bff_Projects
begin

text \<open>
  The company routes of \<^verbatim>\<open>cmd/web-bff/main.go\<close>: the list with maintainer counts and its groups
  of duplicates, creating a company, one company with its maintainers, and merging two.
\<close>

section \<open>Duplicates\<close>

record company_detail =
  cd_id :: nat
  cd_name :: string
  cd_count :: nat

definition company_key :: "company_detail \<Rightarrow> string" where
  "company_key c = to_lower (trim_space (cd_name c))"

text \<open>\<^verbatim>\<open>buckets[key] = append(buckets[key], c)\<close>.\<close>

fun map_append :: "'k \<Rightarrow> 'v \<Rightarrow> ('k, 'v list) gomap \<Rightarrow> ('k, 'v list) gomap" where
  "map_append k v [] = [(k, [v])]"
| "map_append k v ((k', vs) # m) = (if k' = k then (k, vs @ [v]) # m else (k', vs) # map_append k v m)"

text \<open>The order in which Go walks the map does not show: the groups are sorted by their distinct keys.\<close>

definition group_company_duplicates :: "company_detail list \<Rightarrow> (string \<times> company_detail list) list" where
  "group_company_duplicates cs =
     (let buckets = foldl (\<lambda>m c. map_append (company_key c) c m) [] cs in
      sort_key fst (filter (\<lambda>(key, variants). \<not> length variants < 2) buckets))"

section \<open>Listing and creating\<close>

definition company_detail_json :: "company_detail \<Rightarrow> json" where
  "company_detail_json c = J_obj [(''id'', j_nat (cd_id c)), (''name'', J_str (cd_name c)),
                                  (''maintainerCount'', j_nat (cd_count c))]"

definition duplicate_json :: "string \<times> company_detail list \<Rightarrow> json" where
  "duplicate_json g = J_obj [(''canonical'', J_str (fst g)), (''variants'', J_list (map company_detail_json (snd g)))]"

text \<open>The rows of the list: companies with a name, with the count the query found for the id, else 0.\<close>

definition company_details :: "(nat \<times> nat) list \<Rightarrow> company list \<Rightarrow> company_detail list" where
  "company_details withCounts cs =
     (let countMap = foldl (\<lambda>m (i, n). m(i \<mapsto> n)) Map.empty withCounts in
      map (\<lambda>c. \<lparr>cd_id = row_id c, cd_name = co_name c,
                cd_count = (case countMap (row_id c) of None \<Rightarrow> 0 | Some n \<Rightarrow> n)\<rparr>)
        (filter (\<lambda>c. trim_space (co_name c) \<noteq> []) cs))"

text \<open>\<open>counts\<close> is the answer of the SQL query that counts maintainers by company.\<close>

definition companies_get :: "'w gorm \<Rightarrow> ('w, (nat \<times> nat) list result) io \<Rightarrow> web_request \<Rightarrow> ('w, reply) io" where
  "companies_get G counts r =
     do { x \<leftarrow> list_companies G;
          case x of
            Inl _ \<Rightarrow> ret (http_error ''failed to load companies'' 500)
          | Inr cs \<Rightarrow> do {
              n \<leftarrow> counts;
              ret (case n of
                     Inl _ \<Rightarrow> http_error ''failed to load companies'' 500
                   | Inr withCounts \<Rightarrow>
                       let resp = company_details withCounts cs in
                       if equal_fold (trim_space (query_get r ''duplicates'')) ''true''
                       then json_reply (J_list (map duplicate_json (group_company_duplicates resp)))
                       else json_reply (J_list (map company_detail_json resp))) } }"

text \<open>Who created the company: ids for the audit record and the name in its message.\<close>

definition company_actor :: "'w gorm \<Rightarrow> session \<Rightarrow> ('w, nat option \<times> nat option \<times> string) io" where
  "company_actor G s =
     do { (staffID, name1) \<leftarrow>
            (if se_role s = role_staff \<and> se_login s \<noteq> []
             then do { x \<leftarrow> staff_by_login G (se_login s);
                       ret (case x of Inl _ \<Rightarrow> (None, se_login s)
                                    | Inr st \<Rightarrow> (Some (row_id st), if sm_name st = [] then se_login s else sm_name st)) }
             else ret (None, se_login s));
          (if se_role s = role_maintainer \<and> se_login s \<noteq> []
           then do { x \<leftarrow> get_maintainer_by_login G (se_login s);
                     ret (case x of Inl _ \<Rightarrow> (staffID, None, name1)
                                  | Inr m \<Rightarrow> (staffID, Some (row_id m),
                                             if trim_space (mt_name m) = [] then name1 else mt_name m)) }
           else ret (staffID, None, name1)) }"

definition companies_post :: "'w gorm \<Rightarrow> session \<Rightarrow> string option \<Rightarrow> ('w, reply) io" where
  "companies_post G s req =
     (if se_role s \<noteq> role_staff \<and> se_role s \<noteq> role_maintainer then ret forbidden
      else case req of
        None \<Rightarrow> ret (http_error ''invalid request'' 400)
      | Some name \<Rightarrow> do {
          x \<leftarrow> create_company G name;
          case x of
            Inl e \<Rightarrow> ret (if errors_is e ErrCompanyExists then http_error ''company already exists'' 409
                        else http_error ''failed to create company'' 400)
          | Inr c \<Rightarrow> do {
              (staffID, maintainerID, actorName) \<leftarrow> company_actor G s;
              _ \<leftarrow> write_audit G (zero_audit_log
                \<lparr>al_staff_id := staffID, al_maintainer_id := maintainerID, al_action := ''COMPANY_CREATE'',
                 al_message := ''Company created by '' @ actorName,
                 al_metadata := meta_text (M_map
                   [(''actor'', actor_meta s),
                    (''company'', M_map [(''id'', M_nat (row_id c)), (''name'', M_str (co_name c))])])\<rparr>);
              ret (json_reply (J_obj [(''id'', j_nat (row_id c)), (''name'', J_str (co_name c))])) } })"

definition handle_companies ::
  "'w gorm \<Rightarrow> ('w, (nat \<times> nat) list result) io \<Rightarrow> session option \<Rightarrow> web_request \<Rightarrow> string option \<Rightarrow> ('w, reply) io" where
  "handle_companies G counts sess r req =
     (case sess of
        None \<Rightarrow> ret forbidden
      | Some s \<Rightarrow>
          if se_role s \<noteq> role_staff \<and> se_role s \<noteq> role_maintainer then ret forbidden
          else if wq_method r = ''GET'' then companies_get G counts r
          else if wq_method r = ''POST'' then companies_post G s req
          else ret (http_error ''method not allowed'' 405))"

section \<open>One company\<close>

fun preload_projects :: "'w gorm \<Rightarrow> maintainer list \<Rightarrow> ('w, (maintainer \<times> project list) list result) io" where
  "preload_projects G [] = ret (Inr [])"
| "preload_projects G (m # ms) =
     try_bind (load_projects G (row_id m)) (\<lambda>ps.
     try_bind (preload_projects G ms) (\<lambda>rest.
     ret (Inr ((m, ps) # rest))))"

definition company_maintainer_json :: "maintainer \<times> project list \<Rightarrow> json" where
  "company_maintainer_json x =
     (let m = fst x in
      J_obj ([(''id'', j_nat (row_id m)), (''name'', J_str (trim_space (mt_name m))),
              (''github'', J_str (normalize_value (mt_github m) GITHUB_MISSING))] @
             omit_str ''email'' (normalize_value (mt_email m) EMAIL_MISSING) @
             [(''projects'', J_list (map (\<lambda>p. J_obj [(''id'', j_nat (row_id p)), (''name'', J_str (pr_name p))])
                                       (snd x)))]))"

text \<open>\<open>by_name\<close> is the order the database gives rows with \<^verbatim>\<open>ORDER BY name\<close>.\<close>

definition handle_company ::
  "'w gorm \<Rightarrow> (maintainer list \<Rightarrow> maintainer list) \<Rightarrow> session option \<Rightarrow> web_request \<Rightarrow> ('w, reply) io" where
  "handle_company G by_name sess r =
     (if wq_method r = ''OPTIONS'' then ret (just_status 204)
      else if wq_method r \<noteq> ''GET'' then ret (http_error ''method not allowed'' 405)
      else case parse_id_param (wq_path r) ''/api/companies/'' of
        Inl _ \<Rightarrow> ret (http_error ''invalid company id'' 400)
      | Inr i \<Rightarrow>
          if \<not> is_staff_session sess then ret forbidden
          else do {
            c \<leftarrow> t_first (companies G) (\<lambda>c. row_id c = i);
            case c of
              Inl _ \<Rightarrow> ret (http_error ''company not found'' 404)
            | Inr company \<Rightarrow> do {
                ms \<leftarrow> try_bind (t_find (maintainers G) (\<lambda>m. mt_company_id m = Some i))
                              (\<lambda>ms. preload_projects G (by_name ms));
                ret (case ms of
                       Inl _ \<Rightarrow> http_error ''failed to load maintainers'' 500
                     | Inr rows \<Rightarrow> json_reply (J_obj
                         [(''id'', j_nat (row_id company)), (''name'', J_str (co_name company)),
                          (''maintainers'', J_list (map company_maintainer_json rows))])) } })"

section \<open>Merging\<close>

definition handle_company_merge ::
  "'w gorm \<Rightarrow> session option \<Rightarrow> web_request \<Rightarrow> (nat \<times> nat) option \<Rightarrow> ('w, reply) io" where
  "handle_company_merge G sess r req =
     (if wq_method r = ''OPTIONS'' then ret (just_status 204)
      else if wq_method r \<noteq> ''POST'' then ret (http_error ''method not allowed'' 405)
      else if \<not> is_staff_session sess then ret forbidden
      else case req of
        None \<Rightarrow> ret (http_error ''invalid request'' 400)
      | Some (fromID, toID) \<Rightarrow>
          if fromID = 0 \<or> toID = 0 \<or> fromID = toID then ret (http_error ''invalid ids'' 400)
          else do {
            x \<leftarrow> merge_companies G fromID toID;
            ret (case x of Inl _ \<Rightarrow> http_error ''failed to merge companies'' 400 | Inr _ \<Rightarrow> ok_reply) })"

definition handle_api_not_implemented :: "web_request \<Rightarrow> reply" where
  "handle_api_not_implemented r = http_error ''api not implemented'' 501"

section \<open>The groups of duplicates\<close>

lemma map_append_keys: "fst ` set (map_append k v m) = insert k (fst ` set m)"
  by (induction k v m rule: map_append.induct) auto

lemma map_append_distinct: "distinct (map fst m) \<Longrightarrow> distinct (map fst (map_append k v m))"
  by (induction k v m rule: map_append.induct) (auto simp: map_append_keys simp flip: image_image)

lemma map_append_get:
  "map_of (map_append k v m) k' =
     (if k' = k then Some ((case map_of m k of None \<Rightarrow> [] | Some vs \<Rightarrow> vs) @ [v]) else map_of m k')"
  by (induction k v m rule: map_append.induct) auto

text \<open>After any number of companies: distinct keys, and under a key the companies that have it, in order.\<close>

lemma buckets_spec:
  fixes cs :: "company_detail list"
  defines "b \<equiv> foldl (\<lambda>m c. map_append (company_key c) c m) [] cs"
  shows "distinct (map fst b)"
    and "map_of b k = (if \<exists>c \<in> set cs. company_key c = k then Some (filter (\<lambda>c. company_key c = k) cs) else None)"
  unfolding b_def
proof (induction cs rule: rev_induct)
  case (snoc x xs)
  case 1 show ?case using snoc(1) by (simp add: map_append_distinct)
  case 2 show ?case using snoc(2)
    by (auto simp: map_append_get filter_empty_conv split: option.splits if_splits)
qed simp_all

lemma buckets_set:
  "(k, vs) \<in> set (foldl (\<lambda>m c. map_append (company_key c) c m) [] cs) \<longleftrightarrow>
     vs = filter (\<lambda>c. company_key c = k) cs \<and> vs \<noteq> []"
proof -
  let ?b = "foldl (\<lambda>m c. map_append (company_key c) c m) [] cs"
  have "(k, vs) \<in> set ?b \<longleftrightarrow> map_of ?b k = Some vs"
    using buckets_spec(1)[of cs] by (simp add: map_of_eq_Some_iff)
  then show ?thesis by (auto simp: buckets_spec(2) filter_empty_conv)
qed

lemma sort_key_distinct:
  "distinct (map f xs) \<Longrightarrow> sorted_wrt (<) (map f (sort_key f xs))"
proof -
  assume "distinct (map f xs)"
  then have "distinct (map f (sort_key f xs))"
    by (metis distinct_sort mset_map mset_sort mset_eq_imp_distinct_iff)
  then show ?thesis by (simp add: strict_sorted_iff)
qed

text \<open>
  The groups of duplicates are, sorted by name, exactly the names that at least two
  companies share when spaces around them and letter case are ignored, each once, and each with
  all the companies of that name in the order of the list.
\<close>

theorem group_company_duplicates_spec:
  "sorted_wrt (<) (map fst (group_company_duplicates cs)) \<and>
   (\<forall>k vs. (k, vs) \<in> set (group_company_duplicates cs) \<longleftrightarrow>
      vs = filter (\<lambda>c. company_key c = k) cs \<and> 2 \<le> length vs)"
proof
  let ?b = "foldl (\<lambda>m c. map_append (company_key c) c m) [] cs"
  have "distinct (map fst (filter (\<lambda>(key, variants). \<not> length variants < 2) ?b))"
    by (rule distinct_map_filter[OF buckets_spec(1)])
  then show "sorted_wrt (<) (map fst (group_company_duplicates cs))"
    unfolding group_company_duplicates_def Let_def by (rule sort_key_distinct)
  show "\<forall>k vs. (k, vs) \<in> set (group_company_duplicates cs) \<longleftrightarrow>
      vs = filter (\<lambda>c. company_key c = k) cs \<and> 2 \<le> length vs"
    by (auto simp: group_company_duplicates_def buckets_set)
qed

end
