(* ===== verification/Bff_Laws.thy ===== *)
theory Bff_Laws
  imports Bff_Onboarding Bff_Maintainers Bff_Companies Bff_Session_Laws
begin

text \<open>
  What the routes of the web server promise on every database that keeps the contract
  \<open>gorm_db\<close>: who may change what, what a change leaves alone and what it records.
\<close>

section \<open>Everything but the audit log\<close>

text \<open>The tables without the audit log: what a handler that only records something leaves alone.\<close>

definition rows :: "db \<Rightarrow> tables" where "rows d = (cur d)\<lparr>tb_audit_logs := []\<rparr>"

lemma rows_put_audit [simp]: "rows (put_audit_logs ls d) = rows d"
  by (simp add: rows_def)

lemma rows_put_maintainers [simp]: "rows (put_maintainers ms d) = (rows d)\<lparr>tb_maintainers := ms\<rparr>"
  by (simp add: rows_def)

lemma rows_cur: "cur d = (rows d)\<lparr>tb_audit_logs := tb_audit_logs (cur d)\<rparr>"
  by (simp add: rows_def)

lemma rows_fields [simp]:
  "tb_maintainers (rows d) = tb_maintainers (cur d)" "tb_projects (rows d) = tb_projects (cur d)"
  "tb_companies (rows d) = tb_companies (cur d)" "tb_staff (rows d) = tb_staff (cur d)"
  by (simp_all add: rows_def)

text \<open>A call that is turned away: an error status and no effect at all.\<close>

definition refuses :: "('w, reply) io \<Rightarrow> 'w \<Rightarrow> bool" where
  "refuses m w \<longleftrightarrow> (\<exists>rep. run_state m w = (rep, w) \<and> rs_status rep \<in> {204, 400, 403, 405})"

lemma http_error_status [simp]: "rs_status (http_error msg code) = code"
  by (simp add: http_error_def)

lemma json_reply_status [simp]: "rs_status (json_reply j) = 200"
  by (simp add: json_reply_def)

lemma just_status_status [simp]: "rs_status (just_status code) = code"
  by (simp add: just_status_def)

lemma refuses_ret [simp]: "refuses (ret rep) w \<longleftrightarrow> rs_status rep \<in> {204, 400, 403, 405}"
  by (simp add: refuses_def)

lemma refuses_if [intro]: "(b \<Longrightarrow> refuses m w) \<Longrightarrow> (\<not> b \<Longrightarrow> refuses n w) \<Longrightarrow> refuses (if b then m else n) w"
  by simp

lemma is_staff_session_simps [simp]:
  "\<not> is_staff_session None" "is_staff_session (Some s) \<longleftrightarrow> se_role s = role_staff"
  by (simp_all add: is_staff_session_def)

lemma not_staff_cases:
  assumes "\<not> is_staff_session sess"
  obtains "sess = None" | s where "sess = Some s" "se_role s \<noteq> role_staff"
  using assms by (cases sess) auto

lemma refuses_project_updates:
  assumes "\<not> is_staff_session sess"
  shows "refuses (handle_project_maturity_update G sess r b1) w"
    and "refuses (handle_project_maintainer_ref_update G sess r b2) w"
  using assms
  by (auto elim!: not_staff_cases split: sum.split
      simp: handle_project_maturity_update_def handle_project_maintainer_ref_update_def)

lemma refuses_maintainer_routes:
  assumes "\<not> is_staff_session sess"
  shows "refuses (handle_maintainer_status_update G sess r b3) w"
    and "refuses (handle_maintainer_from_ref G sess r b4) w"
  using assms
  by (auto elim!: not_staff_cases
      simp: handle_maintainer_status_update_def handle_maintainer_from_ref_def)

lemma refuses_company_routes:
  assumes "\<not> is_staff_session sess"
  shows "refuses (handle_company_merge G sess r b5) w" and "refuses (handle_company G by_name sess r) w"
  using assms by (auto split: sum.split simp: handle_company_merge_def handle_company_def)

lemma refuses_onboarding_routes:
  assumes "\<not> is_staff_session sess"
  shows "refuses (handle_resolve_onboarding cf E sess r b6) w"
    and "\<exists>rep. run_state (handle_onboarding_issues cf E fetcher store sess r cache) w = ((rep, cache), w) \<and>
       rs_status rep \<in> {403, 405}"
    and "\<exists>rep. run_state (create_project_route z cf E G sess r b7 cache) w = ((rep, cache), w) \<and>
       rs_status rep \<in> {204, 403}"
  using assms
  by (auto elim!: not_staff_cases simp: handle_resolve_onboarding_def handle_onboarding_issues_def
      create_project_route_def handle_project_create_def)

text \<open>
  A session that is not of the staff cannot change a project, the status of maintainers or
  the set of companies, cannot create a project or add a maintainer, and sees no onboarding
  issue: every such request ends with an error status before anything is asked of the database,
  of GitHub or of the cache.
\<close>

theorem only_staff_reach_the_staff_routes:
  assumes "\<not> is_staff_session sess"
  shows "refuses (handle_project_maturity_update G sess r b1) w \<and>
    refuses (handle_project_maintainer_ref_update G sess r b2) w \<and>
    refuses (handle_maintainer_status_update G sess r b3) w \<and>
    refuses (handle_maintainer_from_ref G sess r b4) w \<and>
    refuses (handle_company_merge G sess r b5) w \<and>
    refuses (handle_company G by_name sess r) w \<and>
    refuses (handle_resolve_onboarding cf E sess r b6) w \<and>
    (\<exists>rep. run_state (create_project_route z cf E G sess r b7 cache) w = ((rep, cache), w) \<and>
       rs_status rep \<in> {204, 403}) \<and>
    (\<exists>rep. run_state (handle_onboarding_issues cf E fetcher store sess r cache) w = ((rep, cache), w) \<and>
       rs_status rep \<in> {403, 405})"
  by (intro conjI refuses_project_updates[OF assms] refuses_maintainer_routes[OF assms]
      refuses_company_routes[OF assms] refuses_onboarding_routes[OF assms])

definition demo_session :: "string \<Rightarrow> string \<Rightarrow> session" where
  "demo_session login role = \<lparr>se_id = ''s'', se_login = login, se_role = role, se_created = 0, se_expires = 99\<rparr>"

definition demo_request :: "string \<Rightarrow> string \<Rightarrow> web_request" where
  "demo_request method path = \<lparr>wq_method = method, wq_path = path, wq_query = [], wq_cookies = [],
     wq_headers = [], wq_remote = []\<rparr>"

theorem only_staff_reach_the_staff_routes_witness:
  "refuses (handle_company_merge mem_gorm (Some (demo_session ''bob-x'' role_maintainer))
     (demo_request ''POST'' ''/api/companies/merge'') (Some (1, 2))) demo_world"
proof -
  have "\<not> is_staff_session (Some (demo_session ''bob-x'' role_maintainer))"
    by (simp add: demo_session_def)
  then show ?thesis
    by (rule only_staff_reach_the_staff_routes[THEN conjunct2, THEN conjunct2, THEN conjunct2,
          THEN conjunct2, THEN conjunct1])
qed

section \<open>Reading and recording\<close>

text \<open>
  The outside calls of the server are no calls of the database: they leave its tables alone.
\<close>

locale bff_outside = gorm_db G tabs for G :: "'w gorm" and tabs :: "'w \<Rightarrow> db" +
  fixes E :: "'w env"
  assumes now_tabs: "run_state (en_now E) w = (t, w') \<Longrightarrow> tabs w' = tabs w"
    and title_tabs: "run_state (en_issue_title E a b n) w = (x, w') \<Longrightarrow> tabs w' = tabs w"
    and page_tabs: "run_state (en_issues_page E p) w = (y, w') \<Longrightarrow> tabs w' = tabs w"
    and get_tabs: "run_state (en_http_get E u) w = (z, w') \<Longrightarrow> tabs w' = tabs w"

interpretation outside: bff_outside mem_gorm mw_db demo_env
  by unfold_locales (auto simp: demo_env_def)

context gorm_db
begin

abbreviation same_tabs :: "'w \<Rightarrow> 'w \<Rightarrow> bool" where "same_tabs w w' \<equiv> tabs w' = tabs w"
abbreviation same_rows :: "'w \<Rightarrow> 'w \<Rightarrow> bool" where "same_rows w w' \<equiv> rows (tabs w') = rows (tabs w)"

lemma rel_tabs: "reflp same_tabs" "transp same_tabs"
  by (auto intro: reflpI transpI)

lemma rel_rows: "reflp same_rows" "transp same_rows"
  by (auto intro: reflpI transpI)

lemma reads_calls:
  "keeps same_tabs (t_first (companies G) pc)" "keeps same_tabs (t_first (projects G) pp)"
  "keeps same_tabs (t_first (maintainers G) pm)" "keeps same_tabs (t_first (staff_members G) ps)"
  "keeps same_tabs (t_newest (audit_logs G) pa)" "keeps same_tabs (t_count (projects G) pp)"
  "keeps same_tabs (t_find (maintainers G) pm)" "keeps same_tabs (t_find (companies G) pc)"
  "keeps same_tabs (load_company G m)" "keeps same_tabs (load_projects G i)"
  "keeps same_tabs (load_maintainers G i)" "keeps same_tabs (load_services G i)"
  by (auto intro!: keepsI dest: reads_tabs load_tabs)

lemmas reads_intros =
  reads_calls keeps_try[OF rel_tabs(2) rel_tabs(1)] keeps_bind[OF rel_tabs(2)] keeps_ret[OF rel_tabs(1)]

lemma reads_helpers:
  "keeps same_tabs (get_project_by_id G i)" "keeps same_tabs (staff_by_login G l)"
  "keeps same_tabs (get_maintainer_by_login G l)" "keeps same_tabs (company_name_of G c)"
  "keeps same_tabs (ensure_project_name_available G n)" "keeps same_tabs (lookup_optional G pm)"
  by (auto simp: get_project_by_id_def staff_by_login_def get_maintainer_by_login_def company_name_of_def
      ensure_project_name_available_def lookup_optional_def split: option.split intro!: reads_intros)

lemma reads_staff:
  "keeps same_tabs (acting_staff G s)" "keeps same_tabs (lookup_staff_id G l)"
  "keeps same_tabs (staff_display G s i)"
  by (auto simp: acting_staff_def lookup_staff_id_def staff_display_def split: option.split
      intro!: reads_intros reads_helpers)

lemma reads_maintainer_helpers:
  "keeps same_tabs (company_change G b a)" "keeps same_tabs (requester_of G s)"
  "keeps same_tabs (load_maintainer G i)" "keeps same_tabs (maintainer_updated_by G i)"
  "keeps same_tabs (check_parent G pa)" "keeps same_tabs (maintainer_before G q)"
  by (auto simp: company_change_def requester_of_def load_maintainer_def maintainer_updated_by_def
      check_parent_def maintainer_before_def Let_def split: option.split sum.split
      intro!: reads_intros reads_helpers)

lemma reads_added_changes: "keeps same_tabs (added_changes G q b a)"
  by (auto simp: added_changes_def company_after_def Let_def split: option.split
      intro!: reads_intros reads_helpers)

lemma reads_maintainer_get: "keeps same_tabs (maintainer_get G s q i)"
  by (auto simp: maintainer_get_def split: sum.split
      intro!: reads_intros reads_maintainer_helpers)

lemma rows_of_reads: "keeps same_tabs m \<Longrightarrow> keeps same_rows m"
  by (auto simp: keeps_def)

lemma rows_write_audit: "keeps same_rows (write_audit G e)"
proof -
  have "keeps same_rows (t_create (audit_logs G) e)"
  proof (rule keepsI)
    fix w x w'
    assume "run_state (t_create (audit_logs G) e) w = (x, w')"
    then show "same_rows w w'" using al.create_Ok al.create_Err by (cases x) fastforce+
  qed
  then show ?thesis
    by (auto simp: write_audit_def intro!: keeps_bind[OF rel_rows(2)] keeps_ret[OF rel_rows(1)])
qed

lemmas rows_intros =
  rows_write_audit keeps_bind[OF rel_rows(2)] keeps_try[OF rel_rows(2) rel_rows(1)] keeps_ret[OF rel_rows(1)]
  rows_of_reads[OF reads_staff(1)] rows_of_reads[OF reads_staff(2)] rows_of_reads[OF reads_staff(3)]
  rows_of_reads[OF reads_maintainer_helpers(1)] rows_of_reads[OF reads_added_changes]

lemma rows_maintainer_updated: "keeps same_rows (maintainer_updated G s i b a)"
  by (auto simp: maintainer_updated_def Let_def intro!: rows_intros)

lemma rows_added_audit: "keeps same_rows (added_audit G s q b a)"
  by (auto simp: added_audit_def intro!: rows_intros)

text \<open>What an edit of one row can do, whether it ends well or not.\<close>

lemma update_details_effect:
  assumes "run_state (update_maintainer_details G i n e h st c) w = (x, w')"
  shows "tabs w' = tabs w \<or>
    (\<exists>t. tabs w' = put_maintainers (map (\<lambda>m. if row_id m = i
        then stamp t (m\<lparr>mt_name := trim_space n, mt_email := normalize_or_sentinel e EMAIL_MISSING,
               mt_github := normalize_or_sentinel h GITHUB_MISSING, mt_status := st, mt_company_id := c\<rparr>)
        else m) (tb_maintainers (cur (tabs w)))) (tabs w))"
proof -
  let ?f = "\<lambda>m :: maintainer. m\<lparr>mt_name := trim_space n, mt_email := normalize_or_sentinel e EMAIL_MISSING,
               mt_github := normalize_or_sentinel h GITHUB_MISSING, mt_status := st, mt_company_id := c\<rparr>"
  let ?rest = "try_bind (t_first (maintainers G) (\<lambda>m. row_id m = i)) (\<lambda>m.
        try_bind (load_company G m) (\<lambda>c. try_bind (load_projects G (row_id m)) (\<lambda>ps.
        ret (Inr (with_details c ps m)))))"
  have k: "keeps same_tabs ?rest" by (auto intro!: reads_intros)
  have first: "keeps same_tabs (case c of None \<Rightarrow> ret (Inr zero_company)
                  | Some cid \<Rightarrow> t_first (companies G) (\<lambda>c. row_id c = cid))"
    by (auto split: option.split intro!: reads_intros)
  show ?thesis
  proof (cases "status_is_valid st")
    case False
    then show ?thesis using assms by (simp add: update_maintainer_details_def)
  next
    case True
    with assms obtain y w1 where c: "run_state (case c of None \<Rightarrow> ret (Inr zero_company)
                  | Some cid \<Rightarrow> t_first (companies G) (\<lambda>c. row_id c = cid)) w = (y, w1)"
      and r: "(case y of Inl e \<Rightarrow> x = Inl e \<and> w' = w1 | Inr _ \<Rightarrow>
        run_state (try_bind (t_update (maintainers G) (\<lambda>m. row_id m = i) ?f) (\<lambda>_. ?rest)) w1 = (x, w'))"
      by (auto simp: update_maintainer_details_def split: prod.splits sum.splits)
    have t1: "tabs w1 = tabs w" by (rule keepsD[OF first c])
    show ?thesis
    proof (cases y)
      case (Inl e)
      then show ?thesis using r t1 by simp
    next
      case (Inr z)
      obtain u w2 where u: "run_state (t_update (maintainers G) (\<lambda>m. row_id m = i) ?f) w1 = (u, w2)"
        by (metis prod.collapse)
      show ?thesis
      proof (cases u)
        case (Inl e)
        then show ?thesis using r \<open>y = Inr z\<close> u t1 mt.update_Err by auto
      next
        case (Inr k')
        then have "run_state ?rest w2 = (x, w')" using r \<open>y = Inr z\<close> u by simp
        from keepsD[OF k this] show ?thesis using mt.update_Ok[OF u[unfolded Inr]] t1 by auto
      qed
    qed
  qed
qed

lemma maintainer_by_login_Ok:
  assumes "run_state (get_maintainer_by_login G l) w = (Inr q, w')"
  shows "tabs w' = tabs w \<and> q \<in> set (tb_maintainers (cur (tabs w))) \<and> equal_fold (mt_github q) l"
  using assms
  by (auto simp: get_maintainer_by_login_def equal_fold_def split: if_splits prod.splits sum.splits
      dest!: mt.first_Ok)

lemma requester_Inr:
  assumes "run_state (requester_of G s) w = (Inr r, w')"
  shows "tabs w' = tabs w \<and> (se_role s = role_staff \<and> r = None \<or> se_role s = role_maintainer \<and>
    (\<exists>q. r = Some q \<and> q \<in> set (tb_maintainers (cur (tabs w))) \<and> equal_fold (mt_github q) (se_login s)))"
  using assms
  by (auto simp: requester_of_def split: if_splits prod.splits sum.splits dest!: maintainer_by_login_Ok)

lemma maintainer_edit_self:
  assumes "run_state (maintainer_edit G s True i req) w = (rep, w')"
  shows "rows (tabs w') = rows (tabs w) \<or>
    (\<exists>b e t c. b \<in> set (tb_maintainers (cur (tabs w))) \<and> row_id b = i \<and>
      rows (tabs w') = (rows (tabs w))\<lparr>tb_maintainers := map (\<lambda>m. if row_id m = i
        then stamp t (m\<lparr>mt_name := trim_space (mt_name b), mt_email := normalize_or_sentinel e EMAIL_MISSING,
               mt_github := normalize_or_sentinel (mt_github b) GITHUB_MISSING,
               mt_status := mt_status b, mt_company_id := c\<rparr>)
        else m) (tb_maintainers (cur (tabs w)))\<rparr>)"
proof (cases req)
  case None
  then show ?thesis using assms by (simp add: maintainer_edit_def)
next
  case (Some q)
  obtain x w1 where f: "run_state (t_first (maintainers G) (\<lambda>m. row_id m = i)) w = (x, w1)"
    by (metis prod.collapse)
  have t1: "tabs w1 = tabs w" by (rule mt.first_tabs[OF f])
  show ?thesis
  proof (cases x)
    case (Inl e)
    then show ?thesis using assms Some f t1 by (simp add: maintainer_edit_def)
  next
    case (Inr b)
    note b = mt.first_Ok[OF f[unfolded Inr]]
    show ?thesis
    proof (cases "status_is_valid (mt_status b)")
      case False
      then show ?thesis using assms Some f Inr t1 by (simp add: maintainer_edit_def)
    next
      case True
      obtain u w2 where u: "run_state (update_maintainer_details G i (mt_name b) (mu_email q) (mt_github b)
          (mt_status b) (mu_company_id q)) w1 = (u, w2)" by (metis prod.collapse)
      have "rows (tabs w') = rows (tabs w2)"
        using assms Some f Inr True u
        by (cases u) (auto simp: maintainer_edit_def Let_def dest: keepsD[OF rows_maintainer_updated])
      moreover have "b \<in> set (tb_maintainers (cur (tabs w)))" "row_id b = i" using b by auto
      ultimately show ?thesis
        using update_details_effect[OF u] unfolding t1
      proof (elim disjE exE)
        fix t
        assume "rows (tabs w') = rows (tabs w2)" "b \<in> set (tb_maintainers (cur (tabs w)))" "row_id b = i"
          "tabs w2 = put_maintainers (map (\<lambda>m. if row_id m = i
            then stamp t (m\<lparr>mt_name := trim_space (mt_name b),
               mt_email := normalize_or_sentinel (mu_email q) EMAIL_MISSING,
               mt_github := normalize_or_sentinel (mt_github b) GITHUB_MISSING,
               mt_status := mt_status b, mt_company_id := mu_company_id q\<rparr>)
            else m) (tb_maintainers (cur (tabs w)))) (tabs w)"
        then show ?thesis
          by (intro disjI2 exI[of _ b] exI[of _ "mu_email q"] exI[of _ t] exI[of _ "mu_company_id q"] conjI)
            (simp_all only: rows_put_maintainers)
      qed simp
    qed
  qed
qed

lemma handle_maintainer_self:
  assumes "se_role s = role_maintainer" and "run_state (handle_maintainer G (Some s) r req) w = (rep, w')"
  shows "rows (tabs w') = rows (tabs w) \<or>
    (\<exists>i q w1. parse_id_param (wq_path r) ''/api/maintainers/'' = Inr i \<and>
      q \<in> set (tb_maintainers (cur (tabs w))) \<and> row_id q = i \<and> equal_fold (mt_github q) (se_login s) \<and>
      tabs w1 = tabs w \<and> run_state (maintainer_edit G s True i req) w1 = (rep, w'))"
proof (cases "wq_method r = ''OPTIONS'' \<or> isl (parse_id_param (wq_path r) ''/api/maintainers/'')")
  case True
  then show ?thesis using assms by (auto simp: handle_maintainer_def split: if_splits sum.splits)
next
  case False
  then obtain i where i: "parse_id_param (wq_path r) ''/api/maintainers/'' = Inr i"
    by (cases "parse_id_param (wq_path r) ''/api/maintainers/''") auto
  obtain who w1 where who: "run_state (requester_of G s) w = (who, w1)" by (metis prod.collapse)
  have t1: "tabs w1 = tabs w" by (rule keepsD[OF reads_maintainer_helpers(2) who])
  show ?thesis
  proof (cases who)
    case (Inl x)
    then show ?thesis using assms False i who t1 by (simp add: handle_maintainer_def)
  next
    case (Inr rq)
    obtain y w2 where y: "run_state (get_maintainer_by_login G (se_login s)) w1 = (y, w2)" by (metis prod.collapse)
    have t2: "tabs w2 = tabs w1" by (rule keepsD[OF reads_helpers(3) y])
    consider "wq_method r = ''GET''" | "wq_method r \<noteq> ''GET''" "wq_method r = ''PATCH'' \<or> wq_method r = ''PUT''"
      | "wq_method r \<noteq> ''GET''" "\<not> (wq_method r = ''PATCH'' \<or> wq_method r = ''PUT'')" by blast
    then show ?thesis
    proof cases
      case 1
      then have "run_state (maintainer_get G s rq i) w1 = (rep, w')"
        using assms False i who Inr by (simp add: handle_maintainer_def)
      from keepsD[OF reads_maintainer_get this] show ?thesis using t1 by simp
    next
      case 2
      then have p: "run_state (maintainer_patch G s i req) w1 = (rep, w')"
        using assms False i who Inr by (simp add: handle_maintainer_def)
      show ?thesis
      proof (cases "\<exists>q. y = Inr q \<and> row_id q = i")
        case True
        then obtain q where q: "y = Inr q" "row_id q = i" by blast
        then have "run_state (maintainer_edit G s True i req) w2 = (rep, w')"
          using p assms(1) y by (simp add: maintainer_patch_def)
        then show ?thesis using maintainer_by_login_Ok[OF y[unfolded q(1)]] q i t1 t2 by auto
      next
        case no: False
        then show ?thesis using p assms(1) y t1 t2
          by (cases y) (auto simp: maintainer_patch_def)
      qed
    next
      case 3
      then show ?thesis using assms False i who Inr t1 by (simp add: handle_maintainer_def)
    qed
  qed
qed

lemma maintainer_get_address:
  assumes "run_state (maintainer_get G s rq i) w = (rep, w')" and "rs_body rep = Json (J_obj fs)"
    and "map_of fs k = Some (J_str a)" and "k \<in> {''email'', ''githubEmail''}" and "a \<noteq> []"
  shows "se_role s = role_staff \<or> (\<exists>q. rq = Some q \<and> row_id q = i)"
proof -
  from assms obtain m c ps u where
    "rep = json_reply (maintainer_json m c ps (se_role s = role_staff \<or>
       (case rq of None \<Rightarrow> False | Some q \<Rightarrow> row_id q = i)) u)"
    by (auto simp: maintainer_get_def http_error_def Let_def split: prod.splits sum.splits)
  with assms show ?thesis
    by (auto simp: json_reply_def maintainer_json_def split: if_splits option.splits)
qed

lemma handle_maintainer_get:
  assumes "wq_method r = ''GET''" and "run_state (handle_maintainer G (Some s) r req) w = (rep, w')"
  shows "tabs w' = tabs w" and "rs_body rep = Json (J_obj fs) \<Longrightarrow> \<exists>i rq w1. tabs w1 = tabs w \<and>
    parse_id_param (wq_path r) ''/api/maintainers/'' = Inr i \<and>
    (se_role s = role_staff \<and> rq = None \<or>
     (\<exists>q. rq = Some q \<and> q \<in> set (tb_maintainers (cur (tabs w))) \<and> equal_fold (mt_github q) (se_login s))) \<and>
    run_state (maintainer_get G s rq i) w1 = (rep, w')"
proof -
  obtain who w1 where who: "run_state (requester_of G s) w = (who, w1)" by (metis prod.collapse)
  have t1: "tabs w1 = tabs w" by (rule keepsD[OF reads_maintainer_helpers(2) who])
  have no_opt: "wq_method r \<noteq> ''OPTIONS''" using assms(1) by simp
  show "tabs w' = tabs w"
  proof (cases "parse_id_param (wq_path r) ''/api/maintainers/''")
    case (Inl e)
    then show ?thesis using assms(2) no_opt by (simp add: handle_maintainer_def)
  next
    case (Inr i)
    with assms no_opt who t1 show ?thesis
      by (cases who) (auto simp: handle_maintainer_def dest: keepsD[OF reads_maintainer_get])
  qed
  assume j: "rs_body rep = Json (J_obj fs)"
  show "\<exists>i rq w1. tabs w1 = tabs w \<and> parse_id_param (wq_path r) ''/api/maintainers/'' = Inr i \<and>
    (se_role s = role_staff \<and> rq = None \<or>
     (\<exists>q. rq = Some q \<and> q \<in> set (tb_maintainers (cur (tabs w))) \<and> equal_fold (mt_github q) (se_login s))) \<and>
    run_state (maintainer_get G s rq i) w1 = (rep, w')"
  proof (cases "parse_id_param (wq_path r) ''/api/maintainers/''")
    case (Inl e)
    then show ?thesis using assms(2) no_opt j by (auto simp: handle_maintainer_def http_error_def)
  next
    case (Inr i)
    note i = this
    show ?thesis
    proof (cases who)
      case (Inl x)
      then have "x = rep" using assms(2) no_opt i who by (simp add: handle_maintainer_def)
      moreover have "x = forbidden" using who Inl
        by (auto simp: requester_of_def split: if_splits prod.splits sum.splits)
      ultimately have "rs_body rep = Text ''forbidden''" by (auto simp: http_error_def)
      then show ?thesis using j by simp
    next
      case (Inr rq)
      then have "run_state (maintainer_get G s rq i) w1 = (rep, w')"
        using assms no_opt i who by (simp add: handle_maintainer_def)
      then show ?thesis using requester_Inr[OF who[unfolded Inr]] i t1 by blast
    qed
  qed
qed

lemma address_shown:
  assumes "wq_method r = ''GET''" and "run_state (handle_maintainer G (Some s) r req) w = (rep, w')"
    and "rs_body rep = Json (J_obj fs)" and "map_of fs k = Some (J_str a)"
    and "k \<in> {''email'', ''githubEmail''}" and "a \<noteq> []"
  shows "se_role s = role_staff \<or>
    (\<exists>q \<in> set (tb_maintainers (cur (tabs w))). equal_fold (mt_github q) (se_login s) \<and>
       parse_id_param (wq_path r) ''/api/maintainers/'' = Inr (row_id q))"
  using handle_maintainer_get(2)[OF assms(1-3)] maintainer_get_address[OF _ assms(3-6)] by blast

end

section \<open>Properties of the maintainer routes\<close>

text \<open>
  C5: whatever a maintainer sends to the maintainer routes, no row changes (except that a record
  may be added to the audit log), or the one row that changes is the row with the id of the path
  that carries the maintainer's own GitHub handle; and that row keeps its name and handle, up to
  spaces around them, and its status: an edit by the maintainer reaches the e-mail address and the
  company only.
\<close>

theorem maintainers_edit_only_their_own_row:
  assumes "gorm_db G tabs" and "se_role s = role_maintainer"
    and "run_state (handle_maintainer G (Some s) r req) w = (rep, w')"
  shows "rows (tabs w') = rows (tabs w) \<or>
    (\<exists>i q b e t c. parse_id_param (wq_path r) ''/api/maintainers/'' = Inr i \<and>
      q \<in> set (tb_maintainers (cur (tabs w))) \<and> row_id q = i \<and> equal_fold (mt_github q) (se_login s) \<and>
      b \<in> set (tb_maintainers (cur (tabs w))) \<and> row_id b = i \<and>
      rows (tabs w') = (rows (tabs w))\<lparr>tb_maintainers := map (\<lambda>m. if row_id m = i
        then stamp t (m\<lparr>mt_name := trim_space (mt_name b), mt_email := normalize_or_sentinel e EMAIL_MISSING,
               mt_github := normalize_or_sentinel (mt_github b) GITHUB_MISSING,
               mt_status := mt_status b, mt_company_id := c\<rparr>)
        else m) (tb_maintainers (cur (tabs w)))\<rparr>)"
  using gorm_db.handle_maintainer_self[OF assms]
proof (elim disjE exE conjE)
  fix i q w1
  assume a: "parse_id_param (wq_path r) ''/api/maintainers/'' = Inr i"
    "q \<in> set (tb_maintainers (cur (tabs w)))" "row_id q = i" "equal_fold (mt_github q) (se_login s)"
    and t: "tabs w1 = tabs w" and e: "run_state (maintainer_edit G s True i req) w1 = (rep, w')"
  show ?thesis using gorm_db.maintainer_edit_self[OF assms(1) e] a unfolding t by blast
qed simp

definition demo_edit :: maintainer_update_request where
  "demo_edit = \<lparr>mu_name = ''Eve'', mu_email = ''b@y'', mu_github = ''eve'', mu_status = ''Retired'', mu_company_id = None\<rparr>"

definition demo_self_edit :: "reply \<times> mem_world" where
  "demo_self_edit = run_state (handle_maintainer mem_gorm (Some (demo_session ''bob-x'' role_maintainer))
     (demo_request ''PATCH'' ''/api/maintainers/2'') (Some demo_edit)) demo_world"

theorem maintainers_edit_only_their_own_row_witness:
  "rs_status (fst demo_self_edit) = 200 \<and>
   map mt_email (tb_maintainers (cur (mw_db (snd demo_self_edit)))) \<noteq> map mt_email (tb_maintainers (cur (mw_db demo_world))) \<and>
   tb_projects (cur (mw_db (snd demo_self_edit))) = tb_projects (cur (mw_db demo_world))"
proof -
  have r: "run_state (handle_maintainer mem_gorm (Some (demo_session ''bob-x'' role_maintainer))
     (demo_request ''PATCH'' ''/api/maintainers/2'') (Some demo_edit)) demo_world
     = (fst demo_self_edit, snd demo_self_edit)" by (simp add: demo_self_edit_def)
  have s: "se_role (demo_session ''bob-x'' role_maintainer) = role_maintainer" by (simp add: demo_session_def)
  have e: "map mt_email (tb_maintainers (cur (mw_db (snd demo_self_edit)))) \<noteq>
    map mt_email (tb_maintainers (cur (mw_db demo_world)))" by code_simp
  have c: "rs_status (fst demo_self_edit) = 200" by code_simp
  from maintainers_edit_only_their_own_row[OF mem.gorm_db_axioms s r]
  have "tb_projects (rows (mw_db (snd demo_self_edit))) = tb_projects (rows (mw_db demo_world))"
    by (elim disjE exE conjE) (simp_all del: rows_fields)
  with e c show ?thesis by simp
qed

text \<open>
  C6: an e-mail address is in the reply to a \<^verbatim>\<open>GET\<close> of a maintainer only for the staff and for a
  session whose GitHub login is the handle of that very maintainer; and the \<^verbatim>\<open>GET\<close> changes nothing,
  not even the audit log.
\<close>

theorem addresses_only_for_staff_and_self:
  assumes "gorm_db G tabs" and "wq_method r = ''GET''"
    and "run_state (handle_maintainer G (Some s) r req) w = (rep, w')"
    and "rs_body rep = Json (J_obj fs)" and "map_of fs k = Some (J_str a)"
    and "k \<in> {''email'', ''githubEmail''}" and "a \<noteq> []"
  shows "tabs w' = tabs w \<and>
    (se_role s = role_staff \<or>
     (\<exists>q \<in> set (tb_maintainers (cur (tabs w))). equal_fold (mt_github q) (se_login s) \<and>
       parse_id_param (wq_path r) ''/api/maintainers/'' = Inr (row_id q)))"
  using gorm_db.handle_maintainer_get(1)[OF assms(1-3)] gorm_db.address_shown[OF assms] by blast

definition demo_get :: "string \<Rightarrow> reply" where
  "demo_get login = fst (run_state (handle_maintainer mem_gorm (Some (demo_session login role_maintainer))
     (demo_request ''GET'' ''/api/maintainers/2'') None) demo_world)"

definition json_text :: "string \<Rightarrow> body \<Rightarrow> string" where
  "json_text k b = (case b of Json (J_obj fs) \<Rightarrow>
     (case map_of fs k of Some (J_str a) \<Rightarrow> a | _ \<Rightarrow> []) | _ \<Rightarrow> [])"

lemma json_text_nonempty:
  "json_text k b \<noteq> [] \<Longrightarrow> \<exists>fs. b = Json (J_obj fs) \<and> map_of fs k = Some (J_str (json_text k b))"
  by (auto simp: json_text_def split: body.splits json.splits option.splits)

theorem addresses_only_for_staff_and_self_witness:
  "json_text ''email'' (rs_body (demo_get ''ann'')) = [] \<and>
   json_text ''email'' (rs_body (demo_get ''bob-x'')) = ''bob@globex.io'' \<and>
   (\<exists>q \<in> set (tb_maintainers (cur (mw_db demo_world))). equal_fold (mt_github q) ''bob-x'')"
proof -
  have a: "json_text ''email'' (rs_body (demo_get ''ann'')) = []" by code_simp
  have b: "json_text ''email'' (rs_body (demo_get ''bob-x'')) = ''bob@globex.io''" by code_simp
  then obtain fs where fs: "rs_body (demo_get ''bob-x'') = Json (J_obj fs)"
    "map_of fs ''email'' = Some (J_str ''bob@globex.io'')"
    using json_text_nonempty[of "''email''" "rs_body (demo_get ''bob-x'')"] by auto
  have m: "wq_method (demo_request ''GET'' ''/api/maintainers/2'') = ''GET''" by (simp add: demo_request_def)
  have k: "''email'' \<in> {''email'', ''githubEmail''}" "''bob@globex.io'' \<noteq> []" by simp_all
  have r: "se_role (demo_session ''bob-x'' role_maintainer) \<noteq> role_staff"
    "se_login (demo_session ''bob-x'' role_maintainer) = ''bob-x''" by (simp_all add: demo_session_def)
  from addresses_only_for_staff_and_self[OF mem.gorm_db_axioms m run_eqI[OF demo_get_def[symmetric]] fs k] r
  show ?thesis using a b by auto
qed

end
