(* ===== verification/Bff_Project_Laws.thy ===== *)
theory Bff_Project_Laws
  imports Bff_Laws
begin

text \<open>
  What the project routes promise: creating a project, updating its maturity and its maintainer
  file, the audit records of both, and the list of onboarding issues before and after.
\<close>

section \<open>Creating a project\<close>

lemma chosen_project_fields:
  "chosen p = chosen p' \<Longrightarrow> pr_name p = pr_name (p' :: project) \<and> pr_maturity p = pr_maturity p' \<and>
     pr_github_org p = pr_github_org p' \<and> pr_parent_id p = pr_parent_id p' \<and>
     pr_legacy_ref p = pr_legacy_ref p' \<and> pr_dot_project_ref p = pr_dot_project_ref p' \<and>
     pr_onboarding_issue p = pr_onboarding_issue p'"
  by (cases p; cases p') (simp add: chosen_def)

lemma requested_maturity_valid: "requested_maturity q = Some m \<Longrightarrow> maturity_is_valid m"
  by (auto simp: requested_maturity_def Let_def maturity_is_valid_def split: if_splits)

text \<open>The row a request asks for.\<close>

definition asked_for :: "project_create_request \<Rightarrow> string \<Rightarrow> string \<Rightarrow> project \<Rightarrow> bool" where
  "asked_for q name org p \<longleftrightarrow>
     pr_name p = name \<and> requested_maturity q = Some (pr_maturity p) \<and> pr_github_org p = org \<and>
     pr_parent_id p = pc_parent_id q \<and> pr_legacy_ref p = trim_space (pc_legacy_ref q) \<and>
     pr_dot_project_ref p = trim_space (pc_dot_project_ref q) \<and>
     pr_onboarding_issue p = Some (trim_space (pc_onboarding_issue q))"

lemma rows_put_projects [simp]: "rows (put_projects ps d) = (rows d)\<lparr>tb_projects := ps\<rparr>"
  by (simp add: rows_def)

context gorm_db
begin

lemma store_new_project_run:
  assumes "run_state (store_new_project G s q n org m) w = ((rep, drop_it), w')"
    and "requested_maturity q = Some m"
  shows "(drop_it \<longleftrightarrow> rs_status rep = 200) \<and>
    (\<not> drop_it \<longrightarrow> rows (tabs w') = rows (tabs w)) \<and>
    (drop_it \<longrightarrow> (\<exists>p. asked_for q n org p \<and> row_id p \<notin> row_id ` set (tb_projects (cur (tabs w))) \<and>
       rows (tabs w') = (rows (tabs w))\<lparr>tb_projects := tb_projects (cur (tabs w)) @ [p]\<rparr>))"
proof -
  let ?row = "project_defaults (zero_project
                  \<lparr>pr_name := n, pr_maturity := m, pr_github_org := org,
                   pr_parent_id := pc_parent_id q, pr_legacy_ref := trim_space (pc_legacy_ref q),
                   pr_dot_project_ref := trim_space (pc_dot_project_ref q),
                   pr_onboarding_issue := Some (trim_space (pc_onboarding_issue q))\<rparr>)"
  have v: "maturity_value m = Ok (DString m)"
    using requested_maturity_valid[OF assms(2)] by (simp add: maturity_value_def)
  obtain x w1 where c: "run_state (t_create (projects G) ?row) w = (x, w1)" by (metis prod.collapse)
  show ?thesis
  proof (cases x)
    case (Inl e)
    then have "rep = http_error ''failed to create project'' 500 \<and> \<not> drop_it \<and> w' = w1"
      using assms(1) c v by (auto simp: store_new_project_def Let_def sql_argument_def)
    then show ?thesis using pr.create_Err[OF c[unfolded Inl]] by simp
  next
    case (Inr p)
    let ?tail = "do { staffID \<leftarrow> lookup_staff_id G (se_login s);
               actorName \<leftarrow> staff_display G s staffID;
               write_audit G (zero_audit_log
                 \<lparr>al_staff_id := staffID, al_action := ''PROJECT_CREATE'',
                  al_message := ''Project created by '' @ actorName,
                  al_metadata := meta_text (M_map
                    [(''projectName'', M_map [(''to'', M_str n)]),
                     (''githubOrg'', M_map [(''to'', M_str org)]),
                     (''maturity'', M_map [(''to'', M_str m)]),
                     (''onboardingIssue'', M_map [(''to'', M_str (trim_space (pc_onboarding_issue q)))])]),
                  al_project_id := Some (row_id p)\<rparr>) }"
    have k: "keeps same_rows ?tail" by (auto intro!: rows_intros)
    have "rs_status rep = 200 \<and> drop_it \<and> (\<exists>u. run_state ?tail w1 = (u, w'))"
      using assms(1) c v Inr
      by (auto simp: store_new_project_def Let_def sql_argument_def split: prod.splits)
    then have d: "rs_status rep = 200" "drop_it" and r: "rows (tabs w') = rows (tabs w1)"
      using keepsD[OF k] by blast+
    note cr = pr.create_Ok[OF c[unfolded Inr]]
    have "asked_for q n org p"
      using chosen_project_fields[of p ?row] cr assms(2) by (simp add: asked_for_def)
    moreover have "row_id p \<notin> row_id ` set (tb_projects (cur (tabs w)))"
      using cr by (simp add: zero_project_def)
    moreover have "rows (tabs w') = (rows (tabs w))\<lparr>tb_projects := tb_projects (cur (tabs w)) @ [p]\<rparr>"
      using cr r by simp
    ultimately show ?thesis using d by blast
  qed
qed

lemma ensure_available_Ok:
  assumes "run_state (ensure_project_name_available G n) w = (Inr u, w')"
  shows "tabs w' = tabs w \<and> n \<notin> pr_name ` set (tb_projects (cur (tabs w)))"
  using assms
  by (auto simp: ensure_project_name_available_def split: prod.splits sum.splits if_splits
      dest!: pr.first_Err)

lemma create_named_project_run:
  assumes "run_state (create_named_project E G s q n) w = ((rep, drop_it), w')"
  shows "(drop_it \<longleftrightarrow> rs_status rep = 200) \<and>
    (\<not> drop_it \<longrightarrow> rows (tabs w') = rows (tabs w)) \<and>
    (drop_it \<longrightarrow> (\<exists>org p. infer_org E q = Inr org \<and> asked_for q n org p \<and>
       n \<notin> pr_name ` set (tb_projects (cur (tabs w))) \<and>
       row_id p \<notin> row_id ` set (tb_projects (cur (tabs w))) \<and>
       rows (tabs w') = (rows (tabs w))\<lparr>tb_projects := tb_projects (cur (tabs w)) @ [p]\<rparr>))"
proof (cases "pc_project_name q \<noteq> [] \<and> trim_space (pc_project_name q) \<noteq> n")
  case True
  then show ?thesis using assms by (auto simp: create_named_project_def)
next
  case False
  note n = this
  show ?thesis
  proof (cases "infer_org E q")
    case (Inl e)
    then show ?thesis using assms n by (auto simp: create_named_project_def)
  next
    case (Inr org)
    obtain bad w1 where p: "run_state (check_parent G (pc_parent_id q)) w = (bad, w1)" by (metis prod.collapse)
    have t1: "tabs w1 = tabs w" by (rule keepsD[OF reads_maintainer_helpers(5) p])
    have bad: "rs_status b \<in> {400, 500}" if "bad = Some b" for b
      using p that by (auto simp: check_parent_def split: option.splits prod.splits sum.splits if_splits)
    show ?thesis
    proof (cases "bad = None \<and> requested_maturity q \<noteq> None")
      case False
      then show ?thesis using assms n Inr p t1 bad
        by (auto simp: create_named_project_def split: option.splits)
    next
      case True
      then obtain m where m: "requested_maturity q = Some m" and b: "bad = None" by auto
      obtain a w2 where a: "run_state (ensure_project_name_available G n) w1 = (a, w2)" by (metis prod.collapse)
      have t2: "tabs w2 = tabs w1" by (rule keepsD[OF reads_helpers(5) a])
      show ?thesis
      proof (cases a)
        case (Inl e)
        then show ?thesis using assms n \<open>infer_org E q = Inr org\<close> p b m a t1 t2
          by (auto simp: create_named_project_def split: if_splits)
      next
        case (Inr u)
        then have st: "run_state (store_new_project G s q n org m) w2 = ((rep, drop_it), w')"
          using assms n \<open>infer_org E q = Inr org\<close> p b m a by (auto simp: create_named_project_def)
        show ?thesis
          using store_new_project_run[OF st m] ensure_available_Ok[OF a[unfolded Inr]] t1 t2
            \<open>infer_org E q = Inr org\<close> by auto
      qed
    qed
  qed
qed

lemma project_create_named:
  assumes "bff_outside G tabs E"
    and "run_state (handle_project_create cf E G sess r req) w = ((rep, drop_it), w')"
  shows "rs_status rep \<noteq> 200 \<and> \<not> drop_it \<and> tabs w' = tabs w \<or>
    (\<exists>s q number title name w1. sess = Some s \<and> se_role s = role_staff \<and> req = Some q \<and>
       parse_github_issue_url E (trim_space (pc_onboarding_issue q)) = Inr (''cncf'', ''sandbox'', number) \<and>
       run_state (en_issue_title E ''cncf'' ''sandbox'' number) w = (Inr title, w1) \<and>
       get_project_name_from_project_title title = Inr name \<and> tabs w1 = tabs w \<and>
       run_state (create_named_project E G s q name) w1 = ((rep, drop_it), w'))"
proof (cases "wq_method r \<noteq> ''OPTIONS'' \<and> is_staff_session sess \<and> req \<noteq> None")
  case False
  then have "rs_status rep \<noteq> 200 \<and> \<not> drop_it \<and> w' = w"
    using assms(2) by (auto simp: handle_project_create_def split: option.splits if_splits)
  then show ?thesis by simp
next
  case True
  then obtain s q where sq: "sess = Some s" "se_role s = role_staff" "req = Some q" "wq_method r \<noteq> ''OPTIONS''"
    by (cases sess; cases req) auto
  let ?issue = "trim_space (pc_onboarding_issue q)"
  consider (bad) "?issue = [] \<or> isl (parse_github_issue_url E ?issue) \<or>
      (\<exists>a b n. parse_github_issue_url E ?issue = Inr (a, b, n) \<and> (a \<noteq> ''cncf'' \<or> b \<noteq> ''sandbox'')) \<or>
      cf_github_token cf = [] \<and> \<not> cf_test_mode cf"
    | (good) n where "?issue \<noteq> []" "parse_github_issue_url E ?issue = Inr (''cncf'', ''sandbox'', n)"
      "\<not> (cf_github_token cf = [] \<and> \<not> cf_test_mode cf)"
    by (cases "parse_github_issue_url E ?issue") auto
  then show ?thesis
  proof cases
    case bad
    then have "rs_status rep \<noteq> 200 \<and> \<not> drop_it \<and> w' = w"
      using assms(2) sq
      by (cases "parse_github_issue_url E ?issue")
        (auto simp: handle_project_create_def Let_def split: if_splits)
    then show ?thesis by simp
  next
    case good
    obtain t w1 where t: "run_state (en_issue_title E ''cncf'' ''sandbox'' n) w = (t, w1)"
      by (metis prod.collapse)
    have t1: "tabs w1 = tabs w" by (rule bff_outside.title_tabs[OF assms(1) t])
    show ?thesis
    proof (cases "\<exists>title name. t = Inr title \<and> get_project_name_from_project_title title = Inr name")
      case True
      then obtain title name where tn: "t = Inr title" "get_project_name_from_project_title title = Inr name"
        by blast
      then have "run_state (create_named_project E G s q name) w1 = ((rep, drop_it), w')"
        using assms(2) sq good t by (simp add: handle_project_create_def Let_def)
      then show ?thesis using sq good t tn t1 by blast
    next
      case False
      then have "rs_status rep \<noteq> 200 \<and> \<not> drop_it \<and> w' = w1"
        using assms(2) sq good t
        by (auto simp: handle_project_create_def Let_def split: sum.splits)
      then show ?thesis using t1 by simp
    qed
  qed
qed

end

section \<open>Properties of project creation\<close>

text \<open>
  C7: a project is created exactly when the reply is 200, and then by the staff, for an issue of
  \<^verbatim>\<open>cncf/sandbox\<close>: one row is added, with a new id, with the name in the title of that issue,
  which no project had, a valid maturity, the organisation of the maintainer files and the trimmed
  references of the request.  Otherwise no row changes.  Either way nothing else changes but the
  audit log.
\<close>

theorem project_create_adds_the_named_project:
  assumes "bff_outside G tabs E"
    and "run_state (handle_project_create cf E G sess r req) w = ((rep, drop_it), w')"
  shows "if rs_status rep = 200 then drop_it \<and>
      (\<exists>s q number title org p w1. sess = Some s \<and> se_role s = role_staff \<and> req = Some q \<and>
        parse_github_issue_url E (trim_space (pc_onboarding_issue q)) = Inr (''cncf'', ''sandbox'', number) \<and>
        run_state (en_issue_title E ''cncf'' ''sandbox'' number) w = (Inr title, w1) \<and>
        get_project_name_from_project_title title = Inr (pr_name p) \<and> infer_org E q = Inr org \<and>
        asked_for q (pr_name p) org p \<and> maturity_is_valid (pr_maturity p) \<and>
        pr_name p \<notin> pr_name ` set (tb_projects (cur (tabs w))) \<and>
        row_id p \<notin> row_id ` set (tb_projects (cur (tabs w))) \<and>
        rows (tabs w') = (rows (tabs w))\<lparr>tb_projects := tb_projects (cur (tabs w)) @ [p]\<rparr>)
    else \<not> drop_it \<and> rows (tabs w') = rows (tabs w)"
  using gorm_db.project_create_named[OF bff_outside.axioms(1)[OF assms(1)] assms]
proof (elim disjE exE conjE)
  fix s q number title name w1
  assume a: "sess = Some s" "se_role s = role_staff" "req = Some q"
    "parse_github_issue_url E (trim_space (pc_onboarding_issue q)) = Inr (''cncf'', ''sandbox'', number)"
    "run_state (en_issue_title E ''cncf'' ''sandbox'' number) w = (Inr title, w1)"
    "get_project_name_from_project_title title = Inr name" and t: "tabs w1 = tabs w"
    and c: "run_state (create_named_project E G s q name) w1 = ((rep, drop_it), w')"
  note r = gorm_db.create_named_project_run[OF bff_outside.axioms(1)[OF assms(1)] c, unfolded t]
  show ?thesis
  proof (cases "rs_status rep = 200")
    case True
    with r obtain org p where p: "infer_org E q = Inr org" "asked_for q name org p"
      "name \<notin> pr_name ` set (tb_projects (cur (tabs w)))" "row_id p \<notin> row_id ` set (tb_projects (cur (tabs w)))"
      "rows (tabs w') = (rows (tabs w))\<lparr>tb_projects := tb_projects (cur (tabs w)) @ [p]\<rparr>" by blast
    have n: "pr_name p = name" and m: "maturity_is_valid (pr_maturity p)"
      using p(2) requested_maturity_valid by (auto simp: asked_for_def)
    show ?thesis using True r a p m n by auto
  qed (use r in simp)
qed simp

text \<open>A web site for the concrete runs: addresses with a scheme, and one onboarding issue.\<close>

definition demo_parse :: "string \<Rightarrow> parsed_url option" where
  "demo_parse u =
     (if has_prefix u ''https://''
      then let rest = drop 8 u in
        Some \<lparr>pu_scheme = ''https'', pu_host = takeWhile (\<lambda>c. c \<noteq> CHR ''/'') rest,
              pu_path = dropWhile (\<lambda>c. c \<noteq> CHR ''/'') rest, pu_rest = []\<rparr>
      else None)"

definition demo_site :: "mem_world env" where
  "demo_site = demo_env\<lparr>en_parse_url := demo_parse,
     en_issue_title := (\<lambda>_ _ _. ret (Inr ''[PROJECT ONBOARDING] gamma''))\<rparr>"

interpretation site: bff_outside mem_gorm mw_db demo_site
  by unfold_locales (auto simp: demo_site_def demo_env_def)

definition demo_create :: project_create_request where
  "demo_create = \<lparr>pc_onboarding_issue = ''https://github.com/cncf/sandbox/issues/7'', pc_project_name = [],
     pc_github_org = [], pc_parent_id = None, pc_legacy_ref = ''https://github.com/g/g/M'',
     pc_dot_project_ref = [], pc_maturity = []\<rparr>"

definition demo_created :: "(reply \<times> bool) \<times> mem_world" where
  "demo_created = run_state (handle_project_create (demo_config\<lparr>cf_test_mode := True\<rparr>) demo_site mem_gorm
     (Some (demo_session ''samstaff'' role_staff)) (demo_request ''POST'' ''/api/projects'') (Some demo_create)) demo_world"

theorem project_create_adds_the_named_project_witness:
  "rs_status (fst (fst demo_created)) = 200 \<and>
   (\<exists>p. tb_projects (cur (mw_db (snd demo_created))) = tb_projects (cur (mw_db demo_world)) @ [p] \<and>
      maturity_is_valid (pr_maturity p))"
proof -
  have c: "rs_status (fst (fst demo_created)) = 200" by code_simp
  have r: "run_state (handle_project_create (demo_config\<lparr>cf_test_mode := True\<rparr>) demo_site mem_gorm
     (Some (demo_session ''samstaff'' role_staff)) (demo_request ''POST'' ''/api/projects'') (Some demo_create)) demo_world
     = ((fst (fst demo_created), snd (fst demo_created)), snd demo_created)"
    by (simp add: demo_created_def)
  from project_create_adds_the_named_project[OF site.bff_outside_axioms r] c
  obtain p where "rows (mw_db (snd demo_created)) = (rows (mw_db demo_world))
      \<lparr>tb_projects := tb_projects (cur (mw_db demo_world)) @ [p]\<rparr>" "maturity_is_valid (pr_maturity p)"
    by auto
  from arg_cong[OF this(1), of tb_projects] this(2) c show ?thesis by auto
qed

section \<open>Updating a project\<close>

lemma update_failure_status [simp]: "rs_status (update_failure e) \<noteq> 200"
  by (simp add: update_failure_def)

text \<open>At most one audit record more, and then this one.\<close>

definition audited :: "(audit_log \<Rightarrow> bool) \<Rightarrow> db \<Rightarrow> db \<Rightarrow> bool" where
  "audited P d d' \<longleftrightarrow> tb_audit_logs (cur d') = tb_audit_logs (cur d) \<or>
     (\<exists>e. P e \<and> tb_audit_logs (cur d') = tb_audit_logs (cur d) @ [e])"

lemma chosen_audit_fields:
  "chosen e = chosen e' \<Longrightarrow> al_action e = al_action (e' :: audit_log) \<and> al_project_id e = al_project_id e' \<and>
     al_staff_id e = al_staff_id e' \<and> al_message e = al_message e' \<and> al_metadata e = al_metadata e'"
  by (cases e; cases e') (simp add: chosen_def)

context gorm_db
begin

lemma write_audit_run:
  assumes "run_state (write_audit G e) w = (u, w')"
  shows "rows (tabs w') = rows (tabs w) \<and>
    audited (\<lambda>x. al_action x = al_action e \<and> al_project_id x = al_project_id e \<and> al_staff_id x = al_staff_id e \<and>
      al_metadata x = al_metadata e) (tabs w) (tabs w')"
proof -
  obtain x where x: "run_state (t_create (audit_logs G) e) w = (x, w')"
    using assms by (auto simp: write_audit_def split: prod.splits)
  show ?thesis
  proof (cases x)
    case (Inl er)
    then show ?thesis using al.create_Err x by (simp add: audited_def)
  next
    case (Inr y)
    from al.create_Ok[OF x[unfolded this]] show ?thesis
      using chosen_audit_fields[of y e] by (auto simp: audited_def)
  qed
qed

lemma acting_staff_run:
  assumes "run_state (acting_staff G s) w = ((i, n), w')"
  shows "tabs w' = tabs w \<and> (\<forall>k. i = Some k \<longrightarrow>
    (\<exists>x \<in> set (tb_staff (cur (tabs w))). row_id x = k \<and> equal_fold (sm_github x) (se_login s)))"
  using assms
  by (auto simp: acting_staff_def staff_by_login_def equal_fold_def
      split: if_splits prod.splits sum.splits dest!: sm.first_Ok sm.first_Err)

lemma project_by_id_Ok:
  assumes "run_state (get_project_by_id G i) w = (Inr p, w')"
  shows "tabs w' = tabs w \<and> (\<exists>p0 \<in> set (tb_projects (cur (tabs w))). row_id p0 = i \<and>
    pr_maturity p = pr_maturity p0 \<and> pr_legacy_ref p = pr_legacy_ref p0)"
proof -
  have "tabs w' = tabs w" by (rule keepsD[OF reads_helpers(1) assms])
  moreover from assms obtain p0 w1 ms ss where "run_state (t_first (projects G) (\<lambda>p. row_id p = i)) w = (Inr p0, w1)"
    and "p = with_associations ms ss p0"
    by (auto simp: get_project_by_id_def not_found_as_def split: prod.splits sum.splits if_splits)
  ultimately show ?thesis
    by (auto simp: with_associations_def project.defs loaded_project.defs dest!: pr.first_Ok)
qed

lemma update_project_run:
  assumes "run_state (try_bind (t_update (projects G) (\<lambda>p. row_id p = i) f)
             (\<lambda>n. ret (if n = 0 then Inl e0 else Inr ()))) w = (x, w')"
  shows "case x of Inl _ \<Rightarrow> tabs w' = tabs w
    | Inr _ \<Rightarrow> \<exists>t. tabs w' = put_projects (map (\<lambda>p. if row_id p = i then stamp t (f p) else p)
        (tb_projects (cur (tabs w)))) (tabs w)"
proof -
  obtain y where u: "run_state (t_update (projects G) (\<lambda>p. row_id p = i) f) w = (y, w')"
    using assms by (auto split: prod.splits sum.splits)
  show ?thesis
  proof (cases y)
    case (Inl e)
    then show ?thesis using assms u pr.update_Err by auto
  next
    case (Inr n)
    note ok = pr.update_Ok[OF u[unfolded Inr]]
    have "map (\<lambda>p. if row_id p = i then stamp t (f p) else p) (tb_projects (cur (tabs w))) = tb_projects (cur (tabs w))"
      if "n = 0" for t
      using ok that by (intro map_idI) (auto simp: filter_empty_conv)
    then show ?thesis using ok assms u Inr by (auto split: if_splits)
  qed
qed

lemma parse_maturity_valid: "parse_maturity m = Some k \<Longrightarrow> maturity_is_valid k"
  by (auto simp: parse_maturity_def Let_def maturity_is_valid_def split: if_splits)

text \<open>What the two updates have in common once the row is written.\<close>

lemma record_update:
  assumes "run_state (acting_staff G s) w1 = ((staffID, staffName), w2)"
    and "run_state (write_audit G (zero_audit_log
           \<lparr>al_project_id := Some i, al_staff_id := staffID, al_action := act, al_message := msg,
            al_metadata := meta\<rparr>)) w2 = (u, w3)"
  shows "rows (tabs w3) = rows (tabs w1) \<and>
    audited (\<lambda>e. al_action e = act \<and> al_project_id e = Some i \<and> al_metadata e = meta \<and>
      (\<forall>k. al_staff_id e = Some k \<longrightarrow> (\<exists>x \<in> set (tb_staff (cur (tabs w1))).
         row_id x = k \<and> equal_fold (sm_github x) (se_login s)))) (tabs w1) (tabs w3)"
  using write_audit_run[OF assms(2)] acting_staff_run[OF assms(1)]
  by (auto simp: audited_def)

lemma audited_put_projects [simp]: "audited P (put_projects ps d) d' \<longleftrightarrow> audited P d d'"
  by (simp add: audited_def)

lemma maturity_update_run:
  assumes "run_state (handle_project_maturity_update G sess r req) w = (rep, w')"
  shows "if rs_status rep = 200
    then \<exists>s i m k old t. sess = Some s \<and> se_role s = role_staff \<and> req = Some m \<and> parse_maturity m = Some k \<and>
      parse_id_param (trim_suffix (wq_path r) ''/maturity'') ''/api/projects/'' = Inr i \<and>
      old \<in> set (tb_projects (cur (tabs w))) \<and> row_id old = i \<and>
      rows (tabs w') = (rows (tabs w))\<lparr>tb_projects := map (\<lambda>p. if row_id p = i
         then stamp t (p\<lparr>pr_maturity := k\<rparr>) else p) (tb_projects (cur (tabs w)))\<rparr> \<and>
      audited (\<lambda>e. al_action e = ''PROJECT_MATURITY_UPDATE'' \<and> al_project_id e = Some i \<and>
        al_metadata e = changes_meta s [(''maturity'', change (pr_maturity old) k)] \<and>
        (\<forall>n. al_staff_id e = Some n \<longrightarrow> (\<exists>x \<in> set (tb_staff (cur (tabs w))).
           row_id x = n \<and> equal_fold (sm_github x) (se_login s)))) (tabs w) (tabs w')
    else tabs w' = tabs w"
proof (cases "wq_method r \<noteq> ''OPTIONS'' \<and> \<not> isl (parse_id_param (trim_suffix (wq_path r) ''/maturity'') ''/api/projects/'') \<and>
    is_staff_session sess \<and> req \<noteq> None \<and> parse_maturity (the req) \<noteq> None")
  case False
  then have "rs_status rep \<noteq> 200 \<and> w' = w"
    using assms by (auto simp: handle_project_maturity_update_def split: option.splits if_splits sum.splits)
  then show ?thesis by simp
next
  case True
  then obtain s m k i where a: "wq_method r \<noteq> ''OPTIONS''" "sess = Some s" "se_role s = role_staff" "req = Some m"
    "parse_maturity m = Some k" "parse_id_param (trim_suffix (wq_path r) ''/maturity'') ''/api/projects/'' = Inr i"
    by (cases sess; cases req; cases "parse_id_param (trim_suffix (wq_path r) ''/maturity'') ''/api/projects/''") auto
  obtain b w1 where b: "run_state (get_project_by_id G i) w = (b, w1)" by (metis prod.collapse)
  have t1: "tabs w1 = tabs w" by (rule keepsD[OF reads_helpers(1) b])
  show ?thesis
  proof (cases b)
    case (Inl e)
    then have "rs_status rep \<noteq> 200 \<and> w' = w1"
      using assms a b by (auto simp: handle_project_maturity_update_def)
    then show ?thesis using t1 by simp
  next
    case (Inr p)
    obtain x w2 where u: "run_state (update_project_maturity G i k) w1 = (x, w2)" by (metis prod.collapse)
    have "maturity_value k = Ok (DString k)"
      using parse_maturity_valid[OF a(5)] by (simp add: maturity_value_def)
    note up = update_project_run[OF u[unfolded update_project_maturity_def sql_argument_def this sum.case]]
    show ?thesis
    proof (cases x)
      case (Inl e)
      then have "rs_status rep \<noteq> 200 \<and> w' = w2"
        using assms a b Inr u by (auto simp: handle_project_maturity_update_def)
      then show ?thesis using t1 up Inl by simp
    next
      case ok: (Inr y)
      obtain staffID staffName w3 where s: "run_state (acting_staff G s) w2 = ((staffID, staffName), w3)"
        by (metis prod.collapse)
      have rep: "rs_status rep = 200" and "\<exists>v. run_state (write_audit G (zero_audit_log
           \<lparr>al_project_id := Some i, al_staff_id := staffID, al_action := ''PROJECT_MATURITY_UPDATE'',
            al_message := ''Project maturity updated by '' @ staffName,
            al_metadata := changes_meta s [(''maturity'', change (pr_maturity p) k)]\<rparr>)) w3 = (v, w')"
        using assms a b Inr u ok s
        by (auto simp: handle_project_maturity_update_def split: prod.splits)
      then obtain v where v: "run_state (write_audit G (zero_audit_log
           \<lparr>al_project_id := Some i, al_staff_id := staffID, al_action := ''PROJECT_MATURITY_UPDATE'',
            al_message := ''Project maturity updated by '' @ staffName,
            al_metadata := changes_meta s [(''maturity'', change (pr_maturity p) k)]\<rparr>)) w3 = (v, w')" by blast
      obtain old where old: "old \<in> set (tb_projects (cur (tabs w)))" "row_id old = i"
        "pr_maturity p = pr_maturity old" using project_by_id_Ok[OF b[unfolded Inr]] by blast
      obtain t where t: "tabs w2 = put_projects (map (\<lambda>p. if row_id p = i then stamp t (p\<lparr>pr_maturity := k\<rparr>) else p)
          (tb_projects (cur (tabs w)))) (tabs w)" using up ok t1 by auto
      show ?thesis
        using record_update[OF s v] rep a old t
        by (auto simp del: parse_maturity_def intro!: exI[of _ old] exI[of _ t])
    qed
  qed
qed

lemma ref_update_run:
  assumes "run_state (handle_project_maintainer_ref_update G sess r req) w = (rep, w')"
  shows "if rs_status rep = 200
    then \<exists>s i v old t. sess = Some s \<and> se_role s = role_staff \<and> req = Some v \<and>
      parse_id_param (wq_path r) ''/api/projects/'' = Inr i \<and> (trim_space v = [] \<or> is_url (trim_space v)) \<and>
      old \<in> set (tb_projects (cur (tabs w))) \<and> row_id old = i \<and>
      rows (tabs w') = (rows (tabs w))\<lparr>tb_projects := map (\<lambda>p. if row_id p = i
         then stamp t (p\<lparr>pr_legacy_ref := trim_space v\<rparr>) else p) (tb_projects (cur (tabs w)))\<rparr> \<and>
      audited (\<lambda>e. al_action e = ''PROJECT_MAINTAINER_REF_UPDATE'' \<and> al_project_id e = Some i \<and>
        al_metadata e = changes_meta s [(''maintainerRef'', change (trim_space (pr_legacy_ref old)) (trim_space v))] \<and>
        (\<forall>n. al_staff_id e = Some n \<longrightarrow> (\<exists>x \<in> set (tb_staff (cur (tabs w))).
           row_id x = n \<and> equal_fold (sm_github x) (se_login s)))) (tabs w) (tabs w')
    else tabs w' = tabs w"
proof (cases "wq_method r \<noteq> ''OPTIONS'' \<and> \<not> isl (parse_id_param (wq_path r) ''/api/projects/'') \<and>
    is_staff_session sess \<and> req \<noteq> None \<and> (trim_space (the req) = [] \<or> is_url (trim_space (the req)))")
  case False
  then have "rs_status rep \<noteq> 200 \<and> w' = w"
    using assms by (auto simp: handle_project_maintainer_ref_update_def Let_def split: option.splits if_splits sum.splits)
  then show ?thesis by simp
next
  case True
  then obtain s v i where a: "wq_method r \<noteq> ''OPTIONS''" "sess = Some s" "se_role s = role_staff" "req = Some v"
    "\<not> (trim_space v \<noteq> [] \<and> \<not> is_url (trim_space v))" "parse_id_param (wq_path r) ''/api/projects/'' = Inr i"
    by (cases sess; cases req; cases "parse_id_param (wq_path r) ''/api/projects/''") auto
  let ?ref = "trim_space v"
  obtain b w1 where b: "run_state (get_project_by_id G i) w = (b, w1)" by (metis prod.collapse)
  have t1: "tabs w1 = tabs w" by (rule keepsD[OF reads_helpers(1) b])
  show ?thesis
  proof (cases b)
    case (Inl e)
    then have "rs_status rep \<noteq> 200 \<and> w' = w1"
      using assms a b by (auto simp: handle_project_maintainer_ref_update_def Let_def)
    then show ?thesis using t1 by simp
  next
    case (Inr p)
    obtain x w2 where u: "run_state (update_project_legacy_maintainer_ref G i ?ref) w1 = (x, w2)" by (metis prod.collapse)
    note up = update_project_run[OF u[unfolded update_project_legacy_maintainer_ref_def]]
    show ?thesis
    proof (cases x)
      case (Inl e)
      then have "rs_status rep \<noteq> 200 \<and> w' = w2"
        using assms a b Inr u by (auto simp: handle_project_maintainer_ref_update_def Let_def)
      then show ?thesis using t1 up Inl by simp
    next
      case ok: (Inr y)
      obtain staffID staffName w3 where s: "run_state (acting_staff G s) w2 = ((staffID, staffName), w3)"
        by (metis prod.collapse)
      obtain old where old: "old \<in> set (tb_projects (cur (tabs w)))" "row_id old = i"
        "pr_legacy_ref p = pr_legacy_ref old" using project_by_id_Ok[OF b[unfolded Inr]] by blast
      obtain z where rep: "rs_status rep = 200" and z: "run_state (write_audit G (zero_audit_log
           \<lparr>al_project_id := Some i, al_staff_id := staffID, al_action := ''PROJECT_MAINTAINER_REF_UPDATE'',
            al_message := ''Project maintainer ref updated by '' @ staffName,
            al_metadata := changes_meta s [(''maintainerRef'', change (trim_space (pr_legacy_ref old)) ?ref)]\<rparr>)) w3 = (z, w')"
        using assms a b Inr u ok s old(3)
        by (auto simp: handle_project_maintainer_ref_update_def Let_def split: prod.splits)
      obtain t where t: "tabs w2 = put_projects (map (\<lambda>p. if row_id p = i then stamp t (p\<lparr>pr_legacy_ref := ?ref\<rparr>) else p)
          (tb_projects (cur (tabs w)))) (tabs w)" using up ok t1 by auto
      show ?thesis
        using record_update[OF s z] rep a old t by (auto intro!: exI[of _ old] exI[of _ t])
    qed
  qed
qed

end


definition demo_matured :: "reply \<times> mem_world" where
  "demo_matured = run_state (handle_project_maturity_update mem_gorm (Some (demo_session ''samstaff'' role_staff))
     (demo_request ''PATCH'' ''/api/projects/1/maturity'') (Some '' INCUBATING'')) demo_world"


text \<open>
  The same for the maintainer file of a project: the reference the staff sends is stored
  trimmed, only when it is empty or a web address, in the row with the id of the path and in no
  other, and the audit record tells the old reference from the new one.
\<close>

theorem maintainer_ref_update_changes_one_row_and_is_audited:
  assumes "gorm_db G tabs"
    and "run_state (handle_project_maintainer_ref_update G sess r req) w = (rep, w')"
  shows "if rs_status rep = 200
    then \<exists>s i v old t. sess = Some s \<and> se_role s = role_staff \<and> req = Some v \<and>
      parse_id_param (wq_path r) ''/api/projects/'' = Inr i \<and> (trim_space v = [] \<or> is_url (trim_space v)) \<and>
      old \<in> set (tb_projects (cur (tabs w))) \<and> row_id old = i \<and>
      rows (tabs w') = (rows (tabs w))\<lparr>tb_projects := map (\<lambda>p. if row_id p = i
         then stamp t (p\<lparr>pr_legacy_ref := trim_space v\<rparr>) else p) (tb_projects (cur (tabs w)))\<rparr> \<and>
      audited (\<lambda>e. al_action e = ''PROJECT_MAINTAINER_REF_UPDATE'' \<and> al_project_id e = Some i \<and>
        al_metadata e = changes_meta s [(''maintainerRef'', change (trim_space (pr_legacy_ref old)) (trim_space v))] \<and>
        (\<forall>n. al_staff_id e = Some n \<longrightarrow> (\<exists>x \<in> set (tb_staff (cur (tabs w))).
           row_id x = n \<and> equal_fold (sm_github x) (se_login s)))) (tabs w) (tabs w')
    else tabs w' = tabs w"
  by (rule gorm_db.ref_update_run[OF assms])

definition demo_refused_ref :: "reply \<times> mem_world" where
  "demo_refused_ref = run_state (handle_project_maintainer_ref_update mem_gorm (Some (demo_session ''samstaff'' role_staff))
     (demo_request ''PATCH'' ''/api/projects/1'') (Some ''javascript:x'')) demo_world"

theorem maintainer_ref_update_changes_one_row_and_is_audited_witness:
  "rs_status (fst demo_refused_ref) = 400 \<and> mw_db (snd demo_refused_ref) = mw_db demo_world"
proof -
  have c: "rs_status (fst demo_refused_ref) = 400" by code_simp
  have r: "run_state (handle_project_maintainer_ref_update mem_gorm (Some (demo_session ''samstaff'' role_staff))
     (demo_request ''PATCH'' ''/api/projects/1'') (Some ''javascript:x'')) demo_world
     = (fst demo_refused_ref, snd demo_refused_ref)" by (simp add: demo_refused_ref_def)
  from maintainer_ref_update_changes_one_row_and_is_audited[OF mem.gorm_db_axioms r] c show ?thesis by simp
qed

end
