(* ===== verification/Bff_Onboarding_Laws.thy ===== *)
theory Bff_Onboarding_Laws
  imports Bff_Project_Laws
begin

text \<open>
  The list of open onboarding issues: that the paging of the GitHub search ends with every
  issue, what the filter leaves out, what the cache may answer, and that a project just created
  is not offered again.
\<close>

section \<open>Paging\<close>

text \<open>
  GitHub's answer to the search: page \<open>0\<close> (no page given) is the first of \<open>n\<close> pages, the next
  page of page \<open>k\<close> is \<open>k + 1\<close>, and the last one names no next page.
\<close>

definition page_number :: "nat \<Rightarrow> int" where
  "page_number k = (if k = 0 then 0 else int k + 1)"

definition serves_pages :: "'w env \<Rightarrow> (nat \<Rightarrow> gh_issue list) \<Rightarrow> nat \<Rightarrow> bool" where
  "serves_pages E page n \<longleftrightarrow>
     (\<forall>k<n. \<forall>w. fst (run_state (en_issues_page E (page_number k)) w) =
        Inr (page k, if Suc k < n then page_number (Suc k) else 0))"

lemma page_number_Suc_nonzero: "page_number (Suc k) \<noteq> 0"
  by (simp add: page_number_def)

lemma fetch_issues_from_pages:
  assumes "serves_pages E page n" and "k < n" and "n - k \<le> fuel"
  shows "fst (run_state (fetch_issues_from E fuel (page_number k) acc) w) =
    Some (Inr (acc @ map summary_of (concat (map page [k..<n]))))"
  using assms(2,3)
proof (induction fuel arbitrary: k acc w)
  case 0
  then show ?case by simp
next
  case (Suc fuel)
  obtain w1 where r: "run_state (en_issues_page E (page_number k)) w =
      (Inr (page k, if Suc k < n then page_number (Suc k) else 0), w1)"
    using assms(1) Suc.prems(1) unfolding serves_pages_def by (metis prod.collapse)
  show ?case
  proof (cases "Suc k < n")
    case True
    then have "fst (run_state (fetch_issues_from E fuel (page_number (Suc k)) (acc @ map summary_of (page k))) w1)
      = Some (Inr ((acc @ map summary_of (page k)) @ map summary_of (concat (map page [Suc k..<n]))))"
      using Suc.prems(2) by (intro Suc.IH) auto
    then show ?thesis using r True page_number_Suc_nonzero[of k] Suc.prems(1)
      by (simp add: Let_def upt_conv_Cons[of k n])
  next
    case False
    then have "[k..<n] = [k]" using Suc.prems(1) by (simp add: upt_conv_Cons)
    then show ?thesis using r False by (simp add: Let_def)
  qed
qed

section \<open>The filter\<close>

context gorm_db
begin

lemma filter_issues_Ok:
  "run_state (filter_issues G is) w = (Inr out, w') \<Longrightarrow> tabs w' = tabs w \<and>
     out = filter (\<lambda>i. \<forall>p \<in> set (tb_projects (cur (tabs w))). \<not> has_project i p) is"
proof (induction "is" arbitrary: out w w')
  case (Cons i rest)
  from Cons.prems obtain n w1 out1 where c: "run_state (t_count (projects G) (has_project i)) w = (Inr n, w1)"
    and r: "run_state (filter_issues G rest) w1 = (Inr out1, w')"
    and out: "out = (if n = 0 then i # out1 else out1)"
    by (auto split: prod.splits sum.splits)
  have t: "tabs w1 = tabs w" by (rule pr.count_tabs[OF c])
  have "n = 0 \<longleftrightarrow> (\<forall>p \<in> set (tb_projects (cur (tabs w))). \<not> has_project i p)"
    using pr.count_pos_iff[OF c] by auto
  then show ?case using Cons.IH[OF r] out t by auto
qed simp

lemma filter_issues_tabs: "run_state (filter_issues G is) w = (x, w') \<Longrightarrow> tabs w' = tabs w"
proof (induction "is" arbitrary: x w w')
  case (Cons i rest)
  then show ?case
    by (auto split: prod.splits sum.splits dest!: pr.count_tabs)
qed simp

text \<open>A list is what the cache held, unexpired, or what is left of the fetched issues.\<close>

lemma get_onboarding_issues_Ok:
  assumes "run_state (get_onboarding_issues E (Some fetch) (Some G) (Some c)) w = ((Inr out, c'), w')"
    and now: "\<And>w t w'. run_state (en_now E) w = (t, w') \<Longrightarrow> tabs w' = tabs w"
    and fetch: "\<And>w x w'. run_state fetch w = (x, w') \<Longrightarrow> tabs w' = tabs w"
  shows "tabs w' = tabs w \<and>
    (\<exists>t w1. run_state (en_now E) w = (t, w1) \<and>
      (if t < ic_expires c \<and> ic_issues c \<noteq> [] then out = ic_issues c \<and> c' = Some c
       else \<exists>raw w2. run_state fetch w1 = (Inr raw, w2) \<and>
         out = filter (\<lambda>i. \<forall>p \<in> set (tb_projects (cur (tabs w))). \<not> has_project i p) raw \<and>
         c' = Some \<lparr>ic_expires = t + onboarding_cache_ttl, ic_raw = raw, ic_issues = out\<rparr>))"
proof -
  obtain t w1 where t: "run_state (en_now E) w = (t, w1)" by (metis prod.collapse)
  note t1 = now[OF t]
  show ?thesis
  proof (cases "t < ic_expires c \<and> ic_issues c \<noteq> []")
    case True
    then show ?thesis using assms(1) t t1 by (simp add: get_onboarding_issues_def)
  next
    case False
    with assms(1) t obtain raw w2 where f: "run_state fetch w1 = (Inr raw, w2)"
      and fi: "run_state (filter_issues G raw) w2 = (Inr out, w')"
      and c': "c' = Some \<lparr>ic_expires = t + onboarding_cache_ttl, ic_raw = raw, ic_issues = out\<rparr>"
      by (auto simp: get_onboarding_issues_def fetch_and_filter_onboarding_issues_def
          split: prod.splits sum.splits)
    show ?thesis using filter_issues_Ok[OF fi] fetch[OF f] t1 t False f c' by auto
  qed
qed

end

section \<open>Properties\<close>

text \<open>
  C14: the paging loop of the GitHub search ends: with at least one page, fuel for as many rounds as
  there are pages is enough, and the result is every issue of every page, in order.
\<close>

theorem onboarding_issues_collects_all_pages:
  assumes "serves_pages E page n" and "0 < n" and "n \<le> fuel"
  shows "fst (run_state (fetch_onboarding_issues_from_github E fuel) w) =
    Some (Inr (map summary_of (concat (map page [0..<n]))))"
  using fetch_issues_from_pages[of E page n 0 fuel "[]" w] assms
  by (simp add: fetch_onboarding_issues_from_github_def page_number_def)

definition demo_page :: "nat \<Rightarrow> gh_issue list" where
  "demo_page k = [\<lparr>gi_number = int k, gi_title = ''t'', gi_url = ''u'', gi_is_pull = False\<rparr>]"

definition two_pages :: "mem_world env" where
  "two_pages = demo_env\<lparr>en_issues_page :=
     (\<lambda>p. ret (if p = 0 then Inr (demo_page 0, 2) else Inr (demo_page 1, 0)))\<rparr>"

theorem onboarding_issues_collects_all_pages_witness:
  "fst (run_state (fetch_onboarding_issues_from_github two_pages 2) demo_world) =
     Some (Inr (map summary_of (demo_page 0 @ demo_page 1)))"
proof -
  have "serves_pages two_pages demo_page 2"
    by (auto simp: serves_pages_def two_pages_def page_number_def less_Suc_eq numeral_2_eq_2)
  from onboarding_issues_collects_all_pages[OF this, of 2 demo_world] show ?thesis
    by (simp add: numeral_2_eq_2)
qed

text \<open>
  The list of onboarding issues is either the cached one, before it expires, or the fetched
  issues, in order, without those that have a project: a project with the address of the issue or
  with the name in its title, in any letter case.  A fresh list is kept for 15 minutes, counted
  from before the fetch.
\<close>

theorem onboarding_issues_cached_or_fresh:
  assumes "bff_outside G tabs E" and "\<forall>w x w'. run_state fetch w = (x, w') \<longrightarrow> tabs w' = tabs w"
    and "run_state (get_onboarding_issues E (Some fetch) (Some G) (Some c)) w = ((Inr out, c'), w')"
  shows "\<exists>t w1. run_state (en_now E) w = (t, w1) \<and>
    (if t < ic_expires c \<and> ic_issues c \<noteq> [] then out = ic_issues c \<and> c' = Some c
     else \<exists>raw w2. run_state fetch w1 = (Inr raw, w2) \<and>
       out = filter (\<lambda>i. \<forall>p \<in> set (tb_projects (cur (tabs w))). \<not> has_project i p) raw \<and>
       c' = Some \<lparr>ic_expires = t + onboarding_cache_ttl, ic_raw = raw, ic_issues = out\<rparr>)"
  using gorm_db.get_onboarding_issues_Ok[OF bff_outside.axioms(1)[OF assms(1)] assms(3)]
    bff_outside.now_tabs[OF assms(1)] assms(2) by blast

definition demo_issue :: "string \<Rightarrow> string \<Rightarrow> issue_summary" where
  "demo_issue u n = \<lparr>oi_number = 7, oi_title = [], oi_url = u, oi_project = n\<rparr>"

definition empty_cache :: issue_cache where
  "empty_cache = \<lparr>ic_expires = 0, ic_raw = [], ic_issues = []\<rparr>"

definition demo_fetch :: "mem_world fetcher" where
  "demo_fetch = ret (Inr [demo_issue ''u1'' ''ALPHA'', demo_issue ''u2'' ''gamma''])"

theorem onboarding_issues_cached_or_fresh_witness:
  "fst (fst (run_state (get_onboarding_issues demo_env (Some demo_fetch) (Some mem_gorm) (Some empty_cache)) demo_world))
     = Inr [demo_issue ''u2'' ''gamma'']"
proof -
  let ?x = "run_state (get_onboarding_issues demo_env (Some demo_fetch) (Some mem_gorm) (Some empty_cache)) demo_world"
  have "\<not> isl (fst (fst ?x))" by code_simp
  then obtain out where o: "fst (fst ?x) = Inr out" by (cases "fst (fst ?x)") auto
  have r: "?x = ((Inr out, snd (fst ?x)), snd ?x)" using o by (metis prod.collapse)
  have f: "\<forall>w x w'. run_state demo_fetch w = (x, w') \<longrightarrow> mw_db w' = mw_db w" by (simp add: demo_fetch_def)
  have "filter (\<lambda>i. \<forall>p \<in> set (tb_projects demo_tables). \<not> has_project i p)
      [demo_issue ''u1'' ''ALPHA'', demo_issue ''u2'' ''gamma''] = [demo_issue ''u2'' ''gamma'']" by code_simp
  moreover have "cur (mw_db demo_world) = demo_tables" by (simp add: demo_world_def)
  moreover have "ic_issues empty_cache = []" by (simp add: empty_cache_def)
  ultimately have "out = [demo_issue ''u2'' ''gamma'']"
    using onboarding_issues_cached_or_fresh[OF outside.bff_outside_axioms f r]
    by (auto simp: demo_fetch_def)
  with o show ?thesis by simp
qed

text \<open>
  C13: a project that was just created is not offered for onboarding again: after the reply 200 of
  the create route the next list, fetched from a database that still holds the new project, has no
  issue with the address of its onboarding issue, in any letter case, whatever the cache held and
  whatever the time is.
\<close>

theorem created_project_leaves_the_issue_list:
  assumes "bff_outside G tabs E" and "\<forall>w x w'. run_state fetch w = (x, w') \<longrightarrow> tabs w' = tabs w"
    and "run_state (create_project_route z cf E G sess r (Some q) (Some c)) w = ((rep, c1), w1)"
    and "rs_status rep = 200"
    and "set (tb_projects (cur (tabs w1))) \<subseteq> set (tb_projects (cur (tabs w2)))"
    and "run_state (get_onboarding_issues E (Some fetch) (Some G) c1) w2 = ((Inr out, c2), w3)"
    and "i \<in> set out"
  shows "to_lower (oi_url i) \<noteq> to_lower (trim_space (pc_onboarding_issue q))"
proof
  assume same: "to_lower (oi_url i) = to_lower (trim_space (pc_onboarding_issue q))"
  obtain drop_it where h: "run_state (handle_project_create cf E G sess r (Some q)) w = ((rep, drop_it), w1)"
    and c1: "c1 = (if drop_it then invalidate_onboarding_cache z (Some c) else Some c)"
    using assms(3) by (auto simp: create_project_route_def split: prod.splits)
  from gorm_db.project_create_named[OF bff_outside.axioms(1)[OF assms(1)] assms(1) h] assms(4)
  obtain n u w' s number where p: "parse_github_issue_url E (trim_space (pc_onboarding_issue q)) = Inr (''cncf'', ''sandbox'', number)"
    and cr: "run_state (create_named_project E G s q n) w' = ((rep, drop_it), w1)" by auto
  from gorm_db.create_named_project_run[OF bff_outside.axioms(1)[OF assms(1)] cr] assms(4)
  obtain org pr where d: drop_it and pr: "asked_for q n org pr"
    "rows (tabs w1) = (rows (tabs w'))\<lparr>tb_projects := tb_projects (cur (tabs w')) @ [pr]\<rparr>" by auto
  have "pr \<in> set (tb_projects (rows (tabs w1)))" unfolding pr(2) by simp
  then have pr2: "pr \<in> set (tb_projects (cur (tabs w2)))" using assms(5) by auto
  have c1': "c1 = Some (c\<lparr>ic_expires := z, ic_issues := [], ic_raw := []\<rparr>)"
    using c1 d by (simp add: invalidate_onboarding_cache_def)
  have "i \<in> set out \<longrightarrow> \<not> has_project i pr"
    using onboarding_issues_cached_or_fresh[OF assms(1,2) assms(6)[unfolded c1']] pr2 by auto
  moreover have "trim_space (pc_onboarding_issue q) \<noteq> []"
    using h assms(4) by (auto simp: handle_project_create_def Let_def split: option.splits if_splits)
  moreover from this same have "oi_url i \<noteq> []" by (auto simp: to_lower_def)
  ultimately show False using assms(7) pr(1) same by (auto simp: has_project_def asked_for_def Let_def split: if_splits)
qed

definition demo_created_route :: "(reply \<times> issue_cache option) \<times> mem_world" where
  "demo_created_route = run_state (create_project_route 0 (demo_config\<lparr>cf_test_mode := True\<rparr>) demo_site mem_gorm
     (Some (demo_session ''samstaff'' role_staff)) (demo_request ''POST'' ''/api/projects'') (Some demo_create)
     (Some \<lparr>ic_expires = 99, ic_raw = [], ic_issues = [demo_issue (pc_onboarding_issue demo_create) []]\<rparr>)) demo_world"

definition demo_fetch_again :: "mem_world fetcher" where
  "demo_fetch_again = ret (Inr [demo_issue (pc_onboarding_issue demo_create) [], demo_issue ''u2'' []])"

definition demo_list_after :: "(issue_summary list result \<times> issue_cache option) \<times> mem_world" where
  "demo_list_after = run_state (get_onboarding_issues demo_site (Some demo_fetch_again) (Some mem_gorm)
     (snd (fst demo_created_route))) (snd demo_created_route)"

theorem created_project_leaves_the_issue_list_witness:
  "\<exists>out. fst (fst demo_list_after) = Inr out \<and> demo_issue ''u2'' [] \<in> set out \<and>
     to_lower (oi_url (demo_issue ''u2'' [])) \<noteq> to_lower (trim_space (pc_onboarding_issue demo_create))"
proof -
  have c: "rs_status (fst (fst demo_created_route)) = 200" by code_simp
  have "(case fst (fst demo_list_after) of Inl _ \<Rightarrow> False | Inr out \<Rightarrow> list_ex (\<lambda>i. i = demo_issue ''u2'' []) out)"
    by code_simp
  then obtain out where o: "fst (fst demo_list_after) = Inr out" "demo_issue ''u2'' [] \<in> set out"
    by (cases "fst (fst demo_list_after)") (auto simp: list_ex_iff)
  have f: "\<forall>w x w'. run_state demo_fetch_again w = (x, w') \<longrightarrow> mw_db w' = mw_db w"
    by (simp add: demo_fetch_again_def)
  have r: "run_state (create_project_route 0 (demo_config\<lparr>cf_test_mode := True\<rparr>) demo_site mem_gorm
     (Some (demo_session ''samstaff'' role_staff)) (demo_request ''POST'' ''/api/projects'') (Some demo_create)
     (Some \<lparr>ic_expires = 99, ic_raw = [], ic_issues = [demo_issue (pc_onboarding_issue demo_create) []]\<rparr>)) demo_world
     = ((fst (fst demo_created_route), snd (fst demo_created_route)), snd demo_created_route)"
    by (simp add: demo_created_route_def)
  have l: "run_state (get_onboarding_issues demo_site (Some demo_fetch_again) (Some mem_gorm)
     (snd (fst demo_created_route))) (snd demo_created_route) = ((Inr out, snd (fst demo_list_after)), snd demo_list_after)"
    using o(1) unfolding demo_list_after_def by (metis prod.collapse)
  from created_project_leaves_the_issue_list[OF site.bff_outside_axioms f r c subset_refl l o(2)] o show ?thesis by blast
qed

end
