(* ===== verification/Bff_Process.thy ===== *)
theory Bff_Process
  imports Bff_Routes Bff_Lists Bff_Onboarding_Laws
begin

text \<open>
  The server of \<^verbatim>\<open>cmd/web-bff/main.go\<close> as one process: the value \<^verbatim>\<open>server\<close> that all handlers
  share, the memory it keeps between requests, every route with the handler \<^verbatim>\<open>main\<close> registers for
  it, and runs of requests one after another.
\<close>

section \<open>The server and its memory\<close>

text \<open>
  The bodies of requests: what \<^verbatim>\<open>json.Decoder\<close> makes of the text for the type of each handler,
  \<open>None\<close> when it fails.
\<close>

record bff_decoders =
  dj_create :: "string \<Rightarrow> project_create_request option"
  dj_maturity :: "string \<Rightarrow> string option"
  dj_ref :: "string \<Rightarrow> string option"
  dj_statuses :: "string \<Rightarrow> (nat list \<times> string) option"
  dj_from_ref :: "string \<Rightarrow> add_maintainer_request option"
  dj_maintainer :: "string \<Rightarrow> maintainer_update_request option"
  dj_company :: "string \<Rightarrow> string option"
  dj_merge :: "string \<Rightarrow> (nat \<times> nat) option"
  dj_resolve :: "string \<Rightarrow> string option"

text \<open>
  What does not change while the process runs: the settings, the calls to the outside, the
  database with its raw queries, \<^verbatim>\<open>sort.Slice\<close>, the order of \<^verbatim>\<open>ORDER BY name\<close> and the format of times.
\<close>

record 'w bff_server =
  sr_config :: config
  sr_env :: "'w env"
  sr_gorm :: "'w gorm"
  sr_queries :: "'w list_queries"
  sr_counts :: "('w, (nat \<times> nat) list result) io"
  sr_fetcher :: "'w fetcher option"
  sr_sort_slice :: "(recent_row \<Rightarrow> recent_row \<Rightarrow> bool) \<Rightarrow> recent_row list \<Rightarrow> recent_row list"
  sr_by_name :: "maintainer list \<Rightarrow> maintainer list"
  sr_rfc3339 :: "int \<Rightarrow> string"
  sr_decode :: bff_decoders

text \<open>The two stores and the cache of issues: \<^verbatim>\<open>newSessionStore\<close>, \<^verbatim>\<open>newStateStore\<close> and an expired cache.\<close>

record process =
  pc_bff :: bff
  pc_cache :: "issue_cache option"

definition year_one :: int where "year_one = - 62135596800 * 1000000000"

definition start_process :: process where
  "start_process =
     \<lparr>pc_bff = \<lparr>bf_sessions = new_session_store, bf_states = new_state_store\<rparr>,
      pc_cache = Some \<lparr>ic_expires = year_one, ic_raw = [], ic_issues = []\<rparr>\<rparr>"

section \<open>Calls of a part of the process\<close>

type_synonym ('w, 'a) proc = "('w \<times> process, 'a) io"

definition on_world :: "('w, 'a) io \<Rightarrow> ('w, 'a) proc" where
  "on_world m = State (\<lambda>(w, p). case run_state m w of (x, w') \<Rightarrow> (x, (w', p)))"

definition on_bff :: "(bff \<Rightarrow> ('w, 'a \<times> bff) io) \<Rightarrow> ('w, 'a) proc" where
  "on_bff h = State (\<lambda>(w, p). case run_state (h (pc_bff p)) w of ((x, b), w') \<Rightarrow> (x, (w', p\<lparr>pc_bff := b\<rparr>)))"

definition on_cache :: "(issue_cache option \<Rightarrow> ('w, 'a \<times> issue_cache option) io) \<Rightarrow> ('w, 'a) proc" where
  "on_cache h = State (\<lambda>(w, p). case run_state (h (pc_cache p)) w of ((x, c), w') \<Rightarrow> (x, (w', p\<lparr>pc_cache := c\<rparr>)))"

definition lift_env :: "'w env \<Rightarrow> ('w \<times> process) env" where
  "lift_env E =
     \<lparr>en_now = on_world (en_now E), en_random_token = (\<lambda>n. on_world (en_random_token E n)),
      en_auth_code_url = en_auth_code_url E, en_exchange = (\<lambda>c. on_world (en_exchange E c)),
      en_github_login = (\<lambda>t. on_world (en_github_login E t)),
      en_issue_title = (\<lambda>a b n. on_world (en_issue_title E a b n)),
      en_issues_page = (\<lambda>p. on_world (en_issues_page E p)), en_http_get = (\<lambda>u. on_world (en_http_get E u)),
      en_parse_url = en_parse_url E, en_url_string = en_url_string E\<rparr>"

section \<open>The handlers of the routes\<close>

text \<open>
  A handler that panics leaves its client without an answer, which is written as a reply of status
  0; the recent projects are the only handler with a slice expression, and it never panics.
\<close>

definition no_panic :: "issue_cache option \<Rightarrow> (reply \<times> issue_cache option) go \<Rightarrow> reply \<times> issue_cache option" where
  "no_panic c x = (case x of Panic \<Rightarrow> (just_status 0, c) | Return y \<Rightarrow> y)"

fun bff_handlers ::
  "'w bff_server \<Rightarrow> string \<Rightarrow> route \<Rightarrow> session option \<Rightarrow> web_request \<Rightarrow> ('w, reply) proc" where
  "bff_handlers S body Health sess r = serve_health r"
| "bff_handlers S body Login sess r = on_bff (handle_login (sr_config S) (sr_env S) r)"
| "bff_handlers S body Callback sess r = on_bff (handle_callback (sr_config S) (sr_env S) (sr_gorm S) r)"
| "bff_handlers S body Test_login sess r = on_bff (handle_test_login (sr_config S) (sr_env S) (sr_gorm S) r)"
| "bff_handlers S body Logout sess r = on_bff (\<lambda>b. ret (handle_logout (sr_config S) r b))"
| "bff_handlers S body Me sess r = on_world (handle_me (sr_gorm S) sess)"
| "bff_handlers S body Projects sess r =
     on_cache (handle_projects (sr_gorm S) (sr_queries S)
       (create_project_route year_one (sr_config S) (sr_env S) (sr_gorm S) sess r (dj_create (sr_decode S) body)) sess r)"
| "bff_handlers S body Recent_projects sess r =
     on_cache (\<lambda>c. do { x \<leftarrow> handle_recent_projects (sr_sort_slice S) (sr_env S) (sr_fetcher S) (Some (sr_gorm S))
                             (sr_queries S) (sr_rfc3339 S) sess r c;
                       ret (no_panic c x) })"
| "bff_handlers S body Project sess r =
     on_world (handle_project (sr_env S) (sr_gorm S) sess r
       (if has_suffix (wq_path r) ''/maturity'' then dj_maturity (sr_decode S) body else dj_ref (sr_decode S) body))"
| "bff_handlers S body Search sess r = on_world (handle_search (sr_queries S) sess r)"
| "bff_handlers S body Maintainers_status sess r =
     on_world (handle_maintainer_status_update (sr_gorm S) sess r (dj_statuses (sr_decode S) body))"
| "bff_handlers S body Maintainers_from_ref sess r =
     on_world (handle_maintainer_from_ref (sr_gorm S) sess r (dj_from_ref (sr_decode S) body))"
| "bff_handlers S body Maintainer sess r =
     on_world (handle_maintainer (sr_gorm S) sess r (dj_maintainer (sr_decode S) body))"
| "bff_handlers S body Audit sess r = on_world (handle_audit (sr_queries S) sess r)"
| "bff_handlers S body Companies_merge sess r =
     on_world (handle_company_merge (sr_gorm S) sess r (dj_merge (sr_decode S) body))"
| "bff_handlers S body Companies sess r =
     on_world (handle_companies (sr_gorm S) (sr_counts S) sess r (dj_company (sr_decode S) body))"
| "bff_handlers S body Company sess r = on_world (handle_company (sr_gorm S) (sr_by_name S) sess r)"
| "bff_handlers S body Onboarding_resolve sess r =
     on_world (handle_resolve_onboarding (sr_config S) (sr_env S) sess r (dj_resolve (sr_decode S) body))"
| "bff_handlers S body Onboarding_issues sess r =
     on_cache (handle_onboarding_issues (sr_config S) (sr_env S) (sr_fetcher S) (Some (sr_gorm S)) sess r)"
| "bff_handlers S body Api_other sess r = ret (handle_api_not_implemented r)"

definition bff_request :: "'w bff_server \<Rightarrow> web_request \<Rightarrow> string \<Rightarrow> ('w, reply) proc" where
  "bff_request S r body =
     bff_serve (sr_config S) (lift_env (sr_env S)) (\<lambda>(w, p). bf_sessions (pc_bff p)) (bff_handlers S body) r"

text \<open>One request after another, each with the answer it got.\<close>

inductive served :: "'w bff_server \<Rightarrow> 'w \<times> process \<Rightarrow> 'w \<times> process \<Rightarrow> bool" for S where
  request: "run_state (bff_request S r body) x = (rep, y) \<Longrightarrow> served S x y"

abbreviation serves :: "'w bff_server \<Rightarrow> 'w \<times> process \<Rightarrow> 'w \<times> process \<Rightarrow> bool" where
  "serves S \<equiv> (served S)\<^sup>*\<^sup>*"

inductive_cases servedE: "served S x y"

text \<open>The session a request brings, if its cookie names one in the store.\<close>

definition session_of :: "'w bff_server \<Rightarrow> web_request \<Rightarrow> process \<Rightarrow> session option" where
  "session_of S r p =
     (case cookie_of r (cf_cookie_name (sr_config S)) of None \<Rightarrow> None | Some v \<Rightarrow> bf_sessions (pc_bff p) v)"

section \<open>Running them\<close>

lemma run_on_world [simp]: "run_state (on_world m) (w, p) = (case run_state m w of (x, w') \<Rightarrow> (x, (w', p)))"
  by (simp add: on_world_def)

lemma run_on_bff [simp]:
  "run_state (on_bff h) (w, p) = (case run_state (h (pc_bff p)) w of ((x, b), w') \<Rightarrow> (x, (w', p\<lparr>pc_bff := b\<rparr>)))"
  by (simp add: on_bff_def)

lemma run_on_cache [simp]:
  "run_state (on_cache h) (w, p) = (case run_state (h (pc_cache p)) w of ((x, c), w') \<Rightarrow> (x, (w', p\<lparr>pc_cache := c\<rparr>)))"
  by (simp add: on_cache_def)

lemma lift_env_now [simp]: "en_now (lift_env E) = on_world (en_now E)"
  by (simp add: lift_env_def)

text \<open>
  A request is answered without the handlers, or it reads the clock (or not), and a handler runs with
  the session of its cookie, or with none where the route is open.
\<close>

lemma bff_request_cases:
  assumes "run_state (bff_request S r body) (w, p) = (rep, (w', p'))"
  obtains (unchanged) "w' = w" "p' = p"
  | (expired) t where "run_state (en_now (sr_env S)) w = (t, w')" "p' = p"
  | (opened) rt rep' where "open_route rt" "run_state (bff_handlers S body rt None r) (w, p) = (rep', (w', p'))"
      "rs_cookies rep = rs_cookies rep'" "rs_status rep = rs_status rep'"
  | (inside) t w1 s rt rep' where "\<not> open_route rt" "run_state (en_now (sr_env S)) w = (t, w1)" "session_of S r p = Some s"
      "\<not> se_expires s < t" "run_state (bff_handlers S body rt (Some s) r) (w1, p) = (rep', (w', p'))"
      "rs_status rep = rs_status rep'"
proof (cases "mux routes (wq_method r) (wq_path r)")
  case (Found rt)
  let ?E = "lift_env (sr_env S)" and ?s = "\<lambda>(w, p). bf_sessions (pc_bff p)"
  have run: "run_state (route_handler (sr_config S) ?E ?s (bff_handlers S body) rt r) (w, p) = (rep, (w', p'))"
    using assms Found by (simp add: bff_request_def bff_serve_def)
  have cors: "(wq_method r = ''OPTIONS'' \<and> w' = w \<and> p' = p) \<or>
      (\<exists>rep'. run_state (h r) (w, p) = (rep', (w', p')) \<and> rs_cookies rep = rs_cookies rep' \<and> rs_status rep = rs_status rep')"
    if "run_state (cors_of (sr_config S) h r) (w, p) = (rep, (w', p'))" for h :: "web_request \<Rightarrow> ('a, reply) proc"
    using that by (auto simp: cors_of_def with_cors_def split: if_splits prod.splits)
  show thesis
  proof (cases "open_route rt")
    case True
    then consider "rt = Health" | "rt = Login \<or> rt = Callback" | "rt = Test_login \<or> rt = Logout"
      by (auto simp: open_route_def)
    then show thesis
    proof cases
      case 1
      then show thesis using run unchanged by (simp add: route_handler_def serve_health_def)
    next
      case 2
      then have "run_state (bff_handlers S body rt None r) (w, p) = (rep, (w', p'))"
        using run by (auto simp: route_handler_def)
      then show thesis using opened True by blast
    next
      case 3
      then have "run_state (cors_of (sr_config S) (bff_handlers S body rt None) r) (w, p) = (rep, (w', p'))"
        using run by (auto simp: route_handler_def)
      from cors[OF this] show thesis using opened[OF True] unchanged by blast
    qed
  next
    case False
    then have "run_state (cors_of (sr_config S) (guarded (sr_config S) ?E ?s (\<lambda>s. bff_handlers S body rt (Some s))) r) (w, p)
        = (rep, (w', p'))" using run by (auto simp: route_handler_def open_route_def)
    from cors[OF this] show thesis
    proof (elim disjE exE conjE)
      fix rep'
      assume g: "run_state (guarded (sr_config S) ?E ?s (\<lambda>s. bff_handlers S body rt (Some s)) r) (w, p) = (rep', (w', p'))"
        and st: "rs_status rep = rs_status rep'"
      show thesis
      proof (cases "cookie_of r (cf_cookie_name (sr_config S))")
        case None
        then show thesis using g unchanged by (simp add: guarded_def require_session_def)
      next
        case (Some v)
        obtain t w1 where t: "run_state (en_now (sr_env S)) w = (t, w1)" by (metis prod.collapse)
        show thesis
        proof (cases "session_get t v (bf_sessions (pc_bff p))")
          case None
          then show thesis using g Some t expired[of t] by (simp add: guarded_def require_session_def)
        next
          case (Some s)
          then have "bf_sessions (pc_bff p) v = Some s" "\<not> se_expires s < t"
            by (auto simp: session_get_def split: option.splits if_splits)
          moreover have "run_state (bff_handlers S body rt (Some s) r) (w1, p) = (rep', (w', p'))"
            using g \<open>cookie_of r _ = Some v\<close> t Some by (simp add: guarded_def require_session_def)
          ultimately show thesis
            using inside[OF False t _ _ _ st] \<open>cookie_of r _ = Some v\<close> by (simp add: session_of_def)
        qed
      qed
    qed (use unchanged in blast)
  qed
qed (use assms unchanged in \<open>simp_all add: bff_request_def bff_serve_def\<close>)

end
