(* ===== verification/Bff_Lists_Laws.thy ===== *)
theory Bff_Lists_Laws
  imports Bff_Lists Bff_Laws
begin

text \<open>
  What the lists of the web server show: the order of the recent projects, their pages, the label of
  who added a project, and who may read the audit log and search.
\<close>

section \<open>The order of the recent projects\<close>

text \<open>What \<^verbatim>\<open>sort.Slice\<close> asks of its comparison.\<close>

definition strict_weak :: "('a \<Rightarrow> 'a \<Rightarrow> bool) \<Rightarrow> bool" where
  "strict_weak lt \<longleftrightarrow>
     (\<forall>x. \<not> lt x x) \<and> (\<forall>x y z. lt x y \<longrightarrow> lt y z \<longrightarrow> lt x z) \<and>
     (\<forall>x y z. lt x z \<longrightarrow> lt x y \<or> lt y z)"

lemma strict_weak_key:
  fixes f :: "'a \<Rightarrow> 'b::linorder"
  shows "strict_weak (\<lambda>x y. f x < f y)" "strict_weak (\<lambda>x y. f x > f y)"
  unfolding strict_weak_def by (auto intro: less_trans)

lemma strict_weak_lex:
  fixes f :: "'a \<Rightarrow> 'b::linorder"
  assumes "strict_weak lt"
  shows "strict_weak (\<lambda>x y. f x < f y \<or> f x = f y \<and> lt x y)"
  unfolding strict_weak_def
proof (intro conjI allI impI)
  fix x y z
  show "\<not> (f x < f x \<or> f x = f x \<and> lt x x)"
    using assms by (simp add: strict_weak_def)
  show "f x < f z \<or> f x = f z \<and> lt x z" if "f x < f y \<or> f x = f y \<and> lt x y" "f y < f z \<or> f y = f z \<and> lt y z"
    using that assms unfolding strict_weak_def by (metis less_trans)
  show "(f x < f y \<or> f x = f y \<and> lt x y) \<or> f y < f z \<or> f y = f z \<and> lt y z"
    if "f x < f z \<or> f x = f z \<and> lt x z"
  proof (cases "f x < f y \<or> f y < f z")
    case False
    then have "f x = f y" "f y = f z" "lt x z" using that by auto
    then show ?thesis using assms unfolding strict_weak_def by metis
  qed blast
qed

text \<open>Rows with a key before rows without, then by key, then by a number of the row.\<close>

lemma strict_weak_optional_key:
  fixes key :: "'a \<Rightarrow> int option" and num :: "'a \<Rightarrow> nat"
  shows "strict_weak (\<lambda>x y. if (key x \<noteq> None) \<noteq> (key y \<noteq> None) then key x \<noteq> None \<and> key y = None
      else if key x = key y then (if asc then num x < num y else num x > num y)
      else if asc then the (key x) < the (key y) else the (key x) > the (key y))" (is "strict_weak ?lt")
proof -
  define s :: "int \<Rightarrow> int" where "s = (if asc then id else uminus)"
  define keyval where "keyval x = (case key x of None \<Rightarrow> 0 | Some k \<Rightarrow> s k)" for x
  define missing :: "'a \<Rightarrow> int" where "missing x = (case key x of None \<Rightarrow> 1 | Some _ \<Rightarrow> 0)" for x
  have "strict_weak (\<lambda>x y. missing x < missing y \<or> missing x = missing y \<and>
      (keyval x < keyval y \<or> keyval x = keyval y \<and> s (int (num x)) < s (int (num y))))" (is "strict_weak ?lex")
    by (intro strict_weak_lex strict_weak_key)
  also have "?lex = ?lt"
    by (intro ext, cases asc) (auto simp: s_def keyval_def missing_def split: option.split)
  finally show ?thesis .
qed

text \<open>
  Whatever is asked for with \<^verbatim>\<open>sort\<close> and \<^verbatim>\<open>direction\<close>, the comparison of
  the recent projects is a strict weak order, as \<^verbatim>\<open>sort.Slice\<close> requires; so the rows come out in
  an order that a page can be cut from, with the rows without an issue number last.
\<close>

theorem recent_order_is_strict_weak:
  "strict_weak (recent_less E sortBy direction)"
proof -
  consider "sortBy = ''name''" | "sortBy = ''obissue''" | "sortBy \<noteq> ''name''" "sortBy \<noteq> ''obissue''"
    by blast
  then show ?thesis
  proof cases
    case 1
    then show ?thesis
      using strict_weak_key[of "\<lambda>x. to_lower (rw_name x)"]
      by (cases "direction = ''asc''") (simp_all add: recent_less_def[abs_def])
  next
    case 2
    then show ?thesis
      using strict_weak_optional_key[of "\<lambda>x. issue_number_from_url E (rw_onboarding_issue x)"
          "direction = ''asc''" rw_id]
      by (simp add: recent_less_def[abs_def] Let_def)
  next
    case 3
    then show ?thesis using strict_weak_key[of rw_created_at]
      by (cases "direction = ''asc''") (simp_all add: recent_less_def[abs_def])
  qed
qed

section \<open>Pages\<close>

lemma parse_int_param_range:
  assumes "lo \<le> fallback" and "fallback \<le> hi"
  shows "lo \<le> parse_int_param r key fallback lo hi" "parse_int_param r key fallback lo hi \<le> hi"
  using assms by (auto simp: parse_int_param_def Let_def split: option.split)

text \<open>The window of a page, whole or cut off at the end of the rows.\<close>

lemma page_of_rows_window:
  assumes "0 \<le> limit" and "0 \<le> offset"
  shows "page_of_rows xs limit offset = Return (take (nat limit) (drop (nat offset) xs))"
proof -
  consider "int (length xs) < offset" | "offset \<le> int (length xs)" "int (length xs) < offset + limit"
    | "offset + limit \<le> int (length xs)" by linarith
  then show ?thesis
  proof cases
    case 2
    then have "length (drop (nat offset) xs) \<le> nat (int (length xs) - offset)"
      "length (drop (nat offset) xs) \<le> nat limit" by auto
    then show ?thesis using 2 assms by (auto simp: page_of_rows_def go_slice_def)
  qed (use assms in \<open>auto simp: page_of_rows_def go_slice_def\<close>)
qed

lemma pages_cover: "concat (map (\<lambda>k. take L (drop (k * L) xs)) [0..<n]) = take (n * L) xs"
  by (induction n) (simp_all add: take_add[symmetric] add.commute)

text \<open>
  no request for the recent projects panics on the slice of its page, whatever
  \<^verbatim>\<open>limit\<close> and \<^verbatim>\<open>offset\<close> say, however few rows there are and whatever the
  database and GitHub answer.
\<close>

theorem recent_projects_never_panic:
  "fst (run_state (handle_recent_projects sort_slice E fetcher store Q rfc3339 sess r cache) w) \<noteq> Panic"
proof -
  have p: "page_of_rows xs (parse_int_param r ''limit'' 10 1 50) (parse_int_param r ''offset'' 0 0 10000000) \<noteq> Panic"
    for xs :: "recent_row list"
    using parse_int_param_range(1)[of 1 10 50 r "''limit''"] parse_int_param_range(1)[of 0 0 10000000 r "''offset''"]
    by (simp add: page_of_rows_window)
  then show ?thesis
    by (auto simp: handle_recent_projects_def Let_def split: option.split prod.split sum.split go.split)
qed

section \<open>What a page shows\<close>

lemma map_indexes_lookup:
  assumes "map_indexes f m vs"
  shows "map_of m k = None \<longleftrightarrow> k \<notin> f ` vs" and "map_of m k = Some v \<Longrightarrow> v \<in> vs \<and> f v = k"
  using assms unfolding map_indexes_def
  by (auto simp: map_of_eq_None_iff dest!: map_of_SomeD)

lemma in_order_of_ids: "map row_id (in_order_of ids ps) = filter (\<lambda>i. i \<in> row_id ` set ps) ids"
proof (induction ids)
  case (Cons i ids)
  note m = map_indexes_lookup[OF map_indexes_index[of row_id ps], of i]
  then show ?case using Cons
    by (cases "map_of (map_index row_id ps) i") (auto simp: in_order_of_def List.map_filter_def)
qed (simp add: in_order_of_def List.map_filter_def)

text \<open>The ids of the projects of a reply, in their order.\<close>

definition id_of_json :: "json \<Rightarrow> int list" where
  "id_of_json j = (case j of J_obj fs \<Rightarrow> (case map_of fs ''id'' of Some (J_int i) \<Rightarrow> [i] | _ \<Rightarrow> []) | _ \<Rightarrow> [])"

definition shown_ids :: "(reply \<times> issue_cache option) go \<Rightarrow> int list" where
  "shown_ids x =
     (case x of
        Panic \<Rightarrow> []
      | Return (rep, _) \<Rightarrow>
          (case rs_body rep of
             Json (J_obj fs) \<Rightarrow> (case map_of fs ''projects'' of Some (J_list js) \<Rightarrow> concat (map id_of_json js) | _ \<Rightarrow> [])
           | _ \<Rightarrow> []))"

lemma shown_projects:
  "shown_ids (Return (json_reply (J_obj [(''total'', n),
     (''projects'', J_list (map (recent_project_json f by open_issues) ps))]), cache)) = map (int \<circ> row_id) ps"
proof -
  have "id_of_json (recent_project_json f by open_issues p) = [int (row_id p)]" for p
    by (simp add: id_of_json_def recent_project_json_def j_nat_def Let_def)
  then have "concat (map id_of_json (map (recent_project_json f by open_issues) ps)) = map (int \<circ> row_id) ps"
    by (induction ps) simp_all
  then show ?thesis by (simp add: shown_ids_def json_reply_def)
qed

text \<open>A page of rows that are all found by their ids is shown as it is.\<close>

lemma recent_page_shows:
  assumes "\<exists>ps. lq_projects_by_id Q ids = ret (Inr ps) \<and> set ids \<subseteq> row_id ` set ps"
  shows "shown_ids (Return (fst (run_state (recent_page E fetcher store Q f n ids cache) w))) = map int ids"
proof -
  obtain ps where ps: "lq_projects_by_id Q ids = ret (Inr ps)" and all: "set ids \<subseteq> row_id ` set ps"
    using assms by blast
  have "map row_id (in_order_of ids ps) = ids"
    using all by (auto simp: in_order_of_ids filter_id_conv)
  then have i: "map (int \<circ> row_id) (in_order_of ids ps) = map int ids" by (metis map_map)
  have none: "in_order_of [] qs = []" for qs by (simp add: in_order_of_def List.map_filter_def)
  show ?thesis
    using i ps none by (cases "ids = []") (auto simp: recent_page_def Let_def shown_projects shown_projects[of _ _ _ _ "[]", simplified] split: prod.split)
qed

lemma recent_projects_window:
  assumes "se_role s \<in> {role_staff, role_maintainer}" and "wq_method r = ''GET''"
    and "\<And>c. lq_count_projects Q c = ret (Inr n)" and "\<And>c. lq_recent_rows Q c = ret (Inr found)"
    and "\<And>ids. set ids \<subseteq> rw_id ` set found \<Longrightarrow>
       \<exists>ps. lq_projects_by_id Q ids = ret (Inr ps) \<and> set ids \<subseteq> row_id ` set ps"
    and "to_lower (trim_space (query_get r ''sort'')) = sortBy" and "sortBy \<noteq> []"
    and "to_lower (trim_space (query_get r ''direction'')) = direction" and "direction \<in> {''asc'', ''desc''}"
    and "parse_int_param r ''limit'' 10 1 50 = int L" and "parse_int_param r ''offset'' 0 0 10000000 = int k"
    and "\<And>lt. mset (sort_slice lt found) = mset found"
  shows "shown_ids (fst (run_state (handle_recent_projects sort_slice E fetcher store Q f (Some s) r cache) w)) =
    map (int \<circ> rw_id) (take L (drop k (sort_slice (recent_less E sortBy direction) found)))"
proof -
  have d: "(if to_lower (trim_space (query_get r ''direction'')) = ''asc'' then ''asc'' else ''desc'') = direction"
    using assms(8,9) by auto
  have role: "(se_role s \<noteq> role_staff \<and> se_role s \<noteq> role_maintainer) = False" using assms(1) by auto
  have sort: "(if to_lower (trim_space (query_get r ''sort'')) = [] then ''created''
      else to_lower (trim_space (query_get r ''sort''))) = sortBy" using assms(6,7) by (simp only: if_False)
  let ?ids = "map rw_id (take L (drop k (sort_slice (recent_less E sortBy direction) found)))"
  obtain x w1 where x: "run_state (recent_page E fetcher store Q f n ?ids cache) w = (x, w1)" by fastforce
  have run: "run_state (handle_recent_projects sort_slice E fetcher store Q f (Some s) r cache) w = (Return x, w1)"
    unfolding handle_recent_projects_def Let_def assms(2,10,11) d sort option.case role if_False
    using assms(3,4) by (simp add: page_of_rows_window x)
  have "set (sort_slice (recent_less E sortBy direction) found) = set found"
    using assms(12) by (rule mset_eq_setD)
  then have "set ?ids \<subseteq> rw_id ` set found" by (auto dest!: in_set_takeD in_set_dropD)
  note shown = recent_page_shows[OF assms(5)[OF this], of E fetcher store f n cache w]
  show ?thesis using shown run x by simp
qed


definition demo_rows :: "recent_row list" where
  "demo_rows = [\<lparr>rw_id = 7, rw_name = ''b'', rw_onboarding_issue = None, rw_created_at = 3\<rparr>,
     \<lparr>rw_id = 9, rw_name = ''a'', rw_onboarding_issue = None, rw_created_at = 5\<rparr>]"

definition demo_queries :: "mem_world list_queries" where
  "demo_queries =
     \<lparr>lq_count_projects = (\<lambda>_. ret (Inr 2)), lq_project_ids = (\<lambda>_ _ _ _. ret (Inr [])),
      lq_projects_by_id = (\<lambda>ids. ret (Inr (map (\<lambda>i. with_associations [] [] (demo_project i ''p'' Sandbox)) ids))),
      lq_recent_rows = (\<lambda>_. ret (Inr demo_rows)), lq_created_audits = (\<lambda>_. ret (Inr [])),
      lq_count_audits = ret (Inr 0), lq_audits = (\<lambda>_ _. ret (Inr [])), lq_is_postgres = False,
      lq_find_projects = (\<lambda>_ _ _. ret (Inr [])), lq_count_maintainers = (\<lambda>_. ret (Inr 0)),
      lq_find_maintainers = (\<lambda>_ _ _. ret (Inr [])), lq_count_companies = (\<lambda>_. ret (Inr 0)),
      lq_find_companies = (\<lambda>_ _ _. ret (Inr [])), pg_count_projects = (\<lambda>_. ret (Inr 0)),
      pg_find_projects = (\<lambda>_ _ _. ret (Inr [])), pg_count_maintainers = (\<lambda>_ _. ret (Inr 0)),
      pg_find_maintainers = (\<lambda>_ _ _ _. ret (Inr [])), pg_maintainer_projects = (\<lambda>_. ret (Inr [])),
      pg_count_companies = (\<lambda>_ _. ret (Inr 0)), pg_find_companies = (\<lambda>_ _ _ _. ret (Inr []))\<rparr>"

definition demo_page_request :: "nat \<Rightarrow> web_request" where
  "demo_page_request k = (demo_request ''GET'' ''/api/projects/recent'')
     \<lparr>wq_query := [(''sort'', [''name'']), (''direction'', [''asc'']), (''limit'', [''1'']),
        (''offset'', [if k = 0 then ''0'' else ''1''])]\<rparr>"

text \<open>An insertion sort stands for \<^verbatim>\<open>sort.Slice\<close>.\<close>

fun put_before :: "('a \<Rightarrow> 'a \<Rightarrow> bool) \<Rightarrow> 'a \<Rightarrow> 'a list \<Rightarrow> 'a list" where
  "put_before lt x [] = [x]"
| "put_before lt x (y # ys) = (if lt y x then y # put_before lt x ys else x # y # ys)"

definition sort_by :: "('a \<Rightarrow> 'a \<Rightarrow> bool) \<Rightarrow> 'a list \<Rightarrow> 'a list" where
  "sort_by lt xs = foldr (put_before lt) xs []"

lemma mset_sort_by: "mset (sort_by lt xs) = mset xs"
proof -
  have "mset (put_before lt x ys) = add_mset x (mset ys)" for x ys by (induction ys) simp_all
  then show ?thesis by (induction xs) (simp_all add: sort_by_def)
qed

lemma demo_page_params:
  assumes "k < 2"
  shows "wq_method (demo_page_request k) = ''GET'' \<and>
       to_lower (trim_space (query_get (demo_page_request k) ''sort'')) = ''name'' \<and>
       to_lower (trim_space (query_get (demo_page_request k) ''direction'')) = ''asc'' \<and>
       parse_int_param (demo_page_request k) ''limit'' 10 1 50 = int 1 \<and>
       parse_int_param (demo_page_request k) ''offset'' 0 0 10000000 = int (k * 1)"
proof -
  have "k = 0 \<or> k = 1" using assms by auto
  moreover have "?thesis" if "k = 0" unfolding that by code_simp
  moreover have "?thesis" if "k = 1" unfolding that by code_simp
  ultimately show ?thesis by blast
qed

lemma demo_queries_calls:
  "lq_count_projects demo_queries c = ret (Inr 2)" "lq_recent_rows demo_queries c = ret (Inr demo_rows)"
  "\<exists>ps. lq_projects_by_id demo_queries ids = ret (Inr ps) \<and> set ids \<subseteq> row_id ` set ps"
proof -
  have "row_id (with_associations [] [] (demo_project i ''p'' Sandbox)) = i" for i
    by (simp add: with_associations_def demo_project_def project.extend_def zero_project_def)
  then show "\<exists>ps. lq_projects_by_id demo_queries ids = ret (Inr ps) \<and> set ids \<subseteq> row_id ` set ps"
    by (intro exI[of _ "map (\<lambda>i. with_associations [] [] (demo_project i ''p'' Sandbox)) ids"])
      (simp add: demo_queries_def image_image)
qed (simp_all add: demo_queries_def)


section \<open>Who added a project\<close>

text \<open>
  The label of a project is that of the first of its records in the order of the query, the
  newest first; later records of the project, and records without a project, have no say, and a
  project without a record has no label.
\<close>

theorem added_by_first_record:
  "map_of (added_by audits) p =
     map_option added_by_label (find (\<lambda>a. al_project_id (fst a) = Some p) audits)"
proof -
  have put: "map_of (map_put q v m) p = (if p = q then Some v else map_of m p)"
    for q v and m :: "(nat, string) gomap"
    by (induction m) auto
  have "map_of (foldl (\<lambda>m a. case al_project_id (fst a) of
              None \<Rightarrow> m
            | Some p \<Rightarrow> if map_of m p \<noteq> None then m else map_put p (added_by_label a) m) m audits) p =
     (case map_of m p of Some v \<Rightarrow> Some v
      | None \<Rightarrow> map_option added_by_label (find (\<lambda>a. al_project_id (fst a) = Some p) audits))" for m
  proof (induction audits arbitrary: m)
    case (Cons a audits)
    then show ?case
      by (cases "al_project_id (fst a)") (auto simp: put split: option.split)
  qed (simp split: option.split)
  from this[of "[]"] show ?thesis by (simp add: added_by_def)
qed

section \<open>Who may read\<close>

text \<open>
  The audit log and the search, which shows e-mail addresses, answer only the staff: any other
  request ends with an error status before a query is made, whatever its method and parameters.
\<close>

theorem audit_and_search_answer_staff_only:
  assumes "\<not> is_staff_session sess"
  shows "refuses (handle_audit Q sess r) w \<and> refuses (handle_search Q sess r) w"
  using assms by (auto simp: refuses_def handle_audit_def handle_search_def just_status_def)

theorem audit_and_search_answer_staff_only_witness:
  "refuses (handle_search demo_queries (Some (demo_session ''bob-x'' role_maintainer))
     (demo_request ''GET'' ''/api/search'')) demo_world"
proof -
  have "\<not> is_staff_session (Some (demo_session ''bob-x'' role_maintainer))"
    by (simp add: demo_session_def is_staff_session_def)
  then show ?thesis by (rule audit_and_search_answer_staff_only[THEN conjunct2])
qed

text \<open>
  A query of separators only: its compact form is empty, and the pattern on company names matches
  every name.
\<close>

lemma separators_match_every_company:
  assumes "set query \<subseteq> {CHR '' '', CHR ''-'', CHR ''_''}" and "query \<noteq> []"
  shows "\<exists>ps. project_clauses [] [] query = [Any_Like ps] \<and>
    (''REPLACE(REPLACE(REPLACE(LOWER(comp.name)))'', ''%%'') \<in> set ps"
proof -
  have "to_lower query = query" using assms(1) unfolding to_lower_def by (intro map_idI) (auto simp: lower_char_def is_upper_def dest!: subsetD)
  moreover have "compact query = []" using assms(1) by (auto simp: compact_def filter_empty_conv)
  ultimately show ?thesis using assms(2) by (simp add: project_clauses_def like_any_def Let_def)
qed

end
