(* ===== verification/Store_History.thy ===== *)
theory Store_History
  imports Store_Laws "HOL-Library.Sublist"
begin

text \<open>
  What the calls of \<open>Sql_Store\<close> never take away: the audit log is only added to, no maintainer and
  no project disappears or changes its id, a project keeps its name, and the tables of the staff and
  of the services stay as they are.  The relation \<open>grows\<close> between the tables before and after says
  so; it is kept by every call the web server makes.
\<close>

section \<open>The relation\<close>

text \<open>The tables the store calls of the web server never write.\<close>

definition static_tables :: "tables \<Rightarrow> tables" where
  "static_tables d = d\<lparr>tb_companies := [], tb_projects := [], tb_maintainers := [], tb_maintainer_projects := [],
                       tb_audit_logs := []\<rparr>"

definition grows :: "tables \<Rightarrow> tables \<Rightarrow> bool" where
  "grows d d' \<longleftrightarrow> static_tables d' = static_tables d \<and> prefix (tb_audit_logs d) (tb_audit_logs d') \<and>
     prefix (map row_id (tb_maintainers d)) (map row_id (tb_maintainers d')) \<and>
     prefix (map (\<lambda>p. (row_id p, pr_name p)) (tb_projects d)) (map (\<lambda>p. (row_id p, pr_name p)) (tb_projects d'))"

lemma grows_refl [simp]: "grows d d"
  by (simp add: grows_def)

lemma grows_trans: "grows a b \<Longrightarrow> grows b c \<Longrightarrow> grows a c"
  by (auto simp: grows_def intro: prefix_order.trans)

lemma grows_staff: "grows d d' \<Longrightarrow> tb_staff d' = tb_staff d"
  unfolding grows_def static_tables_def by (metis (no_types, lifting) tables.ext_inject tables.surjective tables.update_convs(1-4,11))

lemma grows_changes [simp]:
  "grows d (d\<lparr>tb_companies := cs\<rparr>)" "grows d (d\<lparr>tb_maintainer_projects := ls\<rparr>)"
  "grows d (d\<lparr>tb_audit_logs := tb_audit_logs d @ as\<rparr>)" "grows d (d\<lparr>tb_maintainers := tb_maintainers d @ ms\<rparr>)"
  "grows d (d\<lparr>tb_projects := tb_projects d @ ps\<rparr>)"
  by (simp_all add: grows_def static_tables_def)

lemma grows_updates:
  "(\<And>m. row_id (f m) = row_id m) \<Longrightarrow> grows d (d\<lparr>tb_maintainers := map (\<lambda>m. if P m then f m else m) (tb_maintainers d)\<rparr>)"
  "(\<And>p. row_id (g p) = row_id p \<and> pr_name (g p) = pr_name p) \<Longrightarrow>
   grows d (d\<lparr>tb_projects := map (\<lambda>p. if P' p then g p else p) (tb_projects d)\<rparr>)"
proof -
  assume "\<And>m. row_id (f m) = row_id m"
  then have "row_id \<circ> (\<lambda>m. if P m then f m else m) = row_id" by auto
  then show "grows d (d\<lparr>tb_maintainers := map (\<lambda>m. if P m then f m else m) (tb_maintainers d)\<rparr>)"
    by (simp add: grows_def static_tables_def)
next
  assume "\<And>p. row_id (g p) = row_id p \<and> pr_name (g p) = pr_name p"
  then have "(\<lambda>p. (row_id p, pr_name p)) \<circ> (\<lambda>p. if P' p then g p else p) = (\<lambda>p. (row_id p, pr_name p))" by auto
  then show "grows d (d\<lparr>tb_projects := map (\<lambda>p. if P' p then g p else p) (tb_projects d)\<rparr>)"
    by (simp add: grows_def static_tables_def)
qed

section \<open>Kept by the calls\<close>

lemma pr_name_stamp [simp]: "pr_name (stamp t p) = pr_name p"
  by (simp add: stamp_def)

context gorm_db
begin

abbreviation growing :: "'w \<Rightarrow> 'w \<Rightarrow> bool" where "growing w w' \<equiv> grows (cur (tabs w)) (cur (tabs w'))"

lemma rel_growing: "reflp growing" "transp growing"
  by (auto intro: reflpI transpI grows_trans)

lemma growing_reads: "keeps (\<lambda>w w'. tabs w' = tabs w) m \<Longrightarrow> keeps growing m"
  by (auto simp: keeps_def)

text \<open>A call that changes the tables in one way if it succeeds, and not at all if it fails.\<close>

lemma growing_call:
  assumes "\<And>w x w'. run_state m w = (Inr x, w') \<Longrightarrow> grows (cur (tabs w)) (cur (tabs w'))"
    and "\<And>w e w'. run_state m w = (Inl e, w') \<Longrightarrow> tabs w' = tabs w"
  shows "keeps growing m"
proof (rule keepsI)
  fix w x w'
  assume "run_state m w = (x, w')"
  then show "growing w w'" using assms[of w _ w'] by (cases x) auto
qed

lemma growing_writes:
  "keeps growing (t_create (companies G) c)" "keeps growing (t_delete (companies G) pc)"
  "keeps growing (t_create (maintainers G) m)" "keeps growing (t_create (projects G) p)"
  "keeps growing (t_create (audit_logs G) a)" "keeps growing (append_project G i j)"
proof -
  show "keeps growing (t_create (companies G) c)" by (rule growing_call) (auto dest!: co.create_Ok co.create_Err)
  show "keeps growing (t_delete (companies G) pc)" by (rule growing_call) (auto dest!: co.delete_Ok co.delete_Err)
  show "keeps growing (t_create (maintainers G) m)" by (rule growing_call) (auto dest!: mt.create_Ok mt.create_Err)
  show "keeps growing (t_create (projects G) p)" by (rule growing_call) (auto dest!: pr.create_Ok pr.create_Err)
  show "keeps growing (t_create (audit_logs G) a)" by (rule growing_call) (auto dest!: al.create_Ok al.create_Err)
  show "keeps growing (append_project G i j)" by (rule growing_call) (auto dest!: append_project_Ok append_project_Err)
qed

lemma growing_update_maintainers:
  assumes "\<And>m. row_id (f m) = row_id m"
  shows "keeps growing (t_update (maintainers G) P f)"
  by (rule growing_call) (auto dest!: mt.update_Ok mt.update_Err simp: assms intro!: grows_updates)

lemma growing_update_projects:
  assumes "\<And>p. row_id (f p) = row_id p \<and> pr_name (f p) = pr_name p"
  shows "keeps growing (t_update (projects G) P f)"
  by (rule growing_call) (auto dest!: pr.update_Ok pr.update_Err simp: assms intro!: grows_updates)

lemma growing_queries:
  "keeps growing (t_first (companies G) pc)" "keeps growing (t_first (projects G) pp)"
  "keeps growing (t_first (maintainers G) pm)" "keeps growing (load_company G m)" "keeps growing (load_projects G i)"
  by (auto intro!: keepsI dest: reads_tabs load_tabs)

lemmas growing_intros =
  growing_queries growing_writes growing_update_maintainers growing_update_projects
  keeps_try[OF rel_growing(2) rel_growing(1)] keeps_bind[OF rel_growing(2)] keeps_ret[OF rel_growing(1)]

lemma growing_project_updates:
  "keeps growing (update_project_legacy_maintainer_ref G i u)" "keeps growing (update_project_maturity G i m)"
  by (auto simp: update_project_legacy_maintainer_ref_def update_project_maturity_def sql_argument_def
      split: sum.split intro!: growing_intros)

lemma growing_create_company: "keeps growing (create_company G n)"
  by (auto simp: create_company_def Let_def split: sum.split intro!: growing_intros)

lemma growing_statuses: "keeps growing (update_maintainers_status G ids s)"
  by (auto simp: update_maintainers_status_def intro!: growing_intros)

lemma growing_details: "keeps growing (update_maintainer_details G i n e h s c)"
  by (auto simp: update_maintainer_details_def split: option.split intro!: growing_intros)

lemma growing_upsert_body: "keeps growing (upsert_body G i n e h c)"
  by (auto simp: upsert_body_def upsert_company_def maintainer_or_zero_def first_or_create_def
      split: sum.split intro!: growing_intros)

lemma growing_upsert: "keeps growing (upsert_maintainer G i n e h co)"
proof (rule keepsI)
  fix w x w'
  assume "run_state (upsert_maintainer G i n e h co) w = (x, w')"
  then show "growing w w'"
  proof (cases rule: upsert_maintainer_cases)
    case (finished w1 w2 w3 m c)
    have "growing w1 w2" by (rule keepsD[OF growing_upsert_body finished(2)])
    moreover have "growing w3 w'" by (rule keepsD[OF growing_details finished(4)[unfolded upsert_finish_def]])
    ultimately show ?thesis using finished(1,3) by (auto intro: grows_trans)
  qed simp
qed

lemma growing_merge: "keeps growing (merge_companies G a b)"
proof (rule keepsI)
  fix w x w'
  assume r: "run_state (merge_companies G a b) w = (x, w')"
  show "growing w w'"
  proof (cases x)
    case (Inl e)
    then show ?thesis using merge_companies_Err r by simp
  next
    case (Inr u)
    note ok = merge_companies_Ok[OF r[unfolded Inr]]
    obtain t where m: "tb_maintainers (cur (tabs w')) =
      map (\<lambda>m. if mt_company_id m = Some a then stamp t (m\<lparr>mt_company_id := Some b\<rparr>) else m)
        (tb_maintainers (cur (tabs w)))" using ok by blast
    have "cur (tabs w') = (cur (tabs w))\<lparr>tb_maintainers := tb_maintainers (cur (tabs w')),
                                   tb_companies := tb_companies (cur (tabs w'))\<rparr>" using ok by blast
    then have e: "cur (tabs w') = ((cur (tabs w))\<lparr>tb_maintainers := map (\<lambda>m. if mt_company_id m = Some a
        then stamp t (m\<lparr>mt_company_id := Some b\<rparr>) else m) (tb_maintainers (cur (tabs w)))\<rparr>)
        \<lparr>tb_companies := tb_companies (cur (tabs w'))\<rparr>" unfolding m by simp
    have "grows (cur (tabs w)) ((cur (tabs w))\<lparr>tb_maintainers := map (\<lambda>m. if mt_company_id m = Some a
        then stamp t (m\<lparr>mt_company_id := Some b\<rparr>) else m) (tb_maintainers (cur (tabs w)))\<rparr>)"
      by (rule grows_updates(1)) simp
    then show ?thesis by (subst e) (rule grows_trans[OF _ grows_changes(1)])
  qed
qed

end

end
