(* ===== verification/Bff_Process_Laws.thy ===== *)
theory Bff_Process_Laws
  imports Bff_Process Bff_Lists_Laws Store_History
begin

text \<open>
  What the web server promises as a whole: over any sequence of requests, whatever their paths,
  methods, cookies and bodies.  A relation between the tables before and after that the writing
  calls of the store keep is kept by every request; a request without a session of the staff
  does no more than a company and an edit of the caller's own row; sessions only come from a login.
\<close>

section \<open>What a caller without a session of the staff may do\<close>

text \<open>
  The row \<open>m\<close> after an edit by the maintainer whose handle a row with its id carries: name and status
  stay those of the row.
\<close>

definition own_edit :: "session option \<Rightarrow> maintainer list \<Rightarrow> maintainer \<Rightarrow> maintainer \<Rightarrow> bool" where
  "own_edit who ms m m' \<longleftrightarrow>
     (\<exists>s. who = Some s \<and> se_role s = role_maintainer \<and> row_id m' = row_id m \<and>
        (\<exists>q \<in> set ms. row_id q = row_id m \<and> equal_fold (mt_github q) (se_login s)) \<and>
        (\<exists>b \<in> set ms. row_id b = row_id m \<and> mt_name m' = trim_space (mt_name b) \<and> mt_status m' = mt_status b))"

text \<open>New companies, for a maintainer only; edits of the own row; nothing else but audit records.\<close>

definition limited :: "session option \<Rightarrow> tables \<Rightarrow> tables \<Rightarrow> bool" where
  "limited who d d' \<longleftrightarrow> static_tables d' = static_tables d \<and> tb_projects d' = tb_projects d \<and>
     tb_maintainer_projects d' = tb_maintainer_projects d \<and>
     (\<exists>cs. tb_companies d' = tb_companies d @ cs \<and> (cs \<noteq> [] \<longrightarrow> (\<exists>s. who = Some s \<and> se_role s = role_maintainer))) \<and>
     list_all2 (\<lambda>m m'. m' = m \<or> own_edit who (tb_maintainers d) m m') (tb_maintainers d) (tb_maintainers d')"

lemma limited_refl [simp]: "limited who d d"
  by (simp add: limited_def list_all2_refl)

lemma static_rows [simp]: "static_tables (rows d) = static_tables (cur d)"
  by (simp add: rows_def static_tables_def)

lemma limited_rows: "limited who (rows d) (rows d') \<longleftrightarrow> limited who (cur d) (cur d')"
  by (simp add: limited_def) (simp add: rows_def)

text \<open>A session with the role \<^verbatim>\<open>authorizeLogin\<close> gives its account by the table of the staff.\<close>

definition admitted :: "tables \<Rightarrow> session \<Rightarrow> bool" where
  "admitted d s \<longleftrightarrow> se_role s \<in> {role_staff, role_maintainer} \<and>
     (se_role s = role_staff \<longleftrightarrow> (\<exists>x \<in> set (tb_staff d). equal_fold (sm_github x) (se_login s)))"

section \<open>Queries that read\<close>

abbreviation leaves :: "('w \<Rightarrow> db) \<Rightarrow> ('w, 'a) io \<Rightarrow> bool" where
  "leaves tabs m \<equiv> keeps (\<lambda>w w'. tabs w' = tabs w) m"

definition quiet_queries :: "('w \<Rightarrow> db) \<Rightarrow> 'w list_queries \<Rightarrow> bool" where
  "quiet_queries tabs Q \<longleftrightarrow>
     (\<forall>cs s s' a b is. leaves tabs (lq_count_projects Q cs) \<and> leaves tabs (lq_project_ids Q cs s a b) \<and>
        leaves tabs (lq_projects_by_id Q is) \<and> leaves tabs (lq_recent_rows Q cs) \<and>
        leaves tabs (lq_created_audits Q is) \<and> leaves tabs (lq_count_audits Q) \<and> leaves tabs (lq_audits Q a b) \<and>
        leaves tabs (lq_find_projects Q cs a b) \<and> leaves tabs (lq_count_maintainers Q cs) \<and>
        leaves tabs (lq_find_maintainers Q cs a b) \<and> leaves tabs (lq_count_companies Q cs) \<and>
        leaves tabs (lq_find_companies Q cs a b) \<and> leaves tabs (pg_count_projects Q s) \<and>
        leaves tabs (pg_find_projects Q s a b) \<and> leaves tabs (pg_count_maintainers Q s s') \<and>
        leaves tabs (pg_find_maintainers Q s s' a b) \<and> leaves tabs (pg_maintainer_projects Q is) \<and>
        leaves tabs (pg_count_companies Q s s') \<and> leaves tabs (pg_find_companies Q s s' a b))"

locale bff_world = bff_outside "sr_gorm S" tabs "sr_env S" for S :: "'w bff_server" and tabs :: "'w \<Rightarrow> db" +
  assumes login_calls: "leaves tabs (en_random_token (sr_env S) n)" "leaves tabs (en_exchange (sr_env S) c)"
      "leaves tabs (en_github_login (sr_env S) tok)"
    and queries: "quiet_queries tabs (sr_queries S)"
    and counts: "leaves tabs (sr_counts S)"
    and fetcher: "sr_fetcher S = Some f \<Longrightarrow> leaves tabs f"
begin

abbreviation "G \<equiv> sr_gorm S"
abbreviation "E \<equiv> sr_env S"
abbreviation "Q \<equiv> sr_queries S"

lemma env_calls:
  "leaves tabs (en_now E)" "leaves tabs (en_issue_title E a b n)" "leaves tabs (en_issues_page E p)"
  "leaves tabs (en_http_get E u)"
  by (auto intro!: keepsI dest: now_tabs title_tabs page_tabs get_tabs)

lemma query_calls:
  "leaves tabs (lq_count_projects Q cs)" "leaves tabs (lq_project_ids Q cs s a b)"
  "leaves tabs (lq_projects_by_id Q is)" "leaves tabs (lq_recent_rows Q cs)" "leaves tabs (lq_created_audits Q is)"
  "leaves tabs (lq_count_audits Q)" "leaves tabs (lq_audits Q a b)" "leaves tabs (lq_find_projects Q cs a b)"
  "leaves tabs (lq_count_maintainers Q cs)" "leaves tabs (lq_find_maintainers Q cs a b)"
  "leaves tabs (lq_count_companies Q cs)" "leaves tabs (lq_find_companies Q cs a b)"
  "leaves tabs (pg_count_projects Q s)" "leaves tabs (pg_find_projects Q s a b)"
  "leaves tabs (pg_count_maintainers Q s s')" "leaves tabs (pg_find_maintainers Q s s' a b)"
  "leaves tabs (pg_maintainer_projects Q is)" "leaves tabs (pg_count_companies Q s s')"
  "leaves tabs (pg_find_companies Q s s' a b)"
  using queries unfolding quiet_queries_def by blast+

lemma reads_or_fail: "leaves tabs m \<Longrightarrow> (\<And>x. leaves tabs (k x)) \<Longrightarrow> leaves tabs (or_fail msg m k)"
  by (auto simp: or_fail_def split: sum.split intro!: reads_intros)

lemmas quiet_intros = reads_intros env_calls query_calls login_calls counts reads_or_fail reads_helpers reads_staff
  reads_maintainer_helpers

lemma reads_search: "leaves tabs (handle_search Q sess r)"
  by (auto simp: handle_search_def handle_search_postgres_def handle_search_fallback_def Let_def intro!: quiet_intros)

lemma reads_audit: "leaves tabs (handle_audit Q sess r)"
  by (auto simp: handle_audit_def Let_def intro!: quiet_intros)

lemma reads_projects_list: "leaves tabs (projects_list Q r)"
  by (auto simp: projects_list_def Let_def intro!: quiet_intros)

lemma reads_me: "leaves tabs (handle_me G sess)"
  by (auto simp: handle_me_def Let_def split: option.split intro!: quiet_intros)

lemma reads_last_update: "leaves tabs (last_update G i)"
  by (auto simp: last_update_def split: sum.split option.split intro!: quiet_intros)

lemma reads_fetch_ref: "leaves tabs (fetch_maintainer_ref E u)"
  by (auto simp: fetch_maintainer_ref_def split: sum.split intro!: quiet_intros)

lemma reads_look_at_ref: "leaves tabs (look_at_ref E p)"
  by (auto simp: look_at_ref_def Let_def split: sum.split intro!: quiet_intros reads_fetch_ref)

lemma reads_project_get: "leaves tabs (handle_project_get E G sess r)"
  by (auto simp: handle_project_get_def split: sum.split option.split prod.split
      intro!: quiet_intros reads_look_at_ref reads_last_update)

lemma reads_filter_issues: "leaves tabs (filter_issues G is)"
  by (induction "is") (auto intro!: quiet_intros)

lemma reads_fetch_and_filter: "sr_fetcher S = Some f \<Longrightarrow> leaves tabs (fetch_and_filter_onboarding_issues f (Some G))"
  by (auto simp: fetch_and_filter_onboarding_issues_def intro!: quiet_intros reads_filter_issues fetcher)

lemma reads_issues:
  "leaves tabs (get_onboarding_issues E (sr_fetcher S) (Some G) c)"
  "leaves tabs (get_onboarding_issues_raw E (sr_fetcher S) (Some G) c)"
  by (auto simp: get_onboarding_issues_def get_onboarding_issues_raw_def split: option.split
      intro!: quiet_intros reads_fetch_and_filter)

lemma reads_onboarding_issues: "leaves tabs (handle_onboarding_issues cf E (sr_fetcher S) (Some G) sess r c)"
  by (auto simp: handle_onboarding_issues_def split: prod.split intro!: quiet_intros reads_issues)

lemma reads_resolve: "leaves tabs (handle_resolve_onboarding cf E sess r q)"
  by (auto simp: handle_resolve_onboarding_def Let_def split: option.split sum.split intro!: quiet_intros)

lemma reads_recent_page: "leaves tabs (recent_page E (sr_fetcher S) (Some G) Q fmt n ids c)"
  by (auto simp: recent_page_def split: sum.split prod.split intro!: quiet_intros reads_issues)

lemma reads_recent: "leaves tabs (handle_recent_projects srt E (sr_fetcher S) (Some G) Q fmt sess r c)"
  by (auto simp: handle_recent_projects_def Let_def split: option.split sum.split go.split
      intro!: quiet_intros reads_recent_page)

lemma reads_preload: "leaves tabs (preload_projects G ms)"
  by (induction ms) (auto intro!: quiet_intros)

lemma reads_company: "leaves tabs (handle_company G by_name sess r)"
  by (auto simp: handle_company_def split: sum.split intro!: quiet_intros reads_preload)

lemma reads_companies_get: "leaves tabs (companies_get G (sr_counts S) r)"
  by (auto simp: companies_get_def list_companies_def split: sum.split intro!: quiet_intros)

lemma reads_authorize: "leaves tabs (authorize_login G l)"
proof -
  have s: "leaves tabs (t_find (staff_members G) P)" "leaves tabs (t_find (foundations G) P')" for P P'
    by (auto intro!: keepsI dest: reads_tabs)
  have f: "leaves tabs (preload_foundations G ss)" for ss
    by (induction ss) (auto intro!: quiet_intros s split: option.split)
  have c: "leaves tabs (preload_companies G ms)" for ms
    by (induction ms) (auto intro!: quiet_intros)
  show ?thesis
    by (auto simp: authorize_login_def list_staff_members_def get_maintainer_map_by_github_def split: sum.split
        intro!: quiet_intros f c s)
qed

lemma reads_create_session: "leaves tabs (create_session cf E l role b)"
  by (auto simp: create_session_def intro!: quiet_intros)

lemma reads_login: "leaves tabs (handle_login cf E r b)"
  by (auto simp: handle_login_def Let_def split: sum.split intro!: quiet_intros)

lemma reads_finish_login: "leaves tabs (finish_login cf E G code e b)"
  by (auto simp: finish_login_def Let_def split: sum.split option.split
      intro!: quiet_intros reads_authorize reads_create_session)

lemma reads_callback: "leaves tabs (handle_callback cf E G r b)"
  by (auto simp: handle_callback_def Let_def split: option.split prod.split intro!: quiet_intros reads_finish_login)

lemma reads_test_login: "leaves tabs (handle_test_login cf E G r b)"
  by (auto simp: handle_test_login_def Let_def split: option.split
      intro!: quiet_intros reads_authorize reads_create_session)


section \<open>Handlers that write\<close>

text \<open>Good rows stay good, and nothing is taken away.\<close>

abbreviation sound :: "'w \<Rightarrow> 'w \<Rightarrow> bool" where
  "sound w w' \<equiv> (valid_rows (cur (tabs w)) \<longrightarrow> valid_rows (cur (tabs w'))) \<and> grows (cur (tabs w)) (cur (tabs w'))"

lemma rel_sound: "reflp sound" "transp sound"
  by (auto intro!: reflpI transpI intro: grows_trans)

lemma sound_reads: "leaves tabs m \<Longrightarrow> keeps sound m"
  by (auto simp: keeps_def)

lemma soundI: "keeps keeps_valid m \<Longrightarrow> keeps growing m \<Longrightarrow> keeps sound m"
  by (auto simp: keeps_def)

lemma sound_store:
  "keeps sound (update_project_legacy_maintainer_ref G i u)" "keeps sound (update_project_maturity G i m)"
  "keeps sound (create_company G n)" "keeps sound (update_maintainers_status G ids st)"
  "keeps sound (update_maintainer_details G i n e h st c)" "keeps sound (upsert_maintainer G i n e h co)"
  "keeps sound (merge_companies G a b)" "keeps sound (t_create (audit_logs G) ev)"
proof -
  have v: "(\<And>w x w'. run_state m w = (x, w') \<Longrightarrow> store_step G w w') \<Longrightarrow> keeps keeps_valid m" for m :: "('w, 'b) io"
    by (intro keepsI store_step_valid)
  show "keeps sound (update_project_legacy_maintainer_ref G i u)"
    by (intro soundI v growing_project_updates) (rule store_step.legacy_ref)
  show "keeps sound (update_project_maturity G i m)"
    by (intro soundI v growing_project_updates) (rule store_step.maturity)
  show "keeps sound (create_company G n)" by (intro soundI v growing_create_company) (rule store_step.company)
  show "keeps sound (update_maintainers_status G ids st)" by (intro soundI v growing_statuses) (rule store_step.statuses)
  show "keeps sound (update_maintainer_details G i n e h st c)"
    by (intro soundI valid_update_maintainer_details growing_details)
  show "keeps sound (upsert_maintainer G i n e h co)" by (intro soundI valid_upsert_maintainer growing_upsert)
  show "keeps sound (merge_companies G a b)" by (intro soundI valid_merge_companies growing_merge)
  show "keeps sound (t_create (audit_logs G) ev)" by (intro soundI valid_create_audit growing_writes)
qed

lemma sound_create_project:
  assumes "maturity_is_valid (pr_maturity p)"
  shows "keeps sound (t_create (projects G) p)"
proof (rule soundI)
  show "keeps keeps_valid (t_create (projects G) p)"
  proof (intro keepsI impI)
    fix w x w'
    assume r: "run_state (t_create (projects G) p) w = (x, w')" and v: "valid_rows (cur (tabs w))"
    show "valid_rows (cur (tabs w'))"
    proof (cases x)
      case (Inl e)
      then show ?thesis using pr.create_Err r v by simp
    next
      case (Inr y)
      have c: "chosen y = chosen p" "tabs w' = put_projects (tb_projects (cur (tabs w)) @ [y]) (tabs w)"
        using pr.create_Ok[OF r[unfolded Inr]] by blast+
      have "pr_maturity y = pr_maturity p" using chosen_project_fields[OF c(1)] by blast
      then show ?thesis using c(2) v assms by (simp add: valid_rows_def)
    qed
  qed
qed (rule growing_writes)

lemmas sound_intros =
  sound_store keeps_bind[OF rel_sound(2)] keeps_try[OF rel_sound(2) rel_sound(1)] keeps_ret[OF rel_sound(1)]

lemmas sound_reading =
  reads_helpers[THEN sound_reads] reads_staff[THEN sound_reads] reads_maintainer_helpers[THEN sound_reads]
  reads_added_changes[THEN sound_reads] reads_calls[THEN sound_reads] env_calls[THEN sound_reads]

lemma sound_write_audit: "keeps sound (write_audit G ev)"
  by (auto simp: write_audit_def intro!: sound_intros)

lemma sound_project_updates:
  "keeps sound (handle_project_maturity_update G sess r req)"
  "keeps sound (handle_project_maintainer_ref_update G sess r req)"
  by (auto simp: handle_project_maturity_update_def handle_project_maintainer_ref_update_def Let_def
      split: sum.split option.split prod.split intro!: sound_intros sound_reading sound_write_audit)

lemma sound_project: "keeps sound (handle_project E G sess r req)"
  by (auto simp: handle_project_def intro!: sound_project_updates sound_reads[OF reads_project_get])

lemma sound_store_new_project:
  assumes "maturity_is_valid m"
  shows "keeps sound (store_new_project G s q n org m)"
  using assms
  by (auto simp: store_new_project_def Let_def sql_argument_def split: sum.split
      intro!: sound_intros sound_reading sound_write_audit sound_create_project)

lemma sound_project_create: "keeps sound (handle_project_create cf E G sess r req)"
  by (auto simp: handle_project_create_def create_named_project_def Let_def
      split: sum.split option.split prod.split
      intro!: sound_intros sound_reading sound_store_new_project[OF requested_maturity_valid])

lemma sound_projects:
  "keeps sound (handle_projects G Q (create_project_route z cf E G sess r req) sess r c)"
  by (auto simp: handle_projects_def create_project_route_def split: sum.split option.split prod.split
      intro!: sound_intros sound_reading sound_project_create sound_reads[OF reads_projects_list])

lemma sound_statuses: "keeps sound (handle_maintainer_status_update G sess r req)"
  by (auto simp: handle_maintainer_status_update_def Let_def split: option.split intro!: sound_intros)

lemma sound_from_ref: "keeps sound (handle_maintainer_from_ref G sess r req)"
  by (auto simp: handle_maintainer_from_ref_def added_audit_def Let_def split: option.split sum.split
      intro!: sound_intros sound_reading sound_write_audit)

lemma sound_maintainer: "keeps sound (handle_maintainer G sess r req)"
  by (auto simp: handle_maintainer_def maintainer_patch_def maintainer_edit_def maintainer_updated_def Let_def
      split: option.split sum.split prod.split
      intro!: sound_intros sound_reading sound_write_audit sound_reads[OF reads_maintainer_get])

lemma sound_merge: "keeps sound (handle_company_merge G sess r req)"
  by (auto simp: handle_company_merge_def split: option.split prod.split intro!: sound_intros)

lemma sound_companies: "keeps sound (handle_companies G (sr_counts S) sess r req)"
proof -
  have a: "keeps sound (company_actor G s)" for s
    by (auto simp: company_actor_def split: prod.split intro!: sound_intros sound_reading)
  show ?thesis
    by (auto simp: handle_companies_def companies_post_def split: option.split sum.split prod.split
        intro!: sound_intros sound_write_audit sound_reads[OF reads_companies_get] a)
qed

section \<open>Every request\<close>

text \<open>A call of a part of the process does to the tables what the call does.\<close>

definition proc_sound :: "('w, 'a) proc \<Rightarrow> bool" where
  "proc_sound m \<longleftrightarrow> keeps (\<lambda>x y. sound (fst x) (fst y)) m"

lemma proc_soundI:
  "keeps sound m \<Longrightarrow> proc_sound (on_world m)"
  "(\<And>b. keeps sound (h b)) \<Longrightarrow> proc_sound (on_bff h)"
  "(\<And>c. keeps sound (k c)) \<Longrightarrow> proc_sound (on_cache k)"
  "proc_sound (ret x)"
  unfolding proc_sound_def
  by (rule keepsI, clarsimp split: prod.splits, drule keepsD, assumption, simp)
    (rule keepsI, clarsimp split: prod.splits, drule meta_spec, drule keepsD, assumption, simp,
     rule keepsI, clarsimp split: prod.splits, drule meta_spec, drule keepsD, assumption, simp,
     rule keepsI, simp)

lemma recent_sound:
  "keeps sound (do { x \<leftarrow> handle_recent_projects srt E (sr_fetcher S) (Some G) Q fmt sess r c; ret (no_panic c x) })"
  by (intro sound_intros sound_reads[OF reads_recent])

lemma handlers_sound: "proc_sound (bff_handlers S body rt sess r)"
  by (cases rt)
    (simp_all only: bff_handlers.simps serve_health_def proc_soundI sound_reads reads_login reads_callback
      reads_test_login reads_me reads_search reads_audit reads_company reads_resolve reads_onboarding_issues
      sound_projects recent_sound sound_project sound_statuses sound_from_ref sound_maintainer sound_merge
      sound_companies keeps_ret[OF rel_sound(1)])

lemma request_sound:
  assumes "run_state (bff_request S r body) (w, p) = (rep, (w', p'))"
  shows "sound w w'"
  using assms
proof (cases rule: bff_request_cases)
  case (expired t)
  then show ?thesis using keepsD[OF env_calls(1)] by simp
next
  case (opened rt rep')
  then show ?thesis using keepsD[OF handlers_sound[unfolded proc_sound_def]] by fastforce
next
  case (inside t w1 s rt rep')
  have "sound w w1" using keepsD[OF env_calls(1) inside(2)] by simp
  moreover have "sound w1 w'" using keepsD[OF handlers_sound[unfolded proc_sound_def] inside(5)] by simp
  ultimately show ?thesis by (auto intro: grows_trans)
qed simp

lemma serves_sound: "serves S x y \<Longrightarrow> sound (fst x) (fst y)"
proof (induction rule: rtranclp_induct)
  case (step y z)
  obtain r body rep where "run_state (bff_request S r body) y = (rep, z)" using step(2) by (auto elim: servedE)
  then have "sound (fst y) (fst z)" using request_sound by (metis prod.collapse)
  then show ?case using step(3) by (auto intro: grows_trans)
qed simp


section \<open>Callers that are not of the staff\<close>

lemma maintainer_limited:
  assumes "se_role s \<noteq> role_staff" and "run_state (handle_maintainer G (Some s) r req) w = (rep, w')"
  shows "limited (Some s) (cur (tabs w)) (cur (tabs w'))"
proof (cases "se_role s = role_maintainer")
  case False
  have "leaves tabs (handle_maintainer G (Some s) r req)"
    using False assms(1)
    by (auto simp: handle_maintainer_def requester_of_def split: sum.split intro!: quiet_intros)
  from keepsD[OF this assms(2)] show ?thesis by simp
next
  case True
  from handle_maintainer_self[OF True assms(2)] show ?thesis
  proof (elim disjE exE conjE)
    assume "rows (tabs w') = rows (tabs w)"
    then show ?thesis by (metis limited_rows limited_refl)
  next
    fix i q w1
    assume q: "q \<in> set (tb_maintainers (cur (tabs w)))" "row_id q = i" "equal_fold (mt_github q) (se_login s)"
      and t: "tabs w1 = tabs w" and e: "run_state (maintainer_edit G s True i req) w1 = (rep, w')"
    from maintainer_edit_self[OF e] show ?thesis unfolding t
    proof (elim disjE exE conjE)
      assume "rows (tabs w') = rows (tabs w)"
      then show ?thesis by (metis limited_rows limited_refl)
    next
      fix b :: maintainer and em ti c
      let ?f = "\<lambda>m. stamp ti (m\<lparr>mt_name := trim_space (mt_name b), mt_email := normalize_or_sentinel em EMAIL_MISSING,
               mt_github := normalize_or_sentinel (mt_github b) GITHUB_MISSING,
               mt_status := mt_status b, mt_company_id := c\<rparr>) :: maintainer"
      assume b: "b \<in> set (tb_maintainers (cur (tabs w)))" "row_id b = i"
        and rw: "rows (tabs w') = (rows (tabs w))\<lparr>tb_maintainers :=
            map (\<lambda>m. if row_id m = i then ?f m else m) (tb_maintainers (cur (tabs w)))\<rparr>"
      have "own_edit (Some s) (tb_maintainers (cur (tabs w))) m (?f m)" if "row_id m = i" for m
        using True q b that by (auto simp: own_edit_def stamp_def)
      then have "list_all2 (\<lambda>m m'. m' = m \<or> own_edit (Some s) (tb_maintainers (cur (tabs w))) m m')
          (tb_maintainers (cur (tabs w))) (map (\<lambda>m. if row_id m = i then ?f m else m) (tb_maintainers (cur (tabs w))))"
        by (auto simp: list_all2_map2 intro!: list.rel_refl_strong)
      then have "limited (Some s) (rows (tabs w)) (rows (tabs w'))"
        unfolding limited_def rw by (simp add: static_tables_def)
      then show ?thesis by (simp add: limited_rows)
    qed
  qed
qed

lemma companies_limited:
  assumes "\<not> is_staff_session sess" and "run_state (handle_companies G (sr_counts S) sess r req) w = (rep, w')"
  shows "limited sess (cur (tabs w)) (cur (tabs w'))"
proof (cases "\<exists>s n. sess = Some s \<and> se_role s = role_maintainer \<and> wq_method r = ''POST'' \<and> req = Some n")
  case False
  have "leaves tabs (handle_companies G (sr_counts S) sess r req)"
    using False assms(1)
    by (auto simp: handle_companies_def companies_post_def split: option.split
        intro!: quiet_intros reads_companies_get)
  from keepsD[OF this assms(2)] show ?thesis by simp
next
  case True
  then obtain s n where s: "sess = Some s" "se_role s = role_maintainer" "req = Some n" "wq_method r = ''POST''" by blast
  obtain x w1 where c: "run_state (create_company G n) w = (x, w1)" by (metis prod.collapse)
  show ?thesis
  proof (cases x)
    case (Inl e)
    then show ?thesis using assms(2) s c create_company_Err[OF c[unfolded Inl]]
      by (simp add: handle_companies_def companies_post_def)
  next
    case (Inr co)
    note ok = create_company_Ok[OF c[unfolded Inr]]
    have a: "leaves tabs (company_actor G s)" by (auto simp: company_actor_def split: prod.split intro!: quiet_intros)
    obtain y w2 where y: "run_state (company_actor G s) w1 = (y, w2)" by (metis prod.collapse)
    have "same_rows w2 w'"
      using assms(2) s c Inr y by (auto simp: handle_companies_def companies_post_def split: prod.splits
          dest: keepsD[OF rows_write_audit])
    then have "rows (tabs w') = (rows (tabs w))\<lparr>tb_companies := tb_companies (cur (tabs w)) @ [co]\<rparr>"
      using keepsD[OF a y] ok by (simp add: rows_def)
    then have "limited sess (rows (tabs w)) (rows (tabs w'))"
      using s by (simp add: limited_def static_tables_def list_all2_refl)
    then show ?thesis by (simp add: limited_rows)
  qed
qed

lemma projects_refuse:
  assumes "\<not> is_staff_session sess"
  shows "leaves tabs (handle_projects G Q (create_project_route z cf E G sess r req) sess r c)"
    and "leaves tabs (handle_project E G sess r req2)"
proof -
  have "leaves tabs (create_project_route z cf E G sess r req c)"
  proof (rule keepsI)
    fix w x w'
    assume "run_state (create_project_route z cf E G sess r req c) w = (x, w')"
    then show "same_tabs w w'"
      using refuses_onboarding_routes(3)[OF assms, of z cf E G r req c w] by auto
  qed
  then show "leaves tabs (handle_projects G Q (create_project_route z cf E G sess r req) sess r c)"
    by (auto simp: handle_projects_def split: option.split sum.split intro!: quiet_intros reads_projects_list)
  have ref: "(\<And>w. refuses m w) \<Longrightarrow> leaves tabs m" for m :: "('w, reply) io"
    unfolding refuses_def by (intro keepsI) (metis Pair_inject)
  show "leaves tabs (handle_project E G sess r req2)"
    unfolding handle_project_def
    by (simp add: reads_project_get ref[OF refuses_project_updates(1)[OF assms]]
        ref[OF refuses_project_updates(2)[OF assms]])
qed

lemma refused_limited: "refuses m w \<Longrightarrow> run_state m w = (rep, w') \<Longrightarrow> limited who (cur (tabs w)) (cur (tabs w'))"
  by (auto simp: refuses_def)

lemma leaves_limited: "leaves tabs m \<Longrightarrow> run_state m w = (x, w') \<Longrightarrow> limited who (cur (tabs w)) (cur (tabs w'))"
  by (auto dest: keepsD)

lemma handlers_limited:
  assumes "\<not> is_staff_session sess" and "run_state (bff_handlers S body rt sess r) (w, p) = (rep, (w', p'))"
  shows "limited sess (cur (tabs w)) (cur (tabs w'))"
proof -
  note ref = refuses_maintainer_routes[OF assms(1)] refuses_company_routes[OF assms(1)]
    refuses_onboarding_routes(1)[OF assms(1)]
  note rd = reads_login reads_callback reads_test_login reads_me reads_search reads_audit reads_onboarding_issues
    projects_refuse[OF assms(1)] reads_recent
  show ?thesis
  proof (cases rt)
    case Maintainer
    then show ?thesis
    proof (cases sess)
      case None
      have "leaves tabs (handle_maintainer G None r req)" for req
        by (auto simp: handle_maintainer_def split: sum.split intro!: quiet_intros)
      then show ?thesis using Maintainer None assms(2) by (auto split: prod.splits dest: leaves_limited)
    next
      case (Some s)
      then show ?thesis using Maintainer assms maintainer_limited[of s] by (auto split: prod.splits)
    qed
  next
    case Companies
    then show ?thesis using assms companies_limited by (auto split: prod.splits)
  qed (use assms(2) in \<open>auto simp del: refuses_ret simp: serve_health_def split: prod.splits
         dest: leaves_limited[OF rd(1)] leaves_limited[OF rd(2)] leaves_limited[OF rd(3)] leaves_limited[OF rd(4)]
           leaves_limited[OF rd(5)] leaves_limited[OF rd(6)] leaves_limited[OF rd(7)] leaves_limited[OF rd(8)]
           leaves_limited[OF rd(9)] leaves_limited[OF rd(10)] refused_limited[OF ref(1)] refused_limited[OF ref(2)]
           refused_limited[OF ref(3)] refused_limited[OF ref(4)] refused_limited[OF ref(5)]\<close>)
qed

lemma request_limited:
  assumes "\<not> is_staff_session (session_of S r p)"
    and "run_state (bff_request S r body) (w, p) = (rep, (w', p'))"
  shows "limited (session_of S r p) (cur (tabs w)) (cur (tabs w'))"
  using assms(2)
proof (cases rule: bff_request_cases)
  case (expired t)
  then show ?thesis using keepsD[OF env_calls(1)] by simp
next
  case (opened rt rep')
  have "limited None (cur (tabs w)) (cur (tabs w'))"
    by (rule handlers_limited[OF _ opened(2)]) simp
  then show ?thesis by (auto simp: limited_def own_edit_def elim: list.rel_mono_strong)
next
  case (inside t w1 s rt rep')
  have "tabs w1 = tabs w" using keepsD[OF env_calls(1) inside(2)] by simp
  then show ?thesis using handlers_limited[OF _ inside(5)] assms(1) inside(3) by simp
qed simp


section \<open>Where sessions come from\<close>

lemma create_session_adds:
  assumes "run_state (create_session cf E' login role b) w = (Inr (ck, b'), w')"
  shows "\<exists>s. bf_sessions b' = session_set s (bf_sessions b) \<and> se_login s = login \<and> se_role s = role"
  using assms by (auto simp: create_session_def split: prod.splits sum.splits)

lemma authorized_admitted:
  assumes "run_state (authorize_login G login) w = (Some role, w')" and "se_login s = login" and "se_role s = role"
  shows "admitted (cur (tabs w)) s"
  using authorize_login_sound[OF assms(1)] assms(2,3) by (auto simp: admitted_def split: if_splits)

lemma callback_adds:
  assumes "run_state (handle_callback cf E G r b) w = ((rep, b'), w')"
  shows "bf_sessions b' = bf_sessions b \<or> (\<exists>s. bf_sessions b' = session_set s (bf_sessions b) \<and> admitted (cur (tabs w)) s)"
proof (cases "bf_sessions b' = bf_sessions b")
  case n: False
  from assms n show ?thesis
  proof (rule callback_session)
    fix now w1 e m
    assume now: "run_state (en_now E) w = (now, w1)"
      and f: "run_state (finish_login cf E G (query_get r ''code'') e (b\<lparr>bf_states := m\<rparr>)) w1 = ((rep, b'), w')"
    have "bf_sessions b' \<noteq> bf_sessions (b\<lparr>bf_states := m\<rparr>)" using n by simp
    with f show ?thesis
    proof (rule finish_login_session)
      fix tok gh role w2 w3 w4
      assume c: "run_state (en_exchange E (query_get r ''code'')) w1 = (Inr tok, w2)"
        "run_state (en_github_login E tok) w2 = (Inr gh, w3)"
        and a: "run_state (authorize_login G (to_lower gh)) w3 = (Some role, w4)"
        and "\<exists>s. bf_sessions b' = session_set s (bf_sessions (b\<lparr>bf_states := m\<rparr>)) \<and> se_login s = to_lower gh \<and> se_role s = role"
      then obtain s where s: "bf_sessions b' = session_set s (bf_sessions b)" "se_login s = to_lower gh" "se_role s = role"
        by auto
      have "tabs w3 = tabs w"
        using keepsD[OF env_calls(1) now] keepsD[OF login_calls(2) c(1)] keepsD[OF login_calls(3) c(2)] by simp
      then show ?thesis using s authorized_admitted[OF a s(2,3)] by auto
    qed
  qed
qed simp

lemma test_login_adds:
  assumes "run_state (handle_test_login cf E G r b) w = ((rep, b'), w')"
  shows "bf_sessions b' = bf_sessions b \<or> (\<exists>s. bf_sessions b' = session_set s (bf_sessions b) \<and> admitted (cur (tabs w)) s)"
proof -
  let ?l = "trim_space (query_get r ''login'')"
  obtain a w1 where a: "run_state (authorize_login G ?l) w = (a, w1)" by (metis prod.collapse)
  consider "bf_sessions b' = bf_sessions b"
    | role ck w2 where "a = Some role" "run_state (create_session cf E ?l role b) w1 = (Inr (ck, b'), w2)"
    using assms a by (cases a) (auto simp: handle_test_login_def Let_def split: if_splits prod.splits sum.splits)
  then show ?thesis
  proof cases
    case 2
    then show ?thesis using create_session_adds[OF 2(2)] authorized_admitted[OF a[unfolded 2(1)]] by blast
  qed simp
qed

lemma handlers_sessions:
  assumes "run_state (bff_handlers S body rt sess r) (w, p) = (rep, (w', p'))" and "bf_sessions (pc_bff p') k = Some s"
  shows "bf_sessions (pc_bff p) k = Some s \<or> admitted (cur (tabs w)) s"
proof (cases "rt = Callback \<or> rt = Test_login")
  case True
  then obtain b' where b: "p' = p\<lparr>pc_bff := b'\<rparr>" and
    "run_state (handle_callback (sr_config S) E G r (pc_bff p)) w = ((rep, b'), w') \<or>
     run_state (handle_test_login (sr_config S) E G r (pc_bff p)) w = ((rep, b'), w')"
    using assms(1) by (auto split: prod.splits)
  then have "bf_sessions b' = bf_sessions (pc_bff p) \<or>
      (\<exists>s. bf_sessions b' = session_set s (bf_sessions (pc_bff p)) \<and> admitted (cur (tabs w)) s)"
    using callback_adds test_login_adds by blast
  then show ?thesis using assms(2) b by (auto simp: session_set_def split: if_splits)
next
  case False
  have login: "bf_sessions b' = bf_sessions b" if "run_state (handle_login cf E r b) v = ((x, b'), v')" for cf b b' v x v'
    using that by (auto simp: handle_login_def Let_def split: prod.splits sum.splits)
  have logout: "bf_sessions b' j = Some s \<Longrightarrow> bf_sessions b j = Some s"
    if "handle_logout cf r b = (x, b')" for cf b b' x j
    using that by (auto simp: handle_logout_def Let_def session_delete_def split: if_splits option.splits)
  show ?thesis
    using assms False
    by (cases rt) (auto simp: serve_health_def split: prod.splits dest: login logout)
qed

lemma request_sessions:
  assumes "run_state (bff_request S r body) (w, p) = (rep, (w', p'))" and "bf_sessions (pc_bff p') k = Some s"
  shows "bf_sessions (pc_bff p) k = Some s \<or> admitted (cur (tabs w)) s"
  using assms(1)
proof (cases rule: bff_request_cases)
  case (opened rt rep')
  then show ?thesis using handlers_sessions assms(2) by blast
next
  case (inside t w1 s' rt rep')
  then show ?thesis using handlers_sessions[OF inside(5) assms(2)] keepsD[OF env_calls(1) inside(2)] by simp
qed (use assms(2) in simp_all)

text \<open>Every session in the store was admitted by the staff table, which no request changes.\<close>

lemma serves_sessions:
  assumes "serves S x y" and "\<forall>k s. bf_sessions (pc_bff (snd x)) k = Some s \<longrightarrow> admitted (cur (tabs (fst x))) s"
  shows "\<forall>k s. bf_sessions (pc_bff (snd y)) k = Some s \<longrightarrow> admitted (cur (tabs (fst y))) s"
  using assms
proof (induction rule: rtranclp_induct)
  case (step y z)
  obtain r body rep where req: "run_state (bff_request S r body) (fst y, snd y) = (rep, (fst z, snd z))"
    using step(2) by (auto elim: servedE)
  have "tb_staff (cur (tabs (fst z))) = tb_staff (cur (tabs (fst y)))"
    using request_sound[OF req] grows_staff by blast
  then have "admitted (cur (tabs (fst z))) = admitted (cur (tabs (fst y)))" by (simp add: admitted_def fun_eq_iff)
  then show ?case using request_sessions[OF req] step by metis
qed simp

text \<open>Without staff no request comes with a session of the staff.\<close>

lemma serves_without_staff:
  assumes "serves S x y" and "tb_staff (cur (tabs (fst x))) = []"
    and "\<forall>k s. bf_sessions (pc_bff (snd x)) k = Some s \<longrightarrow> admitted (cur (tabs (fst x))) s"
  shows "tb_projects (cur (tabs (fst y))) = tb_projects (cur (tabs (fst x)))"
  using assms(1)
proof (induction rule: rtranclp_induct)
  case (step y z)
  obtain r body rep where req: "run_state (bff_request S r body) (fst y, snd y) = (rep, (fst z, snd z))"
    using step(2) by (auto elim: servedE)
  have "tb_staff (cur (tabs (fst y))) = []"
    using serves_sound[OF step(1)] grows_staff assms(2) by metis
  then have "\<forall>k s. bf_sessions (pc_bff (snd y)) k = Some s \<longrightarrow> se_role s \<noteq> role_staff"
    using serves_sessions[OF step(1) assms(3)] by (auto simp: admitted_def)
  then have "\<not> is_staff_session (session_of S r (snd y))"
    by (auto simp: is_staff_session_def session_of_def split: option.splits)
  from request_limited[OF this req] show ?case using step.IH by (simp add: limited_def)
qed simp

end

end
