(* ===== verification/Bff_Server.thy ===== *)
theory Bff_Server
  imports Bff_Process_Laws
begin

text \<open>
  Properties of the web server as a whole, over single requests and over runs of requests of any
  length, and of the cache of issues when requests overlap.
\<close>

section \<open>A server for the concrete runs\<close>

definition demo_decoders :: bff_decoders where
  "demo_decoders =
     \<lparr>dj_create = (\<lambda>b. if b = [] then None else Some demo_create), dj_maturity = Some, dj_ref = Some,
      dj_statuses = (\<lambda>_. None), dj_from_ref = (\<lambda>_. None), dj_maintainer = (\<lambda>b. Some demo_edit), dj_company = Some,
      dj_merge = (\<lambda>_. Some (1, 2)), dj_resolve = Some\<rparr>"

definition demo_server :: "mem_world bff_server" where
  "demo_server =
     \<lparr>sr_config = demo_config\<lparr>cf_test_mode := True\<rparr>, sr_env = demo_site, sr_gorm = mem_gorm,
      sr_queries = demo_queries, sr_counts = ret (Inr []), sr_fetcher = Some demo_fetch_again,
      sr_sort_slice = sort_by, sr_by_name = (\<lambda>ms. ms), sr_rfc3339 = (\<lambda>_. []), sr_decode = demo_decoders\<rparr>"

interpretation demo: bff_world demo_server mw_db
proof (intro bff_world.intro bff_world_axioms.intro)
  show "bff_outside (sr_gorm demo_server) mw_db (sr_env demo_server)"
    using site.bff_outside_axioms by (simp add: demo_server_def)
  have k: "keeps (\<lambda>w w'. mw_db w' = mw_db w) (ret x)" for x :: "'b" by (auto intro!: keepsI)
  show "quiet_queries mw_db (sr_queries demo_server)"
    by (simp add: quiet_queries_def demo_server_def demo_queries_def k)
  show "leaves mw_db (en_random_token (sr_env demo_server) n)" for n
    by (simp add: demo_server_def demo_site_def demo_env_def k)
  show "leaves mw_db (en_exchange (sr_env demo_server) c)" for c
    by (simp add: demo_server_def demo_site_def demo_env_def k)
  show "leaves mw_db (en_github_login (sr_env demo_server) t)" for t
    by (simp add: demo_server_def demo_site_def demo_env_def k)
  show "leaves mw_db (sr_counts demo_server)" by (simp add: demo_server_def k)
  show "sr_fetcher demo_server = Some f \<Longrightarrow> leaves mw_db f" for f
    by (auto simp: demo_server_def demo_fetch_again_def k)
qed

text \<open>A process that has a session under the cookie \<open>''s''\<close>, and a request with that cookie.\<close>

definition process_with :: "session \<Rightarrow> process" where
  "process_with s = start_process\<lparr>pc_bff := (pc_bff start_process)\<lparr>bf_sessions := [''s'' \<mapsto> s]\<rparr>\<rparr>"

definition with_cookie :: "web_request \<Rightarrow> web_request" where
  "with_cookie r = r\<lparr>wq_cookies := [(''md_session'', ''s'')]\<rparr>"

definition demo_run :: "session \<Rightarrow> web_request \<Rightarrow> string \<Rightarrow> reply \<times> mem_world \<times> process" where
  "demo_run s r body = run_state (bff_request demo_server (with_cookie r) body) (demo_world, process_with s)"

section \<open>Runs of requests\<close>

text \<open>
  C1: whatever requests the server is sent, in whatever order: rows with a valid status and maturity
  stay so, the audit log is only added to, no maintainer and no project disappears or changes its
  id, no project is renamed, and the tables of the staff, the foundations and the services stay as
  they are.
\<close>

theorem requests_keep_rows_and_history:
  assumes "bff_world S tabs" and "serves S (w, p) (w', p')" and "valid_rows (cur (tabs w))"
  shows "valid_rows (cur (tabs w')) \<and> static_tables (cur (tabs w')) = static_tables (cur (tabs w)) \<and>
    prefix (tb_audit_logs (cur (tabs w))) (tb_audit_logs (cur (tabs w'))) \<and>
    prefix (map row_id (tb_maintainers (cur (tabs w)))) (map row_id (tb_maintainers (cur (tabs w')))) \<and>
    prefix (map (\<lambda>q. (row_id q, pr_name q)) (tb_projects (cur (tabs w))))
      (map (\<lambda>q. (row_id q, pr_name q)) (tb_projects (cur (tabs w'))))"
  using bff_world.serves_sound[OF assms(1,2)] assms(3) by (simp add: grows_def)

definition demo_creation :: "reply \<times> mem_world \<times> process" where
  "demo_creation = demo_run (demo_session ''samstaff'' role_staff) (demo_request ''POST'' ''/api/projects'') ''b''"

theorem requests_keep_rows_and_history_witness:
  "rs_status (fst demo_creation) = 200 \<and>
   length (tb_projects (cur (mw_db (fst (snd demo_creation))))) = Suc (length (tb_projects demo_tables)) \<and>
   valid_rows (cur (mw_db (fst (snd demo_creation)))) \<and>
   prefix (tb_audit_logs demo_tables) (tb_audit_logs (cur (mw_db (fst (snd demo_creation)))))"
proof -
  have s: "rs_status (fst demo_creation) = 200" by code_simp
  have l: "length (tb_projects (cur (mw_db (fst (snd demo_creation))))) = Suc (length (tb_projects demo_tables))"
    by code_simp
  have v: "valid_rows (cur (mw_db demo_world))" by code_simp
  have "served demo_server (demo_world, process_with (demo_session ''samstaff'' role_staff)) (snd demo_creation)"
    by (rule served.request[where rep = "fst demo_creation"]) (simp add: demo_creation_def demo_run_def)
  then have r: "serves demo_server (demo_world, process_with (demo_session ''samstaff'' role_staff))
      (fst (snd demo_creation), snd (snd demo_creation))" by auto
  have "cur (mw_db demo_world) = demo_tables" by (simp add: demo_world_def)
  with requests_keep_rows_and_history[OF demo.bff_world_axioms r v] s l show ?thesis by simp
qed

text \<open>
  C2: a request whose cookie names no session of the staff, on any route and with any body,
  changes no project, no link between projects and maintainers and no row of the staff or the
  services; it adds at most companies, and that only with a session of a maintainer; and it edits at most
  rows with an id that a row with the caller's own GitHub handle has, which keep their name, up to spaces
  around it, and their status.
\<close>

theorem requests_without_staff_session_are_limited:
  assumes "bff_world S tabs" and "run_state (bff_request S r body) (w, p) = (rep, (w', p'))"
    and "\<forall>s. session_of S r p = Some s \<longrightarrow> se_role s \<noteq> role_staff"
  shows "limited (session_of S r p) (cur (tabs w)) (cur (tabs w'))"
proof -
  have "\<not> is_staff_session (session_of S r p)"
    using assms(3) by (auto simp: is_staff_session_def split: option.splits)
  then show ?thesis by (rule bff_world.request_limited[OF assms(1) _ assms(2)])
qed

definition demo_own_edit :: "reply \<times> mem_world \<times> process" where
  "demo_own_edit = demo_run (demo_session ''bob-x'' role_maintainer) (demo_request ''PATCH'' ''/api/maintainers/2'') []"

theorem requests_without_staff_session_are_limited_witness:
  "rs_status (fst demo_own_edit) = 200 \<and>
   map mt_email (tb_maintainers (cur (mw_db (fst (snd demo_own_edit))))) \<noteq> map mt_email (tb_maintainers demo_tables) \<and>
   tb_projects (cur (mw_db (fst (snd demo_own_edit)))) = tb_projects demo_tables"
proof -
  let ?p = "process_with (demo_session ''bob-x'' role_maintainer)"
  let ?r = "with_cookie (demo_request ''PATCH'' ''/api/maintainers/2'')"
  have s: "rs_status (fst demo_own_edit) = 200" by code_simp
  have e: "map mt_email (tb_maintainers (cur (mw_db (fst (snd demo_own_edit))))) \<noteq> map mt_email (tb_maintainers demo_tables)"
    by code_simp
  have r: "run_state (bff_request demo_server ?r []) (demo_world, ?p) =
      (fst demo_own_edit, (fst (snd demo_own_edit), snd (snd demo_own_edit)))"
    by (simp add: demo_own_edit_def demo_run_def)
  have n: "\<forall>s. session_of demo_server ?r ?p = Some s \<longrightarrow> se_role s \<noteq> role_staff"
    by (simp add: session_of_def process_with_def with_cookie_def cookie_of_def demo_server_def demo_config_def
        demo_session_def)
  have "cur (mw_db demo_world) = demo_tables" by (simp add: demo_world_def)
  with requests_without_staff_session_are_limited[OF demo.bff_world_axioms r n] s e
  show ?thesis by (simp add: limited_def)
qed

text \<open>
  C3: after any number of requests to a fresh process every session in its store has the role
  \<^verbatim>\<open>staff\<close> or \<^verbatim>\<open>maintainer\<close>, and the role \<^verbatim>\<open>staff\<close> exactly if a row of the staff table has its
  login, in any letter case; and if that table is empty, the projects are those of the beginning.
\<close>

theorem staff_sessions_belong_to_staff:
  assumes "bff_world S tabs" and "serves S (w, start_process) (w', p')"
  shows "(\<forall>k s. bf_sessions (pc_bff p') k = Some s \<longrightarrow> se_role s \<in> {role_staff, role_maintainer} \<and>
      (se_role s = role_staff \<longleftrightarrow> (\<exists>x \<in> set (tb_staff (cur (tabs w'))). equal_fold (sm_github x) (se_login s)))) \<and>
    (tb_staff (cur (tabs w)) = [] \<longrightarrow> tb_projects (cur (tabs w')) = tb_projects (cur (tabs w)))"
proof -
  have s: "\<forall>k s. bf_sessions (pc_bff (snd (w, start_process))) k = Some s \<longrightarrow>
      admitted (cur (tabs (fst (w, start_process)))) s"
    by (simp add: start_process_def new_session_store_def)
  have a: "\<forall>k s. bf_sessions (pc_bff p') k = Some s \<longrightarrow> admitted (cur (tabs w')) s"
    using bff_world.serves_sessions[OF assms s] by simp
  have n: "tb_staff (cur (tabs w)) = [] \<longrightarrow> tb_projects (cur (tabs w')) = tb_projects (cur (tabs w))"
    using bff_world.serves_without_staff[OF assms _ s] by simp
  show ?thesis using a n unfolding admitted_def by blast
qed

definition demo_login_run :: "reply \<times> mem_world \<times> process" where
  "demo_login_run = run_state (bff_request demo_server ((demo_request ''GET'' ''/auth/test-login'')
     \<lparr>wq_query := [(''login'', [''SamStaff''])]\<rparr>) []) (demo_world, start_process)"

theorem staff_sessions_belong_to_staff_witness:
  "\<exists>s. bf_sessions (pc_bff (snd (snd demo_login_run))) ''sid'' = Some s \<and> se_role s = role_staff \<and>
     (\<exists>x \<in> set (tb_staff (cur (mw_db (fst (snd demo_login_run))))). equal_fold (sm_github x) (se_login s))"
proof -
  have "map_option se_role (bf_sessions (pc_bff (snd (snd demo_login_run))) ''sid'') = Some role_staff" by code_simp
  then obtain s where s: "bf_sessions (pc_bff (snd (snd demo_login_run))) ''sid'' = Some s" "se_role s = role_staff"
    by auto
  have "served demo_server (demo_world, start_process) (snd demo_login_run)"
    by (rule served.request[where rep = "fst demo_login_run"]) (simp add: demo_login_run_def)
  then have "serves demo_server (demo_world, start_process) (fst (snd demo_login_run), snd (snd demo_login_run))" by auto
  from staff_sessions_belong_to_staff[OF demo.bff_world_axioms this] s show ?thesis by blast
qed

section \<open>The cache when requests overlap\<close>

text \<open>
  \<^verbatim>\<open>getOnboardingIssues\<close> holds the lock of the cache while it looks and again while it stores, but
  not while it fetches: other requests run in between.  A request on its way has looked, or has
  fetched and not yet stored.
\<close>

datatype flight = Looked int | Fetched int "issue_summary list" "issue_summary list"

definition issues_lookup :: "int \<Rightarrow> issue_cache \<Rightarrow> issue_summary list option" where
  "issues_lookup now c = (if now < ic_expires c \<and> ic_issues c \<noteq> [] then Some (ic_issues c) else None)"

definition issues_store :: "int \<Rightarrow> issue_summary list \<Rightarrow> issue_summary list \<Rightarrow> issue_cache" where
  "issues_store now raw filtered = \<lparr>ic_expires = now + onboarding_cache_ttl, ic_raw = raw, ic_issues = filtered\<rparr>"

text \<open>With nothing in between the steps are the whole function.\<close>

lemma get_onboarding_issues_steps:
  "get_onboarding_issues E (Some fetch) store (Some c) =
     do { now \<leftarrow> en_now E;
          case issues_lookup now c of
            Some is \<Rightarrow> ret (Inr is, Some c)
          | None \<Rightarrow> do {
              r \<leftarrow> fetch_and_filter_onboarding_issues fetch store;
              ret (case r of Inl e \<Rightarrow> (Inl e, Some c)
                           | Inr (raw, filtered) \<Rightarrow> (Inr filtered, Some (issues_store now raw filtered))) } }"
  unfolding get_onboarding_issues_def issues_lookup_def issues_store_def by (simp add: if_distrib cong: if_cong)

inductive cache_step ::
  "'w bff_server \<Rightarrow> 'w fetcher \<Rightarrow> 'w \<times> issue_cache \<times> flight list \<Rightarrow> 'w \<times> issue_cache \<times> flight list \<Rightarrow> bool" for S fetch where
  look: "run_state (en_now (sr_env S)) w = (now, w') \<Longrightarrow> issues_lookup now c = None \<Longrightarrow>
    cache_step S fetch (w, c, fs) (w', c, fs @ [Looked now])"
| fetched: "run_state (fetch_and_filter_onboarding_issues fetch (Some (sr_gorm S))) w = (Inr (raw, filtered), w') \<Longrightarrow>
    cache_step S fetch (w, c, fs @ Looked now # gs) (w', c, fs @ Fetched now raw filtered # gs)"
| failed: "run_state (fetch_and_filter_onboarding_issues fetch (Some (sr_gorm S))) w = (Inl e, w') \<Longrightarrow>
    cache_step S fetch (w, c, fs @ Looked now # gs) (w', c, fs @ gs)"
| store: "cache_step S fetch (w, c, fs @ Fetched now raw filtered # gs) (w, issues_store now raw filtered, fs @ gs)"
| create: "run_state (create_project_route year_one (sr_config S) (sr_env S) (sr_gorm S) sess r req (Some c)) w =
      ((rep, Some c'), w') \<Longrightarrow> cache_step S fetch (w, c, fs) (w', c', fs)"

text \<open>An unexpired list that offers an issue whose project the database holds.\<close>

definition stale :: "'w bff_server \<Rightarrow> ('w \<Rightarrow> db) \<Rightarrow> 'w \<Rightarrow> issue_cache \<Rightarrow> bool" where
  "stale S tabs w c \<longleftrightarrow>
     fst (run_state (en_now (sr_env S)) w) < ic_expires c \<and>
     list_ex (\<lambda>i. list_ex (has_project i) (tb_projects (cur (tabs w)))) (ic_issues c)"

definition demo_fetched :: "(issue_summary list \<times> issue_summary list) result \<times> mem_world" where
  "demo_fetched = run_state (fetch_and_filter_onboarding_issues demo_fetch_again (Some mem_gorm)) demo_world"

definition demo_created_between :: "(reply \<times> issue_cache option) \<times> mem_world" where
  "demo_created_between = run_state (create_project_route year_one (sr_config demo_server) (sr_env demo_server)
     (sr_gorm demo_server) (Some (demo_session ''samstaff'' role_staff)) (demo_request ''POST'' ''/api/projects'')
     (Some demo_create) (pc_cache start_process)) demo_world"


end
