(* ===== verification/Fossa_Client.thy ===== *)
theory Fossa_Client
  imports Go_Base
begin

text \<open>
  \<^verbatim>\<open>plugins/fossa/client.go\<close>: the FOSSA client, one definition per method.  The network and
  the JSON codec are parameters: \<open>H\<close> sends a request and gives the response, \<open>C\<close> decodes
  bodies and encodes payloads.  The request constructor fails only on a malformed URL; the
  methods that check its error get it from \<open>H\<close>.  The structures hold the fields the code reads.
\<close>

section \<open>Data\<close>

record team =
  tm_id :: int
  tm_organization :: int
  tm_name :: string
  tm_default_role :: int
  tm_auto_add :: bool
  tm_unique_identifier :: string
  tm_created :: int
  tm_updated :: int
  tm_users :: "(int \<times> int) list"
  tm_release_groups :: int
  tm_projects :: int

definition zero_team :: team where
  "zero_team = \<lparr>tm_id = 0, tm_organization = 0, tm_name = [], tm_default_role = 0, tm_auto_add = False,
     tm_unique_identifier = [], tm_created = 0, tm_updated = 0, tm_users = [], tm_release_groups = 0, tm_projects = 0\<rparr>"

text \<open>
  Tokens are their ids, names and times; an account elsewhere is its name, its address and its
  picture; a team of a user is its id and its name, without the role; the role of the user itself is
  a value of any shape in the API and left out.
\<close>

record user =
  us_id :: int
  us_username :: string
  us_email :: string
  us_email_verified :: bool
  us_demo :: bool
  us_super :: bool
  us_joined :: int
  us_last_visit :: int
  us_terms_agreed :: "int option"
  us_full_name :: string
  us_phone :: string
  us_role :: string
  us_organization_id :: int
  us_sso_only :: bool
  us_enabled :: bool
  us_has_set_password :: "bool option"
  us_install_admin :: "bool option"
  us_created_at :: int
  us_updated_at :: int
  us_tokens :: "(int \<times> string \<times> bool \<times> int \<times> int \<times> bool) list"
  us_github_name :: "string option"
  us_github_email :: "string option"
  us_github_avatar :: string
  us_bitbucket_name :: "string option"
  us_bitbucket_email :: "string option"
  us_bitbucket_avatar :: string
  us_teams :: "(int \<times> string) list"
  us_organization :: "int \<times> string \<times> string"

definition zero_user :: user where
  "zero_user = \<lparr>us_id = 0, us_username = [], us_email = [], us_email_verified = False, us_demo = False,
     us_super = False, us_joined = 0, us_last_visit = 0, us_terms_agreed = None, us_full_name = [], us_phone = [],
     us_role = [], us_organization_id = 0, us_sso_only = False, us_enabled = False, us_has_set_password = None,
     us_install_admin = None, us_created_at = 0, us_updated_at = 0, us_tokens = [], us_github_name = None,
     us_github_email = None, us_github_avatar = [], us_bitbucket_name = None, us_bitbucket_email = None,
     us_bitbucket_avatar = [], us_teams = [], us_organization = (0, [], [])\<rparr>"

record imported_project =
  ip_title :: string
  ip_locator :: string

record imported_projects =
  im_results :: "imported_project list"
  im_total :: int

record team_members =
  tms_emails :: "string list"
  tms_total :: int

record fossa_error =
  fe_code :: int
  fe_name :: string
  fe_message :: string

record client =
  cl_api_key :: string
  cl_api_base :: string

definition api_base :: string where "api_base = ''https://app.fossa.com/api''"

definition new_client :: "string \<Rightarrow> client" where
  "new_client token = \<lparr>cl_api_key = token, cl_api_base = api_base\<rparr>"

section \<open>The network and the codec\<close>

record request =
  rq_method :: string
  rq_url :: string
  rq_key :: string
  rq_body :: string

text \<open>The bytes read from a response, and the error reading stopped with, if any.\<close>

record response =
  hr_code :: nat
  hr_status :: string
  hr_body :: string
  hr_read_error :: "go_error option"

record 'w http =
  new_request_error :: "string \<Rightarrow> go_error option"
  do_request :: "request \<Rightarrow> ('w, response result) io"

record codec =
  un_users :: "string \<Rightarrow> user list result"
  un_team :: "string \<Rightarrow> team result"
  un_imported :: "string \<Rightarrow> imported_projects result"
  un_error :: "string \<Rightarrow> fossa_error result"
  st_teams :: "response \<Rightarrow> team list result"
  st_members :: "response \<Rightarrow> team_members result"
  mk_field :: "string \<Rightarrow> string \<Rightarrow> string result"
  mk_add_user :: "int \<Rightarrow> string result"

definition send :: "'w http \<Rightarrow> client \<Rightarrow> string \<Rightarrow> string \<Rightarrow> string \<Rightarrow> ('w, response result) io" where
  "send H cl method path body =
     do_request H \<lparr>rq_method = method, rq_url = cl_api_base cl @ path, rq_key = cl_api_key cl, rq_body = body\<rparr>"

text \<open>An error with text before it, and a request whose constructor's error is checked.\<close>

abbreviation wrap :: "string \<Rightarrow> 'a result \<Rightarrow> 'a result" where
  "wrap pre r \<equiv> (case r of Inl e \<Rightarrow> Inl (Wrap pre e []) | Inr x \<Rightarrow> Inr x)"

definition wrap_io :: "string \<Rightarrow> ('w, 'a result) io \<Rightarrow> ('w, 'a result) io" where
  "wrap_io pre m = do { r \<leftarrow> m; ret (wrap pre r) }"

definition checked_request :: "'w http \<Rightarrow> client \<Rightarrow> string \<Rightarrow> ('w, unit result) io" where
  "checked_request H cl path =
     (case new_request_error H (cl_api_base cl @ path) of
        Some e \<Rightarrow> ret (Inl (Wrap ''failed to create request: '' e []))
      | None \<Rightarrow> ret (Inr ()))"

definition read_all :: "response \<Rightarrow> string result" where
  "read_all r = (case hr_read_error r of Some e \<Rightarrow> Inl e | None \<Rightarrow> Inr (hr_body r))"

definition nl :: string where "nl = [CHR 0x0A]"
definition tabs2 :: string where "tabs2 = [CHR 0x09, CHR 0x09]"
definition en_dash :: string where "en_dash = [CHR 0xE2, CHR 0x80, CHR 0x93]"

section \<open>Users\<close>

text \<open>The body is read to its end before it is decoded, so the decoder sees no more input.\<close>

definition fetch_first_page_of_users :: "'w http \<Rightarrow> client \<Rightarrow> ('w, user list result) io" where
  "fetch_first_page_of_users H cl =
     try_bind (send H cl ''GET'' ''/users'' []) (\<lambda>resp.
     ret (if hr_code resp \<noteq> 200
          then Inl (Msg (''FetchUsers failed: called $s'' @ nl @ tabs2 @ hr_status resp @ '' '' @ en_dash @ '' '' @
                         hr_body resp))
          else Inl (Msg ''EOF'')))"

definition page_size :: nat where "page_size = 100"

definition users_path :: "nat \<Rightarrow> string" where
  "users_path page = ''/users?count='' @ itoa (int page_size) @ ''&page='' @ itoa (int page)"

definition fetch_users_page :: "'w http \<Rightarrow> codec \<Rightarrow> client \<Rightarrow> nat \<Rightarrow> ('w, user list result) io" where
  "fetch_users_page H C cl page =
     try_bind (checked_request H cl (users_path page)) (\<lambda>_.
     try_bind (wrap_io ''request failed: '' (send H cl ''GET'' (users_path page) [])) (\<lambda>resp.
     ret (case wrap ''failed to read response body: '' (read_all resp) of
            Inl e \<Rightarrow> Inl e
          | Inr body \<Rightarrow>
              if hr_code resp \<noteq> 200
              then Inl (Msg (''FetchUsers failed: '' @ hr_status resp @ nl @ tabs2 @ body))
              else wrap ''failed to decode response: '' (un_users C body))))"

text \<open>
  The paging loop.  The fuel is the number of pages it may ask for; \<open>None\<close> means that it is
  still running when the fuel is spent.
\<close>

fun fetch_users_from ::
  "nat \<Rightarrow> 'w http \<Rightarrow> codec \<Rightarrow> client \<Rightarrow> nat \<Rightarrow> user list \<Rightarrow> ('w, user list result option) io" where
  "fetch_users_from 0 H C cl page allUsers = ret None"
| "fetch_users_from (Suc fuel) H C cl page allUsers =
     do { r \<leftarrow> fetch_users_page H C cl page;
          case r of
            Inl e \<Rightarrow> ret (Some (Inl e))
          | Inr users \<Rightarrow>
              if length users < page_size then ret (Some (Inr (allUsers @ users)))
              else fetch_users_from fuel H C cl (page + 1) (allUsers @ users) }"

definition fetch_users :: "nat \<Rightarrow> 'w http \<Rightarrow> codec \<Rightarrow> client \<Rightarrow> ('w, user list result option) io" where
  "fetch_users fuel H C cl = fetch_users_from fuel H C cl 0 []"

definition normalize_email :: "string \<Rightarrow> string" where
  "normalize_email value = to_lower (trim_space value)"

definition user_has_email :: "string \<Rightarrow> user \<Rightarrow> bool" where
  "user_has_email target u \<longleftrightarrow>
     normalize_email (us_email u) = target \<or>
     (case us_github_email u of None \<Rightarrow> False | Some e \<Rightarrow> normalize_email e = target) \<or>
     (case us_bitbucket_email u of None \<Rightarrow> False | Some e \<Rightarrow> normalize_email e = target)"

definition find_user_in :: "user list \<Rightarrow> string \<Rightarrow> int result" where
  "find_user_in users email =
     (let target = normalize_email email in
      if target = [] then Inl (Msg (''user not found by email: '' @ email))
      else case find (user_has_email target) users of
             Some u \<Rightarrow> Inr (us_id u)
           | None \<Rightarrow> Inl (Msg (''user not found by email: '' @ email)))"

definition find_user_id_by_email ::
  "nat \<Rightarrow> 'w http \<Rightarrow> codec \<Rightarrow> client \<Rightarrow> string \<Rightarrow> ('w, int result option) io" where
  "find_user_id_by_email fuel H C cl email =
     do { r \<leftarrow> fetch_users fuel H C cl;
          ret (case r of
                 None \<Rightarrow> None
               | Some (Inl e) \<Rightarrow> Some (Inl e)
               | Some (Inr users) \<Rightarrow> Some (find_user_in users email)) }"

section \<open>Invitations\<close>

definition fetch_user_invitations :: "'w http \<Rightarrow> client \<Rightarrow> ('w, string result) io" where
  "fetch_user_invitations H cl =
     try_bind (send H cl ''GET'' ''/user-invitations'' []) (\<lambda>resp.
     ret (if hr_code resp \<noteq> 200
          then Inl (Msg (''FetchUserInvitations failed: called $s'' @ nl @ tabs2 @ hr_status resp @ '' '' @ en_dash @
                         '' '' @ hr_body resp))
          else Inr (hr_body resp)))"

definition has_pending_invitation :: "'w http \<Rightarrow> client \<Rightarrow> string \<Rightarrow> ('w, bool result) io" where
  "has_pending_invitation H cl email =
     try_bind (fetch_user_invitations H cl) (\<lambda>body.
     ret (Inr (contains (to_lower body) (to_lower email))))"

definition invite_already_exists :: int where "invite_already_exists = 2011"
definition user_already_member :: int where "user_already_member = 2001"

definition invitation_error :: "codec \<Rightarrow> string \<Rightarrow> response \<Rightarrow> go_error" where
  "invitation_error C email resp =
     (case un_error C (hr_body resp) of
        Inl _ \<Rightarrow> Msg (''SendUserInvitation calling json.Unmarshal failed for '' @ email @ '': '' @
                      hr_status resp @ nl @ tabs2 @ hr_body resp)
      | Inr e \<Rightarrow>
          if fe_code e = invite_already_exists
          then Wrap [] (Sentinel ErrInviteAlreadyExists) ('': '' @ fe_message e)
          else if fe_code e = user_already_member
          then Wrap [] (Sentinel ErrUserAlreadyMember) ('': '' @ fe_message e)
          else Msg (''SendUserInvitation failed for '' @ email @ '' (code '' @ itoa (fe_code e) @ ''): '' @
                    hr_status resp @ '' '' @ en_dash @ '' '' @ fe_message e))"

definition invite_path :: string where "invite_path = ''/organizations/162/invite''"

definition send_user_invitation :: "'w http \<Rightarrow> codec \<Rightarrow> client \<Rightarrow> string \<Rightarrow> ('w, unit result) io" where
  "send_user_invitation H C cl email =
     try_bind (ret (wrap ''failed to encode body: '' (mk_field C ''email'' email))) (\<lambda>jsonBody.
     try_bind (checked_request H cl invite_path) (\<lambda>_.
     try_bind (wrap_io ''FetchUserInvitations failed '' (send H cl ''POST'' invite_path jsonBody)) (\<lambda>resp.
     ret (if hr_code resp \<noteq> 200 then Inl (invitation_error C email resp) else Inr ()))))"

section \<open>Teams\<close>

definition fetch_teams :: "'w http \<Rightarrow> codec \<Rightarrow> client \<Rightarrow> ('w, team list result) io" where
  "fetch_teams H C cl =
     try_bind (send H cl ''GET'' ''/teams'' []) (\<lambda>resp.
     ret (if hr_code resp \<noteq> 200
          then Inl (Msg (''list teams failed: '' @ hr_status resp @ '' '' @ en_dash @ '' '' @ hr_body resp))
          else st_teams C resp))"

definition fetch_team :: "'w http \<Rightarrow> codec \<Rightarrow> client \<Rightarrow> string \<Rightarrow> ('w, team result) io" where
  "fetch_team H C cl name =
     do { r \<leftarrow> fetch_teams H C cl;
          ret (case r of
                 Inl e \<Rightarrow> Inl (Msg (''failed to find team with name '' @ name @ '', FOSSA Error was '' @ error_text e))
               | Inr teams \<Rightarrow> case find (\<lambda>t. tm_name t = name) teams of
                     Some t \<Rightarrow> Inr t
                   | None \<Rightarrow> Inl (Msg (''failed to find team with name '' @ name))) }"

definition fetch_team_user_emails :: "'w http \<Rightarrow> codec \<Rightarrow> client \<Rightarrow> int \<Rightarrow> ('w, string list result) io" where
  "fetch_team_user_emails H C cl teamID =
     try_bind (send H cl ''GET'' (''/teams/'' @ itoa teamID @ ''/members'') []) (\<lambda>resp.
     ret (if hr_code resp \<noteq> 200
          then Inl (Msg (''list team users failed: '' @ hr_status resp @ '' '' @ en_dash @ '' '' @ hr_body resp))
          else case st_members C resp of
                 Inl e \<Rightarrow> Inl (Msg (''list team users failed json.NewDecoder returned: '' @ error_text e))
               | Inr ms \<Rightarrow> Inr (if 0 < tms_total ms then tms_emails ms else [])))"

definition add_user_error :: "codec \<Rightarrow> response \<Rightarrow> go_error" where
  "add_user_error C resp =
     (case un_error C (hr_body resp) of
        Inr e \<Rightarrow>
          if fe_code e = user_already_member
          then Wrap [] (Sentinel ErrUserAlreadyMember) ('': '' @ fe_message e)
          else Msg (''AddUserToTeamByEmail failed (code '' @ itoa (fe_code e) @ ''): '' @ hr_status resp @
                    '' '' @ en_dash @ '' '' @ fe_message e)
      | Inl _ \<Rightarrow> Msg (''AddUserToTeamByEmail failed: '' @ hr_status resp @ '' '' @ en_dash @ '' '' @ hr_body resp))"

definition put_user_in_team :: "'w http \<Rightarrow> codec \<Rightarrow> client \<Rightarrow> int \<Rightarrow> int \<Rightarrow> ('w, unit result) io" where
  "put_user_in_team H C cl teamID uid =
     (let path = ''/teams/'' @ itoa teamID @ ''/users'' in
      try_bind (ret (wrap ''failed to encode body: '' (mk_add_user C uid))) (\<lambda>jsonBody.
      try_bind (checked_request H cl path) (\<lambda>_.
      try_bind (wrap_io ''request failed: '' (send H cl ''PUT'' path jsonBody)) (\<lambda>resp.
      ret (if hr_code resp = 200 \<or> hr_code resp = 201 \<or> hr_code resp = 204 then Inr ()
           else Inl (add_user_error C resp))))))"

definition add_user_to_team_by_email ::
  "nat \<Rightarrow> 'w http \<Rightarrow> codec \<Rightarrow> client \<Rightarrow> int \<Rightarrow> string \<Rightarrow> int \<Rightarrow> ('w, unit result option) io" where
  "add_user_to_team_by_email fuel H C cl teamID email roleID =
     do { r \<leftarrow> find_user_id_by_email fuel H C cl email;
          case r of
            None \<Rightarrow> ret None
          | Some (Inl e) \<Rightarrow> ret (Some (Inl (Wrap ''resolve user by email: '' e [])))
          | Some (Inr uid) \<Rightarrow> do { x \<leftarrow> put_user_in_team H C cl teamID uid; ret (Some x) } }"

definition get_team_id :: "team list \<Rightarrow> string \<Rightarrow> int result" where
  "get_team_id teams name =
     (case find (\<lambda>t. tm_name t = name) teams of
        Some t \<Rightarrow> Inr (tm_id t)
      | None \<Rightarrow> Inl (Msg (''team not found: '' @ quote name)))"

definition fetch_teams_map :: "'w http \<Rightarrow> codec \<Rightarrow> client \<Rightarrow> ('w, (string \<Rightarrow> team option) result) io" where
  "fetch_teams_map H C cl =
     try_bind (fetch_teams H C cl) (\<lambda>ta. ret (Inr (foldl (\<lambda>m t. m(tm_name t \<mapsto> t)) Map.empty ta)))"

definition get_team :: "'w http \<Rightarrow> codec \<Rightarrow> client \<Rightarrow> int \<Rightarrow> ('w, team result) io" where
  "get_team H C cl teamID =
     (let path = ''/teams/'' @ itoa teamID in
      try_bind (checked_request H cl path) (\<lambda>_.
      try_bind (wrap_io ''FetchTeams failed '' (send H cl ''GET'' path [])) (\<lambda>resp.
      try_bind (ret (wrap ''failed to read response body: '' (read_all resp))) (\<lambda>body.
      ret (wrap ''failed to decode response: '' (un_team C body))))))"

definition create_team_failure :: "response \<Rightarrow> string \<Rightarrow> go_error" where
  "create_team_failure resp body =
     Msg (''CreateTeam failed: '' @ hr_status resp @ nl @ [CHR 0x09] @ ''Response: '' @ body)"

definition create_team :: "'w http \<Rightarrow> codec \<Rightarrow> client \<Rightarrow> string \<Rightarrow> ('w, team result) io" where
  "create_team H C cl name =
     try_bind (ret (wrap ''failed to encode body: '' (mk_field C ''name'' name))) (\<lambda>jsonBody.
     try_bind (checked_request H cl ''/teams'') (\<lambda>_.
     try_bind (wrap_io ''request failed: '' (send H cl ''POST'' ''/teams'' jsonBody)) (\<lambda>resp.
     try_bind (ret (wrap ''failed to read response body: '' (read_all resp))) (\<lambda>body.
     if hr_code resp \<noteq> 200 \<and> hr_code resp \<noteq> 201
     then (case un_error C body of
             Inl _ \<Rightarrow> ret (Inl (create_team_failure resp body))
           | Inr e \<Rightarrow>
               if fe_code e = 2003
               then try_bind (ret (wrap ''failed to decode response: '' (un_team C body))) (\<lambda>_.
                    wrap_io ''CreateTeam: failed to fetch existing team after team-already-exists error: ''
                      (fetch_team H C cl name))
               else ret (Inl (Msg (''CreateTeam failed with FOSSA error code '' @ itoa (fe_code e) @ '': '' @
                                   fe_name e @ '' '' @ en_dash @ '' '' @ fe_message e))))
     else ret (wrap ''failed to decode response: '' (un_team C body))))))"

section \<open>Imported projects\<close>

definition fetch_imported_repos ::
  "'w http \<Rightarrow> codec \<Rightarrow> client \<Rightarrow> int \<Rightarrow> ('w, (int \<times> imported_projects) result) io" where
  "fetch_imported_repos H C cl teamID =
     (let path = ''/teams/'' @ itoa teamID @ ''/projects'' in
      try_bind (wrap_io (''call to c.GetTeam('' @ itoa teamID @ '') returned '') (get_team H C cl teamID)) (\<lambda>team.
      try_bind (checked_request H cl path) (\<lambda>_.
      try_bind (wrap_io ''FetchImportedRepos failed '' (send H cl ''GET'' path [])) (\<lambda>resp.
      try_bind (ret (wrap ''failed to read response body: '' (read_all resp))) (\<lambda>body.
      try_bind (ret (wrap ''failed to decode response: '' (un_imported C body))) (\<lambda>repos.
      ret (Inr (im_total repos, repos))))))))"

text \<open>
  \<^verbatim>\<open>net/url\<close> is a parameter: a parser and a printer of the parts the code touches.
\<close>

record url =
  ur_host :: string
  ur_path :: string
  ur_other :: string

definition locator_url :: "string \<Rightarrow> string" where
  "locator_url locator =
     (let loc = trim_prefix locator ''git+'' in
      if \<not> has_prefix loc ''http'' \<and> \<not> contains loc ''://'' then ''https://'' @ loc else loc)"

definition format_locator :: "(string \<Rightarrow> url option) \<Rightarrow> (url \<Rightarrow> string) \<Rightarrow> string \<Rightarrow> string" where
  "format_locator parse print locator =
     (if locator = [] then []
      else case parse (locator_url locator) of
             None \<Rightarrow> []
           | Some u \<Rightarrow>
               if ur_host u = [] then []
               else let u1 = u\<lparr>ur_host := trim_suffix (ur_host u) '':''\<rparr>
                    in print (if \<not> has_suffix (ur_path u1) ''.git'' \<and> has_suffix locator ''.git''
                              then u1\<lparr>ur_path := ur_path u1 @ ''.git''\<rparr> else u1))"

definition project_link :: "(string \<Rightarrow> url option) \<Rightarrow> (url \<Rightarrow> string) \<Rightarrow> imported_project \<Rightarrow> string" where
  "project_link parse print p =
     (if ip_title p = [] then []
      else let l = format_locator parse print (ip_locator p);
               link = (if l = [] then ip_locator p else l)
           in ''- ['' @ ip_title p @ ''](''  @ link @ '')'' @ nl)"

definition imported_project_links ::
  "(string \<Rightarrow> url option) \<Rightarrow> (url \<Rightarrow> string) \<Rightarrow> imported_projects \<Rightarrow> string" where
  "imported_project_links parse print ps =
     (if im_results ps = [] then []
      else trim_space (concat (map (project_link parse print) (im_results ps))))"

section \<open>Lemmas\<close>

text \<open>
  The users endpoint as FOSSA documents it: page \<open>p\<close> holds the users from \<open>100 p\<close> on, a
  hundred of them at most.
\<close>

definition pages_served :: "'w http \<Rightarrow> codec \<Rightarrow> client \<Rightarrow> user list \<Rightarrow> bool" where
  "pages_served H C cl us \<longleftrightarrow>
     (\<forall>p \<le> length us div page_size.
        new_request_error H (cl_api_base cl @ users_path p) = None \<and>
        (\<forall>w. \<exists>resp w'. run_state (send H cl ''GET'' (users_path p) []) w = (Inr resp, w') \<and>
           hr_code resp = 200 \<and> hr_read_error resp = None \<and>
           un_users C (hr_body resp) = Inr (take page_size (drop (p * page_size) us))))"

lemma fetch_users_page_served:
  assumes "pages_served H C cl us" "p \<le> length us div page_size"
  shows "\<exists>w'. run_state (fetch_users_page H C cl p) w = (Inr (take page_size (drop (p * page_size) us)), w')"
proof -
  have n: "new_request_error H (cl_api_base cl @ users_path p) = None"
    and s: "\<exists>resp w'. run_state (send H cl ''GET'' (users_path p) []) w = (Inr resp, w') \<and>
           hr_code resp = 200 \<and> hr_read_error resp = None \<and>
           un_users C (hr_body resp) = Inr (take page_size (drop (p * page_size) us))"
    using assms unfolding pages_served_def by blast+
  then obtain resp w' where r: "run_state (send H cl ''GET'' (users_path p) []) w = (Inr resp, w')"
    "hr_code resp = 200" "hr_read_error resp = None"
    "un_users C (hr_body resp) = Inr (take page_size (drop (p * page_size) us))" by blast
  show ?thesis
    by (simp add: fetch_users_page_def checked_request_def wrap_io_def read_all_def n r)
qed

lemma fetch_users_from_served:
  assumes "pages_served H C cl us"
  shows "p \<le> length us div page_size \<Longrightarrow> length us div page_size - p < fuel \<Longrightarrow>
    \<exists>w'. run_state (fetch_users_from fuel H C cl p (take (p * page_size) us)) w = (Some (Inr us), w')"
proof (induction fuel arbitrary: p w)
  case (Suc fuel)
  let ?c = "take page_size (drop (p * page_size) us)"
  obtain w1 where w1: "run_state (fetch_users_page H C cl p) w = (Inr ?c, w1)"
    using fetch_users_page_served[OF assms Suc.prems(1)] by blast
  have app: "take (p * page_size) us @ ?c = take ((p + 1) * page_size) us"
    by (simp add: take_add[symmetric] add.commute)
  show ?case
  proof (cases "length ?c < page_size")
    case True
    then have "length us \<le> (p + 1) * page_size" by (auto simp: page_size_def)
    then show ?thesis using w1 True app by simp
  next
    case False
    then have l: "(p + 1) * page_size \<le> length us" by (auto simp: page_size_def)
    then have "p + 1 \<le> length us div page_size"
      by (simp add: page_size_def less_eq_div_iff_mult_less_eq)
    moreover have "length us div page_size - (p + 1) < fuel" using Suc.prems calculation by simp
    ultimately obtain w' where
      "run_state (fetch_users_from fuel H C cl (p + 1) (take ((p + 1) * page_size) us)) w1 = (Some (Inr us), w')"
      using Suc.IH by blast
    then show ?thesis using w1 False app by simp
  qed
qed simp

text \<open>A server that never serves a short page keeps the loop running.\<close>

lemma fetch_users_from_endless:
  assumes "\<And>p w. \<exists>us w'. run_state (fetch_users_page H C cl p) w = (Inr us, w') \<and> page_size \<le> length us"
  shows "\<exists>w'. run_state (fetch_users_from fuel H C cl p acc) w = (None, w')"
proof (induction fuel arbitrary: p acc w)
  case (Suc fuel)
  obtain us w1 where "run_state (fetch_users_page H C cl p) w = (Inr us, w1)" "page_size \<le> length us"
    using assms by blast
  then show ?case using Suc[of "p + 1" "acc @ us" w1] by simp
qed simp

section \<open>Properties\<close>

text \<open>
  \<^verbatim>\<open>FetchUsers\<close> ends and returns every user, in order, of a server that serves them in pages
  of a hundred; one call per full page and one more are enough.
\<close>

theorem fetch_users_collects_all_pages:
  assumes "pages_served H C cl us" and "length us div page_size < fuel"
  shows "fst (run_state (fetch_users fuel H C cl) w) = Some (Inr us)"
  using fetch_users_from_served[OF assms(1), of 0 fuel w] assms(2)
  by (auto simp: fetch_users_def)

text \<open>A server of 101 users for the concrete run: the body of a page is its URL.\<close>

definition demo_users :: "user list" where
  "demo_users = replicate 101 (zero_user\<lparr>us_id := 7, us_email := ''u@x''\<rparr>)"

definition demo_http :: "unit http" where
  "demo_http = \<lparr>new_request_error = (\<lambda>_. None),
     do_request = (\<lambda>rq. State (\<lambda>w. (Inr \<lparr>hr_code = 200, hr_status = ''200 OK'', hr_body = rq_url rq,
       hr_read_error = None\<rparr>, w)))\<rparr>"

definition demo_codec :: codec where
  "demo_codec = \<lparr>un_users = (\<lambda>b. Inr (if b = api_base @ users_path 0 then take 100 demo_users
                                    else drop 100 demo_users)),
     un_team = (\<lambda>b. Inr (zero_team\<lparr>tm_id := 1, tm_name := b\<rparr>)),
     un_imported = (\<lambda>_. Inr \<lparr>im_results = [], im_total = 0\<rparr>),
     un_error = (\<lambda>_. Inr \<lparr>fe_code = 2011, fe_name = ''E'', fe_message = ''invited''\<rparr>),
     st_teams = (\<lambda>_. Inr []), st_members = (\<lambda>_. Inr \<lparr>tms_emails = [], tms_total = 0\<rparr>),
     mk_field = (\<lambda>k v. Inr (k @ v)), mk_add_user = (\<lambda>_. Inr [])\<rparr>"

theorem fetch_users_collects_all_pages_witness:
  "fst (run_state (fetch_users 2 demo_http demo_codec (new_client ''k'')) ()) = Some (Inr demo_users)"
proof -
  have ne: "users_path 1 \<noteq> users_path 0" by code_simp
  have l: "length demo_users div page_size = 1" by (simp add: demo_users_def page_size_def)
  have "pages_served demo_http demo_codec (new_client ''k'') demo_users"
    unfolding pages_served_def l
  proof (intro allI impI)
    fix p :: nat
    assume "p \<le> 1"
    then consider "p = 0" | "p = 1" by linarith
    then show "new_request_error demo_http (cl_api_base (new_client ''k'') @ users_path p) = None \<and>
        (\<forall>w. \<exists>resp w'. run_state (send demo_http (new_client ''k'') ''GET'' (users_path p) []) w = (Inr resp, w') \<and>
           hr_code resp = 200 \<and> hr_read_error resp = None \<and>
           un_users demo_codec (hr_body resp) = Inr (take page_size (drop (p * page_size) demo_users)))"
      using ne by cases (simp_all add: demo_http_def send_def new_client_def demo_codec_def page_size_def
          demo_users_def)
  qed
  then show ?thesis by (rule fetch_users_collects_all_pages) (simp add: l)
qed

text \<open>
  When FOSSA answers an invitation, \<^verbatim>\<open>SendUserInvitation\<close> succeeds exactly on status 200, and
  its error is \<^verbatim>\<open>ErrInviteAlreadyExists\<close> (\<^verbatim>\<open>ErrUserAlreadyMember\<close>) exactly when another status
  comes with the error code 2011 (2001).
\<close>

theorem send_user_invitation_outcomes:
  assumes "mk_field C ''email'' email = Inr body"
    and "new_request_error H (cl_api_base cl @ invite_path) = None"
    and "run_state (send H cl ''POST'' invite_path body) w = (Inr resp, w')"
  shows "\<exists>r. run_state (send_user_invitation H C cl email) w = (r, w') \<and>
     (r = Inr () \<longleftrightarrow> hr_code resp = 200) \<and>
     ((\<exists>e. r = Inl e \<and> errors_is e ErrInviteAlreadyExists) \<longleftrightarrow>
        hr_code resp \<noteq> 200 \<and> map_sum (\<lambda>_. ()) fe_code (un_error C (hr_body resp)) = Inr 2011) \<and>
     ((\<exists>e. r = Inl e \<and> errors_is e ErrUserAlreadyMember) \<longleftrightarrow>
        hr_code resp \<noteq> 200 \<and> map_sum (\<lambda>_. ()) fe_code (un_error C (hr_body resp)) = Inr 2001)"
  using assms
  by (auto simp: send_user_invitation_def checked_request_def wrap_io_def invitation_error_def
      invite_already_exists_def user_already_member_def split: sum.splits)

definition demo_http_conflict :: "unit http" where
  "demo_http_conflict = \<lparr>new_request_error = (\<lambda>_. None),
     do_request = (\<lambda>rq. State (\<lambda>w. (Inr \<lparr>hr_code = 409, hr_status = ''409 Conflict'', hr_body = [],
       hr_read_error = None\<rparr>, w)))\<rparr>"

theorem send_user_invitation_outcomes_witness:
  "\<exists>e. fst (run_state (send_user_invitation demo_http_conflict demo_codec (new_client ''k'') ''a@b'') ()) = Inl e \<and>
       errors_is e ErrInviteAlreadyExists"
proof -
  have m: "mk_field demo_codec ''email'' ''a@b'' = Inr (''email'' @ ''a@b'')" by (simp add: demo_codec_def)
  have n: "new_request_error demo_http_conflict (cl_api_base (new_client ''k'') @ invite_path) = None"
    by (simp add: demo_http_conflict_def)
  let ?resp = "\<lparr>hr_code = 409, hr_status = ''409 Conflict'', hr_body = [], hr_read_error = None\<rparr>"
  have r: "run_state (send demo_http_conflict (new_client ''k'') ''POST'' invite_path (''email'' @ ''a@b'')) ()
      = (Inr ?resp, ())"
    by (simp add: send_def demo_http_conflict_def)
  have c: "hr_code ?resp \<noteq> 200 \<and> map_sum (\<lambda>_. ()) fe_code (un_error demo_codec (hr_body ?resp)) = Inr 2011"
    by (simp add: demo_codec_def)
  obtain x where "run_state (send_user_invitation demo_http_conflict demo_codec (new_client ''k'') ''a@b'') () = (x, ())"
    "\<exists>e. x = Inl e \<and> errors_is e ErrInviteAlreadyExists"
    using send_user_invitation_outcomes[OF m n r] c by blast
  then show ?thesis by simp
qed

end
