(* ===== verification/Fossa_Mock.thy ===== *)
theory Fossa_Mock
  imports Fossa_Client Sql_Store
begin

text \<open>
  The interface \<^verbatim>\<open>FossaClientInterface\<close> of \<^verbatim>\<open>onboarding/interfaces.go\<close>, what the onboarding
  server relies on when it calls it, and the implementation \<^verbatim>\<open>MockFossaClient\<close> of
  \<^verbatim>\<open>onboarding/fossa_mock.go\<close>, which keeps that contract.
\<close>

section \<open>The interface\<close>

record 'w fossa =
  fc_create_team :: "string \<Rightarrow> ('w, team result) io"
  fc_send_invitation :: "string \<Rightarrow> ('w, unit result) io"
  fc_has_pending :: "string \<Rightarrow> ('w, bool result) io"
  fc_team_emails :: "int \<Rightarrow> ('w, string list result) io"
  fc_add_user :: "int \<Rightarrow> string \<Rightarrow> int \<Rightarrow> ('w, unit result) io"
  fc_imported_repos :: "int \<Rightarrow> ('w, (int \<times> imported_projects) result) io"
  fc_links :: "imported_projects \<Rightarrow> string"
  fc_fetch_team :: "string \<Rightarrow> ('w, team result) io"
  fc_fetch_teams :: "('w, team list result) io"

text \<open>
  \<open>members w t\<close> are the e-mail addresses of team \<open>t\<close>, \<open>pending w\<close> those with an open
  invitation.  A client may report an invitation that is not there, never miss one.
\<close>

locale fossa_iface =
  fixes F :: "('w, 'z) fossa_scheme"
    and members :: "'w \<Rightarrow> int \<Rightarrow> string set"
    and pending :: "'w \<Rightarrow> string set"
  assumes team_emails_Ok: "run_state (fc_team_emails F t) w = (Inr es, w') \<Longrightarrow> set es = members w t"
    and team_emails_keeps: "run_state (fc_team_emails F t) w = (x, w') \<Longrightarrow>
      members w' = members w \<and> pending w' = pending w"
    and has_pending_no: "run_state (fc_has_pending F e) w = (Inr False, w') \<Longrightarrow> e \<notin> pending w"
    and has_pending_keeps: "run_state (fc_has_pending F e) w = (y, w') \<Longrightarrow>
      members w' = members w \<and> pending w' = pending w"
    and add_user_Ok: "run_state (fc_add_user F t e r) w = (Inr u, w') \<Longrightarrow>
      members w' = (members w)(t := insert e (members w t))"
    and add_user_Err: "run_state (fc_add_user F t e r) w = (Inl er, w') \<Longrightarrow>
      members w' = members w \<and> (errors_is er ErrUserAlreadyMember \<longrightarrow> e \<in> members w t)"
    and send_invitation_Ok: "run_state (fc_send_invitation F e) w = (Inr u, w') \<Longrightarrow>
      pending w' = insert e (pending w) \<and> members w' = members w"
    and send_invitation_Err: "run_state (fc_send_invitation F e) w = (Inl er, w') \<Longrightarrow>
      pending w' = pending w \<and> members w' = members w \<and>
      (errors_is er ErrInviteAlreadyExists \<longrightarrow> e \<in> pending w)"
begin

lemma add_user_grows:
  "run_state (fc_add_user F t e r) w = (x, w') \<Longrightarrow> members w t' \<subseteq> members w' t'"
  using add_user_Ok[of t e r w _ w'] add_user_Err[of t e r w _ w'] by (cases x) auto

lemma invited_is_pending:
  assumes "run_state (fc_send_invitation F e) w = (x, w')"
    and "x = Inr () \<or> (\<exists>er. x = Inl er \<and> errors_is er ErrInviteAlreadyExists)"
  shows "e \<in> pending w'"
  using assms send_invitation_Ok[of e w _ w'] send_invitation_Err[of e w _ w'] by auto

end

section \<open>The mock\<close>

record mock =
  mk_teams :: "(string, team) gomap"
  mk_invitations :: "string \<Rightarrow> bool"
  mk_team_members :: "int \<Rightarrow> string list option"
  mk_user_exists :: "string \<Rightarrow> bool"
  mk_user_ids :: "string \<Rightarrow> int"
  mk_next_team_id :: int
  mk_next_user_id :: int
  mk_imported :: "int \<Rightarrow> imported_projects option"
  mk_invitations_sent :: "string list"
  mk_teams_created :: "string list"
  mk_members_added :: "int \<Rightarrow> string list"
  mk_create_team_err :: "go_error option"

definition new_mock :: mock where
  "new_mock =
     \<lparr>mk_teams = [], mk_invitations = (\<lambda>_. False), mk_team_members = (\<lambda>_. None),
      mk_user_exists = (\<lambda>_. False), mk_user_ids = (\<lambda>_. 0), mk_next_team_id = 1000,
      mk_next_user_id = 5000, mk_imported = (\<lambda>_. None), mk_invitations_sent = [],
      mk_teams_created = [], mk_members_added = (\<lambda>_. []), mk_create_team_err = None\<rparr>"

definition mock_create_team :: "string \<Rightarrow> (mock, team result) io" where
  "mock_create_team name = State (\<lambda>m.
     case mk_create_team_err m of
       Some e \<Rightarrow> (Inl e, m)
     | None \<Rightarrow>
         if map_of (mk_teams m) name \<noteq> None then (Inl (Sentinel ErrTeamAlreadyExists), m)
         else let t = zero_team\<lparr>tm_id := mk_next_team_id m, tm_name := name\<rparr> in
              (Inr t, m\<lparr>mk_next_team_id := mk_next_team_id m + 1,
                        mk_teams := map_put name t (mk_teams m),
                        mk_teams_created := mk_teams_created m @ [name],
                        mk_team_members := (mk_team_members m)(tm_id t \<mapsto> [])\<rparr>))"

definition mock_send_user_invitation :: "string \<Rightarrow> (mock, unit result) io" where
  "mock_send_user_invitation email = State (\<lambda>m0.
     let m = m0\<lparr>mk_invitations_sent := mk_invitations_sent m0 @ [email]\<rparr> in
     if mk_user_exists m email then (Inl (Sentinel ErrUserAlreadyMember), m)
     else if mk_invitations m email then (Inl (Sentinel ErrInviteAlreadyExists), m)
     else (Inr (), m\<lparr>mk_invitations := (mk_invitations m)(email := True)\<rparr>))"

definition mock_has_pending_invitation :: "string \<Rightarrow> (mock, bool result) io" where
  "mock_has_pending_invitation email = State (\<lambda>m. (Inr (mk_invitations m email), m))"

definition mock_fetch_team_user_emails :: "int \<Rightarrow> (mock, string list result) io" where
  "mock_fetch_team_user_emails teamID = State (\<lambda>m.
     (case mk_team_members m teamID of None \<Rightarrow> Inl (Msg ''team not found'') | Some es \<Rightarrow> Inr es, m))"

definition members_or_nil :: "mock \<Rightarrow> int \<Rightarrow> string list" where
  "members_or_nil m t = (case mk_team_members m t of None \<Rightarrow> [] | Some es \<Rightarrow> es)"

definition mock_add_user_to_team_by_email :: "int \<Rightarrow> string \<Rightarrow> int \<Rightarrow> (mock, unit result) io" where
  "mock_add_user_to_team_by_email teamID email roleID = State (\<lambda>m.
     if \<not> mk_user_exists m email then (Inl (Msg ''user not found''), m)
     else if email \<in> set (members_or_nil m teamID) then (Inl (Sentinel ErrUserAlreadyMember), m)
     else (Inr (), m\<lparr>mk_team_members := (mk_team_members m)(teamID \<mapsto> members_or_nil m teamID @ [email]),
                     mk_members_added := (mk_members_added m)(teamID := mk_members_added m teamID @ [email])\<rparr>))"

definition mock_fetch_imported_repos :: "int \<Rightarrow> (mock, (int \<times> imported_projects) result) io" where
  "mock_fetch_imported_repos teamID = State (\<lambda>m.
     (case mk_imported m teamID of
        None \<Rightarrow> Inr (0, \<lparr>im_results = [], im_total = 0\<rparr>)
      | Some repos \<Rightarrow> Inr (int (length (im_results repos)), repos), m))"

definition mock_imported_project_links :: "imported_projects \<Rightarrow> string" where
  "mock_imported_project_links ps = concat (map (\<lambda>p. ip_title p @ '' '') (im_results ps))"

definition mock_fetch_team :: "string \<Rightarrow> (mock, team result) io" where
  "mock_fetch_team name = State (\<lambda>m.
     (case map_of (mk_teams m) name of None \<Rightarrow> Inl (Msg ''team not found'') | Some t \<Rightarrow> Inr t, m))"

text \<open>Go ranges over a map in any order: \<open>order\<close> is the order of this call.\<close>

definition mock_fetch_teams :: "(team list \<Rightarrow> team list) \<Rightarrow> (mock, team list result) io" where
  "mock_fetch_teams order = State (\<lambda>m. (Inr (order (map snd (mk_teams m))), m))"

definition give_user_id :: "string \<Rightarrow> mock \<Rightarrow> mock" where
  "give_user_id email m =
     (if mk_user_ids m email = 0
      then m\<lparr>mk_user_ids := (mk_user_ids m)(email := mk_next_user_id m), mk_next_user_id := mk_next_user_id m + 1\<rparr>
      else m)"

definition set_user_exists :: "string \<Rightarrow> bool \<Rightarrow> mock \<Rightarrow> mock" where
  "set_user_exists email exist m =
     (let m1 = m\<lparr>mk_user_exists := (mk_user_exists m)(email := exist)\<rparr>
      in if exist then give_user_id email m1 else m1)"

definition accept_invitation :: "string \<Rightarrow> mock \<Rightarrow> mock" where
  "accept_invitation email m =
     give_user_id email (m\<lparr>mk_invitations := (mk_invitations m)(email := False),
                           mk_user_exists := (mk_user_exists m)(email := True)\<rparr>)"

definition set_imported_repos :: "int \<Rightarrow> imported_projects \<Rightarrow> mock \<Rightarrow> mock" where
  "set_imported_repos teamID repos m = m\<lparr>mk_imported := (mk_imported m)(teamID \<mapsto> repos)\<rparr>"

definition set_create_team_error :: "go_error option \<Rightarrow> mock \<Rightarrow> mock" where
  "set_create_team_error e m = m\<lparr>mk_create_team_err := e\<rparr>"

text \<open>\<^verbatim>\<open>Reset\<close> forgets everything but the id counters.\<close>

definition mock_reset :: "mock \<Rightarrow> mock" where
  "mock_reset m =
     new_mock\<lparr>mk_next_team_id := mk_next_team_id m, mk_next_user_id := mk_next_user_id m\<rparr>"

section \<open>The world of the onboarding server\<close>

text \<open>
  A database in memory, the mock, and what the server has done on GitHub: comments posted
  and labels added.
\<close>

record server_world = mem_world +
  sw_fossa :: mock
  sw_comments :: "(string \<times> string \<times> nat \<times> string) list"
  sw_labels :: "(string \<times> string \<times> nat \<times> string) list"

definition on_fossa :: "(mock, 'a) io \<Rightarrow> (server_world, 'a) io" where
  "on_fossa op = State (\<lambda>w. let (x, m) = run_state op (sw_fossa w) in (x, w\<lparr>sw_fossa := m\<rparr>))"

definition mock_fossa :: "(team list \<Rightarrow> team list) \<Rightarrow> server_world fossa" where
  "mock_fossa order =
     \<lparr>fc_create_team = (\<lambda>n. on_fossa (mock_create_team n)),
      fc_send_invitation = (\<lambda>e. on_fossa (mock_send_user_invitation e)),
      fc_has_pending = (\<lambda>e. on_fossa (mock_has_pending_invitation e)),
      fc_team_emails = (\<lambda>t. on_fossa (mock_fetch_team_user_emails t)),
      fc_add_user = (\<lambda>t e r. on_fossa (mock_add_user_to_team_by_email t e r)),
      fc_imported_repos = (\<lambda>t. on_fossa (mock_fetch_imported_repos t)),
      fc_links = mock_imported_project_links,
      fc_fetch_team = (\<lambda>n. on_fossa (mock_fetch_team n)),
      fc_fetch_teams = on_fossa (mock_fetch_teams order)\<rparr>"

definition mock_members :: "server_world \<Rightarrow> int \<Rightarrow> string set" where
  "mock_members w t = set (members_or_nil (sw_fossa w) t)"

definition mock_pending :: "server_world \<Rightarrow> string set" where
  "mock_pending w = {e. mk_invitations (sw_fossa w) e}"

lemma run_on_fossa:
  "run_state (on_fossa op) w = (x, w') \<longleftrightarrow>
     (\<exists>m. run_state op (sw_fossa w) = (x, m) \<and> w' = w\<lparr>sw_fossa := m\<rparr>)"
  by (auto simp: on_fossa_def split: prod.splits)

interpretation mock: fossa_iface "mock_fossa order" mock_members mock_pending for order
proof (unfold_locales, goal_cases)
  case (1 t w es w')
  then show ?case
    by (auto simp: mock_fossa_def run_on_fossa mock_fetch_team_user_emails_def mock_members_def
        members_or_nil_def split: option.splits)
next
  case (2 t w x w')
  then show ?case
    by (auto simp: mock_fossa_def run_on_fossa mock_fetch_team_user_emails_def mock_members_def
        mock_pending_def fun_eq_iff)
next
  case (3 e w w')
  then show ?case
    by (auto simp: mock_fossa_def run_on_fossa mock_has_pending_invitation_def mock_pending_def)
next
  case (4 e w y w')
  then show ?case
    by (auto simp: mock_fossa_def run_on_fossa mock_has_pending_invitation_def mock_pending_def
        mock_members_def fun_eq_iff)
next
  case (5 t e r w u w')
  then show ?case
    by (auto simp: mock_fossa_def run_on_fossa mock_add_user_to_team_by_email_def mock_members_def
        members_or_nil_def fun_eq_iff split: if_splits option.splits)
next
  case (6 t e r w er w')
  then show ?case
    by (auto simp: mock_fossa_def run_on_fossa mock_add_user_to_team_by_email_def mock_members_def
        fun_eq_iff split: if_splits)
next
  case (7 e w u w')
  then show ?case
    by (auto simp: mock_fossa_def run_on_fossa mock_send_user_invitation_def mock_pending_def Let_def
        mock_members_def members_or_nil_def fun_eq_iff split: if_splits)
next
  case (8 e w er w')
  then show ?case
    by (auto simp: mock_fossa_def run_on_fossa mock_send_user_invitation_def mock_pending_def Let_def
        mock_members_def members_or_nil_def fun_eq_iff split: if_splits)
qed

end
