(* ===== verification/Onboarding_Server.thy ===== *)
theory Onboarding_Server
  imports Fossa_Mock Onboarding_Tasks
begin

text \<open>
  \<^verbatim>\<open>onboarding/server.go\<close>: the webhook server that labels onboarding issues, signs projects
  up for FOSSA and adds their maintainers to the FOSSA team.  The database \<open>G\<close>, the FOSSA
  client \<open>F\<close> and the GitHub client \<open>GH\<close> are parameters.  A Go panic ends the request, so a
  handler returns \<open>Panic\<close> or \<open>Return\<close>.
\<close>

section \<open>GitHub events\<close>

record 'w github =
  gh_create_comment :: "string \<Rightarrow> string \<Rightarrow> nat \<Rightarrow> string \<Rightarrow> ('w, unit result) io"
  gh_add_label :: "string \<Rightarrow> string \<Rightarrow> nat \<Rightarrow> string \<Rightarrow> ('w, unit result) io"

record issue =
  is_title :: string
  is_number :: nat
  is_assignees :: "string list"
  is_assignee :: "string option"
  is_labels :: "string list"

record event =
  ev_action :: string
  ev_owner :: string
  ev_repo :: string
  ev_issue :: issue

record comment_event = event +
  ev_body :: string
  ev_actor :: string

text \<open>What \<^verbatim>\<open>github.ValidatePayload\<close> and \<^verbatim>\<open>github.ParseWebHook\<close> make of a request.\<close>

datatype delivery = Bad_Signature | Unparsable | Issue_Comment comment_event | Issues event | Other_Event


record listener =
  ls_projects :: "(string, loaded_project) gomap"

record http_reply =
  rp_status :: nat
  rp_body :: string

section \<open>Helpers\<close>

definition update_issue :: "'w github \<Rightarrow> 'z event_scheme \<Rightarrow> string \<Rightarrow> ('w, unit result) io" where
  "update_issue GH e comment =
     gh_create_comment GH (ev_owner e) (ev_repo e) (is_number (ev_issue e)) comment"

text \<open>A call whose error is only logged.\<close>

definition ignore :: "('w, 'a result) io \<Rightarrow> ('w, unit) io" where
  "ignore m = do { _ \<leftarrow> m; ret () }"

definition is_registered :: "string \<Rightarrow> loaded_maintainer list result \<Rightarrow> bool" where
  "is_registered actor r = (case r of Inl _ \<Rightarrow> False | Inr ms \<Rightarrow> list_ex (\<lambda>m. mt_github m = actor) ms)"

definition is_authorized_for_project_action ::
  "'w gorm \<Rightarrow> string \<Rightarrow> 'z project_scheme \<Rightarrow> issue \<Rightarrow> ('w, bool) io" where
  "is_authorized_for_project_action G actor project iss =
     do { ms \<leftarrow> get_maintainers_by_project G (row_id project);
          if is_registered actor ms then ret True
          else do {
            staff \<leftarrow> is_staff_github_account G actor;
            ret (staff = Inr True \<or> actor \<in> set (is_assignees iss) \<or> is_assignee iss = Some actor) } }"

definition missing_email :: "string \<Rightarrow> bool" where
  "missing_email e \<longleftrightarrow> trim_space e = [] \<or> trim_space e = EMAIL_MISSING"

definition missing_handle :: "string \<Rightarrow> bool" where
  "missing_handle h \<longleftrightarrow> trim_space h = [] \<or> trim_space h = GITHUB_MISSING"

fun filter_eligible_maintainers ::
  "'z maintainer_scheme list \<Rightarrow> 'z maintainer_scheme list \<times> 'z maintainer_scheme list" where
  "filter_eligible_maintainers [] = ([], [])"
| "filter_eligible_maintainers (m # ms) =
     (let (eligible, skipped) = filter_eligible_maintainers ms in
      if missing_email (mt_email m) \<or> missing_handle (mt_github m) then (eligible, m # skipped)
      else (m # eligible, skipped))"

definition format_handles :: "string list \<Rightarrow> string" where
  "format_handles handles = (if handles = [] then [] else ''@'' @ join handles '' @'')"

section \<open>Adding the maintainers to the FOSSA team\<close>

definition act_pending :: "string \<Rightarrow> string" where "act_pending h = ''@'' @ h @ '': invitation still pending; skipped''"
definition act_member :: "string \<Rightarrow> string" where "act_member h = ''@'' @ h @ '': already a member; no action''"
definition act_error :: "string \<Rightarrow> string" where
  "act_error h = ''@'' @ h @ '': error adding to team; please retry or contact support''"
definition act_added :: "string \<Rightarrow> string \<Rightarrow> string" where
  "act_added h p = ''@'' @ h @ '': added to FOSSA team '' @ p @ '' as Team Admin''"

definition fossa_team_admin :: int where "fossa_team_admin = 3"

text \<open>
  One iteration of the loop: the action it reports, and the list of team e-mails it goes on
  with.
\<close>

definition add_one_maintainer ::
  "'w gorm \<Rightarrow> 'w fossa \<Rightarrow> 'y project_scheme \<Rightarrow> int \<Rightarrow> 'z maintainer_scheme \<Rightarrow> string list \<Rightarrow>
   ('w, string \<times> string list) io" where
  "add_one_maintainer G F project teamID m existingEmails =
     do { p \<leftarrow> fc_has_pending F (mt_email m);
          if p = Inr True then ret (act_pending (mt_github m), existingEmails)
          else if mt_email m \<in> set existingEmails then ret (act_member (mt_github m), existingEmails)
          else do {
            r \<leftarrow> fc_add_user F teamID (mt_email m) fossa_team_admin;
            case r of
              Inl e \<Rightarrow>
                if errors_is e ErrUserAlreadyMember then ret (act_member (mt_github m), existingEmails)
                else ret (act_error (mt_github m), existingEmails)
            | Inr _ \<Rightarrow> do {
                _ \<leftarrow> log_audit_event G (zero_audit_log
                  \<lparr>al_project_id := Some (row_id project), al_maintainer_id := Some (row_id m),
                   al_action := ''FOSSA_ADD_MEMBER'',
                   al_message := ''Added @'' @ mt_github m @ '' to FOSSA team '' @ pr_name project\<rparr>);
                ret (act_added (mt_github m) (pr_name project), existingEmails @ [mt_email m]) } } }"

fun add_maintainers_loop ::
  "'w gorm \<Rightarrow> 'w fossa \<Rightarrow> 'y project_scheme \<Rightarrow> int \<Rightarrow> 'z maintainer_scheme list \<Rightarrow> string list \<Rightarrow>
   ('w, string list) io" where
  "add_maintainers_loop G F project teamID [] existingEmails = ret []"
| "add_maintainers_loop G F project teamID (m # ms) existingEmails =
     do { (a, es) \<leftarrow> add_one_maintainer G F project teamID m existingEmails;
          rest \<leftarrow> add_maintainers_loop G F project teamID ms es;
          ret (a # rest) }"

definition add_project_maintainers_to_fossa_team ::
  "'w gorm \<Rightarrow> 'w fossa \<Rightarrow> 'y project_scheme \<Rightarrow> int \<Rightarrow> ('w, string list \<times> go_error option) io" where
  "add_project_maintainers_to_fossa_team G F project teamID =
     do { r \<leftarrow> get_maintainers_by_project G (row_id project);
          case r of
            Inl e \<Rightarrow> ret ([], Some (Wrap ''GetMaintainersByProject: '' e []))
          | Inr ms \<Rightarrow>
              let eligible = fst (filter_eligible_maintainers ms) in
              if eligible = [] then ret ([''No registered maintainers found for this project''], None)
              else do {
                es \<leftarrow> fc_team_emails F teamID;
                case es of
                  Inl e \<Rightarrow> ret ([], Some (Wrap ''FetchTeamUserEmails: '' e []))
                | Inr existingEmails \<Rightarrow> do {
                    actions \<leftarrow> add_maintainers_loop G F project teamID eligible existingEmails;
                    ret (actions, None) } } }"

section \<open>Signing a project up for FOSSA\<close>

definition nl_str :: string where "nl_str = [CHR 0x0A]"
definition check_mark :: string where "check_mark = [CHR 0xE2, CHR 0x9C, CHR 0x85]"
definition warn_sign :: string where "warn_sign = [CHR 0xE2, CHR 0x9A, CHR 0xA0, CHR 0xEF, CHR 0xB8, CHR 0x8F]"
definition people :: string where "people = [CHR 0xF0, CHR 0x9F, CHR 0x91, CHR 0xA5]"
definition cross_mark :: string where "cross_mark = [CHR 0xE2, CHR 0x9D, CHR 0x8C]"

definition skipped_display :: "'z maintainer_scheme \<Rightarrow> string" where
  "skipped_display m =
     (let handle = trim_space (mt_github m); name = trim_space (mt_name m);
          display = (if handle \<noteq> [] \<and> handle \<noteq> GITHUB_MISSING then ''@'' @ handle
                     else if name \<noteq> [] then name else ''UNKNOWN_MAINTAINER'');
          fields = (if trim_space (mt_email m) = [] \<or> mt_email m = EMAIL_MISSING then [''email''] else []) @
                   (if handle = [] \<or> mt_github m = GITHUB_MISSING then [''github''] else [])
      in display @ '' ('' @ join fields '', '' @ '')'')"

definition team_link :: "string \<Rightarrow> int \<Rightarrow> string" where
  "team_link name tid =
     ''['' @ name @ '' team](https://app.fossa.com/account/settings/organization/teams/'' @ itoa tid @ '')''"

text \<open>The service team of the project, found or made: the action to report and the team's id.\<close>

definition ensure_fossa_team ::
  "'w gorm \<Rightarrow> 'w fossa \<Rightarrow> 'y project_scheme \<Rightarrow> ('w, string list \<times> (go_error + int)) io" where
  "ensure_fossa_team G F project =
     do { r \<leftarrow> get_project_service_team_map G ''FOSSA'';
          let warn = (case r of
                        Inl e \<Rightarrow> ['':warning: Problem retrieving serviceTeams.  '' @ error_text e] | Inr _ \<Rightarrow> []);
          let found = (case r of Inl _ \<Rightarrow> None | Inr m \<Rightarrow> map_of m (row_id project));
          case found of
            Some st \<Rightarrow>
              ret (warn @ [people @ '' '' @ team_link (pr_name project) (st_service_team_id st) @
                           '' was already in FOSSA''], Inr (st_service_team_id st))
          | None \<Rightarrow> do {
              t \<leftarrow> fc_create_team F (pr_name project);
              case t of
                Inl e \<Rightarrow>
                  ret (warn @ ['':x: Problem creating team on FOSSA for '' @ pr_name project @ '': '' @ error_text e],
                       Inl (Wrap ''create team on FOSSA: '' e []))
              | Inr team \<Rightarrow> do {
                  _ \<leftarrow> create_service_team G (row_id project) (pr_name project) (tm_id team) (tm_name team);
                  ret (warn @ [people @ ''  '' @ team_link (tm_name team) (tm_id team) @
                               '' has been created in FOSSA''], Inr (tm_id team)) } } }"

record invite_state =
  iv_actions :: "string list"
  iv_invited :: "string list"
  iv_existing :: "string list"

definition invite_one ::
  "'w fossa \<Rightarrow> int \<Rightarrow> 'z maintainer_scheme \<Rightarrow> invite_state \<Rightarrow> ('w, invite_state) io" where
  "invite_one F teamID m s =
     do { r \<leftarrow> fc_send_invitation F (mt_email m);
          case r of
            Inr _ \<Rightarrow> ret (s\<lparr>iv_invited := iv_invited s @ [mt_github m]\<rparr>)
          | Inl e \<Rightarrow>
              if errors_is e ErrInviteAlreadyExists
              then ret (s\<lparr>iv_invited := iv_invited s @ [mt_github m]\<rparr>)
              else if errors_is e ErrUserAlreadyMember
              then do {
                a \<leftarrow> fc_add_user F teamID (mt_email m) 3;
                ret (case a of
                       Inl _ \<Rightarrow> s\<lparr>iv_actions := iv_actions s @
                                  [''@'' @ mt_github m @ '' : error adding you to your team on CNCF FOSSA'']\<rparr>
                     | Inr _ \<Rightarrow> s\<lparr>iv_existing := iv_existing s @ [mt_github m]\<rparr>) }
              else ret (s\<lparr>iv_actions := iv_actions s @
                     [''@'' @ mt_github m @ '' there was a problem sending you a CNCF FOSSA invitation. '' @
                      ''A CNCF Staff member will contact you.'']\<rparr>) }"

text \<open>The last part: \<^verbatim>\<open>teamMap[project.ID].ServiceTeamID\<close> panics where the map has no entry.\<close>

definition report_imports ::
  "'w gorm \<Rightarrow> 'w fossa \<Rightarrow> 'y project_scheme \<Rightarrow> string list \<Rightarrow> ('w, (string list \<times> go_error option) go) io" where
  "report_imports G F project actions =
     do { r \<leftarrow> get_project_service_team_map G ''FOSSA'';
          case r of
            Inl e \<Rightarrow> ret (Return ([], Some e))
          | Inr teamMap \<Rightarrow>
              (case map_of teamMap (row_id project) of
                 None \<Rightarrow> ret Panic
               | Some st \<Rightarrow> do {
                   x \<leftarrow> fc_imported_repos F (st_service_team_id st);
                   let (count, repos, err) =
                     (case x of
                        Inl e \<Rightarrow> (0, \<lparr>im_results = [], im_total = 0\<rparr>,
                                   [''Error occurred during FetchImportedRepos '' @ error_text e])
                      | Inr (c, ps) \<Rightarrow> (c, ps, []));
                   ret (Return (actions @ err @
                     [if count = 0 then ''The '' @ pr_name project @ '' project has not yet imported repos''
                      else ''The '' @ pr_name project @ '' project team have imported '' @ itoa count @
                           '' repo(s)<BR>'' @ fc_links F repos], None)) }) }"

definition sign_project_up_for_fossa ::
  "'w gorm \<Rightarrow> 'w fossa \<Rightarrow> 'y project_scheme \<Rightarrow> ('w, (string list \<times> go_error option) go) io" where
  "sign_project_up_for_fossa G F project =
     do { r \<leftarrow> get_maintainers_by_project G (row_id project);
          case r of
            Inl _ \<Rightarrow> ret (Return (['':x: '' @ pr_name project @
                '' maintainers not present in db, @cncf-projects-team check maintainer-d db''],
                Some (Msg (''signProjectUpForFOSSA: maintainers not found in db for project '' @ pr_name project @
                           '' (ID: '' @ itoa (int (row_id project)) @ '')''))))
          | Inr ms \<Rightarrow> do {
              let (eligible, skipped) = filter_eligible_maintainers ms;
              let a1 = [check_mark @ ''  '' @ pr_name project @ '' has '' @ itoa (int (length eligible)) @
                        '' maintainers registered in maintainer-d''] @
                       (if skipped = [] then []
                        else [warn_sign @ '' Maintainers missing email or GitHub handle: '' @
                              join (map skipped_display skipped) '' '']);
              (a2, t) \<leftarrow> ensure_fossa_team G F project;
              case t of
                Inl e \<Rightarrow> ret (Return (a1 @ a2, Some e))
              | Inr teamID \<Rightarrow>
                  if eligible = []
                  then ret (Return (a1 @ a2 @ [''Maintainers not yet registered, for project '' @ pr_name project],
                         Some (Msg ('':x: no maintainers found for project '' @ itoa (int (row_id project))))))
                  else do {
                    s \<leftarrow> for_each eligible (invite_one F teamID)
                           \<lparr>iv_actions = [], iv_invited = [], iv_existing = []\<rparr>;
                    report_imports G F project (a1 @ a2 @ iv_actions s @
                      (if iv_invited s = [] then []
                       else [check_mark @ '' Invitation(s) to join CNCF FOSSA sent to '' @ format_handles (iv_invited s)]) @
                      (if iv_existing s = [] then []
                       else [check_mark @ '' CNCF FOSSA Users added to the team as Team Admins '' @
                             format_handles (iv_existing s)])) } } }"

section \<open>The handlers\<close>

definition chosen_header :: string where
  "chosen_header = ''###  maintainer-d CNCF FOSSA onboarding - Report'' @ nl_str @ nl_str @
     ''#### :spiral_notepad: Actions taken during onboarding...'' @ nl_str @ nl_str"

definition chosen_footer :: string where
  "chosen_footer = ''---'' @ nl_str @ nl_str @
     ''When you have accepted your invitation to join CNCF FOSSA :'' @ nl_str @ nl_str @
     ''- Add a comment _/fossa-invite accepted_ to this issue, the maintainer-d onboarding process will '' @
     ''add you to you team as a **Team Admin** '' @
     ''([FOSSA RBAC](https://docs.fossa.com/docs/role-based-access-control#team-roles)).'' @ nl_str @ nl_str @
     ''- then, _and only then_, can you start importing your code and documentation repositories into '' @
     ''FOSSA: [Getting Started Guide](https://docs.fossa.com/docs/getting-started#importing-a-project).'' @
     nl_str @ nl_str"

definition bullet_list :: "string list \<Rightarrow> string" where
  "bullet_list actions = concat (map (\<lambda>a. ''- '' @ a @ nl_str) actions)"

definition chosen_comment :: "string list \<Rightarrow> go_error option \<Rightarrow> string" where
  "chosen_comment actions err =
     chosen_header @ bullet_list actions @
     (case err of
        Some e \<Rightarrow> nl_str @ cross_mark @ '' Onboarding encountered some problems: `'' @ error_text e @ ''`'' @ nl_str
      | None \<Rightarrow> chosen_footer)"

definition zero_loaded_project :: loaded_project where
  "zero_loaded_project = with_associations [] [] zero_project"

text \<open>An unknown project name gives the zero project of the map lookup.\<close>

definition fossa_chosen ::
  "'w gorm \<Rightarrow> 'w fossa \<Rightarrow> 'w github \<Rightarrow> listener \<Rightarrow> string \<Rightarrow> event \<Rightarrow> ('w, unit go) io" where
  "fossa_chosen G F GH s projectName e =
     (let project = (case map_of (ls_projects s) projectName of None \<Rightarrow> zero_loaded_project | Some p \<Rightarrow> p) in
      do { r \<leftarrow> sign_project_up_for_fossa G F project;
           case r of
             Panic \<Rightarrow> ret Panic
           | Return (actions, err) \<Rightarrow> do {
               _ \<leftarrow> update_issue GH e (chosen_comment actions err);
               ret (Return ()) } })"

definition bad_label_usage :: string where
  "bad_label_usage = ''Invalid `/label` command format. Usage: `/label fossa` or `/label snyk`''"

definition label_confirmation :: "string \<Rightarrow> string \<Rightarrow> string" where
  "label_confirmation actor labelName =
     (if labelName = ''fossa''
      then ''@'' @ actor @ '' added the `fossa` label. This indicates the preference to use CNCF FOSSA for license scanning.''
      else ''@'' @ actor @ '' added the `snyk` label. This indicates the preference to use CNCF Snyk for license scanning.'')"

text \<open>The command with its argument checked and the project found: authorise, then add the label.\<close>

definition label_project ::
  "'w gorm \<Rightarrow> 'w github \<Rightarrow> 'y project_scheme \<Rightarrow> string \<Rightarrow> comment_event \<Rightarrow> ('w, unit) io" where
  "label_project G GH project labelName e =
     (let actor = ev_actor e in
      do { ms \<leftarrow> get_maintainers_by_project G (row_id project);
           authorized \<leftarrow> (if is_registered actor ms then ret True
                         else do { staff \<leftarrow> is_staff_github_account G actor; ret (staff = Inr True) });
           if \<not> authorized
           then ignore (update_issue GH e (''@'' @ actor @
                  '', looks like you have not yet been registered in maintainer-d. A CNCF Projects Team member '' @
                  ''will be in touch to assist you further.''))
           else do {
             r \<leftarrow> gh_add_label GH (ev_owner e) (ev_repo e) (is_number (ev_issue e)) labelName;
             case r of
               Inl _ \<Rightarrow> ignore (update_issue GH e (''Failed to add label `'' @ labelName @
                          ''` to the issue. Please contact CNCF staff.''))
             | Inr _ \<Rightarrow> ignore (update_issue GH e (label_confirmation actor labelName)) } })"

definition handle_label_command ::
  "'w gorm \<Rightarrow> 'w github \<Rightarrow> listener \<Rightarrow> comment_event \<Rightarrow> ('w, unit) io" where
  "handle_label_command G GH s e =
     (let parts = Go_Base.fields (ev_body e) in
      if length parts \<noteq> 2 then ignore (update_issue GH e bad_label_usage)
      else let labelName = to_lower (parts ! 1) in
        if labelName \<noteq> ''fossa'' \<and> labelName \<noteq> ''snyk''
        then ignore (update_issue GH e (''Invalid label `'' @ parts ! 1 @
               ''`. Only `fossa` and `snyk` labels are supported.''))
        else case get_project_name_from_project_title (is_title (ev_issue e)) of
          Inl _ \<Rightarrow> ignore (update_issue GH e ''Unable to determine project from issue title.'')
        | Inr projectName \<Rightarrow>
            (case map_of (ls_projects s) projectName of
               None \<Rightarrow> ignore (update_issue GH e (''Project `'' @ projectName @
                        ''` not found in maintainer-d database.''))
             | Some project \<Rightarrow> label_project G GH project labelName e))"

definition membership_comment :: "string \<Rightarrow> string list \<Rightarrow> go_error option \<Rightarrow> string" where
  "membership_comment projectName actions err =
     ''### maintainer-d - CNCF FOSSA Team Membership Update'' @ nl_str @ nl_str @
     ''Project: '' @ projectName @ nl_str @ nl_str @ bullet_list actions @
     (case err of None \<Rightarrow> []
      | Some e \<Rightarrow> nl_str @ ''Note: encountered some errors: '' @ error_text e @ nl_str)"

text \<open>\<^verbatim>\<open>/fossa-invite accepted\<close> on an issue whose project is known.\<close>

definition invite_accepted ::
  "'w gorm \<Rightarrow> 'w fossa \<Rightarrow> 'w github \<Rightarrow> 'y project_scheme \<Rightarrow> comment_event \<Rightarrow> ('w, unit) io" where
  "invite_accepted G F GH project e =
     do { ok \<leftarrow> is_authorized_for_project_action G (ev_actor e) project (ev_issue e);
          if \<not> ok then ignore (update_issue GH e ''You are not authorized to perform this action.'')
          else do {
            r \<leftarrow> get_project_service_team_map G ''FOSSA'';
            case r of
              Inl _ \<Rightarrow> ret ()
            | Inr stMap \<Rightarrow>
                let teamID = (case map_of stMap (row_id project) of None \<Rightarrow> 0 | Some st \<Rightarrow> st_service_team_id st) in
                if teamID = 0
                then ignore (update_issue GH e (''FOSSA team for project '' @ quote (pr_name project) @
                  '' was not found. Please add the 'fossa' label to the onboarding issue to create the team, '' @
                  ''then re-run this command.''))
                else do {
                  (actions, err) \<leftarrow> add_project_maintainers_to_fossa_team G F project teamID;
                  ignore (update_issue GH e (membership_comment (pr_name project) actions err)) } } }"

definition handle_comment ::
  "'w gorm \<Rightarrow> 'w fossa \<Rightarrow> 'w github \<Rightarrow> listener \<Rightarrow> comment_event \<Rightarrow> ('w, unit) io" where
  "handle_comment G F GH s e =
     (if ev_action e \<noteq> ''created'' then ret ()
      else if has_prefix (ev_body e) ''/label '' then handle_label_command G GH s e
      else if ev_body e \<noteq> ''/fossa-invite accepted'' then ret ()
      else case get_project_name_from_project_title (is_title (ev_issue e)) of
        Inl _ \<Rightarrow> ret ()
      | Inr projectName \<Rightarrow>
          (case map_of (ls_projects s) projectName of
             None \<Rightarrow> ret ()
           | Some project \<Rightarrow> invite_accepted G F GH project e))"

fun fossa_labels ::
  "'w gorm \<Rightarrow> 'w fossa \<Rightarrow> 'w github \<Rightarrow> listener \<Rightarrow> string \<Rightarrow> event \<Rightarrow> string list \<Rightarrow> ('w, unit go) io" where
  "fossa_labels G F GH s projectName e [] = ret (Return ())"
| "fossa_labels G F GH s projectName e (name # ls) =
     (if name = ''fossa''
      then do { r \<leftarrow> fossa_chosen G F GH s projectName e;
                case r of Panic \<Rightarrow> ret Panic | Return _ \<Rightarrow> fossa_labels G F GH s projectName e ls }
      else fossa_labels G F GH s projectName e ls)"

definition handle_issues ::
  "'w gorm \<Rightarrow> 'w fossa \<Rightarrow> 'w github \<Rightarrow> listener \<Rightarrow> event \<Rightarrow> ('w, unit go) io" where
  "handle_issues G F GH s e =
     (if ev_action e \<noteq> ''labeled'' then ret (Return ())
      else let projectName = (case get_project_name_from_project_title (is_title (ev_issue e)) of
                                Inl _ \<Rightarrow> [] | Inr n \<Rightarrow> n)
           in fossa_labels G F GH s projectName e (is_labels (ev_issue e)))"

definition handle_webhook ::
  "'w gorm \<Rightarrow> 'w fossa \<Rightarrow> 'w github \<Rightarrow> listener \<Rightarrow> delivery \<Rightarrow> ('w, http_reply go) io" where
  "handle_webhook G F GH s d =
     (case d of
        Bad_Signature \<Rightarrow>
          ret (Return \<lparr>rp_status = 401, rp_body = ''handleWebhook: github.ValidatePayload, invalid signature''\<rparr>)
      | Unparsable \<Rightarrow> ret (Return \<lparr>rp_status = 400, rp_body = ''handleWebhook: could not parse event''\<rparr>)
      | Issue_Comment e \<Rightarrow> do { _ \<leftarrow> handle_comment G F GH s e; ret (Return \<lparr>rp_status = 200, rp_body = []\<rparr>) }
      | Issues e \<Rightarrow> do {
          r \<leftarrow> handle_issues G F GH s e;
          ret (case r of Panic \<Rightarrow> Panic | Return _ \<Rightarrow> Return \<lparr>rp_status = 200, rp_body = []\<rparr>) }
      | Other_Event \<Rightarrow> ret (Return \<lparr>rp_status = 200, rp_body = []\<rparr>))"

definition handle_health :: "'w gorm option \<Rightarrow> ('w, http_reply) io" where
  "handle_health store =
     do { r \<leftarrow> ping store;
          ret (case r of
                 Inl _ \<Rightarrow> \<lparr>rp_status = 503, rp_body = ''unhealthy''\<rparr>
               | Inr _ \<Rightarrow> \<lparr>rp_status = 200, rp_body = ''{'' @ [CHR 0x22] @ ''status'' @ [CHR 0x22] @ '':'' @
                            [CHR 0x22] @ ''ok'' @ [CHR 0x22] @ ''}''\<rparr>) }"

end
