(* ===== verification/Server_Laws.thy ===== *)
theory Server_Laws
  imports Onboarding_Server Store_Laws
begin

text \<open>
  What the onboarding server guarantees: who may label an issue or change a FOSSA team, and
  that what it reports about team membership is true.
\<close>

section \<open>Store and FOSSA together\<close>

text \<open>The contracts of the two, and that writing an audit record does not touch FOSSA.\<close>

locale fossa_server = gorm_db G tabs + fossa_iface F members pending
  for G :: "'w gorm" and tabs :: "'w \<Rightarrow> db" and F :: "'w fossa"
    and members :: "'w \<Rightarrow> int \<Rightarrow> string set" and pending :: "'w \<Rightarrow> string set" +
  assumes audit_frame: "run_state (t_create (audit_logs G) a) w = (x, w') \<Longrightarrow> members w' = members w"

text \<open>What an action line of the membership report may claim.\<close>

definition truthful :: "string \<Rightarrow> string set \<Rightarrow> loaded_maintainer \<Rightarrow> string \<Rightarrow> bool" where
  "truthful projectName inTeam m a \<longleftrightarrow>
     (a \<in> {act_added (mt_github m) projectName, act_member (mt_github m)} \<and> mt_email m \<in> inTeam) \<or>
     a \<in> {act_pending (mt_github m), act_error (mt_github m)}"

text \<open>An actor who is no maintainer of the project and no staff member.\<close>

definition stranger :: "tables \<Rightarrow> nat \<Rightarrow> string \<Rightarrow> bool" where
  "stranger d i actor \<longleftrightarrow>
     list_all (\<lambda>m. mt_github m \<noteq> actor) (maintainers_of d i) \<and>
     list_all (\<lambda>s. \<not> equal_fold (sm_github s) actor) (tb_staff d)"

lemma truthful_mono: "truthful p A m a \<Longrightarrow> A \<subseteq> B \<Longrightarrow> truthful p B m a"
  by (auto simp: truthful_def)

context fossa_server
begin

lemma log_audit_members: "run_state (log_audit_event G ev) w = (x, w') \<Longrightarrow> members w' = members w"
  by (auto simp: log_audit_event_def Let_def split: prod.splits sum.splits if_splits dest!: audit_frame)

lemma add_one_maintainer_truthful:
  assumes r: "run_state (add_one_maintainer G F project t m es) w = ((a, es'), w')"
    and es: "set es \<subseteq> members w t"
  shows "set es' \<subseteq> members w' t \<and> members w t \<subseteq> members w' t \<and>
    truthful (pr_name project) (members w' t) m a"
proof -
  obtain p w1 where p: "run_state (fc_has_pending F (mt_email m)) w = (p, w1)"
    by (cases "run_state (fc_has_pending F (mt_email m)) w")
  have m1: "members w1 = members w" using has_pending_keeps[OF p] by simp
  show ?thesis
  proof (cases "p = Inr True \<or> mt_email m \<in> set es")
    case True
    then show ?thesis using r p m1 es
      by (auto simp: add_one_maintainer_def truthful_def split: if_splits)
  next
    case False
    obtain x w2 where x: "run_state (fc_add_user F t (mt_email m) fossa_team_admin) w1 = (x, w2)"
      by (cases "run_state (fc_add_user F t (mt_email m) fossa_team_admin) w1")
    show ?thesis
    proof (cases x)
      case (Inl e)
      then show ?thesis using r p m1 es False x add_user_Err[of t _ _ w1 e w2]
        by (auto simp: add_one_maintainer_def truthful_def split: if_splits)
    next
      case (Inr u)
      then have m2: "members w2 = (members w)(t := insert (mt_email m) (members w t))"
        using add_user_Ok[of t _ _ w1 u w2] x m1 by simp
      have "members w' = members w2" and "a = act_added (mt_github m) (pr_name project)"
        and "es' = es @ [mt_email m]"
        using r p False x Inr
        by (auto simp: add_one_maintainer_def split: if_splits prod.splits dest: log_audit_members)
      then show ?thesis using m2 es by (auto simp: truthful_def)
    qed
  qed
qed

lemma add_maintainers_loop_truthful:
  "run_state (add_maintainers_loop G F project t ms es) w = (as, w') \<Longrightarrow> set es \<subseteq> members w t \<Longrightarrow>
   members w t \<subseteq> members w' t \<and> list_all2 (truthful (pr_name project) (members w' t)) ms as"
proof (induction ms arbitrary: es w as)
  case (Cons m ms)
  obtain a es1 w1 where s: "run_state (add_one_maintainer G F project t m es) w = ((a, es1), w1)"
    by (metis prod.collapse)
  obtain rest w2 where l: "run_state (add_maintainers_loop G F project t ms es1) w1 = (rest, w2)"
    by (metis prod.collapse)
  have e: "as = a # rest" "w' = w2" using Cons.prems(1) s l by auto
  note one = add_one_maintainer_truthful[OF s Cons.prems(2)]
  have "members w1 t \<subseteq> members w2 t \<and> list_all2 (truthful (pr_name project) (members w2 t)) ms rest"
    using Cons.IH[OF l[folded e(2)]] one e(2) by blast
  then show ?case using one e by (auto intro: truthful_mono)
qed simp

lemma add_project_maintainers_truthful:
  assumes "run_state (add_project_maintainers_to_fossa_team G F project t) w = ((as, None), w')"
  shows "\<exists>ms. mset ms = mset (maintainers_of (cur (tabs w)) (row_id project)) \<and>
    (let el = fst (filter_eligible_maintainers ms) in
     if el = [] then as = [''No registered maintainers found for this project'']
     else list_all2 (truthful (pr_name project) (members w' t)) el as)"
proof -
  obtain r w1 where g: "run_state (get_maintainers_by_project G (row_id project)) w = (r, w1)"
    by (metis prod.collapse)
  with assms obtain ms where r: "r = Inr ms"
    by (cases r) (auto simp: add_project_maintainers_to_fossa_team_def)
  have ms: "mset ms = mset (maintainers_of (cur (tabs w)) (row_id project))"
    using get_maintainers_Ok g r by blast
  let ?el = "fst (filter_eligible_maintainers ms)"
  show ?thesis
  proof (cases "?el = []")
    case True
    then show ?thesis using assms g r ms
      by (auto simp: add_project_maintainers_to_fossa_team_def Let_def intro!: exI[of _ ms])
  next
    case False
    obtain x w2 where t: "run_state (fc_team_emails F t) w1 = (x, w2)" by (metis prod.collapse)
    with assms g r False obtain es where x: "x = Inr es"
      by (cases x) (auto simp: add_project_maintainers_to_fossa_team_def Let_def)
    then have s: "set es \<subseteq> members w2 t"
      using team_emails_Ok[of t w1 es w2] team_emails_keeps[OF t] t by simp
    have l: "run_state (add_maintainers_loop G F project t ?el es) w2 = (as, w')"
      using assms g r False t x
      by (auto simp: add_project_maintainers_to_fossa_team_def Let_def split: prod.splits)
    show ?thesis using add_maintainers_loop_truthful[OF l s] False ms by (auto simp: Let_def)
  qed
qed

end

context gorm_db
begin

lemma stranger_not_registered:
  assumes "stranger (cur (tabs w)) i actor" and "run_state (get_maintainers_by_project G i) w = (r, w1)"
  shows "\<not> is_registered actor r"
proof (cases r)
  case (Inr ms)
  then have "set ms = set (maintainers_of (cur (tabs w)) i)"
    using get_maintainers_Ok assms(2) by (metis mset_eq_setD)
  then show ?thesis using assms(1) Inr by (auto simp: is_registered_def stranger_def list_ex_iff list_all_iff)
qed (simp add: is_registered_def)

lemma stranger_not_staff:
  assumes "stranger (cur (tabs w)) i actor" and "tabs w1 = tabs w"
    and "run_state (is_staff_github_account G actor) w1 = (r, w2)"
  shows "r \<noteq> Inr True"
proof
  assume "r = Inr True"
  then have "\<exists>s \<in> set (tb_staff (cur (tabs w))). equal_fold (sm_github s) actor"
    using is_staff_Ok[of actor w1 True w2] assms(2,3) by simp
  then show False using assms(1) by (auto simp: stranger_def list_all_iff)
qed

lemma stranger_label:
  assumes "stranger (cur (tabs w)) (row_id project) (ev_actor e)"
  shows "run_state (label_project G (GH\<lparr>gh_add_label := f\<rparr>) project l e) w =
    run_state (label_project G GH project l e) w"
proof -
  obtain r w1 where g: "run_state (get_maintainers_by_project G (row_id project)) w = (r, w1)"
    by (metis prod.collapse)
  obtain s w2 where st: "run_state (is_staff_github_account G (ev_actor e)) w1 = (s, w2)"
    by (metis prod.collapse)
  have "\<not> is_registered (ev_actor e) r" "s \<noteq> Inr True"
    using stranger_not_registered[OF assms g] stranger_not_staff[OF assms get_maintainers_tabs[OF g] st]
    by auto
  then show ?thesis using g st by (simp add: label_project_def update_issue_def Let_def)
qed

lemma stranger_invite:
  assumes "stranger (cur (tabs w)) (row_id project) (ev_actor e)"
    and "ev_actor e \<notin> set (is_assignees (ev_issue e))" "is_assignee (ev_issue e) \<noteq> Some (ev_actor e)"
  shows "run_state (invite_accepted G F' (GH\<lparr>gh_add_label := f\<rparr>) project e) w =
    run_state (invite_accepted G F GH project e) w"
proof -
  obtain r w1 where g: "run_state (get_maintainers_by_project G (row_id project)) w = (r, w1)"
    by (metis prod.collapse)
  obtain s w2 where st: "run_state (is_staff_github_account G (ev_actor e)) w1 = (s, w2)"
    by (metis prod.collapse)
  have "\<not> is_registered (ev_actor e) r" "s \<noteq> Inr True"
    using stranger_not_registered[OF assms(1) g] stranger_not_staff[OF assms(1) get_maintainers_tabs[OF g] st]
    by auto
  then show ?thesis using g st assms(2,3)
    by (simp add: invite_accepted_def is_authorized_for_project_action_def update_issue_def)
qed

end

section \<open>The contracts hold for the mock and the database in memory\<close>

interpretation onboarding: fossa_server mem_gorm mw_db "mock_fossa order" mock_members mock_pending for order
proof (unfold_locales, goal_cases)
  case (1 a w x w')
  then show ?case
    by (auto simp: mem_gorm_def mem_table_def mock_members_def members_or_nil_def fun_eq_iff Let_def)
qed

section \<open>Properties\<close>

text \<open>
  Whatever a comment says, if its author is neither a maintainer of the project of the
  issue, nor staff, nor assigned to the issue, then no FOSSA call is made and no label is
  added: the handler does the same with any other FOSSA client and any other label call.
\<close>

theorem strangers_change_nothing:
  assumes "gorm_db G tabs"
    and "get_project_name_from_project_title (is_title (ev_issue e)) = Inr n"
    and "map_of (ls_projects s) n = Some p"
    and "stranger (cur (tabs w)) (row_id p) (ev_actor e)"
    and "ev_actor e \<notin> set (is_assignees (ev_issue e))" "is_assignee (ev_issue e) \<noteq> Some (ev_actor e)"
  shows "run_state (handle_comment G F' (GH\<lparr>gh_add_label := f\<rparr>) s e) w =
    run_state (handle_comment G F GH s e) w"
  using gorm_db.stranger_label[OF assms(1,4)] gorm_db.stranger_invite[OF assms(1,4,5,6)] assms(2,3)
  by (simp add: handle_comment_def handle_label_command_def update_issue_def Let_def)

definition demo_listener :: listener where
  "demo_listener = \<lparr>ls_projects = [(''alpha'', with_associations [] [] (demo_project 1 ''alpha'' Sandbox))]\<rparr>"

definition demo_github :: "server_world github" where
  "demo_github =
     \<lparr>gh_create_comment = (\<lambda>ow r i c. State (\<lambda>w. (Inr (), w\<lparr>sw_comments := sw_comments w @ [(ow, r, i, c)]\<rparr>))),
      gh_add_label = (\<lambda>ow r i l. State (\<lambda>w. (Inr (), w\<lparr>sw_labels := sw_labels w @ [(ow, r, i, l)]\<rparr>)))\<rparr>"

definition demo_comment :: "string \<Rightarrow> string \<Rightarrow> comment_event" where
  "demo_comment actor body =
     \<lparr>ev_action = ''created'', ev_owner = ''cncf'', ev_repo = ''sandbox'',
      ev_issue = \<lparr>is_title = ''[PROJECT ONBOARDING] alpha'', is_number = 4, is_assignees = [''mona''],
                  is_assignee = None, is_labels = []\<rparr>,
      ev_body = body, ev_actor = actor\<rparr>"

definition demo_server :: server_world where
  "demo_server = mem_world.extend demo_world
     (server_world.fields (set_user_exists ''ann@acme.io'' True new_mock) [] [])"

lemma demo_server_db [simp]: "mw_db demo_server = mw_db demo_world"
  by (simp add: demo_server_def mem_world.defs)

definition broken_fossa :: "server_world fossa" where
  "broken_fossa = (mock_fossa rev)\<lparr>fc_add_user := (\<lambda>_ _ _. ret (Inl (Msg ''down'')))\<rparr>"

theorem strangers_change_nothing_witness:
  "run_state (handle_comment mem_gorm broken_fossa
      (demo_github\<lparr>gh_add_label := (\<lambda>_ _ _ _. ret (Inl (Msg ''no'')))\<rparr>) demo_listener
      (demo_comment ''eve'' ''/label fossa'')) demo_server =
   run_state (handle_comment mem_gorm (mock_fossa rev) demo_github demo_listener
      (demo_comment ''eve'' ''/label fossa'')) demo_server"
proof (rule strangers_change_nothing[OF mem.gorm_db_axioms])
  show "get_project_name_from_project_title (is_title (ev_issue (demo_comment ''eve'' ''/label fossa''))) = Inr ''alpha''"
    by (simp add: demo_comment_def) code_simp
  let ?p = "with_associations [] [] (demo_project 1 ''alpha'' Sandbox)"
  show "map_of (ls_projects demo_listener) ''alpha'' = Some ?p" by (simp add: demo_listener_def)
  show "stranger (cur (mw_db demo_server)) (row_id ?p) (ev_actor (demo_comment ''eve'' ''/label fossa''))"
    unfolding demo_server_db by code_simp
qed (simp_all add: demo_comment_def)

text \<open>
  The only labels a \<^verbatim>\<open>/label\<close> command adds are \<^verbatim>\<open>fossa\<close> and \<^verbatim>\<open>snyk\<close>, whoever sends it: a
  GitHub client that treats every other label differently makes no difference.
\<close>

theorem only_known_labels_are_added:
  assumes "\<And>ow r i l. l = ''fossa'' \<or> l = ''snyk'' \<Longrightarrow> gh_add_label GH' ow r i l = gh_add_label GH ow r i l"
    and "gh_create_comment GH' = gh_create_comment GH"
  shows "handle_label_command G GH' s e = handle_label_command G GH s e"
proof -
  have u: "update_issue GH' e = update_issue GH e" using assms(2) by (simp add: update_issue_def fun_eq_iff)
  have l: "label_project G GH' p l e = label_project G GH p l e" if "\<not> (l \<noteq> ''fossa'' \<and> l \<noteq> ''snyk'')" for p :: loaded_project and l
    using that by (simp only: label_project_def u assms(1) de_Morgan_conj not_not)
  show ?thesis
    unfolding handle_label_command_def Let_def u
    by (intro if_cong refl sum.case_cong option.case_cong l) simp_all
qed

theorem only_known_labels_are_added_witness:
  "handle_label_command mem_gorm (demo_github\<lparr>gh_add_label := (\<lambda>ow r i l.
       if l \<in> {''fossa'', ''snyk''} then gh_add_label demo_github ow r i l else ret (Inl (Msg ''never'')))\<rparr>)
     demo_listener (demo_comment ''ann'' ''/label FOSSA'') =
   handle_label_command mem_gorm demo_github demo_listener (demo_comment ''ann'' ''/label FOSSA'')"
  by (rule only_known_labels_are_added) auto

text \<open>
  C39: the report of \<^verbatim>\<open>addProjectMaintainersToFossaTeam\<close> has one line per maintainer with an e-mail
  and a handle, and every line that says added or already a member is true of the FOSSA
  team when the report is posted.
\<close>

theorem membership_report_is_true:
  assumes "fossa_server G tabs F members pending"
    and "run_state (add_project_maintainers_to_fossa_team G F project t) w = ((as, None), w')"
  shows "\<exists>ms. mset ms = mset (maintainers_of (cur (tabs w)) (row_id project)) \<and>
    (let el = fst (filter_eligible_maintainers ms) in
     if el = [] then as = [''No registered maintainers found for this project'']
     else list_all2 (truthful (pr_name project) (members w' t)) el as)"
  by (rule fossa_server.add_project_maintainers_truthful[OF assms])

definition demo_server_team :: server_world where
  "demo_server_team =
     demo_server\<lparr>sw_fossa := snd (run_state (mock_create_team ''alpha'') (sw_fossa demo_server))\<rparr>"

theorem membership_report_is_true_witness:
  "let (r, w') = run_state (add_project_maintainers_to_fossa_team mem_gorm (mock_fossa rev)
       (demo_project 1 ''alpha'' Sandbox) 1000) demo_server_team
   in r = ([act_added ''ann'' ''alpha''], None) \<and> (\<exists>ms.
     (let el = fst (filter_eligible_maintainers ms) in
      if el = [] then False
      else list_all2 (truthful ''alpha'' (mock_members w' 1000)) el [act_added ''ann'' ''alpha'']))"
proof -
  have "fst (run_state (add_project_maintainers_to_fossa_team mem_gorm (mock_fossa rev)
       (demo_project 1 ''alpha'' Sandbox) 1000) demo_server_team) = ([act_added ''ann'' ''alpha''], None)"
    by code_simp
  note r = run_eqI[OF this]
  have n: "pr_name (demo_project 1 ''alpha'' Sandbox) = ''alpha''" by (simp add: demo_project_def)
  from membership_report_is_true[OF onboarding.fossa_server_axioms r] obtain ms where
    "let el = fst (filter_eligible_maintainers ms) in
     if el = [] then [act_added ''ann'' ''alpha''] = [''No registered maintainers found for this project'']
     else list_all2 (truthful ''alpha'' (mock_members (snd (run_state
       (add_project_maintainers_to_fossa_team mem_gorm (mock_fossa rev)
         (demo_project 1 ''alpha'' Sandbox) 1000) demo_server_team)) 1000)) el [act_added ''ann'' ''alpha'']"
    unfolding n by blast
  moreover have "[act_added ''ann'' ''alpha''] \<noteq> [''No registered maintainers found for this project'']"
    by (simp add: act_added_def)
  ultimately show ?thesis
    by (intro let_pairI[OF r]) (rule conjI[OF refl], rule exI[of _ ms], simp only: Let_def if_False)
qed

text \<open>
  \<^verbatim>\<open>filterEligibleMaintainers\<close> splits the maintainers into those with an e-mail and a handle
  and those without one of them, losing none and keeping their order.
\<close>

theorem eligible_partition:
  "filter_eligible_maintainers ms =
     (filter (\<lambda>m. \<not> missing_email (mt_email m) \<and> \<not> missing_handle (mt_github m)) ms,
      filter (\<lambda>m. missing_email (mt_email m) \<or> missing_handle (mt_github m)) ms)"
  by (induction ms) (auto simp: Let_def)

section \<open>A sign-up that panics\<close>

text \<open>
  \<^verbatim>\<open>CreateServiceTeam\<close> stores every team under service 1.  In a database where the service
  \<^verbatim>\<open>FOSSA\<close> has another id, the team just created is not in the map that is read back, and the
  handler dereferences a nil pointer after the invitations are sent.
\<close>

definition demo_server_service_2 :: server_world where
  "demo_server_service_2 = demo_server\<lparr>mw_db := (mw_db demo_server)\<lparr>cur := demo_tables
     \<lparr>tb_services := [demo_service\<lparr>row_id := 2\<rparr>]\<rparr>\<rparr>\<rparr>"

lemma signup_panics_when_fossa_is_not_service_1:
  "fst (run_state (sign_project_up_for_fossa mem_gorm (mock_fossa rev)
     (demo_project 1 ''alpha'' Sandbox) ) demo_server_service_2) = Panic"
  by code_simp

end
