(* ===== verification/Webhook_Runs.thy ===== *)
theory Webhook_Runs
  imports Server_Laws
begin

text \<open>
  The webhook server as a process: deliveries from GitHub, one after another.  A handler that panics
  loses its reply and nothing else, because the HTTP server of Go recovers it; the next delivery finds
  what the panic left.
\<close>

section \<open>Runs\<close>

fun webhook_run ::
  "'w gorm \<Rightarrow> 'w fossa \<Rightarrow> 'w github \<Rightarrow> listener \<Rightarrow> delivery list \<Rightarrow> ('w, http_reply go list) io" where
  "webhook_run G F GH s [] = ret []"
| "webhook_run G F GH s (dl # ds) =
     do { r \<leftarrow> handle_webhook G F GH s dl; rs \<leftarrow> webhook_run G F GH s ds; ret (r # rs) }"

section \<open>What a run adds\<close>

text \<open>
  A new service team belongs to a registered project and has a FOSSA id of its own; a new audit record
  says that a maintainer of a project was added to its team.
\<close>

definition webhook_adds :: "tables \<Rightarrow> tables \<Rightarrow> bool" where
  "webhook_adds d d' \<longleftrightarrow>
     (\<exists>ts as.
        d' = d\<lparr>tb_service_teams := tb_service_teams d @ ts, tb_audit_logs := tb_audit_logs d @ as\<rparr> \<and>
        list_all (\<lambda>t. st_service_id t = 1 \<and> st_project_id t \<in> row_id ` set (tb_projects d) \<and>
                      st_service_team_id t \<notin> st_service_team_id ` set (tb_service_teams d)) ts \<and>
        distinct (map st_service_team_id ts) \<and>
        list_all (\<lambda>a. al_action a = ''FOSSA_ADD_MEMBER'' \<and>
                      (\<exists>p. \<exists>m \<in> set (maintainers_of d p). al_project_id a = Some p \<and>
                             al_maintainer_id a = Some (row_id m))) as)"

lemma webhook_adds_refl [simp]: "webhook_adds d d"
  unfolding webhook_adds_def by (intro exI[of _ "[]"]) simp

lemma webhook_adds_keeps:
  assumes "webhook_adds d d'"
  shows "tb_projects d' = tb_projects d" and "maintainers_of d' p = maintainers_of d p"
    and "tb_staff d' = tb_staff d"
proof -
  obtain ts as where d': "d' = d\<lparr>tb_service_teams := tb_service_teams d @ ts, tb_audit_logs := tb_audit_logs d @ as\<rparr>"
    using assms unfolding webhook_adds_def by blast
  then show "tb_projects d' = tb_projects d" "tb_staff d' = tb_staff d" by simp_all
  have "company_of d' = company_of d" "linked d' = linked d"
    by (auto simp: d' company_of_def linked_def fun_eq_iff cong: option.case_cong)
  then show "maintainers_of d' p = maintainers_of d p" by (simp add: maintainers_of_def) (simp add: d')
qed

lemma webhook_adds_team:
  assumes "webhook_adds d d'" and "st_service_id t = 1" and "st_project_id t \<in> row_id ` set (tb_projects d)"
    and "\<forall>x \<in> set (tb_service_teams d'). st_service_team_id x \<noteq> st_service_team_id t"
  shows "webhook_adds d (d'\<lparr>tb_service_teams := tb_service_teams d' @ [t]\<rparr>)"
proof -
  obtain ts as where d': "d' = d\<lparr>tb_service_teams := tb_service_teams d @ ts, tb_audit_logs := tb_audit_logs d @ as\<rparr>"
    and p: "list_all (\<lambda>t. st_service_id t = 1 \<and> st_project_id t \<in> row_id ` set (tb_projects d) \<and>
                      st_service_team_id t \<notin> st_service_team_id ` set (tb_service_teams d)) ts"
      "distinct (map st_service_team_id ts)"
      "list_all (\<lambda>a. al_action a = ''FOSSA_ADD_MEMBER'' \<and>
                      (\<exists>p. \<exists>m \<in> set (maintainers_of d p). al_project_id a = Some p \<and>
                             al_maintainer_id a = Some (row_id m))) as"
    using assms(1) unfolding webhook_adds_def by blast
  have new: "st_service_team_id t \<notin> st_service_team_id ` set (tb_service_teams d)"
    "st_service_team_id t \<notin> set (map st_service_team_id ts)"
    using assms(4) by (auto simp: d')
  show ?thesis
    unfolding webhook_adds_def
    by (rule exI[of _ "ts @ [t]"], rule exI[of _ as]) (use p new assms(2,3) in \<open>simp add: d'\<close>)
qed

lemma webhook_adds_record:
  assumes "webhook_adds d d'" and "al_action a = ''FOSSA_ADD_MEMBER''"
    and "m \<in> set (maintainers_of d p)" "al_project_id a = Some p" "al_maintainer_id a = Some (row_id m)"
  shows "webhook_adds d (d'\<lparr>tb_audit_logs := tb_audit_logs d' @ [a]\<rparr>)"
proof -
  obtain ts as where d': "d' = d\<lparr>tb_service_teams := tb_service_teams d @ ts, tb_audit_logs := tb_audit_logs d @ as\<rparr>"
    and p: "list_all (\<lambda>t. st_service_id t = 1 \<and> st_project_id t \<in> row_id ` set (tb_projects d) \<and>
                      st_service_team_id t \<notin> st_service_team_id ` set (tb_service_teams d)) ts"
      "distinct (map st_service_team_id ts)"
      "list_all (\<lambda>a. al_action a = ''FOSSA_ADD_MEMBER'' \<and>
                      (\<exists>p. \<exists>m \<in> set (maintainers_of d p). al_project_id a = Some p \<and>
                             al_maintainer_id a = Some (row_id m))) as"
    using assms(1) unfolding webhook_adds_def by blast
  show ?thesis
    unfolding webhook_adds_def
    by (rule exI[of _ ts], rule exI[of _ "as @ [a]"]) (use p assms(2-5) in \<open>auto simp: d'\<close>)
qed

section \<open>Calls that keep an invariant and say something of their result\<close>

definition yields :: "('w \<Rightarrow> bool) \<Rightarrow> ('w, 'a) io \<Rightarrow> ('a \<Rightarrow> bool) \<Rightarrow> bool" where
  "yields I m Q \<longleftrightarrow> (\<forall>w x w'. I w \<longrightarrow> run_state m w = (x, w') \<longrightarrow> I w' \<and> Q x)"

named_theorems yields_rules \<open>calls that keep the invariant\<close>

lemma yieldsI: "(\<And>w x w'. I w \<Longrightarrow> run_state m w = (x, w') \<Longrightarrow> I w' \<and> Q x) \<Longrightarrow> yields I m Q"
  by (simp add: yields_def)

lemma yieldsD: "yields I m Q \<Longrightarrow> I w \<Longrightarrow> run_state m w = (x, w') \<Longrightarrow> I w' \<and> Q x"
  by (simp add: yields_def)

lemma yields_ret: "yields I (ret x) (\<lambda>_. True)"
  by (simp add: yields_def)

lemma yields_weaken: "yields I m Q \<Longrightarrow> yields I m (\<lambda>_. True)"
  by (simp add: yields_def)

lemma yields_bind: "yields I m Q \<Longrightarrow> (\<And>x. Q x \<Longrightarrow> yields I (k x) R) \<Longrightarrow> yields I (State_Monad.bind m k) R"
proof (rule yieldsI)
  fix w x w'
  assume m: "yields I m Q" and k: "\<And>x. Q x \<Longrightarrow> yields I (k x) R" and i: "I w"
    and "run_state (State_Monad.bind m k) w = (x, w')"
  then obtain y w1 where r: "run_state m w = (y, w1)" "run_state (k y) w1 = (x, w')" by (elim run_bindE)
  have "I w1 \<and> Q y" by (rule yieldsD[OF m i r(1)])
  then show "I w' \<and> R x" using yieldsD[OF k _ r(2)] by blast
qed

lemma yields_then:
  "yields I m (\<lambda>_. True) \<Longrightarrow> (\<And>x. yields I (k x) R) \<Longrightarrow> yields I (State_Monad.bind m k) R"
  by (rule yields_bind)

lemma yields_for_each:
  "(\<And>x a. x \<in> set xs \<Longrightarrow> yields I (body x a) (\<lambda>_. True)) \<Longrightarrow> yields I (for_each xs body a) (\<lambda>_. True)"
  by (induction xs arbitrary: a) (auto intro!: yields_ret yields_then)

section \<open>The server on a database\<close>

text \<open>
  A delivery without the right to change anything: not signed, not an event the server acts on, an
  issue that is not labeled for FOSSA, or a comment by someone who is neither a maintainer of the
  project of the issue, nor staff, nor assigned to the issue.
\<close>

fun harmless :: "listener \<Rightarrow> tables \<Rightarrow> delivery \<Rightarrow> bool" where
  "harmless s d (Issue_Comment e) =
     (case get_project_name_from_project_title (is_title (ev_issue e)) of
        Inl _ \<Rightarrow> True
      | Inr n \<Rightarrow>
          (case map_of (ls_projects s) n of
             None \<Rightarrow> True
           | Some p \<Rightarrow> stranger d (row_id p) (ev_actor e) \<and> ev_actor e \<notin> set (is_assignees (ev_issue e)) \<and>
                       is_assignee (ev_issue e) \<noteq> Some (ev_actor e)))"
| "harmless s d (Issues e) = (ev_action e \<noteq> ''labeled'' \<or> ''fossa'' \<notin> set (is_labels (ev_issue e)))"
| "harmless s d dl = True"

text \<open>Calls to FOSSA and to GitHub are no part of the database.\<close>

locale webhook_site = gorm_db G tabs for G :: "'w gorm" and tabs :: "'w \<Rightarrow> db" +
  fixes F :: "'w fossa" and GH :: "'w github"
  assumes create_team_tabs: "run_state (fc_create_team F n) w = (x1, w') \<Longrightarrow> tabs w' = tabs w"
    and invitation_tabs: "run_state (fc_send_invitation F e) w = (x2, w') \<Longrightarrow> tabs w' = tabs w"
    and pending_tabs: "run_state (fc_has_pending F e) w = (x3, w') \<Longrightarrow> tabs w' = tabs w"
    and team_emails_tabs: "run_state (fc_team_emails F t) w = (x4, w') \<Longrightarrow> tabs w' = tabs w"
    and add_user_tabs: "run_state (fc_add_user F t e r) w = (x5, w') \<Longrightarrow> tabs w' = tabs w"
    and imported_tabs: "run_state (fc_imported_repos F t) w = (x6, w') \<Longrightarrow> tabs w' = tabs w"
    and comment_tabs: "run_state (gh_create_comment GH ow rep i c) w = (x7, w') \<Longrightarrow> tabs w' = tabs w"
    and label_tabs: "run_state (gh_add_label GH ow rep i l) w = (x8, w') \<Longrightarrow> tabs w' = tabs w"
begin

abbreviation added_to :: "tables \<Rightarrow> 'w \<Rightarrow> bool" where "added_to d w \<equiv> webhook_adds d (cur (tabs w))"

lemma quiet: "(\<And>w x w'. run_state m w = (x, w') \<Longrightarrow> tabs w' = tabs w) \<Longrightarrow> yields (added_to d) m (\<lambda>_. True)"
  by (rule yieldsI) simp

lemma outside_quiet:
  "yields (added_to d) (fc_create_team F n) (\<lambda>_. True)" "yields (added_to d) (fc_send_invitation F e) (\<lambda>_. True)"
  "yields (added_to d) (fc_has_pending F e) (\<lambda>_. True)" "yields (added_to d) (fc_team_emails F t) (\<lambda>_. True)"
  "yields (added_to d) (fc_add_user F t e r) (\<lambda>_. True)" "yields (added_to d) (fc_imported_repos F t) (\<lambda>_. True)"
  "yields (added_to d) (gh_create_comment GH ow rep i c) (\<lambda>_. True)"
  "yields (added_to d) (gh_add_label GH ow rep i l) (\<lambda>_. True)"
  by ((rule quiet, erule create_team_tabs), (rule quiet, erule invitation_tabs), (rule quiet, erule pending_tabs),
    (rule quiet, erule team_emails_tabs), (rule quiet, erule add_user_tabs), (rule quiet, erule imported_tabs),
    (rule quiet, erule comment_tabs), (rule quiet, erule label_tabs))

lemma queries_quiet:
  "yields (added_to d) (t_first (services G) ps) (\<lambda>_. True)" "yields (added_to d) (t_find (service_teams G) pt) (\<lambda>_. True)"
  "yields (added_to d) (t_count (staff_members G) pm) (\<lambda>_. True)"
  by ((rule quiet, erule sv.first_tabs), (rule quiet, erule st.find_tabs), (rule quiet, erule sm.count_tabs))

lemma yields_try: "yields I m (\<lambda>_. True) \<Longrightarrow> (\<And>x. yields I (k x) (\<lambda>_. True)) \<Longrightarrow> yields I (try_bind m k) (\<lambda>_. True)"
  unfolding try_bind_def by (auto split: sum.split intro!: yields_then yields_ret)

lemma team_map_quiet: "yields (added_to d) (get_project_service_team_map G n) (\<lambda>_. True)"
  unfolding get_project_service_team_map_def get_service_by_name_def
  apply (rule yields_then[OF queries_quiet(1)])
  subgoal for r
    by (cases r) (simp_all only: sum.case, rule yields_ret, rule yields_then[OF queries_quiet(2)], rule yields_ret)
  done

lemma staff_quiet: "yields (added_to d) (is_staff_github_account G h) (\<lambda>_. True)"
  unfolding is_staff_github_account_def by (auto intro!: yields_try yields_ret queries_quiet)

lemma maintainers_yield:
  "yields (added_to d) (get_maintainers_by_project G i)
     (\<lambda>r. \<forall>ms. r = Inr ms \<longrightarrow> set ms \<subseteq> set (maintainers_of d i) \<and> i \<in> row_id ` set (tb_projects d))"
proof (rule yieldsI)
  fix w x w'
  assume a: "added_to d w" and r: "run_state (get_maintainers_by_project G i) w = (x, w')"
  have "set ms \<subseteq> set (maintainers_of d i) \<and> i \<in> row_id ` set (tb_projects d)" if "x = Inr ms" for ms
  proof -
    note g = get_maintainers_Ok[OF r[unfolded that]]
    have "set ms = set (maintainers_of (cur (tabs w)) i)" by (rule mset_eq_setD) (simp add: g)
    then show ?thesis using g by (simp add: webhook_adds_keeps[OF a])
  qed
  then show "added_to d w' \<and> (\<forall>ms. x = Inr ms \<longrightarrow> set ms \<subseteq> set (maintainers_of d i) \<and> i \<in> row_id ` set (tb_projects d))"
    using a get_maintainers_tabs[OF r] by simp
qed

lemma team_yield:
  assumes "i \<in> row_id ` set (tb_projects d)"
  shows "yields (added_to d) (create_service_team G i pn t tn) (\<lambda>_. True)"
proof (rule yieldsI)
  fix w x w'
  assume a: "added_to d w" and r: "run_state (create_service_team G i pn t tn) w = (x, w')"
  let ?new = "zero_service_team\<lparr>st_service_team_id := t, st_service_id := 1, st_service_team_name := Some tn,
       st_project_id := i, st_project_name := Some pn\<rparr>"
  obtain y where f: "run_state (first_or_create (service_teams G) (\<lambda>s. st_service_team_id s = t) ?new) w = (y, w')"
    using r by (auto simp: create_service_team_def split: prod.splits)
  show "added_to d w' \<and> True"
  proof (cases y)
    case (Inl e)
    then show ?thesis using a st.first_or_create_Err f by simp
  next
    case (Inr s)
    have "st_service_team_id s = t \<and> st_service_id s = 1 \<and> st_project_id s = i" if "chosen s = chosen ?new"
      using that by (auto simp: chosen_def dest: arg_cong[of _ _ st_service_team_id] arg_cong[of _ _ st_service_id]
        arg_cong[of _ _ st_project_id])
    then show ?thesis
      using st.first_or_create_Ok[OF f[unfolded Inr]] a assms by (auto intro!: webhook_adds_team)
  qed
qed

lemma record_yield:
  assumes "m \<in> set (maintainers_of d p)"
  shows "yields (added_to d) (log_audit_event G (zero_audit_log
      \<lparr>al_project_id := Some p, al_maintainer_id := Some (row_id m), al_action := ''FOSSA_ADD_MEMBER'',
       al_message := msg\<rparr>)) (\<lambda>_. True)"
proof (rule yieldsI)
  fix w x w'
  let ?a = "zero_audit_log\<lparr>al_project_id := Some p, al_maintainer_id := Some (row_id m),
       al_action := ''FOSSA_ADD_MEMBER'', al_message := msg\<rparr>"
  assume a: "added_to d w" and r: "run_state (log_audit_event G ?a) w = (x, w')"
  then obtain b y where c: "run_state (t_create (audit_logs G) b) w = (y, w')"
    and b: "al_action b = ''FOSSA_ADD_MEMBER''" "al_project_id b = Some p" "al_maintainer_id b = Some (row_id m)"
    by (auto simp: log_audit_event_def Let_def split: prod.splits sum.splits if_splits)
  show "added_to d w' \<and> True"
  proof (cases y)
    case (Inl e)
    then show ?thesis using a al.create_Err c by simp
  next
    case (Inr z)
    note k = al.create_Ok[OF c[unfolded Inr]]
    have "al_action z = al_action b \<and> al_project_id z = al_project_id b \<and> al_maintainer_id z = al_maintainer_id b"
      using k[THEN conjunct1] by (auto simp: chosen_def dest: arg_cong[of _ _ al_action] arg_cong[of _ _ al_project_id]
        arg_cong[of _ _ al_maintainer_id])
    then show ?thesis using k a b assms by (auto intro!: webhook_adds_record)
  qed
qed

lemmas calls_yield = yields_then yields_ret outside_quiet team_map_quiet staff_quiet team_yield record_yield

lemma update_issue_quiet: "yields (added_to d) (update_issue GH e c) (\<lambda>_. True)"
  unfolding update_issue_def by (rule outside_quiet)

lemma ignore_quiet: "yields (added_to d) m (\<lambda>_. True) \<Longrightarrow> yields (added_to d) (ignore m) (\<lambda>_. True)"
  unfolding ignore_def by (intro yields_then yields_ret)

section \<open>The handlers\<close>

lemma one_maintainer_yields:
  assumes "m \<in> set (maintainers_of d (row_id project))"
  shows "yields (added_to d) (add_one_maintainer G F project t m es) (\<lambda>_. True)"
  unfolding add_one_maintainer_def using assms by (auto split: sum.split intro!: calls_yield)

lemma maintainers_loop_yields:
  "set ms \<subseteq> set (maintainers_of d (row_id project)) \<Longrightarrow>
   yields (added_to d) (add_maintainers_loop G F project t ms es) (\<lambda>_. True)"
  by (induction ms arbitrary: es) (auto split: prod.split intro!: calls_yield one_maintainer_yields)

lemma eligible_subset: "set (fst (filter_eligible_maintainers ms)) \<subseteq> set ms"
  by (simp add: eligible_partition)

lemma team_update_yields:
  "yields (added_to d) (add_project_maintainers_to_fossa_team G F project t) (\<lambda>_. True)"
  unfolding add_project_maintainers_to_fossa_team_def
  apply (rule yields_bind[OF maintainers_yield])
  subgoal for r
    apply (cases r)
     apply (simp add: yields_ret)
    apply (auto simp: Let_def split: sum.split intro!: calls_yield maintainers_loop_yields)
    apply (meson eligible_subset subsetD)
    done
  done

lemma ensure_team_yields:
  assumes "row_id project \<in> row_id ` set (tb_projects d)"
  shows "yields (added_to d) (ensure_fossa_team G F project) (\<lambda>_. True)"
  unfolding ensure_fossa_team_def Let_def using assms by (auto split: sum.split option.split intro!: calls_yield)

lemma invite_yields: "yields (added_to d) (invite_one F t m s) (\<lambda>_. True)"
  unfolding invite_one_def by (auto split: sum.split intro!: calls_yield)

lemma imports_yield: "yields (added_to d) (report_imports G F project actions) (\<lambda>_. True)"
  unfolding report_imports_def Let_def by (auto split: sum.split option.split prod.split intro!: calls_yield)

lemma signup_yields: "yields (added_to d) (sign_project_up_for_fossa G F project) (\<lambda>_. True)"
  unfolding sign_project_up_for_fossa_def
  apply (rule yields_bind[OF maintainers_yield])
  subgoal for r
    by (cases r) (auto simp: Let_def split: sum.split prod.split
      intro!: calls_yield ensure_team_yields yields_for_each invite_yields imports_yield)
  done

lemma chosen_yields: "yields (added_to d) (fossa_chosen G F GH s n e) (\<lambda>_. True)"
  unfolding fossa_chosen_def Let_def
  by (auto split: go.split prod.split intro!: calls_yield signup_yields update_issue_quiet)

lemma label_yields: "yields (added_to d) (handle_label_command G GH s e) (\<lambda>_. True)"
  unfolding handle_label_command_def label_project_def Let_def
  by (auto split: sum.split option.split
      intro!: calls_yield ignore_quiet update_issue_quiet yields_weaken[OF maintainers_yield])

lemma accepted_yields: "yields (added_to d) (invite_accepted G F GH project e) (\<lambda>_. True)"
  unfolding invite_accepted_def is_authorized_for_project_action_def Let_def
  by (auto split: sum.split option.split
      intro!: calls_yield ignore_quiet update_issue_quiet team_update_yields yields_weaken[OF maintainers_yield])

lemma comment_yields: "yields (added_to d) (handle_comment G F GH s e) (\<lambda>_. True)"
  unfolding handle_comment_def by (auto split: sum.split option.split intro!: yields_ret label_yields accepted_yields)

lemma issues_yields: "yields (added_to d) (handle_issues G F GH s e) (\<lambda>_. True)"
proof -
  have "yields (added_to d) (fossa_labels G F GH s n e ls) (\<lambda>_. True)" for n ls
    by (induction ls) (auto split: go.split intro!: yields_then yields_ret chosen_yields)
  then show ?thesis unfolding handle_issues_def Let_def by (auto intro!: yields_ret)
qed

lemma webhook_yields: "yields (added_to d) (handle_webhook G F GH s dl) (\<lambda>_. True)"
  unfolding handle_webhook_def
  by (cases dl) (auto intro!: yields_then yields_ret comment_yields issues_yields)

lemma run_yields: "yields (added_to d) (webhook_run G F GH s ds) (\<lambda>_. True)"
  by (induction ds) (auto intro!: yields_then yields_ret webhook_yields)

section \<open>Deliveries that may change nothing\<close>

lemma staff_tabs: "run_state (is_staff_github_account G h) w = (x, w') \<Longrightarrow> tabs w' = tabs w"
  by (auto simp: is_staff_github_account_def split: prod.splits sum.splits if_splits dest!: sm.count_tabs)

lemma update_issue_tabs: "run_state (update_issue GH e c) w = (x, w') \<Longrightarrow> tabs w' = tabs w"
  unfolding update_issue_def by (rule comment_tabs)

lemma ignore_tabs: "run_state (ignore (update_issue GH e c)) w = (x, w') \<Longrightarrow> tabs w' = tabs w"
  by (auto simp: ignore_def split: prod.splits dest: update_issue_tabs)

lemma stranger_label_tabs:
  assumes "stranger (cur (tabs w)) (row_id project) (ev_actor e)" and "run_state (label_project G GH project l e) w = (x, w')"
  shows "tabs w' = tabs w"
proof -
  obtain r w1 where g: "run_state (get_maintainers_by_project G (row_id project)) w = (r, w1)" by fastforce
  obtain y w2 where st: "run_state (is_staff_github_account G (ev_actor e)) w1 = (y, w2)" by fastforce
  have n: "\<not> is_registered (ev_actor e) r" "y \<noteq> Inr True"
    using stranger_not_registered[OF assms(1) g] stranger_not_staff[OF assms(1) get_maintainers_tabs[OF g] st] by auto
  obtain c where c: "run_state (ignore (update_issue GH e c)) w2 = (x, w')"
    using assms(2) g st n by (auto simp: label_project_def Let_def)
  show ?thesis using ignore_tabs[OF c] staff_tabs[OF st] get_maintainers_tabs[OF g] by simp
qed

lemma stranger_invite_tabs:
  assumes "stranger (cur (tabs w)) (row_id project) (ev_actor e)"
    and "ev_actor e \<notin> set (is_assignees (ev_issue e))" "is_assignee (ev_issue e) \<noteq> Some (ev_actor e)"
    and "run_state (invite_accepted G F GH project e) w = (x, w')"
  shows "tabs w' = tabs w"
proof -
  obtain r w1 where g: "run_state (get_maintainers_by_project G (row_id project)) w = (r, w1)" by fastforce
  obtain y w2 where st: "run_state (is_staff_github_account G (ev_actor e)) w1 = (y, w2)" by fastforce
  have n: "\<not> is_registered (ev_actor e) r" "y \<noteq> Inr True"
    using stranger_not_registered[OF assms(1) g] stranger_not_staff[OF assms(1) get_maintainers_tabs[OF g] st] by auto
  obtain c where c: "run_state (ignore (update_issue GH e c)) w2 = (x, w')"
    using assms(2,3,4) g st n by (auto simp: invite_accepted_def is_authorized_for_project_action_def)
  show ?thesis using ignore_tabs[OF c] staff_tabs[OF st] get_maintainers_tabs[OF g] by simp
qed

lemma stranger_comment:
  assumes "harmless s (cur (tabs w)) (Issue_Comment e)"
  shows "run_state (handle_comment G F' (GH\<lparr>gh_add_label := f\<rparr>) s e) w = run_state (handle_comment G F GH s e) w"
    and "run_state (handle_comment G F GH s e) w = (x, w') \<Longrightarrow> tabs w' = tabs w"
proof -
  have u: "update_issue (GH\<lparr>gh_add_label := f\<rparr>) = update_issue GH" by (simp add: update_issue_def fun_eq_iff)
  consider (none) "\<And>n. get_project_name_from_project_title (is_title (ev_issue e)) = Inr n \<Longrightarrow> map_of (ls_projects s) n = None"
    | (known) n p where "get_project_name_from_project_title (is_title (ev_issue e)) = Inr n"
        "map_of (ls_projects s) n = Some p" "stranger (cur (tabs w)) (row_id p) (ev_actor e)"
        "ev_actor e \<notin> set (is_assignees (ev_issue e))" "is_assignee (ev_issue e) \<noteq> Some (ev_actor e)"
    using assms by (auto split: sum.splits option.splits)
  note cases = this
  show "run_state (handle_comment G F' (GH\<lparr>gh_add_label := f\<rparr>) s e) w = run_state (handle_comment G F GH s e) w"
    using cases
  proof cases
    case none
    then show ?thesis by (auto simp: handle_comment_def handle_label_command_def Let_def u split: sum.splits)
  next
    case (known n p)
    then show ?thesis
      using stranger_label[OF known(3)] stranger_invite[OF known(3,4,5)]
      by (simp add: handle_comment_def handle_label_command_def Let_def u)
  qed
  assume r: "run_state (handle_comment G F GH s e) w = (x, w')"
  show "tabs w' = tabs w"
    using cases
  proof cases
    case none
    then show ?thesis using r
      by (auto simp: handle_comment_def handle_label_command_def Let_def split: sum.splits if_splits dest: ignore_tabs)
  next
    case (known n p)
    then show ?thesis using r
      by (auto simp: handle_comment_def handle_label_command_def Let_def split: if_splits
        dest: ignore_tabs stranger_label_tabs[OF known(3)] stranger_invite_tabs[OF known(3,4,5)])
  qed
qed

lemma harmless_delivery:
  assumes "harmless s (cur (tabs w)) dl"
  shows "run_state (handle_webhook G F' (GH\<lparr>gh_add_label := f\<rparr>) s dl) w = run_state (handle_webhook G F GH s dl) w"
    and "run_state (handle_webhook G F GH s dl) w = (x, w') \<Longrightarrow> tabs w' = tabs w"
proof -
  have l: "fossa_labels G F'' GH' s n e ls = ret (Return ())" if "''fossa'' \<notin> set ls" for F'' GH' n e ls
    using that by (induction ls) auto
  have i: "handle_issues G F'' GH' s e = ret (Return ())"
    if "ev_action e \<noteq> ''labeled'' \<or> ''fossa'' \<notin> set (is_labels (ev_issue e))" for F'' GH' e
    using that by (auto simp: handle_issues_def Let_def l)
  show "run_state (handle_webhook G F' (GH\<lparr>gh_add_label := f\<rparr>) s dl) w = run_state (handle_webhook G F GH s dl) w"
    using assms stranger_comment(1)
    by (cases dl) (simp_all add: handle_webhook_def i)
  show "run_state (handle_webhook G F GH s dl) w = (x, w') \<Longrightarrow> tabs w' = tabs w"
    using assms stranger_comment(2)
    by (cases dl) (auto simp: handle_webhook_def i split: prod.splits)
qed

lemma harmless_run:
  assumes "list_all (harmless s (cur (tabs w))) ds"
  shows "run_state (webhook_run G F' (GH\<lparr>gh_add_label := f\<rparr>) s ds) w = run_state (webhook_run G F GH s ds) w \<and>
    tabs (snd (run_state (webhook_run G F GH s ds) w)) = tabs w"
  using assms
proof (induction ds arbitrary: w)
  case (Cons dl ds)
  obtain r w1 where r: "run_state (handle_webhook G F GH s dl) w = (r, w1)" by fastforce
  have h: "harmless s (cur (tabs w)) dl" using Cons.prems by simp
  have t: "tabs w1 = tabs w" by (rule harmless_delivery(2)[OF h r])
  then show ?case
    using harmless_delivery(1)[OF h, of F' f] r Cons.IH[of w1] Cons.prems by (auto split: prod.splits)
qed simp

end

interpretation site: webhook_site mem_gorm mw_db "mock_fossa order" demo_github for order
  by unfold_locales (auto simp: mock_fossa_def run_on_fossa demo_github_def)

section \<open>Properties\<close>


definition demo_labeled :: event where
  "demo_labeled =
     \<lparr>ev_action = ''labeled'', ev_owner = ''cncf'', ev_repo = ''sandbox'',
      ev_issue = \<lparr>is_title = ''[PROJECT ONBOARDING] alpha'', is_number = 4, is_assignees = [], is_assignee = None,
                  is_labels = [''fossa'']\<rparr>\<rparr>"

text \<open>The issue of a project is labeled, then its maintainer accepts the invitation.\<close>

definition demo_deliveries :: "delivery list" where
  "demo_deliveries =
     [Bad_Signature, Issues demo_labeled, Issue_Comment (demo_comment ''ann'' ''/fossa-invite accepted'')]"

definition demo_run :: "http_reply go list \<times> server_world" where
  "demo_run = run_state (webhook_run mem_gorm (mock_fossa rev) demo_github demo_listener demo_deliveries) demo_server"


text \<open>
  C38: as long as only deliveries arrive that have no right to change anything (not signed, not acted on,
  or comments of people who are neither maintainers of the project, nor staff, nor assigned), the
  server makes no call to FOSSA, adds no label and leaves the database as it is: with any other
  FOSSA client and any other label call the run is the same.
\<close>

theorem strangers_change_nothing_in_any_run:
  assumes "webhook_site G tabs F GH" and "list_all (harmless s (cur (tabs w))) ds"
  shows "run_state (webhook_run G F' (GH\<lparr>gh_add_label := f\<rparr>) s ds) w = run_state (webhook_run G F GH s ds) w \<and>
    tabs (snd (run_state (webhook_run G F GH s ds) w)) = tabs w"
  by (rule webhook_site.harmless_run[OF assms])

definition demo_strangers :: "delivery list" where
  "demo_strangers =
     [Bad_Signature, Unparsable, Other_Event, Issues (demo_labeled\<lparr>ev_action := ''opened''\<rparr>),
      Issue_Comment (demo_comment ''eve'' ''/label fossa''), Issue_Comment (demo_comment ''eve'' ''/fossa-invite accepted'')]"

theorem strangers_change_nothing_in_any_run_witness:
  "run_state (webhook_run mem_gorm broken_fossa (demo_github\<lparr>gh_add_label := (\<lambda>_ _ _ _. ret (Inl (Msg ''no'')))\<rparr>)
      demo_listener demo_strangers) demo_server =
   run_state (webhook_run mem_gorm (mock_fossa rev) demo_github demo_listener demo_strangers) demo_server"
proof -
  have d: "cur (mw_db demo_server) = demo_tables" by (simp add: demo_world_def)
  have "list_all (harmless demo_listener (cur (mw_db demo_server))) demo_strangers" unfolding d by code_simp
  from strangers_change_nothing_in_any_run[OF site.webhook_site_axioms this] show ?thesis by blast
qed

end
