(* ===== verification/Webhook_Process.thy ===== *)
theory Webhook_Process
  imports Webhook_Runs Bff_Routes
begin

text \<open>
  The HTTP server of the webhook process: \<^verbatim>\<open>Run\<close> of \<^verbatim>\<open>onboarding/server.go\<close> with its two routes, and
  that a run of requests is the run of the deliveries among them.  The timeouts of the server end
  connections, not handlers.
\<close>

datatype listener_route = Healthz | Webhook

text \<open>A request, with what its body is to the GitHub library.\<close>

record listener_request =
  lr_method :: string
  lr_path :: string
  lr_delivery :: delivery

definition listener_routes :: "(string \<times> listener_route) list" where
  "listener_routes = [(''/healthz'', Healthz), (''/webhook'', Webhook)]"

definition listener_serve ::
  "'w gorm \<Rightarrow> 'w fossa \<Rightarrow> 'w github \<Rightarrow> listener \<Rightarrow> listener_request \<Rightarrow> ('w, http_reply go) io" where
  "listener_serve G F GH s r =
     (case mux listener_routes (lr_method r) (lr_path r) of
        Not_found \<Rightarrow> ret (Return \<lparr>rp_status = 404, rp_body = ''404 page not found''\<rparr>)
      | Moved p \<Rightarrow> ret (Return \<lparr>rp_status = 301, rp_body = p\<rparr>)
      | Found Healthz \<Rightarrow> do { rep \<leftarrow> handle_health (Some G); ret (Return rep) }
      | Found Webhook \<Rightarrow> handle_webhook G F GH s (lr_delivery r))"

fun listener_run ::
  "'w gorm \<Rightarrow> 'w fossa \<Rightarrow> 'w github \<Rightarrow> listener \<Rightarrow> listener_request list \<Rightarrow> ('w, http_reply go list) io" where
  "listener_run G F GH s [] = ret []"
| "listener_run G F GH s (r # rs) =
     do { x \<leftarrow> listener_serve G F GH s r; xs \<leftarrow> listener_run G F GH s rs; ret (x # xs) }"

text \<open>Only the exact path reaches the webhook handler, with any method.\<close>

definition delivers :: "listener_request \<Rightarrow> bool" where
  "delivers r \<longleftrightarrow> lr_path r = ''/webhook''"

lemma webhook_route: "mux listener_routes m p = Found Webhook \<longleftrightarrow> p = ''/webhook''"
proof
  assume m: "mux listener_routes m p = Found Webhook"
  then have "mux_match listener_routes p = Some Webhook"
    by (auto simp: mux_def Let_def split: if_splits option.splits)
  moreover have "\<not> has_suffix ''/webhook'' ''/''" by code_simp
  ultimately show "p = ''/webhook''"
    using mux_match_in[of listener_routes p Webhook] by (auto simp: listener_routes_def pattern_matches_def)
next
  have c: "clean_path ''/webhook'' = ''/webhook''" "mux_match listener_routes ''/webhook'' = Some Webhook"
    "''/webhook'' \<in> fst ` set listener_routes" by code_simp+
  assume "p = ''/webhook''"
  then show "mux listener_routes m p = Found Webhook" using c by (simp add: mux_def Let_def)
qed

lemma other_requests_keep:
  assumes "\<And>v. snd (run_state (ping_db G) v) = v" and "\<not> delivers r"
  shows "snd (run_state (listener_serve G F GH s r) w) = w"
proof (cases "mux listener_routes (lr_method r) (lr_path r)")
  case (Found rt)
  then have "rt = Healthz" using assms(2) webhook_route by (cases rt) (auto simp: delivers_def)
  then show ?thesis using Found assms(1)[of w]
    by (auto simp: listener_serve_def handle_health_def ping_def split: prod.splits)
qed (simp_all add: listener_serve_def)

text \<open>So every law of runs of deliveries is one of runs of requests.\<close>

lemma listener_run_delivers:
  assumes "\<And>v. snd (run_state (ping_db G) v) = v"
  shows "snd (run_state (listener_run G F GH s rs) w) =
    snd (run_state (webhook_run G F GH s (map lr_delivery (filter delivers rs))) w)"
proof (induction rs arbitrary: w)
  case (Cons r rs)
  obtain x w1 where x: "run_state (listener_serve G F GH s r) w = (x, w1)" by (metis surj_pair)
  show ?case
  proof (cases "delivers r")
    case True
    then have "run_state (handle_webhook G F GH s (lr_delivery r)) w = (x, w1)"
      using x webhook_route[of "lr_method r" "lr_path r"] by (simp add: listener_serve_def delivers_def)
    then show ?thesis using x True Cons.IH[of w1] by (auto split: prod.splits)
  next
    case False
    then have "w1 = w" using other_requests_keep[OF assms False, of F GH s w] x by simp
    then show ?thesis using x False Cons.IH[of w] by (auto split: prod.splits)
  qed
qed simp

end
