(* ===== verification/K8s_Base.thy ===== *)
theory K8s_Base
  imports Go_Base
begin

text \<open>
  The Kubernetes API as the operators and the sync job use it: for each kind of object the
  calls of a controller-runtime client, as a record of calls, and the contract they keep.  The
  API server is not part of the sources; a small cluster in memory shows that the contract can
  be kept and runs the witnesses.
\<close>

section \<open>Calls\<close>

text \<open>Namespace and name.\<close>

type_synonym object_key = "string \<times> string"

text \<open>
  \<^verbatim>\<open>Get\<close>, \<^verbatim>\<open>List\<close> in a namespace, \<^verbatim>\<open>Create\<close>, \<^verbatim>\<open>Update\<close>, \<^verbatim>\<open>Patch\<close> of the difference between two values
  of an object, \<^verbatim>\<open>Status().Update\<close>, \<^verbatim>\<open>Status().Patch\<close> and \<^verbatim>\<open>Delete\<close>.  The writing calls return the object as the
  server answers it, which the client stores over the value it was given.
\<close>

record ('w, 'o) kind =
  kd_get :: "object_key \<Rightarrow> ('w, 'o result) io"
  kd_list :: "string \<Rightarrow> ('w, 'o list result) io"
  kd_create :: "'o \<Rightarrow> ('w, 'o result) io"
  kd_update :: "'o \<Rightarrow> ('w, 'o result) io"
  kd_patch :: "'o \<Rightarrow> 'o \<Rightarrow> ('w, 'o result) io"
  kd_update_status :: "'o \<Rightarrow> ('w, 'o result) io"
  kd_patch_status :: "'o \<Rightarrow> 'o \<Rightarrow> ('w, 'o result) io"
  kd_delete :: "object_key \<Rightarrow> ('w, unit result) io"

text \<open>\<^verbatim>\<open>metav1.Condition\<close>.\<close>

record condition =
  cd_type :: string
  cd_status :: string
  cd_observed :: int
  cd_transition :: int
  cd_reason :: string
  cd_message :: string

text \<open>\<^verbatim>\<open>ctrl.Result{RequeueAfter}\<close> and the error; durations are nanoseconds.\<close>

type_synonym ctrl_result = "int \<times> go_error option"

abbreviation "second \<equiv> 1000000000 :: int"
abbreviation "minute \<equiv> 60 * second"
abbreviation "hour \<equiv> 60 * minute"

text \<open>\<^verbatim>\<open>errors.IsNotFound\<close>.\<close>

definition is_not_found :: "go_error \<Rightarrow> bool" where
  "is_not_found e = errors_is e ErrNotFound"

text \<open>Reading a string out of a map: an absent key gives the empty string; maps are compared by content.\<close>

definition map_get :: "(string, string) gomap \<Rightarrow> string \<Rightarrow> string" where
  "map_get m k = (case map_of m k of None \<Rightarrow> [] | Some v \<Rightarrow> v)"

definition same_map :: "('k, 'v) gomap \<Rightarrow> ('k, 'v) gomap \<Rightarrow> bool" where
  "same_map m n \<longleftrightarrow> set m = set n"

lemma map_get_put [simp]: "map_get (map_put k v m) k' = (if k = k' then v else map_get m k')"
  by (induction m) (auto simp: map_get_def)

section \<open>The contract\<close>

text \<open>
  \<open>objs\<close> is what the server stores of this kind.  Reads answer from it and leave it alone; a
  successful update stores the object under its key, and so does a create, which the server only
  accepts for a new key; a failed call changes nothing.
\<close>

locale kube_kind =
  fixes K :: "('w, 'o) kind"
    and key_of :: "'o \<Rightarrow> object_key"
    and objs :: "'w \<Rightarrow> object_key \<Rightarrow> 'o option"
  assumes get_Ok: "run_state (kd_get K k) w = (Inr x, w') \<Longrightarrow>
      objs w k = Some x \<and> objs w' = objs w \<and> key_of x = k"
    and get_Err: "run_state (kd_get K k) w = (Inl e, w') \<Longrightarrow>
      objs w' = objs w \<and> (is_not_found e \<longrightarrow> objs w k = None)"
    and create_Ok: "run_state (kd_create K x) w = (Inr y, w') \<Longrightarrow>
      objs w (key_of x) = None \<and> objs w' = (objs w)(key_of x \<mapsto> x)"
    and create_Err: "run_state (kd_create K x) w = (Inl e, w') \<Longrightarrow> objs w' = objs w"
    and update_Ok: "run_state (kd_update K x) w = (Inr y, w') \<Longrightarrow> objs w' = (objs w)(key_of x \<mapsto> x)"
    and update_Err: "run_state (kd_update K x) w = (Inl e, w') \<Longrightarrow> objs w' = objs w"
    and delete_Ok: "run_state (kd_delete K k) w = (Inr u, w') \<Longrightarrow> objs w' = (objs w)(k := None)"
    and delete_Err: "run_state (kd_delete K k) w = (Inl e, w') \<Longrightarrow>
      objs w' = objs w \<and> (is_not_found e \<longrightarrow> objs w k = None)"
begin

lemma get_objs: "run_state (kd_get K k) w = (r, w') \<Longrightarrow> objs w' = objs w"
  using get_Ok[of k w _ w'] get_Err[of k w _ w'] by (cases r) auto

text \<open>Another key is never touched.\<close>

lemma write_frame:
  "run_state (kd_create K x) w = (r, w') \<Longrightarrow> k \<noteq> key_of x \<Longrightarrow> objs w' k = objs w k"
  "run_state (kd_update K x) w = (r, w') \<Longrightarrow> k \<noteq> key_of x \<Longrightarrow> objs w' k = objs w k"
  using create_Ok[of x w _ w'] create_Err[of x w _ w'] update_Ok[of x w _ w'] update_Err[of x w _ w']
  by (cases r; simp)+

end

text \<open>Where the code lists a kind: the list holds the objects of the namespace.\<close>

locale kube_listed = kube_kind +
  assumes list_Ok: "run_state (kd_list K ns) w = (Inr xs, w') \<Longrightarrow>
      objs w' = objs w \<and> set xs = {x. objs w (key_of x) = Some x \<and> fst (key_of x) = ns}"
    and list_Err: "run_state (kd_list K ns) w = (Inl e, w') \<Longrightarrow> objs w' = objs w"

section \<open>What a call leaves alone\<close>

definition same_part :: "('w \<Rightarrow> 'p) \<Rightarrow> 'w \<Rightarrow> 'w \<Rightarrow> bool" where
  "same_part f w w' \<longleftrightarrow> f w' = f w"

lemma same_part_order: "reflp (same_part f)" "transp (same_part f)"
  by (auto simp: same_part_def reflp_def transp_def)

lemmas keeps_part = keeps_ret[OF same_part_order(1)] keeps_bind[OF same_part_order(2)]
  keeps_try[OF same_part_order(2,1)]

text \<open>The rest of a call may rely on what its first part can return.\<close>

lemma keeps_bind_result:
  assumes "transp R" and "keeps R m" and "\<And>x w w'. run_state m w = (x, w') \<Longrightarrow> keeps R (k x)"
  shows "keeps R (State_Monad.bind m k)"
proof (rule keepsI)
  fix w x w' assume "run_state (State_Monad.bind m k) w = (x, w')"
  then obtain y w1 where r: "run_state m w = (y, w1)" "run_state (k y) w1 = (x, w')" by (elim run_bindE)
  show "R w w'" using transpD[OF assms(1) keepsD[OF assms(2) r(1)] keepsD[OF assms(3)[OF r(1)] r(2)]] .
qed

lemma keeps_for_each_try: "(\<And>x. keeps (same_part f) (body x)) \<Longrightarrow> keeps (same_part f) (for_each_try xs body)"
  by (induction xs) (auto intro!: keeps_part)

definition kind_keeps :: "('w \<Rightarrow> 'p) \<Rightarrow> ('w, 'o) kind \<Rightarrow> bool" where
  "kind_keeps f K \<longleftrightarrow> (\<forall>k ns x y. keeps (same_part f) (kd_get K k) \<and> keeps (same_part f) (kd_list K ns) \<and>
     keeps (same_part f) (kd_create K x) \<and> keeps (same_part f) (kd_update K x) \<and>
     keeps (same_part f) (kd_patch K x y) \<and> keeps (same_part f) (kd_update_status K x) \<and>
     keeps (same_part f) (kd_patch_status K x y) \<and> keeps (same_part f) (kd_delete K k))"

lemma kind_keepsD:
  assumes "kind_keeps f K"
  shows "keeps (same_part f) (kd_get K k)" "keeps (same_part f) (kd_list K ns)" "keeps (same_part f) (kd_create K x)"
    "keeps (same_part f) (kd_update K x)" "keeps (same_part f) (kd_patch K x y)"
    "keeps (same_part f) (kd_update_status K x)" "keeps (same_part f) (kd_patch_status K x y)"
    "keeps (same_part f) (kd_delete K k)"
  using assms unfolding kind_keeps_def by blast+

section \<open>A kind in memory\<close>

text \<open>Objects of one kind in a field of the world, read by \<open>get\<close> and replaced by \<open>put\<close>.\<close>

fun store_obj :: "('o \<Rightarrow> object_key) \<Rightarrow> 'o \<Rightarrow> 'o list \<Rightarrow> 'o list" where
  "store_obj key_of x [] = [x]"
| "store_obj key_of x (y # ys) = (if key_of y = key_of x then x # ys else y # store_obj key_of x ys)"

definition find_obj :: "('o \<Rightarrow> object_key) \<Rightarrow> object_key \<Rightarrow> 'o list \<Rightarrow> 'o option" where
  "find_obj key_of k xs = find (\<lambda>x. key_of x = k) xs"

lemma find_store [simp]:
  "find_obj key_of k (store_obj key_of x xs) = (if k = key_of x then Some x else find_obj key_of k xs)"
  by (induction xs) (auto simp: find_obj_def)

lemma find_filter [simp]:
  "find_obj key_of k' (filter (\<lambda>x. key_of x \<noteq> k) xs) = (if k' = k then None else find_obj key_of k' xs)"
  by (induction xs) (auto simp: find_obj_def)

lemma find_obj_key: "find_obj key_of k xs = Some x \<Longrightarrow> key_of x = k"
  by (auto simp: find_obj_def find_Some_iff)

definition mem_kind ::
  "('o \<Rightarrow> object_key) \<Rightarrow> ('w \<Rightarrow> 'o list) \<Rightarrow> ('o list \<Rightarrow> 'w \<Rightarrow> 'w) \<Rightarrow> ('w, 'o) kind" where
  "mem_kind key_of get put =
     (let not_found = Inl (Sentinel ErrNotFound);
          put_obj = (\<lambda>x w. (Inr x, put (store_obj key_of x (get w)) w));
          change = (\<lambda>x. State (\<lambda>w. if find_obj key_of (key_of x) (get w) = None then (not_found, w) else put_obj x w)) in
      \<lparr>kd_get = (\<lambda>k. State (\<lambda>w. (case find_obj key_of k (get w) of None \<Rightarrow> not_found | Some x \<Rightarrow> Inr x, w))),
       kd_list = (\<lambda>ns. State (\<lambda>w. (Inr (filter (\<lambda>x. fst (key_of x) = ns \<and> find_obj key_of (key_of x) (get w) = Some x) (get w)), w))),
       kd_create = (\<lambda>x. State (\<lambda>w. if find_obj key_of (key_of x) (get w) = None then put_obj x w
                                  else (Inl (Msg ''already exists''), w))),
       kd_update = change, kd_patch = (\<lambda>_ x. change x),
       kd_update_status = change, kd_patch_status = (\<lambda>_ x. change x),
       kd_delete = (\<lambda>k. State (\<lambda>w. if find_obj key_of k (get w) = None then (Inl (Sentinel ErrNotFound), w)
                                  else (Inr (), put (filter (\<lambda>x. key_of x \<noteq> k) (get w)) w)))\<rparr>)"

lemma mem_kind_contract:
  assumes "\<And>x w. get (put x w) = x"
  shows "kube_kind (mem_kind key_of get put) key_of (\<lambda>w k. find_obj key_of k (get w))"
  by unfold_locales
    (auto simp: mem_kind_def Let_def assms is_not_found_def find_obj_key fun_eq_iff
       split: option.splits if_splits)

lemma mem_kind_patch:
  assumes "\<And>x w. get (put x w) = x"
    and "run_state (kd_patch (mem_kind key_of get put) x y) w = (Inr z, w') \<or>
      run_state (kd_patch_status (mem_kind key_of get put) x y) w = (Inr z, w')"
  shows "(\<lambda>k. find_obj key_of k (get w')) = (\<lambda>k. find_obj key_of k (get w))(key_of y \<mapsto> y) \<and> z = y"
  using assms(2) by (auto simp: mem_kind_def Let_def assms(1) fun_eq_iff split: if_splits)

lemma mem_kind_listed:
  assumes "\<And>x w. get (put x w) = x"
  shows "kube_listed (mem_kind key_of get put) key_of (\<lambda>w k. find_obj key_of k (get w))"
proof (intro kube_listed.intro kube_listed_axioms.intro)
  show "kube_kind (mem_kind key_of get put) key_of (\<lambda>w k. find_obj key_of k (get w))"
    using assms by (rule mem_kind_contract)
qed (auto simp: mem_kind_def Let_def find_obj_def find_Some_iff)

lemma mem_kind_keeps:
  assumes "\<And>x w. f (put x w) = f w"
  shows "kind_keeps f (mem_kind key_of get put)"
  unfolding kind_keeps_def
  by (auto simp: mem_kind_def Let_def assms same_part_def intro!: keepsI split: if_splits)

end
