(* ===== verification/Code_Scanner.thy ===== *)
theory Code_Scanner
  imports K8s_Base Fossa_Mock
begin

text \<open>
  The operator of \<^verbatim>\<open>code-scanners\<close>: the reconcilers of \<^verbatim>\<open>CodeScannerFossa\<close>
  (\<^verbatim>\<open>codescannerfossa_controller.go\<close>) and \<^verbatim>\<open>CodeScannerSnyk\<close> (\<^verbatim>\<open>codescannersnyk_controller.go\<close>).
  What they call is an argument: the API server (theory \<open>K8s_Base\<close>), the FOSSA client, the clock
  and the event recorder.  Times are nanoseconds; logging is left out.
\<close>

section \<open>Resources\<close>

record invitation =
  iv_email :: string
  iv_status :: string
  iv_message :: string
  iv_invited :: "int option"
  iv_accepted :: "int option"
  iv_added :: "int option"

record team_reference =
  tr_id :: int
  tr_name :: string
  tr_organization :: int
  tr_url :: string
  tr_created :: "int option"

text \<open>\<^verbatim>\<open>CodeScannerFossa\<close>: metadata, specification, status.  A nil map of annotations is the empty one.\<close>

record fossa_scanner =
  fs_name :: string
  fs_namespace :: string
  fs_generation :: int
  fs_annotations :: "(string, string) gomap"
  fs_project_name :: string
  fs_config_map_name :: string
  fs_emails :: "string list"
  fs_observed :: int
  fs_config_map_ref :: string
  fs_team :: "team_reference option"
  fs_invitations :: "invitation list"
  fs_conditions :: "condition list"

record config_map =
  cm_name :: string
  cm_namespace :: string
  cm_data :: "(string, string) gomap"
  cm_owner :: "string option"

definition cm_key :: "config_map \<Rightarrow> object_key" where
  "cm_key c = (cm_namespace c, cm_name c)"

definition fs_key :: "fossa_scanner \<Rightarrow> object_key" where
  "fs_key c = (fs_namespace c, fs_name c)"

text \<open>\<^verbatim>\<open>constants.go\<close>.\<close>

abbreviation "ann_config_map_ref \<equiv> ''maintainer-d.cncf.io/configmap-ref''"
abbreviation "secret_name \<equiv> ''code-scanners''"
abbreviation "secret_token \<equiv> ''fossa-api-token''"
abbreviation "secret_org \<equiv> ''fossa-organization-id''"
abbreviation "cond_team \<equiv> ''FossaTeamReady''"
abbreviation "cond_config_map \<equiv> ''ConfigMapReady''"
abbreviation "cond_invitations \<equiv> ''UserInvitationsProcessed''"
abbreviation "st_pending \<equiv> ''Pending''"
abbreviation "st_accepted \<equiv> ''Accepted''"
abbreviation "st_added \<equiv> ''AddedToTeam''"
abbreviation "st_already \<equiv> ''AlreadyMember''"
abbreviation "st_failed \<equiv> ''Failed''"
abbreviation "st_expired \<equiv> ''Expired''"

section \<open>What the reconciler calls\<close>

text \<open>\<^verbatim>\<open>FossaClient\<close> of the controller: some calls of the onboarding server's interface, and \<^verbatim>\<open>FetchUsers\<close>.\<close>

record 'w scanner_fossa = "'w fossa" +
  sf_fetch_users :: "('w, user list result) io"

text \<open>The reconciler, with \<^verbatim>\<open>SetControllerReference\<close>, the clock and the recorder.\<close>

record 'w scanner_env =
  se_scanners :: "('w, fossa_scanner) kind"
  se_config_maps :: "('w, config_map) kind"
  se_secret :: "object_key \<Rightarrow> ('w, (string, string) gomap result) io"
  se_set_owner :: "fossa_scanner \<Rightarrow> config_map \<Rightarrow> config_map result"
  se_factory :: "string \<Rightarrow> 'w scanner_fossa"
  se_now :: "('w, int) io"
  se_event :: "string \<Rightarrow> string \<Rightarrow> string \<Rightarrow> ('w, unit) io"
  se_credentials_namespace :: string

section \<open>Conditions\<close>

text \<open>
  The first condition of the type is replaced when its status or reason differ, and kept as it is
  otherwise; without one, the condition is added at the end.
\<close>

fun put_condition :: "condition \<Rightarrow> condition list \<Rightarrow> condition list" where
  "put_condition c [] = [c]"
| "put_condition c (d # ds) =
     (if cd_type d = cd_type c
      then (if cd_status d \<noteq> cd_status c \<or> cd_reason d \<noteq> cd_reason c then c # ds else d # ds)
      else d # put_condition c ds)"

definition set_condition ::
  "'w scanner_env \<Rightarrow> string \<Rightarrow> string \<Rightarrow> string \<Rightarrow> string \<Rightarrow> fossa_scanner \<Rightarrow> ('w, fossa_scanner) io" where
  "set_condition E ctype status reason message cr =
     do { now \<leftarrow> se_now E;
          ret (cr\<lparr>fs_conditions := put_condition
            \<lparr>cd_type = ctype, cd_status = status, cd_observed = fs_generation cr, cd_transition = now,
             cd_reason = reason, cd_message = message\<rparr> (fs_conditions cr)\<rparr>) }"

section \<open>Credentials and team\<close>

definition get_fossa_credentials :: "'w scanner_env \<Rightarrow> string \<Rightarrow> ('w, (string \<times> string) result) io" where
  "get_fossa_credentials E namespace =
     do { r \<leftarrow> se_secret E (namespace, secret_name);
          case r of
            Inl e \<Rightarrow>
              if is_not_found e
              then ret (Inl (Msg (''secret '' @ secret_name @ '' not found in namespace '' @ namespace)))
              else ret (Inl (Wrap (''failed to get secret '' @ secret_name @ '': '') e []))
          | Inr secret \<Rightarrow>
              (let token = map_get secret secret_token; orgID = map_get secret secret_org in
               if token = [] then ret (Inl (Msg (''missing '' @ secret_token @ '' in secret'')))
               else if orgID = [] then ret (Inl (Msg (''missing '' @ secret_org @ '' in secret'')))
               else ret (Inr (token, orgID))) }"

definition ensure_scanner_team :: "('w, 'z) fossa_scheme \<Rightarrow> string \<Rightarrow> ('w, team result) io" where
  "ensure_scanner_team F teamName =
     do { r \<leftarrow> fc_fetch_team F teamName;
          case r of
            Inr team \<Rightarrow> ret (Inr team)
          | Inl _ \<Rightarrow>
              do { c \<leftarrow> fc_create_team F teamName;
                   ret (case c of
                          Inl e \<Rightarrow> Inl (Wrap ''failed to create FOSSA team: '' e [])
                        | Inr team \<Rightarrow> Inr team) } }"

text \<open>
  \<^verbatim>\<open>n, _ := strconv.Atoi(s)\<close>: zero for a string that is no number, the nearest 64-bit value for a
  number out of range.
\<close>

definition atoi_value :: "string \<Rightarrow> int" where
  "atoi_value s =
     (let neg = (s \<noteq> [] \<and> hd s = CHR ''-'');
          ds = (if s \<noteq> [] \<and> hd s \<in> {CHR ''-'', CHR ''+''} then tl s else s);
          v = (if neg then - int (digits_val ds) else int (digits_val ds))
      in if ds = [] \<or> \<not> list_all is_digit ds then 0 else max (- (2 ^ 63)) (min (2 ^ 63 - 1) v))"

definition team_url :: "int \<Rightarrow> string" where
  "team_url i = ''https://app.fossa.com/account/settings/organization/teams/'' @ itoa i"

section \<open>Invitations\<close>

definition new_invitation :: "string \<Rightarrow> string \<Rightarrow> string \<Rightarrow> invitation" where
  "new_invitation email status message =
     \<lparr>iv_email = email, iv_status = status, iv_message = message,
      iv_invited = None, iv_accepted = None, iv_added = None\<rparr>"

text \<open>The recorded invitation of an address, by its lower case: the last one wins.\<close>

definition existing_map :: "invitation list \<Rightarrow> (string, invitation) gomap" where
  "existing_map ivs = foldl (\<lambda>m iv. map_put (to_lower (iv_email iv)) iv m) [] ivs"

definition invited_before :: "(string, invitation) gomap \<Rightarrow> string \<Rightarrow> int option" where
  "invited_before ex email = (case map_of ex (to_lower email) of None \<Rightarrow> None | Some iv \<Rightarrow> iv_invited iv)"

definition user_email_set :: "user list \<Rightarrow> string list" where
  "user_email_set us = map (\<lambda>u. to_lower (us_email u)) us"

text \<open>
  One address of the loop.  The branch on an invitation older than \<^verbatim>\<open>InvitationTTL\<close> only logs; the
  code then sends a new one in any case.
\<close>

definition send_invitation :: "('w, 'z) fossa_scheme \<Rightarrow> int \<Rightarrow> string \<Rightarrow> ('w, invitation) io" where
  "send_invitation F now email =
     do { r \<leftarrow> fc_send_invitation F email;
          ret (case r of
                 Inr _ \<Rightarrow> (new_invitation email st_pending ''Invitation sent'')\<lparr>iv_invited := Some now\<rparr>
               | Inl e \<Rightarrow>
                   if errors_is e ErrInviteAlreadyExists
                   then (new_invitation email st_pending ''Invitation pending'')\<lparr>iv_invited := Some now\<rparr>
                   else if errors_is e ErrUserAlreadyMember
                   then (new_invitation email st_accepted ''User is already a FOSSA organization member'')
                          \<lparr>iv_accepted := Some now\<rparr>
                   else new_invitation email st_failed (''Failed to send invitation: '' @ error_text e)) }"

definition one_invitation ::
  "('w, 'z) fossa_scheme \<Rightarrow> string list \<Rightarrow> (string, invitation) gomap \<Rightarrow> int \<Rightarrow> string \<Rightarrow> ('w, invitation) io" where
  "one_invitation F userEmails ex now email =
     (if to_lower email \<in> set userEmails
      then ret ((new_invitation email st_accepted ''User is already a FOSSA organization member'')
                  \<lparr>iv_accepted := Some now, iv_invited := invited_before ex email\<rparr>)
      else do { p \<leftarrow> fc_has_pending F email;
                case p of
                  Inl e \<Rightarrow> ret (new_invitation email st_failed (''Failed to check pending invitation: '' @ error_text e))
                | Inr hasPendingInvite \<Rightarrow>
                    if hasPendingInvite
                    then ret ((new_invitation email st_pending ''Invitation pending (expires after 48h)'')
                                \<lparr>iv_invited := (case invited_before ex email of None \<Rightarrow> Some now | Some t \<Rightarrow> Some t)\<rparr>)
                    else send_invitation F now email })"

definition ensure_user_invitations ::
  "'w scanner_env \<Rightarrow> 'w scanner_fossa \<Rightarrow> string list \<Rightarrow> invitation list \<Rightarrow> ('w, (invitation list \<times> bool) result) io" where
  "ensure_user_invitations E F emails existing =
     do { u \<leftarrow> sf_fetch_users F;
          case u of
            Inl e \<Rightarrow> ret (Inl (Wrap ''failed to fetch FOSSA users: '' e []))
          | Inr users \<Rightarrow>
              do { (ivs, hasPending) \<leftarrow>
                     for_each emails (\<lambda>email (ivs, hasPending).
                       do { now \<leftarrow> se_now E;
                            iv \<leftarrow> one_invitation F (user_email_set users) (existing_map existing) now email;
                            ret (ivs @ [iv], hasPending \<or> iv_status iv = st_pending) }) ([], False);
                   ret (Inr (ivs, hasPending)) } }"

section \<open>Team membership\<close>

definition on_team :: "'w scanner_env \<Rightarrow> string \<Rightarrow> invitation \<Rightarrow> ('w, invitation) io" where
  "on_team E message iv =
     do { now \<leftarrow> se_now E; ret (iv\<lparr>iv_status := st_added, iv_message := message, iv_added := Some now\<rparr>) }"

definition one_member ::
  "'w scanner_env \<Rightarrow> ('w, 'z) fossa_scheme \<Rightarrow> int \<Rightarrow> string list \<Rightarrow> invitation \<Rightarrow> ('w, invitation) io" where
  "one_member E F teamID teamMembers iv =
     (if iv_status iv \<noteq> st_accepted \<and> iv_status iv \<noteq> st_already then ret iv
      else if to_lower (iv_email iv) \<in> set teamMembers
      then (if iv_status iv \<noteq> st_added then on_team E ''User is a team member'' iv else ret iv)
      else do { r \<leftarrow> fc_add_user F teamID (iv_email iv) 0;
                case r of
                  Inl e \<Rightarrow>
                    if errors_is e ErrUserAlreadyMember then on_team E ''User is a team member'' iv
                    else ret (iv\<lparr>iv_message := ''Failed to add to team: '' @ error_text e\<rparr>)
                | Inr _ \<Rightarrow> on_team E ''User added to team'' iv })"

text \<open>The updated invitations, and the error beside them if the team could not be read.\<close>

definition ensure_team_membership ::
  "'w scanner_env \<Rightarrow> ('w, 'z) fossa_scheme \<Rightarrow> int \<Rightarrow> invitation list
     \<Rightarrow> ('w, invitation list \<times> go_error option) io" where
  "ensure_team_membership E F teamID ivs =
     do { r \<leftarrow> fc_team_emails F teamID;
          case r of
            Inl e \<Rightarrow> ret (ivs, Some (Wrap ''failed to fetch team members: '' e []))
          | Inr teamEmails \<Rightarrow>
              do { updated \<leftarrow> for_each ivs (\<lambda>iv updated.
                     do { iv' \<leftarrow> one_member E F teamID (map to_lower teamEmails) iv; ret (updated @ [iv']) }) [];
                   ret (updated, None) } }"

section \<open>The ConfigMap\<close>

definition config_map_for_fossa :: "fossa_scanner \<Rightarrow> team \<Rightarrow> config_map" where
  "config_map_for_fossa cr team =
     \<lparr>cm_name = fs_name cr, cm_namespace = fs_namespace cr,
      cm_data = [(''CodeScanner'', ''Fossa''), (''ProjectName'', fs_project_name cr),
                 (''FossaTeamID'', itoa (tm_id team)), (''FossaTeamName'', tm_name team),
                 (''FossaTeamURL'', team_url (tm_id team))],
      cm_owner = None\<rparr>"

definition sync_config_map ::
  "'w scanner_env \<Rightarrow> fossa_scanner \<Rightarrow> team \<Rightarrow> ('w, config_map result) io" where
  "sync_config_map E cr team =
     (case se_set_owner E cr (config_map_for_fossa cr team) of
        Inl e \<Rightarrow> ret (Inl e)
      | Inr cm \<Rightarrow>
          do { g \<leftarrow> kd_get (se_config_maps E) (cm_key cm);
               case g of
                 Inl e \<Rightarrow>
                   if is_not_found e
                   then try_bind (kd_create (se_config_maps E) cm) (\<lambda>cm.
                        do { _ \<leftarrow> se_event E ''Normal'' ''ConfigMapCreated'' (''ConfigMap '' @ cm_name cm @ '' created'');
                             ret (Inr cm) })
                   else ret (Inl e)
               | Inr existing \<Rightarrow>
                   if \<not> same_map (cm_data existing) (cm_data cm)
                   then try_bind (kd_update (se_config_maps E) (existing\<lparr>cm_data := cm_data cm\<rparr>)) (\<lambda>_. ret (Inr cm))
                   else ret (Inr cm) })"

section \<open>Reconciling a CodeScannerFossa\<close>

definition count_status :: "string \<Rightarrow> invitation list \<Rightarrow> nat" where
  "count_status s ivs = length (filter (\<lambda>iv. iv_status iv = s) ivs)"

text \<open>The condition that sums the invitations up: status, reason and message.\<close>

definition invitations_summary :: "invitation list \<Rightarrow> string \<times> string \<times> string" where
  "invitations_summary ivs =
     (let pending = count_status st_pending ivs; accepted = count_status st_accepted ivs;
          failed = count_status st_failed ivs; expired = count_status st_expired ivs;
          totalOnTeam = count_status st_added ivs + count_status st_already ivs in
      if totalOnTeam = length ivs \<and> totalOnTeam > 0
      then (''True'', ''TeamMembershipProcessed'', ''All '' @ itoa (int totalOnTeam) @ '' users added to team'')
      else if failed > 0 \<and> totalOnTeam = 0 \<and> accepted = 0 \<and> pending = 0
      then (''False'', ''InvitationsFailed'', ''All '' @ itoa (int failed) @ '' invitations failed'')
      else (''False'', ''InvitationsPartiallyProcessed'',
            ''Invitations: '' @ itoa (int totalOnTeam) @ '' on team, '' @ itoa (int accepted) @ '' accepted, '' @
            itoa (int pending) @ '' pending, '' @ itoa (int failed) @ '' failed, '' @ itoa (int expired) @ '' expired''))"

text \<open>Step 8: the invitations (8.1), the membership (8.2), the condition, and the time to the next run (8.3).\<close>

definition invite_users ::
  "'w scanner_env \<Rightarrow> 'w scanner_fossa \<Rightarrow> fossa_scanner \<Rightarrow> ('w, fossa_scanner \<times> invitation list \<times> bool) io" where
  "invite_users E F cr =
     do { r \<leftarrow> ensure_user_invitations E F (fs_emails cr) (fs_invitations cr);
          case r of
            Inl e \<Rightarrow>
              do { cr \<leftarrow> set_condition E cond_invitations ''False'' ''InvitationsFailed'' (error_text e) cr;
                   _ \<leftarrow> se_event E ''Warning'' ''InvitationsFailed'' (error_text e);
                   ret (cr, [], False) }
          | Inr (ivs, hasPending) \<Rightarrow> ret (cr, ivs, hasPending) }"

definition join_team ::
  "'w scanner_env \<Rightarrow> 'w scanner_fossa \<Rightarrow> team \<Rightarrow> invitation list \<Rightarrow> ('w, invitation list) io" where
  "join_team E F team ivs =
     (if tm_id team > 0
      then do { (ivs, err) \<leftarrow> ensure_team_membership E F (tm_id team) ivs;
                case err of
                  None \<Rightarrow> ret ivs
                | Some e \<Rightarrow> do { _ \<leftarrow> se_event E ''Warning'' ''TeamMembershipFailed'' (error_text e); ret ivs } }
      else ret ivs)"

definition process_invitations ::
  "'w scanner_env \<Rightarrow> 'w scanner_fossa \<Rightarrow> team \<Rightarrow> fossa_scanner \<Rightarrow> ('w, fossa_scanner \<times> int) io" where
  "process_invitations E F team cr =
     (if fs_emails cr = []
      then do { cr \<leftarrow> set_condition E cond_invitations ''True'' ''NoInvitationsRequested''
                        ''No user invitations requested'' (cr\<lparr>fs_invitations := []\<rparr>);
                ret (cr, 0) }
      else do { (cr, ivs, hasPending) \<leftarrow> invite_users E F cr;
                ivs \<leftarrow> join_team E F team ivs;
                cr \<leftarrow> (case invitations_summary ivs of (status, reason, message) \<Rightarrow>
                         set_condition E cond_invitations status reason message (cr\<lparr>fs_invitations := ivs\<rparr>));
                ret (cr, if hasPending \<or> count_status st_accepted ivs > 0 then hour else 0) })"

text \<open>Steps 9 and 10: the annotation and the status.\<close>

definition publish ::
  "'w scanner_env \<Rightarrow> team \<Rightarrow> config_map \<Rightarrow> fossa_scanner \<Rightarrow> int \<Rightarrow> ('w, ctrl_result) io" where
  "publish E team cm cr requeueAfter =
     (let ref = cm_namespace cm @ ''/'' @ cm_name cm in
      do { p \<leftarrow> (if map_get (fs_annotations cr) ann_config_map_ref \<noteq> ref
                then kd_patch (se_scanners E) cr
                       (cr\<lparr>fs_annotations := map_put ann_config_map_ref ref (fs_annotations cr)\<rparr>)
                else ret (Inr cr));
           case p of
             Inl e \<Rightarrow> ret (0, Some e)
           | Inr cr \<Rightarrow>
               do { u \<leftarrow> kd_update_status (se_scanners E) (cr\<lparr>fs_config_map_ref := ref\<rparr>);
                    case u of
                      Inl e \<Rightarrow> ret (0, Some e)
                    | Inr _ \<Rightarrow>
                        do { _ \<leftarrow> se_event E ''Normal'' ''Reconciled''
                                 (''FOSSA team '' @ quote (tm_name team) @ '' (ID: '' @ itoa (tm_id team) @ '') ready'');
                             ret (requeueAfter, None) } } })"

text \<open>Steps 6 to 10, once the team is there.\<close>

definition record_team :: "string \<Rightarrow> team \<Rightarrow> fossa_scanner \<Rightarrow> fossa_scanner" where
  "record_team orgID team cr =
     cr\<lparr>fs_observed := fs_generation cr,
        fs_team := Some \<lparr>tr_id = tm_id team, tr_name = tm_name team, tr_organization = atoi_value orgID,
                         tr_url = team_url (tm_id team), tr_created = Some (tm_created team)\<rparr>\<rparr>"

definition reconcile_team ::
  "'w scanner_env \<Rightarrow> 'w scanner_fossa \<Rightarrow> string \<Rightarrow> team \<Rightarrow> fossa_scanner \<Rightarrow> ('w, ctrl_result) io" where
  "reconcile_team E F orgID team cr =
     do { cr \<leftarrow> set_condition E cond_team ''True'' ''TeamCreated''
                 (''FOSSA team '' @ quote (tm_name team) @ '' ready (ID: '' @ itoa (tm_id team) @ '')'')
                 (record_team orgID team cr);
          s \<leftarrow> sync_config_map E cr team;
          case s of
            Inl e \<Rightarrow> ret (0, Some e)
          | Inr cm \<Rightarrow>
              do { cr \<leftarrow> set_condition E cond_config_map ''True'' ''ConfigMapCreated'' ''ConfigMap ready'' cr;
                   (cr, requeueAfter) \<leftarrow> process_invitations E F team cr;
                   publish E team cm cr requeueAfter } }"

text \<open>Steps 3 to 5, with the two early returns.\<close>

definition credentials_failed :: "'w scanner_env \<Rightarrow> go_error \<Rightarrow> fossa_scanner \<Rightarrow> ('w, ctrl_result) io" where
  "credentials_failed E e cr =
     do { cr \<leftarrow> set_condition E cond_team ''False'' ''CredentialsNotFound'' (error_text e) cr;
          u \<leftarrow> kd_update_status (se_scanners E) cr;
          case u of
            Inl ue \<Rightarrow> ret (0, Some ue)
          | Inr _ \<Rightarrow> do { _ \<leftarrow> se_event E ''Warning'' ''CredentialsNotFound'' (error_text e); ret (0, None) } }"

definition team_failed :: "'w scanner_env \<Rightarrow> go_error \<Rightarrow> fossa_scanner \<Rightarrow> ('w, ctrl_result) io" where
  "team_failed E e cr =
     do { cr \<leftarrow> set_condition E cond_team ''False'' ''APIError'' (error_text e) cr;
          _ \<leftarrow> kd_update_status (se_scanners E) cr;
          _ \<leftarrow> se_event E ''Warning'' ''APIError'' (error_text e);
          ret (minute, Some e) }"

definition reconcile_found :: "'w scanner_env \<Rightarrow> fossa_scanner \<Rightarrow> ('w, ctrl_result) io" where
  "reconcile_found E cr =
     do { c \<leftarrow> get_fossa_credentials E
                (if se_credentials_namespace E = [] then fs_namespace cr else se_credentials_namespace E);
          case c of
            Inl e \<Rightarrow> credentials_failed E e cr
          | Inr (token, orgID) \<Rightarrow>
              do { t \<leftarrow> ensure_scanner_team (se_factory E token) (fs_project_name cr);
                   case t of
                     Inl e \<Rightarrow> team_failed E e cr
                   | Inr team \<Rightarrow> reconcile_team E (se_factory E token) orgID team cr } }"

text \<open>Steps 1 and 2.\<close>

definition reconcile_fossa :: "'w scanner_env \<Rightarrow> object_key \<Rightarrow> ('w, ctrl_result) io" where
  "reconcile_fossa E req =
     do { g \<leftarrow> kd_get (se_scanners E) req;
          case g of
            Inl e \<Rightarrow> ret (0, if is_not_found e then None else Some e)
          | Inr cr \<Rightarrow> reconcile_found E cr }"

section \<open>Reconciling a CodeScannerSnyk\<close>

record snyk_scanner =
  sn_name :: string
  sn_namespace :: string
  sn_annotations :: "(string, string) gomap"
  sn_project_name :: string
  sn_config_map_name :: string
  sn_config_map_ref :: string
  sn_conditions :: "condition list"

record 'w snyk_env =
  ny_scanners :: "('w, snyk_scanner) kind"
  ny_config_maps :: "('w, config_map) kind"
  ny_set_owner :: "snyk_scanner \<Rightarrow> config_map \<Rightarrow> config_map result"

definition config_map_for_snyk :: "snyk_scanner \<Rightarrow> config_map" where
  "config_map_for_snyk snyk =
     \<lparr>cm_name = sn_name snyk, cm_namespace = sn_namespace snyk,
      cm_data = [(''CodeScanner'', ''Snyk''), (''ProjectName'', sn_project_name snyk)], cm_owner = None\<rparr>"

text \<open>Step 4: create, or write the data over the one that exists.\<close>

definition snyk_config_map :: "'w snyk_env \<Rightarrow> config_map \<Rightarrow> ('w, config_map result) io" where
  "snyk_config_map E cm =
     do { g \<leftarrow> kd_get (ny_config_maps E) (cm_key cm);
          case g of
            Inl e \<Rightarrow>
              if is_not_found e then kd_create (ny_config_maps E) cm else ret (Inl e)
          | Inr existing \<Rightarrow>
              try_bind (kd_update (ny_config_maps E) (existing\<lparr>cm_data := cm_data cm\<rparr>)) (\<lambda>_. ret (Inr cm)) }"

definition snyk_publish :: "'w snyk_env \<Rightarrow> config_map \<Rightarrow> snyk_scanner \<Rightarrow> ('w, unit result) io" where
  "snyk_publish E cm snyk =
     (let ref = cm_namespace cm @ ''/'' @ cm_name cm in
      try_bind
        (if map_get (sn_annotations snyk) ann_config_map_ref \<noteq> ref
         then kd_update (ny_scanners E)
                (snyk\<lparr>sn_annotations := map_put ann_config_map_ref ref (sn_annotations snyk)\<rparr>)
         else ret (Inr snyk))
        (\<lambda>snyk. try_bind (kd_update_status (ny_scanners E) (snyk\<lparr>sn_config_map_ref := ref\<rparr>)) (\<lambda>_. ret (Inr ()))))"

definition reconcile_snyk :: "'w snyk_env \<Rightarrow> object_key \<Rightarrow> ('w, ctrl_result) io" where
  "reconcile_snyk E req =
     do { g \<leftarrow> kd_get (ny_scanners E) req;
          case g of
            Inl e \<Rightarrow> ret (0, if is_not_found e then None else Some e)
          | Inr snyk \<Rightarrow>
              (case ny_set_owner E snyk (config_map_for_snyk snyk) of
                 Inl e \<Rightarrow> ret (0, Some e)
               | Inr cm \<Rightarrow>
                   do { r \<leftarrow> try_bind (snyk_config_map E cm) (\<lambda>cm. snyk_publish E cm snyk);
                        ret (0, case r of Inl e \<Rightarrow> Some e | Inr _ \<Rightarrow> None) }) }"

end
