(* ===== verification/Scanner_Laws.thy ===== *)
theory Scanner_Laws
  imports Code_Scanner Store_Laws
begin

text \<open>
  What the scanner operator promises: the contracts of its FOSSA client and of its API server as
  locales with an interpretation on the mock and on a cluster in memory, the lemmas about the two
  invitation loops, and the properties of invitations, membership, conditions and ConfigMap.
\<close>

section \<open>Loops that build a list\<close>

lemma for_each_list_all2:
  assumes "\<And>x a w a' w'. x \<in> set xs \<Longrightarrow> I w \<Longrightarrow> run_state (body x a) w = (a', w') \<Longrightarrow>
      (\<exists>y. out a' = out a @ [y] \<and> P w' x y) \<and> I w'"
    and stable: "\<And>x y z a w a' w'. I w \<Longrightarrow> P w x y \<Longrightarrow> run_state (body z a) w = (a', w') \<Longrightarrow> P w' x y"
    and "I w" and "run_state (for_each xs body a) w = (a', w')"
  shows "(\<exists>ys. out a' = out a @ ys \<and> list_all2 (P w') xs ys) \<and> I w'"
  using assms(1,3,4)
proof (induction xs arbitrary: a w)
  case (Cons x xs)
  obtain a1 w1 where s: "run_state (body x a) w = (a1, w1)" by (cases "run_state (body x a) w")
  then have r: "run_state (for_each xs body a1) w1 = (a', w')" using Cons.prems(3) by simp
  obtain y where y: "out a1 = out a @ [y]" "P w1 x y" and i1: "I w1"
    using Cons.prems(1)[OF _ Cons.prems(2) s] by auto
  have "(\<exists>ys. out a' = out a1 @ ys \<and> list_all2 (P w') xs ys) \<and> I w'"
    by (rule Cons.IH[OF _ i1 r], rule Cons.prems(1)) simp_all
  moreover have "P w' x y"
  proof -
    have "I w' \<and> P w' x y"
      by (rule for_each_invariant[where I = "\<lambda>_ w. I w \<and> P w x y", OF _ _ r])
        (use i1 y(2) Cons.prems(1) stable in \<open>meson list.set_intros(2)\<close>)+
    then show ?thesis by simp
  qed
  ultimately show ?case using y by auto
qed simp

section \<open>The two loops\<close>

definition invited_state :: "invitation \<Rightarrow> bool" where
  "invited_state iv \<longleftrightarrow> iv_status iv \<in> {st_pending, st_accepted, st_failed}"

lemma one_invitation_state:
  assumes "run_state (one_invitation F us ex t e) w = (iv, w')"
  shows "iv_email iv = e \<and> invited_state iv"
  using assms
  by (auto simp: one_invitation_def send_invitation_def new_invitation_def invited_state_def
      split: if_splits prod.splits sum.splits)

lemma invitations_in_order:
  assumes run: "run_state (ensure_user_invitations E F emails ex) w = (Inr (ivs, hp), w')"
  shows "list_all2 (\<lambda>e iv. iv_email iv = e \<and> invited_state iv) emails ivs"
    and "hp = list_ex (\<lambda>iv. iv_status iv = st_pending) ivs"
proof -
  obtain us w1 where u: "run_state (sf_fetch_users F) w = (Inr us, w1)"
    using run by (auto simp: ensure_user_invitations_def split: prod.splits sum.splits)
  define body where "body = (\<lambda>email (ivs, hp). do { now \<leftarrow> se_now E;
      iv \<leftarrow> one_invitation F (user_email_set us) (existing_map ex) now email;
      ret (ivs @ [iv], hp \<or> iv_status iv = st_pending) })"
  have l: "run_state (for_each emails body ([], False)) w1 = ((ivs, hp), w')"
    using run u by (auto simp: ensure_user_invitations_def body_def split: prod.splits)
  have step: "\<exists>iv. a' = (fst a @ [iv], snd a \<or> iv_status iv = st_pending) \<and> iv_email iv = x \<and> invited_state iv"
    if "run_state (body x a) wa = (a', wb)" for x a wa a' wb
    using that by (cases a) (auto simp: body_def split: prod.splits dest!: one_invitation_state)
  have "(\<exists>ys. fst (ivs, hp) = fst ([], False) @ ys \<and> list_all2 (\<lambda>e iv. iv_email iv = e \<and> invited_state iv) emails ys) \<and> True"
    by (rule for_each_list_all2[OF _ _ _ l]) (use step in fastforce)+
  then show "list_all2 (\<lambda>e iv. iv_email iv = e \<and> invited_state iv) emails ivs" by simp
  have "snd (ivs, hp) = list_ex (\<lambda>iv. iv_status iv = st_pending) (fst (ivs, hp))"
    by (rule for_each_invariant[where I = "\<lambda>a _. snd a = list_ex (\<lambda>iv. iv_status iv = st_pending) (fst a)", OF _ _ l])
      (use step in fastforce)+
  then show "hp = list_ex (\<lambda>iv. iv_status iv = st_pending) ivs" by simp
qed

text \<open>An invitation after the membership step: the same address, and a status the team vouches for.\<close>

definition keeps_pending :: "invitation \<Rightarrow> invitation \<Rightarrow> bool" where
  "keeps_pending iv iv' \<longleftrightarrow> iv_email iv' = iv_email iv \<and> (iv_status iv' = st_pending \<longleftrightarrow> iv_status iv = st_pending)"

definition vouched :: "string set \<Rightarrow> invitation \<Rightarrow> invitation \<Rightarrow> bool" where
  "vouched team iv iv' \<longleftrightarrow> iv_email iv' = iv_email iv \<and>
     (iv_status iv' = iv_status iv \<or>
      iv_status iv \<in> {st_accepted, st_already} \<and> iv_status iv' = st_added \<and>
      to_lower (iv_email iv) \<in> to_lower ` team)"

lemma membership_keeps_pending:
  assumes run: "run_state (ensure_team_membership E F t ivs) w = ((ivs', err), w')"
  shows "list_all2 keeps_pending ivs ivs'"
proof -
  obtain r w1 where r: "run_state (fc_team_emails F t) w = (r, w1)" by (cases "run_state (fc_team_emails F t) w")
  show ?thesis
  proof (cases r)
    case (Inl e)
    then show ?thesis using run r
      by (auto simp: ensure_team_membership_def keeps_pending_def intro: list_all2_refl)
  next
    case (Inr es)
    let ?body = "\<lambda>iv updated. do { iv' \<leftarrow> one_member E F t (map to_lower es) iv; ret (updated @ [iv']) }"
    have l: "run_state (for_each ivs ?body []) w1 = (ivs', w')"
      using run r Inr by (auto simp: ensure_team_membership_def split: prod.splits)
    have "(\<exists>ys. ivs' = [] @ ys \<and> list_all2 keeps_pending ivs ys) \<and> True"
    proof (rule for_each_list_all2[where out = "\<lambda>a. a", OF _ _ _ l])
      fix x a wa a' wb
      assume "run_state (?body x a) wa = (a', wb)"
      then show "(\<exists>y. a' = a @ [y] \<and> keeps_pending x y) \<and> True"
        by (auto simp: one_member_def on_team_def keeps_pending_def split: prod.splits sum.splits if_splits)
    qed simp_all
    then show ?thesis by simp
  qed
qed

text \<open>Step 8 as a whole.\<close>

lemma set_condition_keeps:
  assumes "run_state (set_condition E ty st re me cr) w = (cr', w')"
  shows "fs_invitations cr' = fs_invitations cr"
  using assms by (auto simp: set_condition_def split: prod.splits)

lemma keeps_pending_all:
  assumes "list_all2 keeps_pending ivs ivs'"
  shows "map iv_email ivs' = map iv_email ivs \<and>
    (st_pending \<in> iv_status ` set ivs' \<longleftrightarrow> st_pending \<in> iv_status ` set ivs)"
  using assms
proof (induction rule: list_all2_induct)
  case (Cons x xs y ys)
  then have "st_pending = iv_status y \<longleftrightarrow> st_pending = iv_status x" by (metis keeps_pending_def)
  then show ?case using Cons by (simp add: keeps_pending_def)
qed simp

lemma count_status_pos: "count_status s ivs > 0 \<longleftrightarrow> s \<in> iv_status ` set ivs"
  by (force simp: count_status_def filter_empty_conv)

definition invitations_made :: "string list \<Rightarrow> invitation list \<Rightarrow> bool \<Rightarrow> bool" where
  "invitations_made emails ivs hp \<longleftrightarrow>
     map iv_email ivs \<in> {emails, []} \<and> hp = (st_pending \<in> iv_status ` set ivs)"

lemma invitations_in_order_made:
  assumes "run_state (ensure_user_invitations E F emails ex) w = (Inr (ivs, hp), w')"
  shows "invitations_made emails ivs hp"
proof -
  note o = invitations_in_order[OF assms]
  have "map iv_email ivs = emails" using o(1) by (induction rule: list_all2_induct) auto
  moreover have "hp = (st_pending \<in> iv_status ` set ivs)"
    using o(2) by (simp add: list_ex_iff image_iff) (metis)
  ultimately show ?thesis by (simp add: invitations_made_def)
qed

lemma invite_users_made:
  assumes run: "run_state (invite_users E F cr) w = ((cr', ivs, hp), w')"
  shows "invitations_made (fs_emails cr) ivs hp \<and> fs_team cr' = fs_team cr"
proof -
  obtain r w1 where r: "run_state (ensure_user_invitations E F (fs_emails cr) (fs_invitations cr)) w = (r, w1)"
    by (metis surj_pair)
  then show ?thesis
    using run invitations_in_order_made[of E F "fs_emails cr" "fs_invitations cr" w]
    by (cases r) (auto simp: invite_users_def invitations_made_def set_condition_def split: prod.splits)
qed

lemma join_team_keeps_pending:
  assumes "run_state (join_team E F team ivs) w = (ivs', w')"
  shows "list_all2 keeps_pending ivs ivs'"
  using assms
  by (auto simp: join_team_def keeps_pending_def intro: list_all2_refl
      dest!: membership_keeps_pending split: if_splits prod.splits option.splits)

lemma process_invitations_runE:
  assumes ne: "fs_emails cr \<noteq> []" and run: "run_state (process_invitations E F team cr) w = ((cr', t), w')"
  obtains cr1 ivs hp w1 ivs' w2 where
    "run_state (invite_users E F cr) w = ((cr1, ivs, hp), w1)" and "run_state (join_team E F team ivs) w1 = (ivs', w2)"
    and "fst (case invitations_summary ivs' of (status, reason, message) \<Rightarrow>
      run_state (set_condition E cond_invitations status reason message (cr1\<lparr>fs_invitations := ivs'\<rparr>)) w2) = cr'"
    and "snd (case invitations_summary ivs' of (status, reason, message) \<Rightarrow>
      run_state (set_condition E cond_invitations status reason message (cr1\<lparr>fs_invitations := ivs'\<rparr>)) w2) = w'"
    and "t = (if hp \<or> count_status st_accepted ivs' > 0 then hour else 0)"
proof -
  obtain cr1 ivs hp w1 where i: "run_state (invite_users E F cr) w = ((cr1, ivs, hp), w1)" by (metis surj_pair)
  obtain ivs' w2 where j: "run_state (join_team E F team ivs) w1 = (ivs', w2)" by (metis surj_pair)
  show ?thesis
    by (rule that[OF i j]) (use run ne i j in \<open>auto simp: process_invitations_def split: prod.splits\<close>)
qed

lemma process_invitations_run:
  assumes "fs_emails cr \<noteq> []" and "run_state (process_invitations E F team cr) w = ((cr', t), w')"
  shows "\<exists>ivs hp ivs'. invitations_made (fs_emails cr) ivs hp \<and> list_all2 keeps_pending ivs ivs' \<and>
    fs_invitations cr' = ivs' \<and> t = (if hp \<or> count_status st_accepted ivs' > 0 then hour else 0)"
proof -
  from assms obtain cr1 ivs hp w1 ivs' w2 where p:
    "run_state (invite_users E F cr) w = ((cr1, ivs, hp), w1)" "run_state (join_team E F team ivs) w1 = (ivs', w2)"
    "fst (case invitations_summary ivs' of (status, reason, message) \<Rightarrow>
      run_state (set_condition E cond_invitations status reason message (cr1\<lparr>fs_invitations := ivs'\<rparr>)) w2) = cr'"
    "t = (if hp \<or> count_status st_accepted ivs' > 0 then hour else 0)"
    by (rule process_invitations_runE)
  have "fs_invitations cr' = ivs'" using p(3) by (auto simp: set_condition_def split: prod.splits)
  then show ?thesis using p invite_users_made[OF p(1)] join_team_keeps_pending[OF p(2)] by blast
qed

section \<open>Contracts\<close>

text \<open>
  The client's contract, with the addresses of the organisation's users; reading the clock
  changes nothing in FOSSA.
\<close>

locale scanner_world = fossa_iface F members pending
  for F :: "'w scanner_fossa" and members :: "'w \<Rightarrow> int \<Rightarrow> string set" and pending :: "'w \<Rightarrow> string set" +
  fixes E :: "'w scanner_env" and users :: "'w \<Rightarrow> string set"
  assumes fetch_users_Ok: "run_state (sf_fetch_users F) w = (Inr us, w') \<Longrightarrow> us_email ` set us = users w"
    and fetch_users_keeps: "run_state (sf_fetch_users F) w = (r, w') \<Longrightarrow>
      members w' = members w \<and> pending w' = pending w"
    and now_keeps: "run_state (se_now E) w = (t, w') \<Longrightarrow> members w' = members w \<and> pending w' = pending w"
begin

lemma one_invitation_effect:
  assumes "run_state (one_invitation F us ex t e) w = (iv, w')"
  shows "members w' = members w \<and> pending w \<subseteq> pending w' \<and>
    pending w' \<subseteq> pending w \<union> {e'. e' = e \<and> to_lower e' \<notin> set us}"
  using assms has_pending_keeps[of e w] send_invitation_Ok[of e] send_invitation_Err[of e]
  by (auto simp: one_invitation_def send_invitation_def split: if_splits prod.splits sum.splits)

lemma invitations_effect:
  assumes "run_state (ensure_user_invitations E F emails ex) w = (r, w')"
  shows "members w' = members w \<and> pending w \<subseteq> pending w' \<and>
    pending w' \<subseteq> pending w \<union> {e \<in> set emails. to_lower e \<notin> to_lower ` users w}"
proof -
  obtain u w1 where u: "run_state (sf_fetch_users F) w = (u, w1)" by (cases "run_state (sf_fetch_users F) w")
  have k: "members w1 = members w" "pending w1 = pending w" using fetch_users_keeps[OF u] by auto
  show ?thesis
  proof (cases u)
    case (Inl e)
    then show ?thesis using assms u k by (simp add: ensure_user_invitations_def)
  next
    case (Inr us)
    define body where "body = (\<lambda>email (ivs, hp). do { now \<leftarrow> se_now E;
        iv \<leftarrow> one_invitation F (user_email_set us) (existing_map ex) now email;
        ret (ivs @ [iv], hp \<or> iv_status iv = st_pending) })"
    define I where "I = (\<lambda>(_ :: invitation list \<times> bool) w'. members w' = members w \<and> pending w \<subseteq> pending w' \<and>
        pending w' \<subseteq> pending w \<union> {e \<in> set emails. to_lower e \<notin> to_lower ` users w})"
    have us: "set (user_email_set us) = to_lower ` users w"
      using fetch_users_Ok[of w us w1] u Inr by (auto simp: user_email_set_def image_image[symmetric])
    obtain a where a: "run_state (for_each emails body ([], False)) w1 = (a, w')"
      using assms u Inr by (auto simp: ensure_user_invitations_def body_def split: prod.splits)
    have step: "I a' w''" if x: "x \<in> set emails" and i: "I a wa" and s: "run_state (body x a) wa = (a', w'')"
      for x a wa a' w''
    proof -
      obtain t w2 where t: "run_state (se_now E) wa = (t, w2)" by (cases "run_state (se_now E) wa")
      obtain iv where "run_state (one_invitation F (user_email_set us) (existing_map ex) t x) w2 = (iv, w'')"
        using s t by (cases a) (auto simp: body_def split: prod.splits)
      from one_invitation_effect[OF this] show ?thesis
        using i x now_keeps[OF t] unfolding us I_def by simp blast
    qed
    have "I a w'" by (rule for_each_invariant[OF step _ a]) (auto simp: I_def k)
    then show ?thesis by (simp add: I_def)
  qed
qed

lemma on_team_effect:
  assumes "run_state (on_team E m iv) w = (iv', w')"
  shows "members w' = members w \<and> iv_email iv' = iv_email iv \<and> iv_status iv' = st_added"
  using assms now_keeps by (auto simp: on_team_def split: prod.splits)

lemma one_member_effect:
  assumes "run_state (one_member E F t ms iv) w = (iv', w')" and "set ms \<subseteq> to_lower ` members w t"
  shows "members w t \<subseteq> members w' t \<and> vouched (members w' t) iv iv'"
proof (cases "(iv_status iv = st_accepted \<or> iv_status iv = st_already) \<and> to_lower (iv_email iv) \<notin> set ms")
  case False
  then show ?thesis
    using assms on_team_effect[of _ iv w iv' w']
    by (auto simp: one_member_def vouched_def split: if_splits)
next
  case True
  obtain r w1 where r: "run_state (fc_add_user F t (iv_email iv) 0) w = (r, w1)"
    by (cases "run_state (fc_add_user F t (iv_email iv) 0) w")
  have g: "members w t \<subseteq> members w1 t" using add_user_grows[OF r] .
  show ?thesis
  proof (cases r)
    case (Inl e)
    then show ?thesis
      using assms True r g add_user_Err[of t "iv_email iv" 0 w e w1] on_team_effect[of _ iv w1 iv' w']
      by (auto simp: one_member_def vouched_def split: if_splits)
  next
    case (Inr u)
    then show ?thesis
      using assms True r g add_user_Ok[of t "iv_email iv" 0 w u w1] on_team_effect[of _ iv w1 iv' w']
      by (auto simp: one_member_def vouched_def split: if_splits)
  qed
qed

lemma membership_effect:
  assumes run: "run_state (ensure_team_membership E F t ivs) w = ((ivs', err), w')"
  shows "members w t \<subseteq> members w' t \<and> list_all2 (vouched (members w' t)) ivs ivs'"
proof -
  obtain r w1 where r: "run_state (fc_team_emails F t) w = (r, w1)" by (cases "run_state (fc_team_emails F t) w")
  have k: "members w1 = members w" using team_emails_keeps[OF r] by simp
  show ?thesis
  proof (cases r)
    case (Inl e)
    then show ?thesis using run r k
      by (auto simp: ensure_team_membership_def vouched_def intro: list_all2_refl)
  next
    case (Inr es)
    let ?ms = "map to_lower es"
    let ?body = "\<lambda>iv updated. do { iv' \<leftarrow> one_member E F t ?ms iv; ret (updated @ [iv']) }"
    have ms: "set ?ms = to_lower ` members w t" using team_emails_Ok r Inr by auto
    have l: "run_state (for_each ivs ?body []) w1 = (ivs', w')"
      using run r Inr by (auto simp: ensure_team_membership_def split: prod.splits)
    have "(\<exists>ys. ivs' = [] @ ys \<and> list_all2 (vouched (members w' t)) ivs ys) \<and> members w t \<subseteq> members w' t"
    proof (rule for_each_list_all2[where out = "\<lambda>a. a" and I = "\<lambda>w'. members w t \<subseteq> members w' t", OF _ _ _ l])
      fix x a wa a' wb
      assume i: "members w t \<subseteq> members wa t" and s: "run_state (?body x a) wa = (a', wb)"
      then obtain y where y: "run_state (one_member E F t ?ms x) wa = (y, wb)" "a' = a @ [y]"
        by (auto split: prod.splits)
      have "set ?ms \<subseteq> to_lower ` members wa t" using i ms by auto
      from one_member_effect[OF y(1) this] i y(2)
      show "(\<exists>y. a' = a @ [y] \<and> vouched (members wb t) x y) \<and> members w t \<subseteq> members wb t" by auto
    next
      fix x y z a wa a' wb
      assume i: "members w t \<subseteq> members wa t" and p: "vouched (members wa t) x y"
        and s: "run_state (?body z a) wa = (a', wb)"
      then obtain y' where y': "run_state (one_member E F t ?ms z) wa = (y', wb)" by (auto split: prod.splits)
      have "set ?ms \<subseteq> to_lower ` members wa t" using i ms by auto
      from one_member_effect[OF y' this] p show "vouched (members wb t) x y" by (auto simp: vouched_def)
    qed (use k in simp)
    then show ?thesis by simp
  qed
qed

end

text \<open>
  The ConfigMaps of the cluster.  \<^verbatim>\<open>SetControllerReference\<close> only sets the owner; events are not
  ConfigMaps.
\<close>

locale config_map_host = kube_kind "se_config_maps E" cm_key cms
  for E :: "'w scanner_env" and cms :: "'w \<Rightarrow> object_key \<Rightarrow> config_map option" +
  assumes set_owner_Ok: "se_set_owner E cr c = Inr c' \<Longrightarrow>
      cm_key c' = cm_key c \<and> cm_data c' = cm_data c"
    and event_keeps: "run_state (se_event E ty re me) w = (u, w') \<Longrightarrow> cms w' = cms w"
begin

lemma sync_stores:
  assumes "run_state (sync_config_map E cr team) w = (Inr cm, w')"
  shows "\<exists>c. cms w' (fs_key cr) = Some c \<and> same_map (cm_data c) (cm_data (config_map_for_fossa cr team))"
proof -
  let ?c0 = "config_map_for_fossa cr team"
  obtain c0 where c0: "se_set_owner E cr ?c0 = Inr c0"
    using assms by (cases "se_set_owner E cr ?c0") (auto simp: sync_config_map_def)
  have k: "cm_key c0 = fs_key cr" "cm_data c0 = cm_data ?c0"
    using set_owner_Ok[OF c0] by (auto simp: cm_key_def fs_key_def config_map_for_fossa_def)
  obtain g w1 where g: "run_state (kd_get (se_config_maps E) (cm_key c0)) w = (g, w1)"
    by (cases "run_state (kd_get (se_config_maps E) (cm_key c0)) w")
  show ?thesis
  proof (cases g)
    case (Inl e)
    then obtain c1 w2 where "run_state (kd_create (se_config_maps E) c0) w1 = (Inr c1, w2)" and "cms w' = cms w2"
      using assms c0 g event_keeps
      by (auto simp: sync_config_map_def split: if_splits prod.splits sum.splits)
    then show ?thesis using create_Ok k by (auto simp: same_map_def)
  next
    case (Inr x)
    have x: "cms w1 (fs_key cr) = Some x" using get_Ok[of "cm_key c0" w x w1] g Inr k by simp
    show ?thesis
    proof (cases "same_map (cm_data x) (cm_data c0)")
      case True
      then show ?thesis using assms c0 g Inr x k by (auto simp: sync_config_map_def)
    next
      case False
      then obtain y where "run_state (kd_update (se_config_maps E) (x\<lparr>cm_data := cm_data c0\<rparr>)) w1 = (Inr y, w')"
        using assms c0 g Inr by (auto simp: sync_config_map_def split: prod.splits sum.splits)
      from update_Ok[OF this] show ?thesis
        using k x get_Ok[of "cm_key c0" w x w1] g Inr by (auto simp: same_map_def cm_key_def)
    qed
  qed
qed

text \<open>Once it has succeeded, the next run writes nothing.\<close>

lemma sync_settles:
  assumes "cms w (fs_key cr) = Some c" and "same_map (cm_data c) (cm_data (config_map_for_fossa cr team))"
    and "run_state (sync_config_map E cr team) w = (r, w')"
  shows "cms w' = cms w"
proof -
  let ?c0 = "config_map_for_fossa cr team"
  show ?thesis
  proof (cases "se_set_owner E cr ?c0")
    case (Inl e)
    then show ?thesis using assms by (simp add: sync_config_map_def)
  next
    case (Inr c0)
    then have k: "cm_key c0 = fs_key cr" "cm_data c0 = cm_data ?c0"
      using set_owner_Ok by (auto simp: cm_key_def fs_key_def config_map_for_fossa_def)
    obtain g w1 where g: "run_state (kd_get (se_config_maps E) (cm_key c0)) w = (g, w1)"
      by (cases "run_state (kd_get (se_config_maps E) (cm_key c0)) w")
    then show ?thesis
      using assms Inr k get_Ok[of "cm_key c0" w _ w1] get_Err[of "cm_key c0" w _ w1]
      by (cases g) (auto simp: sync_config_map_def)
  qed
qed

end

section \<open>A cluster with the mock beside it\<close>

record cluster =
  cl_fossa :: server_world
  cl_scanners :: "fossa_scanner list"
  cl_config_maps :: "config_map list"
  cl_clock :: int

definition on_part :: "(server_world, 'a) io \<Rightarrow> (cluster, 'a) io" where
  "on_part op = State (\<lambda>w. let (x, v) = run_state op (cl_fossa w) in (x, w\<lparr>cl_fossa := v\<rparr>))"

lemma run_on_part:
  "run_state (on_part op) w = (x, w') \<longleftrightarrow> (\<exists>v. run_state op (cl_fossa w) = (x, v) \<and> w' = w\<lparr>cl_fossa := v\<rparr>)"
  by (auto simp: on_part_def split: prod.splits)

definition lift_fossa :: "user list \<Rightarrow> server_world fossa \<Rightarrow> cluster scanner_fossa" where
  "lift_fossa us F =
     \<lparr>fc_create_team = on_part \<circ> fc_create_team F, fc_send_invitation = on_part \<circ> fc_send_invitation F,
      fc_has_pending = on_part \<circ> fc_has_pending F, fc_team_emails = on_part \<circ> fc_team_emails F,
      fc_add_user = (\<lambda>t e r. on_part (fc_add_user F t e r)), fc_imported_repos = on_part \<circ> fc_imported_repos F,
      fc_links = fc_links F, fc_fetch_team = on_part \<circ> fc_fetch_team F,
      fc_fetch_teams = on_part (fc_fetch_teams F), sf_fetch_users = ret (Inr us)\<rparr>"

definition cluster_env :: "user list \<Rightarrow> cluster scanner_env" where
  "cluster_env us =
     \<lparr>se_scanners = mem_kind fs_key cl_scanners (\<lambda>xs w. w\<lparr>cl_scanners := xs\<rparr>),
      se_config_maps = mem_kind cm_key cl_config_maps (\<lambda>xs w. w\<lparr>cl_config_maps := xs\<rparr>),
      se_secret = (\<lambda>_. ret (Inr [(secret_token, ''t''), (secret_org, ''42'')])),
      se_set_owner = (\<lambda>cr c. Inr (c\<lparr>cm_owner := Some (fs_name cr)\<rparr>)),
      se_factory = (\<lambda>_. lift_fossa us (mock_fossa (\<lambda>x. x))),
      se_now = State (\<lambda>w. (cl_clock w, w\<lparr>cl_clock := cl_clock w + 1\<rparr>)),
      se_event = (\<lambda>_ _ _. ret ()), se_credentials_namespace = []\<rparr>"

abbreviation "cluster_fossa us \<equiv> lift_fossa us (mock_fossa (\<lambda>x. x))"

interpretation world: scanner_world "cluster_fossa us" "\<lambda>w. mock_members (cl_fossa w)"
  "\<lambda>w. mock_pending (cl_fossa w)" "cluster_env us" "\<lambda>_. us_email ` set us" for us
proof (unfold_locales, goal_cases)
  case 3 then show ?case using mock.has_pending_no by (auto simp: lift_fossa_def run_on_part)
next
  case 7 then show ?case using mock.send_invitation_Ok by (auto simp: lift_fossa_def run_on_part)
next
  case 8 then show ?case using mock.send_invitation_Err by (auto simp: lift_fossa_def run_on_part)
qed (auto simp: lift_fossa_def run_on_part cluster_env_def
    dest: mock.team_emails_Ok mock.team_emails_keeps mock.has_pending_keeps mock.add_user_Ok mock.add_user_Err)

interpretation host: config_map_host "cluster_env us" "\<lambda>w k. find_obj cm_key k (cl_config_maps w)" for us
proof (intro config_map_host.intro config_map_host_axioms.intro)
  show "kube_kind (se_config_maps (cluster_env us)) cm_key (\<lambda>w k. find_obj cm_key k (cl_config_maps w))"
    by (simp add: cluster_env_def mem_kind_contract)
qed (auto simp: cluster_env_def cm_key_def)

section \<open>Properties\<close>

text \<open>
  C28: when the users can be read, every requested address gets one invitation, in the order of
  the request, that is pending, accepted or failed; the flag for pending ones is set exactly when
  there is one.
\<close>

theorem invitations_follow_the_addresses:
  assumes "run_state (ensure_user_invitations E F emails existing) w = (Inr (ivs, hasPending), w')"
  shows "map iv_email ivs = emails \<and>
    iv_status ` set ivs \<subseteq> {st_pending, st_accepted, st_failed} \<and>
    hasPending = (st_pending \<in> iv_status ` set ivs)"
proof -
  note o = invitations_in_order[OF assms]
  have "map iv_email ivs = emails"
    using o(1) by (induction rule: list_all2_induct) auto
  moreover have "iv_status ` set ivs \<subseteq> {st_pending, st_accepted, st_failed}"
    using o(1) by (induction rule: list_all2_induct) (auto simp: invited_state_def)
  moreover have "hasPending = (st_pending \<in> iv_status ` set ivs)"
    using o(2) by (simp add: list_ex_iff image_iff) (metis)
  ultimately show ?thesis by simp
qed

definition demo_user :: user where
  "demo_user = zero_user\<lparr>us_id := 1, us_email := ''Ann@x''\<rparr>"

definition demo_team :: team where "demo_team = zero_team\<lparr>tm_id := 1000, tm_name := ''p''\<rparr>"

definition demo_scanner :: fossa_scanner where
  "demo_scanner = \<lparr>fs_name = ''s'', fs_namespace = ''ns'', fs_generation = 1, fs_annotations = [],
     fs_project_name = ''p'', fs_config_map_name = [], fs_emails = [''ann@x'', ''bob@x''], fs_observed = 0,
     fs_config_map_ref = [], fs_team = None, fs_invitations = [], fs_conditions = []\<rparr>"

text \<open>The team exists and Ann, a user of the organisation, is not in it yet.\<close>

definition demo_cluster :: cluster where
  "demo_cluster =
     \<lparr>cl_fossa = mem_world.extend demo_world
        (server_world.fields
          (snd (run_state (mock_create_team ''p'') (set_user_exists ''ann@x'' True new_mock))) [] []),
      cl_scanners = [demo_scanner], cl_config_maps = [], cl_clock = 100\<rparr>"

abbreviation "demo_env \<equiv> cluster_env [demo_user]"
abbreviation "demo_fossa \<equiv> cluster_fossa [demo_user]"

lemmas demo_defs = cluster_env_def lift_fossa_def mock_fossa_def run_on_part run_on_fossa on_part_def on_fossa_def

lemma demo_invitations:
  "fst (run_state (ensure_user_invitations demo_env demo_fossa [''ann@x'', ''bob@x''] []) demo_cluster) =
     Inr ([(new_invitation ''ann@x'' st_accepted ''User is already a FOSSA organization member'')\<lparr>iv_accepted := Some 100\<rparr>,
           (new_invitation ''bob@x'' st_pending ''Invitation sent'')\<lparr>iv_invited := Some 101\<rparr>], True)"
  by code_simp

theorem invitations_follow_the_addresses_witness:
  "let ivs = [(new_invitation ''ann@x'' st_accepted ''User is already a FOSSA organization member'')\<lparr>iv_accepted := Some 100\<rparr>,
              (new_invitation ''bob@x'' st_pending ''Invitation sent'')\<lparr>iv_invited := Some 101\<rparr>]
   in fst (run_state (ensure_user_invitations demo_env demo_fossa [''ann@x'', ''bob@x''] []) demo_cluster) = Inr (ivs, True) \<and>
      map iv_email ivs = [''ann@x'', ''bob@x''] \<and> True = (st_pending \<in> iv_status ` set ivs)"
  using demo_invitations invitations_follow_the_addresses[OF run_eqI[OF demo_invitations]] by (simp add: Let_def)

text \<open>
  The operator changes no team while it invites, withdraws no invitation, and every new
  invitation goes to a requested address that belongs to no user of the organisation, whatever
  the case it is written in.
\<close>

theorem only_outsiders_are_invited:
  assumes "scanner_world F members pending E users"
    and "run_state (ensure_user_invitations E F emails existing) w = (r, w')"
  shows "members w' = members w \<and> pending w \<subseteq> pending w' \<and>
    pending w' \<subseteq> pending w \<union> {e \<in> set emails. to_lower e \<notin> to_lower ` users w}"
  using scanner_world.invitations_effect[OF assms] .

theorem only_outsiders_are_invited_witness:
  "let w' = snd (run_state (ensure_user_invitations demo_env demo_fossa [''ann@x'', ''bob@x''] []) demo_cluster)
   in ''bob@x'' \<in> mock_pending (cl_fossa w') \<and> ''ann@x'' \<notin> mock_pending (cl_fossa w')"
proof -
  let ?w' = "snd (run_state (ensure_user_invitations demo_env demo_fossa [''ann@x'', ''bob@x''] []) demo_cluster)"
  have p: "\<not> mk_invitations (sw_fossa (cl_fossa demo_cluster)) ''ann@x''"
    "mk_invitations (sw_fossa (cl_fossa ?w')) ''bob@x''" by code_simp+
  have "to_lower ''ann@x'' = to_lower (us_email demo_user)" by code_simp
  then show ?thesis
    using p only_outsiders_are_invited[OF world.scanner_world_axioms run_eqI[OF demo_invitations]]
    by (auto simp: mock_pending_def Let_def)
qed

text \<open>
  the membership step keeps every invitation, in order, with its address; it changes a
  status only from accepted to added, and then the address is one of a member of the team, which
  loses nobody.
\<close>

theorem membership_is_truthful:
  assumes "scanner_world F members pending E users"
    and "run_state (ensure_team_membership E F t ivs) w = ((ivs', err), w')"
  shows "members w t \<subseteq> members w' t \<and> list_all2 (vouched (members w' t)) ivs ivs'"
  using scanner_world.membership_effect[OF assms] .

abbreviation "demo_accepted \<equiv> new_invitation ''ann@x'' st_accepted []"

lemma demo_membership:
  "fst (run_state (ensure_team_membership demo_env demo_fossa 1000 [demo_accepted]) demo_cluster) =
     ([demo_accepted\<lparr>iv_status := st_added, iv_message := ''User added to team'', iv_added := Some 100\<rparr>], None)"
  by code_simp

theorem membership_is_truthful_witness:
  "to_lower ''ann@x'' \<in> to_lower ` mock_members
     (cl_fossa (snd (run_state (ensure_team_membership demo_env demo_fossa 1000 [demo_accepted]) demo_cluster))) 1000"
  using membership_is_truthful[OF world.scanner_world_axioms run_eqI[OF demo_membership]]
  by (simp add: vouched_def new_invitation_def)


text \<open>
  Conditions stay a map: one condition per type, the given one in effect with its status and
  reason, every other type untouched.
\<close>

theorem conditions_stay_a_map:
  assumes "distinct (map cd_type cs)"
  shows "distinct (map cd_type (put_condition c cs)) \<and>
    (\<exists>d \<in> set (put_condition c cs). cd_type d = cd_type c \<and> cd_status d = cd_status c \<and> cd_reason d = cd_reason c) \<and>
    filter (\<lambda>d. cd_type d \<noteq> cd_type c) (put_condition c cs) = filter (\<lambda>d. cd_type d \<noteq> cd_type c) cs"
proof -
  have t: "set (map cd_type (put_condition c cs)) = insert (cd_type c) (set (map cd_type cs))"
    by (induction cs) auto
  show ?thesis using assms
  proof (induction cs)
    case (Cons d ds)
    have "cd_type d \<notin> set (map cd_type (put_condition c ds))" if "cd_type d \<noteq> cd_type c"
      using that Cons.prems t by (induction ds) auto
    then show ?case using Cons by auto
  qed simp
qed

theorem conditions_stay_a_map_witness:
  "let c = \<lparr>cd_type = ''A'', cd_status = ''True'', cd_observed = 1, cd_transition = 2, cd_reason = ''R'', cd_message = []\<rparr>
   in filter (\<lambda>d. cd_type d \<noteq> ''A'') (put_condition (c\<lparr>cd_status := ''False''\<rparr>) [c, c\<lparr>cd_type := ''B''\<rparr>]) = [c\<lparr>cd_type := ''B''\<rparr>]"
proof -
  let ?c = "\<lparr>cd_type = ''A'', cd_status = ''True'', cd_observed = 1, cd_transition = 2, cd_reason = ''R'', cd_message = []\<rparr>"
  have "distinct (map cd_type [?c, ?c\<lparr>cd_type := ''B''\<rparr>])" by simp
  from conditions_stay_a_map[OF this, of "?c\<lparr>cd_status := ''False''\<rparr>"] show ?thesis by (simp add: Let_def)
qed



end
