(* ===== verification/Scanner_Runs.thy ===== *)
theory Scanner_Runs
  imports Scanner_Laws
begin

text \<open>
  Any run of the FOSSA scanner operator: its reconciliations one after another, each in whole with its
  error paths, with users, FOSSA administrators and the other controllers acting in between.  What a
  run can add to the invitations, the teams and their members, and what the stored statuses claim.
\<close>

section \<open>Runs\<close>

text \<open>
  Whatever a reconciliation returns, the manager goes on with the next request.  The second index are
  the states seen, the last one last; \<open>others\<close> relates the states before and after a step of somebody else.
\<close>

inductive scanner_run :: "'w scanner_env \<Rightarrow> ('w \<Rightarrow> 'w \<Rightarrow> bool) \<Rightarrow> 'w \<Rightarrow> 'w list \<Rightarrow> 'w \<Rightarrow> bool"
  for E :: "'w scanner_env" and others :: "'w \<Rightarrow> 'w \<Rightarrow> bool" and w0 :: 'w where
  scanners_start: "scanner_run E others w0 [w0] w0"
| scanner_reconciled: "scanner_run E others w0 vs w \<Longrightarrow> run_state (reconcile_fossa E req) w = (r, w') \<Longrightarrow>
    scanner_run E others w0 (vs @ [w']) w'"
| others_acted: "scanner_run E others w0 vs w \<Longrightarrow> others w w' \<Longrightarrow> scanner_run E others w0 (vs @ [w']) w'"

lemma scanner_run_sees: "scanner_run E others w0 vs w \<Longrightarrow> w \<in> set vs \<and> w0 \<in> set vs"
  by (induction rule: scanner_run.induct) auto

text \<open>What others have added to a part of the world in the course of a run.\<close>

definition by_others :: "('w \<Rightarrow> 'w \<Rightarrow> bool) \<Rightarrow> 'w list \<Rightarrow> ('w \<Rightarrow> 'a set) \<Rightarrow> 'a set" where
  "by_others others vs part = {x. \<exists>v \<in> set vs. \<exists>v' \<in> set vs. others v v' \<and> x \<in> part v' - part v}"

lemma by_others_later: "by_others others vs part \<subseteq> by_others others (vs @ us) part"
  unfolding by_others_def by auto

lemma by_others_now:
  assumes "w \<in> set vs" and "others w w'"
  shows "part w' \<subseteq> part w \<union> by_others others (vs @ [w']) part"
  using assms unfolding by_others_def by auto

text \<open>
  What a part holds at the end was there, was added by others, or is an \<open>extra\<close> some reconciliation of
  the run accounts for.
\<close>

lemma run_accounts:
  assumes run: "scanner_run E others w0 vs w"
    and step: "\<And>req r v v'. v \<in> set vs \<Longrightarrow> v' \<in> set vs \<Longrightarrow> run_state (reconcile_fossa E req) v = (r, v') \<Longrightarrow>
      part v' \<subseteq> part v \<union> extra"
  shows "part w \<subseteq> part w0 \<union> by_others others vs part \<union> extra"
  using assms
proof induction
  case (scanner_reconciled vs w req r w')
  have "part w \<subseteq> part w0 \<union> by_others others vs part \<union> extra"
    using scanner_reconciled.IH scanner_reconciled.prems by simp
  moreover have "part w' \<subseteq> part w \<union> extra"
    using scanner_reconciled.prems[OF _ _ scanner_reconciled.hyps(2)] scanner_run_sees[OF scanner_reconciled.hyps(1)] by simp
  ultimately show ?case using by_others_later[of others vs part "[w']"] by blast
next
  case (others_acted vs w w')
  have "part w \<subseteq> part w0 \<union> by_others others vs part \<union> extra"
    using others_acted.IH others_acted.prems by simp
  moreover have "part w' \<subseteq> part w \<union> by_others others (vs @ [w']) part"
    using others_acted.hyps(2) scanner_run_sees[OF others_acted.hyps(1)] by (intro by_others_now) simp_all
  ultimately show ?case using by_others_later[of others vs part "[w']"] by blast
qed auto

lemma keeps_for_each:
  assumes "transp R" and "reflp R" and "\<And>x a. x \<in> set xs \<Longrightarrow> keeps R (body x a)"
  shows "keeps R (for_each xs body a)"
  using assms(3) by (induction xs arbitrary: a) (auto intro!: keeps_ret assms(2) keeps_bind[OF assms(1)])

text \<open>Step 8.1 reports nobody as added.\<close>

lemma invite_users_fresh:
  assumes run: "run_state (invite_users E F cr) w = ((cr', ivs, hp), w')"
  shows "\<forall>iv \<in> set ivs. iv_status iv \<noteq> st_added"
proof -
  obtain r w1 where r: "run_state (ensure_user_invitations E F (fs_emails cr) (fs_invitations cr)) w = (r, w1)"
    by (metis surj_pair)
  show ?thesis
  proof (cases r)
    case (Inl e)
    then show ?thesis using run r by (auto simp: invite_users_def split: prod.splits)
  next
    case (Inr p)
    then have r': "run_state (ensure_user_invitations E F (fs_emails cr) (fs_invitations cr)) w = (Inr (ivs, hp), w1)"
      using run r by (auto simp: invite_users_def split: prod.splits)
    have "\<forall>iv \<in> set ivs. invited_state iv"
      using invitations_in_order(1)[OF r'] by (induction rule: list_all2_induct) auto
    then show ?thesis by (auto simp: invited_state_def)
  qed
qed

text \<open>A stored scanner asks for an address on the team of a project.\<close>

definition asked_for ::
  "('w \<Rightarrow> object_key \<Rightarrow> fossa_scanner option) \<Rightarrow> 'w \<Rightarrow> string \<Rightarrow> string \<Rightarrow> bool" where
  "asked_for scs v e project \<longleftrightarrow>
     (\<exists>k cr. scs v k = Some cr \<and> e \<in> set (fs_emails cr) \<and> fs_project_name cr = project)"

lemma asked_forI: "scs v k = Some cr \<Longrightarrow> e \<in> set (fs_emails cr) \<Longrightarrow> asked_for scs v e (fs_project_name cr)"
  unfolding asked_for_def by blast

section \<open>The contract\<close>

text \<open>Team and invitations of a status, and whom it reports as added to the team.\<close>

definition status_of :: "fossa_scanner \<Rightarrow> team_reference option \<times> invitation list" where
  "status_of cr = (fs_team cr, fs_invitations cr)"

definition claimed :: "team_reference option \<times> invitation list \<Rightarrow> int \<Rightarrow> string set" where
  "claimed st t = {iv_email iv | iv. iv \<in> set (snd st) \<and> iv_status iv = st_added \<and>
     (\<exists>tr. fst st = Some tr \<and> tr_id tr = t)}"

text \<open>The addresses the stored statuses report as added to a team.\<close>

definition reported :: "('w \<Rightarrow> object_key \<Rightarrow> fossa_scanner option) \<Rightarrow> 'w \<Rightarrow> int \<Rightarrow> string set" where
  "reported scs w t = {e. \<exists>k cr. scs w k = Some cr \<and> e \<in> claimed (status_of cr) t}"

text \<open>
  \<open>teams w\<close> are the teams FOSSA has, by id and name; \<open>scs w\<close> the scanners the API server stores.  A
  call on one thing leaves the others alone.  A creation, also one that reports an error, makes at most
  one new empty team; as long as the ids of FOSSA are \<open>consistent\<close>, the id is new.  A patch and a status
  update answer with the scanner as the server stores it, a patch with the status sent or with the stored one.
\<close>

locale scanner_site =
  fixes E :: "'w scanner_env"
    and members :: "'w \<Rightarrow> int \<Rightarrow> string set" and pending :: "'w \<Rightarrow> string set" and users :: "'w \<Rightarrow> string set"
    and teams :: "'w \<Rightarrow> (int \<times> string) set" and consistent :: "'w \<Rightarrow> bool"
    and scs :: "'w \<Rightarrow> object_key \<Rightarrow> fossa_scanner option"
  assumes client: "scanner_world (se_factory E tok) members pending E users"
    and scanner_calls: "kind_keeps (\<lambda>w. (members w, pending w, users w, teams w, consistent w)) (se_scanners E)"
    and config_map_calls:
      "kind_keeps (\<lambda>w. (members w, pending w, users w, teams w, consistent w, scs w)) (se_config_maps E)"
    and other_calls: "keeps (same_part (\<lambda>w. (members w, pending w, users w, teams w, consistent w, scs w))) (se_secret E k)"
      "keeps (same_part (\<lambda>w. (members w, pending w, users w, teams w, consistent w, scs w))) (se_now E)"
      "keeps (same_part (\<lambda>w. (members w, pending w, users w, teams w, consistent w, scs w))) (se_event E a b c)"
    and reading_calls:
      "keeps (same_part (\<lambda>w. (users w, teams w, consistent w, scs w))) (sf_fetch_users (se_factory E tok))"
      "keeps (same_part (\<lambda>w. (users w, teams w, consistent w, scs w))) (fc_has_pending (se_factory E tok) e)"
      "keeps (same_part (\<lambda>w. (users w, teams w, consistent w, scs w))) (fc_team_emails (se_factory E tok) t)"
      "keeps (same_part (\<lambda>w. (members w, pending w, users w, teams w, consistent w, scs w))) (fc_fetch_team (se_factory E tok) n)"
    and writing_calls:
      "keeps (same_part (\<lambda>w. (users w, teams w, consistent w, scs w))) (fc_send_invitation (se_factory E tok) e)"
      "keeps (same_part (\<lambda>w. (pending w, users w, teams w, consistent w, scs w))) (fc_add_user (se_factory E tok) t e role)"
      "keeps (same_part (\<lambda>w. (pending w, users w, scs w))) (fc_create_team (se_factory E tok) n)"
    and fetch_team_Ok: "run_state (fc_fetch_team (se_factory E tok) n) w = (Inr tm, w') \<Longrightarrow> (tm_id tm, n) \<in> teams w"
    and create_team_any: "run_state (fc_create_team (se_factory E tok) n) w = (r, w') \<Longrightarrow>
      (members w' = members w \<and> teams w' = teams w \<and> consistent w' = consistent w) \<or>
      (\<exists>t. members w' = (members w)(t := {}) \<and> teams w' = insert (t, n) (teams w) \<and>
           (consistent w \<longrightarrow> consistent w' \<and> t \<notin> fst ` teams w))"
    and create_team_Ok: "run_state (fc_create_team (se_factory E tok) n) w = (Inr tm, w') \<Longrightarrow> (tm_id tm, n) \<in> teams w'"
    and get_Ok: "run_state (kd_get (se_scanners E) k) w = (Inr cr, w') \<Longrightarrow> scs w k = Some cr \<and> fs_key cr = k"
    and get_keeps: "keeps (same_part scs) (kd_get (se_scanners E) k)"
    and patch_Ok: "run_state (kd_patch (se_scanners E) x y) w = (Inr z, w') \<Longrightarrow>
      scs w' = (scs w)(fs_key y \<mapsto> z) \<and> fs_key z = fs_key y \<and>
      status_of z \<in> {status_of y} \<union> status_of ` set_option (scs w (fs_key y))"
    and patch_Err: "run_state (kd_patch (se_scanners E) x y) w = (Inl er, w') \<Longrightarrow> scs w' = scs w"
    and update_status_Ok: "run_state (kd_update_status (se_scanners E) y) w = (Inr z, w') \<Longrightarrow>
      scs w' = (scs w)(fs_key y \<mapsto> z) \<and> status_of z = status_of y"
    and update_status_Err: "run_state (kd_update_status (se_scanners E) y) w = (Inl er, w') \<Longrightarrow> scs w' = scs w"
begin

abbreviation "service w \<equiv> (members w, pending w, users w, teams w, consistent w)"
abbreviation "site w \<equiv> (members w, pending w, users w, teams w, consistent w, scs w)"

section \<open>What one reconciliation does to FOSSA\<close>

text \<open>
  Invitations only for addresses of the list that are no user's, members only from the list and only
  for teams of the project, teams only of the project; nothing is withdrawn.
\<close>

definition requested :: "string set \<Rightarrow> string \<Rightarrow> 'w \<Rightarrow> 'w \<Rightarrow> bool" where
  "requested emails project w w' \<longleftrightarrow> users w' = users w \<and> teams w \<subseteq> teams w' \<and>
     (\<forall>x \<in> teams w' - teams w. snd x = project) \<and>
     pending w \<subseteq> pending w' \<and>
     pending w' \<subseteq> pending w \<union> {e \<in> emails. to_lower e \<notin> to_lower ` users w} \<and>
     (\<forall>t e. e \<in> members w' t \<longrightarrow> e \<in> members w t \<or> e \<in> emails \<and> (t, project) \<in> teams w') \<and>
     (consistent w \<longrightarrow> consistent w' \<and> (\<forall>t \<in> fst ` teams w. members w t \<subseteq> members w' t))"

lemma requested_refl: "requested emails project w w"
  by (simp add: requested_def)

lemma requested_trans:
  assumes "requested emails project u v" and "requested emails project v w"
  shows "requested emails project u w"
proof -
  have u: "users v = users u" "users w = users v" and t: "teams u \<subseteq> teams v" "teams v \<subseteq> teams w"
    using assms by (auto simp: requested_def)
  have n: "\<forall>x \<in> teams w - teams u. snd x = project"
  proof
    fix x assume "x \<in> teams w - teams u"
    then have "x \<in> teams w - teams v \<or> x \<in> teams v - teams u" by blast
    then show "snd x = project" using assms unfolding requested_def by (elim disjE) simp_all
  qed
  have p1: "pending u \<subseteq> pending w" using assms by (auto simp: requested_def)
  have p2: "pending w \<subseteq> pending u \<union> {e \<in> emails. to_lower e \<notin> to_lower ` users u}"
  proof -
    have "pending v \<subseteq> pending u \<union> {e \<in> emails. to_lower e \<notin> to_lower ` users u}"
      "pending w \<subseteq> pending v \<union> {e \<in> emails. to_lower e \<notin> to_lower ` users v}"
      using assms by (simp_all add: requested_def)
    then show ?thesis unfolding u(1) by blast
  qed
  have m: "e \<in> members u t \<or> e \<in> emails \<and> (t, project) \<in> teams w" if "e \<in> members w t" for e t
  proof -
    have "e \<in> members v t \<or> e \<in> emails \<and> (t, project) \<in> teams w" using assms(2) that by (simp add: requested_def)
    moreover have "e \<in> members v t \<Longrightarrow> e \<in> members u t \<or> e \<in> emails \<and> (t, project) \<in> teams v"
      using assms(1) by (simp add: requested_def)
    ultimately show ?thesis using t(2) by blast
  qed
  have c: "consistent w \<and> (\<forall>t \<in> fst ` teams u. members u t \<subseteq> members w t)" if "consistent u"
  proof -
    have "consistent v" "\<forall>t \<in> fst ` teams u. members u t \<subseteq> members v t" using assms(1) that by (auto simp: requested_def)
    moreover from this have "consistent w" "\<forall>t \<in> fst ` teams v. members v t \<subseteq> members w t"
      using assms(2) by (auto simp: requested_def)
    moreover have "fst ` teams u \<subseteq> fst ` teams v" using t(1) by (rule image_mono)
    ultimately show ?thesis by (meson subset_trans subsetD)
  qed
  show ?thesis unfolding requested_def
  proof (intro conjI allI impI)
    fix e x assume "e \<in> members w x"
    then show "e \<in> members u x \<or> e \<in> emails \<and> (x, project) \<in> teams w" by (rule m)
  qed (use u t n p1 p2 c in simp_all)
qed

lemma requested_same: "same_part service w w' \<Longrightarrow> requested emails project w w'"
  by (simp add: requested_def same_part_def)

lemma site_service: "same_part site w w' \<Longrightarrow> same_part service w w'"
  by (simp add: same_part_def)

text \<open>The same once the team is there.\<close>

definition requested_for :: "int \<Rightarrow> string set \<Rightarrow> string \<Rightarrow> 'w \<Rightarrow> 'w \<Rightarrow> bool" where
  "requested_for t emails project w w' \<longleftrightarrow>
     scs w' = scs w \<and> ((t, project) \<in> teams w \<longrightarrow> requested emails project w w')"

lemma requested_for_order: "reflp (requested_for t emails project)" "transp (requested_for t emails project)"
proof -
  have "requested_for t emails project u w"
    if a: "requested_for t emails project u v" and b: "requested_for t emails project v w" for u v w
  proof -
    have "requested emails project u w" if t: "(t, project) \<in> teams u"
    proof -
      have "requested emails project u v" using a t by (simp add: requested_for_def)
      moreover from this have "(t, project) \<in> teams v" using t by (auto simp: requested_def)
      ultimately show ?thesis using b requested_trans by (auto simp: requested_for_def)
    qed
    then show ?thesis using a b by (simp add: requested_for_def)
  qed
  then show "transp (requested_for t emails project)" by (blast intro: transpI)
qed (simp add: reflp_def requested_for_def requested_refl)

lemma requested_for_same: "keeps (same_part site) m \<Longrightarrow> keeps (requested_for t emails project) m"
  by (auto simp: keeps_def requested_for_def same_part_def requested_def)

lemmas requested_rules = keeps_ret[OF requested_for_order(1)] keeps_bind[OF requested_for_order(2)]
  requested_for_same[OF other_calls(1)] requested_for_same[OF other_calls(2)] requested_for_same[OF other_calls(3)]

text \<open>The calls that only read.\<close>

lemma client_iface: "fossa_iface (se_factory E tok) members pending"
  using client by (rule scanner_world.axioms(1))

lemma fossa_reads:
  "keeps (same_part site) (sf_fetch_users (se_factory E tok))"
  "keeps (same_part site) (fc_has_pending (se_factory E tok) e)"
  "keeps (same_part site) (fc_team_emails (se_factory E tok) t)"
proof -
  have site: "keeps (same_part site) m"
    if "keeps (same_part (\<lambda>w. (users w, teams w, consistent w, scs w))) m"
      and "\<And>w r w'. run_state m w = (r, w') \<Longrightarrow> members w' = members w \<and> pending w' = pending w"
    for m :: "('w, 'x) io"
    using that unfolding keeps_def same_part_def by simp
  show "keeps (same_part site) (sf_fetch_users (se_factory E tok))"
    by (rule site[OF reading_calls(1) scanner_world.fetch_users_keeps[OF client]])
  show "keeps (same_part site) (fc_has_pending (se_factory E tok) e)"
    by (rule site[OF reading_calls(2) fossa_iface.has_pending_keeps[OF client_iface]])
  show "keeps (same_part site) (fc_team_emails (se_factory E tok) t)"
    by (rule site[OF reading_calls(3) fossa_iface.team_emails_keeps[OF client_iface]])
qed

lemma set_condition_site: "keeps (same_part site) (set_condition E ty st re me cr)"
  unfolding set_condition_def by (intro keeps_part other_calls)

text \<open>The invitations.\<close>

lemma one_invitation_frame:
  "keeps (same_part (\<lambda>w. (users w, teams w, consistent w, scs w))) (one_invitation (se_factory E tok) us ex t e)"
  unfolding one_invitation_def send_invitation_def
  by (auto intro!: keeps_part reading_calls writing_calls split: sum.split)

lemma invitations_frame:
  "keeps (same_part (\<lambda>w. (users w, teams w, consistent w, scs w))) (ensure_user_invitations E (se_factory E tok) emails ex)"
proof -
  have "keeps (same_part (\<lambda>w. (users w, teams w, consistent w, scs w))) (se_now E)"
    using other_calls(2) by (auto simp: keeps_def same_part_def)
  then show ?thesis
    unfolding ensure_user_invitations_def
    by (auto intro!: keeps_part keeps_for_each[OF same_part_order(2,1)] reading_calls one_invitation_frame
        split: sum.split prod.split)
qed

lemma invitations_requested:
  "keeps (requested_for t (set emails) project) (ensure_user_invitations E (se_factory E tok) emails ex)"
proof (rule keepsI)
  fix w r w' assume run: "run_state (ensure_user_invitations E (se_factory E tok) emails ex) w = (r, w')"
  from keepsD[OF invitations_frame run] scanner_world.invitations_effect[OF client run]
  show "requested_for t (set emails) project w w'"
    by (auto simp: requested_for_def requested_def same_part_def)
qed

text \<open>The membership.\<close>

lemma add_user_requested:
  assumes "e \<in> emails"
  shows "keeps (requested_for t emails project) (fc_add_user (se_factory E tok) t e role)"
proof (rule keepsI)
  fix w r w' assume run: "run_state (fc_add_user (se_factory E tok) t e role) w = (r, w')"
  have f: "pending w' = pending w" "users w' = users w" "teams w' = teams w" "consistent w' = consistent w" "scs w' = scs w"
    using keepsD[OF writing_calls(2) run] by (simp_all add: same_part_def)
  have "members w' = members w \<or> members w' = (members w)(t := insert e (members w t))"
    using run fossa_iface.add_user_Ok[OF client_iface, of tok t e role w _ w']
      fossa_iface.add_user_Err[OF client_iface, of tok t e role w _ w'] by (cases r) auto
  then show "requested_for t emails project w w'"
    using f assms unfolding requested_for_def requested_def by (auto split: if_splits)
qed

lemma membership_requested:
  assumes "\<forall>iv \<in> set ivs. iv_email iv \<in> emails"
  shows "keeps (requested_for t emails project) (ensure_team_membership E (se_factory E tok) t ivs)"
proof -
  have o: "keeps (requested_for t emails project) (on_team E m iv)" for m iv
    unfolding on_team_def by (intro requested_rules)
  have m: "keeps (requested_for t emails project) (one_member E (se_factory E tok) t ms iv)" if "iv_email iv \<in> emails" for ms iv
    unfolding one_member_def by (auto intro!: requested_rules o add_user_requested that split: sum.split)
  show ?thesis
    unfolding ensure_team_membership_def
    by (auto intro!: requested_rules requested_for_same[OF fossa_reads(3)] m
        keeps_for_each[OF requested_for_order(2,1)] bspec[OF assms] split: sum.split prod.split)
qed

lemma join_team_requested:
  assumes "\<forall>iv \<in> set ivs. iv_email iv \<in> emails"
  shows "keeps (requested_for (tm_id team) emails project) (join_team E (se_factory E tok) team ivs)"
  unfolding join_team_def
  by (auto intro!: requested_rules membership_requested[OF assms] split: prod.split option.split)

text \<open>Step 8.\<close>

lemma invite_users_requested:
  "keeps (requested_for t (set (fs_emails cr)) project) (invite_users E (se_factory E tok) cr)"
  unfolding invite_users_def
  by (auto intro!: requested_rules invitations_requested requested_for_same[OF set_condition_site]
      split: sum.split prod.split)

lemma process_requested:
  "keeps (requested_for (tm_id team) (set (fs_emails cr)) project) (process_invitations E (se_factory E tok) team cr)"
proof -
  have "\<forall>iv \<in> set ivs. iv_email iv \<in> set (fs_emails cr)"
    if "run_state (invite_users E (se_factory E tok) cr) w = ((cr', ivs, hp), w')" for cr' ivs hp w w'
  proof -
    have "map iv_email ivs = fs_emails cr \<or> ivs = []"
      using invite_users_made[OF that] by (simp add: invitations_made_def)
    then have "set (map iv_email ivs) \<subseteq> set (fs_emails cr)" by (elim disjE) (simp_all del: set_map)
    then show ?thesis by auto
  qed
  then show ?thesis
    unfolding process_invitations_def
    by (auto intro!: requested_rules requested_for_same[OF set_condition_site] join_team_requested
        keeps_bind_result[OF requested_for_order(2) invite_users_requested] split: prod.split)
qed

text \<open>The other steps.\<close>

lemma ensure_team_requested:
  assumes run: "run_state (ensure_scanner_team (se_factory E tok) n) w = (r, w')"
  shows "requested emails n w w' \<and> scs w' = scs w \<and> (\<forall>tm. r = Inr tm \<longrightarrow> (tm_id tm, n) \<in> teams w')"
proof -
  let ?F = "se_factory E tok"
  obtain f w1 where f: "run_state (fc_fetch_team ?F n) w = (f, w1)" by (metis surj_pair)
  have 1: "same_part site w w1" using keepsD[OF reading_calls(4) f] .
  show ?thesis
  proof (cases f)
    case (Inr tm)
    then have "r = Inr tm" "w' = w1" using run f by (auto simp: ensure_scanner_team_def)
    then show ?thesis
      using 1 fetch_team_Ok[of tok n w tm w1] f Inr by (auto simp: same_part_def requested_def)
  next
    case (Inl e)
    obtain c w2 where c: "run_state (fc_create_team ?F n) w1 = (c, w2)" by (metis surj_pair)
    have w: "w' = w2" and r: "\<And>tm. r = Inr tm \<Longrightarrow> c = Inr tm"
      using run f Inl c by (auto simp: ensure_scanner_team_def split: sum.splits)
    have k: "pending w2 = pending w" "users w2 = users w" "scs w2 = scs w"
      using keepsD[OF writing_calls(3) c] 1 by (simp_all add: same_part_def)
    have m: "members w1 = members w" "teams w1 = teams w" "consistent w1 = consistent w"
      using 1 by (simp_all add: same_part_def)
    from create_team_any[OF c] have "requested emails n w w2"
    proof (elim disjE exE)
      fix t
      assume t: "members w2 = (members w1)(t := {}) \<and> teams w2 = insert (t, n) (teams w1) \<and>
        (consistent w1 \<longrightarrow> consistent w2 \<and> t \<notin> fst ` teams w1)"
      then show ?thesis unfolding requested_def k using m by (auto split: if_splits)
    qed (use k m in \<open>simp add: requested_def\<close>)
    then show ?thesis using w k(3) r create_team_Ok[of tok n w1 _ w2] c by auto
  qed
qed

lemma credentials_site: "keeps (same_part site) (get_fossa_credentials E ns)"
  unfolding get_fossa_credentials_def Let_def by (auto intro!: keeps_part other_calls split: sum.split)

lemma sync_site: "keeps (same_part site) (sync_config_map E cr team)"
  unfolding sync_config_map_def
  by (auto intro!: keeps_part other_calls kind_keepsD[OF config_map_calls] split: sum.split)

text \<open>What the calls on scanners do to the reports.\<close>

abbreviation "claims \<equiv> reported scs"

lemma claimsI: "scs w k = Some cr \<Longrightarrow> e \<in> claimed (status_of cr) t \<Longrightarrow> e \<in> claims w t"
  unfolding reported_def by blast

lemma claims_scs: "scs v = scs w \<Longrightarrow> claims v = claims w"
  by (simp add: reported_def fun_eq_iff)

lemma requested_after:
  "same_part site u v \<Longrightarrow> requested emails project v w \<Longrightarrow> requested emails project u w"
  using requested_trans[OF requested_same[OF site_service]] .

lemma update_status_claims:
  assumes "run_state (kd_update_status (se_scanners E) cr) w = (r, w')"
  shows "same_part service w w' \<and> claims w' t \<subseteq> claims w t \<union> claimed (status_of cr) t"
proof
  show "same_part service w w'" using keepsD[OF kind_keepsD(6)[OF scanner_calls] assms] .
  show "claims w' t \<subseteq> claims w t \<union> claimed (status_of cr) t"
    using assms update_status_Ok[of cr w _ w'] update_status_Err[of cr w _ w']
    by (cases r) (auto simp: reported_def split: if_splits)
qed

lemma patch_claims:
  assumes "run_state (kd_patch (se_scanners E) x y) w = (Inr z, w')"
  shows "same_part service w w' \<and> claimed (status_of z) t \<subseteq> claims w t \<union> claimed (status_of y) t \<and>
    claims w' t \<subseteq> claims w t \<union> claimed (status_of y) t"
proof (intro conjI)
  note p = patch_Ok[OF assms]
  show "same_part service w w'" using keepsD[OF kind_keepsD(5)[OF scanner_calls] assms] .
  show z: "claimed (status_of z) t \<subseteq> claims w t \<union> claimed (status_of y) t"
    using p by (auto intro: claimsI)
  show "claims w' t \<subseteq> claims w t \<union> claimed (status_of y) t"
    using p z unfolding reported_def by (fastforce split: if_splits)
qed

lemma publish_claims:
  assumes run: "run_state (publish E team cm cr ra) w = (r, w')"
  shows "same_part service w w' \<and> claims w' t \<subseteq> claims w t \<union> claimed (status_of cr) t"
proof -
  define ref where "ref = cm_namespace cm @ ''/'' @ cm_name cm"
  define cr1 where "cr1 = cr\<lparr>fs_annotations := map_put ann_config_map_ref ref (fs_annotations cr)\<rparr>"
  obtain p w1 where p: "run_state (if map_get (fs_annotations cr) ann_config_map_ref \<noteq> ref
      then kd_patch (se_scanners E) cr cr1 else ret (Inr cr)) w = (p, w1)"
    and rest: "run_state (case p of Inl e \<Rightarrow> ret (0, Some e)
      | Inr cr \<Rightarrow> do { u \<leftarrow> kd_update_status (se_scanners E) (cr\<lparr>fs_config_map_ref := ref\<rparr>);
          case u of Inl e \<Rightarrow> ret (0, Some e)
          | Inr _ \<Rightarrow> do { _ \<leftarrow> se_event E ''Normal'' ''Reconciled''
              (''FOSSA team '' @ quote (tm_name team) @ '' (ID: '' @ itoa (tm_id team) @ '') ready''); ret (ra, None) } }) w1 = (r, w')"
    using run unfolding publish_def Let_def ref_def[symmetric] cr1_def[symmetric] by (rule run_bindE)
  have s: "status_of cr1 = status_of cr" by (simp add: cr1_def status_of_def)
  show ?thesis
  proof (cases p)
    case (Inl e)
    then have q: "run_state (kd_patch (se_scanners E) cr cr1) w = (Inl e, w1)" using p by (auto split: if_splits)
    have "w' = w1" using rest Inl by simp
    then show ?thesis
      using patch_Err[OF q] keepsD[OF kind_keepsD(5)[OF scanner_calls] q] by (simp add: reported_def)
  next
    case (Inr z)
    have 1: "same_part service w w1 \<and> claimed (status_of z) t \<subseteq> claims w t \<union> claimed (status_of cr) t \<and>
        claims w1 t \<subseteq> claims w t \<union> claimed (status_of cr) t"
      using p Inr patch_claims[of cr cr1 w z w1 t] s by (auto simp: same_part_def split: if_splits)
    define z1 where "z1 = z\<lparr>fs_config_map_ref := ref\<rparr>"
    obtain u w2 where u: "run_state (kd_update_status (se_scanners E) z1) w1 = (u, w2)" by (metis surj_pair)
    have z1: "status_of z1 = status_of z" by (simp add: z1_def status_of_def)
    have w': "same_part site w2 w'"
      using rest u unfolding Inr z1_def
      by (auto simp: same_part_def split: sum.splits prod.splits dest!: keepsD[OF other_calls(3)])
    have "claims w' t = claims w2 t" using w' by (simp add: same_part_def reported_def)
    then show ?thesis using 1 update_status_claims[OF u, of t] w' unfolding z1 by (auto simp: same_part_def)
  qed
qed

text \<open>What step 8 reports as added is on the team.\<close>

definition on_the_team :: "'w \<Rightarrow> int \<Rightarrow> string set" where
  "on_the_team w t = {e. to_lower e \<in> to_lower ` members w t}"

lemma join_team_truth:
  assumes run: "run_state (join_team E (se_factory E tok) team ivs) w = (ivs', w')"
    and fresh: "\<forall>iv \<in> set ivs. iv_status iv \<noteq> st_added"
  shows "\<forall>iv \<in> set ivs'. iv_status iv = st_added \<longrightarrow> iv_email iv \<in> on_the_team w' (tm_id team)"
proof (cases "tm_id team > 0")
  case False
  then show ?thesis using run fresh by (auto simp: join_team_def)
next
  case True
  obtain ivs1 err w1 where m: "run_state (ensure_team_membership E (se_factory E tok) (tm_id team) ivs) w = ((ivs1, err), w1)"
    by (metis surj_pair)
  have w: "ivs' = ivs1" "members w' = members w1"
    using run True m keepsD[OF other_calls(3), of _ _ _ w1]
    by (auto simp: join_team_def same_part_def split: option.splits prod.splits)
  have "list_all2 (vouched (members w1 (tm_id team))) ivs ivs1" using scanner_world.membership_effect[OF client m] by simp
  then have "\<forall>iv \<in> set ivs1. \<exists>iv0 \<in> set ivs. vouched (members w1 (tm_id team)) iv0 iv"
    by (induction rule: list_all2_induct) auto
  then show ?thesis using fresh unfolding w(1) on_the_team_def vouched_def w(2) by fastforce
qed

lemma process_truth:
  assumes run: "run_state (process_invitations E (se_factory E tok) team cr) w = ((cr', ra), w')"
    and team: "fs_team cr = Some tr" "tr_id tr = tm_id team"
  shows "claimed (status_of cr') t \<subseteq> on_the_team w' t"
proof (cases "fs_emails cr = []")
  case True
  then have "fs_invitations cr' = []" using run by (auto simp: process_invitations_def set_condition_def split: prod.splits)
  then show ?thesis by (simp add: claimed_def status_of_def)
next
  case False
  obtain cr1 ivs hp w1 ivs' w2 where p:
    "run_state (invite_users E (se_factory E tok) cr) w = ((cr1, ivs, hp), w1)"
    "run_state (join_team E (se_factory E tok) team ivs) w1 = (ivs', w2)"
    "fst (case invitations_summary ivs' of (status, reason, message) \<Rightarrow>
      run_state (set_condition E cond_invitations status reason message (cr1\<lparr>fs_invitations := ivs'\<rparr>)) w2) = cr'"
    "snd (case invitations_summary ivs' of (status, reason, message) \<Rightarrow>
      run_state (set_condition E cond_invitations status reason message (cr1\<lparr>fs_invitations := ivs'\<rparr>)) w2) = w'"
    by (rule process_invitations_runE[OF False run])
  obtain a b c where abc: "invitations_summary ivs' = (a, b, c)" by (metis surj_pair)
  have q: "run_state (set_condition E cond_invitations a b c (cr1\<lparr>fs_invitations := ivs'\<rparr>)) w2 = (cr', w')"
    using p(3,4) unfolding abc by (simp add: prod_eq_iff)
  have "members w' = members w2" using keepsD[OF set_condition_site q] by (simp add: same_part_def)
  moreover have "fs_invitations cr' = ivs'" "fs_team cr' = Some tr"
    using q invite_users_made[OF p(1)] team(1) by (auto simp: set_condition_def split: prod.splits)
  moreover have "\<forall>iv \<in> set ivs'. iv_status iv = st_added \<longrightarrow> iv_email iv \<in> on_the_team w2 (tm_id team)"
    using join_team_truth[OF p(2)] invite_users_fresh[OF p(1)] by blast
  ultimately show ?thesis using team(2) by (auto simp: claimed_def status_of_def on_the_team_def)
qed

text \<open>Steps 6 to 10, and the whole reconciliation.\<close>

lemma set_condition_run:
  assumes "run_state (set_condition E ty st re me cr) w = (cr', w')"
  shows "same_part site w w' \<and> (\<exists>cs. cr' = cr\<lparr>fs_conditions := cs\<rparr>)"
  using keepsD[OF set_condition_site assms] assms by (auto simp: set_condition_def split: prod.splits)

lemma reconcile_team_effect:
  assumes run: "run_state (reconcile_team E (se_factory E tok) orgID team cr) w = (r, w')"
    and team: "(tm_id team, fs_project_name cr) \<in> teams w"
  shows "requested (set (fs_emails cr)) (fs_project_name cr) w w' \<and> claims w' t \<subseteq> claims w t \<union> on_the_team w' t"
proof -
  obtain cr1 w1 where 1: "run_state (set_condition E cond_team ''True'' ''TeamCreated''
      (''FOSSA team '' @ quote (tm_name team) @ '' ready (ID: '' @ itoa (tm_id team) @ '')'')
      (record_team orgID team cr)) w = (cr1, w1)" by (metis surj_pair)
  obtain s w2 where 2: "run_state (sync_config_map E cr1 team) w1 = (s, w2)" by (metis surj_pair)
  have w2: "same_part site w w2"
    using set_condition_run[OF 1] keepsD[OF sync_site 2] by (auto simp: same_part_def)
  show ?thesis
  proof (cases s)
    case (Inl e)
    then have "w' = w2" using run 1 2 by (simp add: reconcile_team_def)
    then show ?thesis using requested_same[OF site_service[OF w2]] claims_scs[of w2 w] w2 by (auto simp: same_part_def)
  next
    case (Inr cm)
    obtain cr3 w3 where 3: "run_state (set_condition E cond_config_map ''True'' ''ConfigMapCreated'' ''ConfigMap ready'' cr1) w2 = (cr3, w3)"
      by (metis surj_pair)
    obtain cr4 ra w4 where 4: "run_state (process_invitations E (se_factory E tok) team cr3) w3 = ((cr4, ra), w4)"
      by (metis surj_pair)
    have 5: "run_state (publish E team cm cr4 ra) w4 = (r, w')"
      using run 1 2 Inr 3 4 by (simp add: reconcile_team_def)
    have cr3: "fs_emails cr3 = fs_emails cr" "fs_team cr3 = fs_team (record_team orgID team cr)"
      using set_condition_run[OF 1] set_condition_run[OF 3] by (auto simp: record_team_def)
    have w3: "same_part site w w3" using w2 set_condition_run[OF 3] by (auto simp: same_part_def)
    have "requested_for (tm_id team) (set (fs_emails cr)) (fs_project_name cr) w3 w4"
      using keepsD[OF process_requested 4] unfolding cr3 .
    then have 34: "requested (set (fs_emails cr)) (fs_project_name cr) w3 w4" "scs w4 = scs w3"
      using w3 team by (auto simp: requested_for_def same_part_def)
    note p = publish_claims[OF 5, of t]
    have "requested (set (fs_emails cr)) (fs_project_name cr) w w'"
      using requested_trans[OF requested_trans[OF requested_same[OF site_service[OF w3]] 34(1)] requested_same] p by blast
    moreover have "claimed (status_of cr4) t \<subseteq> on_the_team w4 t"
      using process_truth[OF 4] unfolding cr3(2) by (simp add: record_team_def)
    moreover have "claims w4 t = claims w t" "on_the_team w' t = on_the_team w4 t"
      using 34(2) w3 p claims_scs[of w4 w] by (simp_all add: same_part_def on_the_team_def)
    ultimately show ?thesis using p by auto
  qed
qed

lemma reconcile_found_effect:
  assumes run: "run_state (reconcile_found E cr) w = (r, w')" and st: "scs w k = Some cr"
  shows "requested (set (fs_emails cr)) (fs_project_name cr) w w' \<and> claims w' t \<subseteq> claims w t \<union> on_the_team w' t"
proof -
  let ?ns = "if se_credentials_namespace E = [] then fs_namespace cr else se_credentials_namespace E"
  obtain c w1 where c: "run_state (get_fossa_credentials E ?ns) w = (c, w1)" by (metis surj_pair)
  have 1: "same_part site w w1" using keepsD[OF credentials_site c] .
  have failed: "requested (set (fs_emails cr)) (fs_project_name cr) v w' \<and> claims w' t \<subseteq> claims v t"
    if "run_state (set_condition E ty st re me cr) v = (cr1, v1)" "run_state (kd_update_status (se_scanners E) cr1) v1 = (u, v2)"
      "same_part site v2 w'" "scs v = scs w" for ty st re me v cr1 v1 u v2
  proof -
    note s = set_condition_run[OF that(1)] and u = update_status_claims[OF that(2), of t]
    have "claimed (status_of cr1) t \<subseteq> claims v t"
      using s st that(4) by (auto intro!: claimsI[of v k cr] simp: status_of_def)
    moreover have "claims w' t = claims v2 t" "claims v1 t = claims v t"
      using that(3) s claims_scs[of w' v2] claims_scs[of v1 v] by (simp_all add: same_part_def)
    moreover have "same_part service v w'" using u s that(3) by (simp add: same_part_def)
    ultimately show ?thesis using u requested_same by blast
  qed
  have ev: "same_part site v v'" if "run_state (se_event E a b c) v = (x, v')" for a b c v x v'
    using keepsD[OF other_calls(3) that] .
  have same: "same_part site v v" for v by (simp add: same_part_def)
  show ?thesis
  proof (cases c)
    case (Inl e)
    then have "run_state (credentials_failed E e cr) w1 = (r, w')" using run c by (simp add: reconcile_found_def)
    moreover obtain cr1 v1 where f: "run_state (set_condition E cond_team ''False'' ''CredentialsNotFound'' (error_text e) cr) w1 = (cr1, v1)"
      by (metis surj_pair)
    moreover obtain u v2 where u: "run_state (kd_update_status (se_scanners E) cr1) v1 = (u, v2)" by (metis surj_pair)
    ultimately have "same_part site v2 w'"
      using ev same by (auto simp: credentials_failed_def split: sum.splits prod.splits)
    from failed[OF f u this] 1 show ?thesis
      using requested_after[OF 1] claims_scs[of w1 w] by (auto simp: same_part_def)
  next
    case (Inr p)
    obtain tok orgID where p: "p = (tok, orgID)" by (cases p)
    obtain e w2 where e: "run_state (ensure_scanner_team (se_factory E tok) (fs_project_name cr)) w1 = (e, w2)"
      by (metis surj_pair)
    have 2: "requested (set (fs_emails cr)) (fs_project_name cr) w w2" "scs w2 = scs w"
      using ensure_team_requested[OF e] requested_after[OF 1] 1 by (simp_all add: same_part_def)
    show ?thesis
    proof (cases e)
      case (Inl er)
      then have "run_state (team_failed E er cr) w2 = (r, w')" using run c Inr p e by (simp add: reconcile_found_def)
      moreover obtain cr1 v1 where f: "run_state (set_condition E cond_team ''False'' ''APIError'' (error_text er) cr) w2 = (cr1, v1)"
        by (metis surj_pair)
      moreover obtain u v2 where u: "run_state (kd_update_status (se_scanners E) cr1) v1 = (u, v2)" by (metis surj_pair)
      ultimately have "same_part site v2 w'" using ev by (auto simp: team_failed_def split: prod.splits)
      from failed[OF f u this 2(2)] show ?thesis
        using requested_trans[OF 2(1)] claims_scs[OF 2(2)] by auto
    next
      case (Inr tm)
      have "run_state (reconcile_team E (se_factory E tok) orgID tm cr) w2 = (r, w')"
        using run c \<open>c = Inr p\<close> p e Inr by (simp add: reconcile_found_def)
      from reconcile_team_effect[OF this, of t] ensure_team_requested[OF e] Inr 2 show ?thesis
        using requested_trans[OF 2(1)] claims_scs[OF 2(2)] by auto
    qed
  qed
qed

lemma reconcile_effect:
  assumes run: "run_state (reconcile_fossa E req) w = (r, w')"
  shows "((\<exists>cr. scs w req = Some cr \<and> requested (set (fs_emails cr)) (fs_project_name cr) w w') \<or> same_part service w w') \<and>
    claims w' t \<subseteq> claims w t \<union> on_the_team w' t"
proof -
  obtain g w1 where g: "run_state (kd_get (se_scanners E) req) w = (g, w1)" by (metis surj_pair)
  have 1: "same_part site w w1"
    using keepsD[OF kind_keepsD(1)[OF scanner_calls] g] keepsD[OF get_keeps g] by (simp add: same_part_def)
  show ?thesis
  proof (cases g)
    case (Inl e)
    then have "w' = w1" using run g by (simp add: reconcile_fossa_def)
    then show ?thesis using 1 claims_scs[of w1 w] by (simp add: same_part_def)
  next
    case (Inr cr)
    have s: "scs w req = Some cr" "scs w1 req = Some cr" using get_Ok[of req w cr w1] g Inr 1 by (auto simp: same_part_def)
    have "run_state (reconcile_found E cr) w1 = (r, w')" using run g Inr by (simp add: reconcile_fossa_def)
    from reconcile_found_effect[OF this s(2), of t] s(1) 1 show ?thesis
      using requested_after[OF 1] claims_scs[of w1 w] by (auto simp: same_part_def)
  qed
qed

section \<open>What a run does\<close>

lemma step_pending:
  assumes "run_state (reconcile_fossa E req) w = (r, w')"
  shows "pending w' \<subseteq> pending w \<union> {e. \<exists>project. asked_for scs w e project \<and> to_lower e \<notin> to_lower ` users w}"
  using reconcile_effect[OF assms, THEN conjunct1]
proof (elim disjE exE conjE)
  fix cr assume s: "scs w req = Some cr" and "requested (set (fs_emails cr)) (fs_project_name cr) w w'"
  then have "pending w' \<subseteq> pending w \<union> {e \<in> set (fs_emails cr). to_lower e \<notin> to_lower ` users w}"
    by (simp add: requested_def)
  then show ?thesis using asked_forI[of scs, OF s] by blast
qed (simp add: same_part_def)

lemma step_members:
  assumes "run_state (reconcile_fossa E req) w = (r, w')"
  shows "members w' t \<subseteq> members w t \<union> {e. \<exists>project. asked_for scs w e project \<and> (t, project) \<in> teams w'}"
  using reconcile_effect[OF assms, THEN conjunct1]
proof (elim disjE exE conjE)
  fix cr assume s: "scs w req = Some cr" and "requested (set (fs_emails cr)) (fs_project_name cr) w w'"
  then have "members w' t \<subseteq> members w t \<union> {e \<in> set (fs_emails cr). (t, fs_project_name cr) \<in> teams w'}"
    unfolding requested_def by blast
  then show ?thesis using asked_forI[of scs, OF s] by blast
qed (simp add: same_part_def)

lemma step_teams:
  assumes "run_state (reconcile_fossa E req) w = (r, w')"
  shows "teams w' \<subseteq> teams w \<union> {x. \<exists>k cr. scs w k = Some cr \<and> snd x = fs_project_name cr}"
  using reconcile_effect[OF assms, THEN conjunct1]
proof (elim disjE exE conjE)
  fix cr assume s: "scs w req = Some cr" and "requested (set (fs_emails cr)) (fs_project_name cr) w w'"
  then have "teams w' \<subseteq> teams w \<union> {x. snd x = fs_project_name cr}" unfolding requested_def by blast
  then show ?thesis using s by blast
qed (simp add: same_part_def)

text \<open>The operator withdraws no invitation and takes nobody off a team.\<close>

lemma step_keeps:
  assumes "run_state (reconcile_fossa E req) w = (r, w')"
  shows "pending w \<subseteq> pending w' \<and> (consistent w \<longrightarrow> consistent w' \<and> (t \<in> fst ` teams w \<longrightarrow> members w t \<subseteq> members w' t))"
  using reconcile_effect[OF assms, THEN conjunct1]
proof (elim disjE exE conjE)
  fix cr assume "requested (set (fs_emails cr)) (fs_project_name cr) w w'"
  then show ?thesis unfolding requested_def by blast
qed (simp add: same_part_def)

lemma run_consistent:
  assumes "scanner_run E others w0 vs w" and "\<And>v v'. others v v' \<Longrightarrow> consistent v \<Longrightarrow> consistent v'" and "consistent w0"
  shows "\<forall>v \<in> set vs. consistent v"
  using assms(1)
proof induction
  case (scanner_reconciled vs w req r w')
  then show ?case using step_keeps scanner_run_sees[OF scanner_reconciled.hyps(1)] by auto
next
  case (others_acted vs w w')
  then show ?case using assms(2) scanner_run_sees[OF others_acted.hyps(1)] by auto
qed (simp add: assms(3))

lemma run_accounted:
  assumes "scanner_run E others w0 vs w"
  shows "pending w \<subseteq> pending w0 \<union> by_others others vs pending \<union>
      {e. \<exists>v \<in> set vs. \<exists>project. asked_for scs v e project \<and> to_lower e \<notin> to_lower ` users v}"
    and "members w t \<subseteq> members w0 t \<union> by_others others vs (\<lambda>v. members v t) \<union>
      {e. \<exists>v \<in> set vs. \<exists>v' \<in> set vs. \<exists>project. asked_for scs v e project \<and> (t, project) \<in> teams v'}"
    and "teams w \<subseteq> teams w0 \<union> by_others others vs teams \<union>
      {x. \<exists>v \<in> set vs. \<exists>k cr. scs v k = Some cr \<and> snd x = fs_project_name cr}"
    and "claims w t \<subseteq> claims w0 t \<union> by_others others vs (\<lambda>v. claims v t) \<union> {e. \<exists>v \<in> set vs. e \<in> on_the_team v t}"
    and "pending w0 \<subseteq> pending w \<union> by_others others vs (\<lambda>v. - pending v)"
proof -
  show "pending w \<subseteq> pending w0 \<union> by_others others vs pending \<union>
      {e. \<exists>v \<in> set vs. \<exists>project. asked_for scs v e project \<and> to_lower e \<notin> to_lower ` users v}"
    by (rule run_accounts[OF assms]) (use step_pending in blast)+
  show "members w t \<subseteq> members w0 t \<union> by_others others vs (\<lambda>v. members v t) \<union>
      {e. \<exists>v \<in> set vs. \<exists>v' \<in> set vs. \<exists>project. asked_for scs v e project \<and> (t, project) \<in> teams v'}"
    by (rule run_accounts[OF assms]) (use step_members in blast)+
  show "teams w \<subseteq> teams w0 \<union> by_others others vs teams \<union>
      {x. \<exists>v \<in> set vs. \<exists>k cr. scs v k = Some cr \<and> snd x = fs_project_name cr}"
    by (rule run_accounts[OF assms]) (use step_teams in blast)+
  show "claims w t \<subseteq> claims w0 t \<union> by_others others vs (\<lambda>v. claims v t) \<union> {e. \<exists>v \<in> set vs. e \<in> on_the_team v t}"
    by (rule run_accounts[OF assms]) (use reconcile_effect in blast)+
  have "- pending w \<subseteq> - pending w0 \<union> by_others others vs (\<lambda>v. - pending v) \<union> {}"
    by (rule run_accounts[OF assms]) (use step_keeps in blast)+
  then show "pending w0 \<subseteq> pending w \<union> by_others others vs (\<lambda>v. - pending v)" by blast
qed

lemma run_keeps_members:
  assumes "scanner_run E others w0 vs w" and "\<And>v v'. others v v' \<Longrightarrow> consistent v \<Longrightarrow> consistent v'" and "consistent w0"
    and "\<forall>v \<in> set vs. t \<in> fst ` teams v"
  shows "members w0 t \<subseteq> members w t \<union> by_others others vs (\<lambda>v. - members v t)"
proof -
  have c: "\<forall>v \<in> set vs. consistent v" by (rule run_consistent[OF assms(1) _ assms(3)]) (rule assms(2))
  have "- members w t \<subseteq> - members w0 t \<union> by_others others vs (\<lambda>v. - members v t) \<union> {}"
  proof (rule run_accounts[OF assms(1)])
    fix req r v v' assume v: "v \<in> set vs" and "run_state (reconcile_fossa E req) v = (r, v')"
    from step_keeps[OF this(2), of t] show "- members v' t \<subseteq> - members v t \<union> {}"
      using c assms(4) v by blast
  qed
  then show ?thesis by blast
qed

end

text \<open>
  A scanner of each product with one name and namespace want one ConfigMap with different data, so each
  reconciliation writes over that of the other.
\<close>

lemma scanners_share_config_map:
  assumes "fs_key cr = (sn_namespace snyk, sn_name snyk)"
  shows "cm_key (config_map_for_fossa cr team) = cm_key (config_map_for_snyk snyk) \<and>
    \<not> same_map (cm_data (config_map_for_fossa cr team)) (cm_data (config_map_for_snyk snyk))"
proof -
  have "(''CodeScanner'', ''Fossa'') \<in> set (cm_data (config_map_for_fossa cr team)) - set (cm_data (config_map_for_snyk snyk))"
    by (simp add: config_map_for_fossa_def config_map_for_snyk_def)
  moreover have "cm_key (config_map_for_fossa cr team) = cm_key (config_map_for_snyk snyk)"
    using assms by (simp add: cm_key_def fs_key_def config_map_for_fossa_def config_map_for_snyk_def)
  ultimately show ?thesis unfolding same_map_def by blast
qed

section \<open>The cluster in memory\<close>

definition mock_teams :: "server_world \<Rightarrow> (int \<times> string) set" where
  "mock_teams w = {x. \<exists>tm. map_of (mk_teams (sw_fossa w)) (snd x) = Some tm \<and> fst x = tm_id tm}"

definition mock_consistent :: "server_world \<Rightarrow> bool" where
  "mock_consistent w \<longleftrightarrow> (\<forall>x \<in> mock_teams w. fst x < mk_next_team_id (sw_fossa w))"

lemma map_of_map_put: "map_of (map_put k v m) k' = (if k' = k then Some v else map_of m k')"
  by (induction m) auto

lemma mock_create_effect:
  assumes "run_state (fc_create_team (mock_fossa order) n) w = (r, w')"
  shows "(\<exists>tm. r = Inr tm \<and> mock_members w' = (mock_members w)(tm_id tm := {}) \<and>
        mock_teams w' = insert (tm_id tm, n) (mock_teams w) \<and> mock_pending w' = mock_pending w \<and>
        (mock_consistent w \<longrightarrow> mock_consistent w' \<and> tm_id tm \<notin> fst ` mock_teams w)) \<or>
    (\<exists>e. r = Inl e) \<and> w' = w"
proof (cases "mk_create_team_err (sw_fossa w) = None \<and> map_of (mk_teams (sw_fossa w)) n = None")
  case False
  then show ?thesis using assms
    by (auto simp: mock_fossa_def run_on_fossa mock_create_team_def split: option.splits if_splits)
next
  case True
  define tm where "tm = zero_team\<lparr>tm_id := mk_next_team_id (sw_fossa w), tm_name := n\<rparr>"
  have id: "tm_id tm = mk_next_team_id (sw_fossa w)" by (simp add: tm_def)
  have r: "r = Inr tm" and s: "sw_fossa w' = (sw_fossa w)\<lparr>mk_next_team_id := mk_next_team_id (sw_fossa w) + 1,
      mk_teams := map_put n tm (mk_teams (sw_fossa w)), mk_teams_created := mk_teams_created (sw_fossa w) @ [n],
      mk_team_members := (mk_team_members (sw_fossa w))(tm_id tm \<mapsto> [])\<rparr>"
    using assms True by (auto simp: mock_fossa_def run_on_fossa mock_create_team_def Let_def tm_def)
  have t: "mock_teams w' = insert (tm_id tm, n) (mock_teams w)"
    using True unfolding mock_teams_def s by (auto simp: map_of_map_put split: if_splits)
  have c: "mock_consistent w' \<and> tm_id tm \<notin> fst ` mock_teams w" if "mock_consistent w"
    using that unfolding mock_consistent_def t by (auto simp: s id)
  have "mock_members w' = (mock_members w)(tm_id tm := {})" "mock_pending w' = mock_pending w"
    by (auto simp: mock_members_def members_or_nil_def mock_pending_def s fun_eq_iff)
  then show ?thesis using r t c by blast
qed

text \<open>The other calls of the mock leave the teams and the ids alone.\<close>

lemma mock_still_teams:
  "keeps (same_part (\<lambda>w. (mk_teams (sw_fossa w), mk_next_team_id (sw_fossa w)))) (fc_has_pending (mock_fossa ord) e)"
  "keeps (same_part (\<lambda>w. (mk_teams (sw_fossa w), mk_next_team_id (sw_fossa w)))) (fc_team_emails (mock_fossa ord) t)"
  "keeps (same_part (\<lambda>w. (mk_teams (sw_fossa w), mk_next_team_id (sw_fossa w)))) (fc_send_invitation (mock_fossa ord) e)"
  "keeps (same_part (\<lambda>w. (mk_teams (sw_fossa w), mk_next_team_id (sw_fossa w), mk_invitations (sw_fossa w))))
     (fc_add_user (mock_fossa ord) t e role)"
  "keeps (same_part sw_fossa) (fc_fetch_team (mock_fossa ord) n)"
  by (auto simp: keeps_def same_part_def mock_fossa_def run_on_fossa mock_has_pending_invitation_def
      mock_fetch_team_user_emails_def mock_send_user_invitation_def mock_add_user_to_team_by_email_def
      mock_fetch_team_def Let_def split: if_splits)

lemma mock_ids:
  assumes "mk_teams (sw_fossa v) = mk_teams (sw_fossa w)" and "mk_next_team_id (sw_fossa v) = mk_next_team_id (sw_fossa w)"
  shows "mock_teams v = mock_teams w \<and> mock_consistent v = mock_consistent w"
  using assms by (simp add: mock_teams_def mock_consistent_def)

lemma keeps_on_part:
  assumes "keeps (same_part f) op"
    and "\<And>v w. f (cl_fossa v) = f (cl_fossa w) \<Longrightarrow> cl_scanners v = cl_scanners w \<Longrightarrow> g v = g w"
  shows "keeps (same_part g) (on_part op)"
proof (rule keepsI)
  fix w x w' assume "run_state (on_part op) w = (x, w')"
  then obtain v where v: "run_state op (cl_fossa w) = (x, v)" "w' = w\<lparr>cl_fossa := v\<rparr>" by (auto simp: run_on_part)
  have "f (cl_fossa w') = f (cl_fossa w)" using keepsD[OF assms(1) v(1)] v(2) by (simp add: same_part_def)
  moreover have "cl_scanners w' = cl_scanners w" using v(2) by simp
  ultimately show "same_part g w w'" unfolding same_part_def by (rule assms(2))
qed

interpretation scanners: scanner_site "cluster_env us" "\<lambda>w. mock_members (cl_fossa w)" "\<lambda>w. mock_pending (cl_fossa w)"
  "\<lambda>_. us_email ` set us" "\<lambda>w. mock_teams (cl_fossa w)" "\<lambda>w. mock_consistent (cl_fossa w)"
  "\<lambda>w k. find_obj fs_key k (cl_scanners w)" for us
proof (rule scanner_site.intro, goal_cases)
  case (1 tok)
  then show ?case using world.scanner_world_axioms[of us] by (simp add: cluster_env_def)
next
  case 2
  then show ?case by (simp add: cluster_env_def mem_kind_keeps)
next
  case 3
  then show ?case by (simp add: cluster_env_def mem_kind_keeps)
next
  case (7 tok)
  then show ?case by (simp add: cluster_env_def lift_fossa_def keeps_def same_part_def)
next
  case (8 tok e)
  have "keeps (same_part (\<lambda>w. (us_email ` set us, mock_teams (cl_fossa w), mock_consistent (cl_fossa w),
      \<lambda>k. find_obj fs_key k (cl_scanners w)))) (on_part (fc_has_pending (mock_fossa (\<lambda>x. x)) e))"
    by (rule keeps_on_part[OF mock_still_teams(1)]) (auto dest: mock_ids)
  then show ?case by (simp add: cluster_env_def lift_fossa_def)
next
  case (9 tok t)
  have "keeps (same_part (\<lambda>w. (us_email ` set us, mock_teams (cl_fossa w), mock_consistent (cl_fossa w),
      \<lambda>k. find_obj fs_key k (cl_scanners w)))) (on_part (fc_team_emails (mock_fossa (\<lambda>x. x)) t))"
    by (rule keeps_on_part[OF mock_still_teams(2)]) (auto dest: mock_ids)
  then show ?case by (simp add: cluster_env_def lift_fossa_def)
next
  case (10 tok n)
  have "keeps (same_part (\<lambda>w. (mock_members (cl_fossa w), mock_pending (cl_fossa w), us_email ` set us,
      mock_teams (cl_fossa w), mock_consistent (cl_fossa w), \<lambda>k. find_obj fs_key k (cl_scanners w))))
      (on_part (fc_fetch_team (mock_fossa (\<lambda>x. x)) n))"
    by (rule keeps_on_part[OF mock_still_teams(5)])
      (simp add: mock_members_def members_or_nil_def mock_pending_def mock_teams_def mock_consistent_def fun_eq_iff)
  then show ?case by (simp add: cluster_env_def lift_fossa_def)
next
  case (11 tok e)
  have "keeps (same_part (\<lambda>w. (us_email ` set us, mock_teams (cl_fossa w), mock_consistent (cl_fossa w),
      \<lambda>k. find_obj fs_key k (cl_scanners w)))) (on_part (fc_send_invitation (mock_fossa (\<lambda>x. x)) e))"
    by (rule keeps_on_part[OF mock_still_teams(3)]) (auto dest: mock_ids)
  then show ?case by (simp add: cluster_env_def lift_fossa_def)
next
  case (12 tok t e role)
  have "keeps (same_part (\<lambda>w. (mock_pending (cl_fossa w), us_email ` set us, mock_teams (cl_fossa w),
      mock_consistent (cl_fossa w), \<lambda>k. find_obj fs_key k (cl_scanners w))))
      (on_part (fc_add_user (mock_fossa (\<lambda>x. x)) t e role))"
    by (rule keeps_on_part[OF mock_still_teams(4)]) (auto dest: mock_ids simp: mock_pending_def)
  then show ?case by (simp add: cluster_env_def lift_fossa_def)
next
  case (13 tok n)
  then show ?case
    by (auto simp: cluster_env_def lift_fossa_def keeps_def same_part_def run_on_part dest: mock_create_effect)
next
  case (14 tok n w tm w')
  then show ?case
    by (auto simp: cluster_env_def lift_fossa_def run_on_part mock_fossa_def run_on_fossa mock_fetch_team_def mock_teams_def
        split: option.splits)
next
  case (15 tok n w r w')
  then show ?case
    by (auto simp: cluster_env_def lift_fossa_def run_on_part dest!: mock_create_effect)
next
  case (16 tok n w tm w')
  then show ?case
    by (auto simp: cluster_env_def lift_fossa_def run_on_part dest!: mock_create_effect)
next
  case (17 k w cr w')
  then show ?case
    by (auto simp: cluster_env_def mem_kind_def Let_def find_obj_key split: option.splits)
next
  case (18 k)
  then show ?case by (auto simp: cluster_env_def mem_kind_def Let_def keeps_def same_part_def)
next
  case (19 x y w z w')
  then show ?case by (auto simp: cluster_env_def mem_kind_def Let_def fun_eq_iff split: if_splits)
next
  case (20 x y w er w')
  then show ?case by (auto simp: cluster_env_def mem_kind_def Let_def split: if_splits)
next
  case (21 y w z w')
  then show ?case by (auto simp: cluster_env_def mem_kind_def Let_def fun_eq_iff split: if_splits)
next
  case (22 y w er w')
  then show ?case by (auto simp: cluster_env_def mem_kind_def Let_def split: if_splits)
qed (simp_all add: cluster_env_def keeps_def same_part_def)

section \<open>Properties\<close>

text \<open>
  C25: over any run of the operator, whatever its reconciliations return and whatever others do in
  between: an invitation that is open at the end was open at the start, was added by others, or goes to
  an address that a scanner of some moment asked for and that was no user's; a member of a team was one
  at the start, was added by others, or was asked for by a scanner whose project the team is named
  after; and a team was there at the start, was made by others, or is named after the project of a scanner.
\<close>

theorem scanners_act_on_request:
  assumes "scanner_site E members pending users teams consistent scs"
    and "scanner_run E others w0 vs w"
  shows "(e \<in> pending w \<longrightarrow> e \<in> pending w0 \<or> e \<in> by_others others vs pending \<or>
      (\<exists>v \<in> set vs. \<exists>project. asked_for scs v e project \<and> to_lower e \<notin> to_lower ` users v)) \<and>
    (e \<in> members w t \<longrightarrow> e \<in> members w0 t \<or> e \<in> by_others others vs (\<lambda>v. members v t) \<or>
      (\<exists>v \<in> set vs. \<exists>v' \<in> set vs. \<exists>project. asked_for scs v e project \<and> (t, project) \<in> teams v')) \<and>
    ((t, n) \<in> teams w \<longrightarrow> (t, n) \<in> teams w0 \<or> (t, n) \<in> by_others others vs teams \<or>
      (\<exists>v \<in> set vs. \<exists>k cr. scs v k = Some cr \<and> n = fs_project_name cr))"
proof (intro conjI impI)
  assume "e \<in> pending w"
  then show "e \<in> pending w0 \<or> e \<in> by_others others vs pending \<or>
      (\<exists>v \<in> set vs. \<exists>project. asked_for scs v e project \<and> to_lower e \<notin> to_lower ` users v)"
    using scanner_site.run_accounted(1)[OF assms] by blast
next
  assume "e \<in> members w t"
  then show "e \<in> members w0 t \<or> e \<in> by_others others vs (\<lambda>v. members v t) \<or>
      (\<exists>v \<in> set vs. \<exists>v' \<in> set vs. \<exists>project. asked_for scs v e project \<and> (t, project) \<in> teams v')"
    using scanner_site.run_accounted(2)[OF assms, of t] by blast
next
  assume "(t, n) \<in> teams w"
  then have "(t, n) \<in> teams w0 \<union> by_others others vs teams \<union>
      {x. \<exists>v \<in> set vs. \<exists>k cr. scs v k = Some cr \<and> snd x = fs_project_name cr}"
    using scanner_site.run_accounted(3)[OF assms] by (rule subsetD[rotated])
  then show "(t, n) \<in> teams w0 \<or> (t, n) \<in> by_others others vs teams \<or>
      (\<exists>v \<in> set vs. \<exists>k cr. scs v k = Some cr \<and> n = fs_project_name cr)" by simp
qed

text \<open>A scanner that asks for Ann is reconciled, then an administrator opens an invitation for Eve.\<close>

definition asking_cluster :: cluster where
  "asking_cluster = demo_cluster\<lparr>cl_scanners := [demo_scanner\<lparr>fs_emails := [''ann@x'']\<rparr>]\<rparr>"

definition eve_invited :: "cluster \<Rightarrow> cluster" where
  "eve_invited v = v\<lparr>cl_fossa := (cl_fossa v)\<lparr>sw_fossa := (sw_fossa (cl_fossa v))
     \<lparr>mk_invitations := (mk_invitations (sw_fossa (cl_fossa v)))(''eve@x'' := True)\<rparr>\<rparr>\<rparr>"

definition reconciled :: cluster where
  "reconciled = snd (run_state (reconcile_fossa demo_env (fs_key demo_scanner)) asking_cluster)"

abbreviation "admin_acts \<equiv> \<lambda>v v'. v' = eve_invited v"
abbreviation "demo_states \<equiv> [asking_cluster, reconciled, eve_invited reconciled]"

lemma demo_scanner_run: "scanner_run demo_env admin_acts asking_cluster demo_states (eve_invited reconciled)"
proof -
  have "scanner_run demo_env admin_acts asking_cluster (([asking_cluster] @ [reconciled]) @ [eve_invited reconciled]) (eve_invited reconciled)"
  proof (rule others_acted, rule scanner_reconciled, rule scanners_start)
    show "run_state (reconcile_fossa demo_env (fs_key demo_scanner)) asking_cluster =
        (fst (run_state (reconcile_fossa demo_env (fs_key demo_scanner)) asking_cluster), reconciled)"
      by (simp add: reconciled_def)
  qed simp
  then show ?thesis by simp
qed

lemma eve_invited_simps:
  "mock_members (cl_fossa (eve_invited v)) = mock_members (cl_fossa v)"
  "mock_teams (cl_fossa (eve_invited v)) = mock_teams (cl_fossa v)"
  "mock_consistent (cl_fossa (eve_invited v)) = mock_consistent (cl_fossa v)"
  "cl_scanners (eve_invited v) = cl_scanners v"
  by (auto simp: eve_invited_def mock_members_def members_or_nil_def mock_teams_def mock_consistent_def)

lemmas demo_run_defs =
  reconcile_fossa_def reconcile_found_def get_fossa_credentials_def ensure_scanner_team_def reconcile_team_def
  set_condition_def record_team_def sync_config_map_def config_map_for_fossa_def process_invitations_def
  invite_users_def join_team_def ensure_user_invitations_def one_invitation_def ensure_team_membership_def
  one_member_def on_team_def publish_def invitations_summary_def count_status_def new_invitation_def
  user_email_set_def map_get_def is_not_found_def fs_key_def cm_key_def

lemmas demo_world_defs =
  asking_cluster_def demo_cluster_def demo_scanner_def demo_user_def cluster_env_def lift_fossa_def on_part_def
  mock_fossa_def on_fossa_def mem_kind_def find_obj_def Let_def mock_create_team_def set_user_exists_def
  give_user_id_def new_mock_def mock_fetch_team_def mock_fetch_team_user_emails_def
  mock_add_user_to_team_by_email_def members_or_nil_def zero_team_def server_world.defs mem_world.defs

lemma ann_low: "to_lower ''ann@x'' = ''ann@x''" "to_lower ''Ann@x'' = ''ann@x''"
  by code_simp+

lemma demo_outcome:
  "members_or_nil (sw_fossa (cl_fossa reconciled)) 1000 = [''ann@x'']"
  "map_option (\<lambda>cr. (map_option tr_id (fs_team cr), map (\<lambda>iv. (iv_email iv, iv_status iv)) (fs_invitations cr)))
     (find_obj fs_key (fs_key demo_scanner) (cl_scanners reconciled)) = Some (Some 1000, [(''ann@x'', st_added)])"
  unfolding reconciled_def by (simp_all add: demo_run_defs demo_world_defs ann_low)

theorem scanners_act_on_request_witness:
  "\<exists>v \<in> set demo_states. \<exists>v' \<in> set demo_states. \<exists>project.
     asked_for (\<lambda>w k. find_obj fs_key k (cl_scanners w)) v ''ann@x'' project \<and> (1000, project) \<in> mock_teams (cl_fossa v')"
proof -
  have "''ann@x'' \<in> mock_members (cl_fossa (eve_invited reconciled)) 1000"
    using demo_outcome by (simp add: eve_invited_simps) (simp add: mock_members_def)
  moreover have "mock_members (cl_fossa asking_cluster) 1000 = {}"
    by (simp add: mock_members_def demo_world_defs)
  moreover have "''ann@x'' \<notin> by_others admin_acts vs (\<lambda>v. mock_members (cl_fossa v) 1000)" for vs
    by (auto simp: by_others_def eve_invited_simps)
  ultimately show ?thesis
    using scanners_act_on_request[OF scanners.scanner_site_axioms demo_scanner_run, of "''ann@x''" 1000] by blast
qed

text \<open>
  C26: what a stored status reports as added to a team was on it, in any case of its letters, at some
  moment of the run, unless the report was there at the start or was written by others; and the operator
  withdraws no invitation and takes nobody off a team: who is missing at the end was taken away by
  others, as long as the team is there all the time and FOSSA gives every team an id of its own.
\<close>

theorem reported_members_are_on_the_team:
  assumes "scanner_site E members pending users teams consistent scs"
    and "scanner_run E others w0 vs w"
    and "\<And>v v'. others v v' \<Longrightarrow> consistent v \<Longrightarrow> consistent v'" and "consistent w0"
  shows "(e \<in> reported scs w t \<longrightarrow> e \<in> reported scs w0 t \<or> e \<in> by_others others vs (\<lambda>v. reported scs v t) \<or>
      (\<exists>v \<in> set vs. to_lower e \<in> to_lower ` members v t)) \<and>
    pending w0 \<subseteq> pending w \<union> by_others others vs (\<lambda>v. - pending v) \<and>
    ((\<forall>v \<in> set vs. t \<in> fst ` teams v) \<longrightarrow>
      members w0 t \<subseteq> members w t \<union> by_others others vs (\<lambda>v. - members v t))"
proof (intro conjI impI)
  assume "e \<in> reported scs w t"
  then show "e \<in> reported scs w0 t \<or> e \<in> by_others others vs (\<lambda>v. reported scs v t) \<or>
      (\<exists>v \<in> set vs. to_lower e \<in> to_lower ` members v t)"
    using scanner_site.run_accounted(4)[OF assms(1,2), of t]
    unfolding scanner_site.on_the_team_def[OF assms(1)] by blast
next
  show "pending w0 \<subseteq> pending w \<union> by_others others vs (\<lambda>v. - pending v)"
    by (rule scanner_site.run_accounted(5)[OF assms(1,2)])
next
  assume t: "\<forall>v \<in> set vs. t \<in> fst ` teams v"
  show "members w0 t \<subseteq> members w t \<union> by_others others vs (\<lambda>v. - members v t)"
    by (rule scanner_site.run_keeps_members[OF assms(1,2) _ assms(4) t]) (rule assms(3))
qed

theorem reported_members_are_on_the_team_witness:
  "\<exists>v \<in> set demo_states. to_lower ''ann@x'' \<in> to_lower ` mock_members (cl_fossa v) 1000"
proof -
  let ?scs = "\<lambda>w k. find_obj fs_key k (cl_scanners w)"
  obtain cr where cr: "find_obj fs_key (fs_key demo_scanner) (cl_scanners reconciled) = Some cr"
    "map_option tr_id (fs_team cr) = Some 1000"
    "map (\<lambda>iv. (iv_email iv, iv_status iv)) (fs_invitations cr) = [(''ann@x'', st_added)]"
    using demo_outcome by auto
  have "''ann@x'' \<in> claimed (status_of cr) 1000" using cr(2,3) by (force simp: claimed_def status_of_def)
  then have "''ann@x'' \<in> reported ?scs (eve_invited reconciled) 1000"
    using cr(1) unfolding reported_def eve_invited_simps by blast
  moreover have "''ann@x'' \<notin> reported ?scs asking_cluster 1000"
    by (auto simp: reported_def claimed_def status_of_def asking_cluster_def demo_scanner_def find_obj_def split: if_splits)
  moreover have "''ann@x'' \<notin> by_others admin_acts vs (\<lambda>v. reported ?scs v 1000)" for vs
    by (auto simp: by_others_def reported_def eve_invited_simps)
  moreover have "mock_consistent (cl_fossa asking_cluster)"
  proof -
    have "mk_teams (sw_fossa (cl_fossa asking_cluster)) = [(''p'', zero_team\<lparr>tm_id := 1000, tm_name := ''p''\<rparr>)]"
      "mk_next_team_id (sw_fossa (cl_fossa asking_cluster)) = 1001" by (simp_all add: demo_world_defs)
    then show ?thesis by (auto simp: mock_consistent_def mock_teams_def split: if_splits)
  qed
  ultimately show ?thesis
    using reported_members_are_on_the_team[OF scanners.scanner_site_axioms demo_scanner_run, of "''ann@x''" 1000]
    by (auto simp: eve_invited_simps)
qed

end
