(* ===== verification/K8s_Sync.thy ===== *)
theory K8s_Sync
  imports K8s_Base Sql_Store
begin

text \<open>
  \<^verbatim>\<open>cmd/sync/main.go\<close>: the job that copies the database into custom resources of the cluster,
  with the specs of \<^verbatim>\<open>apis/maintainers/v1alpha1/types.go\<close> it writes.
\<close>

section \<open>Names\<close>

definition object_name_char :: "char \<Rightarrow> bool" where
  "object_name_char c \<longleftrightarrow> is_lower c \<or> is_digit c \<or> c \<in> {CHR ''-'', CHR ''.''}"

text \<open>\<^verbatim>\<open>dns1123InvalidChars.ReplaceAllString(s, "-")\<close>: every run of other characters becomes one dash.\<close>

function dash_invalid :: "string \<Rightarrow> string" where
  "dash_invalid [] = []"
| "dash_invalid (c # s) =
     (if object_name_char c then c # dash_invalid s
      else CHR ''-'' # dash_invalid (dropWhile (\<lambda>d. \<not> object_name_char d) s))"
  by pat_completeness auto
termination by (relation "measure length") (auto simp: le_imp_less_Suc length_dropWhile_le)

definition sanitize_name :: "string \<Rightarrow> string" where
  "sanitize_name s =
     (if s = [] then ''unnamed''
      else let s1 = trim (dash_invalid (to_lower (trim_space s))) ''-.'' in
           if s1 = [] then ''unnamed''
           else let s2 = (if length s1 > 63 then trim (take 63 s1) ''-.'' else s1) in
                if s2 = [] then ''unnamed'' else s2)"

section \<open>Resources\<close>

record resource_reference =
  rr_name :: string
  rr_workspace :: string
  rr_uid :: string

definition ref_to :: "string \<Rightarrow> resource_reference" where
  "ref_to name = \<lparr>rr_name = name, rr_workspace = [], rr_uid = []\<rparr>"

text \<open>
  An object of any kind: its name, namespace and spec; \<open>ko_rest\<close> is what the job never looks at
  (other metadata, the status).
\<close>

record 's kobject =
  ko_name :: string
  ko_namespace :: string
  ko_spec :: 's
  ko_rest :: string

definition ko_key :: "'s kobject \<Rightarrow> object_key" where
  "ko_key x = (ko_namespace x, ko_name x)"

record company_spec =
  cs_display_name :: string
  cs_website :: string
  cs_notes :: string
  cs_tags :: "(string, string) gomap"

record staff_spec =
  ss_display_name :: string
  ss_primary_email :: string
  ss_github :: string
  ss_github_email :: string
  ss_foundation_ref :: "resource_reference option"
  ss_registered_at :: "int option"
  ss_external_ids :: "(string, string) gomap"

record maintainer_spec =
  ms_display_name :: string
  ms_primary_email :: string
  ms_github :: string
  ms_github_email :: string
  ms_status :: string
  ms_company_ref :: "resource_reference option"
  ms_registered_at :: "int option"
  ms_external_ids :: "(string, string) gomap"

record project_spec =
  ps_display_name :: string
  ps_maturity :: string
  ps_parent_ref :: "resource_reference option"
  ps_lead_ref :: "resource_reference option"
  ps_onboarding_issue :: string
  ps_mailing_list :: string
  ps_foundation_ref :: "resource_reference option"
  ps_maintainer_refs :: "resource_reference list"
  ps_collaborator_refs :: "resource_reference list"
  ps_service_refs :: "resource_reference list"
  ps_tags :: "(string, string) gomap"

record membership_spec =
  bs_project_ref :: resource_reference
  bs_maintainer_ref :: resource_reference
  bs_roles :: "string list"
  bs_joined_at :: "int option"
  bs_notes :: string

text \<open>The client, by the kinds the job writes.\<close>

record 'w sync_client =
  sc_companies :: "('w, company_spec kobject) kind"
  sc_staff :: "('w, staff_spec kobject) kind"
  sc_maintainers :: "('w, maintainer_spec kobject) kind"
  sc_projects :: "('w, project_spec kobject) kind"
  sc_memberships :: "('w, membership_spec kobject) kind"

section \<open>Comparing specs\<close>

definition same_ref :: "resource_reference option \<Rightarrow> resource_reference option \<Rightarrow> bool" where
  "same_ref a b \<longleftrightarrow> map_option rr_name a = map_option rr_name b"

definition project_spec_equal :: "project_spec \<Rightarrow> project_spec \<Rightarrow> bool" where
  "project_spec_equal a b =
     (ps_display_name a = ps_display_name b \<and> ps_maturity a = ps_maturity b \<and>
      ps_mailing_list a = ps_mailing_list b \<and> ps_onboarding_issue a = ps_onboarding_issue b \<and>
      same_ref (ps_parent_ref a) (ps_parent_ref b) \<and> same_ref (ps_lead_ref a) (ps_lead_ref b) \<and>
      length (ps_maintainer_refs a) = length (ps_maintainer_refs b) \<and>
      list_all (\<lambda>r. rr_name r \<in> set (map rr_name (ps_maintainer_refs a))) (ps_maintainer_refs b))"

text \<open>\<^verbatim>\<open>timePtrEqual\<close> on instants.\<close>

fun time_ptr_equal :: "int option \<Rightarrow> int option \<Rightarrow> bool" where
  "time_ptr_equal None None = True"
| "time_ptr_equal (Some a) (Some b) = (a = b)"
| "time_ptr_equal _ _ = False"

definition maintainer_spec_equal :: "maintainer_spec \<Rightarrow> maintainer_spec \<Rightarrow> bool" where
  "maintainer_spec_equal a b =
     (ms_display_name a = ms_display_name b \<and> ms_primary_email a = ms_primary_email b \<and>
      ms_github a = ms_github b \<and> ms_github_email a = ms_github_email b \<and> ms_status a = ms_status b \<and>
      time_ptr_equal (ms_registered_at a) (ms_registered_at b) \<and> same_ref (ms_company_ref a) (ms_company_ref b))"

definition staff_spec_equal :: "staff_spec \<Rightarrow> staff_spec \<Rightarrow> bool" where
  "staff_spec_equal a b =
     (ss_display_name a = ss_display_name b \<and> ss_primary_email a = ss_primary_email b \<and>
      ss_github a = ss_github b \<and> ss_github_email a = ss_github_email b \<and>
      time_ptr_equal (ss_registered_at a) (ss_registered_at b) \<and> same_ref (ss_foundation_ref a) (ss_foundation_ref b))"

definition membership_spec_equal :: "membership_spec \<Rightarrow> membership_spec \<Rightarrow> bool" where
  "membership_spec_equal a b =
     (rr_name (bs_project_ref a) = rr_name (bs_project_ref b) \<and>
      rr_name (bs_maintainer_ref a) = rr_name (bs_maintainer_ref b))"

section \<open>One object\<close>

text \<open>
  The body the five loops share: get the object, create it if it is not there, and update it with
  the wanted spec if it is there with another one.
\<close>

definition sync_object ::
  "('w, 's kobject) kind \<Rightarrow> string \<Rightarrow> string \<Rightarrow> string \<Rightarrow> ('s \<Rightarrow> bool) \<Rightarrow> 's \<Rightarrow> ('s \<Rightarrow> 's) \<Rightarrow> ('w, unit result) io" where
  "sync_object K label ns name same spec change =
     do { g \<leftarrow> kd_get K (ns, name);
          case g of
            Inl e \<Rightarrow>
              if is_not_found e
              then do { c \<leftarrow> kd_create K \<lparr>ko_name = name, ko_namespace = ns, ko_spec = spec, ko_rest = []\<rparr>;
                        ret (case c of
                               Inl e \<Rightarrow> Inl (Wrap (''create '' @ label @ '' '' @ name @ '': '') e [])
                             | Inr _ \<Rightarrow> Inr ()) }
              else ret (Inl e)
          | Inr obj \<Rightarrow>
              if \<not> same (ko_spec obj)
              then do { u \<leftarrow> kd_update K (obj\<lparr>ko_spec := change (ko_spec obj)\<rparr>);
                        ret (case u of
                               Inl e \<Rightarrow> Inl (Wrap (''update '' @ label @ '' '' @ name @ '': '') e [])
                             | Inr _ \<Rightarrow> Inr ()) }
              else ret (Inr ()) }"

section \<open>The five loops\<close>

definition company_spec_of :: "company \<Rightarrow> company_spec" where
  "company_spec_of co = \<lparr>cs_display_name = co_name co, cs_website = [], cs_notes = [], cs_tags = []\<rparr>"

definition sync_company :: "'w sync_client \<Rightarrow> string \<Rightarrow> company \<Rightarrow> ('w, unit result) io" where
  "sync_company c ns co =
     sync_object (sc_companies c) ''company'' ns (sanitize_name (co_name co))
       (\<lambda>s. cs_display_name s = co_name co) (company_spec_of co)
       (\<lambda>s. s\<lparr>cs_display_name := co_name co\<rparr>)"

definition sync_companies :: "'w gorm \<Rightarrow> 'w sync_client \<Rightarrow> string \<Rightarrow> ('w, unit result) io" where
  "sync_companies G c ns = try_bind (list_companies G) (\<lambda>companies. for_each_try companies (sync_company c ns))"

text \<open>A staff member comes with the name of its foundation, empty without one.\<close>

definition staff_name_source :: "staff_member \<Rightarrow> string" where
  "staff_name_source staff =
     (if sm_email staff \<noteq> [] then sm_email staff
      else if sm_github staff \<noteq> [] then sm_github staff else sm_name staff)"

definition staff_spec_of :: "staff_member \<Rightarrow> string \<Rightarrow> staff_spec" where
  "staff_spec_of staff foundation =
     \<lparr>ss_display_name = sm_name staff, ss_primary_email = sm_email staff, ss_github = sm_github staff,
      ss_github_email = sm_github_email staff,
      ss_foundation_ref = (if sm_foundation_id staff \<noteq> None \<and> foundation \<noteq> []
                           then Some (ref_to (sanitize_name foundation)) else None),
      ss_registered_at = sm_registered_at staff, ss_external_ids = []\<rparr>"

definition sync_staff_member :: "'w sync_client \<Rightarrow> string \<Rightarrow> staff_member \<times> string \<Rightarrow> ('w, unit result) io" where
  "sync_staff_member c ns row =
     (let spec = staff_spec_of (fst row) (snd row) in
      sync_object (sc_staff c) ''staffmember'' ns (sanitize_name (staff_name_source (fst row)))
        (\<lambda>s. staff_spec_equal s spec) spec (\<lambda>_. spec))"

definition sync_staff :: "'w gorm \<Rightarrow> 'w sync_client \<Rightarrow> string \<Rightarrow> ('w, unit result) io" where
  "sync_staff G c ns = try_bind (list_staff_members G) (\<lambda>rows. for_each_try rows (sync_staff_member c ns))"

definition maintainer_spec_of :: "loaded_maintainer \<Rightarrow> maintainer_spec" where
  "maintainer_spec_of m =
     \<lparr>ms_display_name = mt_name m, ms_primary_email = mt_email m, ms_github = mt_github m,
      ms_github_email = mt_github_email m, ms_status = (if mt_status m = [] then ''Active'' else mt_status m),
      ms_company_ref = (if mt_company_id m \<noteq> None \<and> co_name (mt_company m) \<noteq> []
                        then Some (ref_to (sanitize_name (co_name (mt_company m)))) else None),
      ms_registered_at = mt_registered_at m, ms_external_ids = []\<rparr>"

definition sync_maintainer :: "'w sync_client \<Rightarrow> string \<Rightarrow> loaded_maintainer \<Rightarrow> ('w, unit result) io" where
  "sync_maintainer c ns m =
     (let spec = maintainer_spec_of m in
      sync_object (sc_maintainers c) ''maintainer'' ns (sanitize_name (mt_email m))
        (\<lambda>s. maintainer_spec_equal s spec) spec (\<lambda>_. spec))"

text \<open>Go ranges over a map in any order: \<open>order\<close> is the order of a loop.\<close>

definition sync_maintainers ::
  "'w gorm \<Rightarrow> 'w sync_client \<Rightarrow> (loaded_maintainer list \<Rightarrow> loaded_maintainer list) \<Rightarrow> string \<Rightarrow> ('w, unit result) io" where
  "sync_maintainers G c order ns =
     try_bind (get_maintainer_map_by_email G) (\<lambda>m. for_each_try (order (map snd m)) (sync_maintainer c ns))"

definition parent_name_by_id :: "loaded_project list \<Rightarrow> (nat, string) gomap" where
  "parent_name_by_id ps = foldl (\<lambda>m p. map_put (row_id p) (pr_name p) m) [] ps"

definition project_spec_of :: "(nat, string) gomap \<Rightarrow> loaded_project \<Rightarrow> project_spec" where
  "project_spec_of parents p =
     \<lparr>ps_display_name = pr_name p, ps_maturity = pr_maturity p,
      ps_parent_ref = (case pr_parent_id p of None \<Rightarrow> None
                       | Some i \<Rightarrow> map_option (\<lambda>n. ref_to (sanitize_name n)) (map_of parents i)),
      ps_lead_ref = (if pr_legacy_ref p \<noteq> [] then Some (ref_to (sanitize_name (pr_legacy_ref p))) else None),
      ps_onboarding_issue = (case pr_onboarding_issue p of None \<Rightarrow> [] | Some s \<Rightarrow> s),
      ps_mailing_list = (case pr_mailing_list p of None \<Rightarrow> [] | Some s \<Rightarrow> s),
      ps_foundation_ref = None,
      ps_maintainer_refs = map (\<lambda>m. ref_to (sanitize_name (mt_email m))) (pr_maintainers p),
      ps_collaborator_refs = [], ps_service_refs = [], ps_tags = []\<rparr>"

definition sync_project ::
  "'w sync_client \<Rightarrow> string \<Rightarrow> (nat, string) gomap \<Rightarrow> loaded_project \<Rightarrow> ('w, unit result) io" where
  "sync_project c ns parents p =
     (let spec = project_spec_of parents p in
      sync_object (sc_projects c) ''project'' ns (sanitize_name (pr_name p))
        (\<lambda>s. project_spec_equal s spec) spec (\<lambda>_. spec))"

definition sync_projects ::
  "'w gorm \<Rightarrow> 'w sync_client \<Rightarrow> (loaded_project list \<Rightarrow> loaded_project list)
     \<Rightarrow> (loaded_project list \<Rightarrow> loaded_project list) \<Rightarrow> string \<Rightarrow> ('w, unit result) io" where
  "sync_projects G c order1 order2 ns =
     try_bind (get_project_map_by_name G) (\<lambda>m.
       for_each_try (order2 (map snd m)) (sync_project c ns (parent_name_by_id (order1 (map snd m)))))"

definition membership_spec_of :: "loaded_project \<Rightarrow> loaded_maintainer \<Rightarrow> membership_spec" where
  "membership_spec_of p m =
     \<lparr>bs_project_ref = ref_to (sanitize_name (pr_name p)), bs_maintainer_ref = ref_to (sanitize_name (mt_email m)),
      bs_roles = [], bs_joined_at = None, bs_notes = []\<rparr>"

definition sync_membership ::
  "'w sync_client \<Rightarrow> string \<Rightarrow> loaded_project \<Rightarrow> loaded_maintainer \<Rightarrow> ('w, unit result) io" where
  "sync_membership c ns p m =
     (let spec = membership_spec_of p m in
      sync_object (sc_memberships c) ''membership'' ns (sanitize_name (pr_name p @ ''-'' @ mt_email m))
        (\<lambda>s. membership_spec_equal s spec) spec (\<lambda>_. spec))"

definition sync_memberships ::
  "'w gorm \<Rightarrow> 'w sync_client \<Rightarrow> (loaded_project list \<Rightarrow> loaded_project list) \<Rightarrow> string \<Rightarrow> ('w, unit result) io" where
  "sync_memberships G c order ns =
     try_bind (get_project_map_by_name G) (\<lambda>m.
       for_each_try (order (map snd m)) (\<lambda>p. for_each_try (pr_maintainers p) (sync_membership c ns p)))"

section \<open>The job\<close>

definition sync_step :: "string \<Rightarrow> ('w, unit result) io \<Rightarrow> ('w, unit result) io" where
  "sync_step label op =
     do { r \<leftarrow> op; ret (case r of Inl e \<Rightarrow> Inl (Wrap (label @ '': '') e []) | Inr u \<Rightarrow> Inr u) }"

text \<open>\<open>po i\<close> is the order of the \<open>i\<close>-th loop over the map of projects.\<close>

definition sync_all ::
  "'w gorm \<Rightarrow> 'w sync_client \<Rightarrow> (loaded_maintainer list \<Rightarrow> loaded_maintainer list)
     \<Rightarrow> (nat \<Rightarrow> loaded_project list \<Rightarrow> loaded_project list) \<Rightarrow> string \<Rightarrow> ('w, unit result) io" where
  "sync_all G c mo po ns =
     try_bind (sync_step ''companies'' (sync_companies G c ns)) (\<lambda>_.
     try_bind (sync_step ''staffmembers'' (sync_staff G c ns)) (\<lambda>_.
     try_bind (sync_step ''maintainers'' (sync_maintainers G c mo ns)) (\<lambda>_.
     try_bind (sync_step ''projects'' (sync_projects G c (po 0) (po 1) ns)) (\<lambda>_.
     sync_step ''projectmemberships'' (sync_memberships G c (po 2) ns)))))"

text \<open>\<^verbatim>\<open>envOr\<close> and the choice of driver and data source of \<^verbatim>\<open>main\<close>; \<open>Inl\<close> is \<^verbatim>\<open>log.Fatal\<close>.\<close>

definition sync_env_or :: "(string \<Rightarrow> string) \<Rightarrow> string \<Rightarrow> string \<Rightarrow> string" where
  "sync_env_or getenv key fallback =
     (let v = trim_space (getenv key) in if v \<noteq> [] then v else fallback)"

definition sync_database :: "(string \<Rightarrow> string) \<Rightarrow> (string \<times> string) result" where
  "sync_database getenv =
     (let dbDriver = sync_env_or getenv ''MD_DB_DRIVER'' ''sqlite'';
          dbDSN = sync_env_or getenv ''MD_DB_DSN'' [];
          dbPath = sync_env_or getenv ''MD_DB_PATH'' ''/data/maintainers.db'' in
      if dbDriver = ''postgres'' \<and> dbDSN = [] then Inl (Msg ''MD_DB_DSN is required when MD_DB_DRIVER=postgres'')
      else Inr (dbDriver, if dbDriver = ''postgres'' then dbDSN else dbPath))"

end
