(* ===== verification/Kdp_Workspaces.thy ===== *)
theory Kdp_Workspaces
  imports K8s_Base
begin

text \<open>
  The operator of \<^verbatim>\<open>kdp-workspaces\<close>: the kcp client (\<^verbatim>\<open>internal/kcp\<close>), the reconciler that gives
  every project a workspace (\<^verbatim>\<open>project_controller.go\<close>) and the one that gives all staff members
  access to every workspace (\<^verbatim>\<open>staffmember_controller.go\<close>).  The API servers, the parser of
  kubeconfigs, \<^verbatim>\<open>wait.PollUntilContextTimeout\<close>, \<^verbatim>\<open>meta.SetStatusCondition\<close> and the path type of
  kcp are parameters; an instant is a number of nanoseconds since 1970, and the rendering of
  instants (\<^verbatim>\<open>RFC3339\<close>) is a parameter as well.
\<close>

section \<open>Resources\<close>

text \<open>Objects the code reads without a type (\<^verbatim>\<open>unstructured\<close>).\<close>

datatype ujson = JString string | JInt int | JBool bool | JObject "(string \<times> ujson) list" | JArray "ujson list" | JNull

text \<open>A \<^verbatim>\<open>Project\<close>: metadata, and \<^verbatim>\<open>Object["status"]\<close>.  A \<^verbatim>\<open>StaffMember\<close>: metadata, and \<^verbatim>\<open>Object["spec"]\<close>.\<close>

record kproject =
  kp_name :: string
  kp_namespace :: string
  kp_generation :: int
  kp_annotations :: "(string, string) gomap"
  kp_status :: "ujson option"

record kstaff =
  kf_name :: string
  kf_namespace :: string
  kf_annotations :: "(string, string) gomap"
  kf_spec :: "ujson option"

definition kp_key :: "kproject \<Rightarrow> object_key" where "kp_key p = (kp_namespace p, kp_name p)"
definition kf_key :: "kstaff \<Rightarrow> object_key" where "kf_key s = (kf_namespace s, kf_name s)"

text \<open>A workspace in the logical cluster \<open>wk_path\<close>.\<close>

record workspace =
  wk_path :: string
  wk_name :: string
  wk_annotations :: "(string, string) gomap"
  wk_type_name :: string
  wk_type_path :: string
  wk_url :: string
  wk_phase :: string

definition wk_key :: "workspace \<Rightarrow> object_key" where "wk_key x = (wk_path x, wk_name x)"

text \<open>
  A \<^verbatim>\<open>ClusterRoleBinding\<close> in the logical cluster \<open>rb_path\<close>; subjects are kind and name, and the map
  of annotations may be nil.
\<close>

record binding =
  rb_path :: string
  rb_name :: string
  rb_annotations :: "(string, string) gomap option"
  rb_labels :: "(string, string) gomap"
  rb_subjects :: "(string \<times> string) list"
  rb_role_kind :: string
  rb_role_name :: string

definition rb_key :: "binding \<Rightarrow> object_key" where "rb_key b = (rb_path b, rb_name b)"

section \<open>What the operator calls\<close>

record kcp_config =
  kc_kubeconfig :: string
  kc_workspace_path :: string
  kc_workspace_type :: string

text \<open>
  The calls, and the fields of the two reconcilers that configure them.  \<open>ke_poll\<close> calls its
  argument until it says yes, fails, or time is up; the argument may also write the variable that
  is the second component of the state.  \<open>ke_connect\<close> is \<^verbatim>\<open>kcp.NewClient\<close>'s parsing and connecting.
\<close>

record workspace_info =
  wi_name :: string
  wi_url :: string
  wi_phase :: string
  wi_ready :: bool

record 'w kdp_env =
  ke_projects :: "('w, kproject) kind"
  ke_staff :: "('w, kstaff) kind"
  ke_config_map :: "object_key \<Rightarrow> ('w, (string, string) gomap result) io"
  ke_secret :: "object_key \<Rightarrow> ('w, (string, string) gomap result) io"
  ke_parse_kubeconfig :: "string \<Rightarrow> unit result"
  ke_connect :: "string \<Rightarrow> unit result"
  ke_clientset :: "string \<Rightarrow> unit result"
  ke_join :: "string \<Rightarrow> string \<Rightarrow> string"
  ke_workspaces :: "('w, workspace) kind"
  ke_bindings :: "('w, binding) kind"
  ke_poll :: "('w \<times> workspace_info option, bool result) io \<Rightarrow> ('w \<times> workspace_info option, unit result) io"
  ke_now :: "('w, int) io"
  ke_rfc3339 :: "int \<Rightarrow> string"
  ke_set_condition :: "condition \<Rightarrow> condition list \<Rightarrow> ('w, condition list) io"
  ke_config_map_name :: string
  ke_config_map_namespace :: string
  ke_secret_name :: string
  ke_secret_namespace :: string
  ke_staff_namespace :: string

section \<open>The kcp client\<close>

definition load_config_from_cluster ::
  "'w kdp_env \<Rightarrow> string \<Rightarrow> string \<Rightarrow> string \<Rightarrow> ('w, kcp_config result) io" where
  "load_config_from_cluster E configMapName secretName namespace =
     do { c \<leftarrow> ke_config_map E (namespace, configMapName);
          case c of
            Inl e \<Rightarrow> ret (Inl (Wrap (''failed to get ConfigMap '' @ namespace @ ''/'' @ configMapName @ '': '') e []))
          | Inr configMap \<Rightarrow>
              do { s \<leftarrow> ke_secret E (namespace, secretName);
                   ret (case s of
                          Inl e \<Rightarrow> Inl (Wrap (''failed to get Secret '' @ namespace @ ''/'' @ secretName @ '': '') e [])
                        | Inr secret \<Rightarrow>
                            (case map_of secret ''kubeconfig'' of
                               None \<Rightarrow> Inl (Msg (''kubeconfig not found in Secret '' @ namespace @ ''/'' @ secretName))
                             | Some k \<Rightarrow> Inr \<lparr>kc_kubeconfig = k,
                                             kc_workspace_path = map_get configMap ''kcp-workspace-path'',
                                             kc_workspace_type = map_get configMap ''workspace-type''\<rparr>)) } }"

definition new_kcp_client :: "'w kdp_env \<Rightarrow> kcp_config \<Rightarrow> kcp_config result" where
  "new_kcp_client E config =
     (case ke_parse_kubeconfig E (kc_kubeconfig config) of
        Inl e \<Rightarrow> Inl (Wrap ''failed to parse kubeconfig: '' e [])
      | Inr _ \<Rightarrow>
          (case ke_connect E (kc_kubeconfig config) of
             Inl e \<Rightarrow> Inl (Wrap ''failed to create KCP client: '' e [])
           | Inr _ \<Rightarrow> Inr config))"

definition phase_ready :: string where "phase_ready = ''Ready''"

definition info_of :: "workspace \<Rightarrow> workspace_info" where
  "info_of ws = \<lparr>wi_name = wk_name ws, wi_url = wk_url ws, wi_phase = wk_phase ws,
                 wi_ready = (wk_phase ws = phase_ready)\<rparr>"

definition create_workspace ::
  "'w kdp_env \<Rightarrow> kcp_config \<Rightarrow> string \<Rightarrow> string \<Rightarrow> string \<Rightarrow> ('w, workspace_info result) io" where
  "create_workspace E cfg orgName namespace resourceName =
     (if orgName = [] then ret (Inl (Msg ''organization name cannot be empty''))
      else let workspaceType = (if kc_workspace_type cfg = [] then ''kdp-organization'' else kc_workspace_type cfg);
               ws = \<lparr>wk_path = kc_workspace_path cfg, wk_name = orgName,
                     wk_annotations = [(''managed-by'', ''kdp-ws-operator''),
                       (''organization-namespace'', namespace), (''organization-name'', resourceName)],
                     wk_type_name = workspaceType, wk_type_path = kc_workspace_path cfg,
                     wk_url = [], wk_phase = []\<rparr> in
           do { r \<leftarrow> kd_create (ke_workspaces E) ws;
                ret (case r of
                       Inl e \<Rightarrow> Inl (Wrap (''failed to create workspace '' @ orgName @ '': '') e [])
                     | Inr created \<Rightarrow> Inr (info_of created)) })"

definition get_workspace :: "'w kdp_env \<Rightarrow> kcp_config \<Rightarrow> string \<Rightarrow> ('w, workspace_info option result) io" where
  "get_workspace E cfg workspaceName =
     (if workspaceName = [] then ret (Inl (Msg ''workspace name cannot be empty''))
      else do { r \<leftarrow> kd_get (ke_workspaces E) (kc_workspace_path cfg, workspaceName);
                ret (case r of
                       Inl e \<Rightarrow> if is_not_found e then Inr None
                               else Inl (Wrap (''failed to get workspace '' @ workspaceName @ '': '') e [])
                     | Inr ws \<Rightarrow> Inr (Some (info_of ws))) })"

definition workspace_exists :: "'w kdp_env \<Rightarrow> kcp_config \<Rightarrow> string \<Rightarrow> ('w, bool result) io" where
  "workspace_exists E cfg workspaceName =
     try_bind (get_workspace E cfg workspaceName) (\<lambda>info. ret (Inr (info \<noteq> None)))"

definition delete_workspace :: "'w kdp_env \<Rightarrow> kcp_config \<Rightarrow> string \<Rightarrow> ('w, unit result) io" where
  "delete_workspace E cfg workspaceName =
     (if workspaceName = [] then ret (Inl (Msg ''workspace name cannot be empty''))
      else do { r \<leftarrow> kd_delete (ke_workspaces E) (kc_workspace_path cfg, workspaceName);
                ret (case r of
                       Inl e \<Rightarrow> if is_not_found e then Inr ()
                               else Inl (Wrap (''failed to delete workspace '' @ workspaceName @ '': '') e [])
                     | Inr _ \<Rightarrow> Inr ()) })"

text \<open>One check of the poll: the answer, and the last information in the shared variable.\<close>

definition on_world :: "('w, 'a) io \<Rightarrow> ('w \<times> 'v, 'a) io" where
  "on_world m = State (\<lambda>(w, v). let (x, w') = run_state m w in (x, (w', v)))"

definition set_variable :: "'v \<Rightarrow> ('w \<times> 'v, unit) io" where
  "set_variable v = State (\<lambda>(w, _). ((), (w, v)))"

definition check_ready ::
  "'w kdp_env \<Rightarrow> kcp_config \<Rightarrow> string \<Rightarrow> ('w \<times> workspace_info option, bool result) io" where
  "check_ready E cfg workspaceName =
     do { r \<leftarrow> on_world (get_workspace E cfg workspaceName);
          case r of
            Inl e \<Rightarrow> ret (Inl e)
          | Inr None \<Rightarrow> ret (Inl (Msg (''workspace '' @ workspaceName @ '' not found'')))
          | Inr (Some info) \<Rightarrow> do { _ \<leftarrow> set_variable (Some info); ret (Inr (wi_ready info)) } }"

text \<open>
  \<^verbatim>\<open>WaitForWorkspaceReady\<close>; the information it returns beside an error is left out, as its caller
  does not use it.  The poll cannot succeed without a check, so the last case does not occur.
\<close>

definition wait_for_workspace_ready ::
  "'w kdp_env \<Rightarrow> kcp_config \<Rightarrow> string \<Rightarrow> ('w, workspace_info option result) io" where
  "wait_for_workspace_ready E cfg workspaceName =
     (if workspaceName = [] then ret (Inl (Msg ''workspace name cannot be empty''))
      else State (\<lambda>w.
        case run_state (ke_poll E (check_ready E cfg workspaceName)) (w, None) of
          (Inr _, (w', lastInfo)) \<Rightarrow> (Inr lastInfo, w')
        | (Inl e, (w', Some info)) \<Rightarrow>
            (Inl (Wrap (''workspace '' @ workspaceName @ '' not ready after timeout, current phase: '' @
                        wi_phase info @ '': '') e []), w')
        | (Inl e, (w', None)) \<Rightarrow>
            (Inl (Wrap (''failed to wait for workspace '' @ workspaceName @ '' to be ready: '') e []), w')))"

definition list_managed_workspaces :: "'w kdp_env \<Rightarrow> kcp_config \<Rightarrow> ('w, workspace_info list result) io" where
  "list_managed_workspaces E cfg =
     do { r \<leftarrow> kd_list (ke_workspaces E) (kc_workspace_path cfg);
          ret (case r of
                 Inl e \<Rightarrow> Inl (Wrap ''failed to list workspaces: '' e [])
               | Inr items \<Rightarrow>
                   Inr (map info_of (filter (\<lambda>ws. map_get (wk_annotations ws) ''managed-by'' = ''kdp-ws-operator'' \<and>
                                                 wk_phase ws = phase_ready) items))) }"

section \<open>Role bindings\<close>

abbreviation "ann_last_synced \<equiv> ''kdp-workspaces.cncf.io/last-synced''"
abbreviation "ann_staff_count \<equiv> ''kdp-workspaces.cncf.io/staff-count''"
abbreviation "ann_managed_by \<equiv> ''kdp-workspaces.cncf.io/managed-by''"
abbreviation "ann_source_namespace \<equiv> ''kdp-workspaces.cncf.io/source-namespace''"
abbreviation "staff_binding_name \<equiv> ''cncf-staff-access''"
abbreviation "operator_name \<equiv> ''kdp-ws-operator''"

definition new_binding :: "string \<Rightarrow> string \<Rightarrow> (string \<times> string) list \<Rightarrow> string \<Rightarrow> binding" where
  "new_binding path now subjects sourceNamespace =
     \<lparr>rb_path = path, rb_name = staff_binding_name,
      rb_annotations = Some [(ann_last_synced, now), (ann_staff_count, itoa (int (length subjects))),
        (ann_managed_by, operator_name), (ann_source_namespace, sourceNamespace)],
      rb_labels = [(''managed-by'', operator_name)], rb_subjects = subjects,
      rb_role_kind = ''ClusterRole'', rb_role_name = ''kdp:owner''\<rparr>"

text \<open>
  Get, then create or update.  Writing to the annotations of a binding that has none is a write
  to a nil map: a Go panic.
\<close>

definition write_binding ::
  "'w kdp_env \<Rightarrow> string \<Rightarrow> string \<Rightarrow> (string \<times> string) list \<Rightarrow> string \<Rightarrow> ('w, unit result go) io" where
  "write_binding E workspaceName path subjects sourceNamespace =
     do { t \<leftarrow> ke_now E;
          g \<leftarrow> kd_get (ke_bindings E) (path, staff_binding_name);
          case g of
            Inl e \<Rightarrow>
              if is_not_found e
              then do { c \<leftarrow> kd_create (ke_bindings E) (new_binding path (ke_rfc3339 E t) subjects sourceNamespace);
                        ret (Return (case c of
                          Inl e \<Rightarrow> Inl (Wrap (''failed to create ClusterRoleBinding in workspace '' @ workspaceName @ '': '') e [])
                        | Inr _ \<Rightarrow> Inr ())) }
              else ret (Return (Inl (Wrap (''failed to get ClusterRoleBinding in workspace '' @ workspaceName @ '': '') e [])))
          | Inr existing \<Rightarrow>
              do { now \<leftarrow> ke_now E;
                   case rb_annotations existing of
                     None \<Rightarrow> ret Panic
                   | Some a \<Rightarrow>
                       do { u \<leftarrow> kd_update (ke_bindings E)
                              (existing\<lparr>rb_subjects := subjects,
                                        rb_annotations := Some (map_put ann_staff_count (itoa (int (length subjects)))
                                          (map_put ann_last_synced (ke_rfc3339 E now) a))\<rparr>);
                            ret (Return (case u of
                              Inl e \<Rightarrow> Inl (Wrap (''failed to update ClusterRoleBinding in workspace '' @ workspaceName @ '': '') e [])
                            | Inr _ \<Rightarrow> Inr ())) } } }"

definition create_or_update_staff_binding ::
  "'w kdp_env \<Rightarrow> kcp_config \<Rightarrow> string \<Rightarrow> (string \<times> string) list \<Rightarrow> string \<Rightarrow> ('w, unit result go) io" where
  "create_or_update_staff_binding E cfg workspaceName subjects sourceNamespace =
     (if workspaceName = [] then ret (Return (Inl (Msg ''workspace name cannot be empty'')))
      else let base = (if kc_workspace_path cfg = [] then ''root'' else kc_workspace_path cfg) in
           case ke_parse_kubeconfig E (kc_kubeconfig cfg) of
             Inl e \<Rightarrow> ret (Return (Inl (Wrap ''failed to parse kubeconfig: '' e [])))
           | Inr _ \<Rightarrow>
               (case ke_clientset E (ke_join E base workspaceName) of
                  Inl e \<Rightarrow> ret (Return (Inl (Wrap ''failed to create kubernetes client: '' e [])))
                | Inr _ \<Rightarrow> write_binding E workspaceName (ke_join E base workspaceName) subjects sourceNamespace))"

section \<open>Conditions of a project\<close>

definition object_string :: "(string \<times> ujson) list \<Rightarrow> string \<Rightarrow> string" where
  "object_string m k = (case map_of m k of Some (JString s) \<Rightarrow> s | _ \<Rightarrow> [])"

text \<open>The zero \<^verbatim>\<open>time.Time\<close> is the first instant of the year 1.\<close>

definition zero_time :: int where "zero_time = - 62135596800 * second"

definition condition_of_object :: "ujson \<Rightarrow> condition option" where
  "condition_of_object j =
     (case j of
        JObject m \<Rightarrow> Some \<lparr>cd_type = object_string m ''type'', cd_status = object_string m ''status'', cd_observed = 0,
                           cd_transition = zero_time, cd_reason = object_string m ''reason'',
                           cd_message = object_string m ''message''\<rparr>
      | _ \<Rightarrow> None)"

definition status_conditions :: "ujson option \<Rightarrow> condition list" where
  "status_conditions status =
     (case status of
        Some (JObject m) \<Rightarrow>
          (case map_of m ''conditions'' of
             Some (JArray raw) \<Rightarrow> List.map_filter condition_of_object raw
           | _ \<Rightarrow> [])
      | _ \<Rightarrow> [])"

definition object_of_condition :: "(int \<Rightarrow> string) \<Rightarrow> condition \<Rightarrow> ujson" where
  "object_of_condition fmt c =
     JObject [(''type'', JString (cd_type c)), (''status'', JString (cd_status c)),
              (''reason'', JString (cd_reason c)), (''message'', JString (cd_message c)),
              (''lastTransitionTime'', JString (fmt (cd_transition c))),
              (''observedGeneration'', JInt (cd_observed c))]"

definition with_conditions :: "(int \<Rightarrow> string) \<Rightarrow> condition list \<Rightarrow> ujson option \<Rightarrow> ujson" where
  "with_conditions fmt conds status =
     JObject (map_put ''conditions'' (JArray (map (object_of_condition fmt) conds))
       (case status of Some (JObject m) \<Rightarrow> m | _ \<Rightarrow> []))"

definition update_condition :: "'w kdp_env \<Rightarrow> object_key \<Rightarrow> condition \<Rightarrow> ('w, unit result) io" where
  "update_condition E key c =
     do { g \<leftarrow> kd_get (ke_projects E) key;
          case g of
            Inl e \<Rightarrow> ret (Inl (Wrap ''failed to get current project: '' e []))
          | Inr current \<Rightarrow>
              do { conds \<leftarrow> ke_set_condition E c (status_conditions (kp_status current));
                   p \<leftarrow> kd_patch_status (ke_projects E) current
                          (current\<lparr>kp_status := Some (with_conditions (ke_rfc3339 E) conds (kp_status current))\<rparr>);
                   ret (case p of
                          Inl e \<Rightarrow> Inl (Wrap ''failed to patch status: '' e [])
                        | Inr _ \<Rightarrow> Inr ()) } }"

abbreviation "ann_workspace_name \<equiv> ''kdp-workspaces.cncf.io/workspace-name''"
abbreviation "ann_workspace_url \<equiv> ''kdp-workspaces.cncf.io/workspace-url''"
abbreviation "ann_workspace_phase \<equiv> ''kdp-workspaces.cncf.io/workspace-phase''"
abbreviation "workspace_ready_condition \<equiv> ''WorkspaceReady''"

definition workspace_annotations :: "workspace_info \<Rightarrow> (string, string) gomap \<Rightarrow> (string, string) gomap" where
  "workspace_annotations info a =
     map_put ann_workspace_phase (wi_phase info)
       (map_put ann_workspace_url (wi_url info) (map_put ann_workspace_name (wi_name info) a))"

definition readiness_condition :: "workspace_info \<Rightarrow> int \<Rightarrow> int \<Rightarrow> condition" where
  "readiness_condition info generation now =
     (if wi_ready info
      then \<lparr>cd_type = workspace_ready_condition, cd_status = ''True'', cd_observed = generation, cd_transition = now,
            cd_reason = ''WorkspaceReady'',
            cd_message = ''Workspace '' @ wi_name info @ '' is ready at '' @ wi_url info\<rparr>
      else \<lparr>cd_type = workspace_ready_condition, cd_status = ''False'', cd_observed = generation, cd_transition = now,
            cd_reason = ''WorkspaceNotReady'',
            cd_message = ''Workspace '' @ wi_name info @ '' is in phase '' @ wi_phase info\<rparr>)"

definition update_workspace_status :: "'w kdp_env \<Rightarrow> object_key \<Rightarrow> workspace_info \<Rightarrow> ('w, unit result) io" where
  "update_workspace_status E key info =
     do { g \<leftarrow> kd_get (ke_projects E) key;
          case g of
            Inl e \<Rightarrow> ret (Inl (Wrap ''failed to get fresh project: '' e []))
          | Inr fresh \<Rightarrow>
              do { p \<leftarrow> kd_patch (ke_projects E) fresh
                          (fresh\<lparr>kp_annotations := workspace_annotations info (kp_annotations fresh)\<rparr>);
                   case p of
                     Inl e \<Rightarrow> ret (Inl (Wrap ''failed to patch annotations: '' e []))
                   | Inr patched \<Rightarrow>
                       do { now \<leftarrow> ke_now E;
                            update_condition E (kp_key patched) (readiness_condition info (kp_generation patched) now) } } }"

section \<open>Reconciling a project\<close>

definition failing_condition :: "string \<Rightarrow> string \<Rightarrow> condition" where
  "failing_condition reason message =
     \<lparr>cd_type = workspace_ready_condition, cd_status = ''False'', cd_observed = 0, cd_transition = zero_time,
      cd_reason = reason, cd_message = message\<rparr>"

text \<open>Report an error in the condition (a failure to do so is only logged), and come back after a while.\<close>

definition report :: "'w kdp_env \<Rightarrow> object_key \<Rightarrow> string \<Rightarrow> string \<Rightarrow> int \<Rightarrow> go_error \<Rightarrow> ('w, ctrl_result) io" where
  "report E key reason prefix requeueAfter e =
     do { _ \<leftarrow> update_condition E key (failing_condition reason (prefix @ error_text e));
          ret (requeueAfter, Some e) }"

definition wait_and_publish ::
  "'w kdp_env \<Rightarrow> kcp_config \<Rightarrow> object_key \<Rightarrow> string \<Rightarrow> workspace_info \<Rightarrow> ('w, ctrl_result go) io" where
  "wait_and_publish E cfg key workspaceName createdInfo =
     do { r \<leftarrow> wait_for_workspace_ready E cfg workspaceName;
          case r of
            Inl e \<Rightarrow> do { _ \<leftarrow> update_workspace_status E key createdInfo; ret (Return (30 * second, Some e)) }
          | Inr None \<Rightarrow> ret Panic
          | Inr (Some readyInfo) \<Rightarrow>
              do { u \<leftarrow> update_workspace_status E key readyInfo;
                   ret (Return (0, case u of Inl e \<Rightarrow> Some e | Inr _ \<Rightarrow> None)) } }"

definition create_and_wait ::
  "'w kdp_env \<Rightarrow> kcp_config \<Rightarrow> object_key \<Rightarrow> string \<Rightarrow> ('w, ctrl_result go) io" where
  "create_and_wait E cfg key workspaceName =
     do { _ \<leftarrow> update_condition E key (failing_condition ''Creating'' ''Creating workspace in kcp'');
          c \<leftarrow> create_workspace E cfg workspaceName (fst key) (snd key);
          case c of
            Inl e \<Rightarrow> do { r \<leftarrow> report E key ''CreationFailed'' ''Workspace creation failed: '' (30 * second) e; ret (Return r) }
          | Inr createdInfo \<Rightarrow> wait_and_publish E cfg key workspaceName createdInfo }"

definition reconcile_workspace ::
  "'w kdp_env \<Rightarrow> kcp_config \<Rightarrow> object_key \<Rightarrow> ('w, ctrl_result go) io" where
  "reconcile_workspace E cfg key =
     (let workspaceName = to_lower (snd key) in
      do { g \<leftarrow> get_workspace E cfg workspaceName;
           case g of
             Inl e \<Rightarrow> do { r \<leftarrow> report E key ''WorkspaceCheckError'' ''Failed to check workspace: '' minute e; ret (Return r) }
           | Inr (Some info) \<Rightarrow>
               do { u \<leftarrow> update_workspace_status E key info;
                    ret (Return (case u of
                           Inl e \<Rightarrow> (0, Some e)
                         | Inr _ \<Rightarrow> (if wi_ready info then 0 else 5 * second, None))) }
           | Inr None \<Rightarrow> create_and_wait E cfg key workspaceName })"

text \<open>Once the project is there: the configuration, the client, the workspace.\<close>

definition reconcile_known :: "'w kdp_env \<Rightarrow> object_key \<Rightarrow> ('w, ctrl_result go) io" where
  "reconcile_known E key =
     do { l \<leftarrow> load_config_from_cluster E (ke_config_map_name E) (ke_secret_name E) (ke_config_map_namespace E);
          case l of
            Inl e \<Rightarrow> do { r \<leftarrow> report E key ''ConfigurationError'' ''Failed to load kcp configuration: '' minute e;
                         ret (Return r) }
          | Inr config \<Rightarrow>
              (case new_kcp_client E config of
                 Inl e \<Rightarrow> do { r \<leftarrow> report E key ''KCPConnectionError'' ''Failed to create kcp client: '' minute e;
                              ret (Return r) }
               | Inr cfg \<Rightarrow> reconcile_workspace E cfg key) }"

definition reconcile_project :: "'w kdp_env \<Rightarrow> object_key \<Rightarrow> ('w, ctrl_result go) io" where
  "reconcile_project E req =
     do { g \<leftarrow> kd_get (ke_projects E) req;
          case g of
            Inl e \<Rightarrow> ret (Return (0, if is_not_found e then None else Some e))
          | Inr project \<Rightarrow> reconcile_known E (kp_key project) }"

section \<open>Reconciling the staff\<close>

abbreviation "ann_sync_status \<equiv> ''kdp-workspaces.cncf.io/sync-status''"
abbreviation "ann_workspace_count \<equiv> ''kdp-workspaces.cncf.io/workspace-count''"
abbreviation "workspace_trigger \<equiv> ''workspace-trigger''"

definition subject_of :: "kstaff \<Rightarrow> (string \<times> string) option" where
  "subject_of staff =
     (case kf_spec staff of
        Some (JObject spec) \<Rightarrow>
          (case map_of spec ''primaryEmail'' of
             Some (JString email) \<Rightarrow> if email = [] then None else Some (''User'', ''oidc:'' @ email)
           | _ \<Rightarrow> None)
      | _ \<Rightarrow> None)"

definition update_staff_annotations :: "'w kdp_env \<Rightarrow> string \<Rightarrow> nat \<Rightarrow> string \<Rightarrow> ('w, unit result) io" where
  "update_staff_annotations E name workspaceCount syncStatus =
     do { g \<leftarrow> kd_get (ke_staff E) (ke_staff_namespace E, name);
          case g of
            Inl e \<Rightarrow> ret (if is_not_found e then Inr () else Inl e)
          | Inr staff \<Rightarrow>
              do { now \<leftarrow> ke_now E;
                   try_bind (kd_patch (ke_staff E) staff
                     (staff\<lparr>kf_annotations := map_put ann_workspace_count (itoa (int workspaceCount))
                              (map_put ann_sync_status syncStatus
                                (map_put ann_last_synced (ke_rfc3339 E now) (kf_annotations staff)))\<rparr>))
                     (\<lambda>_. ret (Inr ())) } }"

text \<open>The loop over the workspaces: the errors so far, and the number of workspaces done.\<close>

fun bind_all ::
  "'w kdp_env \<Rightarrow> kcp_config \<Rightarrow> (string \<times> string) list \<Rightarrow> workspace_info list \<Rightarrow> go_error list \<times> nat
     \<Rightarrow> ('w, (go_error list \<times> nat) go) io" where
  "bind_all E cfg subjects [] acc = ret (Return acc)"
| "bind_all E cfg subjects (ws # wss) (errs, n) =
     do { r \<leftarrow> create_or_update_staff_binding E cfg (wi_name ws) subjects (ke_staff_namespace E);
          case r of
            Panic \<Rightarrow> ret Panic
          | Return (Inl e) \<Rightarrow>
              bind_all E cfg subjects wss (errs @ [Wrap (''workspace '' @ wi_name ws @ '': '') e []], n)
          | Return (Inr _) \<Rightarrow> bind_all E cfg subjects wss (errs, Suc n) }"

definition sync_status :: "go_error list \<Rightarrow> nat \<Rightarrow> string" where
  "sync_status errs successCount =
     (if errs \<noteq> [] then (if successCount = 0 then ''error'' else ''partial'') else ''success'')"

text \<open>\<^verbatim>\<open>errors.Join\<close> by its text.\<close>

definition join_errors :: "go_error list \<Rightarrow> go_error" where
  "join_errors errs = Msg (join (map error_text errs) [CHR 0x0A])"

definition finish_staff :: "'w kdp_env \<Rightarrow> string \<Rightarrow> go_error list \<times> nat \<Rightarrow> ('w, ctrl_result) io" where
  "finish_staff E name res =
     do { _ \<leftarrow> (if name \<noteq> workspace_trigger
               then update_staff_annotations E name (snd res) (sync_status (fst res) (snd res))
               else ret (Inr ()));
          ret (0, if fst res \<noteq> [] then Some (join_errors (fst res)) else None) }"

definition reconcile_staff :: "'w kdp_env \<Rightarrow> object_key \<Rightarrow> ('w, ctrl_result go) io" where
  "reconcile_staff E req =
     do { l \<leftarrow> load_config_from_cluster E (ke_config_map_name E) (ke_secret_name E) (ke_config_map_namespace E);
          case l of
            Inl e \<Rightarrow> ret (Return (0, Some (Wrap ''failed to load kcp configuration: '' e [])))
          | Inr config \<Rightarrow>
              (case new_kcp_client E config of
                 Inl e \<Rightarrow> ret (Return (0, Some (Wrap ''failed to create kcp client: '' e [])))
               | Inr cfg \<Rightarrow>
                   do { m \<leftarrow> list_managed_workspaces E cfg;
                        case m of
                          Inl e \<Rightarrow> ret (Return (0, Some (Wrap ''failed to list managed workspaces: '' e [])))
                        | Inr workspaces \<Rightarrow>
                            do { s \<leftarrow> kd_list (ke_staff E) (ke_staff_namespace E);
                                 case s of
                                   Inl e \<Rightarrow> ret (Return (0, Some (Wrap ''failed to list staff members: '' e [])))
                                 | Inr staffList \<Rightarrow>
                                     do { b \<leftarrow> bind_all E cfg (List.map_filter subject_of staffList) workspaces ([], 0);
                                          case b of
                                            Panic \<Rightarrow> ret Panic
                                          | Return res \<Rightarrow> do { r \<leftarrow> finish_staff E (snd req) res; ret (Return r) } } } }) }"

section \<open>Watches\<close>

text \<open>\<^verbatim>\<open>projectToRequests\<close>: a project event becomes the one request of that name, or none.\<close>

definition project_to_requests :: "'w kdp_env \<Rightarrow> (string, string) gomap \<Rightarrow> object_key list" where
  "project_to_requests E ann =
     (if map_get ann ann_workspace_phase \<noteq> ''Ready'' then [] else [(ke_staff_namespace E, workspace_trigger)])"

definition without_sync :: "(string, string) gomap \<Rightarrow> (string, string) gomap" where
  "without_sync m = filter (\<lambda>(k, v). k \<notin> {ann_last_synced, ann_sync_status, ann_workspace_count}) m"

text \<open>\<^verbatim>\<open>ignoreSyncAnnotations\<close> on an update event: annotations and generations before and after.\<close>

definition update_passes ::
  "(string, string) gomap \<Rightarrow> (string, string) gomap \<Rightarrow> int option \<Rightarrow> int option \<Rightarrow> bool" where
  "update_passes oldAnn newAnn oldGen newGen =
     (let old = without_sync oldAnn; new = without_sync newAnn in
      length old \<noteq> length new \<or> list_ex (\<lambda>(k, v). map_get new k \<noteq> v) old \<or>
      (oldGen \<noteq> None \<and> newGen \<noteq> None \<and> oldGen \<noteq> newGen))"

end
