(* ===== verification/Api_Json.thy ===== *)
theory Api_Json
  imports K8s_Sync Kdp_Workspaces
begin

text \<open>
  The JSON of the specs the sync job writes, field by field as the struct tags of the API types
  say, and reading it back.  The API server stores the JSON, the job reads it back into the same
  types to compare, and the staff operator reads it without a type.
\<close>

section \<open>Writing fields\<close>

text \<open>\<^verbatim>\<open>omitempty\<close>: an empty string, a nil pointer, an empty slice and an empty map have no field.\<close>

type_synonym fields = "(string \<times> ujson) list"

definition nonempty_string :: "string \<Rightarrow> ujson option" where
  "nonempty_string v = (if v = [] then None else Some (JString v))"

definition nonempty_list :: "('a \<Rightarrow> ujson) \<Rightarrow> 'a list \<Rightarrow> ujson option" where
  "nonempty_list f vs = (if vs = [] then None else Some (JArray (map f vs)))"

definition nonempty_map :: "(string, string) gomap \<Rightarrow> ujson option" where
  "nonempty_map m = (if m = [] then None else Some (JObject (map (\<lambda>(k, v). (k, JString v)) m)))"

definition field :: "string \<Rightarrow> ujson option \<Rightarrow> fields" where
  "field k v = (case v of None \<Rightarrow> [] | Some j \<Rightarrow> [(k, j)])"

definition omit_empty :: "string \<Rightarrow> string \<Rightarrow> fields" where
  "omit_empty k v = field k (nonempty_string v)"

definition omit_nil :: "string \<Rightarrow> ('a \<Rightarrow> ujson) \<Rightarrow> 'a option \<Rightarrow> fields" where
  "omit_nil k f p = field k (map_option f p)"

definition omit_list :: "string \<Rightarrow> ('a \<Rightarrow> ujson) \<Rightarrow> 'a list \<Rightarrow> fields" where
  "omit_list k f vs = field k (nonempty_list f vs)"

definition omit_map :: "string \<Rightarrow> (string, string) gomap \<Rightarrow> fields" where
  "omit_map k m = field k (nonempty_map m)"

section \<open>Reading fields\<close>

text \<open>
  An absent field and \<^verbatim>\<open>null\<close> leave the zero value; a value of another shape is an error (\<open>None\<close>).
\<close>

definition read_string :: "ujson option \<Rightarrow> string option" where
  "read_string j = (case j of None \<Rightarrow> Some [] | Some JNull \<Rightarrow> Some [] | Some (JString s) \<Rightarrow> Some s | _ \<Rightarrow> None)"

definition read_pointer :: "(ujson \<Rightarrow> 'a option) \<Rightarrow> ujson option \<Rightarrow> 'a option option" where
  "read_pointer f j =
     (case j of None \<Rightarrow> Some None | Some JNull \<Rightarrow> Some None | Some v \<Rightarrow> map_option Some (f v))"

definition read_list :: "(ujson \<Rightarrow> 'a option) \<Rightarrow> ujson option \<Rightarrow> 'a list option" where
  "read_list f j = (case j of None \<Rightarrow> Some [] | Some JNull \<Rightarrow> Some [] | Some (JArray vs) \<Rightarrow> those (map f vs) | _ \<Rightarrow> None)"

definition read_map :: "ujson option \<Rightarrow> (string, string) gomap option" where
  "read_map j =
     (case j of None \<Rightarrow> Some [] | Some JNull \<Rightarrow> Some []
      | Some (JObject m) \<Rightarrow> those (map (\<lambda>(k, v). map_option (Pair k) (read_string (Some v))) m) | _ \<Rightarrow> None)"

definition read_object :: "((string \<Rightarrow> ujson option) \<Rightarrow> 'a option) \<Rightarrow> ujson option \<Rightarrow> 'a option" where
  "read_object f j = (case j of None \<Rightarrow> f Map.empty | Some JNull \<Rightarrow> f Map.empty | Some (JObject m) \<Rightarrow> f (map_of m) | _ \<Rightarrow> None)"

section \<open>The types\<close>

text \<open>\<^verbatim>\<open>ResourceReference\<close>.\<close>

definition resource_reference_json :: "resource_reference \<Rightarrow> ujson" where
  "resource_reference_json r =
     JObject ((''name'', JString (rr_name r)) # omit_empty ''workspace'' (rr_workspace r) @ omit_empty ''uid'' (rr_uid r))"

definition read_reference :: "ujson option \<Rightarrow> resource_reference option" where
  "read_reference = read_object (\<lambda>m.
     do { name \<leftarrow> read_string (m ''name''); workspace \<leftarrow> read_string (m ''workspace''); uid \<leftarrow> read_string (m ''uid'');
          Some \<lparr>rr_name = name, rr_workspace = workspace, rr_uid = uid\<rparr> })"

text \<open>\<^verbatim>\<open>CompanySpec\<close>.\<close>

definition company_spec_json :: "company_spec \<Rightarrow> ujson" where
  "company_spec_json s =
     JObject ((''displayName'', JString (cs_display_name s)) #
       omit_empty ''website'' (cs_website s) @ omit_empty ''notes'' (cs_notes s) @ omit_map ''tags'' (cs_tags s))"

definition read_company_spec :: "ujson option \<Rightarrow> company_spec option" where
  "read_company_spec = read_object (\<lambda>m.
     do { name \<leftarrow> read_string (m ''displayName''); website \<leftarrow> read_string (m ''website'');
          notes \<leftarrow> read_string (m ''notes''); tags \<leftarrow> read_map (m ''tags'');
          Some \<lparr>cs_display_name = name, cs_website = website, cs_notes = notes, cs_tags = tags\<rparr> })"

text \<open>\<^verbatim>\<open>StaffMemberSpec\<close>; \<open>fmt\<close> and \<open>parse\<close> are how \<^verbatim>\<open>metav1.Time\<close> writes and reads itself.\<close>

definition staff_spec_json :: "(int \<Rightarrow> ujson) \<Rightarrow> staff_spec \<Rightarrow> ujson" where
  "staff_spec_json fmt s =
     JObject ((''displayName'', JString (ss_display_name s)) #
       omit_empty ''primaryEmail'' (ss_primary_email s) @
       omit_empty ''gitHubAccount'' (ss_github s) @
       omit_empty ''gitHubEmail'' (ss_github_email s) @
       omit_nil ''foundationRef'' resource_reference_json (ss_foundation_ref s) @
       omit_nil ''registeredAt'' fmt (ss_registered_at s) @
       omit_map ''externalIDs'' (ss_external_ids s))"

definition read_staff_spec :: "(ujson \<Rightarrow> int option) \<Rightarrow> ujson option \<Rightarrow> staff_spec option" where
  "read_staff_spec parse = read_object (\<lambda>m.
     do { name \<leftarrow> read_string (m ''displayName''); email \<leftarrow> read_string (m ''primaryEmail'');
          github \<leftarrow> read_string (m ''gitHubAccount''); github_email \<leftarrow> read_string (m ''gitHubEmail'');
          foundation \<leftarrow> read_pointer (\<lambda>j. read_reference (Some j)) (m ''foundationRef'');
          registered \<leftarrow> read_pointer parse (m ''registeredAt''); ids \<leftarrow> read_map (m ''externalIDs'');
          Some \<lparr>ss_display_name = name, ss_primary_email = email, ss_github = github, ss_github_email = github_email,
                ss_foundation_ref = foundation, ss_registered_at = registered, ss_external_ids = ids\<rparr> })"

text \<open>\<^verbatim>\<open>MaintainerSpec\<close>.\<close>

definition maintainer_spec_json :: "(int \<Rightarrow> ujson) \<Rightarrow> maintainer_spec \<Rightarrow> ujson" where
  "maintainer_spec_json fmt s =
     JObject ((''displayName'', JString (ms_display_name s)) #
       omit_empty ''primaryEmail'' (ms_primary_email s) @
       omit_empty ''gitHubAccount'' (ms_github s) @
       omit_empty ''gitHubEmail'' (ms_github_email s) @
       (''status'', JString (ms_status s)) #
       omit_nil ''companyRef'' resource_reference_json (ms_company_ref s) @
       omit_nil ''registeredAt'' fmt (ms_registered_at s) @
       omit_map ''externalIDs'' (ms_external_ids s))"

definition read_maintainer_spec :: "(ujson \<Rightarrow> int option) \<Rightarrow> ujson option \<Rightarrow> maintainer_spec option" where
  "read_maintainer_spec parse = read_object (\<lambda>m.
     do { name \<leftarrow> read_string (m ''displayName''); email \<leftarrow> read_string (m ''primaryEmail'');
          github \<leftarrow> read_string (m ''gitHubAccount''); github_email \<leftarrow> read_string (m ''gitHubEmail'');
          status \<leftarrow> read_string (m ''status'');
          company \<leftarrow> read_pointer (\<lambda>j. read_reference (Some j)) (m ''companyRef'');
          registered \<leftarrow> read_pointer parse (m ''registeredAt''); ids \<leftarrow> read_map (m ''externalIDs'');
          Some \<lparr>ms_display_name = name, ms_primary_email = email, ms_github = github, ms_github_email = github_email,
                ms_status = status, ms_company_ref = company, ms_registered_at = registered, ms_external_ids = ids\<rparr> })"

text \<open>\<^verbatim>\<open>ProjectSpec\<close>.\<close>

definition project_spec_json :: "project_spec \<Rightarrow> ujson" where
  "project_spec_json s =
     JObject ((''displayName'', JString (ps_display_name s)) #
       omit_empty ''maturity'' (ps_maturity s) @
       omit_nil ''parentProjectRef'' resource_reference_json (ps_parent_ref s) @
       omit_nil ''maintainerLeadRef'' resource_reference_json (ps_lead_ref s) @
       omit_empty ''onboardingIssue'' (ps_onboarding_issue s) @
       omit_empty ''mailingList'' (ps_mailing_list s) @
       omit_nil ''foundationRef'' resource_reference_json (ps_foundation_ref s) @
       omit_list ''maintainerRefs'' resource_reference_json (ps_maintainer_refs s) @
       omit_list ''collaboratorRefs'' resource_reference_json (ps_collaborator_refs s) @
       omit_list ''serviceRefs'' resource_reference_json (ps_service_refs s) @
       omit_map ''tags'' (ps_tags s))"

definition read_project_spec :: "ujson option \<Rightarrow> project_spec option" where
  "read_project_spec = read_object (\<lambda>m.
     do { name \<leftarrow> read_string (m ''displayName''); maturity \<leftarrow> read_string (m ''maturity'');
          parent \<leftarrow> read_pointer (\<lambda>j. read_reference (Some j)) (m ''parentProjectRef'');
          lead \<leftarrow> read_pointer (\<lambda>j. read_reference (Some j)) (m ''maintainerLeadRef'');
          issue \<leftarrow> read_string (m ''onboardingIssue''); mailing \<leftarrow> read_string (m ''mailingList'');
          foundation \<leftarrow> read_pointer (\<lambda>j. read_reference (Some j)) (m ''foundationRef'');
          maintainers \<leftarrow> read_list (\<lambda>j. read_reference (Some j)) (m ''maintainerRefs'');
          collaborators \<leftarrow> read_list (\<lambda>j. read_reference (Some j)) (m ''collaboratorRefs'');
          services \<leftarrow> read_list (\<lambda>j. read_reference (Some j)) (m ''serviceRefs'');
          tags \<leftarrow> read_map (m ''tags'');
          Some \<lparr>ps_display_name = name, ps_maturity = maturity, ps_parent_ref = parent, ps_lead_ref = lead,
                ps_onboarding_issue = issue, ps_mailing_list = mailing, ps_foundation_ref = foundation,
                ps_maintainer_refs = maintainers, ps_collaborator_refs = collaborators, ps_service_refs = services,
                ps_tags = tags\<rparr> })"

text \<open>\<^verbatim>\<open>ProjectMembershipSpec\<close>; its two references are structs, not pointers.\<close>

definition membership_spec_json :: "(int \<Rightarrow> ujson) \<Rightarrow> membership_spec \<Rightarrow> ujson" where
  "membership_spec_json fmt s =
     JObject ((''projectRef'', resource_reference_json (bs_project_ref s)) #
       (''maintainerRef'', resource_reference_json (bs_maintainer_ref s)) #
       omit_list ''roles'' JString (bs_roles s) @
       omit_nil ''joinedAt'' fmt (bs_joined_at s) @
       omit_empty ''notes'' (bs_notes s))"

definition read_membership_spec :: "(ujson \<Rightarrow> int option) \<Rightarrow> ujson option \<Rightarrow> membership_spec option" where
  "read_membership_spec parse = read_object (\<lambda>m.
     do { project \<leftarrow> read_reference (m ''projectRef''); maintainer \<leftarrow> read_reference (m ''maintainerRef'');
          roles \<leftarrow> read_list (\<lambda>j. read_string (Some j)) (m ''roles'');
          joined \<leftarrow> read_pointer parse (m ''joinedAt''); notes \<leftarrow> read_string (m ''notes'');
          Some \<lparr>bs_project_ref = project, bs_maintainer_ref = maintainer, bs_roles = roles, bs_joined_at = joined,
                bs_notes = notes\<rparr> })"

section \<open>Reading what was written\<close>

text \<open>A field that was left out reads as absent, and as the zero value it stands for.\<close>

definition or_else :: "'a option \<Rightarrow> 'a option \<Rightarrow> 'a option" where
  "or_else x y = (case x of None \<Rightarrow> y | Some _ \<Rightarrow> x)"

lemma or_else_simps [simp]: "or_else None y = y" "or_else x None = x" "or_else (Some v) y = Some v"
  by (simp_all add: or_else_def split: option.split)

lemma map_of_field: "map_of (field k v) k' = (if k = k' then v else None)"
  by (simp add: field_def split: option.split)

lemma map_of_append_fields: "map_of (xs @ ys) k = or_else (map_of xs k) (map_of ys k)"
  by (simp add: or_else_def map_add_def split: option.split)

lemma those_map_Some: "(\<And>x. x \<in> set xs \<Longrightarrow> f x = Some (g x)) \<Longrightarrow> those (map f xs) = Some (map g xs)"
  by (induction xs) auto

lemma read_string_written [simp]:
  "read_string (Some (JString v)) = Some v" "read_string (nonempty_string v) = Some v"
  by (auto simp: read_string_def nonempty_string_def)

lemma read_pointer_written:
  assumes "\<And>v. f (g v) = Some v \<and> g v \<noteq> JNull"
  shows "read_pointer f (map_option g p) = Some p"
proof (cases p)
  case (Some v)
  then show ?thesis using assms[of v] by (cases "g v") (auto simp: read_pointer_def)
qed (simp add: read_pointer_def)

lemma read_list_written:
  "(\<And>v. f (g v) = Some v) \<Longrightarrow> read_list f (nonempty_list g vs) = Some vs"
  using those_map_Some[of vs "\<lambda>v. f (g v)" "\<lambda>v. v"] by (simp add: read_list_def nonempty_list_def comp_def)

lemma read_map_written [simp]: "read_map (nonempty_map m) = Some m"
  using those_map_Some[of m "\<lambda>(k, v). map_option (Pair k) (read_string (Some (JString v)))" "\<lambda>v. v"]
  by (auto simp: read_map_def nonempty_map_def comp_def case_prod_beta)

lemma read_object_written [simp]: "read_object f (Some (JObject m)) = f (map_of m)"
  by (simp add: read_object_def)

lemmas written_fields =
  omit_empty_def omit_nil_def omit_list_def omit_map_def map_of_append_fields map_of_field

lemma read_reference_written [simp]: "read_reference (Some (resource_reference_json r)) = Some r"
  by (simp add: read_reference_def resource_reference_json_def written_fields del: map_of_append)

lemma reference_not_null [simp]: "resource_reference_json r \<noteq> JNull"
  by (simp add: resource_reference_json_def)

section \<open>The specs read back\<close>

text \<open>
  The specs the sync job writes survive the API server: whatever JSON a spec becomes, reading it
  back into its type gives the same spec, for companies, staff members, maintainers, projects and
  memberships.  No field shares its name with another, and what \<^verbatim>\<open>omitempty\<close> leaves out is what
  an absent field reads as, so the comparison with the wanted spec on the next run is one with what was
  written.  Only a pointer to the zero time is lost: \<^verbatim>\<open>metav1.Time\<close> writes it as \<^verbatim>\<open>null\<close>.
\<close>

lemma read_time_pointer_written:
  assumes "\<And>t. t \<noteq> zero \<Longrightarrow> parse (fmt t) = Some t \<and> fmt t \<noteq> JNull" and "p \<noteq> Some zero"
  shows "read_pointer parse (map_option fmt p) = Some p"
proof (cases p)
  case (Some v)
  then show ?thesis using assms(1)[of v] assms(2) by (cases "fmt v") (auto simp: read_pointer_def)
qed (simp add: read_pointer_def)

lemma company_spec_reads_back [simp]: "read_company_spec (Some (company_spec_json s)) = Some s"
  by (simp add: read_company_spec_def company_spec_json_def written_fields del: map_of_append)

lemma staff_spec_reads_back:
  assumes "\<And>t. t \<noteq> zero \<Longrightarrow> parse (fmt t) = Some t \<and> fmt t \<noteq> JNull" and "ss_registered_at s \<noteq> Some zero"
  shows "read_staff_spec parse (Some (staff_spec_json fmt s)) = Some s"
  by (simp add: read_staff_spec_def staff_spec_json_def written_fields read_pointer_written
      read_time_pointer_written[of zero, OF assms(1,2)] del: map_of_append)

lemma maintainer_spec_reads_back:
  assumes "\<And>t. t \<noteq> zero \<Longrightarrow> parse (fmt t) = Some t \<and> fmt t \<noteq> JNull" and "ms_registered_at s \<noteq> Some zero"
  shows "read_maintainer_spec parse (Some (maintainer_spec_json fmt s)) = Some s"
  by (simp add: read_maintainer_spec_def maintainer_spec_json_def written_fields read_pointer_written
      read_time_pointer_written[of zero, OF assms(1,2)] del: map_of_append)

lemma project_spec_reads_back [simp]: "read_project_spec (Some (project_spec_json s)) = Some s"
  by (simp add: read_project_spec_def project_spec_json_def written_fields read_pointer_written read_list_written
      del: map_of_append)

lemma membership_spec_reads_back:
  assumes "\<And>t. t \<noteq> zero \<Longrightarrow> parse (fmt t) = Some t \<and> fmt t \<noteq> JNull" and "bs_joined_at s \<noteq> Some zero"
  shows "read_membership_spec parse (Some (membership_spec_json fmt s)) = Some s"
  by (simp add: read_membership_spec_def membership_spec_json_def written_fields read_list_written
      read_time_pointer_written[of zero, OF assms(1,2)] del: map_of_append)

end
