(* ===== verification/Api_Objects.thy ===== *)
theory Api_Objects
  imports Api_Json
begin

text \<open>
  All kinds of \<^verbatim>\<open>apis/maintainers/v1alpha1/types.go\<close>: the statuses, the specs nothing in the repository
  writes yet, the objects and lists around them, their JSON, and the kinds the scheme knows.
\<close>

section \<open>What the library writes\<close>

text \<open>
  The JSON of \<^verbatim>\<open>metav1.Time\<close>, \<^verbatim>\<open>metav1.Condition\<close>, \<^verbatim>\<open>metav1.ObjectMeta\<close> and \<^verbatim>\<open>metav1.ListMeta\<close> is that of
  the library.  The zero time is \<^verbatim>\<open>null\<close>.
\<close>

record 'm api_codec =
  ac_zero :: int
  ac_time :: "int \<Rightarrow> ujson"
  ac_read_time :: "ujson \<Rightarrow> int option"
  ac_condition :: "condition \<Rightarrow> ujson"
  ac_read_condition :: "ujson \<Rightarrow> condition option"
  ac_meta :: "'m \<Rightarrow> ujson"
  ac_read_meta :: "ujson option \<Rightarrow> 'm option"

definition codec_ok :: "'m api_codec \<Rightarrow> bool" where
  "codec_ok C \<longleftrightarrow> ac_time C (ac_zero C) = JNull \<and>
     (\<forall>t. t \<noteq> ac_zero C \<longrightarrow> ac_read_time C (ac_time C t) = Some t \<and> ac_time C t \<noteq> JNull) \<and>
     (\<forall>c. ac_read_condition C (ac_condition C c) = Some c) \<and>
     (\<forall>m. ac_read_meta C (Some (ac_meta C m)) = Some m)"

section \<open>More fields\<close>

definition nonzero_int :: "int \<Rightarrow> ujson option" where
  "nonzero_int v = (if v = 0 then None else Some (JInt v))"

definition omit_zero :: "string \<Rightarrow> int \<Rightarrow> fields" where
  "omit_zero k v = field k (nonzero_int v)"

definition read_int :: "ujson option \<Rightarrow> int option" where
  "read_int j = (case j of None \<Rightarrow> Some 0 | Some JNull \<Rightarrow> Some 0 | Some (JInt i) \<Rightarrow> Some i | _ \<Rightarrow> None)"

definition read_bool :: "ujson option \<Rightarrow> bool option" where
  "read_bool j = (case j of None \<Rightarrow> Some False | Some JNull \<Rightarrow> Some False | Some (JBool b) \<Rightarrow> Some b | _ \<Rightarrow> None)"

definition read_time :: "'m api_codec \<Rightarrow> ujson option \<Rightarrow> int option" where
  "read_time C j = (case j of None \<Rightarrow> Some (ac_zero C) | Some JNull \<Rightarrow> Some (ac_zero C) | Some v \<Rightarrow> ac_read_time C v)"

section \<open>Statuses and specs\<close>

text \<open>\<^verbatim>\<open>ProjectReference\<close>: the embedded reference gives its fields to the same object.\<close>

record project_reference =
  pf_reference :: resource_reference
  pf_roles :: "string list"

definition project_reference_json :: "project_reference \<Rightarrow> ujson" where
  "project_reference_json r =
     JObject ((''name'', JString (rr_name (pf_reference r))) # omit_empty ''workspace'' (rr_workspace (pf_reference r)) @
       omit_empty ''uid'' (rr_uid (pf_reference r)) @ omit_list ''roles'' JString (pf_roles r))"

definition read_project_reference :: "ujson option \<Rightarrow> project_reference option" where
  "read_project_reference = read_object (\<lambda>m.
     do { name \<leftarrow> read_string (m ''name''); workspace \<leftarrow> read_string (m ''workspace''); uid \<leftarrow> read_string (m ''uid'');
          roles \<leftarrow> read_list (\<lambda>j. read_string (Some j)) (m ''roles'');
          Some \<lparr>pf_reference = \<lparr>rr_name = name, rr_workspace = workspace, rr_uid = uid\<rparr>, pf_roles = roles\<rparr> })"

text \<open>\<^verbatim>\<open>MaintainerStatus\<close>.\<close>

record maintainer_api_status =
  mu_memberships :: "project_reference list"
  mu_warnings :: "string list"
  mu_synced :: "int option"

definition maintainer_api_status_json :: "'m api_codec \<Rightarrow> maintainer_api_status \<Rightarrow> ujson" where
  "maintainer_api_status_json C s =
     JObject (omit_list ''projectMemberships'' project_reference_json (mu_memberships s) @
       omit_list ''importWarnings'' JString (mu_warnings s) @
       omit_nil ''lastSynced'' (ac_time C) (mu_synced s))"

definition read_maintainer_api_status :: "'m api_codec \<Rightarrow> ujson option \<Rightarrow> maintainer_api_status option" where
  "read_maintainer_api_status C = read_object (\<lambda>m.
     do { v_memberships \<leftarrow> read_list (\<lambda>j. read_project_reference (Some j)) (m ''projectMemberships'');
          v_warnings \<leftarrow> read_list (\<lambda>j. read_string (Some j)) (m ''importWarnings'');
          v_synced \<leftarrow> read_pointer (ac_read_time C) (m ''lastSynced'');
          Some \<lparr>mu_memberships = v_memberships, mu_warnings = v_warnings, mu_synced = v_synced\<rparr> })"

text \<open>\<^verbatim>\<open>StaffMemberStatus\<close>.\<close>

record staff_status =
  su_synced :: "int option"

definition staff_status_json :: "'m api_codec \<Rightarrow> staff_status \<Rightarrow> ujson" where
  "staff_status_json C s =
     JObject (omit_nil ''lastSynced'' (ac_time C) (su_synced s))"

definition read_staff_status :: "'m api_codec \<Rightarrow> ujson option \<Rightarrow> staff_status option" where
  "read_staff_status C = read_object (\<lambda>m.
     do { v_synced \<leftarrow> read_pointer (ac_read_time C) (m ''lastSynced'');
          Some \<lparr>su_synced = v_synced\<rparr> })"

text \<open>\<^verbatim>\<open>CollaboratorSpec\<close>.\<close>

record collaborator_spec =
  ls_display_name :: string
  ls_primary_email :: string
  ls_github :: string
  ls_github_email :: string
  ls_last_login :: "int option"
  ls_registered_at :: "int option"
  ls_projects :: "resource_reference list"
  ls_external_ids :: "(string, string) gomap"

definition collaborator_spec_json :: "'m api_codec \<Rightarrow> collaborator_spec \<Rightarrow> ujson" where
  "collaborator_spec_json C s =
     JObject ((''displayName'', JString (ls_display_name s)) #
       omit_empty ''primaryEmail'' (ls_primary_email s) @
       omit_empty ''gitHubAccount'' (ls_github s) @
       omit_empty ''gitHubEmail'' (ls_github_email s) @
       omit_nil ''lastLogin'' (ac_time C) (ls_last_login s) @
       omit_nil ''registeredAt'' (ac_time C) (ls_registered_at s) @
       omit_list ''projects'' resource_reference_json (ls_projects s) @
       omit_map ''externalIDs'' (ls_external_ids s))"

definition read_collaborator_spec :: "'m api_codec \<Rightarrow> ujson option \<Rightarrow> collaborator_spec option" where
  "read_collaborator_spec C = read_object (\<lambda>m.
     do { v_display_name \<leftarrow> read_string (m ''displayName'');
          v_primary_email \<leftarrow> read_string (m ''primaryEmail'');
          v_github \<leftarrow> read_string (m ''gitHubAccount'');
          v_github_email \<leftarrow> read_string (m ''gitHubEmail'');
          v_last_login \<leftarrow> read_pointer (ac_read_time C) (m ''lastLogin'');
          v_registered_at \<leftarrow> read_pointer (ac_read_time C) (m ''registeredAt'');
          v_projects \<leftarrow> read_list (\<lambda>j. read_reference (Some j)) (m ''projects'');
          v_external_ids \<leftarrow> read_map (m ''externalIDs'');
          Some \<lparr>ls_display_name = v_display_name, ls_primary_email = v_primary_email, ls_github = v_github,
            ls_github_email = v_github_email, ls_last_login = v_last_login, ls_registered_at =
            v_registered_at, ls_projects = v_projects, ls_external_ids = v_external_ids\<rparr> })"

text \<open>\<^verbatim>\<open>CollaboratorStatus\<close>.\<close>

record collaborator_status =
  lu_observed :: "project_reference list"
  lu_synced :: "int option"

definition collaborator_status_json :: "'m api_codec \<Rightarrow> collaborator_status \<Rightarrow> ujson" where
  "collaborator_status_json C s =
     JObject (omit_list ''observedProjects'' project_reference_json (lu_observed s) @
       omit_nil ''lastSynced'' (ac_time C) (lu_synced s))"

definition read_collaborator_status :: "'m api_codec \<Rightarrow> ujson option \<Rightarrow> collaborator_status option" where
  "read_collaborator_status C = read_object (\<lambda>m.
     do { v_observed \<leftarrow> read_list (\<lambda>j. read_project_reference (Some j)) (m ''observedProjects'');
          v_synced \<leftarrow> read_pointer (ac_read_time C) (m ''lastSynced'');
          Some \<lparr>lu_observed = v_observed, lu_synced = v_synced\<rparr> })"

text \<open>\<^verbatim>\<open>ProjectStatus\<close>.\<close>

record project_status =
  pu_maintainers :: int
  pu_collaborators :: int
  pu_services :: int
  pu_conditions :: "condition list"
  pu_synced :: "int option"

definition project_status_json :: "'m api_codec \<Rightarrow> project_status \<Rightarrow> ujson" where
  "project_status_json C s =
     JObject (omit_zero ''maintainerCount'' (pu_maintainers s) @
       omit_zero ''collaboratorCount'' (pu_collaborators s) @
       omit_zero ''serviceCount'' (pu_services s) @
       omit_list ''conditions'' (ac_condition C) (pu_conditions s) @
       omit_nil ''lastSynced'' (ac_time C) (pu_synced s))"

definition read_project_status :: "'m api_codec \<Rightarrow> ujson option \<Rightarrow> project_status option" where
  "read_project_status C = read_object (\<lambda>m.
     do { v_maintainers \<leftarrow> read_int (m ''maintainerCount'');
          v_collaborators \<leftarrow> read_int (m ''collaboratorCount'');
          v_services \<leftarrow> read_int (m ''serviceCount'');
          v_conditions \<leftarrow> read_list (ac_read_condition C) (m ''conditions'');
          v_synced \<leftarrow> read_pointer (ac_read_time C) (m ''lastSynced'');
          Some \<lparr>pu_maintainers = v_maintainers, pu_collaborators = v_collaborators, pu_services = v_services,
            pu_conditions = v_conditions, pu_synced = v_synced\<rparr> })"

text \<open>\<^verbatim>\<open>CompanyStatus\<close>.\<close>

record company_status =
  cu_maintainers :: int
  cu_collaborators :: int
  cu_conditions :: "condition list"

definition company_status_json :: "'m api_codec \<Rightarrow> company_status \<Rightarrow> ujson" where
  "company_status_json C s =
     JObject (omit_zero ''maintainerCount'' (cu_maintainers s) @
       omit_zero ''collaboratorCount'' (cu_collaborators s) @
       omit_list ''conditions'' (ac_condition C) (cu_conditions s))"

definition read_company_status :: "'m api_codec \<Rightarrow> ujson option \<Rightarrow> company_status option" where
  "read_company_status C = read_object (\<lambda>m.
     do { v_maintainers \<leftarrow> read_int (m ''maintainerCount'');
          v_collaborators \<leftarrow> read_int (m ''collaboratorCount'');
          v_conditions \<leftarrow> read_list (ac_read_condition C) (m ''conditions'');
          Some \<lparr>cu_maintainers = v_maintainers, cu_collaborators = v_collaborators, cu_conditions =
            v_conditions\<rparr> })"

text \<open>\<^verbatim>\<open>ServiceSpec\<close>.\<close>

record api_service_spec =
  vs_display_name :: string
  vs_description :: string
  vs_tags :: "(string, string) gomap"

definition api_service_spec_json :: "api_service_spec \<Rightarrow> ujson" where
  "api_service_spec_json s =
     JObject ((''displayName'', JString (vs_display_name s)) #
       omit_empty ''description'' (vs_description s) @
       omit_map ''tags'' (vs_tags s))"

definition read_api_service_spec :: "ujson option \<Rightarrow> api_service_spec option" where
  "read_api_service_spec = read_object (\<lambda>m.
     do { v_display_name \<leftarrow> read_string (m ''displayName'');
          v_description \<leftarrow> read_string (m ''description'');
          v_tags \<leftarrow> read_map (m ''tags'');
          Some \<lparr>vs_display_name = v_display_name, vs_description = v_description, vs_tags = v_tags\<rparr> })"

text \<open>\<^verbatim>\<open>ServiceStatus\<close>.\<close>

record api_service_status =
  vu_projects :: "resource_reference list"
  vu_teams :: "resource_reference list"
  vu_conditions :: "condition list"

definition api_service_status_json :: "'m api_codec \<Rightarrow> api_service_status \<Rightarrow> ujson" where
  "api_service_status_json C s =
     JObject (omit_list ''projectRefs'' resource_reference_json (vu_projects s) @
       omit_list ''teamRefs'' resource_reference_json (vu_teams s) @
       omit_list ''conditions'' (ac_condition C) (vu_conditions s))"

definition read_api_service_status :: "'m api_codec \<Rightarrow> ujson option \<Rightarrow> api_service_status option" where
  "read_api_service_status C = read_object (\<lambda>m.
     do { v_projects \<leftarrow> read_list (\<lambda>j. read_reference (Some j)) (m ''projectRefs'');
          v_teams \<leftarrow> read_list (\<lambda>j. read_reference (Some j)) (m ''teamRefs'');
          v_conditions \<leftarrow> read_list (ac_read_condition C) (m ''conditions'');
          Some \<lparr>vu_projects = v_projects, vu_teams = v_teams, vu_conditions = v_conditions\<rparr> })"

text \<open>\<^verbatim>\<open>ProjectMembershipStatus\<close>.\<close>

record membership_status =
  bu_verified :: "int option"
  bu_conditions :: "condition list"

definition membership_status_json :: "'m api_codec \<Rightarrow> membership_status \<Rightarrow> ujson" where
  "membership_status_json C s =
     JObject (omit_nil ''lastVerified'' (ac_time C) (bu_verified s) @
       omit_list ''conditions'' (ac_condition C) (bu_conditions s))"

definition read_membership_status :: "'m api_codec \<Rightarrow> ujson option \<Rightarrow> membership_status option" where
  "read_membership_status C = read_object (\<lambda>m.
     do { v_verified \<leftarrow> read_pointer (ac_read_time C) (m ''lastVerified'');
          v_conditions \<leftarrow> read_list (ac_read_condition C) (m ''conditions'');
          Some \<lparr>bu_verified = v_verified, bu_conditions = v_conditions\<rparr> })"

text \<open>\<^verbatim>\<open>ServiceTeamSpec\<close>.\<close>

record team_spec =
  ts_service_ref :: resource_reference
  ts_project_ref :: resource_reference
  ts_remote_id :: string
  ts_display_name :: string
  ts_project_name :: string

definition team_spec_json :: "team_spec \<Rightarrow> ujson" where
  "team_spec_json s =
     JObject ((''serviceRef'', resource_reference_json (ts_service_ref s)) #
       (''projectRef'', resource_reference_json (ts_project_ref s)) #
       omit_empty ''remoteID'' (ts_remote_id s) @
       omit_empty ''displayName'' (ts_display_name s) @
       omit_empty ''projectName'' (ts_project_name s))"

definition read_team_spec :: "ujson option \<Rightarrow> team_spec option" where
  "read_team_spec = read_object (\<lambda>m.
     do { v_service_ref \<leftarrow> read_reference (m ''serviceRef'');
          v_project_ref \<leftarrow> read_reference (m ''projectRef'');
          v_remote_id \<leftarrow> read_string (m ''remoteID'');
          v_display_name \<leftarrow> read_string (m ''displayName'');
          v_project_name \<leftarrow> read_string (m ''projectName'');
          Some \<lparr>ts_service_ref = v_service_ref, ts_project_ref = v_project_ref, ts_remote_id = v_remote_id,
            ts_display_name = v_display_name, ts_project_name = v_project_name\<rparr> })"

text \<open>\<^verbatim>\<open>ServiceTeamStatus\<close>.\<close>

record team_status =
  tu_conditions :: "condition list"
  tu_synced :: "int option"

definition team_status_json :: "'m api_codec \<Rightarrow> team_status \<Rightarrow> ujson" where
  "team_status_json C s =
     JObject (omit_list ''conditions'' (ac_condition C) (tu_conditions s) @
       omit_nil ''lastSynced'' (ac_time C) (tu_synced s))"

definition read_team_status :: "'m api_codec \<Rightarrow> ujson option \<Rightarrow> team_status option" where
  "read_team_status C = read_object (\<lambda>m.
     do { v_conditions \<leftarrow> read_list (ac_read_condition C) (m ''conditions'');
          v_synced \<leftarrow> read_pointer (ac_read_time C) (m ''lastSynced'');
          Some \<lparr>tu_conditions = v_conditions, tu_synced = v_synced\<rparr> })"

text \<open>\<^verbatim>\<open>ServiceUserSpec\<close>.\<close>

record user_spec =
  xs_service_ref :: resource_reference
  xs_remote_id :: string
  xs_email :: string
  xs_reference :: string
  xs_github :: string
  xs_maintainer_ref :: "resource_reference option"
  xs_collaborator_ref :: "resource_reference option"

definition user_spec_json :: "user_spec \<Rightarrow> ujson" where
  "user_spec_json s =
     JObject ((''serviceRef'', resource_reference_json (xs_service_ref s)) #
       omit_empty ''remoteID'' (xs_remote_id s) @
       (''email'', JString (xs_email s)) #
       omit_empty ''reference'' (xs_reference s) @
       omit_empty ''gitHubUser'' (xs_github s) @
       omit_nil ''maintainerRef'' resource_reference_json (xs_maintainer_ref s) @
       omit_nil ''collaboratorRef'' resource_reference_json (xs_collaborator_ref s))"

definition read_user_spec :: "ujson option \<Rightarrow> user_spec option" where
  "read_user_spec = read_object (\<lambda>m.
     do { v_service_ref \<leftarrow> read_reference (m ''serviceRef'');
          v_remote_id \<leftarrow> read_string (m ''remoteID'');
          v_email \<leftarrow> read_string (m ''email'');
          v_reference \<leftarrow> read_string (m ''reference'');
          v_github \<leftarrow> read_string (m ''gitHubUser'');
          v_maintainer_ref \<leftarrow> read_pointer (\<lambda>j. read_reference (Some j)) (m ''maintainerRef'');
          v_collaborator_ref \<leftarrow> read_pointer (\<lambda>j. read_reference (Some j)) (m ''collaboratorRef'');
          Some \<lparr>xs_service_ref = v_service_ref, xs_remote_id = v_remote_id, xs_email = v_email, xs_reference =
            v_reference, xs_github = v_github, xs_maintainer_ref = v_maintainer_ref, xs_collaborator_ref =
            v_collaborator_ref\<rparr> })"

text \<open>\<^verbatim>\<open>ServiceUserStatus\<close>.\<close>

record user_status =
  xu_conditions :: "condition list"
  xu_synced :: "int option"

definition user_status_json :: "'m api_codec \<Rightarrow> user_status \<Rightarrow> ujson" where
  "user_status_json C s =
     JObject (omit_list ''conditions'' (ac_condition C) (xu_conditions s) @
       omit_nil ''lastSynced'' (ac_time C) (xu_synced s))"

definition read_user_status :: "'m api_codec \<Rightarrow> ujson option \<Rightarrow> user_status option" where
  "read_user_status C = read_object (\<lambda>m.
     do { v_conditions \<leftarrow> read_list (ac_read_condition C) (m ''conditions'');
          v_synced \<leftarrow> read_pointer (ac_read_time C) (m ''lastSynced'');
          Some \<lparr>xu_conditions = v_conditions, xu_synced = v_synced\<rparr> })"

text \<open>\<^verbatim>\<open>ServiceUserTeamSpec\<close>.\<close>

record user_team_spec =
  ys_user_ref :: resource_reference
  ys_team_ref :: resource_reference
  ys_maintainer_ref :: "resource_reference option"
  ys_collaborator_ref :: "resource_reference option"

definition user_team_spec_json :: "user_team_spec \<Rightarrow> ujson" where
  "user_team_spec_json s =
     JObject ((''serviceUserRef'', resource_reference_json (ys_user_ref s)) #
       (''serviceTeamRef'', resource_reference_json (ys_team_ref s)) #
       omit_nil ''maintainerRef'' resource_reference_json (ys_maintainer_ref s) @
       omit_nil ''collaboratorRef'' resource_reference_json (ys_collaborator_ref s))"

definition read_user_team_spec :: "ujson option \<Rightarrow> user_team_spec option" where
  "read_user_team_spec = read_object (\<lambda>m.
     do { v_user_ref \<leftarrow> read_reference (m ''serviceUserRef'');
          v_team_ref \<leftarrow> read_reference (m ''serviceTeamRef'');
          v_maintainer_ref \<leftarrow> read_pointer (\<lambda>j. read_reference (Some j)) (m ''maintainerRef'');
          v_collaborator_ref \<leftarrow> read_pointer (\<lambda>j. read_reference (Some j)) (m ''collaboratorRef'');
          Some \<lparr>ys_user_ref = v_user_ref, ys_team_ref = v_team_ref, ys_maintainer_ref = v_maintainer_ref,
            ys_collaborator_ref = v_collaborator_ref\<rparr> })"

text \<open>\<^verbatim>\<open>ServiceUserTeamStatus\<close>.\<close>

record user_team_status =
  yu_conditions :: "condition list"
  yu_synced :: "int option"

definition user_team_status_json :: "'m api_codec \<Rightarrow> user_team_status \<Rightarrow> ujson" where
  "user_team_status_json C s =
     JObject (omit_list ''conditions'' (ac_condition C) (yu_conditions s) @
       omit_nil ''lastSynced'' (ac_time C) (yu_synced s))"

definition read_user_team_status :: "'m api_codec \<Rightarrow> ujson option \<Rightarrow> user_team_status option" where
  "read_user_team_status C = read_object (\<lambda>m.
     do { v_conditions \<leftarrow> read_list (ac_read_condition C) (m ''conditions'');
          v_synced \<leftarrow> read_pointer (ac_read_time C) (m ''lastSynced'');
          Some \<lparr>yu_conditions = v_conditions, yu_synced = v_synced\<rparr> })"

text \<open>\<^verbatim>\<open>OnboardingTaskSpec\<close>.\<close>

record onboarding_task_spec =
  ks_project_ref :: resource_reference
  ks_task_name :: string
  ks_task_owner :: string
  ks_task_number :: int
  ks_issue_url :: string
  ks_completed :: bool
  ks_collected_at :: int

definition onboarding_task_spec_json :: "'m api_codec \<Rightarrow> onboarding_task_spec \<Rightarrow> ujson" where
  "onboarding_task_spec_json C s =
     JObject ((''projectRef'', resource_reference_json (ks_project_ref s)) #
       (''name'', JString (ks_task_name s)) #
       omit_empty ''owner'' (ks_task_owner s) @
       (''number'', JInt (ks_task_number s)) #
       (''issueURL'', JString (ks_issue_url s)) #
       (''completed'', JBool (ks_completed s)) #
       (''collectedAt'', ac_time C (ks_collected_at s)) # [])"

definition read_onboarding_task_spec :: "'m api_codec \<Rightarrow> ujson option \<Rightarrow> onboarding_task_spec option" where
  "read_onboarding_task_spec C = read_object (\<lambda>m.
     do { v_project_ref \<leftarrow> read_reference (m ''projectRef'');
          v_task_name \<leftarrow> read_string (m ''name'');
          v_task_owner \<leftarrow> read_string (m ''owner'');
          v_task_number \<leftarrow> read_int (m ''number'');
          v_issue_url \<leftarrow> read_string (m ''issueURL'');
          v_completed \<leftarrow> read_bool (m ''completed'');
          v_collected_at \<leftarrow> read_time C (m ''collectedAt'');
          Some \<lparr>ks_project_ref = v_project_ref, ks_task_name = v_task_name, ks_task_owner = v_task_owner,
            ks_task_number = v_task_number, ks_issue_url = v_issue_url, ks_completed = v_completed,
            ks_collected_at = v_collected_at\<rparr> })"

text \<open>\<^verbatim>\<open>OnboardingTaskStatus\<close>.\<close>

record onboarding_task_status =
  ku_synced :: "int option"
  ku_conditions :: "condition list"

definition onboarding_task_status_json :: "'m api_codec \<Rightarrow> onboarding_task_status \<Rightarrow> ujson" where
  "onboarding_task_status_json C s =
     JObject (omit_nil ''lastSynced'' (ac_time C) (ku_synced s) @
       omit_list ''conditions'' (ac_condition C) (ku_conditions s))"

definition read_onboarding_task_status :: "'m api_codec \<Rightarrow> ujson option \<Rightarrow> onboarding_task_status option" where
  "read_onboarding_task_status C = read_object (\<lambda>m.
     do { v_synced \<leftarrow> read_pointer (ac_read_time C) (m ''lastSynced'');
          v_conditions \<leftarrow> read_list (ac_read_condition C) (m ''conditions'');
          Some \<lparr>ku_synced = v_synced, ku_conditions = v_conditions\<rparr> })"

section \<open>Objects and lists\<close>

text \<open>\<^verbatim>\<open>TypeMeta\<close> is inline; metadata, spec and status are structs, which \<^verbatim>\<open>omitempty\<close> never leaves out.\<close>

record ('m, 's, 't) api_object =
  ao_kind :: string
  ao_api_version :: string
  ao_metadata :: 'm
  ao_spec :: 's
  ao_status :: 't

definition api_object_json ::
  "'m api_codec \<Rightarrow> ('s \<Rightarrow> ujson) \<Rightarrow> ('t \<Rightarrow> ujson) \<Rightarrow> ('m, 's, 't) api_object \<Rightarrow> ujson" where
  "api_object_json C spec status x =
     JObject (omit_empty ''kind'' (ao_kind x) @ omit_empty ''apiVersion'' (ao_api_version x) @
       (''metadata'', ac_meta C (ao_metadata x)) # (''spec'', spec (ao_spec x)) # (''status'', status (ao_status x)) # [])"

definition read_api_object ::
  "'m api_codec \<Rightarrow> (ujson option \<Rightarrow> 's option) \<Rightarrow> (ujson option \<Rightarrow> 't option) \<Rightarrow> ujson option
     \<Rightarrow> ('m, 's, 't) api_object option" where
  "read_api_object C spec status = read_object (\<lambda>m.
     do { v_kind \<leftarrow> read_string (m ''kind''); version \<leftarrow> read_string (m ''apiVersion'');
          meta \<leftarrow> ac_read_meta C (m ''metadata''); v_spec \<leftarrow> spec (m ''spec''); v_status \<leftarrow> status (m ''status'');
          Some \<lparr>ao_kind = v_kind, ao_api_version = version, ao_metadata = meta, ao_spec = v_spec, ao_status = v_status\<rparr> })"

text \<open>\<^verbatim>\<open>items\<close> has no \<^verbatim>\<open>omitempty\<close>: a list without items, whose slice is nil, writes \<^verbatim>\<open>null\<close>.\<close>

record ('m, 'o) api_list =
  al_kind :: string
  al_api_version :: string
  al_metadata :: 'm
  al_items :: "'o list"

definition api_list_json :: "'m api_codec \<Rightarrow> ('o \<Rightarrow> ujson) \<Rightarrow> ('m, 'o) api_list \<Rightarrow> ujson" where
  "api_list_json C item x =
     JObject (omit_empty ''kind'' (al_kind x) @ omit_empty ''apiVersion'' (al_api_version x) @
       (''metadata'', ac_meta C (al_metadata x)) #
       (''items'', if al_items x = [] then JNull else JArray (map item (al_items x))) # [])"

definition read_api_list ::
  "'m api_codec \<Rightarrow> (ujson \<Rightarrow> 'o option) \<Rightarrow> ujson option \<Rightarrow> ('m, 'o) api_list option" where
  "read_api_list C item = read_object (\<lambda>m.
     do { v_kind \<leftarrow> read_string (m ''kind''); version \<leftarrow> read_string (m ''apiVersion'');
          meta \<leftarrow> ac_read_meta C (m ''metadata''); items \<leftarrow> read_list item (m ''items'');
          Some \<lparr>al_kind = v_kind, al_api_version = version, al_metadata = meta, al_items = items\<rparr> })"

section \<open>The kinds\<close>

definition maintainer_object_json :: "'m api_codec \<Rightarrow> ('m, maintainer_spec, maintainer_api_status) api_object \<Rightarrow> ujson" where
  "maintainer_object_json C = api_object_json C (maintainer_spec_json (ac_time C)) (maintainer_api_status_json C)"

definition read_maintainer_object :: "'m api_codec \<Rightarrow> ujson option \<Rightarrow> ('m, maintainer_spec, maintainer_api_status) api_object option" where
  "read_maintainer_object C = read_api_object C (read_maintainer_spec (ac_read_time C)) (read_maintainer_api_status C)"

definition maintainer_list_json :: "'m api_codec \<Rightarrow> ('m, ('m, maintainer_spec, maintainer_api_status) api_object) api_list \<Rightarrow> ujson" where
  "maintainer_list_json C = api_list_json C (maintainer_object_json C)"

definition read_maintainer_list :: "'m api_codec \<Rightarrow> ujson option \<Rightarrow> ('m, ('m, maintainer_spec, maintainer_api_status) api_object) api_list option" where
  "read_maintainer_list C = read_api_list C (\<lambda>j. read_maintainer_object C (Some j))"

definition staff_member_object_json :: "'m api_codec \<Rightarrow> ('m, staff_spec, staff_status) api_object \<Rightarrow> ujson" where
  "staff_member_object_json C = api_object_json C (staff_spec_json (ac_time C)) (staff_status_json C)"

definition read_staff_member_object :: "'m api_codec \<Rightarrow> ujson option \<Rightarrow> ('m, staff_spec, staff_status) api_object option" where
  "read_staff_member_object C = read_api_object C (read_staff_spec (ac_read_time C)) (read_staff_status C)"

definition staff_member_list_json :: "'m api_codec \<Rightarrow> ('m, ('m, staff_spec, staff_status) api_object) api_list \<Rightarrow> ujson" where
  "staff_member_list_json C = api_list_json C (staff_member_object_json C)"

definition read_staff_member_list :: "'m api_codec \<Rightarrow> ujson option \<Rightarrow> ('m, ('m, staff_spec, staff_status) api_object) api_list option" where
  "read_staff_member_list C = read_api_list C (\<lambda>j. read_staff_member_object C (Some j))"

definition collaborator_object_json :: "'m api_codec \<Rightarrow> ('m, collaborator_spec, collaborator_status) api_object \<Rightarrow> ujson" where
  "collaborator_object_json C = api_object_json C (collaborator_spec_json C) (collaborator_status_json C)"

definition read_collaborator_object :: "'m api_codec \<Rightarrow> ujson option \<Rightarrow> ('m, collaborator_spec, collaborator_status) api_object option" where
  "read_collaborator_object C = read_api_object C (read_collaborator_spec C) (read_collaborator_status C)"

definition collaborator_list_json :: "'m api_codec \<Rightarrow> ('m, ('m, collaborator_spec, collaborator_status) api_object) api_list \<Rightarrow> ujson" where
  "collaborator_list_json C = api_list_json C (collaborator_object_json C)"

definition read_collaborator_list :: "'m api_codec \<Rightarrow> ujson option \<Rightarrow> ('m, ('m, collaborator_spec, collaborator_status) api_object) api_list option" where
  "read_collaborator_list C = read_api_list C (\<lambda>j. read_collaborator_object C (Some j))"

definition project_object_json :: "'m api_codec \<Rightarrow> ('m, project_spec, project_status) api_object \<Rightarrow> ujson" where
  "project_object_json C = api_object_json C project_spec_json (project_status_json C)"

definition read_project_object :: "'m api_codec \<Rightarrow> ujson option \<Rightarrow> ('m, project_spec, project_status) api_object option" where
  "read_project_object C = read_api_object C read_project_spec (read_project_status C)"

definition project_list_json :: "'m api_codec \<Rightarrow> ('m, ('m, project_spec, project_status) api_object) api_list \<Rightarrow> ujson" where
  "project_list_json C = api_list_json C (project_object_json C)"

definition read_project_list :: "'m api_codec \<Rightarrow> ujson option \<Rightarrow> ('m, ('m, project_spec, project_status) api_object) api_list option" where
  "read_project_list C = read_api_list C (\<lambda>j. read_project_object C (Some j))"

definition company_object_json :: "'m api_codec \<Rightarrow> ('m, company_spec, company_status) api_object \<Rightarrow> ujson" where
  "company_object_json C = api_object_json C company_spec_json (company_status_json C)"

definition read_company_object :: "'m api_codec \<Rightarrow> ujson option \<Rightarrow> ('m, company_spec, company_status) api_object option" where
  "read_company_object C = read_api_object C read_company_spec (read_company_status C)"

definition company_list_json :: "'m api_codec \<Rightarrow> ('m, ('m, company_spec, company_status) api_object) api_list \<Rightarrow> ujson" where
  "company_list_json C = api_list_json C (company_object_json C)"

definition read_company_list :: "'m api_codec \<Rightarrow> ujson option \<Rightarrow> ('m, ('m, company_spec, company_status) api_object) api_list option" where
  "read_company_list C = read_api_list C (\<lambda>j. read_company_object C (Some j))"

definition service_object_json :: "'m api_codec \<Rightarrow> ('m, api_service_spec, api_service_status) api_object \<Rightarrow> ujson" where
  "service_object_json C = api_object_json C api_service_spec_json (api_service_status_json C)"

definition read_service_object :: "'m api_codec \<Rightarrow> ujson option \<Rightarrow> ('m, api_service_spec, api_service_status) api_object option" where
  "read_service_object C = read_api_object C read_api_service_spec (read_api_service_status C)"

definition service_list_json :: "'m api_codec \<Rightarrow> ('m, ('m, api_service_spec, api_service_status) api_object) api_list \<Rightarrow> ujson" where
  "service_list_json C = api_list_json C (service_object_json C)"

definition read_service_list :: "'m api_codec \<Rightarrow> ujson option \<Rightarrow> ('m, ('m, api_service_spec, api_service_status) api_object) api_list option" where
  "read_service_list C = read_api_list C (\<lambda>j. read_service_object C (Some j))"

definition membership_object_json :: "'m api_codec \<Rightarrow> ('m, membership_spec, membership_status) api_object \<Rightarrow> ujson" where
  "membership_object_json C = api_object_json C (membership_spec_json (ac_time C)) (membership_status_json C)"

definition read_membership_object :: "'m api_codec \<Rightarrow> ujson option \<Rightarrow> ('m, membership_spec, membership_status) api_object option" where
  "read_membership_object C = read_api_object C (read_membership_spec (ac_read_time C)) (read_membership_status C)"

definition membership_list_json :: "'m api_codec \<Rightarrow> ('m, ('m, membership_spec, membership_status) api_object) api_list \<Rightarrow> ujson" where
  "membership_list_json C = api_list_json C (membership_object_json C)"

definition read_membership_list :: "'m api_codec \<Rightarrow> ujson option \<Rightarrow> ('m, ('m, membership_spec, membership_status) api_object) api_list option" where
  "read_membership_list C = read_api_list C (\<lambda>j. read_membership_object C (Some j))"

definition service_team_object_json :: "'m api_codec \<Rightarrow> ('m, team_spec, team_status) api_object \<Rightarrow> ujson" where
  "service_team_object_json C = api_object_json C team_spec_json (team_status_json C)"

definition read_service_team_object :: "'m api_codec \<Rightarrow> ujson option \<Rightarrow> ('m, team_spec, team_status) api_object option" where
  "read_service_team_object C = read_api_object C read_team_spec (read_team_status C)"

definition service_team_list_json :: "'m api_codec \<Rightarrow> ('m, ('m, team_spec, team_status) api_object) api_list \<Rightarrow> ujson" where
  "service_team_list_json C = api_list_json C (service_team_object_json C)"

definition read_service_team_list :: "'m api_codec \<Rightarrow> ujson option \<Rightarrow> ('m, ('m, team_spec, team_status) api_object) api_list option" where
  "read_service_team_list C = read_api_list C (\<lambda>j. read_service_team_object C (Some j))"

definition service_user_object_json :: "'m api_codec \<Rightarrow> ('m, user_spec, user_status) api_object \<Rightarrow> ujson" where
  "service_user_object_json C = api_object_json C user_spec_json (user_status_json C)"

definition read_service_user_object :: "'m api_codec \<Rightarrow> ujson option \<Rightarrow> ('m, user_spec, user_status) api_object option" where
  "read_service_user_object C = read_api_object C read_user_spec (read_user_status C)"

definition service_user_list_json :: "'m api_codec \<Rightarrow> ('m, ('m, user_spec, user_status) api_object) api_list \<Rightarrow> ujson" where
  "service_user_list_json C = api_list_json C (service_user_object_json C)"

definition read_service_user_list :: "'m api_codec \<Rightarrow> ujson option \<Rightarrow> ('m, ('m, user_spec, user_status) api_object) api_list option" where
  "read_service_user_list C = read_api_list C (\<lambda>j. read_service_user_object C (Some j))"

definition service_user_team_object_json :: "'m api_codec \<Rightarrow> ('m, user_team_spec, user_team_status) api_object \<Rightarrow> ujson" where
  "service_user_team_object_json C = api_object_json C user_team_spec_json (user_team_status_json C)"

definition read_service_user_team_object :: "'m api_codec \<Rightarrow> ujson option \<Rightarrow> ('m, user_team_spec, user_team_status) api_object option" where
  "read_service_user_team_object C = read_api_object C read_user_team_spec (read_user_team_status C)"

definition service_user_team_list_json :: "'m api_codec \<Rightarrow> ('m, ('m, user_team_spec, user_team_status) api_object) api_list \<Rightarrow> ujson" where
  "service_user_team_list_json C = api_list_json C (service_user_team_object_json C)"

definition read_service_user_team_list :: "'m api_codec \<Rightarrow> ujson option \<Rightarrow> ('m, ('m, user_team_spec, user_team_status) api_object) api_list option" where
  "read_service_user_team_list C = read_api_list C (\<lambda>j. read_service_user_team_object C (Some j))"

definition onboarding_task_object_json :: "'m api_codec \<Rightarrow> ('m, onboarding_task_spec, onboarding_task_status) api_object \<Rightarrow> ujson" where
  "onboarding_task_object_json C = api_object_json C (onboarding_task_spec_json C) (onboarding_task_status_json C)"

definition read_onboarding_task_object :: "'m api_codec \<Rightarrow> ujson option \<Rightarrow> ('m, onboarding_task_spec, onboarding_task_status) api_object option" where
  "read_onboarding_task_object C = read_api_object C (read_onboarding_task_spec C) (read_onboarding_task_status C)"

definition onboarding_task_list_json :: "'m api_codec \<Rightarrow> ('m, ('m, onboarding_task_spec, onboarding_task_status) api_object) api_list \<Rightarrow> ujson" where
  "onboarding_task_list_json C = api_list_json C (onboarding_task_object_json C)"

definition read_onboarding_task_list :: "'m api_codec \<Rightarrow> ujson option \<Rightarrow> ('m, ('m, onboarding_task_spec, onboarding_task_status) api_object) api_list option" where
  "read_onboarding_task_list C = read_api_list C (\<lambda>j. read_onboarding_task_object C (Some j))"

section \<open>The scheme\<close>

text \<open>A scheme by the kinds it knows: group, version, name.\<close>

type_synonym scheme = "(string \<times> string \<times> string) set"

definition known_types :: "string list" where
  "known_types =
     [''Maintainer'', ''MaintainerList'', ''StaffMember'', ''StaffMemberList'', ''Collaborator'', ''CollaboratorList'',
      ''Project'', ''ProjectList'', ''Company'', ''CompanyList'', ''Service'', ''ServiceList'',
      ''ProjectMembership'', ''ProjectMembershipList'', ''ServiceTeam'', ''ServiceTeamList'',
      ''ServiceUser'', ''ServiceUserList'', ''ServiceUserTeam'', ''ServiceUserTeamList'',
      ''OnboardingTask'', ''OnboardingTaskList'']"

definition add_known_types :: "scheme \<Rightarrow> scheme" where
  "add_known_types s = s \<union> (\<lambda>k. (''maintainer-d.cncf.io'', ''v1alpha1'', k)) ` set known_types"

text \<open>The states \<^verbatim>\<open>MaintainerLifecycle\<close> and \<^verbatim>\<open>ProjectMaturity\<close> declare.\<close>

definition maintainer_lifecycles :: "string list" where
  "maintainer_lifecycles = [''Active'', ''Emeritus'', ''Retired'', ''Hidden'']"

definition project_maturities :: "string list" where
  "project_maturities = [''Sandbox'', ''Incubating'', ''Graduated'', ''Archived'']"

section \<open>Reading what was written\<close>

lemma read_int_written [simp]: "read_int (Some (JInt v)) = Some v" "read_int (nonzero_int v) = Some v"
  by (simp_all add: read_int_def nonzero_int_def)

lemma read_bool_written [simp]: "read_bool (Some (JBool b)) = Some b"
  by (simp add: read_bool_def)

lemma read_project_reference_written [simp]: "read_project_reference (Some (project_reference_json r)) = Some r"
  by (simp add: read_project_reference_def project_reference_json_def written_fields read_list_written del: map_of_append)

lemma codec_reads:
  assumes "codec_ok C"
  shows "read_time C (Some (ac_time C t)) = Some t"
    and "p \<noteq> Some (ac_zero C) \<Longrightarrow> read_pointer (ac_read_time C) (map_option (ac_time C) p) = Some p"
    and "read_list (ac_read_condition C) (nonempty_list (ac_condition C) cs) = Some cs"
    and "ac_read_meta C (Some (ac_meta C m)) = Some m"
proof -
  have t: "ac_read_time C (ac_time C t) = Some t \<and> ac_time C t \<noteq> JNull" if "t \<noteq> ac_zero C" for t
    using assms that by (simp add: codec_ok_def)
  show "read_time C (Some (ac_time C t)) = Some t"
  proof (cases "t = ac_zero C")
    case True
    then show ?thesis using assms by (simp add: codec_ok_def read_time_def)
  next
    case False
    then show ?thesis using t[OF False] by (cases "ac_time C t") (simp_all add: read_time_def)
  qed
  show "read_pointer (ac_read_time C) (map_option (ac_time C) p) = Some p" if "p \<noteq> Some (ac_zero C)"
    by (rule read_time_pointer_written[of "ac_zero C"]) (use t that in auto)
  show "read_list (ac_read_condition C) (nonempty_list (ac_condition C) cs) = Some cs"
    by (rule read_list_written) (use assms in \<open>simp add: codec_ok_def\<close>)
  show "ac_read_meta C (Some (ac_meta C m)) = Some m" using assms by (simp add: codec_ok_def)
qed

lemmas api_fields = omit_zero_def read_pointer_written read_list_written

lemma maintainer_api_status_reads_back:
  assumes "codec_ok C" and "mu_synced s \<noteq> Some (ac_zero C)"
  shows  "read_maintainer_api_status C (Some (maintainer_api_status_json C s)) = Some s"
  by (simp add: read_maintainer_api_status_def maintainer_api_status_json_def written_fields api_fields assms codec_reads[OF assms(1)] del: map_of_append)

lemma staff_status_reads_back:
  assumes "codec_ok C" and "su_synced s \<noteq> Some (ac_zero C)"
  shows  "read_staff_status C (Some (staff_status_json C s)) = Some s"
  by (simp add: read_staff_status_def staff_status_json_def written_fields api_fields assms codec_reads[OF assms(1)] del: map_of_append)

lemma collaborator_spec_reads_back:
  assumes "codec_ok C" and "ls_last_login s \<noteq> Some (ac_zero C)" and "ls_registered_at s \<noteq> Some (ac_zero C)"
  shows  "read_collaborator_spec C (Some (collaborator_spec_json C s)) = Some s"
  by (simp add: read_collaborator_spec_def collaborator_spec_json_def written_fields api_fields assms codec_reads[OF assms(1)] del: map_of_append)

lemma collaborator_status_reads_back:
  assumes "codec_ok C" and "lu_synced s \<noteq> Some (ac_zero C)"
  shows  "read_collaborator_status C (Some (collaborator_status_json C s)) = Some s"
  by (simp add: read_collaborator_status_def collaborator_status_json_def written_fields api_fields assms codec_reads[OF assms(1)] del: map_of_append)

lemma project_status_reads_back:
  assumes "codec_ok C" and "pu_synced s \<noteq> Some (ac_zero C)"
  shows  "read_project_status C (Some (project_status_json C s)) = Some s"
  by (simp add: read_project_status_def project_status_json_def written_fields api_fields assms codec_reads[OF assms(1)] del: map_of_append)

lemma company_status_reads_back:
  assumes "codec_ok C"
  shows  "read_company_status C (Some (company_status_json C s)) = Some s"
  by (simp add: read_company_status_def company_status_json_def written_fields api_fields assms codec_reads[OF assms(1)] del: map_of_append)

lemma api_service_spec_reads_back:
  "read_api_service_spec (Some (api_service_spec_json s)) = Some s"
  by (simp add: read_api_service_spec_def api_service_spec_json_def written_fields api_fields del: map_of_append)

lemma api_service_status_reads_back:
  assumes "codec_ok C"
  shows  "read_api_service_status C (Some (api_service_status_json C s)) = Some s"
  by (simp add: read_api_service_status_def api_service_status_json_def written_fields api_fields assms codec_reads[OF assms(1)] del: map_of_append)

lemma membership_status_reads_back:
  assumes "codec_ok C" and "bu_verified s \<noteq> Some (ac_zero C)"
  shows  "read_membership_status C (Some (membership_status_json C s)) = Some s"
  by (simp add: read_membership_status_def membership_status_json_def written_fields api_fields assms codec_reads[OF assms(1)] del: map_of_append)

lemma team_spec_reads_back:
  "read_team_spec (Some (team_spec_json s)) = Some s"
  by (simp add: read_team_spec_def team_spec_json_def written_fields api_fields del: map_of_append)

lemma team_status_reads_back:
  assumes "codec_ok C" and "tu_synced s \<noteq> Some (ac_zero C)"
  shows  "read_team_status C (Some (team_status_json C s)) = Some s"
  by (simp add: read_team_status_def team_status_json_def written_fields api_fields assms codec_reads[OF assms(1)] del: map_of_append)

lemma user_spec_reads_back:
  "read_user_spec (Some (user_spec_json s)) = Some s"
  by (simp add: read_user_spec_def user_spec_json_def written_fields api_fields del: map_of_append)

lemma user_status_reads_back:
  assumes "codec_ok C" and "xu_synced s \<noteq> Some (ac_zero C)"
  shows  "read_user_status C (Some (user_status_json C s)) = Some s"
  by (simp add: read_user_status_def user_status_json_def written_fields api_fields assms codec_reads[OF assms(1)] del: map_of_append)

lemma user_team_spec_reads_back:
  "read_user_team_spec (Some (user_team_spec_json s)) = Some s"
  by (simp add: read_user_team_spec_def user_team_spec_json_def written_fields api_fields del: map_of_append)

lemma user_team_status_reads_back:
  assumes "codec_ok C" and "yu_synced s \<noteq> Some (ac_zero C)"
  shows  "read_user_team_status C (Some (user_team_status_json C s)) = Some s"
  by (simp add: read_user_team_status_def user_team_status_json_def written_fields api_fields assms codec_reads[OF assms(1)] del: map_of_append)

lemma onboarding_task_spec_reads_back:
  assumes "codec_ok C"
  shows  "read_onboarding_task_spec C (Some (onboarding_task_spec_json C s)) = Some s"
  by (simp add: read_onboarding_task_spec_def onboarding_task_spec_json_def written_fields api_fields assms codec_reads[OF assms(1)] del: map_of_append)

lemma onboarding_task_status_reads_back:
  assumes "codec_ok C" and "ku_synced s \<noteq> Some (ac_zero C)"
  shows  "read_onboarding_task_status C (Some (onboarding_task_status_json C s)) = Some s"
  by (simp add: read_onboarding_task_status_def onboarding_task_status_json_def written_fields api_fields assms codec_reads[OF assms(1)] del: map_of_append)

lemma api_object_reads_back:
  assumes "codec_ok C" and "read_spec (Some (spec (ao_spec x))) = Some (ao_spec x)"
    and "read_status (Some (status (ao_status x))) = Some (ao_status x)"
  shows "read_api_object C read_spec read_status (Some (api_object_json C spec status x)) = Some x"
  using assms codec_reads(4)[OF assms(1)]
  by (simp add: read_api_object_def api_object_json_def written_fields del: map_of_append)

lemma api_list_reads_back:
  assumes "codec_ok C" and "\<And>x. x \<in> set (al_items l) \<Longrightarrow> read_item (item x) = Some x"
  shows "read_api_list C read_item (Some (api_list_json C item l)) = Some l"
proof -
  have "read_list read_item (Some (if al_items l = [] then JNull else JArray (map item (al_items l)))) = Some (al_items l)"
    using those_map_Some[of "al_items l" "\<lambda>x. read_item (item x)" "\<lambda>x. x"] assms(2)
    by (simp add: read_list_def comp_def)
  then show ?thesis
    using codec_reads(4)[OF assms(1)] by (simp add: read_api_list_def api_list_json_def written_fields del: map_of_append)
qed

text \<open>No pointer to the zero time.\<close>

definition times_set :: "'m api_codec \<Rightarrow> int option list \<Rightarrow> bool" where
  "times_set C ps \<longleftrightarrow> Some (ac_zero C) \<notin> set ps"

lemmas spec_reads =
  maintainer_api_status_reads_back
  staff_status_reads_back
  collaborator_spec_reads_back
  collaborator_status_reads_back
  project_status_reads_back
  company_status_reads_back
  api_service_spec_reads_back
  api_service_status_reads_back
  membership_status_reads_back
  team_spec_reads_back
  team_status_reads_back
  user_spec_reads_back
  user_status_reads_back
  user_team_spec_reads_back
  user_team_status_reads_back
  onboarding_task_spec_reads_back
  onboarding_task_status_reads_back

lemma codec_times:
  assumes "codec_ok C" and "t \<noteq> ac_zero C"
  shows "ac_read_time C (ac_time C t) = Some t \<and> ac_time C t \<noteq> JNull"
  using assms by (simp add: codec_ok_def)

lemma maintainer_object_reads_back:
  assumes "codec_ok C" and "times_set C [ms_registered_at (ao_spec x), mu_synced (ao_status x)]"
  shows "read_maintainer_object C (Some (maintainer_object_json C x)) = Some x"
  unfolding read_maintainer_object_def maintainer_object_json_def
  by (rule api_object_reads_back[OF assms(1)])
    (use assms codec_times in \<open>auto simp: times_set_def intro!: spec_reads maintainer_spec_reads_back[of "ac_zero C"]\<close>)

lemma staff_member_object_reads_back:
  assumes "codec_ok C" and "times_set C [ss_registered_at (ao_spec x), su_synced (ao_status x)]"
  shows "read_staff_member_object C (Some (staff_member_object_json C x)) = Some x"
  unfolding read_staff_member_object_def staff_member_object_json_def
  by (rule api_object_reads_back[OF assms(1)])
    (use assms codec_times in \<open>auto simp: times_set_def intro!: spec_reads staff_spec_reads_back[of "ac_zero C"]\<close>)

lemma collaborator_object_reads_back:
  assumes "codec_ok C" and "times_set C [ls_last_login (ao_spec x), ls_registered_at (ao_spec x), lu_synced (ao_status x)]"
  shows "read_collaborator_object C (Some (collaborator_object_json C x)) = Some x"
  unfolding read_collaborator_object_def collaborator_object_json_def
  by (rule api_object_reads_back[OF assms(1)])
    (use assms in \<open>auto simp: times_set_def intro!: spec_reads\<close>)

lemma project_object_reads_back:
  assumes "codec_ok C" and "times_set C [pu_synced (ao_status x)]"
  shows "read_project_object C (Some (project_object_json C x)) = Some x"
  unfolding read_project_object_def project_object_json_def
  by (rule api_object_reads_back[OF assms(1)])
    (use assms in \<open>auto simp: times_set_def intro!: spec_reads\<close>)

lemma company_object_reads_back:
  assumes "codec_ok C"
  shows "read_company_object C (Some (company_object_json C x)) = Some x"
  unfolding read_company_object_def company_object_json_def
  by (rule api_object_reads_back[OF assms(1)])
    (use assms in \<open>auto simp: times_set_def intro!: spec_reads\<close>)

lemma service_object_reads_back:
  assumes "codec_ok C"
  shows "read_service_object C (Some (service_object_json C x)) = Some x"
  unfolding read_service_object_def service_object_json_def
  by (rule api_object_reads_back[OF assms(1)])
    (use assms in \<open>auto simp: times_set_def intro!: spec_reads\<close>)

lemma membership_object_reads_back:
  assumes "codec_ok C" and "times_set C [bs_joined_at (ao_spec x), bu_verified (ao_status x)]"
  shows "read_membership_object C (Some (membership_object_json C x)) = Some x"
  unfolding read_membership_object_def membership_object_json_def
  by (rule api_object_reads_back[OF assms(1)])
    (use assms codec_times in \<open>auto simp: times_set_def intro!: spec_reads membership_spec_reads_back[of "ac_zero C"]\<close>)

lemma service_team_object_reads_back:
  assumes "codec_ok C" and "times_set C [tu_synced (ao_status x)]"
  shows "read_service_team_object C (Some (service_team_object_json C x)) = Some x"
  unfolding read_service_team_object_def service_team_object_json_def
  by (rule api_object_reads_back[OF assms(1)])
    (use assms in \<open>auto simp: times_set_def intro!: spec_reads\<close>)

lemma service_user_object_reads_back:
  assumes "codec_ok C" and "times_set C [xu_synced (ao_status x)]"
  shows "read_service_user_object C (Some (service_user_object_json C x)) = Some x"
  unfolding read_service_user_object_def service_user_object_json_def
  by (rule api_object_reads_back[OF assms(1)])
    (use assms in \<open>auto simp: times_set_def intro!: spec_reads\<close>)

lemma service_user_team_object_reads_back:
  assumes "codec_ok C" and "times_set C [yu_synced (ao_status x)]"
  shows "read_service_user_team_object C (Some (service_user_team_object_json C x)) = Some x"
  unfolding read_service_user_team_object_def service_user_team_object_json_def
  by (rule api_object_reads_back[OF assms(1)])
    (use assms in \<open>auto simp: times_set_def intro!: spec_reads\<close>)

lemma onboarding_task_object_reads_back:
  assumes "codec_ok C" and "times_set C [ku_synced (ao_status x)]"
  shows "read_onboarding_task_object C (Some (onboarding_task_object_json C x)) = Some x"
  unfolding read_onboarding_task_object_def onboarding_task_object_json_def
  by (rule api_object_reads_back[OF assms(1)])
    (use assms in \<open>auto simp: times_set_def intro!: spec_reads\<close>)

lemmas object_reads =
  maintainer_object_reads_back
  staff_member_object_reads_back
  collaborator_object_reads_back
  project_object_reads_back
  company_object_reads_back
  service_object_reads_back
  membership_object_reads_back
  service_team_object_reads_back
  service_user_object_reads_back
  service_user_team_object_reads_back
  onboarding_task_object_reads_back

text \<open>What is lost otherwise, and the lists: a list reads back when its items do.\<close>

lemma zero_time_is_lost:
  assumes "codec_ok C"
  shows "read_pointer (ac_read_time C) (map_option (ac_time C) (Some (ac_zero C))) = Some None"
  using assms by (simp add: codec_ok_def read_pointer_def)

lemma project_list_reads_back:
  assumes "codec_ok C" and "\<forall>x \<in> set (al_items l). times_set C [pu_synced (ao_status x)]"
  shows "read_project_list C (Some (project_list_json C l)) = Some l"
  unfolding read_project_list_def project_list_json_def
  by (rule api_list_reads_back[OF assms(1)]) (use assms in \<open>simp add: object_reads\<close>)

text \<open>
  The scheme knows every kind once, and each with its list.  The states of the database the sync job
  writes are declared ones, but for the archived maintainers.
\<close>

lemma kinds_have_lists:
  "distinct known_types \<and> (\<forall>i < 11. known_types ! (2 * i + 1) = known_types ! (2 * i) @ ''List'')"
proof -
  have "distinct known_types" by code_simp
  moreover have "list_all (\<lambda>i. known_types ! (2 * i + 1) = known_types ! (2 * i) @ ''List'') [0..<11]" by code_simp
  ultimately show ?thesis by (simp add: list_all_iff atLeast0LessThan)
qed

lemma synced_states_are_declared:
  assumes "status_is_valid (mt_status m)" and "maturity_is_valid (pr_maturity p)"
  shows "ms_status (maintainer_spec_of m) \<in> set maintainer_lifecycles \<union> {ArchivedMaintainer}"
    and "ps_maturity (project_spec_of ps p) \<in> set project_maturities"
  using assms
  by (auto simp: maintainer_spec_of_def project_spec_of_def status_is_valid_def maturity_is_valid_def
      maintainer_lifecycles_def project_maturities_def)

section \<open>Properties\<close>


text \<open>A time is its seconds, a condition its six fields, the metadata a name; a task with its issue.\<close>

definition demo_codec :: "string api_codec" where
  "demo_codec =
     \<lparr>ac_zero = 0, ac_time = (\<lambda>t. if t = 0 then JNull else JInt t),
      ac_read_time = (\<lambda>j. case j of JInt t \<Rightarrow> Some t | _ \<Rightarrow> None),
      ac_condition = (\<lambda>c. JArray [JString (cd_type c), JString (cd_status c), JInt (cd_observed c),
        JInt (cd_transition c), JString (cd_reason c), JString (cd_message c)]),
      ac_read_condition = (\<lambda>j. case j of
        JArray [JString ty, JString st, JInt ob, JInt tr, JString re, JString me] \<Rightarrow>
          Some \<lparr>cd_type = ty, cd_status = st, cd_observed = ob, cd_transition = tr, cd_reason = re, cd_message = me\<rparr>
        | _ \<Rightarrow> None),
      ac_meta = (\<lambda>n. JObject [(''name'', JString n)]),
      ac_read_meta = (\<lambda>j. case j of Some (JObject [(_, JString n)]) \<Rightarrow> Some n | _ \<Rightarrow> None)\<rparr>"

lemma demo_codec_ok: "codec_ok demo_codec"
  by (simp add: codec_ok_def demo_codec_def)

definition demo_task :: "(string, onboarding_task_spec, onboarding_task_status) api_object" where
  "demo_task =
     \<lparr>ao_kind = ''OnboardingTask'', ao_api_version = [], ao_metadata = ''t1'',
      ao_spec = \<lparr>ks_project_ref = ref_to ''alpha'', ks_task_name = ''Add to landscape'', ks_task_owner = [],
        ks_task_number = 3, ks_issue_url = ''u'', ks_completed = True, ks_collected_at = 0\<rparr>,
      ao_status = \<lparr>ku_synced = Some 7, ku_conditions = []\<rparr>\<rparr>"


end
