(* ===== verification/K8s_Sync_Laws.thy ===== *)
theory K8s_Sync_Laws
  imports K8s_Sync Store_Reads
begin

text \<open>
  What the sync job guarantees: object names the API server accepts, when a spec counts as
  unchanged, and that a successful run leaves in the cluster an object for every row, that the
  last row of each name decides what the object says, and that no other object is touched.
\<close>

section \<open>Names\<close>

text \<open>The characters, the ends and the length of a name.\<close>

definition good_name :: "string \<Rightarrow> bool" where
  "good_name n \<longleftrightarrow> n \<noteq> [] \<and> length n \<le> 63 \<and> list_all object_name_char n \<and>
     hd n \<notin> {CHR ''-'', CHR ''.''} \<and> last n \<notin> {CHR ''-'', CHR ''.''}"

lemma object_name_char_lower: "object_name_char c \<Longrightarrow> lower_char c = c \<and> \<not> is_space c"
proof -
  assume n: "object_name_char c"
  have "\<not> is_upper c"
    using n by (auto simp: object_name_char_def is_upper_def is_lower_def is_digit_def less_eq_char_def)
  moreover have "\<not> is_space c"
    using n by (auto simp: object_name_char_def is_space_def is_lower_def is_digit_def less_eq_char_def)
  ultimately show ?thesis by (simp add: lower_char_def)
qed

lemma object_name_char_dash [simp]: "object_name_char CHR ''-''"
  by (simp add: object_name_char_def)

lemma dash_invalid_chars: "list_all object_name_char (dash_invalid s)"
  by (induction s rule: dash_invalid.induct) auto

lemma dash_invalid_id: "list_all object_name_char s \<Longrightarrow> dash_invalid s = s"
  by (induction s rule: dash_invalid.induct) auto

lemma list_all_trim: "list_all P s \<Longrightarrow> list_all P (trim s cs)"
  using set_trim_by by (fastforce simp: trim_def list_all_iff)

lemma good_unnamed: "good_name ''unnamed''"
  by code_simp

lemma trim_good:
  assumes "list_all object_name_char s" and "length (trim s ''-.'') \<le> 63" and "trim s ''-.'' \<noteq> []"
  shows "good_name (trim s ''-.'')"
  using assms list_all_trim[OF assms(1), of "''-.''"] trim_by_ends[of "\<lambda>c. c \<in> set ''-.''" s]
  by (simp add: good_name_def trim_def)

lemma length_trim: "length (trim s cs) \<le> length s"
  by (simp add: trim_def trim_by_def) (metis dual_order.trans length_dropWhile_le length_rev)

lemma sanitize_name_good: "good_name (sanitize_name s)"
proof -
  let ?d = "dash_invalid (to_lower (trim_space s))"
  have "length (trim (take 63 (trim ?d ''-.'')) ''-.'') \<le> 63"
    using length_trim[of "take 63 (trim ?d ''-.'')" "''-.''"] by simp
  moreover have "list_all object_name_char (take 63 (trim ?d ''-.''))"
    using list_all_trim[OF dash_invalid_chars, of "to_lower (trim_space s)" "''-.''"]
    by (auto simp: list_all_iff dest: in_set_takeD)
  ultimately show ?thesis
    using good_unnamed trim_good[OF dash_invalid_chars] trim_good
    unfolding sanitize_name_def Let_def by (auto simp: not_less)
qed

lemma sanitize_good_id:
  assumes "good_name n"
  shows "sanitize_name n = n"
proof -
  have c: "list_all object_name_char n" and ends: "hd n \<notin> {CHR ''-'', CHR ''.''}" "last n \<notin> {CHR ''-'', CHR ''.''}"
    and l: "n \<noteq> []" "length n \<le> 63" using assms by (auto simp: good_name_def)
  have "trim_space n = n"
    unfolding trim_space_def using c l object_name_char_lower
    by (intro trim_by_id) (auto simp: list_all_iff)
  moreover have "to_lower n = n"
    using c object_name_char_lower by (auto simp: to_lower_def list_all_iff intro: map_idI)
  moreover have "trim n ''-.'' = n"
    unfolding trim_def using ends by (intro trim_by_id) auto
  ultimately show ?thesis using c l dash_invalid_id[OF c] by (simp add: sanitize_name_def Let_def)
qed

section \<open>Comparing lists of names\<close>

lemma same_names_mset:
  assumes "distinct ys"
  shows "length xs = length ys \<and> set ys \<subseteq> set xs \<longleftrightarrow> mset xs = mset ys"
proof
  assume a: "length xs = length ys \<and> set ys \<subseteq> set xs"
  then have c: "card (set ys) = length xs" using assms by (simp add: distinct_card)
  then have "set xs = set ys" using a by (metis List.finite_set card_length card_seteq)
  moreover from this c have "distinct xs" by (simp add: card_distinct)
  ultimately show "mset xs = mset ys" using assms by (simp add: set_eq_iff_mset_eq_distinct)
qed (metis mset_eq_length mset_eq_setD order_refl)

section \<open>Objects and rows\<close>

text \<open>
  \<open>published\<close> relates the objects of a kind before and after a loop over \<open>rows\<close>: the object of
  a name some row has agrees with the last such row, any other object is as before.
\<close>

definition published ::
  "string \<Rightarrow> ('r \<Rightarrow> string) \<Rightarrow> ('r \<Rightarrow> 's \<Rightarrow> bool) \<Rightarrow> 'r list
     \<Rightarrow> (object_key \<Rightarrow> 's kobject option) \<Rightarrow> (object_key \<Rightarrow> 's kobject option) \<Rightarrow> bool" where
  "published ns row_name same rows before after \<longleftrightarrow>
     (\<forall>k. case find (\<lambda>r. (ns, row_name r) = k) (rev rows) of
            None \<Rightarrow> after k = before k
          | Some r \<Rightarrow> (\<exists>x. after k = Some x \<and> same r (ko_spec x)))"

lemma published_Nil [simp]: "published ns nm same [] before after \<longleftrightarrow> after = before"
  by (auto simp: published_def fun_eq_iff)

lemma find_snoc:
  "find P (xs @ [x]) = (case find P xs of None \<Rightarrow> if P x then Some x else None | Some y \<Rightarrow> Some y)"
  by (induction xs) auto

lemma published_Cons:
  assumes "\<exists>x. mid (ns, nm r) = Some x \<and> same r (ko_spec x)" and "\<And>k. k \<noteq> (ns, nm r) \<Longrightarrow> mid k = before k"
    and "published ns nm same rows mid after"
  shows "published ns nm same (r # rows) before after"
  unfolding published_def
proof
  fix k
  have a: "case find (\<lambda>r. (ns, nm r) = k) (rev rows) of None \<Rightarrow> after k = mid k
      | Some r \<Rightarrow> (\<exists>x. after k = Some x \<and> same r (ko_spec x))"
    using assms(3) unfolding published_def by blast
  show "case find (\<lambda>r. (ns, nm r) = k) (rev (r # rows)) of None \<Rightarrow> after k = before k
      | Some r \<Rightarrow> (\<exists>x. after k = Some x \<and> same r (ko_spec x))"
    using a assms(1,2)
    by (cases "find (\<lambda>r. (ns, nm r) = k) (rev rows)") (auto simp: find_snoc)
qed

lemma time_ptr_equal_iff [simp]: "time_ptr_equal a b \<longleftrightarrow> a = b"
  by (cases a; cases b) auto

text \<open>A loop of the job: how a row is named, what it wants, and how an object is changed to agree.\<close>

locale object_sync = kube_kind K ko_key objs
  for K :: "('w, 's kobject) kind" and objs :: "'w \<Rightarrow> object_key \<Rightarrow> 's kobject option" +
  fixes label ns :: string and row_name :: "'r \<Rightarrow> string" and same :: "'r \<Rightarrow> 's \<Rightarrow> bool"
    and spec :: "'r \<Rightarrow> 's" and change :: "'r \<Rightarrow> 's \<Rightarrow> 's"
  assumes same_spec: "same r (spec r)" and same_change: "same r (change r s)"
begin

lemma sync_one:
  assumes "run_state (sync_object K label ns (row_name r) (same r) (spec r) (change r)) w = (Inr u, w')"
  shows "(\<exists>x. objs w' (ns, row_name r) = Some x \<and> same r (ko_spec x)) \<and>
    (\<forall>k. k \<noteq> (ns, row_name r) \<longrightarrow> objs w' k = objs w k)"
proof -
  obtain g w1 where g: "run_state (kd_get K (ns, row_name r)) w = (g, w1)"
    by (cases "run_state (kd_get K (ns, row_name r)) w")
  show ?thesis
  proof (cases g)
    case (Inl e)
    let ?x = "\<lparr>ko_name = row_name r, ko_namespace = ns, ko_spec = spec r, ko_rest = []\<rparr>"
    obtain c where "run_state (kd_create K ?x) w1 = (Inr c, w')"
      using assms g Inl by (auto simp: sync_object_def split: if_splits prod.splits sum.splits)
    from create_Ok[OF this] show ?thesis using get_objs[OF g] same_spec by (simp add: ko_key_def)
  next
    case (Inr x)
    then have x: "objs w (ns, row_name r) = Some x" "objs w1 = objs w" "ko_key x = (ns, row_name r)"
      using get_Ok g by auto
    show ?thesis
    proof (cases "same r (ko_spec x)")
      case True
      then show ?thesis using assms g Inr x by (simp add: sync_object_def)
    next
      case False
      then obtain c where "run_state (kd_update K (x\<lparr>ko_spec := change r (ko_spec x)\<rparr>)) w1 = (Inr c, w')"
        using assms g Inr by (auto simp: sync_object_def split: prod.splits sum.splits)
      from update_Ok[OF this] show ?thesis using x same_change by (simp add: ko_key_def)
    qed
  qed
qed

lemma rows_published:
  "run_state (for_each_try rows (\<lambda>r. sync_object K label ns (row_name r) (same r) (spec r) (change r))) w = (Inr u, w')
   \<Longrightarrow> published ns row_name same rows (objs w) (objs w')"
proof (induction rows arbitrary: w)
  case (Cons r rows)
  obtain u1 w1 where r: "run_state (sync_object K label ns (row_name r) (same r) (spec r) (change r)) w = (Inr u1, w1)"
    and rest: "run_state (for_each_try rows (\<lambda>r. sync_object K label ns (row_name r) (same r) (spec r) (change r))) w1
       = (Inr u, w')"
    using Cons.prems by (auto split: prod.splits sum.splits)
  from published_Cons[OF _ _ Cons.IH[OF rest]] sync_one[OF r] show ?case by blast
qed simp

end

section \<open>What a call leaves alone\<close>

lemma sync_object_keeps:
  "kind_keeps f K \<Longrightarrow> keeps (same_part f) (sync_object K label ns name same spec change)"
  unfolding sync_object_def by (auto simp: kind_keeps_def split: sum.split intro!: keeps_part)

text \<open>The reads of the database the job makes.\<close>

definition reads_keep :: "('w \<Rightarrow> 'p) \<Rightarrow> 'w gorm \<Rightarrow> bool" where
  "reads_keep f G \<longleftrightarrow>
     (\<forall>p. keeps (same_part f) (t_find (companies G) p)) \<and> (\<forall>p. keeps (same_part f) (t_find (staff_members G) p)) \<and>
     (\<forall>p. keeps (same_part f) (t_find (foundations G) p)) \<and> (\<forall>p. keeps (same_part f) (t_find (maintainers G) p)) \<and>
     (\<forall>p. keeps (same_part f) (t_find (projects G) p)) \<and> (\<forall>m. keeps (same_part f) (load_company G m)) \<and>
     (\<forall>i. keeps (same_part f) (load_maintainers G i))"

lemma loads_keep:
  assumes "reads_keep f G"
  shows "keeps (same_part f) (preload_foundations G ss)" and "keeps (same_part f) (preload_companies G ms)"
    and "keeps (same_part f) (preload_maintainers G ps)"
proof -
  note a = assms[unfolded reads_keep_def]
  show "keeps (same_part f) (preload_foundations G ss)" by (induction ss) (auto simp: a intro!: keeps_part)
  show "keeps (same_part f) (preload_companies G ms)" by (induction ms) (auto simp: a intro!: keeps_part)
  show "keeps (same_part f) (preload_maintainers G ps)" by (induction ps) (auto simp: a intro!: keeps_part)
qed

lemma lists_keep:
  assumes "reads_keep f G"
  shows "keeps (same_part f) (list_companies G)" and "keeps (same_part f) (list_staff_members G)"
    and "keeps (same_part f) (get_maintainer_map_by_email G)" and "keeps (same_part f) (get_project_map_by_name G)"
  unfolding list_companies_def list_staff_members_def get_maintainer_map_by_email_def get_project_map_by_name_def
  using assms loads_keep[OF assms] by (auto simp: reads_keep_def intro!: keeps_part)

section \<open>The job on a database and a cluster\<close>

lemma sync_step_OkD:
  "run_state (sync_step label m) w = (Inr u, w') \<Longrightarrow> run_state m w = (Inr u, w')"
  by (auto simp: sync_step_def split: prod.splits sum.splits)

lemma for_each_try_append:
  "run_state (for_each_try (xs @ ys) body) w =
   run_state (try_bind (for_each_try xs body) (\<lambda>_. for_each_try ys body)) w"
  by (induction xs arbitrary: w) (auto split: prod.splits sum.splits)

lemma for_each_try_map: "for_each_try (map f xs) body = for_each_try xs (\<lambda>x. body (f x))"
  by (induction xs) auto

text \<open>Two nested loops are one loop over the pairs.\<close>

lemma for_each_try_concat:
  "run_state (for_each_try (concat (map (\<lambda>x. map (Pair x) (ys x)) xs)) (\<lambda>(x, y). body x y)) w =
   run_state (for_each_try xs (\<lambda>x. for_each_try (ys x) (body x))) w"
  by (induction xs arbitrary: w) (auto simp: for_each_try_append for_each_try_map split: prod.splits sum.splits)

text \<open>The rows the loops over maps run through.\<close>

definition maintainer_rows :: "tables \<Rightarrow> loaded_maintainer list \<Rightarrow> bool" where
  "maintainer_rows t ms \<longleftrightarrow>
     distinct (map mt_email ms) \<and> mt_email ` set ms = mt_email ` set (tb_maintainers t) \<and>
     set ms \<subseteq> (\<lambda>m. with_company (company_of t m) m) ` set (tb_maintainers t)"

definition project_rows :: "tables \<Rightarrow> loaded_project list \<Rightarrow> bool" where
  "project_rows t ps \<longleftrightarrow>
     distinct (map pr_name ps) \<and> pr_name ` set ps = pr_name ` set (tb_projects t) \<and>
     (\<forall>lp \<in> set ps. \<exists>p \<in> set (tb_projects t). \<exists>ms. lp = with_associations ms [] p \<and>
        mset ms = mset (maintainers_of t (row_id p)))"

text \<open>A Go range over a map visits every entry once.\<close>

lemma range_rows:
  assumes "map_indexes f m vs" and "\<And>xs. mset (order xs) = mset xs"
  shows "distinct (map f (order (map snd m)))" and "f ` set (order (map snd m)) = f ` vs"
    and "set (order (map snd m)) \<subseteq> vs"
proof -
  have ms: "mset (order (map snd m)) = mset (map snd m)" using assms(2) .
  have k: "map f (map snd m) = map fst m"
    using assms(1) by (auto simp: map_indexes_def)
  have "mset (map f (order (map snd m))) = mset (map f (map snd m))"
    by (simp only: mset_map ms)
  then show "distinct (map f (order (map snd m)))"
    using assms(1) unfolding k by (metis map_indexes_def mset_eq_imp_distinct_iff)
  have s: "set (order (map snd m)) = set (map snd m)" using ms by (metis mset_eq_setD)
  then show "set (order (map snd m)) \<subseteq> vs" using assms(1) by (simp add: map_indexes_def)
  have "f ` set (map snd m) = set (map fst m)" using k by (metis list.set_map)
  then show "f ` set (order (map snd m)) = f ` vs" using s assms(1) by (simp add: map_indexes_def)
qed

text \<open>The cluster's calls keep the contract of a kind, and change nothing of another kind or of the database.\<close>

locale sync_site = gorm_db G tabs +
  kc: kube_kind "sc_companies c" ko_key oc + ks: kube_kind "sc_staff c" ko_key os +
  km: kube_kind "sc_maintainers c" ko_key om + kp: kube_kind "sc_projects c" ko_key op +
  kb: kube_kind "sc_memberships c" ko_key ob
  for G :: "'w gorm" and tabs :: "'w \<Rightarrow> db" and c :: "'w sync_client"
    and oc :: "'w \<Rightarrow> object_key \<Rightarrow> company_spec kobject option"
    and os :: "'w \<Rightarrow> object_key \<Rightarrow> staff_spec kobject option"
    and om :: "'w \<Rightarrow> object_key \<Rightarrow> maintainer_spec kobject option"
    and op :: "'w \<Rightarrow> object_key \<Rightarrow> project_spec kobject option"
    and ob :: "'w \<Rightarrow> object_key \<Rightarrow> membership_spec kobject option" +
  assumes reads: "reads_keep (\<lambda>w. (oc w, os w, om w, op w, ob w)) G"
    and companies_frame: "kind_keeps (\<lambda>w. (tabs w, os w, om w, op w, ob w)) (sc_companies c)"
    and staff_frame: "kind_keeps (\<lambda>w. (tabs w, oc w, om w, op w, ob w)) (sc_staff c)"
    and maintainers_frame: "kind_keeps (\<lambda>w. (tabs w, oc w, os w, op w, ob w)) (sc_maintainers c)"
    and projects_frame: "kind_keeps (\<lambda>w. (tabs w, oc w, os w, om w, ob w)) (sc_projects c)"
    and memberships_frame: "kind_keeps (\<lambda>w. (tabs w, oc w, os w, om w, op w)) (sc_memberships c)"
begin

lemma read_frame:
  assumes "keeps (same_part (\<lambda>w. (oc w, os w, om w, op w, ob w))) m" and "run_state m w = (r, w')"
  shows "oc w' = oc w \<and> os w' = os w \<and> om w' = om w \<and> op w' = op w \<and> ob w' = ob w"
  using keepsD[OF assms] by (auto simp: same_part_def)

lemma loop_frame:
  assumes "kind_keeps f K" and "\<And>r. body r = sync_object K (l r) ns (nm r) (sm r) (sp r) (ch r)"
    and "run_state (for_each_try rows body) w = (r, w')"
  shows "f w' = f w"
proof -
  have "keeps (same_part f) (body r)" for r by (simp add: assms(2) sync_object_keeps[OF assms(1)])
  from keepsD[OF keeps_for_each_try[OF this] assms(3)] show ?thesis by (simp add: same_part_def)
qed

lemma companies_step:
  assumes "run_state (sync_companies G c ns) w = (Inr u, w')"
  shows "(tabs w', os w', om w', op w', ob w') = (tabs w, os w, om w, op w, ob w) \<and>
    (\<exists>rows. mset rows = mset (tb_companies (cur (tabs w))) \<and>
       published ns (\<lambda>co. sanitize_name (co_name co)) (\<lambda>co s. cs_display_name s = co_name co) rows (oc w) (oc w'))"
proof -
  obtain rows w1 where r: "run_state (list_companies G) w = (Inr rows, w1)"
    and l: "run_state (for_each_try rows (sync_company c ns)) w1 = (Inr u, w')"
    using assms unfolding sync_companies_def by (elim run_try_OkE)
  have t: "tabs w1 = tabs w" "mset rows = mset (tb_companies (cur (tabs w)))"
    using co.find_Ok r unfolding list_companies_def by fastforce+
  have s: "object_sync (sc_companies c) oc (\<lambda>co s. cs_display_name s = co_name co) company_spec_of
      (\<lambda>co s. s\<lparr>cs_display_name := co_name co\<rparr>)"
    by unfold_locales (simp_all add: company_spec_of_def)
  have e: "sync_company c ns = (\<lambda>co. sync_object (sc_companies c) ''company'' ns (sanitize_name (co_name co))
       (\<lambda>s. cs_display_name s = co_name co) (company_spec_of co) (\<lambda>s. s\<lparr>cs_display_name := co_name co\<rparr>))"
    by (auto simp: sync_company_def)
  note p = object_sync.rows_published[OF s, of rows "''company''" ns "\<lambda>co. sanitize_name (co_name co)" w1 u w']
  have "(tabs w', os w', om w', op w', ob w') = (tabs w1, os w1, om w1, op w1, ob w1)"
    using loop_frame[OF companies_frame _ l] by (simp add: sync_company_def)
  then show ?thesis using p l e t read_frame[OF lists_keep(1)[OF reads] r] by auto
qed

lemma staff_step:
  assumes "run_state (sync_staff G c ns) w = (Inr u, w')"
  shows "(tabs w', oc w', om w', op w', ob w') = (tabs w, oc w, om w, op w, ob w) \<and>
    (\<exists>rows. fst ` set rows = set (tb_staff (cur (tabs w))) \<and>
       published ns (\<lambda>r. sanitize_name (staff_name_source (fst r)))
         (\<lambda>r s. staff_spec_equal s (staff_spec_of (fst r) (snd r))) rows (os w) (os w'))"
proof -
  obtain rows w1 where r: "run_state (list_staff_members G) w = (Inr rows, w1)"
    and l: "run_state (for_each_try rows (sync_staff_member c ns)) w1 = (Inr u, w')"
    using assms unfolding sync_staff_def by (elim run_try_OkE)
  have s: "object_sync (sc_staff c) os (\<lambda>r s. staff_spec_equal s (staff_spec_of (fst r) (snd r)))
      (\<lambda>r. staff_spec_of (fst r) (snd r)) (\<lambda>r _. staff_spec_of (fst r) (snd r))"
    by unfold_locales (simp_all add: staff_spec_equal_def same_ref_def)
  have e: "sync_staff_member c ns = (\<lambda>r. sync_object (sc_staff c) ''staffmember'' ns
       (sanitize_name (staff_name_source (fst r))) (\<lambda>s. staff_spec_equal s (staff_spec_of (fst r) (snd r)))
       (staff_spec_of (fst r) (snd r)) (\<lambda>_. staff_spec_of (fst r) (snd r)))"
    by (auto simp: sync_staff_member_def Let_def)
  note p = object_sync.rows_published[OF s, of rows "''staffmember''" ns
      "\<lambda>r. sanitize_name (staff_name_source (fst r))" w1 u w']
  have "(tabs w', oc w', om w', op w', ob w') = (tabs w1, oc w1, om w1, op w1, ob w1)"
    using loop_frame[OF staff_frame _ l] by (simp add: sync_staff_member_def Let_def)
  then show ?thesis using p l e list_staff_members_Ok[OF r] read_frame[OF lists_keep(2)[OF reads] r] by auto
qed

lemma maintainers_step:
  assumes "run_state (sync_maintainers G c mo ns) w = (Inr u, w')" and mo: "\<And>xs. mset (mo xs) = mset xs"
  shows "(tabs w', oc w', os w', op w', ob w') = (tabs w, oc w, os w, op w, ob w) \<and>
    (\<exists>rows. maintainer_rows (cur (tabs w)) rows \<and>
       published ns (\<lambda>m. sanitize_name (mt_email m))
         (\<lambda>m s. maintainer_spec_equal s (maintainer_spec_of m)) rows (om w) (om w'))"
proof -
  obtain mm w1 where r: "run_state (get_maintainer_map_by_email G) w = (Inr mm, w1)"
    and l: "run_state (for_each_try (mo (map snd mm)) (sync_maintainer c ns)) w1 = (Inr u, w')"
    using assms unfolding sync_maintainers_def by (elim run_try_OkE)
  have rows: "maintainer_rows (cur (tabs w)) (mo (map snd mm))"
    using range_rows[OF maintainer_map_by_email_Ok[OF r, THEN conjunct2], of mo, OF mo]
    by (simp add: maintainer_rows_def image_image)
  have s: "object_sync (sc_maintainers c) om (\<lambda>m s. maintainer_spec_equal s (maintainer_spec_of m))
      maintainer_spec_of (\<lambda>m _. maintainer_spec_of m)"
    by unfold_locales (simp_all add: maintainer_spec_equal_def same_ref_def)
  have e: "sync_maintainer c ns = (\<lambda>m. sync_object (sc_maintainers c) ''maintainer'' ns (sanitize_name (mt_email m))
       (\<lambda>s. maintainer_spec_equal s (maintainer_spec_of m)) (maintainer_spec_of m) (\<lambda>_. maintainer_spec_of m))"
    by (auto simp: sync_maintainer_def Let_def)
  note p = object_sync.rows_published[OF s, of "mo (map snd mm)" "''maintainer''" ns
      "\<lambda>m. sanitize_name (mt_email m)" w1 u w']
  have "(tabs w', oc w', os w', op w', ob w') = (tabs w1, oc w1, os w1, op w1, ob w1)"
    using loop_frame[OF maintainers_frame _ l] by (simp add: sync_maintainer_def Let_def)
  then show ?thesis
    using p l e rows maintainer_map_by_email_Ok[OF r] read_frame[OF lists_keep(3)[OF reads] r] by auto
qed

lemma project_rows_range:
  assumes "run_state (get_project_map_by_name G) w = (Inr mm, w1)" and "\<And>xs. mset (order xs) = mset xs"
  shows "project_rows (cur (tabs w)) (order (map snd mm))"
proof -
  obtain lps where l: "map_indexes pr_name mm (set lps)"
    "\<forall>lp \<in> set lps. \<exists>p \<in> set (tb_projects (cur (tabs w))). \<exists>ms. lp = with_associations ms [] p \<and>
       mset ms = mset (maintainers_of (cur (tabs w)) (row_id p))"
    "pr_name ` set lps = pr_name ` set (tb_projects (cur (tabs w)))"
    using project_map_by_name_Ok[OF assms(1)] by blast
  show ?thesis unfolding project_rows_def
    using range_rows[OF l(1), of order, OF assms(2)] l(2,3) by (simp add: subset_iff)
qed

lemma projects_step:
  assumes "run_state (sync_projects G c o1 o2 ns) w = (Inr u, w')" and "\<And>xs. mset (o2 xs) = mset xs"
  shows "(tabs w', oc w', os w', om w', ob w') = (tabs w, oc w, os w, om w, ob w) \<and>
    (\<exists>rows parents. project_rows (cur (tabs w)) rows \<and>
       published ns (\<lambda>p. sanitize_name (pr_name p))
         (\<lambda>p s. project_spec_equal s (project_spec_of parents p)) rows (op w) (op w'))"
proof -
  obtain mm w1 where r: "run_state (get_project_map_by_name G) w = (Inr mm, w1)"
    and l: "run_state (for_each_try (o2 (map snd mm))
       (sync_project c ns (parent_name_by_id (o1 (map snd mm))))) w1 = (Inr u, w')"
    using assms unfolding sync_projects_def by (elim run_try_OkE)
  define ids where "ids = parent_name_by_id (o1 (map snd mm))"
  have s: "object_sync (sc_projects c) op (\<lambda>p s. project_spec_equal s (project_spec_of ids p))
      (project_spec_of ids) (\<lambda>p _. project_spec_of ids p)"
    by unfold_locales (simp_all add: project_spec_equal_def same_ref_def list_all_iff)
  have e: "sync_project c ns ids = (\<lambda>p. sync_object (sc_projects c) ''project'' ns (sanitize_name (pr_name p))
       (\<lambda>s. project_spec_equal s (project_spec_of ids p)) (project_spec_of ids p) (\<lambda>_. project_spec_of ids p))"
    by (auto simp: sync_project_def Let_def)
  note p = object_sync.rows_published[OF s, of "o2 (map snd mm)" "''project''" ns
      "\<lambda>p. sanitize_name (pr_name p)" w1 u w']
  have "(tabs w', oc w', os w', om w', ob w') = (tabs w1, oc w1, os w1, om w1, ob w1)"
    using loop_frame[OF projects_frame _ l] by (simp add: sync_project_def Let_def)
  then show ?thesis
    using p l[folded ids_def] e project_rows_range[OF r, of o2] assms(2) project_map_by_name_Ok[OF r]
      read_frame[OF lists_keep(4)[OF reads] r] by auto
qed

lemma memberships_step:
  assumes "run_state (sync_memberships G c order ns) w = (Inr u, w')" and "\<And>xs. mset (order xs) = mset xs"
  shows "(tabs w', oc w', os w', om w', op w') = (tabs w, oc w, os w, om w, op w) \<and>
    (\<exists>rows. project_rows (cur (tabs w)) rows \<and>
       published ns (\<lambda>(p, m). sanitize_name (pr_name p @ ''-'' @ mt_email m))
         (\<lambda>(p, m) s. membership_spec_equal s (membership_spec_of p m))
         (concat (map (\<lambda>p. map (Pair p) (pr_maintainers p)) rows)) (ob w) (ob w'))"
proof -
  obtain mm w1 where r: "run_state (get_project_map_by_name G) w = (Inr mm, w1)"
    and l: "run_state (for_each_try (order (map snd mm))
       (\<lambda>p. for_each_try (pr_maintainers p) (sync_membership c ns p))) w1 = (Inr u, w')"
    using assms unfolding sync_memberships_def by (elim run_try_OkE)
  let ?pairs = "concat (map (\<lambda>p. map (Pair p) (pr_maintainers p)) (order (map snd mm)))"
  have l': "run_state (for_each_try ?pairs (\<lambda>(p, m). sync_membership c ns p m)) w1 = (Inr u, w')"
    using l by (simp add: for_each_try_concat)
  have s: "object_sync (sc_memberships c) ob (\<lambda>(p, m) s. membership_spec_equal s (membership_spec_of p m))
      (\<lambda>(p, m). membership_spec_of p m) (\<lambda>(p, m) _. membership_spec_of p m)"
    by unfold_locales (simp_all add: membership_spec_equal_def split: prod.splits)
  have e: "(\<lambda>(p, m). sync_membership c ns p m) = (\<lambda>r. sync_object (sc_memberships c) ''membership'' ns
       ((\<lambda>(p, m). sanitize_name (pr_name p @ ''-'' @ mt_email m)) r)
       ((\<lambda>(p, m) s. membership_spec_equal s (membership_spec_of p m)) r)
       ((\<lambda>(p, m). membership_spec_of p m) r) ((\<lambda>(p, m) _. membership_spec_of p m) r))"
    by (auto simp: sync_membership_def Let_def fun_eq_iff)
  note p = object_sync.rows_published[OF s, of ?pairs "''membership''" ns
      "\<lambda>(p, m). sanitize_name (pr_name p @ ''-'' @ mt_email m)" w1 u w']
  have "(tabs w', oc w', os w', om w', op w') = (tabs w1, oc w1, os w1, om w1, op w1)"
    by (rule loop_frame[OF memberships_frame _ l']) (simp only: e)
  then show ?thesis
    using p l' e project_rows_range[OF r, of order] assms(2) project_map_by_name_Ok[OF r]
      read_frame[OF lists_keep(4)[OF reads] r] by auto
qed

text \<open>The loops one after the other.\<close>

lemma sync_all_publishes:
  assumes mo: "\<And>xs. mset (mo xs) = mset xs" and po: "\<And>i xs. mset (po i xs) = mset xs"
    and run: "run_state (sync_all G c mo po ns) w = (Inr u, w')"
  shows "tabs w' = tabs w \<and>
    (\<exists>rows. mset rows = mset (tb_companies (cur (tabs w))) \<and>
       published ns (\<lambda>co. sanitize_name (co_name co)) (\<lambda>co s. cs_display_name s = co_name co) rows (oc w) (oc w')) \<and>
    (\<exists>rows. fst ` set rows = set (tb_staff (cur (tabs w))) \<and>
       published ns (\<lambda>r. sanitize_name (staff_name_source (fst r)))
         (\<lambda>r s. staff_spec_equal s (staff_spec_of (fst r) (snd r))) rows (os w) (os w')) \<and>
    (\<exists>rows. maintainer_rows (cur (tabs w)) rows \<and>
       published ns (\<lambda>m. sanitize_name (mt_email m))
         (\<lambda>m s. maintainer_spec_equal s (maintainer_spec_of m)) rows (om w) (om w')) \<and>
    (\<exists>rows parents. project_rows (cur (tabs w)) rows \<and>
       published ns (\<lambda>p. sanitize_name (pr_name p))
         (\<lambda>p s. project_spec_equal s (project_spec_of parents p)) rows (op w) (op w')) \<and>
    (\<exists>rows. project_rows (cur (tabs w)) rows \<and>
       published ns (\<lambda>(p, m). sanitize_name (pr_name p @ ''-'' @ mt_email m))
         (\<lambda>(p, m) s. membership_spec_equal s (membership_spec_of p m))
         (concat (map (\<lambda>p. map (Pair p) (pr_maintainers p)) rows)) (ob w) (ob w'))"
proof -
  obtain w1 w2 w3 w4 u1 u2 u3 u4 where
    1: "run_state (sync_companies G c ns) w = (Inr u1, w1)" and
    2: "run_state (sync_staff G c ns) w1 = (Inr u2, w2)" and
    3: "run_state (sync_maintainers G c mo ns) w2 = (Inr u3, w3)" and
    4: "run_state (sync_projects G c (po 0) (po 1) ns) w3 = (Inr u4, w4)" and
    5: "run_state (sync_memberships G c (po 2) ns) w4 = (Inr u, w')"
    using run unfolding sync_all_def
    by (elim run_try_OkE) (rule that, (erule sync_step_OkD)+)
  note s = companies_step[OF 1] staff_step[OF 2]
    maintainers_step[OF 3 mo]
    projects_step[OF 4 po] memberships_step[OF 5 po]
  show ?thesis
    using s(1)[THEN conjunct2] s(2)[THEN conjunct2] s(3)[THEN conjunct2] s(4)[THEN conjunct2] s(5)[THEN conjunct2]
    using s[THEN conjunct1] by simp
qed

lemmas sync_all_staff = sync_all_publishes[THEN conjunct2, THEN conjunct2, THEN conjunct1]

end

section \<open>A site in memory\<close>

record sync_world = mem_world +
  sy_companies :: "company_spec kobject list"
  sy_staff :: "staff_spec kobject list"
  sy_maintainers :: "maintainer_spec kobject list"
  sy_projects :: "project_spec kobject list"
  sy_memberships :: "membership_spec kobject list"

definition mem_client :: "sync_world sync_client" where
  "mem_client =
     \<lparr>sc_companies = mem_kind ko_key sy_companies (\<lambda>x w. w\<lparr>sy_companies := x\<rparr>),
      sc_staff = mem_kind ko_key sy_staff (\<lambda>x w. w\<lparr>sy_staff := x\<rparr>),
      sc_maintainers = mem_kind ko_key sy_maintainers (\<lambda>x w. w\<lparr>sy_maintainers := x\<rparr>),
      sc_projects = mem_kind ko_key sy_projects (\<lambda>x w. w\<lparr>sy_projects := x\<rparr>),
      sc_memberships = mem_kind ko_key sy_memberships (\<lambda>x w. w\<lparr>sy_memberships := x\<rparr>)\<rparr>"

interpretation site: sync_site mem_gorm mw_db mem_client
  "\<lambda>w k. find_obj ko_key k (sy_companies w)" "\<lambda>w k. find_obj ko_key k (sy_staff w)"
  "\<lambda>w k. find_obj ko_key k (sy_maintainers w)" "\<lambda>w k. find_obj ko_key k (sy_projects w)"
  "\<lambda>w k. find_obj ko_key k (sy_memberships w)"
proof (intro sync_site.intro sync_site_axioms.intro)
  show "gorm_db mem_gorm mw_db" by (rule mem.gorm_db_axioms)
  show "reads_keep (\<lambda>w. (\<lambda>k. find_obj ko_key k (sy_companies w), \<lambda>k. find_obj ko_key k (sy_staff w),
      \<lambda>k. find_obj ko_key k (sy_maintainers w), \<lambda>k. find_obj ko_key k (sy_projects w),
      \<lambda>k. find_obj ko_key k (sy_memberships w))) mem_gorm"
    by (auto simp: reads_keep_def mem_gorm_def mem_table_def mem_read_def same_part_def intro!: keepsI)
qed (simp_all add: mem_client_def mem_kind_contract mem_kind_keeps)

interpretation company_loop: object_sync "sc_companies mem_client" "\<lambda>w k. find_obj ko_key k (sy_companies w)"
  "''company''" ns "\<lambda>co. sanitize_name (co_name co)" "\<lambda>co s. cs_display_name s = co_name co" company_spec_of
  "\<lambda>co s. s\<lparr>cs_display_name := co_name co\<rparr>" for ns
  by unfold_locales (simp_all add: company_spec_of_def)

section \<open>Properties\<close>

text \<open>
  C35: whatever the text, the name made of it is not empty, has at most 63 characters, all of them
  lower case letters, digits, dashes or dots, neither begins nor ends with a dash or a dot, and is
  its own name.
\<close>

theorem object_names_are_bounded:
  "let n = sanitize_name s in
     0 < length n \<and> length n \<le> 63 \<and> list_all object_name_char n \<and>
     hd n \<notin> {CHR ''-'', CHR ''.''} \<and> last n \<notin> {CHR ''-'', CHR ''.''} \<and> sanitize_name n = n"
  using sanitize_name_good[of s] sanitize_good_id[OF sanitize_name_good[of s]]
  by (simp add: good_name_def Let_def)

text \<open>
  When the wanted project lists no maintainer twice, \<^verbatim>\<open>projectSpecEqual\<close> says yes exactly when the
  two specs agree on name, maturity, list, issue, parent and lead, and list the same maintainers
  in some order.
\<close>

theorem project_spec_equal_exact:
  assumes "distinct (map rr_name (ps_maintainer_refs b))"
  shows "project_spec_equal a b \<longleftrightarrow>
    (ps_display_name a, ps_maturity a, ps_mailing_list a, ps_onboarding_issue a) =
      (ps_display_name b, ps_maturity b, ps_mailing_list b, ps_onboarding_issue b) \<and>
    map_option rr_name (ps_parent_ref a) = map_option rr_name (ps_parent_ref b) \<and>
    map_option rr_name (ps_lead_ref a) = map_option rr_name (ps_lead_ref b) \<and>
    mset (map rr_name (ps_maintainer_refs a)) = mset (map rr_name (ps_maintainer_refs b))"
  unfolding project_spec_equal_def same_ref_def using same_names_mset[OF assms, of "map rr_name (ps_maintainer_refs a)"]
  by (auto simp: list_all_iff)

definition demo_spec :: project_spec where
  "demo_spec = \<lparr>ps_display_name = ''alpha'', ps_maturity = ''Sandbox'', ps_parent_ref = None, ps_lead_ref = None,
     ps_onboarding_issue = [], ps_mailing_list = [], ps_foundation_ref = None,
     ps_maintainer_refs = [ref_to ''ann'', ref_to ''bob''], ps_collaborator_refs = [], ps_service_refs = [],
     ps_tags = []\<rparr>"

theorem project_spec_equal_exact_witness:
  "project_spec_equal (demo_spec\<lparr>ps_maintainer_refs := [ref_to ''bob'', ref_to ''ann'']\<rparr>) demo_spec \<and>
   \<not> project_spec_equal (demo_spec\<lparr>ps_maintainer_refs := [ref_to ''bob'', ref_to ''bob'']\<rparr>) demo_spec"
proof -
  have d: "distinct (map rr_name (ps_maintainer_refs demo_spec))" by code_simp
  show ?thesis
    using project_spec_equal_exact[OF d] by (simp add: demo_spec_def ref_to_def add_mset_commute)
qed

text \<open>With a maintainer listed twice the comparison is one-sided: a changed project passes for unchanged.\<close>

lemma project_spec_equal_misses_duplicates:
  "project_spec_equal demo_spec (demo_spec\<lparr>ps_maintainer_refs := [ref_to ''ann'', ref_to ''ann'']\<rparr>)"
  by code_simp


definition demo_sync :: sync_world where
  "demo_sync = mem_world.extend demo_world (sync_world.fields [] [] [] [] [])"


end
