(* ===== verification/Kdp_Laws.thy ===== *)
theory Kdp_Laws
  imports Kdp_Workspaces
begin

text \<open>
  What the workspace operator guarantees: the contracts of the API servers it talks to and of the
  poll, with an interpretation in memory, and the properties of the two reconcilers.
\<close>

section \<open>A project and its workspace\<close>

definition ready_workspace :: "(object_key \<Rightarrow> workspace option) \<Rightarrow> string \<Rightarrow> bool" where
  "ready_workspace objs n \<longleftrightarrow> (\<exists>path x. objs (path, n) = Some x \<and> wk_phase x = phase_ready)"

text \<open>
  The control plane of kcp brings a workspace up in its own time: its phase and its URL change while
  the operator waits.  What stays is the shape.
\<close>

definition workspace_shape :: "workspace \<Rightarrow> workspace" where
  "workspace_shape x = x\<lparr>wk_phase := [], wk_url := []\<rparr>"

definition shapes :: "(object_key \<Rightarrow> workspace option) \<Rightarrow> object_key \<Rightarrow> workspace option" where
  "shapes objs k = map_option workspace_shape (objs k)"

lemma shape_annotations: "workspace_shape x = workspace_shape y \<Longrightarrow> wk_annotations x = wk_annotations y"
  by (cases x; cases y) (simp add: workspace_shape_def)

lemma shapes_same:
  assumes "shapes f k = shapes g k"
  shows "f k = None \<longleftrightarrow> g k = None" and "f k = Some x \<Longrightarrow> \<exists>y. g k = Some y \<and> wk_annotations y = wk_annotations x"
  using assms by (auto simp: shapes_def map_option_case split: option.splits dest: shape_annotations)

definition by_operator :: "workspace \<Rightarrow> bool" where
  "by_operator x \<longleftrightarrow> map_get (wk_annotations x) ''managed-by'' = operator_name"

text \<open>
  The contracts of projects and workspaces; nothing but a call on workspaces, and time, changes one.
  A poll succeeds right after a check that said yes; between its checks time passes.
\<close>

locale project_site =
  pj: kube_kind "ke_projects E" kp_key pjs + wk: kube_kind "ke_workspaces E" wk_key wss
  for E :: "'w kdp_env" and pjs :: "'w \<Rightarrow> object_key \<Rightarrow> kproject option"
    and wss :: "'w \<Rightarrow> object_key \<Rightarrow> workspace option" +
  assumes projects_frame: "kind_keeps wss (ke_projects E)"
    and config_frame: "keeps (same_part (\<lambda>w. (wss w, pjs w))) (ke_config_map E k)"
      "keeps (same_part (\<lambda>w. (wss w, pjs w))) (ke_secret E k)"
    and clock_frame: "keeps (same_part wss) (ke_now E)"
    and set_condition_frame: "keeps (same_part wss) (ke_set_condition E c cs)"
    and poll_Ok: "run_state (ke_poll E m) s = (Inr u, s') \<Longrightarrow> \<exists>s1. run_state m s1 = (Inr True, s')"
    and poll_frame: "keeps (same_part (\<lambda>s. shapes (wss (fst s)))) m \<Longrightarrow>
      keeps (same_part (\<lambda>s. shapes (wss (fst s)))) (ke_poll E m)"
begin

lemma update_condition_keeps: "keeps (same_part wss) (update_condition E key c)"
  unfolding update_condition_def
  by (auto intro!: keeps_part kind_keepsD[OF projects_frame] set_condition_frame split: sum.split)

lemma update_workspace_status_keeps: "keeps (same_part wss) (update_workspace_status E key info)"
  unfolding update_workspace_status_def
  by (auto intro!: keeps_part kind_keepsD[OF projects_frame] update_condition_keeps clock_frame split: sum.split)

lemma report_keeps: "keeps (same_part wss) (report E key reason prefix t e)"
  unfolding report_def by (auto intro!: keeps_part update_condition_keeps)

lemma get_keeps: "keeps (same_part wss) (kd_get (ke_workspaces E) k)"
  by (auto simp: same_part_def dest: wk.get_objs intro!: keepsI)

lemma get_workspace_keeps: "keeps (same_part wss) (get_workspace E cfg n)"
  unfolding get_workspace_def by (auto intro!: keeps_part get_keeps)

lemma check_ready_keeps: "keeps (same_part (\<lambda>s. wss (fst s))) (check_ready E cfg n)"
proof -
  have "keeps (same_part (\<lambda>s. wss (fst s))) (on_world (get_workspace E cfg n))"
    using get_workspace_keeps
    by (auto simp: on_world_def keeps_def same_part_def split: prod.splits)
  moreover have "keeps (same_part (\<lambda>s. wss (fst s))) (set_variable v)" for v :: "workspace_info option"
    by (auto simp: set_variable_def keeps_def same_part_def)
  ultimately show ?thesis
    unfolding check_ready_def by (auto intro!: keeps_part split: sum.split option.split)
qed

lemma wait_keeps: "keeps (same_part (\<lambda>w. shapes (wss w))) (wait_for_workspace_ready E cfg n)"
proof (rule keepsI)
  fix w r w'
  assume run: "run_state (wait_for_workspace_ready E cfg n) w = (r, w')"
  obtain x w1 v where p: "run_state (ke_poll E (check_ready E cfg n)) (w, None) = (x, (w1, v))"
    by (metis surj_pair)
  have "keeps (same_part (\<lambda>s. shapes (wss (fst s)))) (check_ready E cfg n)"
    using check_ready_keeps[of cfg n] by (auto simp: keeps_def same_part_def)
  from keepsD[OF poll_frame[OF this] p] have "shapes (wss w1) = shapes (wss w)" by (simp add: same_part_def)
  then show "same_part (\<lambda>w. shapes (wss w)) w w'"
    using run p by (auto simp: wait_for_workspace_ready_def same_part_def split: if_splits sum.splits option.splits)
qed

text \<open>A run may only add the workspace of the given name, where there was none, and marks it as its own.\<close>

definition only_adds :: "string \<Rightarrow> 'w \<Rightarrow> 'w \<Rightarrow> bool" where
  "only_adds n w w' \<longleftrightarrow> (\<forall>k. shapes (wss w') k \<noteq> shapes (wss w) k \<longrightarrow>
     snd k = n \<and> wss w k = None \<and> (\<exists>x. wss w' k = Some x \<and> by_operator x))"

lemma only_adds_trans:
  assumes "only_adds n u v" and "only_adds n v w"
  shows "only_adds n u w"
  unfolding only_adds_def
proof (intro allI impI)
  fix k assume d: "shapes (wss w) k \<noteq> shapes (wss u) k"
  show "snd k = n \<and> wss u k = None \<and> (\<exists>x. wss w k = Some x \<and> by_operator x)"
  proof (cases "shapes (wss v) k = shapes (wss u) k")
    case True
    then show ?thesis using d assms(2)[unfolded only_adds_def, THEN spec, of k] shapes_same(1)[OF True] by simp
  next
    case False
    then obtain x where x: "snd k = n" "wss u k = None" "wss v k = Some x" "by_operator x"
      using assms(1)[unfolded only_adds_def, THEN spec, of k] by blast
    then have e: "shapes (wss v) k = shapes (wss w) k"
      using assms(2)[unfolded only_adds_def, THEN spec, of k] by auto
    show ?thesis using x shapes_same(2)[OF e x(3)] by (auto simp: by_operator_def)
  qed
qed

lemma only_adds_order: "reflp (only_adds n)" "transp (only_adds n)"
  by (simp add: reflp_def only_adds_def) (use only_adds_trans in \<open>blast intro: transpI\<close>)

lemma only_adds_shapes: "keeps (same_part (\<lambda>w. shapes (wss w))) m \<Longrightarrow> keeps (only_adds n) m"
  by (auto simp: keeps_def same_part_def only_adds_def)

lemma only_adds_same: "keeps (same_part wss) m \<Longrightarrow> keeps (only_adds n) m"
  by (auto simp: keeps_def same_part_def only_adds_def)

lemma create_workspace_adds: "keeps (only_adds n) (create_workspace E cfg n ns rn)"
proof (rule keepsI)
  fix w r w'
  assume run: "run_state (create_workspace E cfg n ns rn) w = (r, w')"
  show "only_adds n w w'"
  proof (cases "n = []")
    case True
    then show ?thesis using run by (simp add: create_workspace_def only_adds_def)
  next
    case False
    then obtain x c where "run_state (kd_create (ke_workspaces E) x) w = (c, w')" "wk_name x = n" "by_operator x"
      using run by (auto simp: create_workspace_def by_operator_def map_get_def Let_def split: prod.splits)
    then show ?thesis
      using wk.create_Ok[of x w _ w'] wk.create_Err[of x w _ w']
      by (cases c) (auto simp: only_adds_def wk_key_def shapes_def)
  qed
qed

lemmas adds_rules = keeps_ret[OF only_adds_order(1)] keeps_bind[OF only_adds_order(2)]

lemma create_and_wait_adds: "keeps (only_adds n) (create_and_wait E cfg key n)"
  unfolding create_and_wait_def wait_and_publish_def
  by (auto intro!: adds_rules create_workspace_adds only_adds_shapes[OF wait_keeps] only_adds_same[OF report_keeps]
      only_adds_same[OF update_condition_keeps] only_adds_same[OF update_workspace_status_keeps]
      split: sum.split option.split)

lemma reconcile_workspace_adds: "keeps (only_adds (to_lower (snd key))) (reconcile_workspace E cfg key)"
  unfolding reconcile_workspace_def Let_def
  by (auto intro!: adds_rules create_and_wait_adds only_adds_same[OF get_workspace_keeps]
      only_adds_same[OF report_keeps] only_adds_same[OF update_workspace_status_keeps]
      split: sum.split option.split)

lemma load_config_keeps: "keeps (same_part (\<lambda>w. (wss w, pjs w))) (load_config_from_cluster E cn sn ns)"
  unfolding load_config_from_cluster_def by (auto intro!: keeps_part config_frame split: sum.split)

lemma load_config_part: "keeps (same_part wss) (load_config_from_cluster E cn sn ns)"
  using load_config_keeps[of cn sn ns] by (auto simp: keeps_def same_part_def)

lemma reconcile_known_adds: "keeps (only_adds (to_lower (snd key))) (reconcile_known E key)"
  unfolding reconcile_known_def
  by (auto intro!: adds_rules reconcile_workspace_adds only_adds_same[OF load_config_part]
      only_adds_same[OF report_keeps] split: sum.split)

lemma reconcile_project_adds:
  assumes "run_state (reconcile_project E req) w = (r, w')"
  shows "only_adds (to_lower (snd req)) w w'"
proof -
  obtain g w1 where g: "run_state (kd_get (ke_projects E) req) w = (g, w1)" by (metis surj_pair)
  have s: "wss w1 = wss w" using keepsD[OF kind_keepsD(1)[OF projects_frame] g] by (simp add: same_part_def)
  show ?thesis
  proof (cases g)
    case (Inl e)
    then show ?thesis using assms g s by (auto simp: reconcile_project_def only_adds_def)
  next
    case (Inr p)
    then have k: "kp_key p = req" using pj.get_Ok g by blast
    then have "run_state (reconcile_known E req) w1 = (r, w')"
      using assms g Inr by (simp add: reconcile_project_def)
    from keepsD[OF reconcile_known_adds this] s show ?thesis by (simp add: only_adds_def)
  qed
qed

text \<open>
  When a run says there is nothing more to do: it ended by publishing a workspace that is ready.
\<close>

definition ready_at :: "kcp_config \<Rightarrow> string \<Rightarrow> 'w \<Rightarrow> bool" where
  "ready_at cfg n w \<longleftrightarrow> (\<exists>x. wss w (kc_workspace_path cfg, n) = Some x \<and>
     wk_key x = (kc_workspace_path cfg, n) \<and> wk_phase x = phase_ready)"

lemma get_workspace_Some:
  assumes "run_state (get_workspace E cfg n) w = (Inr (Some info), w')" and "wi_ready info"
  shows "ready_at cfg n w'" and "wi_phase info = phase_ready"
proof -
  obtain x where "run_state (kd_get (ke_workspaces E) (kc_workspace_path cfg, n)) w = (Inr x, w')" "info = info_of x"
    using assms by (auto simp: get_workspace_def split: if_splits prod.splits sum.splits)
  then have "wss w' (kc_workspace_path cfg, n) = Some x" "wk_key x = (kc_workspace_path cfg, n)" "wk_phase x = phase_ready"
    using wk.get_Ok assms(2) by (auto simp: info_of_def)
  then show "ready_at cfg n w'" unfolding ready_at_def by blast
  show "wi_phase info = phase_ready" using assms(2) \<open>info = info_of x\<close> by (simp add: info_of_def)
qed

lemma wait_ready:
  assumes "run_state (wait_for_workspace_ready E cfg n) w = (Inr (Some info), w')"
  shows "ready_at cfg n w' \<and> wi_ready info \<and> wi_phase info = phase_ready"
proof -
  obtain u where "run_state (ke_poll E (check_ready E cfg n)) (w, None) = (Inr u, (w', Some info))"
    using assms by (auto simp: wait_for_workspace_ready_def split: if_splits prod.splits sum.splits option.splits)
  then obtain w1 v1 where "run_state (check_ready E cfg n) (w1, v1) = (Inr True, (w', Some info))"
    using poll_Ok by fastforce
  then have "run_state (get_workspace E cfg n) w1 = (Inr (Some info), w')" "wi_ready info"
    by (auto simp: check_ready_def on_world_def set_variable_def split: prod.splits sum.splits option.splits)
  then show ?thesis using get_workspace_Some by blast
qed

lemma report_error: "run_state (report E key reason prefix t e) w \<noteq> ((t', None), w')"
  by (auto simp: report_def split: prod.splits)

definition publishes :: "kcp_config \<Rightarrow> object_key \<Rightarrow> 'w \<Rightarrow> bool" where
  "publishes cfg key w' \<longleftrightarrow> (\<exists>info w1 u. ready_at cfg (to_lower (snd key)) w1 \<and> wi_phase info = phase_ready \<and>
     run_state (update_workspace_status E key info) w1 = (Inr u, w'))"

lemma publishes_ready:
  assumes "publishes cfg key w'"
  shows "ready_at cfg (to_lower (snd key)) w'"
proof -
  obtain info w1 u where r: "ready_at cfg (to_lower (snd key)) w1"
    and u: "run_state (update_workspace_status E key info) w1 = (Inr u, w')"
    using assms by (auto simp: publishes_def)
  show ?thesis using r keepsD[OF update_workspace_status_keeps u] by (simp add: ready_at_def same_part_def)
qed

lemma reconcile_workspace_stops:
  assumes run: "run_state (reconcile_workspace E cfg key) w = (Return (0, None), w')"
  shows "publishes cfg key w'"
proof -
  let ?n = "to_lower (snd key)"
  obtain g w1 where g: "run_state (get_workspace E cfg ?n) w = (g, w1)" by (metis surj_pair)
  consider e where "g = Inl e" | info where "g = Inr (Some info)" | "g = Inr None" by (cases g) auto
  then show ?thesis
  proof cases
    case 1
    then show ?thesis using run g report_error by (auto simp: reconcile_workspace_def Let_def split: prod.splits)
  next
    case 2
    then obtain u where u: "run_state (update_workspace_status E key info) w1 = (Inr u, w')" "wi_ready info"
      using run g by (auto simp: reconcile_workspace_def Let_def split: prod.splits sum.splits if_splits)
    then show ?thesis using g 2 get_workspace_Some unfolding publishes_def by blast
  next
    case 3
    then have "run_state (create_and_wait E cfg key ?n) w1 = (Return (0, None), w')"
      using run g by (simp add: reconcile_workspace_def Let_def)
    then obtain w2 info where "run_state (wait_and_publish E cfg key ?n info) w2 = (Return (0, None), w')"
      using report_error by (auto simp: create_and_wait_def split: prod.splits sum.splits)
    then obtain w3 i u where "run_state (wait_for_workspace_ready E cfg ?n) w2 = (Inr (Some i), w3)"
      "run_state (update_workspace_status E key i) w3 = (Inr u, w')"
      by (auto simp: wait_and_publish_def split: prod.splits sum.splits option.splits)
    then show ?thesis using wait_ready unfolding publishes_def by blast
  qed
qed

lemma reconcile_project_publishes:
  assumes run: "run_state (reconcile_project E req) w = (Return (0, None), w')"
  shows "pjs w req = None \<or>
    (\<exists>cfg v. fst (run_state (load_config_from_cluster E (ke_config_map_name E) (ke_secret_name E)
        (ke_config_map_namespace E)) v) = Inr cfg \<and> publishes cfg req w')"
proof -
  obtain g w1 where g: "run_state (kd_get (ke_projects E) req) w = (g, w1)" by (metis surj_pair)
  show ?thesis
  proof (cases g)
    case (Inl e)
    then show ?thesis using run g pj.get_Err by (auto simp: reconcile_project_def split: if_splits)
  next
    case (Inr p)
    then have "kp_key p = req" using pj.get_Ok g by blast
    then have r: "run_state (reconcile_known E req) w1 = (Return (0, None), w')"
      using run g Inr by (simp add: reconcile_project_def)
    obtain l w2 where l: "run_state (load_config_from_cluster E (ke_config_map_name E) (ke_secret_name E)
        (ke_config_map_namespace E)) w1 = (l, w2)" by (metis surj_pair)
    obtain cfg where c: "l = Inr cfg" using r l report_error by (cases l) (auto simp: reconcile_known_def split: prod.splits)
    have "run_state (reconcile_workspace E cfg req) w2 = (Return (0, None), w')"
      using r l c report_error
      by (auto simp: reconcile_known_def new_kcp_client_def split: prod.splits sum.splits)
    from reconcile_workspace_stops[OF this] l c show ?thesis by (metis fst_conv)
  qed
qed

lemma reconcile_project_stops:
  assumes run: "run_state (reconcile_project E req) w = (Return (0, None), w')"
  shows "pjs w req = None \<or> ready_workspace (wss w') (to_lower (snd req))"
  using reconcile_project_publishes[OF run] publishes_ready unfolding ready_at_def ready_workspace_def by blast

end

section \<open>The staff and the workspaces\<close>

definition managed :: "workspace \<Rightarrow> bool" where
  "managed x \<longleftrightarrow> map_get (wk_annotations x) ''managed-by'' = operator_name \<and> wk_phase x = phase_ready"

text \<open>The subjects the staff of a namespace asks for.\<close>

definition staff_subjects :: "string \<Rightarrow> (object_key \<Rightarrow> kstaff option) \<Rightarrow> (string \<times> string) set" where
  "staff_subjects ns staff = {s. \<exists>x. staff (kf_key x) = Some x \<and> fst (kf_key x) = ns \<and> subject_of x = Some s}"

definition base_path :: "kcp_config \<Rightarrow> string" where
  "base_path cfg = (if kc_workspace_path cfg = [] then ''root'' else kc_workspace_path cfg)"

locale staff_site =
  sf: kube_listed "ke_staff E" kf_key sfs + wk: kube_listed "ke_workspaces E" wk_key wss +
  rb: kube_kind "ke_bindings E" rb_key rbs
  for E :: "'w kdp_env" and sfs :: "'w \<Rightarrow> object_key \<Rightarrow> kstaff option"
    and wss :: "'w \<Rightarrow> object_key \<Rightarrow> workspace option" and rbs :: "'w \<Rightarrow> object_key \<Rightarrow> binding option" +
  assumes calls_frame: "keeps (same_part (\<lambda>w. (sfs w, wss w, rbs w))) (ke_config_map E k)"
      "keeps (same_part (\<lambda>w. (sfs w, wss w, rbs w))) (ke_secret E k)"
      "keeps (same_part (\<lambda>w. (sfs w, wss w, rbs w))) (ke_now E)"
    and workspaces_frame: "kind_keeps (\<lambda>w. (sfs w, rbs w)) (ke_workspaces E)"
    and staff_frame: "kind_keeps (\<lambda>w. (wss w, rbs w)) (ke_staff E)"
begin

lemma now_rbs: "run_state (ke_now E) w = (t, w') \<Longrightarrow> rbs w' = rbs w"
  using keepsD[OF calls_frame(3)] by (auto simp: same_part_def)

text \<open>One workspace: its binding has the subjects, any other is untouched.\<close>

lemma write_binding_effect:
  assumes run: "run_state (write_binding E n path subjects ns) w = (Return r, w')"
  shows "(\<forall>k. k \<noteq> (path, staff_binding_name) \<longrightarrow> rbs w' k = rbs w k) \<and>
    (r = Inr () \<longrightarrow> (\<exists>b. rbs w' (path, staff_binding_name) = Some b \<and> rb_subjects b = subjects)) \<and>
    (rbs w' = rbs w \<or> (\<exists>b. rbs w' (path, staff_binding_name) = Some b \<and> rb_subjects b = subjects))"
proof -
  obtain t w1 where t: "run_state (ke_now E) w = (t, w1)" by (metis surj_pair)
  obtain g w2 where g: "run_state (kd_get (ke_bindings E) (path, staff_binding_name)) w1 = (g, w2)" by (metis surj_pair)
  have s: "rbs w2 = rbs w" using now_rbs[OF t] rb.get_objs[OF g] by simp
  show ?thesis
  proof (cases g)
    case (Inl e)
    let ?b = "new_binding path (ke_rfc3339 E t) subjects ns"
    have k: "rb_key ?b = (path, staff_binding_name)" "rb_subjects ?b = subjects"
      by (auto simp: new_binding_def rb_key_def)
    show ?thesis
    proof (cases "is_not_found e")
      case True
      obtain c where c: "run_state (kd_create (ke_bindings E) ?b) w2 = (c, w')"
        "r = (case c of Inl e \<Rightarrow> Inl (Wrap (''failed to create ClusterRoleBinding in workspace '' @ n @ '': '') e [])
                | Inr _ \<Rightarrow> Inr ())"
        using run t g Inl True by (auto simp: write_binding_def split: prod.splits)
      then show ?thesis using rb.create_Ok[of ?b w2 _ w'] rb.create_Err[of ?b w2 _ w'] k s
        by (cases c) auto
    next
      case False
      then show ?thesis using run t g Inl s by (auto simp: write_binding_def)
    qed
  next
    case (Inr x)
    obtain t' w3 where t': "run_state (ke_now E) w2 = (t', w3)" by (metis surj_pair)
    have s3: "rbs w3 = rbs w" and xk: "rb_key x = (path, staff_binding_name)"
      using now_rbs[OF t'] s rb.get_Ok g Inr by auto
    obtain a where a: "rb_annotations x = Some a"
      using run t g Inr t' by (cases "rb_annotations x") (auto simp: write_binding_def)
    obtain y u where u: "run_state (kd_update (ke_bindings E) y) w3 = (u, w')"
      "r = (case u of Inl e \<Rightarrow> Inl (Wrap (''failed to update ClusterRoleBinding in workspace '' @ n @ '': '') e [])
              | Inr _ \<Rightarrow> Inr ())"
      "rb_key y = rb_key x" "rb_subjects y = subjects"
      using run t g Inr t' a by (auto simp: write_binding_def rb_key_def split: prod.splits)
    then show ?thesis using rb.update_Ok[of y w3 _ w'] rb.update_Err[of y w3 _ w'] xk s3
      by (cases u) auto
  qed
qed

definition bound :: "(string \<times> string) list \<Rightarrow> 'w \<Rightarrow> string \<Rightarrow> bool" where
  "bound subjects w path \<longleftrightarrow> (\<exists>b. rbs w (path, staff_binding_name) = Some b \<and> rb_subjects b = subjects)"

lemma staff_binding_effect:
  assumes run: "run_state (create_or_update_staff_binding E cfg n subjects ns) w = (Return r, w')"
  shows "(\<forall>path. bound subjects w path \<longrightarrow> bound subjects w' path) \<and>
    (r = Inr () \<longrightarrow> bound subjects w' (ke_join E (base_path cfg) n))"
proof (cases "rbs w' = rbs w \<and> r \<noteq> Inr ()")
  case True
  then show ?thesis by (simp add: bound_def)
next
  case False
  have "run_state (write_binding E n (ke_join E (base_path cfg) n) subjects ns) w = (Return r, w')"
    using run False
    by (auto simp: create_or_update_staff_binding_def base_path_def Let_def split: if_splits sum.splits)
  from write_binding_effect[OF this] show ?thesis
    by (auto simp: bound_def) (metis prod.inject)+
qed

lemma bind_all_binds:
  assumes "run_state (bind_all E cfg subjects infos (errs, n)) w = (Return ([], n'), w')"
  shows "errs = [] \<and> (\<forall>path. bound subjects w path \<longrightarrow> bound subjects w' path) \<and>
    (\<forall>i \<in> set infos. bound subjects w' (ke_join E (base_path cfg) (wi_name i)))"
  using assms
proof (induction infos arbitrary: errs n w)
  case (Cons i infos)
  obtain r w1 where r: "run_state (create_or_update_staff_binding E cfg (wi_name i) subjects (ke_staff_namespace E)) w = (r, w1)"
    by (metis surj_pair)
  consider "r = Panic" | e where "r = Return (Inl e)" | "r = Return (Inr ())" by (cases r) (auto, metis old.unit.exhaust sum.exhaust)
  then show ?case
  proof cases
    case 1
    then show ?thesis using Cons.prems r by simp
  next
    case 2
    then show ?thesis using Cons.prems r Cons.IH by fastforce
  next
    case 3
    then have "run_state (bind_all E cfg subjects infos (errs, Suc n)) w1 = (Return ([], n'), w')"
      using Cons.prems r by simp
    from Cons.IH[OF this] staff_binding_effect[OF r[unfolded 3]] show ?thesis by auto
  qed
qed simp

lemma list_managed_Ok:
  assumes "run_state (list_managed_workspaces E cfg) w = (Inr infos, w')"
  shows "rbs w' = rbs w \<and> sfs w' = sfs w \<and>
    (\<forall>x. wss w (wk_key x) = Some x \<and> wk_path x = kc_workspace_path cfg \<and> managed x \<longrightarrow> info_of x \<in> set infos)"
proof -
  obtain items where l: "run_state (kd_list (ke_workspaces E) (kc_workspace_path cfg)) w = (Inr items, w')"
    "infos = map info_of (filter (\<lambda>ws. map_get (wk_annotations ws) ''managed-by'' = ''kdp-ws-operator'' \<and>
                                                 wk_phase ws = phase_ready) items)"
    using assms by (auto simp: list_managed_workspaces_def split: prod.splits sum.splits)
  have "rbs w' = rbs w \<and> sfs w' = sfs w"
    using keepsD[OF kind_keepsD(2)[OF workspaces_frame] l(1)] by (simp add: same_part_def)
  moreover have "set items = {x. wss w (wk_key x) = Some x \<and> fst (wk_key x) = kc_workspace_path cfg}"
    using wk.list_Ok[OF l(1)] by simp
  ultimately show ?thesis using l(2) by (auto simp: managed_def wk_key_def)
qed

lemma subjects_listed:
  assumes "run_state (kd_list (ke_staff E) ns) w = (Inr xs, w')"
  shows "rbs w' = rbs w \<and> set (List.map_filter subject_of xs) = staff_subjects ns (sfs w)"
  using keepsD[OF kind_keepsD(2)[OF staff_frame] assms] sf.list_Ok[OF assms]
  by (auto simp: same_part_def staff_subjects_def map_filter_def) force

lemma finish_staff_keeps: "keeps (same_part rbs) (finish_staff E name res)"
proof -
  have s: "keeps (same_part rbs) (kd_get (ke_staff E) k)" "keeps (same_part rbs) (kd_patch (ke_staff E) x y)" for k x y
    using kind_keepsD[OF staff_frame] by (auto simp: keeps_def same_part_def)
  moreover have "keeps (same_part rbs) (ke_now E)" using calls_frame(3) by (auto simp: keeps_def same_part_def)
  ultimately show ?thesis
    unfolding finish_staff_def update_staff_annotations_def
    by (auto intro!: keeps_part split: sum.split)
qed

lemma reconcile_staff_binds:
  assumes run: "run_state (reconcile_staff E req) w = (Return (0, None), w')"
  shows "\<exists>cfg. fst (run_state (load_config_from_cluster E (ke_config_map_name E) (ke_secret_name E)
        (ke_config_map_namespace E)) w) = Inr cfg \<and>
    (\<forall>x. wss w (wk_key x) = Some x \<and> wk_path x = kc_workspace_path cfg \<and> managed x \<longrightarrow>
       (\<exists>b. rbs w' (ke_join E (base_path cfg) (wk_name x), staff_binding_name) = Some b \<and>
            set (rb_subjects b) = staff_subjects (ke_staff_namespace E) (sfs w)))"
proof -
  let ?load = "load_config_from_cluster E (ke_config_map_name E) (ke_secret_name E) (ke_config_map_namespace E)"
  obtain l w1 where l: "run_state ?load w = (l, w1)" by (metis surj_pair)
  obtain cfg where c: "l = Inr cfg" using run l by (cases l) (auto simp: reconcile_staff_def)
  have n: "new_kcp_client E cfg = Inr cfg"
    using run l c by (auto simp: reconcile_staff_def new_kcp_client_def split: sum.splits)
  have "keeps (same_part (\<lambda>w. (sfs w, wss w, rbs w))) ?load"
    unfolding load_config_from_cluster_def by (auto intro!: keeps_part calls_frame split: sum.split)
  from keepsD[OF this l] have w1: "sfs w1 = sfs w" "wss w1 = wss w" by (auto simp: same_part_def)
  obtain infos w2 where m: "run_state (list_managed_workspaces E cfg) w1 = (Inr infos, w2)"
    using run l c n by (auto simp: reconcile_staff_def split: prod.splits sum.splits)
  obtain xs w3 where s: "run_state (kd_list (ke_staff E) (ke_staff_namespace E)) w2 = (Inr xs, w3)"
    using run l c n m by (auto simp: reconcile_staff_def split: prod.splits sum.splits)
  let ?subjects = "List.map_filter subject_of xs"
  obtain errs k w4 where b: "run_state (bind_all E cfg ?subjects infos ([], 0)) w3 = (Return (errs, k), w4)"
    and f: "run_state (finish_staff E (snd req) (errs, k)) w4 = ((0, None), w')"
    using run l c n m s by (auto simp: reconcile_staff_def split: prod.splits sum.splits go.splits)
  have "errs = []" using f by (auto simp: finish_staff_def split: prod.splits if_splits)
  then have all: "\<forall>i \<in> set infos. bound ?subjects w4 (ke_join E (base_path cfg) (wi_name i))"
    using bind_all_binds b by blast
  have r: "rbs w' = rbs w4" using keepsD[OF finish_staff_keeps f] by (simp add: same_part_def)
  have subj: "set ?subjects = staff_subjects (ke_staff_namespace E) (sfs w)"
    using subjects_listed[OF s] list_managed_Ok[OF m] w1 by simp
  have "\<exists>b. rbs w' (ke_join E (base_path cfg) (wk_name x), staff_binding_name) = Some b \<and>
            set (rb_subjects b) = staff_subjects (ke_staff_namespace E) (sfs w)"
    if "wss w (wk_key x) = Some x \<and> wk_path x = kc_workspace_path cfg \<and> managed x" for x
  proof -
    have "info_of x \<in> set infos" using list_managed_Ok[OF m] that w1 by simp
    then have "bound ?subjects w4 (ke_join E (base_path cfg) (wk_name x))" using all by (force simp: info_of_def)
    then show ?thesis using r subj by (auto simp: bound_def)
  qed
  then show ?thesis using l c by auto
qed

end

section \<open>A site in memory\<close>

record kdp_world =
  kw_projects :: "kproject list"
  kw_staff :: "kstaff list"
  kw_workspaces :: "workspace list"
  kw_bindings :: "binding list"
  kw_now :: int

text \<open>A poll that gives up after a number of checks, and a control plane that is done after the first.\<close>

fun poll_times :: "('s, unit) io \<Rightarrow> nat \<Rightarrow> ('s, bool result) io \<Rightarrow> ('s, unit result) io" where
  "poll_times wait 0 m = ret (Inl (Msg ''context deadline exceeded''))"
| "poll_times wait (Suc n) m =
     do { r \<leftarrow> m;
          case r of Inl e \<Rightarrow> ret (Inl e)
          | Inr b \<Rightarrow> (if b then ret (Inr ()) else do { _ \<leftarrow> wait; poll_times wait n m }) }"

lemma poll_times_Ok: "run_state (poll_times wait n m) s = (Inr u, s') \<Longrightarrow> \<exists>s1. run_state m s1 = (Inr True, s')"
  by (induction n arbitrary: s) (auto split: prod.splits sum.splits if_splits)

lemma poll_times_keeps:
  "keeps (same_part f) wait \<Longrightarrow> keeps (same_part f) m \<Longrightarrow> keeps (same_part f) (poll_times wait n m)"
  by (induction n) (auto intro!: keeps_part split: sum.split)

definition workspaces_come_up :: "(kdp_world \<times> workspace_info option, unit) io" where
  "workspaces_come_up = State (\<lambda>(w, v).
     ((), w\<lparr>kw_workspaces := map (\<lambda>x. x\<lparr>wk_phase := phase_ready, wk_url := ''https://kcp''\<rparr>) (kw_workspaces w)\<rparr>, v))"

lemma come_up_keeps:
  "keeps (same_part (\<lambda>s. (shapes (\<lambda>k. find_obj wk_key k (kw_workspaces (fst s))),
     kw_projects (fst s), kw_staff (fst s), kw_bindings (fst s)))) workspaces_come_up"
proof -
  have "shapes (\<lambda>k. find_obj wk_key k (map (\<lambda>x. x\<lparr>wk_phase := p, wk_url := u\<rparr>) xs)) =
      shapes (\<lambda>k. find_obj wk_key k xs)" for xs p u
    by (induction xs) (auto simp: fun_eq_iff shapes_def find_obj_def wk_key_def workspace_shape_def)
  then show ?thesis by (auto simp: keeps_def same_part_def workspaces_come_up_def)
qed

definition mem_kdp :: "kdp_world kdp_env" where
  "mem_kdp =
     \<lparr>ke_projects = mem_kind kp_key kw_projects (\<lambda>x w. w\<lparr>kw_projects := x\<rparr>),
      ke_staff = mem_kind kf_key kw_staff (\<lambda>x w. w\<lparr>kw_staff := x\<rparr>),
      ke_config_map = (\<lambda>_. ret (Inr [(''kcp-workspace-path'', ''root:orgs'')])),
      ke_secret = (\<lambda>_. ret (Inr [(''kubeconfig'', ''kc'')])),
      ke_parse_kubeconfig = (\<lambda>_. Inr ()), ke_connect = (\<lambda>_. Inr ()), ke_clientset = (\<lambda>_. Inr ()),
      ke_join = (\<lambda>p n. p @ '':'' @ n),
      ke_workspaces = mem_kind wk_key kw_workspaces (\<lambda>x w. w\<lparr>kw_workspaces := x\<rparr>),
      ke_bindings = mem_kind rb_key kw_bindings (\<lambda>x w. w\<lparr>kw_bindings := x\<rparr>),
      ke_poll = poll_times workspaces_come_up 3, ke_now = State (\<lambda>w. (kw_now w, w)), ke_rfc3339 = (\<lambda>t. if t = 7 then ''now'' else ''then''),
      ke_set_condition = (\<lambda>c cs. ret (c # filter (\<lambda>d. cd_type d \<noteq> cd_type c) cs)),
      ke_config_map_name = ''kdp'', ke_config_map_namespace = ''sys'', ke_secret_name = ''kdp'',
      ke_secret_namespace = ''sys'', ke_staff_namespace = ''md''\<rparr>"

interpretation projects: project_site mem_kdp "\<lambda>w k. find_obj kp_key k (kw_projects w)"
  "\<lambda>w k. find_obj wk_key k (kw_workspaces w)"
proof (intro project_site.intro project_site_axioms.intro)
  fix m :: "(kdp_world \<times> workspace_info option, bool result) io" and s u s'
  assume "run_state (ke_poll mem_kdp m) s = (Inr u, s')"
  then show "\<exists>s1. run_state m s1 = (Inr True, s')"
    using poll_times_Ok[of workspaces_come_up 3 m s u s'] by (simp add: mem_kdp_def)
next
  fix m :: "(kdp_world \<times> workspace_info option, bool result) io"
  assume m: "keeps (same_part (\<lambda>s. shapes (\<lambda>k. find_obj wk_key k (kw_workspaces (fst s))))) m"
  have "keeps (same_part (\<lambda>s. shapes (\<lambda>k. find_obj wk_key k (kw_workspaces (fst s))))) workspaces_come_up"
    using come_up_keeps by (auto simp: keeps_def same_part_def)
  from poll_times_keeps[OF this m]
  show "keeps (same_part (\<lambda>s. shapes (\<lambda>k. find_obj wk_key k (kw_workspaces (fst s))))) (ke_poll mem_kdp m)"
    by (simp add: mem_kdp_def)
qed (auto simp: mem_kdp_def mem_kind_contract mem_kind_keeps keeps_def same_part_def)

interpretation staff: staff_site mem_kdp "\<lambda>w k. find_obj kf_key k (kw_staff w)"
  "\<lambda>w k. find_obj wk_key k (kw_workspaces w)" "\<lambda>w k. find_obj rb_key k (kw_bindings w)"
  by (intro staff_site.intro staff_site_axioms.intro)
     (auto simp: mem_kdp_def mem_kind_contract mem_kind_listed mem_kind_keeps keeps_def same_part_def)

section \<open>Properties\<close>

text \<open>A project without a workspace, one whose workspace is ready, and two staff members, one without an address.\<close>

definition demo_workspace :: workspace where
  "demo_workspace = \<lparr>wk_path = ''root:orgs'', wk_name = ''alpha'',
     wk_annotations = [(''managed-by'', ''kdp-ws-operator'')], wk_type_name = ''kdp-organization'',
     wk_type_path = ''root:orgs'', wk_url = ''https://kcp'', wk_phase = ''Ready''\<rparr>"

definition demo_kdp :: kdp_world where
  "demo_kdp =
     \<lparr>kw_projects = [\<lparr>kp_name = ''Alpha'', kp_namespace = ''md'', kp_generation = 3, kp_annotations = [], kp_status = None\<rparr>,
                     \<lparr>kp_name = ''Beta'', kp_namespace = ''md'', kp_generation = 1, kp_annotations = [], kp_status = None\<rparr>],
      kw_staff = [\<lparr>kf_name = ''sam'', kf_namespace = ''md'', kf_annotations = [],
                   kf_spec = Some (JObject [(''primaryEmail'', JString ''sam@cncf.io'')])\<rparr>,
                  \<lparr>kf_name = ''tom'', kf_namespace = ''md'', kf_annotations = [], kf_spec = Some (JObject [])\<rparr>],
      kw_workspaces = [demo_workspace], kw_bindings = [], kw_now = 7\<rparr>"

text \<open>
  Reconciling a project removes no workspace and changes none but for its phase and URL; the only
  workspace it may add has the project's name in lower case.
\<close>

theorem project_adds_only_its_workspace:
  assumes "project_site E pjs wss"
    and "run_state (reconcile_project E req) w = (r, w')"
    and "shapes (wss w') k \<noteq> shapes (wss w) k"
  shows "snd k = to_lower (snd req) \<and> wss w k = None"
  using project_site.reconcile_project_adds[OF assms(1,2)] assms(3)
  unfolding project_site.only_adds_def[OF assms(1)] by blast

text \<open>
  A run that ends without an error and without a date for the next one leaves the project's
  workspace ready, unless the project is gone.
\<close>

theorem project_is_retried_until_ready:
  assumes "project_site E pjs wss"
    and "run_state (reconcile_project E req) w = (Return (0, None), w')"
  shows "pjs w req = None \<or> ready_workspace (wss w') (to_lower (snd req))"
  by (rule project_site.reconcile_project_stops[OF assms])

theorem project_is_retried_until_ready_witness:
  "ready_workspace (\<lambda>k. find_obj wk_key k
     (kw_workspaces (snd (run_state (reconcile_project mem_kdp (''md'', ''Beta'')) demo_kdp)))) ''beta''"
proof -
  have r: "fst (run_state (reconcile_project mem_kdp (''md'', ''Beta'')) demo_kdp) = Return (0, None)" by code_simp
  have p: "find_obj kp_key (''md'', ''Beta'') (kw_projects demo_kdp) \<noteq> None"
    and n: "to_lower (snd (''md'', ''Beta'')) = ''beta''" by code_simp+
  show ?thesis
    using project_is_retried_until_ready[OF projects.project_site_axioms run_eqI[OF r]] p unfolding n by blast
qed

text \<open>
  After a staff run without an error, the staff binding of every ready workspace the operator
  manages names exactly the staff members of the namespace that have an e-mail address.
\<close>

theorem staff_access_is_exact:
  assumes "staff_site E sfs wss rbs"
    and "run_state (reconcile_staff E req) w = (Return (0, None), w')"
    and "fst (run_state (load_config_from_cluster E (ke_config_map_name E) (ke_secret_name E)
        (ke_config_map_namespace E)) w) = Inr cfg"
    and "wss w (wk_key x) = Some x" and "wk_path x = kc_workspace_path cfg" and "managed x"
  shows "\<exists>b. rbs w' (ke_join E (base_path cfg) (wk_name x), staff_binding_name) = Some b \<and>
    set (rb_subjects b) = staff_subjects (ke_staff_namespace E) (sfs w)"
  using staff_site.reconcile_staff_binds[OF assms(1,2)] assms(3-) by auto

theorem staff_access_is_exact_witness:
  "\<exists>b. find_obj rb_key (''root:orgs:alpha'', ''cncf-staff-access'')
        (kw_bindings (snd (run_state (reconcile_staff mem_kdp (''md'', ''sam'')) demo_kdp))) = Some b \<and>
     set (rb_subjects b) = staff_subjects ''md'' (\<lambda>k. find_obj kf_key k (kw_staff demo_kdp))"
proof -
  let ?cfg = "\<lparr>kc_kubeconfig = ''kc'', kc_workspace_path = ''root:orgs'', kc_workspace_type = []\<rparr>"
  have r: "fst (run_state (reconcile_staff mem_kdp (''md'', ''sam'')) demo_kdp) = Return (0, None)" by code_simp
  have c: "fst (run_state (load_config_from_cluster mem_kdp (ke_config_map_name mem_kdp) (ke_secret_name mem_kdp)
        (ke_config_map_namespace mem_kdp)) demo_kdp) = Inr ?cfg" by code_simp
  have x: "find_obj wk_key (wk_key demo_workspace) (kw_workspaces demo_kdp) = Some demo_workspace"
    "wk_path demo_workspace = kc_workspace_path ?cfg" "managed demo_workspace" by code_simp+
  have "ke_join mem_kdp (base_path ?cfg) (wk_name demo_workspace) = ''root:orgs:alpha''"
    "ke_staff_namespace mem_kdp = ''md''" by code_simp+
  then show ?thesis using staff_access_is_exact[OF staff.staff_site_axioms run_eqI[OF r] c x] by simp
qed

text \<open>
  C23: what the status keeps of the conditions: read back, they have their type, status, reason and
  message, but the generation and the time of the last transition are lost.
\<close>

theorem conditions_read_back:
  "status_conditions (Some (with_conditions fmt conds status)) =
     map (\<lambda>c. c\<lparr>cd_observed := 0, cd_transition := zero_time\<rparr>) conds"
proof -
  have "condition_of_object (object_of_condition fmt c) = Some (c\<lparr>cd_observed := 0, cd_transition := zero_time\<rparr>)" for c
    by (cases c) (simp add: object_of_condition_def condition_of_object_def object_string_def)
  moreover have "map_of (map_put k v m) k = Some v" for k :: string and v :: ujson and m
    by (induction m) auto
  ultimately show ?thesis
    by (simp add: status_conditions_def with_conditions_def map_filter_def comp_def)
qed

text \<open>
  The update event of the annotations the staff reconciler writes itself is filtered out, so
  that a run does not trigger the next one.
\<close>

theorem own_annotations_do_not_retrigger:
  assumes "distinct (map fst a)"
  shows "\<not> update_passes a (map_put ann_workspace_count n (map_put ann_sync_status s (map_put ann_last_synced t a)))
    (Some g) (Some g)"
proof -
  have p: "without_sync (map_put k v m) = without_sync m"
    if "k \<in> {ann_last_synced, ann_sync_status, ann_workspace_count}" for k v m
    using that by (induction m) (auto simp: without_sync_def)
  have d: "distinct (map fst (without_sync a))"
    using assms by (auto simp: without_sync_def distinct_map_filter)
  have "\<not> list_ex (\<lambda>(k, v). map_get (without_sync a) k \<noteq> v) (without_sync a)"
    using d by (auto simp: list_ex_iff map_get_def map_of_is_SomeI)
  then show ?thesis by (simp add: update_passes_def Let_def p)
qed

theorem own_annotations_do_not_retrigger_witness:
  "\<not> update_passes [(''team'', ''x'')] (map_put ann_workspace_count ''2'' (map_put ann_sync_status ''success''
     (map_put ann_last_synced ''t'' [(''team'', ''x'')]))) (Some 4) (Some 4)"
  by (rule own_annotations_do_not_retrigger) simp

end
