(* ===== verification/Staff_Access.thy ===== *)
theory Staff_Access
  imports K8s_Sync_Laws Kdp_Laws Api_Json
begin

text \<open>
  From the staff table to the access in the workspaces: the sync job writes a \<^verbatim>\<open>StaffMember\<close> object
  per row, the staff operator reads the same objects without their type and binds the addresses it
  finds.  The two meet in the JSON of the object, written as in \<open>Api_Json\<close>.  The theorem says whose
  access a run of both leaves: that of the rows, and that of every object the job no longer knows.
\<close>

section \<open>One object, two readers\<close>

text \<open>The object the job has written, as a reader without the type gets it.\<close>

definition untyped_staff :: "(int \<Rightarrow> ujson) \<Rightarrow> staff_spec kobject \<Rightarrow> kstaff" where
  "untyped_staff fmt obj =
     \<lparr>kf_name = ko_name obj, kf_namespace = ko_namespace obj, kf_annotations = [],
      kf_spec = Some (staff_spec_json fmt (ko_spec obj))\<rparr>"

text \<open>
  The two views of one cluster agree: the server keeps an object under its own key, annotations may
  differ, name and spec may not.
\<close>

definition same_staff ::
  "(int \<Rightarrow> ujson) \<Rightarrow> (object_key \<Rightarrow> staff_spec kobject option) \<Rightarrow> (object_key \<Rightarrow> kstaff option) \<Rightarrow> bool" where
  "same_staff fmt typed untyped \<longleftrightarrow>
     (\<forall>k. rel_option (\<lambda>obj x. ko_key obj = k \<and> x\<lparr>kf_annotations := []\<rparr> = untyped_staff fmt obj) (typed k) (untyped k))"

text \<open>The address survives the way through JSON; nothing else of the spec reaches the bindings.\<close>

definition address_subject :: "string \<Rightarrow> string \<times> string" where
  "address_subject email = (''User'', ''oidc:'' @ email)"

lemma subject_of_untyped:
  assumes "x\<lparr>kf_annotations := []\<rparr> = untyped_staff fmt obj"
  shows "subject_of x = (let email = ss_primary_email (ko_spec obj) in
    if email = [] then None else Some (address_subject email))"
proof -
  have "kf_spec x = Some (staff_spec_json fmt (ko_spec obj))"
    using arg_cong[OF assms, of kf_spec] by (simp add: untyped_staff_def)
  then show ?thesis
    by (simp add: subject_of_def staff_spec_json_def written_fields nonempty_string_def address_subject_def Let_def
          del: map_of_append)
qed

section \<open>Whose access it is\<close>

text \<open>The addresses the objects of a namespace carry, and those of the objects no row is named after.\<close>

definition object_addresses :: "string \<Rightarrow> (object_key \<Rightarrow> staff_spec kobject option) \<Rightarrow> string set" where
  "object_addresses ns objs =
     {e. e \<noteq> [] \<and> (\<exists>n x. objs (ns, n) = Some x \<and> ss_primary_email (ko_spec x) = e)}"

definition row_addresses :: "staff_member list \<Rightarrow> string set" where
  "row_addresses rows = {e. e \<noteq> [] \<and> e \<in> sm_email ` set rows}"

definition staff_object_name :: "staff_member \<Rightarrow> string" where
  "staff_object_name r = sanitize_name (staff_name_source r)"

definition stale_addresses ::
  "string \<Rightarrow> staff_member list \<Rightarrow> (object_key \<Rightarrow> staff_spec kobject option) \<Rightarrow> string set" where
  "stale_addresses ns rows objs =
     {e. e \<noteq> [] \<and> (\<exists>n x. objs (ns, n) = Some x \<and> n \<notin> staff_object_name ` set rows \<and> ss_primary_email (ko_spec x) = e)}"

lemma staff_subjects_of_objects:
  assumes "same_staff fmt typed untyped"
  shows "staff_subjects ns untyped = address_subject ` object_addresses ns typed"
proof -
  have r: "rel_option (\<lambda>obj x. ko_key obj = k \<and> x\<lparr>kf_annotations := []\<rparr> = untyped_staff fmt obj) (typed k) (untyped k)" for k
    using assms(1) unfolding same_staff_def by blast
  have k: "kf_key x = ko_key obj" if "x\<lparr>kf_annotations := []\<rparr> = untyped_staff fmt obj" for x obj
    using arg_cong[OF that, of kf_name] arg_cong[OF that, of kf_namespace]
    by (simp add: kf_key_def ko_key_def untyped_staff_def)
  show ?thesis
  proof (intro set_eqI iffI)
    fix s assume "s \<in> staff_subjects ns untyped"
    then obtain x where x: "untyped (kf_key x) = Some x" "fst (kf_key x) = ns" "subject_of x = Some s"
      by (auto simp: staff_subjects_def)
    obtain obj where o: "typed (kf_key x) = Some obj" "x\<lparr>kf_annotations := []\<rparr> = untyped_staff fmt obj"
      using r[of "kf_key x"] x(1) by (auto simp: option_rel_Some2)
    have "typed (ns, snd (kf_key x)) = Some obj" using o(1) x(2) by (metis prod.collapse)
    then show "s \<in> address_subject ` object_addresses ns typed"
      using x(3) subject_of_untyped[OF o(2)] by (auto simp: object_addresses_def Let_def split: if_splits)
  next
    fix s assume "s \<in> address_subject ` object_addresses ns typed"
    then obtain n obj where o: "typed (ns, n) = Some obj" "ss_primary_email (ko_spec obj) \<noteq> []"
      "s = address_subject (ss_primary_email (ko_spec obj))"
      by (auto simp: object_addresses_def)
    obtain x where x: "untyped (ns, n) = Some x" "x\<lparr>kf_annotations := []\<rparr> = untyped_staff fmt obj"
      "ko_key obj = (ns, n)"
      using r[of "(ns, n)"] o(1) by (auto simp: option_rel_Some1)
    have "kf_key x = (ns, n)" using k[OF x(2)] x(3) by simp
    then show "s \<in> staff_subjects ns untyped"
      using x(1) subject_of_untyped[OF x(2)] o(2,3) unfolding staff_subjects_def
      by (intro CollectI exI[of _ x]) (simp add: Let_def)
  qed
qed

text \<open>When no two rows share a name, the objects say the rows and what is left of earlier ones.\<close>

lemma published_addresses:
  assumes pub: "published ns (\<lambda>r. staff_object_name (fst r))
       (\<lambda>r s. staff_spec_equal s (staff_spec_of (fst r) (snd r))) rows before after"
    and rows: "fst ` set rows = set staff" and inj: "inj_on staff_object_name (set staff)"
  shows "object_addresses ns after = row_addresses staff \<union> stale_addresses ns staff before"
proof -
  have known: "\<exists>x. after (ns, staff_object_name s) = Some x \<and> ss_primary_email (ko_spec x) = sm_email s"
    if s: "s \<in> set staff" for s
  proof -
    let ?P = "\<lambda>r. (ns, staff_object_name (fst r)) = (ns, staff_object_name s)"
    obtain r0 where "r0 \<in> set rows" "fst r0 = s" using s rows by (metis imageE)
    then have "\<exists>r. r \<in> set (rev rows) \<and> ?P r" by (intro exI[of _ r0]) simp
    then have "find ?P (rev rows) \<noteq> None" by (simp only: find_None_iff not_not)
    then obtain r where f: "find ?P (rev rows) = Some r" by blast
    have r: "r \<in> set rows" using set_rev[of rows] find_SomeD[OF f] by simp
    have "fst r \<in> set staff" using imageI[OF r, of fst] rows by simp
    then have "fst r = s" using inj_onD[OF inj _ _ s] find_SomeD[OF f] by simp
    then show ?thesis
      using pub f unfolding published_def
      by (elim allE[of _ "(ns, staff_object_name s)"]) (auto simp: staff_spec_equal_def staff_spec_of_def)
  qed
  have other: "after (ns, n) = before (ns, n)" if "n \<notin> staff_object_name ` set staff" for n
  proof -
    have "find (\<lambda>r. (ns, staff_object_name (fst r)) = (ns, n)) (rev rows) = None"
      using that unfolding rows[symmetric] find_None_iff image_image by force
    then show ?thesis using pub unfolding published_def by (elim allE[of _ "(ns, n)"]) simp
  qed
  show ?thesis
  proof (intro set_eqI iffI)
    fix e assume "e \<in> object_addresses ns after"
    then obtain n x where e: "e \<noteq> []" "after (ns, n) = Some x" "ss_primary_email (ko_spec x) = e"
      by (auto simp: object_addresses_def)
    show "e \<in> row_addresses staff \<union> stale_addresses ns staff before"
    proof (cases "n \<in> staff_object_name ` set staff")
      case True
      then obtain s where "s \<in> set staff" "n = staff_object_name s" by blast
      then show ?thesis using known e by (fastforce simp: row_addresses_def)
    next
      case False
      then show ?thesis using e other[OF False] by (auto simp: stale_addresses_def)
    qed
  next
    fix e assume "e \<in> row_addresses staff \<union> stale_addresses ns staff before"
    then show "e \<in> object_addresses ns after"
      using known other by (fastforce simp: row_addresses_def stale_addresses_def object_addresses_def)
  qed
qed

section \<open>Properties\<close>

text \<open>
  C20: the sync job and the staff operator together.  After a run of the job without an error and a
  run of the operator without an error on the objects the job left, when no two rows of the staff
  table get the same object name, the binding of every ready workspace the operator manages names
  exactly the addresses of the staff table and the addresses of the objects that were there before
  and that no row is named after: nobody of the staff is missing, and whoever was taken off the
  table keeps the access.
\<close>

theorem staff_access_follows_the_table:
  assumes "sync_site G tabs c oc os om op ob" and "staff_site E sfs wss rbs"
    and "\<And>xs. mset (mo xs) = mset xs" and "\<And>i xs. mset (po i xs) = mset xs"
    and "run_state (sync_all G c mo po (ke_staff_namespace E)) w = (Inr u, w')"
    and "inj_on staff_object_name (set (tb_staff (cur (tabs w))))"
    and "same_staff fmt (os w') (sfs v)"
    and "run_state (reconcile_staff E req) v = (Return (0, None), v')"
    and "fst (run_state (load_config_from_cluster E (ke_config_map_name E) (ke_secret_name E)
        (ke_config_map_namespace E)) v) = Inr cfg"
    and "wss v (wk_key x) = Some x" and "wk_path x = kc_workspace_path cfg" and "managed x"
  shows "\<exists>b. rbs v' (ke_join E (base_path cfg) (wk_name x), staff_binding_name) = Some b \<and>
    set (rb_subjects b) = address_subject `
      (row_addresses (tb_staff (cur (tabs w))) \<union>
       stale_addresses (ke_staff_namespace E) (tb_staff (cur (tabs w))) (os w))"
proof -
  let ?ns = "ke_staff_namespace E" and ?staff = "tb_staff (cur (tabs w))"
  obtain rows where "fst ` set rows = set ?staff"
    "published ?ns (\<lambda>r. staff_object_name (fst r))
       (\<lambda>r s. staff_spec_equal s (staff_spec_of (fst r) (snd r))) rows (os w) (os w')"
    using sync_site.sync_all_staff[OF assms(1,3,4,5)] unfolding staff_object_name_def by blast
  then have "object_addresses ?ns (os w') = row_addresses ?staff \<union> stale_addresses ?ns ?staff (os w)"
    using published_addresses assms(6) by blast
  then show ?thesis
    using staff_site.reconcile_staff_binds[OF assms(2,8)] staff_subjects_of_objects[OF assms(7)] assms(9-) by auto
qed

text \<open>Eve has left the staff table; her object has not left the cluster.\<close>

definition eve_object :: "staff_spec kobject" where
  "eve_object =
     \<lparr>ko_name = ''eve-cncf.io'', ko_namespace = ''md'',
      ko_spec = \<lparr>ss_display_name = ''Eve'', ss_primary_email = ''eve@cncf.io'', ss_github = ''eve'', ss_github_email = [],
                 ss_foundation_ref = None, ss_registered_at = None, ss_external_ids = []\<rparr>, ko_rest = []\<rparr>"

definition demo_left :: sync_world where "demo_left = demo_sync\<lparr>sy_staff := [eve_object]\<rparr>"

definition demo_left_synced :: sync_world where
  "demo_left_synced = snd (run_state (sync_all mem_gorm mem_client rev (\<lambda>_ xs. xs) ''md'') demo_left)"

definition demo_left_kdp :: kdp_world where
  "demo_left_kdp = demo_kdp\<lparr>kw_staff := map (untyped_staff (\<lambda>_. JNull)) (sy_staff demo_left_synced)\<rparr>"

lemma same_staff_untyped:
  "same_staff fmt (\<lambda>k. find_obj ko_key k xs) (\<lambda>k. find_obj kf_key k (map (untyped_staff fmt) xs))"
proof -
  have "find_obj kf_key k (map (untyped_staff fmt) xs) = map_option (untyped_staff fmt) (find_obj ko_key k xs)" for k
    by (induction xs) (auto simp: find_obj_def kf_key_def ko_key_def untyped_staff_def)
  then show ?thesis
    by (auto simp: same_staff_def option.rel_map untyped_staff_def intro!: option.rel_refl_strong dest: find_obj_key)
qed

theorem staff_access_follows_the_table_witness:
  "\<exists>b. find_obj rb_key (''root:orgs:alpha'', ''cncf-staff-access'')
        (kw_bindings (snd (run_state (reconcile_staff mem_kdp (''md'', ''sam-cncf.io'')) demo_left_kdp))) = Some b \<and>
     set (rb_subjects b) = {(''User'', ''oidc:sam@cncf.io''), (''User'', ''oidc:eve@cncf.io'')}"
proof -
  let ?cfg = "\<lparr>kc_kubeconfig = ''kc'', kc_workspace_path = ''root:orgs'', kc_workspace_type = []\<rparr>"
  have s: "fst (run_state (sync_all mem_gorm mem_client rev (\<lambda>_ xs. xs) (ke_staff_namespace mem_kdp)) demo_left) = Inr ()"
    by code_simp
  have r: "fst (run_state (reconcile_staff mem_kdp (''md'', ''sam-cncf.io'')) demo_left_kdp) = Return (0, None)" by code_simp
  have c: "fst (run_state (load_config_from_cluster mem_kdp (ke_config_map_name mem_kdp) (ke_secret_name mem_kdp)
        (ke_config_map_namespace mem_kdp)) demo_left_kdp) = Inr ?cfg" by code_simp
  have x: "find_obj wk_key (wk_key demo_workspace) (kw_workspaces demo_left_kdp) = Some demo_workspace"
    "wk_path demo_workspace = kc_workspace_path ?cfg" "managed demo_workspace" by code_simp+
  have p: "ke_join mem_kdp (base_path ?cfg) (wk_name demo_workspace) = ''root:orgs:alpha''"
    and ns: "ke_staff_namespace mem_kdp = ''md''" by code_simp+
  have t: "tb_staff (cur (mw_db demo_left)) = [demo_staff]" "sy_staff demo_left = [eve_object]"
    and n: "staff_object_name demo_staff \<noteq> ''eve-cncf.io''" by code_simp+
  have v: "same_staff (\<lambda>_. JNull)
      (\<lambda>k. find_obj ko_key k (sy_staff (snd (run_state (sync_all mem_gorm mem_client rev (\<lambda>_ xs. xs) ''md'') demo_left))))
      (\<lambda>k. find_obj kf_key k (kw_staff demo_left_kdp))"
    using same_staff_untyped by (simp add: demo_left_kdp_def demo_left_synced_def)
  have "row_addresses [demo_staff] = {''sam@cncf.io''}" by (auto simp: row_addresses_def demo_staff_def)
  moreover have "stale_addresses ''md'' [demo_staff] (\<lambda>k. find_obj ko_key k [eve_object]) = {''eve@cncf.io''}"
    using n by (auto simp: stale_addresses_def find_obj_def ko_key_def eve_object_def)
  ultimately show ?thesis
    using staff_access_follows_the_table[OF site.sync_site_axioms staff.staff_site_axioms _ _ run_eqI[OF s] _
      v[folded ns] run_eqI[OF r] c x] unfolding p ns t
    by (simp add: address_subject_def insert_commute)
qed

end
