(* ===== verification/Kdp_Runs.thy ===== *)
theory Kdp_Runs
  imports Kdp_Laws
begin

text \<open>
  The two operators of \<^verbatim>\<open>kdp-workspaces\<close> over one cluster: any run of their reconciliations, with
  users, the sync job and the control plane of kcp acting in between.  What a run can add to the
  workspaces and to the access, and how a project that becomes ready gets its staff.
\<close>

section \<open>Runs\<close>

text \<open>
  The controllers take one request after another from their queues; whatever a reconciliation
  returns, error and panic included, the manager goes on with the next.  In between others act on
  the cluster, as far as \<open>outside\<close> lets them.  The second index are the states seen, the last one last.
\<close>

inductive kdp_run :: "'w kdp_env \<Rightarrow> ('w \<Rightarrow> 'w \<Rightarrow> bool) \<Rightarrow> 'w \<Rightarrow> 'w list \<Rightarrow> 'w \<Rightarrow> bool"
  for E :: "'w kdp_env" and outside :: "'w \<Rightarrow> 'w \<Rightarrow> bool" and w0 :: 'w where
  run_starts: "kdp_run E outside w0 [w0] w0"
| run_project: "kdp_run E outside w0 vs w \<Longrightarrow> run_state (reconcile_project E req) w = (r, w') \<Longrightarrow>
    kdp_run E outside w0 (vs @ [w']) w'"
| run_staff: "kdp_run E outside w0 vs w \<Longrightarrow> run_state (reconcile_staff E req) w = (r, w') \<Longrightarrow>
    kdp_run E outside w0 (vs @ [w']) w'"
| run_outside: "kdp_run E outside w0 vs w \<Longrightarrow> outside w w' \<Longrightarrow> kdp_run E outside w0 (vs @ [w']) w'"

lemma kdp_run_sees: "kdp_run E outside w0 vs w \<Longrightarrow> w \<in> set vs"
  by (induction rule: kdp_run.induct) auto

section \<open>Both operators on one cluster\<close>

text \<open>
  A call on one kind leaves the other kinds alone.  A patch whose base is what the server stores
  stores the new value; a patch of the metadata leaves the status, one of the status the metadata.
\<close>

locale kdp_site = project_site E pjs wss + staff_site E sfs wss rbs
  for E :: "'w kdp_env" and pjs :: "'w \<Rightarrow> object_key \<Rightarrow> kproject option"
    and sfs :: "'w \<Rightarrow> object_key \<Rightarrow> kstaff option"
    and wss :: "'w \<Rightarrow> object_key \<Rightarrow> workspace option" and rbs :: "'w \<Rightarrow> object_key \<Rightarrow> binding option" +
  assumes project_calls: "kind_keeps (\<lambda>w. (sfs w, rbs w)) (ke_projects E)"
    and workspace_calls: "kind_keeps pjs (ke_workspaces E)"
    and staff_calls: "kind_keeps pjs (ke_staff E)"
    and binding_calls: "kind_keeps (\<lambda>w. (pjs w, sfs w, wss w)) (ke_bindings E)"
    and clock_calls: "keeps (same_part pjs) (ke_now E)"
    and condition_calls: "keeps (same_part (\<lambda>w. (pjs w, sfs w, rbs w))) (ke_set_condition E c cs)"
    and poll_calls: "keeps (same_part (\<lambda>s. (pjs (fst s), sfs (fst s), rbs (fst s)))) m \<Longrightarrow>
      keeps (same_part (\<lambda>s. (pjs (fst s), sfs (fst s), rbs (fst s)))) (ke_poll E m)"
    and patch_Ok: "run_state (kd_patch (ke_projects E) x y) w = (Inr z, w') \<Longrightarrow> pjs w (kp_key x) = Some x \<Longrightarrow>
      kp_key y = kp_key x \<Longrightarrow> kp_status y = kp_status x \<Longrightarrow>
      pjs w' = (pjs w)(kp_key x \<mapsto> y) \<and> kp_key z = kp_key x"
    and patch_status_Ok: "run_state (kd_patch_status (ke_projects E) x (x\<lparr>kp_status := st\<rparr>)) w = (Inr z, w') \<Longrightarrow>
      pjs w (kp_key x) = Some x \<Longrightarrow> pjs w' = (pjs w)(kp_key x \<mapsto> x\<lparr>kp_status := st\<rparr>)"
begin

text \<open>A reconciliation of a project leaves the staff and the bindings alone.\<close>

abbreviation "access w \<equiv> (sfs w, rbs w)"

lemma access_calls:
  "keeps (same_part access) (ke_config_map E k)" "keeps (same_part access) (ke_secret E k)"
  "keeps (same_part access) (ke_now E)" "keeps (same_part access) (ke_set_condition E c cs)"
  using calls_frame condition_calls[of c cs] by (auto simp: keeps_def same_part_def)

lemmas access_rules = keeps_part access_calls kind_keepsD[OF project_calls] kind_keepsD[OF workspaces_frame]

lemma update_condition_access: "keeps (same_part access) (update_condition E key c)"
  unfolding update_condition_def by (auto intro!: access_rules split: sum.split)

lemma update_workspace_status_access: "keeps (same_part access) (update_workspace_status E key info)"
  unfolding update_workspace_status_def by (auto intro!: access_rules update_condition_access split: sum.split)

lemma get_workspace_access: "keeps (same_part (\<lambda>w. (pjs w, sfs w, rbs w))) (get_workspace E cfg n)"
proof -
  have "keeps (same_part (\<lambda>w. (pjs w, sfs w, rbs w))) (kd_get (ke_workspaces E) k)" for k
    using kind_keepsD(1)[OF workspaces_frame, of k] kind_keepsD(1)[OF workspace_calls, of k]
    by (auto simp: keeps_def same_part_def)
  then show ?thesis unfolding get_workspace_def by (auto intro!: keeps_part)
qed

lemma check_ready_access:
  "keeps (same_part (\<lambda>s. (pjs (fst s), sfs (fst s), rbs (fst s)))) (check_ready E cfg n)"
proof -
  have "keeps (same_part (\<lambda>s. (pjs (fst s), sfs (fst s), rbs (fst s)))) (on_world (get_workspace E cfg n))"
    using get_workspace_access by (auto simp: on_world_def keeps_def same_part_def split: prod.splits)
  moreover have "keeps (same_part (\<lambda>s. (pjs (fst s), sfs (fst s), rbs (fst s)))) (set_variable v)"
    for v :: "workspace_info option"
    by (auto simp: set_variable_def keeps_def same_part_def)
  ultimately show ?thesis
    unfolding check_ready_def by (auto intro!: keeps_part split: sum.split option.split)
qed

lemma wait_access: "keeps (same_part (\<lambda>w. (pjs w, sfs w, rbs w))) (wait_for_workspace_ready E cfg n)"
proof (rule keepsI)
  fix w r w'
  assume run: "run_state (wait_for_workspace_ready E cfg n) w = (r, w')"
  obtain x w1 v where p: "run_state (ke_poll E (check_ready E cfg n)) (w, None) = (x, (w1, v))"
    by (metis surj_pair)
  from keepsD[OF poll_calls[OF check_ready_access] p] run p
  show "same_part (\<lambda>w. (pjs w, sfs w, rbs w)) w w'"
    by (auto simp: wait_for_workspace_ready_def same_part_def split: if_splits sum.splits option.splits)
qed

lemma reconcile_project_access: "keeps (same_part access) (reconcile_project E req)"
proof -
  have w: "keeps (same_part access) (wait_for_workspace_ready E cfg n)" "keeps (same_part access) (get_workspace E cfg n)"
    for cfg n
    using wait_access[of cfg n] get_workspace_access[of cfg n] by (auto simp: keeps_def same_part_def)
  have r: "keeps (same_part access) (report E key reason prefix t e)" for key reason prefix t e
    unfolding report_def by (auto intro!: access_rules update_condition_access)
  have c: "keeps (same_part access) (create_workspace E cfg n ns rn)" for cfg n ns rn
    unfolding create_workspace_def Let_def by (auto intro!: access_rules)
  have p: "keeps (same_part access) (create_and_wait E cfg key n)" for cfg key n
    unfolding create_and_wait_def wait_and_publish_def
    by (auto intro!: access_rules w r c update_condition_access update_workspace_status_access
        split: sum.split option.split)
  have k: "keeps (same_part access) (reconcile_workspace E cfg key)" for cfg key
    unfolding reconcile_workspace_def Let_def
    by (auto intro!: access_rules w r p update_workspace_status_access split: sum.split option.split)
  have l: "keeps (same_part access) (load_config_from_cluster E a b c)" for a b c
    unfolding load_config_from_cluster_def by (auto intro!: access_rules split: sum.split)
  have n: "keeps (same_part access) (reconcile_known E key)" for key
    unfolding reconcile_known_def by (auto intro!: access_rules l r k split: sum.split)
  show ?thesis unfolding reconcile_project_def by (auto intro!: access_rules n split: sum.split)
qed

lemma reconcile_project_needs_project:
  assumes "run_state (reconcile_project E req) w = (r, w')" and "shapes (wss w') \<noteq> shapes (wss w)"
  shows "pjs w req \<noteq> None"
proof -
  obtain g w1 where g: "run_state (kd_get (ke_projects E) req) w = (g, w1)" by (metis surj_pair)
  have "wss w1 = wss w" using keepsD[OF kind_keepsD(1)[OF projects_frame] g] by (simp add: same_part_def)
  then show ?thesis using assms g pj.get_Ok by (cases g) (auto simp: reconcile_project_def)
qed

text \<open>
  A reconciliation of the staff, whatever comes of it, changes only staff bindings, and gives those it
  changes the subjects \<open>S\<close>.
\<close>

definition grants :: "(string \<times> string) set \<Rightarrow> 'w \<Rightarrow> 'w \<Rightarrow> bool" where
  "grants S w w' \<longleftrightarrow> wss w' = wss w \<and>
     (\<forall>k. rbs w' k = rbs w k \<or>
          snd k = staff_binding_name \<and> (\<exists>b. rbs w' k = Some b \<and> set (rb_subjects b) = S))"

lemma grants_order: "reflp (grants S)" "transp (grants S)"
proof -
  have "grants S u w" if "grants S u v" "grants S v w" for u v w
    using that unfolding grants_def by metis
  then show "transp (grants S)" by (blast intro: transpI)
qed (simp add: reflp_def grants_def)

lemmas grants_rules = keeps_ret[OF grants_order(1)] keeps_bind[OF grants_order(2)]

lemma grants_same: "keeps (same_part (\<lambda>w. (wss w, rbs w))) m \<Longrightarrow> keeps (grants S) m"
  by (auto simp: keeps_def same_part_def grants_def)

lemma still_calls:
  "keeps (same_part (\<lambda>w. (wss w, rbs w))) (ke_now E)"
  "keeps (same_part (\<lambda>w. (wss w, rbs w))) (ke_config_map E k)"
  "keeps (same_part (\<lambda>w. (wss w, rbs w))) (ke_secret E k)"
  "keeps (same_part (\<lambda>w. (wss w, rbs w))) (kd_get (ke_bindings E) k)"
  "keeps (same_part (\<lambda>w. (wss w, rbs w))) (kd_list (ke_workspaces E) p)"
  using calls_frame kind_keepsD(1)[OF binding_calls, of k] kind_keepsD(2)[OF workspaces_frame, of p]
    rb.get_objs[of k] wk.list_Ok[of p] wk.list_Err[of p]
  by (auto simp: keeps_def same_part_def) (metis sum.exhaust)+

lemmas still_rules = keeps_part still_calls kind_keepsD[OF staff_frame]

lemma write_binding_grants: "keeps (grants (set subjects)) (write_binding E n path subjects ns)"
proof -
  have w: "wss w' = wss w" if "run_state (kd_create (ke_bindings E) x) w = (r, w') \<or>
      run_state (kd_update (ke_bindings E) x) w = (r, w')" for x r w w'
    using that keepsD[OF kind_keepsD(3)[OF binding_calls]] keepsD[OF kind_keepsD(4)[OF binding_calls]]
    by (auto simp: same_part_def)
  have c: "keeps (grants (set subjects)) (kd_create (ke_bindings E) (new_binding path t subjects ns))" for t
  proof (rule keepsI)
    fix w r w' assume r: "run_state (kd_create (ke_bindings E) (new_binding path t subjects ns)) w = (r, w')"
    then show "grants (set subjects) w w'"
      using rb.create_Ok rb.create_Err w
      by (cases r) (fastforce simp: grants_def new_binding_def rb_key_def)+
  qed
  have u: "keeps (grants (set subjects)) (kd_update (ke_bindings E) (b\<lparr>rb_subjects := subjects, rb_annotations := a\<rparr>))"
    if "snd (rb_key b) = staff_binding_name" for b a
  proof (rule keepsI)
    fix w r w' assume "run_state (kd_update (ke_bindings E) (b\<lparr>rb_subjects := subjects, rb_annotations := a\<rparr>)) w = (r, w')"
    then show "grants (set subjects) w w'"
      using rb.update_Ok rb.update_Err w that
      by (cases r) (fastforce simp: grants_def rb_key_def)+
  qed
  have k: "snd (rb_key x) = staff_binding_name"
    if "run_state (kd_get (ke_bindings E) (path, staff_binding_name)) w = (Inr x, w')" for x w w'
    using rb.get_Ok[OF that] by simp
  show ?thesis
    unfolding write_binding_def
    by (rule keeps_bind_result[OF grants_order(2) grants_same[OF still_calls(1)]],
        rule keeps_bind_result[OF grants_order(2) grants_same[OF still_calls(4)]])
       (auto intro!: grants_rules c u grants_same[OF still_calls(1)] dest: k split: sum.split option.split)
qed

lemma create_or_update_grants:
  "keeps (grants (set subjects)) (create_or_update_staff_binding E cfg n subjects ns)"
  unfolding create_or_update_staff_binding_def Let_def
  by (auto intro!: grants_rules write_binding_grants split: sum.split)

lemma bind_all_grants: "keeps (grants (set subjects)) (bind_all E cfg subjects infos acc)"
proof (induction infos arbitrary: acc)
  case (Cons i infos)
  obtain errs n where "acc = (errs, n)" by (metis surj_pair)
  then show ?case
    by (auto intro!: grants_rules create_or_update_grants Cons.IH split: go.split sum.split)
qed (cases acc; simp add: grants_rules)

lemma finish_staff_still: "keeps (same_part (\<lambda>w. (wss w, rbs w))) (finish_staff E name res)"
  unfolding finish_staff_def update_staff_annotations_def
  by (auto intro!: still_rules split: sum.split)

lemma load_config_all:
  "keeps (same_part (\<lambda>w. (sfs w, wss w, rbs w))) (load_config_from_cluster E a b c)"
  unfolding load_config_from_cluster_def by (auto intro!: keeps_part calls_frame split: sum.split)

lemma list_managed_all:
  "keeps (same_part (\<lambda>w. (sfs w, wss w, rbs w))) (list_managed_workspaces E cfg)"
proof -
  have "keeps (same_part (\<lambda>w. (sfs w, wss w, rbs w))) (kd_list (ke_workspaces E) p)" for p
    using kind_keepsD(2)[OF workspaces_frame, of p] still_calls(5)[of p] by (auto simp: keeps_def same_part_def)
  then show ?thesis unfolding list_managed_workspaces_def by (auto intro!: keeps_part)
qed

lemma reconcile_staff_grants:
  assumes run: "run_state (reconcile_staff E req) w = (r, w')"
  shows "grants (staff_subjects (ke_staff_namespace E) (sfs w)) w w'"
proof -
  let ?load = "load_config_from_cluster E (ke_config_map_name E) (ke_secret_name E) (ke_config_map_namespace E)"
  let ?S = "staff_subjects (ke_staff_namespace E) (sfs w)"
  obtain l w1 where l: "run_state ?load w = (l, w1)" by (metis surj_pair)
  have 1: "sfs w1 = sfs w" "wss w1 = wss w" "rbs w1 = rbs w"
    using keepsD[OF load_config_all l] by (auto simp: same_part_def)
  show ?thesis
  proof (cases "\<exists>cfg cfg' infos w2. l = Inr cfg \<and> new_kcp_client E cfg = Inr cfg' \<and>
      run_state (list_managed_workspaces E cfg') w1 = (Inr infos, w2)")
    case False
    then have "sfs w' = sfs w \<and> wss w' = wss w \<and> rbs w' = rbs w"
      using run l 1 keepsD[OF list_managed_all, of _ w1]
      by (auto simp: reconcile_staff_def same_part_def split: sum.splits prod.splits)
    then show ?thesis by (simp add: grants_def)
  next
    case True
    then obtain cfg cfg' infos w2 where m: "l = Inr cfg" "new_kcp_client E cfg = Inr cfg'"
      "run_state (list_managed_workspaces E cfg') w1 = (Inr infos, w2)" by blast
    have 2: "sfs w2 = sfs w" "wss w2 = wss w" "rbs w2 = rbs w"
      using keepsD[OF list_managed_all m(3)] 1 by (auto simp: same_part_def)
    obtain s w3 where s: "run_state (kd_list (ke_staff E) (ke_staff_namespace E)) w2 = (s, w3)" by (metis surj_pair)
    have 3: "wss w3 = wss w" "rbs w3 = rbs w"
      using keepsD[OF kind_keepsD(2)[OF staff_frame] s] 2 by (auto simp: same_part_def)
    show ?thesis
    proof (cases s)
      case (Inl e)
      then show ?thesis using run l m s 3 by (auto simp: reconcile_staff_def grants_def)
    next
      case (Inr xs)
      then have S: "set (List.map_filter subject_of xs) = ?S" using subjects_listed s 2(1) by metis
      have "run_state (do { b \<leftarrow> bind_all E cfg' (List.map_filter subject_of xs) infos ([], 0);
              case b of Panic \<Rightarrow> ret Panic
              | Return res \<Rightarrow> do { r \<leftarrow> finish_staff E (snd req) res; ret (Return r) } }) w3 = (r, w')"
        using run l m s Inr by (simp add: reconcile_staff_def)
      moreover have "keeps (grants ?S) (do { b \<leftarrow> bind_all E cfg' (List.map_filter subject_of xs) infos ([], 0);
              case b of Panic \<Rightarrow> ret Panic
              | Return res \<Rightarrow> do { r \<leftarrow> finish_staff E (snd req) res; ret (Return r) } })"
        using bind_all_grants[of "List.map_filter subject_of xs"] unfolding S
        by (auto intro!: grants_rules grants_same[OF finish_staff_still] split: go.split)
      ultimately have "grants ?S w3 w'" by (rule keepsD[rotated])
      then show ?thesis using 3 by (simp add: grants_def)
    qed
  qed
qed

text \<open>What a run has done to a binding and to a workspace.\<close>

definition binding_granted :: "'w list \<Rightarrow> 'w \<Rightarrow> 'w \<Rightarrow> object_key \<Rightarrow> bool" where
  "binding_granted vs w0 w k \<longleftrightarrow> rbs w k = rbs w0 k \<or>
     snd k = staff_binding_name \<and> (\<exists>b. \<exists>v \<in> set vs. rbs w k = Some b \<and>
       set (rb_subjects b) = staff_subjects (ke_staff_namespace E) (sfs v))"

definition workspace_grown :: "'w list \<Rightarrow> 'w \<Rightarrow> 'w \<Rightarrow> object_key \<Rightarrow> bool" where
  "workspace_grown vs w0 w k \<longleftrightarrow> shapes (wss w) k = shapes (wss w0) k \<or>
     wss w0 k = None \<and> (\<exists>x. wss w k = Some x \<and> by_operator x) \<and>
     (\<exists>v \<in> set vs. \<exists>req. pjs v req \<noteq> None \<and> snd k = to_lower (snd req))"

lemma binding_step:
  assumes "binding_granted vs w0 w k" and "v \<in> set vs"
    and "grants (staff_subjects (ke_staff_namespace E) (sfs v)) w w' \<or> rbs w' = rbs w"
  shows "binding_granted (vs @ [w']) w0 w' k"
proof (cases "rbs w' k = rbs w k")
  case True
  then show ?thesis using assms(1) unfolding binding_granted_def by auto
next
  case False
  then have "grants (staff_subjects (ke_staff_namespace E) (sfs v)) w w'" using assms(3) by auto
  then have "snd k = staff_binding_name \<and> (\<exists>b. rbs w' k = Some b \<and>
      set (rb_subjects b) = staff_subjects (ke_staff_namespace E) (sfs v))"
    using False unfolding grants_def by blast
  then show ?thesis using assms(2) unfolding binding_granted_def by auto
qed

lemma workspace_kept:
  assumes "workspace_grown vs w0 w k" and s: "shapes (wss w') = shapes (wss w)"
  shows "workspace_grown (vs @ [w']) w0 w' k"
proof -
  have e: "shapes (wss w) k = shapes (wss w') k" using s by simp
  have "\<exists>y. wss w' k = Some y \<and> by_operator y" if "wss w k = Some x" "by_operator x" for x
    using shapes_same(2)[OF e that(1)] that(2) by (auto simp: by_operator_def)
  then show ?thesis using assms unfolding workspace_grown_def by (fastforce simp: s)
qed

lemma workspace_added:
  assumes "workspace_grown vs w0 w k" and "w \<in> set vs" and "only_adds (to_lower (snd req)) w w'"
    and "shapes (wss w') \<noteq> shapes (wss w) \<Longrightarrow> pjs w req \<noteq> None"
  shows "workspace_grown (vs @ [w']) w0 w' k"
proof (cases "shapes (wss w') k = shapes (wss w) k")
  case True
  have "\<exists>y. wss w' k = Some y \<and> by_operator y" if "wss w k = Some x" "by_operator x" for x
    using shapes_same(2)[OF True[symmetric] that(1)] that(2) by (auto simp: by_operator_def)
  then show ?thesis using assms(1) True unfolding workspace_grown_def by fastforce
next
  case False
  then have n: "snd k = to_lower (snd req)" "wss w k = None" "\<exists>x. wss w' k = Some x \<and> by_operator x"
    using assms(3) unfolding only_adds_def by blast+
  have p: "pjs w req \<noteq> None" using assms(4) False by metis
  have "wss w0 k = None"
    using assms(1) n(2) shapes_same(1)[of "wss w" k "wss w0"] unfolding workspace_grown_def by auto
  moreover have "\<exists>v \<in> set (vs @ [w']). \<exists>req. pjs v req \<noteq> None \<and> snd k = to_lower (snd req)"
    by (rule bexI[of _ w], rule exI[of _ req]) (use n p assms(2) in simp_all)
  ultimately show ?thesis using n(3) unfolding workspace_grown_def by blast
qed

lemma run_effect:
  assumes "kdp_run E outside w0 vs w"
    and out: "\<And>v v'. outside v v' \<Longrightarrow> shapes (wss v') = shapes (wss v) \<and> rbs v' = rbs v"
  shows "binding_granted vs w0 w k \<and> workspace_grown vs w0 w k"
  using assms(1)
proof (induction rule: kdp_run.induct)
  case run_starts
  show ?case by (simp add: binding_granted_def workspace_grown_def)
next
  case (run_project vs w req r w')
  have "rbs w' = rbs w" using keepsD[OF reconcile_project_access run_project.hyps(2)] by (simp add: same_part_def)
  moreover note kdp_run_sees[OF run_project.hyps(1)]
  ultimately show ?case
    using binding_step[OF conjunct1[OF run_project.IH]]
      workspace_added[OF conjunct2[OF run_project.IH] _ reconcile_project_adds[OF run_project.hyps(2)]
        reconcile_project_needs_project[OF run_project.hyps(2)]] by metis
next
  case (run_staff vs w req r w')
  note g = reconcile_staff_grants[OF run_staff.hyps(2)]
  have "shapes (wss w') = shapes (wss w)" using g by (simp add: grants_def)
  then show ?case
    using binding_step[OF conjunct1[OF run_staff.IH] kdp_run_sees[OF run_staff.hyps(1)]] g
      workspace_kept[OF conjunct2[OF run_staff.IH]] by blast
next
  case (run_outside vs w w')
  then show ?case
    using out[OF run_outside.hyps(2)] binding_step[OF conjunct1[OF run_outside.IH] kdp_run_sees[OF run_outside.hyps(1)]]
      workspace_kept[OF conjunct2[OF run_outside.IH]] by blast
qed

section \<open>From a ready project to the access of the staff\<close>

lemma condition_keeps_projects:
  "run_state (update_condition E key c) w = (Inr u, w') \<Longrightarrow> pjs w key = Some p \<Longrightarrow>
   \<exists>p'. pjs w' key = Some p' \<and> kp_annotations p' = kp_annotations p"
proof -
  assume run: "run_state (update_condition E key c) w = (Inr u, w')" and p: "pjs w key = Some p"
  obtain x w1 where g: "run_state (kd_get (ke_projects E) key) w = (Inr x, w1)"
    using run by (auto simp: update_condition_def split: prod.splits sum.splits)
  then have x: "x = p" "pjs w1 = pjs w" "kp_key x = key" using pj.get_Ok[OF g] p by auto
  obtain cs w2 where c: "run_state (ke_set_condition E c (status_conditions (kp_status x))) w1 = (cs, w2)"
    by (metis surj_pair)
  obtain z where t: "run_state (kd_patch_status (ke_projects E) x
      (x\<lparr>kp_status := Some (with_conditions (ke_rfc3339 E) cs (kp_status x))\<rparr>)) w2 = (Inr z, w')"
    using run g c by (auto simp: update_condition_def split: prod.splits sum.splits)
  have "pjs w2 = pjs w" using keepsD[OF condition_calls c] x by (simp add: same_part_def)
  then show ?thesis using patch_status_Ok[OF t] x p by simp
qed

lemma publish_annotates:
  assumes run: "run_state (update_workspace_status E key info) w = (Inr u, w')"
  shows "\<exists>x p. pjs w key = Some x \<and> pjs w' key = Some p \<and>
    kp_annotations p = workspace_annotations info (kp_annotations x)"
proof -
  obtain x w1 where g: "run_state (kd_get (ke_projects E) key) w = (Inr x, w1)"
    using run by (auto simp: update_workspace_status_def split: prod.splits sum.splits)
  then have x: "pjs w key = Some x" "pjs w1 = pjs w" "kp_key x = key" using pj.get_Ok[OF g] by auto
  let ?y = "x\<lparr>kp_annotations := workspace_annotations info (kp_annotations x)\<rparr>"
  obtain z w2 where t: "run_state (kd_patch (ke_projects E) x ?y) w1 = (Inr z, w2)"
    using run g by (auto simp: update_workspace_status_def split: prod.splits sum.splits)
  have y: "pjs w2 key = Some ?y" "kp_key z = key"
    using patch_Ok[OF t] x by (auto simp: kp_key_def)
  obtain now w3 where n: "run_state (ke_now E) w2 = (now, w3)" by (metis surj_pair)
  have "pjs w3 key = Some ?y" using keepsD[OF clock_calls n] y by (simp add: same_part_def)
  moreover have "run_state (update_condition E key (readiness_condition info (kp_generation z) now)) w3 = (Inr u, w')"
    using run g t n y(2) by (auto simp: update_workspace_status_def)
  ultimately show ?thesis using condition_keeps_projects x(1) by fastforce
qed

text \<open>What the watch makes of a project that was published as ready.\<close>

lemma ready_triggers:
  "wi_phase info = phase_ready \<Longrightarrow>
   project_to_requests E (workspace_annotations info a) = [(ke_staff_namespace E, workspace_trigger)]"
  by (simp add: project_to_requests_def workspace_annotations_def phase_ready_def)

lemma ready_project_is_staffed:
  assumes cfg: "\<And>u. fst (run_state (load_config_from_cluster E (ke_config_map_name E) (ke_secret_name E)
      (ke_config_map_namespace E)) u) = Inr cfg"
    and p: "pjs w req \<noteq> None"
    and own: "\<And>x. wss w (kc_workspace_path cfg, to_lower (snd req)) = Some x \<Longrightarrow> by_operator x"
    and run: "run_state (reconcile_project E req) w = (Return (0, None), w1)"
    and same: "wss v = wss w1"
    and staff: "run_state (reconcile_staff E (ke_staff_namespace E, workspace_trigger)) v = (Return (0, None), v')"
  shows "(\<exists>p. pjs w1 req = Some p \<and>
      project_to_requests E (kp_annotations p) = [(ke_staff_namespace E, workspace_trigger)]) \<and>
    (\<exists>b. rbs v' (ke_join E (base_path cfg) (to_lower (snd req)), staff_binding_name) = Some b \<and>
       set (rb_subjects b) = staff_subjects (ke_staff_namespace E) (sfs v))"
proof
  let ?k = "(kc_workspace_path cfg, to_lower (snd req))"
  have pub: "publishes cfg req w1" using reconcile_project_publishes[OF run] p cfg by auto
  then obtain info w2 u where i: "wi_phase info = phase_ready"
    "run_state (update_workspace_status E req info) w2 = (Inr u, w1)" by (auto simp: publishes_def)
  show "\<exists>p. pjs w1 req = Some p \<and>
      project_to_requests E (kp_annotations p) = [(ke_staff_namespace E, workspace_trigger)]"
    using publish_annotates[OF i(2)] ready_triggers[OF i(1)] by fastforce
  obtain x where x: "wss w1 ?k = Some x" "wk_key x = ?k" "wk_phase x = phase_ready"
    using publishes_ready[OF pub] by (auto simp: ready_at_def)
  have "by_operator x"
  proof (cases "shapes (wss w1) ?k = shapes (wss w) ?k")
    case True
    show ?thesis using shapes_same(2)[OF True x(1)] own by (auto simp: by_operator_def)
  next
    case False
    then have "\<exists>y. wss w1 ?k = Some y \<and> by_operator y"
      using reconcile_project_adds[OF run, unfolded only_adds_def, THEN spec, of ?k] by blast
    then show ?thesis using x(1) by simp
  qed
  then have "managed x" using x(3) by (simp add: managed_def by_operator_def)
  moreover have n: "wk_path x = kc_workspace_path cfg" "wk_name x = to_lower (snd req)"
    using x(2) by (simp_all add: wk_key_def)
  moreover have "wss v (wk_key x) = Some x" using x(1,2) same by simp
  moreover obtain c where c: "fst (run_state (load_config_from_cluster E (ke_config_map_name E) (ke_secret_name E)
      (ke_config_map_namespace E)) v) = Inr c"
    and all: "\<forall>x. wss v (wk_key x) = Some x \<and> wk_path x = kc_workspace_path c \<and> managed x \<longrightarrow>
       (\<exists>b. rbs v' (ke_join E (base_path c) (wk_name x), staff_binding_name) = Some b \<and>
            set (rb_subjects b) = staff_subjects (ke_staff_namespace E) (sfs v))"
    using reconcile_staff_binds[OF staff] by blast
  moreover have "c = cfg" using c cfg[of v] by simp
  ultimately show "\<exists>b. rbs v' (ke_join E (base_path cfg) (to_lower (snd req)), staff_binding_name) = Some b \<and>
       set (rb_subjects b) = staff_subjects (ke_staff_namespace E) (sfs v)"
    unfolding n(2)[symmetric] by blast
qed

end

text \<open>
  The event passes the filter of the staff controller, which sees the updates of projects as well:
  the phase is none of the annotations it ignores.
\<close>

lemma map_of_put: "map_of (map_put k v m) k' = (if k = k' then Some v else map_of m k')"
  by (induction m) auto

lemma length_without_sync_put:
  assumes "k \<notin> {ann_last_synced, ann_sync_status, ann_workspace_count}"
  shows "length (without_sync (map_put k v m)) = length (without_sync m) + (if map_of m k = None then 1 else 0)"
  using assms by (induction m) (auto simp: without_sync_def)

lemma map_of_without_sync:
  assumes "k \<notin> {ann_last_synced, ann_sync_status, ann_workspace_count}"
  shows "map_of (without_sync m) k = map_of m k"
  using assms by (induction m) (auto simp: without_sync_def)

lemma readiness_passes_the_filter:
  assumes "map_get a ann_workspace_phase \<noteq> ''Ready''" and "wi_phase info = ''Ready''"
  shows "update_passes a (workspace_annotations info a) g g'"
proof (cases "map_of a ann_workspace_phase")
  case (Some v)
  have m: "map_of (without_sync a) ann_workspace_phase = Some v"
    using Some by (subst map_of_without_sync) simp_all
  have "v \<noteq> ''Ready''" using Some assms(1) by (simp add: map_get_def)
  moreover have "map_get (without_sync (workspace_annotations info a)) ann_workspace_phase = ''Ready''"
    using assms(2) by (simp add: map_get_def workspace_annotations_def map_of_without_sync map_of_put)
  ultimately show ?thesis
    using map_of_SomeD[OF m] by (auto simp: update_passes_def Let_def list_ex_iff)
next
  case None
  then have "length (without_sync a) < length (without_sync (workspace_annotations info a))"
    by (simp add: workspace_annotations_def length_without_sync_put map_of_put)
  then show ?thesis by (simp add: update_passes_def Let_def)
qed

section \<open>The cluster in memory\<close>

interpretation operators: kdp_site mem_kdp "\<lambda>w k. find_obj kp_key k (kw_projects w)"
  "\<lambda>w k. find_obj kf_key k (kw_staff w)" "\<lambda>w k. find_obj wk_key k (kw_workspaces w)"
  "\<lambda>w k. find_obj rb_key k (kw_bindings w)"
proof (intro kdp_site.intro kdp_site_axioms.intro)
  show "project_site mem_kdp (\<lambda>w k. find_obj kp_key k (kw_projects w)) (\<lambda>w k. find_obj wk_key k (kw_workspaces w))"
    by (rule projects.project_site_axioms)
  show "staff_site mem_kdp (\<lambda>w k. find_obj kf_key k (kw_staff w)) (\<lambda>w k. find_obj wk_key k (kw_workspaces w))
      (\<lambda>w k. find_obj rb_key k (kw_bindings w))"
    by (rule staff.staff_site_axioms)
next
  let ?f = "\<lambda>s :: kdp_world \<times> workspace_info option. (\<lambda>k. find_obj kp_key k (kw_projects (fst s)),
    \<lambda>k. find_obj kf_key k (kw_staff (fst s)), \<lambda>k. find_obj rb_key k (kw_bindings (fst s)))"
  fix m :: "(kdp_world \<times> workspace_info option, bool result) io"
  assume m: "keeps (same_part ?f) m"
  have "keeps (same_part ?f) workspaces_come_up"
    using come_up_keeps by (auto simp: keeps_def same_part_def)
  from poll_times_keeps[OF this m] show "keeps (same_part ?f) (ke_poll mem_kdp m)" by (simp add: mem_kdp_def)
next
  fix x y z :: kproject and w w' :: kdp_world
  assume "run_state (kd_patch (ke_projects mem_kdp) x y) w = (Inr z, w')" and "kp_key y = kp_key x"
  then show "(\<lambda>k. find_obj kp_key k (kw_projects w')) = (\<lambda>k. find_obj kp_key k (kw_projects w))(kp_key x \<mapsto> y) \<and>
      kp_key z = kp_key x"
    using mem_kind_patch[of kw_projects "\<lambda>x w. w\<lparr>kw_projects := x\<rparr>" kp_key x y w z w'] by (simp add: mem_kdp_def)
next
  fix x z :: kproject and w w' :: kdp_world and st
  assume "run_state (kd_patch_status (ke_projects mem_kdp) x (x\<lparr>kp_status := st\<rparr>)) w = (Inr z, w')"
  then show "(\<lambda>k. find_obj kp_key k (kw_projects w')) =
      (\<lambda>k. find_obj kp_key k (kw_projects w))(kp_key x \<mapsto> x\<lparr>kp_status := st\<rparr>)"
    using mem_kind_patch[of kw_projects "\<lambda>x w. w\<lparr>kw_projects := x\<rparr>" kp_key x "x\<lparr>kp_status := st\<rparr>" w z w']
    by (simp add: mem_kdp_def kp_key_def)
qed (auto simp: mem_kdp_def mem_kind_keeps keeps_def same_part_def)

section \<open>Properties\<close>

text \<open>
  C22: over any run of the two operators, whatever their reconciliations return and whatever others
  do to projects, staff and the progress of workspaces in between: a binding that is not as it
  was at the start is a staff binding and names exactly the staff of some moment of the run; no
  workspace that was there is gone or changed beyond phase and URL; and every new workspace is marked as the operator's
  and named after a project that existed at some moment.
\<close>

theorem operators_give_only_staff_access:
  assumes "kdp_site E pjs sfs wss rbs"
    and "\<And>v v'. outside v v' \<Longrightarrow> shapes (wss v') = shapes (wss v) \<and> rbs v' = rbs v"
    and "kdp_run E outside w0 vs w"
  shows "(rbs w k = rbs w0 k \<or>
      snd k = staff_binding_name \<and> (\<exists>b. \<exists>v \<in> set vs. rbs w k = Some b \<and>
        set (rb_subjects b) = staff_subjects (ke_staff_namespace E) (sfs v))) \<and>
    (shapes (wss w) k = shapes (wss w0) k \<or>
      wss w0 k = None \<and> (\<exists>x. wss w k = Some x \<and> by_operator x) \<and>
      (\<exists>v \<in> set vs. \<exists>req. pjs v req \<noteq> None \<and> snd k = to_lower (snd req)))"
  using kdp_site.run_effect[OF assms(1,3,2)]
  unfolding kdp_site.binding_granted_def[OF assms(1)] kdp_site.workspace_grown_def[OF assms(1)] .

text \<open>Beta gets its workspace, a staff member without address is given one, and the staff is reconciled.\<close>

definition beta_added :: kdp_world where
  "beta_added = snd (run_state (reconcile_project mem_kdp (''md'', ''Beta'')) demo_kdp)"

definition tom_enters :: "kdp_world \<Rightarrow> kdp_world \<Rightarrow> bool" where
  "tom_enters v v' \<longleftrightarrow> v' = v\<lparr>kw_staff := map (\<lambda>x. if kf_name x = ''tom''
     then x\<lparr>kf_spec := Some (JObject [(''primaryEmail'', JString ''tom@cncf.io'')])\<rparr> else x) (kw_staff v)\<rparr>"

definition tom_entered :: kdp_world where
  "tom_entered = beta_added\<lparr>kw_staff := map (\<lambda>x. if kf_name x = ''tom''
     then x\<lparr>kf_spec := Some (JObject [(''primaryEmail'', JString ''tom@cncf.io'')])\<rparr> else x) (kw_staff beta_added)\<rparr>"

definition beta_staffed :: kdp_world where
  "beta_staffed = snd (run_state (reconcile_staff mem_kdp (''md'', ''workspace-trigger'')) tom_entered)"

theorem operators_give_only_staff_access_witness:
  "\<exists>b. \<exists>v \<in> {demo_kdp, beta_added, tom_entered, beta_staffed}.
     find_obj rb_key (''root:orgs:beta'', ''cncf-staff-access'') (kw_bindings beta_staffed) = Some b \<and>
     set (rb_subjects b) = staff_subjects ''md'' (\<lambda>k. find_obj kf_key k (kw_staff v))"
proof -
  have "kdp_run mem_kdp tom_enters demo_kdp ((([demo_kdp] @ [beta_added]) @ [tom_entered]) @ [beta_staffed]) beta_staffed"
  proof (rule run_staff, rule run_outside, rule run_project, rule run_starts)
    show "run_state (reconcile_project mem_kdp (''md'', ''Beta'')) demo_kdp =
        (fst (run_state (reconcile_project mem_kdp (''md'', ''Beta'')) demo_kdp), beta_added)"
      by (simp add: beta_added_def)
    show "tom_enters beta_added tom_entered" by (simp add: tom_enters_def tom_entered_def)
    show "run_state (reconcile_staff mem_kdp (''md'', ''workspace-trigger'')) tom_entered =
        (fst (run_state (reconcile_staff mem_kdp (''md'', ''workspace-trigger'')) tom_entered), beta_staffed)"
      by (simp add: beta_staffed_def)
  qed
  note run = operators_give_only_staff_access[OF operators.kdp_site_axioms _ this]
  have "find_obj rb_key (''root:orgs:beta'', ''cncf-staff-access'') (kw_bindings demo_kdp) = None"
    "find_obj rb_key (''root:orgs:beta'', ''cncf-staff-access'') (kw_bindings beta_staffed) \<noteq> None"
    and "ke_staff_namespace mem_kdp = ''md''" by code_simp+
  then show ?thesis
    using run[of "(''root:orgs:beta'', ''cncf-staff-access'')", THEN conjunct1]
    by (auto simp: tom_enters_def)
qed

text \<open>
  C21: a project that is reconciled without an error and without a date for the next attempt is
  marked ready, which makes the watch ask for a staff run; once that run ends without an error, the
  workspace of the project grants access to exactly the staff of that moment.  The workspace may have
  been there before, as long as it was the operator's.
\<close>

theorem ready_project_gets_its_staff:
  assumes "kdp_site E pjs sfs wss rbs"
    and "\<And>u. fst (run_state (load_config_from_cluster E (ke_config_map_name E) (ke_secret_name E)
      (ke_config_map_namespace E)) u) = Inr cfg"
    and "pjs w req \<noteq> None"
    and "\<And>x. wss w (kc_workspace_path cfg, to_lower (snd req)) = Some x \<Longrightarrow> by_operator x"
    and "run_state (reconcile_project E req) w = (Return (0, None), w1)"
    and "wss v = wss w1"
    and "run_state (reconcile_staff E (ke_staff_namespace E, workspace_trigger)) v = (Return (0, None), v')"
  shows "(\<exists>p. pjs w1 req = Some p \<and>
      project_to_requests E (kp_annotations p) = [(ke_staff_namespace E, workspace_trigger)]) \<and>
    (\<exists>b. rbs v' (ke_join E (base_path cfg) (to_lower (snd req)), staff_binding_name) = Some b \<and>
       set (rb_subjects b) = staff_subjects (ke_staff_namespace E) (sfs v))"
  by (rule kdp_site.ready_project_is_staffed[OF assms])

theorem ready_project_gets_its_staff_witness:
  "\<exists>b. find_obj rb_key (''root:orgs:beta'', ''cncf-staff-access'') (kw_bindings beta_staffed) = Some b \<and>
     set (rb_subjects b) = staff_subjects ''md'' (\<lambda>k. find_obj kf_key k (kw_staff tom_entered))"
proof -
  let ?cfg = "\<lparr>kc_kubeconfig = ''kc'', kc_workspace_path = ''root:orgs'', kc_workspace_type = []\<rparr>"
  have c: "fst (run_state (load_config_from_cluster mem_kdp (ke_config_map_name mem_kdp) (ke_secret_name mem_kdp)
        (ke_config_map_namespace mem_kdp)) u) = Inr ?cfg" for u
    by (simp add: load_config_from_cluster_def mem_kdp_def map_get_def)
  have p: "find_obj kp_key (''md'', ''Beta'') (kw_projects demo_kdp) \<noteq> None"
    and o: "find_obj wk_key (kc_workspace_path ?cfg, to_lower (snd (''md'', ''Beta''))) (kw_workspaces demo_kdp) = None"
    and n: "ke_join mem_kdp (base_path ?cfg) (to_lower (snd (''md'', ''Beta''))) = ''root:orgs:beta''"
    and ns: "ke_staff_namespace mem_kdp = ''md''" by code_simp+
  have 1: "fst (run_state (reconcile_project mem_kdp (''md'', ''Beta'')) demo_kdp) = Return (0, None)" by code_simp
  have 2: "fst (run_state (reconcile_staff mem_kdp (ke_staff_namespace mem_kdp, workspace_trigger)) tom_entered) = Return (0, None)"
    by code_simp
  have s: "(\<lambda>k. find_obj wk_key k (kw_workspaces tom_entered)) =
      (\<lambda>k. find_obj wk_key k (kw_workspaces (snd (run_state (reconcile_project mem_kdp (''md'', ''Beta'')) demo_kdp))))"
    by (simp add: tom_entered_def beta_added_def)
  show ?thesis
    using ready_project_gets_its_staff[OF operators.kdp_site_axioms c p _ run_eqI[OF 1] s run_eqI[OF 2], THEN conjunct2]
    unfolding n ns o beta_staffed_def by simp
qed

end
