(* ===== verification/Bootstrap.thy ===== *)
theory Bootstrap
  imports Sql_Store Fossa_Client
begin

text \<open>
  \<^verbatim>\<open>db/connection.go\<close> and \<^verbatim>\<open>db/bootstrap.go\<close>: the database is opened and filled from the
  work sheets of the foundation and from FOSSA.  The sheets service and the drivers are not part of
  the repository: a range of a sheet is a list of rows of cells, each cell as \<^verbatim>\<open>fmt.Sprint\<close>
  prints it.
\<close>

section \<open>Headers\<close>

abbreviation StatusHdr :: string where "StatusHdr \<equiv> ''Status''"
abbreviation ProjectHdr :: string where "ProjectHdr \<equiv> ''Project''"
abbreviation MaintainerNameHdr :: string where "MaintainerNameHdr \<equiv> ''Maintainer Name''"
abbreviation StaffMemberNameHdr :: string where "StaffMemberNameHdr \<equiv> ''Staff Member Name''"
abbreviation FoundationHdr :: string where "FoundationHdr \<equiv> ''Foundation''"
abbreviation CompanyNameHdr :: string where "CompanyNameHdr \<equiv> ''Company''"
abbreviation EmailHdr :: string where "EmailHdr \<equiv> ''Emails''"
abbreviation GitHubHdr :: string where "GitHubHdr \<equiv> ''Github Name''"
abbreviation GitHubEmail :: string where "GitHubEmail \<equiv> ''GitHub Email''"
abbreviation ParentProjectHdr :: string where "ParentProjectHdr \<equiv> ''Parent Project''"
abbreviation MaintainerFileRefHdr :: string where "MaintainerFileRefHdr \<equiv> ''OWNERS/MAINTAINERS''"
abbreviation MailingListAddrHdr :: string where "MailingListAddrHdr \<equiv> ''Mailing List Address''"

section \<open>Opening\<close>

text \<open>A database handle, or what the driver says.\<close>

record 'db drivers =
  dr_sqlite :: "string \<Rightarrow> 'db result"
  dr_postgres :: "string \<Rightarrow> 'db result"

definition open_gorm :: "'db drivers \<Rightarrow> string \<Rightarrow> string \<Rightarrow> 'db result" where
  "open_gorm D driver dsn =
     (if driver = [] \<or> driver = ''sqlite''
      then if dsn = [] then Inl (Msg ''sqlite requires a db path'') else dr_sqlite D dsn
      else if driver = ''postgres''
      then if dsn = [] then Inl (Msg ''postgres requires a DSN'') else dr_postgres D dsn
      else Inl (Msg (''unsupported db driver: '' @ driver)))"

section \<open>Reading a sheet\<close>

text \<open>The cell of a row, blank where the row is short.\<close>

definition cell :: "string list \<Rightarrow> nat \<Rightarrow> string" where
  "cell r i = (if i < length r then trim_space (r ! i) else [])"

text \<open>The first column with a given header.\<close>

fun column_of :: "string \<Rightarrow> nat \<Rightarrow> string list \<Rightarrow> nat option" where
  "column_of hdr i [] = None"
| "column_of hdr i (h # hs) = (if h = hdr then Some i else column_of hdr (i + 1) hs)"

definition carry_columns :: "string list \<Rightarrow> string list \<Rightarrow> nat set" where
  "carry_columns headers hdrs = set (List.map_filter (\<lambda>hdr. column_of hdr 0 headers) hdrs)"

text \<open>
  One row: the values carried so far, the map of the row, and whether a cell had a value.  The
  carried values are updated cell by cell, as the loop does.
\<close>

fun read_row ::
  "nat set \<Rightarrow> string list \<Rightarrow> nat \<Rightarrow> string list \<Rightarrow> (nat \<Rightarrow> string) \<Rightarrow> (string, string) gomap \<Rightarrow> bool
     \<Rightarrow> (nat \<Rightarrow> string) \<times> (string, string) gomap \<times> bool" where
  "read_row carry r i [] lastVals rowMap hasAnyValue = (lastVals, rowMap, hasAnyValue)"
| "read_row carry r i (h # hs) lastVals rowMap hasAnyValue =
     (let cellVal = cell r i;
          lastVals' = (if i \<in> carry \<and> cellVal \<noteq> [] then lastVals(i := cellVal) else lastVals)
      in read_row carry r (i + 1) hs lastVals'
           (map_put h (if i \<in> carry then lastVals' i else cellVal) rowMap)
           (hasAnyValue \<or> cellVal \<noteq> []))"

fun read_rows ::
  "nat set \<Rightarrow> string list \<Rightarrow> string list list \<Rightarrow> (nat \<Rightarrow> string) \<Rightarrow> (string, string) gomap list" where
  "read_rows carry headers [] lastVals = []"
| "read_rows carry headers (r # rs) lastVals =
     (case read_row carry r 0 headers lastVals [] False of
        (lastVals', rowMap, hasAnyValue) \<Rightarrow>
          (if hasAnyValue then [rowMap] else []) @ read_rows carry headers rs lastVals')"

definition read_sheet_rows ::
  "(string \<Rightarrow> string \<Rightarrow> ('w, string list list result) io) \<Rightarrow> string \<Rightarrow> string \<Rightarrow> string list
     \<Rightarrow> ('w, (string, string) gomap list result) io" where
  "read_sheet_rows get_values spreadsheetID readRange carryForwardHeaders =
     do { resp \<leftarrow> get_values spreadsheetID readRange;
          ret (case resp of
                 Inl e \<Rightarrow> Inl (Wrap (''db: Using '' @ spreadsheetID @ '' unable to retrieve worksheet data ('' @
                                readRange @ ''): '') e [])
               | Inr [] \<Rightarrow> Inl (Msg (''db: '' @ spreadsheetID @ '' worksheet is empty''))
               | Inr (hs # rs) \<Rightarrow>
                   (let headers = map trim_space hs in
                    Inr (read_rows (carry_columns headers carryForwardHeaders) headers rs (\<lambda>_. [])))) }"

definition sheet_value :: "(string, string) gomap \<Rightarrow> string \<Rightarrow> string" where
  "sheet_value row h = (case map_of row h of None \<Rightarrow> [] | Some v \<Rightarrow> v)"

text \<open>The sheets service: its construction with the credentials, and the values of a range.\<close>

record 'w sheets =
  sh_new_service :: "string \<Rightarrow> ('w, unit result) io"
  sh_get_values :: "string \<Rightarrow> string \<Rightarrow> ('w, string list list result) io"

section \<open>Maintainers and projects\<close>

text \<open>\<^verbatim>\<open>FirstOrCreate\<close> where the insert can already fail on its arguments.\<close>

definition find_or :: "('w, 'r) table \<Rightarrow> ('r \<Rightarrow> bool) \<Rightarrow> ('w, 'r result) io \<Rightarrow> ('w, 'r result) io" where
  "find_or T p create =
     do { x \<leftarrow> t_first T p;
          case x of
            Inr y \<Rightarrow> ret (Inr y)
          | Inl e \<Rightarrow> if errors_is e ErrRecordNotFound then create else ret (Inl e) }"

definition parent_of_row :: "'w gorm \<Rightarrow> (string, string) gomap \<Rightarrow> ('w, project option) io" where
  "parent_of_row G row =
     (let parentName = sheet_value row ParentProjectHdr in
      if parentName = [] then ret None
      else do { r \<leftarrow> t_first (projects G) (\<lambda>p. pr_name p = parentName);
                ret (case r of Inl _ \<Rightarrow> None | Inr p \<Rightarrow> if pr_name p = [] then None else Some p) })"

definition project_of_row :: "(string, string) gomap \<Rightarrow> project option \<Rightarrow> project" where
  "project_of_row row parent =
     zero_project
       \<lparr>pr_name := sheet_value row ProjectHdr,
        pr_maturity := (case parent of None \<Rightarrow> sheet_value row StatusHdr | Some p \<Rightarrow> pr_maturity p),
        pr_legacy_ref := sheet_value row MaintainerFileRefHdr,
        pr_mailing_list := (let l = sheet_value row MailingListAddrHdr in if l = [] then None else Some l),
        pr_parent_id := map_option row_id parent\<rparr>"

definition maintainer_of_row :: "(string, string) gomap \<Rightarrow> company option \<Rightarrow> maintainer" where
  "maintainer_of_row row c =
     zero_maintainer
       \<lparr>mt_name := sheet_value row MaintainerNameHdr, mt_github := sheet_value row GitHubHdr,
        mt_github_email := sheet_value row GitHubEmail, mt_email := sheet_value row EmailHdr,
        mt_status := ActiveMaintainer, mt_company_id := map_option row_id c\<rparr>"

definition store_maintainer :: "'w gorm \<Rightarrow> (string, string) gomap \<Rightarrow> project \<Rightarrow> ('w, unit result) io" where
  "store_maintainer G row prj =
     (let companyName = sheet_value row CompanyNameHdr in
      try_bind (if companyName = [] then ret (Inr None)
                else try_bind (first_or_create (companies G) (\<lambda>c. co_name c = companyName)
                                 (zero_company\<lparr>co_name := companyName\<rparr>))
                       (\<lambda>c. ret (Inr (Some c)))) (\<lambda>c.
      try_bind (first_or_create (maintainers G) (\<lambda>m. mt_email m = sheet_value row EmailHdr)
                 (maintainer_defaults (maintainer_of_row row c))) (\<lambda>m.
      append_project G (row_id m) (row_id prj))))"

definition store_row ::
  "'w gorm \<Rightarrow> (string, string) gomap \<Rightarrow> project option \<Rightarrow> ('w, unit result) io" where
  "store_row G row parent =
     (let p = project_of_row row parent in
      try_bind (find_or (projects G) (\<lambda>x. pr_name x = pr_name p)
                 (sql_argument (maturity_value (pr_maturity p)) (t_create (projects G) (project_defaults p)))) (\<lambda>prj.
      if sheet_value row EmailHdr = [] then ret (Inr ()) else store_maintainer G row prj))"

text \<open>A row whose transaction fails is logged and skipped.\<close>

definition load_row :: "'w gorm \<Rightarrow> (string, string) gomap \<Rightarrow> ('w, unit) io" where
  "load_row G row =
     (if sheet_value row ProjectHdr = [] then ret ()
      else do { parent \<leftarrow> parent_of_row G row;
                _ \<leftarrow> transaction G (store_row G row parent);
                ret () })"

definition load_maintainers_and_projects ::
  "'w gorm \<Rightarrow> 'w sheets \<Rightarrow> string \<Rightarrow> string \<Rightarrow> ('w, unit result) io" where
  "load_maintainers_and_projects G S spreadsheetID credentialsPath =
     do { srv \<leftarrow> sh_new_service S credentialsPath;
          case srv of
            Inl e \<Rightarrow> ret (Inl (Wrap ''maintainerd: backend: loadMaintainersAndProjects: unable to retrieve Sheets client: '' e []))
          | Inr _ \<Rightarrow> do {
              rs \<leftarrow> read_sheet_rows (sh_get_values S) spreadsheetID ''Active!A:J''
                       [ProjectHdr, StatusHdr, MaintainerFileRefHdr, MailingListAddrHdr];
              case rs of
                Inl e \<Rightarrow> ret (Inl (Wrap ''maintainerd-backend: loadMaintainersAndProjects - readSheetRows: '' e []))
              | Inr sheet \<Rightarrow> for_each_try sheet (\<lambda>row. do { _ \<leftarrow> load_row G row; ret (Inr ()) }) } }"

section \<open>Staff\<close>

text \<open>A row without any value, with a required value missing, or with both values.\<close>

definition staff_name_of_row :: "(string, string) gomap \<Rightarrow> string" where
  "staff_name_of_row row =
     (let name = sheet_value row StaffMemberNameHdr in
      if name = [] then sheet_value row MaintainerNameHdr else name)"

definition store_staff :: "'w gorm \<Rightarrow> (string, string) gomap \<Rightarrow> ('w, unit result) io" where
  "store_staff G row =
     (let foundationName = sheet_value row FoundationHdr; name = staff_name_of_row row;
          email = sheet_value row EmailHdr; github = sheet_value row GitHubHdr;
          githubEmail = sheet_value row GitHubEmail in
      try_bind (wrap_io (''loadStaff: failed to upsert foundation '' @ quote foundationName @ '': '')
                 (first_or_create (foundations G) (\<lambda>f. fo_name f = foundationName)
                    (zero_foundation\<lparr>fo_name := foundationName\<rparr>))) (\<lambda>foundation.
      do { found \<leftarrow> t_first (staff_members G) (\<lambda>s. sm_email s = email);
           case found of
             Inl e \<Rightarrow>
               if errors_is e ErrRecordNotFound
               then try_bind (wrap_io (''loadStaff: failed to create staff member '' @ quote name @ '': '')
                      (t_create (staff_members G) (staff_defaults (zero_staff_member
                        \<lparr>sm_name := name, sm_email := email, sm_github := github,
                         sm_github_email := githubEmail, sm_foundation_id := Some (row_id foundation)\<rparr>))))
                      (\<lambda>_. ret (Inr ()))
               else ret (Inl (Wrap (''loadStaff: failed to lookup staff member by email '' @ quote email @ '': '') e []))
           | Inr staff \<Rightarrow>
               try_bind (wrap_io (''loadStaff: failed to update staff member '' @ quote name @ '': '')
                 (t_update (staff_members G) (\<lambda>s. row_id s = row_id staff)
                   (\<lambda>s. s\<lparr>sm_name := name, sm_github := github, sm_github_email := githubEmail,
                          sm_foundation_id := Some (row_id foundation)\<rparr>)))
                 (\<lambda>_. ret (Inr ())) }))"

definition load_staff_row :: "'w gorm \<Rightarrow> (string, string) gomap \<Rightarrow> ('w, unit) io" where
  "load_staff_row G row =
     (if sheet_value row FoundationHdr = [] \<or> sheet_value row EmailHdr = [] then ret ()
      else do { _ \<leftarrow> transaction G (store_staff G row); ret () })"

definition load_staff :: "'w gorm \<Rightarrow> 'w sheets \<Rightarrow> string \<Rightarrow> string \<Rightarrow> ('w, unit result) io" where
  "load_staff G S spreadsheetID credentialsPath =
     do { srv \<leftarrow> sh_new_service S credentialsPath;
          case srv of
            Inl e \<Rightarrow> ret (Inl (Wrap ''maintainerd: backend: loadStaff: unable to retrieve Sheets client: '' e []))
          | Inr _ \<Rightarrow> do {
              rs \<leftarrow> read_sheet_rows (sh_get_values S) spreadsheetID ''Staff!A:F'' [FoundationHdr];
              case rs of
                Inl e \<Rightarrow> ret (Inl (Wrap ''maintainerd-backend: loadStaff - readSheetRows: '' e []))
              | Inr sheet \<Rightarrow> for_each_try sheet (\<lambda>row. do { _ \<leftarrow> load_staff_row G row; ret (Inr ()) }) } }"

end
