(* ===== verification/Bootstrap_Fossa.thy ===== *)
theory Bootstrap_Fossa
  imports Bootstrap
begin

text \<open>
  The FOSSA half of \<^verbatim>\<open>db/bootstrap.go\<close>: the users and teams of FOSSA become service users,
  service teams and links between them, and \<^verbatim>\<open>BootstrapDB\<close>, which runs all the loaders.
  A run of the process may end early: \<open>Exited\<close> is \<^verbatim>\<open>log.Fatalf\<close>, \<open>Panicked\<close> a nil dereference.
\<close>

datatype 'a outcome = Exited | Panicked | Finished 'a

section \<open>Who a FOSSA user is\<close>

definition safe_github_name :: "string option \<Rightarrow> string" where
  "safe_github_name ghName = (case ghName of Some n \<Rightarrow> n | None \<Rightarrow> [])"

text \<open>
  The lookup by struct leaves out a zero field.  The row to create takes the fields of the lookup
  and of \<^verbatim>\<open>Attrs\<close>.
\<close>

definition first_or_create_service_user :: "'w gorm \<Rightarrow> user \<Rightarrow> ('w, service_user result) io" where
  "first_or_create_service_user G u =
     wrap_io ''loadFossa FirstOrCreateServiceUser failed: ''
       (first_or_create (service_users G)
          (\<lambda>s. su_service_id s = 1 \<and> (us_id u = 0 \<or> su_service_user_id s = us_id u))
          (service_user_defaults (zero_service_user
            \<lparr>su_service_id := 1, su_service_user_id := us_id u,
             su_github_name := us_github_name u, su_email := us_email u\<rparr>)))"

definition map_fossa_user_to_maintainer :: "'w gorm \<Rightarrow> string \<Rightarrow> string \<Rightarrow> ('w, maintainer option) io" where
  "map_fossa_user_to_maintainer G email github =
     do { by_github \<leftarrow> (if github = [] then ret (Inl (Sentinel ErrRecordNotFound))
            else t_first (maintainers G) (\<lambda>m. to_lower (mt_github m) = to_lower github));
          case by_github of
            Inr m \<Rightarrow> ret (Some m)
          | Inl e \<Rightarrow>
              if \<not> errors_is e ErrRecordNotFound then ret None
              else do { by_email \<leftarrow> t_first (maintainers G)
                          (\<lambda>m. to_lower (mt_email m) = to_lower email \<or> to_lower (mt_github_email m) = to_lower email);
                        ret (case by_email of Inr m \<Rightarrow> Some m | Inl _ \<Rightarrow> None) } }"

definition new_collaborator :: "string \<Rightarrow> user \<Rightarrow> collaborator" where
  "new_collaborator github u =
     collaborator_defaults (zero_collaborator
       \<lparr>cb_name := us_full_name u, cb_email := us_email u, cb_github_email := Some github,
        cb_github := us_github_name u, cb_last_login := us_last_visit u, cb_registered_at := us_created_at u\<rparr>)"

definition map_fossa_user_collaborator :: "'w gorm \<Rightarrow> string \<Rightarrow> string \<Rightarrow> user \<Rightarrow> ('w, collaborator option) io" where
  "map_fossa_user_collaborator G email github u =
     do { r \<leftarrow> first_or_create (collaborators G)
            (if github \<noteq> []
             then (\<lambda>c. case cb_github c of None \<Rightarrow> False | Some h \<Rightarrow> to_lower h = to_lower github)
             else (\<lambda>c. to_lower (cb_email c) = to_lower email))
            (new_collaborator github u);
          ret (case r of Inr c \<Rightarrow> Some c | Inl _ \<Rightarrow> None) }"

text \<open>
  An exported function that nothing calls.  It dereferences the GitHub name of the user, and makes
  a collaborator only when the lookup fails for another reason than a missing row; the condition of
  its \<^verbatim>\<open>FirstOrCreate\<close> is empty, so any collaborator will do.
\<close>

definition map_fossa_user_to_maintainer_or_collaborator ::
  "'w gorm \<Rightarrow> user \<Rightarrow> ('w, (maintainer \<times> collaborator \<times> go_error option) outcome) io" where
  "map_fossa_user_to_maintainer_or_collaborator G u =
     do { by_email \<leftarrow> t_first (maintainers G) (\<lambda>m. to_lower (mt_email m) = to_lower (us_email u));
          case by_email of
            Inr m \<Rightarrow> ret (Finished (m, zero_collaborator, None))
          | Inl e \<Rightarrow>
              if \<not> errors_is e ErrRecordNotFound
              then ret (Finished (zero_maintainer, zero_collaborator,
                     Some (Wrap ''query error during email lookup: '' e [])))
              else (case us_github_name u of
                  None \<Rightarrow> ret Panicked
                | Some gh \<Rightarrow>
                    if gh = [] then ret (Finished (zero_maintainer, zero_collaborator, None))
                    else do { by_github \<leftarrow> t_first (maintainers G) (\<lambda>m. to_lower (mt_github m) = to_lower gh);
                              case by_github of
                                Inr m \<Rightarrow> ret (Finished (m, zero_collaborator, None))
                              | Inl e' \<Rightarrow>
                                  if errors_is e' ErrRecordNotFound
                                  then ret (Finished (zero_maintainer, zero_collaborator, None))
                                  else do {
                                    c \<leftarrow> first_or_create (collaborators G) (\<lambda>_. True)
                                           (collaborator_defaults (zero_collaborator
                                             \<lparr>cb_name := us_full_name u, cb_email := us_email u, cb_github := Some gh,
                                              cb_last_login := us_last_visit u, cb_registered_at := us_joined u\<rparr>));
                                    ret (Finished (case c of
                                      Inr x \<Rightarrow> (zero_maintainer, x, None)
                                    | Inl e2 \<Rightarrow> (zero_maintainer, zero_collaborator,
                                        Some (Wrap (''query error during GitHub handle lookup for '' @ gh @ '' : '') e2 [])))) } }) }"

section \<open>Teams and links\<close>

text \<open>
  The result of the loop over the teams: the rows so far and the messages of the failures, or the
  error of a team that is no registered project.
\<close>

fun create_teams ::
  "'w gorm \<Rightarrow> (string, loaded_project) gomap \<Rightarrow> (int \<times> string) list \<Rightarrow> service_team list \<Rightarrow> string list
     \<Rightarrow> ('w, (service_team list \<times> string list) result) io" where
  "create_teams G ps [] teams errs = ret (Inr (teams, errs))"
| "create_teams G ps ((i, name) # ts) teams errs =
     (case map_of ps name of
        None \<Rightarrow> ret (Inl (Msg (''CreateServiceTeamsForUser: ERROR '' @ name @ '' is NOT A registered project'')))
      | Some project \<Rightarrow>
          do { r \<leftarrow> first_or_create (service_teams G) (\<lambda>s. st_service_team_id s = i)
                 (zero_service_team\<lparr>st_service_team_id := i, st_service_id := 1, st_service_team_name := Some name,
                    st_project_id := row_id project, st_project_name := Some (pr_name project)\<rparr>);
               case r of
                 Inl e \<Rightarrow> create_teams G ps ts teams
                   (errs @ [''CreateServiceTeamsForUser: failed for team '' @ itoa i @ '' ('' @ name @ ''): '' @ error_text e])
               | Inr st \<Rightarrow> create_teams G ps ts (teams @ [st]) errs })"

definition create_service_teams_for_user ::
  "'w gorm \<Rightarrow> (int \<times> string) list \<Rightarrow> ('w, service_team list \<times> go_error option) io" where
  "create_service_teams_for_user G teamUsers =
     do { ps \<leftarrow> get_project_map_by_name G;
          case ps of
            Inl e \<Rightarrow> ret ([], Some (Wrap ''CreateServiceTeamsForUser: GetProjectMapByName failed to get project map: '' e []))
          | Inr m \<Rightarrow>
              do { r \<leftarrow> create_teams G m teamUsers [] [];
                   ret (case r of
                          Inl e \<Rightarrow> ([], Some e)
                        | Inr (teams, errs) \<Rightarrow>
                            if teams = [] then ([], Some (Msg ''CreateServiceTeamsForUser: no valid teams created''))
                            else if errs \<noteq> []
                            then (teams, Some (Msg (''CreateServiceTeamsForUser had partial errors:'' @ nl @ join errs nl)))
                            else (teams, None)) } }"

text \<open>
  The condition of \<^verbatim>\<open>FirstOrCreate\<close> is a string, so a new link has what the variable holds: the
  service, the user, and team 0.
\<close>

definition find_link :: "'w gorm \<Rightarrow> service_user \<Rightarrow> service_team \<Rightarrow> ('w, service_user_teams result) io" where
  "find_link G su st =
     first_or_create (service_user_teams G)
       (\<lambda>l. ut_service_id l = su_service_id su \<and> ut_service_team_id l = row_id st \<and>
            ut_service_user_id l = su_service_user_id su)
       (zero_service_user_teams\<lparr>ut_service_id := 1, ut_service_user_id := su_service_user_id su\<rparr>)"

text \<open>The link with its maintainer and collaborator filled in, and whether that changed it.\<close>

definition filled_link ::
  "maintainer option \<Rightarrow> collaborator option \<Rightarrow> service_user_teams \<Rightarrow> service_user_teams \<times> bool" where
  "filled_link m c l =
     (let (l1, u1) = (case m of
                        Some x \<Rightarrow> if ut_maintainer_id l = None
                                  then (l\<lparr>ut_maintainer_id := Some (row_id x), ut_collaborator_id := None\<rparr>, True)
                                  else (l, False)
                      | None \<Rightarrow> (l, False))
      in case c of
           Some y \<Rightarrow> if ut_collaborator_id l1 = None
                     then (l1\<lparr>ut_collaborator_id := Some (row_id y), ut_maintainer_id := None\<rparr>, True)
                     else (l1, u1)
         | None \<Rightarrow> (l1, u1))"

text \<open>\<^verbatim>\<open>Save\<close> updates the row, or inserts it when there is none.\<close>

definition save_link :: "'w gorm \<Rightarrow> service_user_teams \<Rightarrow> ('w, unit result) io" where
  "save_link G l =
     try_bind (t_update (service_user_teams G) (\<lambda>x. row_id x = row_id l) (\<lambda>_. l)) (\<lambda>n.
     if n = 0 then try_bind (t_create (service_user_teams G) l) (\<lambda>_. ret (Inr ())) else ret (Inr ()))"

text \<open>One team: a message of what failed, \<open>None\<close> when nothing did.\<close>

definition link_team ::
  "'w gorm \<Rightarrow> service_user \<Rightarrow> maintainer option \<Rightarrow> collaborator option \<Rightarrow> service_team
     \<Rightarrow> ('w, string option outcome) io" where
  "link_team G su m c st =
     do { r \<leftarrow> find_link G su st;
          case r of
            Inr l \<Rightarrow>
              (case filled_link m c l of
                 (_, False) \<Rightarrow> ret (Finished None)
               | (l', True) \<Rightarrow>
                   do { s \<leftarrow> save_link G l';
                        ret (case s of
                               Inl e \<Rightarrow> Finished (Some (''ERR, db.save failed to update the serviceUserTeams link for user '' @
                                 itoa (su_service_user_id su) @ '' to team '' @ itoa (int (row_id st)) @ '': '' @ error_text e))
                             | Inr _ \<Rightarrow> if st_service_team_name st = None then Panicked else Finished None) })
          | Inl e \<Rightarrow>
              if errors_is e ErrRecordNotFound
              then ret (if st_service_team_name st = None then Panicked
                        else Finished (Some (''lookup failure for link (user '' @ itoa (su_service_user_id su) @ '', team '' @
                               itoa (int (row_id st)) @ ''): '' @ error_text e)))
              else do { n \<leftarrow> t_create (service_user_teams G) (zero_service_user_teams
                          \<lparr>ut_service_id := su_service_id su, ut_service_user_id := su_service_user_id su,
                           ut_service_team_id := row_id st, ut_maintainer_id := map_option row_id m,
                           ut_collaborator_id := (if m = None then map_option row_id c else None)\<rparr>);
                        ret (Finished (case n of
                          Inr _ \<Rightarrow> None
                        | Inl e' \<Rightarrow> Some (''failed to create link for user '' @ itoa (su_service_user_id su) @
                            '' to team '' @ itoa (int (row_id st)) @ '': '' @ error_text e'))) } }"

fun link_teams ::
  "'w gorm \<Rightarrow> service_user \<Rightarrow> maintainer option \<Rightarrow> collaborator option \<Rightarrow> service_team list \<Rightarrow> string list
     \<Rightarrow> ('w, string list outcome) io" where
  "link_teams G su m c [] errs = ret (Finished errs)"
| "link_teams G su m c (st # sts) errs =
     do { r \<leftarrow> link_team G su m c st;
          case r of
            Finished e \<Rightarrow> link_teams G su m c sts (errs @ (case e of None \<Rightarrow> [] | Some x \<Rightarrow> [x]))
          | Exited \<Rightarrow> ret Exited
          | Panicked \<Rightarrow> ret Panicked }"

definition link_service_user_to_team ::
  "'w gorm \<Rightarrow> service_user option \<Rightarrow> service_team list \<Rightarrow> maintainer option \<Rightarrow> collaborator option
     \<Rightarrow> ('w, unit result outcome) io" where
  "link_service_user_to_team G su sTeams m c =
     (case su of
        None \<Rightarrow> ret (Finished (Inl (Msg ''LinkServiceUserToTeam: service user is nil'')))
      | Some s \<Rightarrow>
          if sTeams = []
          then ret (Finished (Inl (Msg (''LinkServiceUserToTeam: no service teams provided for user '' @
                 itoa (su_service_user_id s)))))
          else if m \<noteq> None \<and> c \<noteq> None
          then ret (Finished (Inl (Msg (''LinkServiceUserToTeam: cannot link both a maintainer and a collaborator for user '' @
                 itoa (su_service_user_id s)))))
          else do { r \<leftarrow> link_teams G s m c sTeams [];
                    ret (case r of
                           Exited \<Rightarrow> Exited
                         | Panicked \<Rightarrow> Panicked
                         | Finished errs \<Rightarrow> Finished
                             (if errs = [] then Inr ()
                              else Inl (Msg (''LinkServiceUserToTeam: '' @ itoa (int (length errs)) @ '' linking errors:'' @
                                nl @ join errs nl)))) })"

section \<open>All of FOSSA\<close>

definition fetch_fossa_data ::
  "nat \<Rightarrow> 'w http \<Rightarrow> codec \<Rightarrow> client \<Rightarrow> ('w, (user list \<times> team list) result option) io" where
  "fetch_fossa_data fuel H C cl =
     do { us \<leftarrow> fetch_users fuel H C cl;
          case us of
            None \<Rightarrow> ret None
          | Some (Inl e) \<Rightarrow> ret (Some (Inl e))
          | Some (Inr users) \<Rightarrow>
              do { ts \<leftarrow> fetch_teams H C cl;
                   ret (Some (case ts of Inl e \<Rightarrow> Inl e | Inr teams \<Rightarrow> Inr (users, teams))) } }"

text \<open>One user; what goes wrong after the service user is there is logged, and the next one follows.\<close>

definition load_fossa_user :: "'w gorm \<Rightarrow> user \<Rightarrow> ('w, unit outcome) io" where
  "load_fossa_user G u =
     (let ghName = safe_github_name (us_github_name u) in
      do { su \<leftarrow> first_or_create_service_user G u;
           case su of
             Inl _ \<Rightarrow> ret Exited
           | Inr s \<Rightarrow> do {
               m \<leftarrow> map_fossa_user_to_maintainer G (us_email u) ghName;
               c \<leftarrow> (if m \<noteq> None then ret None else map_fossa_user_collaborator G (us_email u) ghName u);
               (sts, err) \<leftarrow> create_service_teams_for_user G (us_teams u);
               if err \<noteq> None then ret (Finished ())
               else do { r \<leftarrow> link_service_user_to_team G (Some s) sts m c;
                         ret (case r of Exited \<Rightarrow> Exited | Panicked \<Rightarrow> Panicked | Finished _ \<Rightarrow> Finished ()) } } })"

fun load_fossa_users :: "'w gorm \<Rightarrow> user list \<Rightarrow> ('w, unit outcome) io" where
  "load_fossa_users G [] = ret (Finished ())"
| "load_fossa_users G (u # us) =
     do { r \<leftarrow> load_fossa_user G u;
          case r of Finished _ \<Rightarrow> load_fossa_users G us | Exited \<Rightarrow> ret Exited | Panicked \<Rightarrow> ret Panicked }"

definition load_fossa ::
  "nat \<Rightarrow> 'w gorm \<Rightarrow> 'w http \<Rightarrow> codec \<Rightarrow> client \<Rightarrow> ('w, unit result outcome option) io" where
  "load_fossa fuel G H C cl =
     do { d \<leftarrow> fetch_fossa_data fuel H C cl;
          case d of
            None \<Rightarrow> ret None
          | Some (Inl e) \<Rightarrow> ret (Some (Finished (Inl (Wrap ''loadFOSSA: fetching FOSSA data: '' e []))))
          | Some (Inr (users, _)) \<Rightarrow>
              do { r \<leftarrow> load_fossa_users G users;
                   ret (Some (case r of Exited \<Rightarrow> Exited | Panicked \<Rightarrow> Panicked | Finished _ \<Rightarrow> Finished (Inr ()))) } }"

section \<open>The whole bootstrap\<close>

definition seed_services :: "(string \<times> string) list" where
  "seed_services =
     [(''FOSSA'', ''Static code check we use to ensure 3rd Party License Policy''),
      (''Service Desk'', ''Jira''), (''cncf.groups.io'', ''Mailing list channels''),
      (''Snyk'', ''Static code checker for 3rd Party License Policy monitoring and compliance'')]"

definition insert_services :: "'w gorm \<Rightarrow> ('w, unit result) io" where
  "insert_services G =
     transaction G (for_each_try seed_services (\<lambda>(name, description).
       try_bind (wrap_io (''bootstrap: failed to insert service '' @ name @ '': '')
         (first_or_create (services G) (\<lambda>s. sv_name s = name)
            (zero_service\<lparr>sv_name := name, sv_description := description\<rparr>)))
         (\<lambda>_. ret (Inr ()))))"

text \<open>The seed data: the services, the two sheets, and FOSSA; the first step that fails is the last.\<close>

definition seed_sheets :: "'w gorm \<Rightarrow> 'w sheets \<Rightarrow> string \<Rightarrow> string \<Rightarrow> ('w, unit result) io" where
  "seed_sheets G S spreadsheetID credentials =
     try_bind (insert_services G) (\<lambda>_.
       try_bind (wrap_io ''bootstrap: failed to load maintainers and projects: ''
         (load_maintainers_and_projects G S spreadsheetID credentials)) (\<lambda>_.
       wrap_io ''bootstrap: failed to load staff: '' (load_staff G S spreadsheetID credentials)))"

definition seed_fossa ::
  "nat \<Rightarrow> 'w gorm \<Rightarrow> 'w http \<Rightarrow> codec \<Rightarrow> string \<Rightarrow> ('w, 'w gorm result outcome option) io" where
  "seed_fossa fuel G H C fossaToken =
     do { f \<leftarrow> load_fossa fuel G H C (new_client fossaToken);
          ret (case f of
                 None \<Rightarrow> None
               | Some Exited \<Rightarrow> Some Exited
               | Some Panicked \<Rightarrow> Some Panicked
               | Some (Finished (Inl e)) \<Rightarrow>
                   Some (Finished (Inl (Wrap ''bootstrap: failed to load FOSSA projects: '' e [])))
               | Some (Finished (Inr _)) \<Rightarrow> Some (Finished (Inr G))) }"

text \<open>\<open>auto_migrate\<close> creates the tables through gorm.\<close>

definition bootstrap_db ::
  "nat \<Rightarrow> 'w gorm drivers \<Rightarrow> ('w gorm \<Rightarrow> ('w, unit result) io) \<Rightarrow> 'w sheets \<Rightarrow> 'w http \<Rightarrow> codec
     \<Rightarrow> string \<Rightarrow> string \<Rightarrow> string \<Rightarrow> string \<Rightarrow> string \<Rightarrow> bool \<Rightarrow> ('w, 'w gorm result outcome option) io" where
  "bootstrap_db fuel D auto_migrate S H C driver dsn spreadsheetID credentials fossaToken seed =
     (case open_gorm D driver dsn of
        Inl e \<Rightarrow> ret (Some (Finished (Inl (Wrap ''failed to open DB: '' e []))))
      | Inr G \<Rightarrow>
          do { mg \<leftarrow> wrap_io ''auto-migration failed: '' (auto_migrate G);
               case mg of
                 Inl e \<Rightarrow> ret (Some (Finished (Inl e)))
               | Inr _ \<Rightarrow>
                   if \<not> seed then ret (Some (Finished (Inr G)))
                   else do {
                     sd \<leftarrow> seed_sheets G S spreadsheetID credentials;
                     case sd of
                       Inl e \<Rightarrow> ret (Some (Finished (Inl e)))
                     | Inr _ \<Rightarrow> seed_fossa fuel G H C fossaToken } })"

definition bootstrap_sqlite where
  "bootstrap_sqlite fuel D auto_migrate S H C dbPath spreadsheetID credentials fossaToken seed =
     bootstrap_db fuel D auto_migrate S H C ''sqlite'' dbPath spreadsheetID credentials fossaToken seed"

end
