(* ===== verification/Bootstrap_Laws.thy ===== *)
theory Bootstrap_Laws
  imports Bootstrap_Fossa Store_Laws
begin

text \<open>
  What the bootstrap guarantees: how a sheet is read, what a row of it leaves in the database, and
  what the links between FOSSA users and teams say.
\<close>

section \<open>Reading a sheet\<close>

text \<open>The last value a column had so far.\<close>

definition last_value :: "string list list \<Rightarrow> nat \<Rightarrow> string" where
  "last_value rs i = last ([] # filter (\<lambda>v. v \<noteq> []) (map (\<lambda>r. cell r i) rs))"

definition has_value :: "string list \<Rightarrow> nat \<Rightarrow> bool" where
  "has_value r n \<longleftrightarrow> list_ex (\<lambda>i. cell r i \<noteq> []) [0..<n]"

lemma sheet_value_put: "sheet_value (map_put h v m) h' = (if h' = h then v else sheet_value m h')"
  by (induction m) (auto simp: sheet_value_def)

lemma read_row_result:
  assumes "distinct hs" and "read_row carry r i hs last_vals m any = (last_vals', m', any')"
  shows "last_vals' = (\<lambda>j. if i \<le> j \<and> j < i + length hs \<and> j \<in> carry \<and> cell r j \<noteq> [] then cell r j else last_vals j) \<and>
    (any' \<longleftrightarrow> any \<or> (\<exists>j. i \<le> j \<and> j < i + length hs \<and> cell r j \<noteq> [])) \<and>
    (\<forall>h. h \<notin> set hs \<longrightarrow> sheet_value m' h = sheet_value m h) \<and>
    (\<forall>j < length hs. sheet_value m' (hs ! j) = (if i + j \<in> carry then last_vals' (i + j) else cell r (i + j)))"
  using assms
proof (induction hs arbitrary: i last_vals m any)
  case (Cons h hs)
  let ?l = "if i \<in> carry \<and> cell r i \<noteq> [] then last_vals(i := cell r i) else last_vals"
  let ?m = "map_put h (if i \<in> carry then ?l i else cell r i) m"
  have "read_row carry r (i + 1) hs ?l ?m (any \<or> cell r i \<noteq> []) = (last_vals', m', any')"
    using Cons.prems(2) by (simp add: Let_def)
  note ih = Cons.IH[OF _ this]
  have d: "distinct hs" "h \<notin> set hs" using Cons.prems(1) by auto
  note l = ih[OF d(1), THEN conjunct1] and a = ih[OF d(1), THEN conjunct2, THEN conjunct1]
    and o = ih[OF d(1), THEN conjunct2, THEN conjunct2, THEN conjunct1]
    and s = ih[OF d(1), THEN conjunct2, THEN conjunct2, THEN conjunct2]
  have step: "i \<le> j \<and> j < i + length (h # hs) \<longleftrightarrow> j = i \<or> (i + 1 \<le> j \<and> j < i + 1 + length hs)" for j by auto
  have lv: "last_vals' = (\<lambda>j. if i \<le> j \<and> j < i + length (h # hs) \<and> j \<in> carry \<and> cell r j \<noteq> [] then cell r j else last_vals j)"
    unfolding l by (rule ext) (use step in auto)
  have av: "any' \<longleftrightarrow> any \<or> (\<exists>j. i \<le> j \<and> j < i + length (h # hs) \<and> cell r j \<noteq> [])"
    unfolding a using step by metis
  have first: "sheet_value m' h = (if i \<in> carry then last_vals' i else cell r i)"
    using o d(2) by (simp add: sheet_value_put l)
  have "sheet_value m' ((h # hs) ! j) = (if i + j \<in> carry then last_vals' (i + j) else cell r (i + j))"
    if "j < length (h # hs)" for j
    using that s first by (cases j) auto
  then show ?case using lv av o by (auto simp: sheet_value_put)
qed (auto simp: fun_eq_iff)

lemma last_value_snoc:
  "last_value (rs @ [r]) i = (if cell r i \<noteq> [] then cell r i else last_value rs i)"
  by (simp add: last_value_def)

text \<open>The row of the sheet at an index, as the loader should see it.\<close>

definition sheet_row :: "nat set \<Rightarrow> nat \<Rightarrow> string list list \<Rightarrow> nat \<Rightarrow> string list" where
  "sheet_row carry n rs k =
     map (\<lambda>i. if i \<in> carry then last_value (take (k + 1) rs) i else cell (rs ! k) i) [0..<n]"

lemma read_rows_from:
  assumes "distinct headers"
    and "last_vals = (\<lambda>j. if j \<in> carry \<and> j < length headers then last_value pre j else [])"
  shows "map (\<lambda>row. map (sheet_value row) headers) (read_rows carry headers rs last_vals) =
    map (\<lambda>k. sheet_row carry (length headers) (pre @ rs) (length pre + k))
      (filter (\<lambda>k. has_value (rs ! k) (length headers)) [0..<length rs])"
  using assms(2)
proof (induction rs arbitrary: pre last_vals)
  case (Cons r rs)
  let ?n = "length headers"
  obtain lv m any where rr: "read_row carry r 0 headers last_vals [] False = (lv, m, any)" by (metis prod_cases3)
  note res = read_row_result[OF assms(1) rr]
  have lv: "lv = (\<lambda>j. if j \<in> carry \<and> j < ?n then last_value (pre @ [r]) j else [])"
    using res[THEN conjunct1] Cons.prems by (auto simp: last_value_snoc)
  have any: "any \<longleftrightarrow> has_value r ?n" using res by (auto simp: has_value_def list_ex_iff)
  have val: "sheet_value m (headers ! j) = (if j \<in> carry then lv j else cell r j)" if "j < ?n" for j
    using res[THEN conjunct2, THEN conjunct2, THEN conjunct2] that by simp
  have "map (sheet_value m) headers = sheet_row carry ?n (pre @ r # rs) (length pre)"
    by (rule nth_equalityI) (simp_all add: sheet_row_def nth_append val lv)
  moreover have "map (\<lambda>row. map (sheet_value row) headers) (read_rows carry headers rs lv) =
      map (\<lambda>k. sheet_row carry ?n (pre @ r # rs) (length pre + k))
        (filter (\<lambda>k. has_value ((r # rs) ! k) ?n) (map Suc [0..<length rs]))"
    using Cons.IH[OF lv] by (simp add: filter_map comp_def)
  ultimately show ?case
    by (simp add: rr any upt_conv_Cons map_Suc_upt[symmetric] del: upt_Suc)
qed simp

text \<open>
  C17: reading a sheet with distinct headers keeps exactly the rows that have a value, in order; a
  carried column shows the last value it had up to that row, whatever project that value was for,
  and any other column shows the cell of the row.
\<close>

theorem sheet_columns_are_carried_forward:
  assumes "distinct headers"
  shows "map (\<lambda>row. map (sheet_value row) headers) (read_rows carry headers rs (\<lambda>_. [])) =
    map (sheet_row carry (length headers) rs) (filter (\<lambda>k. has_value (rs ! k) (length headers)) [0..<length rs])"
  using read_rows_from[OF assms, of "\<lambda>_. []" carry "[]" rs] by (simp add: last_value_def fun_eq_iff comp_def)

text \<open>
  The second project of this sheet has no mailing list of its own, and is given the one of the
  project above it.
\<close>

theorem sheet_columns_are_carried_forward_witness:
  "map (\<lambda>row. map (sheet_value row) [ProjectHdr, MailingListAddrHdr])
     (read_rows {0, 1} [ProjectHdr, MailingListAddrHdr] [[''a'', ''a@list''], [], [''b'']] (\<lambda>_. [])) =
   [[''a'', ''a@list''], [''b'', ''a@list'']]"
proof -
  have "distinct [ProjectHdr, MailingListAddrHdr]" by simp
  note r = sheet_columns_are_carried_forward[OF this, of "{0, 1}" "[[''a'', ''a@list''], [], [''b'']]"]
  show ?thesis unfolding r by code_simp
qed

section \<open>What the sheets leave in the database\<close>

text \<open>
  The tables after rows of the sheet were stored: rows at the end of three tables, links, and
  nothing else.
\<close>

definition seeded :: "tables \<Rightarrow> tables \<Rightarrow> bool" where
  "seeded d d' \<longleftrightarrow>
     (\<exists>cs ps ms ls.
        d' = d\<lparr>tb_companies := tb_companies d @ cs, tb_projects := tb_projects d @ ps,
               tb_maintainers := tb_maintainers d @ ms, tb_maintainer_projects := ls\<rparr> \<and>
        set (tb_maintainer_projects d) \<subseteq> set ls \<and>
        list_all (\<lambda>p. maturity_is_valid (pr_maturity p) \<and> pr_name p \<notin> pr_name ` set (tb_projects d)) ps \<and>
        distinct (map pr_name ps) \<and>
        list_all (\<lambda>m. mt_status m = ActiveMaintainer \<and> mt_email m \<noteq> [] \<and>
                   mt_email m \<notin> mt_email ` set (tb_maintainers d)) ms \<and>
        distinct (map mt_email ms))"

lemma seeded_refl: "seeded d d"
  unfolding seeded_def by (intro exI[of _ "[]"] exI[of _ "tb_maintainer_projects d"]) simp

lemma seeded_trans:
  assumes "seeded a b" and "seeded b c"
  shows "seeded a c"
proof -
  from assms(1) obtain cs ps ms ls where b: "b = a\<lparr>tb_companies := tb_companies a @ cs, tb_projects := tb_projects a @ ps,
               tb_maintainers := tb_maintainers a @ ms, tb_maintainer_projects := ls\<rparr>"
    and ab: "set (tb_maintainer_projects a) \<subseteq> set ls"
      "list_all (\<lambda>p. maturity_is_valid (pr_maturity p) \<and> pr_name p \<notin> pr_name ` set (tb_projects a)) ps"
      "distinct (map pr_name ps)"
      "list_all (\<lambda>m. mt_status m = ActiveMaintainer \<and> mt_email m \<noteq> [] \<and>
                   mt_email m \<notin> mt_email ` set (tb_maintainers a)) ms" "distinct (map mt_email ms)"
    unfolding seeded_def by blast
  from assms(2) obtain cs' ps' ms' ls' where c: "c = b\<lparr>tb_companies := tb_companies b @ cs', tb_projects := tb_projects b @ ps',
               tb_maintainers := tb_maintainers b @ ms', tb_maintainer_projects := ls'\<rparr>"
    and bc: "set (tb_maintainer_projects b) \<subseteq> set ls'"
      "list_all (\<lambda>p. maturity_is_valid (pr_maturity p) \<and> pr_name p \<notin> pr_name ` set (tb_projects b)) ps'"
      "distinct (map pr_name ps')"
      "list_all (\<lambda>m. mt_status m = ActiveMaintainer \<and> mt_email m \<noteq> [] \<and>
                   mt_email m \<notin> mt_email ` set (tb_maintainers b)) ms'" "distinct (map mt_email ms')"
    unfolding seeded_def by blast
  show ?thesis
    unfolding seeded_def
    by (rule exI[of _ "cs @ cs'"], rule exI[of _ "ps @ ps'"], rule exI[of _ "ms @ ms'"], rule exI[of _ ls'])
      (use ab bc in \<open>auto simp: b c list_all_iff, (metis UnI2 image_eqI)+\<close>)
qed

text \<open>What a stored row of the sheet says is in the database.\<close>

definition registered :: "(string, string) gomap \<Rightarrow> tables \<Rightarrow> bool" where
  "registered row d \<longleftrightarrow>
     list_ex (\<lambda>p. pr_name p = sheet_value row ProjectHdr \<and>
        (sheet_value row EmailHdr = [] \<or>
         list_ex (\<lambda>m. mt_email m = sheet_value row EmailHdr \<and>
            list_ex (\<lambda>l. mp_maintainer_id l = row_id m \<and> mp_project_id l = row_id p) (tb_maintainer_projects d))
           (tb_maintainers d)))
       (tb_projects d)"

lemma chosen_seed_fields:
  "chosen m = chosen (maintainer_defaults m') \<Longrightarrow>
     mt_status m = mt_status m' \<and> mt_email m = or_default EMAIL_MISSING (mt_email m')"
  "chosen p = chosen (project_defaults p') \<Longrightarrow> pr_name p = pr_name p' \<and> pr_maturity p = pr_maturity p'"
  by (auto simp: chosen_def maintainer_defaults_def project_defaults_def dest: arg_cong[of _ _ mt_status]
      arg_cong[of _ _ mt_email] arg_cong[of _ _ pr_name] arg_cong[of _ _ pr_maturity])

context gorm_db
begin

abbreviation seeds :: "'w \<Rightarrow> 'w \<Rightarrow> bool" where "seeds w w' \<equiv> seeded (cur (tabs w)) (cur (tabs w'))"

lemma rel_seeds: "reflp seeds" "transp seeds"
  by (auto intro: reflpI transpI seeded_refl seeded_trans)

lemma seeds_company: "keeps seeds (first_or_create (companies G) p c)"
proof (rule keepsI)
  fix w x w'
  assume r: "run_state (first_or_create (companies G) p c) w = (x, w')"
  show "seeds w w'"
  proof (cases x)
    case (Inl e)
    then show ?thesis using co.first_or_create_Err[OF r[unfolded Inl]] by (simp add: seeded_refl)
  next
    case (Inr y)
    have "seeded d (d\<lparr>tb_companies := tb_companies d @ [y]\<rparr>)" for d
      unfolding seeded_def
      by (rule exI[of _ "[y]"], rule exI[of _ "[]"], rule exI[of _ "[]"], rule exI[of _ "tb_maintainer_projects d"]) simp
    then show ?thesis using co.first_or_create_Ok[OF r[unfolded Inr]] by (auto simp: seeded_refl)
  qed
qed

lemma seeds_append: "keeps seeds (append_project G i p)"
proof (rule keepsI)
  fix w x w'
  assume r: "run_state (append_project G i p) w = (x, w')"
  have s: "seeded d (d\<lparr>tb_maintainer_projects := ls\<rparr>)" if "set (tb_maintainer_projects d) \<subseteq> set ls" for d ls
    unfolding seeded_def
    by (rule exI[of _ "[]"], rule exI[of _ "[]"], rule exI[of _ "[]"], rule exI[of _ ls]) (use that in simp)
  show "seeds w w'"
    using append_project_Ok[of i p w _ w'] append_project_Err[of i p w _ w'] r
    by (cases x) (auto simp: seeded_refl intro!: s)
qed

text \<open>A new maintainer of the sheet: active, and the first with the address.\<close>

lemma maintainer_stored:
  assumes "run_state (first_or_create (maintainers G) (\<lambda>m. mt_email m = sheet_value row EmailHdr)
      (maintainer_defaults (maintainer_of_row row c))) w = (Inr m, w')" and "sheet_value row EmailHdr \<noteq> []"
  shows "seeds w w' \<and> m \<in> set (tb_maintainers (cur (tabs w'))) \<and> mt_email m = sheet_value row EmailHdr \<and>
    tb_projects (cur (tabs w')) = tb_projects (cur (tabs w))"
proof -
  have s: "seeded d (d\<lparr>tb_maintainers := tb_maintainers d @ [m]\<rparr>)"
    if "mt_status m = ActiveMaintainer" "mt_email m \<noteq> []" "mt_email m \<notin> mt_email ` set (tb_maintainers d)" for d
    unfolding seeded_def
    by (rule exI[of _ "[]"], rule exI[of _ "[]"], rule exI[of _ "[m]"], rule exI[of _ "tb_maintainer_projects d"])
      (use that in simp)
  have f: "mt_status m = ActiveMaintainer \<and> mt_email m = sheet_value row EmailHdr"
    if "chosen m = chosen (maintainer_defaults (maintainer_of_row row c))"
    using chosen_seed_fields(1)[OF that] assms(2) by (simp add: maintainer_of_row_def or_default_def)
  show ?thesis
    using mt.first_or_create_Ok[OF assms(1)] f assms(2)
    by (elim disjE) (auto simp: seeded_refl intro!: s)
qed

text \<open>The project of a row: the one that has the name, or a new one of valid maturity.\<close>

lemma project_stored:
  assumes "run_state (find_or (projects G) (\<lambda>x. pr_name x = pr_name p)
      (sql_argument (maturity_value (pr_maturity p)) (t_create (projects G) (project_defaults p)))) w = (x, w')"
  shows "seeds w w'" and "x = Inr q \<Longrightarrow> q \<in> set (tb_projects (cur (tabs w'))) \<and> pr_name q = pr_name p"
proof -
  have s: "seeded d (d\<lparr>tb_projects := tb_projects d @ [r]\<rparr>)"
    if "maturity_is_valid (pr_maturity r)" "\<forall>x \<in> set (tb_projects d). pr_name x \<noteq> pr_name r" for d r
    unfolding seeded_def
    by (rule exI[of _ "[]"], rule exI[of _ "[r]"], rule exI[of _ "[]"], rule exI[of _ "tb_maintainer_projects d"])
      (use that in \<open>simp add: image_iff, metis\<close>)
  obtain y w1 where f: "run_state (t_first (projects G) (\<lambda>x. pr_name x = pr_name p)) w = (y, w1)" by fastforce
  have "seeds w w' \<and> (\<forall>q. x = Inr q \<longrightarrow> q \<in> set (tb_projects (cur (tabs w'))) \<and> pr_name q = pr_name p)"
  proof (cases y)
    case (Inr z)
    then have "x = Inr z" "w' = w1" using assms f by (auto simp: find_or_def)
    then show ?thesis using pr.first_Ok[OF f[unfolded Inr]] by (simp add: seeded_refl)
  next
    case (Inl e)
    note none = pr.first_Err[OF f[unfolded Inl]]
    show ?thesis
    proof (cases "errors_is e ErrRecordNotFound \<and> maturity_is_valid (pr_maturity p)")
      case False
      then have "w' = w1 \<and> (\<exists>e'. x = Inl e')" using assms f Inl
        by (auto simp: find_or_def sql_argument_def maturity_value_def split: if_splits)
      then show ?thesis using none by (auto simp: seeded_refl)
    next
      case True
      then have c: "run_state (t_create (projects G) (project_defaults p)) w1 = (x, w')" using assms f Inl
        by (simp add: find_or_def sql_argument_def maturity_value_def)
      show ?thesis
      proof (cases x)
        case (Inl e')
        then show ?thesis using pr.create_Err[OF c[unfolded Inl]] none by (simp add: seeded_refl)
      next
        case (Inr q)
        note cr = pr.create_Ok[OF c[unfolded Inr]]
        have "pr_name q = pr_name p \<and> pr_maturity q = pr_maturity p" using cr chosen_seed_fields(2) by blast
        then show ?thesis using cr none True Inr s[of q "cur (tabs w)"] by auto
      qed
    qed
  qed
  then show "seeds w w'" "x = Inr q \<Longrightarrow> q \<in> set (tb_projects (cur (tabs w'))) \<and> pr_name q = pr_name p" by auto
qed

lemma seeds_maintainer:
  assumes "sheet_value row EmailHdr \<noteq> []"
  shows "keeps seeds (first_or_create (maintainers G) (\<lambda>m. mt_email m = sheet_value row EmailHdr)
      (maintainer_defaults (maintainer_of_row row c)))"
proof (rule keepsI)
  fix w x w'
  assume r: "run_state (first_or_create (maintainers G) (\<lambda>m. mt_email m = sheet_value row EmailHdr)
      (maintainer_defaults (maintainer_of_row row c))) w = (x, w')"
  show "seeds w w'"
  proof (cases x)
    case (Inl e)
    then show ?thesis using mt.first_or_create_Err[OF r[unfolded Inl]] by (simp add: seeded_refl)
  next
    case (Inr m)
    then show ?thesis using maintainer_stored[OF r[unfolded Inr] assms] by simp
  qed
qed

lemma seeds_project:
  "keeps seeds (find_or (projects G) (\<lambda>x. pr_name x = pr_name p)
      (sql_argument (maturity_value (pr_maturity p)) (t_create (projects G) (project_defaults p))))"
  by (intro keepsI) (rule project_stored(1))

lemmas seeds_intros =
  seeds_company seeds_project seeds_append keeps_try[OF rel_seeds(2) rel_seeds(1)] keeps_bind[OF rel_seeds(2)]
  keeps_ret[OF rel_seeds(1)]

lemma seeds_store_row: "keeps seeds (store_row G row parent)"
  unfolding store_row_def store_maintainer_def Let_def by (auto intro!: seeds_intros seeds_maintainer)

lemma saved_create_project: "keeps same_saved (t_create (projects G) p)"
proof (rule keepsI)
  fix w x w'
  assume "run_state (t_create (projects G) p) w = (x, w')"
  then show "same_saved w w'" using pr.create_Ok pr.create_Err by (cases x) force+
qed

lemma saved_store_row: "keeps same_saved (store_row G row parent)"
  unfolding store_row_def store_maintainer_def Let_def find_or_def first_or_create_def sql_argument_def
  by (auto split: sum.split intro!: saved_intros saved_create_project)

lemma store_row_registers:
  assumes "run_state (store_row G row parent) w = (Inr u, w')"
  shows "registered row (cur (tabs w'))"
proof -
  have n: "pr_name (project_of_row row parent) = sheet_value row ProjectHdr" by (simp add: project_of_row_def)
  obtain prj w1 where p: "prj \<in> set (tb_projects (cur (tabs w1)))" "pr_name prj = sheet_value row ProjectHdr"
    and rest: "run_state (if sheet_value row EmailHdr = [] then ret (Inr ()) else store_maintainer G row prj) w1 = (Inr u, w')"
  proof -
    from assms obtain prj w1 where
      "run_state (find_or (projects G) (\<lambda>x. pr_name x = pr_name (project_of_row row parent))
         (sql_argument (maturity_value (pr_maturity (project_of_row row parent)))
           (t_create (projects G) (project_defaults (project_of_row row parent))))) w = (Inr prj, w1)"
      and "run_state (if sheet_value row EmailHdr = [] then ret (Inr ()) else store_maintainer G row prj) w1 = (Inr u, w')"
      unfolding store_row_def Let_def by (rule run_try_OkE)
    then show thesis using that project_stored(2) n by metis
  qed
  show ?thesis
  proof (cases "sheet_value row EmailHdr = []")
    case True
    then show ?thesis using p rest by (auto simp: registered_def list_ex_iff)
  next
    case False
    then have "run_state (store_maintainer G row prj) w1 = (Inr u, w')" using rest by simp
    then obtain c w2 m w3 where
      c: "run_state (if sheet_value row CompanyNameHdr = [] then ret (Inr None)
                  else try_bind (first_or_create (companies G) (\<lambda>c. co_name c = sheet_value row CompanyNameHdr)
                                   (zero_company\<lparr>co_name := sheet_value row CompanyNameHdr\<rparr>))
                         (\<lambda>c. ret (Inr (Some c)))) w1 = (Inr c, w2)"
      and m: "run_state (first_or_create (maintainers G) (\<lambda>m. mt_email m = sheet_value row EmailHdr)
                   (maintainer_defaults (maintainer_of_row row c))) w2 = (Inr m, w3)"
      and a: "run_state (append_project G (row_id m) (row_id prj)) w3 = (Inr u, w')"
      unfolding store_maintainer_def Let_def by (elim run_try_OkE)
    have "tb_projects (cur (tabs w2)) = tb_projects (cur (tabs w1))"
      using c by (auto split: if_splits prod.splits sum.splits dest!: co.first_or_create_Ok)
    then have "prj \<in> set (tb_projects (cur (tabs w3)))" using p maintainer_stored[OF m False] by simp
    moreover note maintainer_stored[OF m False]
    ultimately show ?thesis
      using append_project_Ok[OF a] p(2) unfolding registered_def list_ex_iff by force
  qed
qed

text \<open>One row: nothing, or all of what it says, and never anything else.\<close>

lemma parent_of_row_tabs: "run_state (parent_of_row G row) w = (x, w') \<Longrightarrow> tabs w' = tabs w"
  by (auto simp: parent_of_row_def Let_def split: if_splits prod.splits dest: pr.first_tabs)

lemma load_row_effect:
  assumes "run_state (load_row G row) w = (u, w')"
  shows "seeds w w' \<and> (cur (tabs w') = cur (tabs w) \<or> registered row (cur (tabs w')))"
proof (cases "sheet_value row ProjectHdr = []")
  case True
  then show ?thesis using assms by (simp add: load_row_def seeded_refl)
next
  case False
  then obtain parent w1 x where p: "run_state (parent_of_row G row) w = (parent, w1)"
    and t: "run_state (transaction G (store_row G row parent)) w1 = (x, w')"
    using assms by (auto simp: load_row_def split: prod.splits)
  show ?thesis
  proof (cases x)
    case (Inl e)
    then show ?thesis
      using transaction_Err[OF t[unfolded Inl] saved_store_row] parent_of_row_tabs[OF p] by (simp add: seeded_refl)
  next
    case (Inr v)
    obtain w2 w3 y where b: "cur (tabs w2) = cur (tabs w1)" "run_state (store_row G row parent) w2 = (Inr y, w3)"
      "tabs w' = tabs w3" using transaction_Ok[OF t[unfolded Inr]] by metis
    then show ?thesis
      using store_row_registers[OF b(2)] keepsD[OF seeds_store_row b(2)] parent_of_row_tabs[OF p] by simp
  qed
qed

end

text \<open>The sheets service is no part of the database.\<close>

locale seed_site = gorm_db G tabs for G :: "'w gorm" and tabs :: "'w \<Rightarrow> db" +
  fixes S :: "'w sheets"
  assumes new_service_tabs: "run_state (sh_new_service S cr) w = (x, w') \<Longrightarrow> tabs w' = tabs w"
    and get_values_tabs: "run_state (sh_get_values S i r) w = (y, w') \<Longrightarrow> tabs w' = tabs w"
begin

lemma read_sheet_tabs:
  "run_state (read_sheet_rows (sh_get_values S) i r hs) w = (x, w') \<Longrightarrow> tabs w' = tabs w"
  by (auto simp: read_sheet_rows_def split: prod.splits dest: get_values_tabs)

lemma seeds_load: "keeps seeds (load_maintainers_and_projects G S i cr)"
proof -
  have "keeps seeds (sh_new_service S cr)" "keeps seeds (read_sheet_rows (sh_get_values S) i r hs)"
    "keeps seeds (load_row G row)" for r hs row
    by (auto intro!: keepsI simp: seeded_refl dest: new_service_tabs read_sheet_tabs load_row_effect)
  moreover from this(3) have "keeps seeds (for_each_try sheet (\<lambda>row. do { _ \<leftarrow> load_row G row; ret (Inr ()) }))" for sheet
    by (induction sheet) (auto intro!: seeds_intros simp del: run_try_bind)
  ultimately show ?thesis
    unfolding load_maintainers_and_projects_def by (auto intro!: seeds_intros split: sum.split)
qed

end

text \<open>
  Loading the sheet of maintainers only adds: whatever it holds, wherever the database or the
  service fails, every row that was there is still there unchanged, no link is lost, every new
  project has a valid maturity and a name of its own, and every new maintainer is active and has an
  address of its own.
\<close>

theorem seeding_only_adds:
  assumes "seed_site G tabs S"
    and "run_state (load_maintainers_and_projects G S spreadsheetID credentialsPath) w = (x, w')"
  shows "seeded (cur (tabs w)) (cur (tabs w'))"
  using keepsD[OF seed_site.seeds_load[OF assms(1)] assms(2)] .

text \<open>
  A row of the sheet is stored as a whole or not at all: when anything in it fails, the tables
  are as they were; otherwise its project is there, and when the row has an address, so is its
  maintainer, linked to the project.
\<close>

theorem seed_rows_are_all_or_nothing:
  assumes "gorm_db G tabs" and "run_state (load_row G row) w = (u, w')"
    and "\<not> registered row (cur (tabs w'))"
  shows "cur (tabs w') = cur (tabs w)"
  using gorm_db.load_row_effect[OF assms(1,2)] assms(3) by blast

definition demo_sheets :: "mem_world sheets" where
  "demo_sheets =
     \<lparr>sh_new_service = (\<lambda>_. ret (Inr ())),
      sh_get_values = (\<lambda>_ _. ret (Inr
        [[''Project'', ''Status'', ''Emails''], [''beta'', ''Sandbox'', ''cy@x''], [''gamma'', ''Sandbox'', ''ann@acme.io''],
         [''delta'', ''Unknown'', ''di@x'']]))\<rparr>"

interpretation demo_seed: seed_site mem_gorm mw_db demo_sheets
  by unfold_locales (auto simp: demo_sheets_def)

definition demo_seeded :: "unit result \<times> mem_world" where
  "demo_seeded = run_state (load_maintainers_and_projects mem_gorm demo_sheets ''s'' ''c'') demo_world"

text \<open>
  On the sheet of three rows: the project that is there keeps its maturity, one is added, and the
  row of unknown maturity leaves nothing.
\<close>

theorem seeding_only_adds_witness:
  "seeded (cur (mw_db demo_world)) (cur (mw_db (snd demo_seeded))) \<and>
   map (\<lambda>p. (pr_name p, pr_maturity p)) (tb_projects (cur (mw_db (snd demo_seeded)))) =
     [(''alpha'', Sandbox), (''beta'', Graduated), (''gamma'', Sandbox)] \<and>
   map mt_email (tb_maintainers (cur (mw_db (snd demo_seeded)))) = [''ann@acme.io'', ''bob@globex.io'', ''cy@x'']"
proof -
  have r: "run_state (load_maintainers_and_projects mem_gorm demo_sheets ''s'' ''c'') demo_world =
      (fst demo_seeded, snd demo_seeded)" by (simp add: demo_seeded_def)
  have p: "map (\<lambda>p. (pr_name p, pr_maturity p)) (tb_projects (cur (mw_db (snd demo_seeded)))) =
     [(''alpha'', Sandbox), (''beta'', Graduated), (''gamma'', Sandbox)]" by code_simp
  have m: "map mt_email (tb_maintainers (cur (mw_db (snd demo_seeded)))) = [''ann@acme.io'', ''bob@globex.io'', ''cy@x'']"
    by code_simp
  from seeding_only_adds[OF demo_seed.seed_site_axioms r] p m show ?thesis by blast
qed

definition demo_bad_row :: "(string, string) gomap" where
  "demo_bad_row = [(''Project'', ''delta''), (''Status'', ''Unknown'')]"

theorem seed_rows_are_all_or_nothing_witness:
  "cur (mw_db (snd (run_state (load_row mem_gorm demo_bad_row) demo_world))) = cur (mw_db demo_world)"
proof -
  have "\<not> registered demo_bad_row (cur (mw_db (snd (run_state (load_row mem_gorm demo_bad_row) demo_world))))"
    by code_simp
  then show ?thesis by (rule seed_rows_are_all_or_nothing[OF mem.gorm_db_axioms run_eqI[OF refl]])
qed

section \<open>Links to teams\<close>

definition links_team :: "nat \<Rightarrow> int \<Rightarrow> service_user_teams \<Rightarrow> bool" where
  "links_team team u l \<longleftrightarrow> ut_service_team_id l = team \<and> ut_service_user_id l = u"

lemma filled_link_keeps:
  "filled_link m c l = (l', b) \<Longrightarrow> row_id l' = row_id l \<and> ut_service_team_id l' = ut_service_team_id l \<and>
     ut_service_user_id l' = ut_service_user_id l \<and> (\<not> b \<longrightarrow> l' = l)"
  by (auto simp: filled_link_def split: option.splits if_splits prod.splits)

lemma chosen_link_fields:
  "chosen (l::service_user_teams) = chosen k \<Longrightarrow> ut_service_team_id l = ut_service_team_id k \<and>
     ut_service_user_id l = ut_service_user_id k"
  by (auto simp: chosen_def dest: arg_cong[of _ _ ut_service_team_id] arg_cong[of _ _ ut_service_user_id])

context gorm_db
begin

lemma save_link_tabs:
  assumes "run_state (save_link G l) w = (x, w')"
  shows "tabs w' = tabs w \<or>
    (\<exists>t. tabs w' = put_service_user_teams
      (map (\<lambda>r. if row_id r = row_id l then stamp t l else r) (tb_service_user_teams (cur (tabs w)))) (tabs w)) \<or>
    (\<forall>r \<in> set (tb_service_user_teams (cur (tabs w))). row_id r \<noteq> row_id l)"
proof -
  obtain y w1 where u: "run_state (t_update (service_user_teams G) (\<lambda>x. row_id x = row_id l) (\<lambda>_. l)) w = (y, w1)"
    by fastforce
  show ?thesis
  proof (cases y)
    case (Inl e)
    then show ?thesis using assms u ut.update_Err[OF u[unfolded Inl]] by (simp add: save_link_def)
  next
    case (Inr n)
    then show ?thesis
      using assms u ut.update_Ok[OF u[unfolded Inr]]
      by (auto simp: save_link_def filter_empty_conv split: if_splits)
  qed
qed

lemma new_link_row:
  assumes "\<not> list_ex (links_team (row_id st) (su_service_user_id su)) (tb_service_user_teams (cur (tabs w)))"
    and "run_state (find_link G su st) w = (Inr l, w1)"
  shows "ut_service_team_id l = 0 \<and> ut_service_user_id l = su_service_user_id su \<and>
    row_id l \<notin> row_id ` set (tb_service_user_teams (cur (tabs w))) \<and>
    tb_service_user_teams (cur (tabs w1)) = tb_service_user_teams (cur (tabs w)) @ [l]"
proof -
  obtain y w0 where f: "run_state (t_first (service_user_teams G) (\<lambda>l. ut_service_id l = su_service_id su \<and>
      ut_service_team_id l = row_id st \<and> ut_service_user_id l = su_service_user_id su)) w = (y, w0)" by fastforce
  obtain e where e: "y = Inl e"
  proof (cases y)
    case (Inr z)
    then show thesis using ut.first_Ok[OF f[unfolded Inr]] assms(1) by (auto simp: list_ex_iff links_team_def)
  qed
  then have t: "tabs w0 = tabs w" using f ut.first_Err by blast
  have c: "run_state (t_create (service_user_teams G) (zero_service_user_teams
      \<lparr>ut_service_id := 1, ut_service_user_id := su_service_user_id su\<rparr>)) w0 = (Inr l, w1)"
    using assms(2) f e by (auto simp: find_link_def first_or_create_def split: if_splits)
  show ?thesis
    using ut.create_Ok[OF c] chosen_link_fields[OF ut.create_Ok[OF c, THEN conjunct1]] t
    by (simp add: zero_service_user_teams_def)
qed

lemma link_team_row:
  assumes "\<not> list_ex (links_team (row_id st) (su_service_user_id su)) (tb_service_user_teams (cur (tabs w)))"
    and "run_state (find_link G su st) w = (Inr l, w1)"
    and "run_state (link_team G su m c st) w = (x, w')"
  shows "\<exists>k. tb_service_user_teams (cur (tabs w')) = tb_service_user_teams (cur (tabs w)) @ [k] \<and>
    links_team 0 (su_service_user_id su) k"
proof -
  note n = new_link_row[OF assms(1,2)]
  obtain l' b where fl: "filled_link m c l = (l', b)" by fastforce
  note k = filled_link_keeps[OF fl]
  show ?thesis
  proof (cases b)
    case False
    then have "w' = w1" using assms(2,3) fl by (simp add: link_team_def)
    then show ?thesis using n by (simp add: links_team_def)
  next
    case True
    then obtain s where s: "run_state (save_link G l') w1 = (s, w')"
      using assms(2,3) fl by (auto simp: link_team_def split: prod.splits)
    have others: "map (\<lambda>r. if row_id r = row_id l' then stamp t l' else r) (tb_service_user_teams (cur (tabs w)))
        = tb_service_user_teams (cur (tabs w))" for t
    proof (rule map_idI)
      fix r
      assume "r \<in> set (tb_service_user_teams (cur (tabs w)))"
      then have "row_id r \<noteq> row_id l'" using n k by (metis image_eqI)
      then show "(if row_id r = row_id l' then stamp t l' else r) = r" by simp
    qed
    have st: "links_team 0 (su_service_user_id su) (stamp t l')" for t
      using n k by (simp add: links_team_def stamp_def)
    show ?thesis
      using save_link_tabs[OF s] n k others st by (auto simp: links_team_def)
  qed
qed

end

text \<open>
  Linking a FOSSA user to a team never makes the link: \<^verbatim>\<open>FirstOrCreate\<close> takes nothing from its
  string condition, so the row it adds names team 0.  The user is still not linked to the team, and
  the next run adds another such row.
\<close>

theorem links_are_made_to_team_zero:
  assumes "gorm_db G tabs" and "row_id st \<noteq> 0"
    and "\<not> list_ex (links_team (row_id st) (su_service_user_id su)) (tb_service_user_teams (cur (tabs w)))"
    and "run_state (find_link G su st) w = (Inr l, w1)"
    and "run_state (link_team G su m c st) w = (x, w')"
  shows "\<not> list_ex (links_team (row_id st) (su_service_user_id su)) (tb_service_user_teams (cur (tabs w'))) \<and>
    length (filter (links_team 0 (su_service_user_id su)) (tb_service_user_teams (cur (tabs w')))) =
      length (filter (links_team 0 (su_service_user_id su)) (tb_service_user_teams (cur (tabs w)))) + 1"
  using gorm_db.link_team_row[OF assms(1,3,4,5)] assms(2,3) by (auto simp: links_team_def)

definition demo_service_user :: service_user where
  "demo_service_user = zero_service_user\<lparr>row_id := 4, su_service_id := 1, su_service_user_id := 77\<rparr>"

definition demo_service_team :: service_team where
  "demo_service_team = zero_service_team\<lparr>row_id := 5, st_service_team_id := 900, st_service_team_name := Some ''alpha''\<rparr>"

theorem links_are_made_to_team_zero_witness:
  "\<not> list_ex (links_team 5 77) (tb_service_user_teams (cur (mw_db (snd (run_state
     (link_team mem_gorm demo_service_user (Some (demo_maintainer 1 ''Ann'' ''a@x'' ''ann'' None)) None demo_service_team)
     demo_world)))))"
proof -
  let ?m = "Some (demo_maintainer 1 ''Ann'' ''a@x'' ''ann'' None)"
  let ?f = "run_state (find_link mem_gorm demo_service_user demo_service_team) demo_world"
  let ?x = "run_state (link_team mem_gorm demo_service_user ?m None demo_service_team) demo_world"
  have ids: "row_id demo_service_team = 5" "su_service_user_id demo_service_user = 77" by code_simp+
  have none: "\<not> list_ex (links_team (row_id demo_service_team) (su_service_user_id demo_service_user))
      (tb_service_user_teams (cur (mw_db demo_world)))" by code_simp
  have "\<not> isl (fst ?f)" by code_simp
  then obtain l where f: "fst ?f = Inr l" by (cases "fst ?f") auto
  have nz: "row_id demo_service_team \<noteq> 0" using ids by simp
  from links_are_made_to_team_zero[OF mem.gorm_db_axioms nz none run_eqI[OF f] run_eqI[OF refl]]
  show ?thesis unfolding ids by blast
qed

end
