(* ===== verification/Fossa_Load_Laws.thy ===== *)
theory Fossa_Load_Laws
  imports Bootstrap_Laws Store_Reads "HOL-Library.Sublist"
begin

text \<open>
  What loading FOSSA into the database does to it: accounts, teams and links are added, and the
  register of projects, maintainers, companies and staff stays as it is.
\<close>

section \<open>The tables before and after\<close>

text \<open>A team that stands for a registered project, under its name.\<close>

definition team_of_project :: "project list \<Rightarrow> service_team \<Rightarrow> bool" where
  "team_of_project ps t \<longleftrightarrow>
     st_service_id t = 1 \<and>
     list_ex (\<lambda>p. row_id p = st_project_id t \<and> st_project_name t = Some (pr_name p) \<and>
                  st_service_team_name t = Some (pr_name p)) ps"

definition fossa_adds :: "tables \<Rightarrow> tables \<Rightarrow> bool" where
  "fossa_adds d d' \<longleftrightarrow>
     (\<exists>us ts cs ls.
        d' = d\<lparr>tb_service_users := tb_service_users d @ us, tb_service_teams := tb_service_teams d @ ts,
               tb_collaborators := tb_collaborators d @ cs, tb_service_user_teams := ls\<rparr> \<and>
        list_all (\<lambda>u. su_service_id u = 1) us \<and> list_all (team_of_project (tb_projects d)) ts \<and>
        list_all (\<lambda>t. st_service_team_id t \<notin> st_service_team_id ` set (tb_service_teams d)) ts \<and>
        distinct (map st_service_team_id ts) \<and>
        prefix (map row_id (tb_service_user_teams d)) (map row_id ls))"

lemma fossa_addsI:
  assumes "d' = d\<lparr>tb_service_users := tb_service_users d @ us, tb_service_teams := tb_service_teams d @ ts,
               tb_collaborators := tb_collaborators d @ cs, tb_service_user_teams := ls\<rparr>"
    and "list_all (\<lambda>u. su_service_id u = 1) us" and "list_all (team_of_project (tb_projects d)) ts"
    and "list_all (\<lambda>t. st_service_team_id t \<notin> st_service_team_id ` set (tb_service_teams d)) ts"
    and "distinct (map st_service_team_id ts)" and "prefix (map row_id (tb_service_user_teams d)) (map row_id ls)"
  shows "fossa_adds d d'"
  unfolding fossa_adds_def using assms by blast

lemma fossa_adds_refl [simp]: "fossa_adds d d"
  by (rule fossa_addsI[where us = "[]" and ts = "[]" and cs = "[]" and ls = "tb_service_user_teams d"]) simp_all

lemma fossa_adds_trans:
  assumes "fossa_adds a b" and "fossa_adds b c"
  shows "fossa_adds a c"
proof -
  from assms(1) obtain us ts cs ls where
    b: "b = a\<lparr>tb_service_users := tb_service_users a @ us, tb_service_teams := tb_service_teams a @ ts,
               tb_collaborators := tb_collaborators a @ cs, tb_service_user_teams := ls\<rparr>"
    and ab: "list_all (\<lambda>u. su_service_id u = 1) us" "list_all (team_of_project (tb_projects a)) ts"
      "list_all (\<lambda>t. st_service_team_id t \<notin> st_service_team_id ` set (tb_service_teams a)) ts"
      "distinct (map st_service_team_id ts)" "prefix (map row_id (tb_service_user_teams a)) (map row_id ls)"
    unfolding fossa_adds_def by blast
  from assms(2) obtain us' ts' cs' ls' where
    c: "c = b\<lparr>tb_service_users := tb_service_users b @ us', tb_service_teams := tb_service_teams b @ ts',
               tb_collaborators := tb_collaborators b @ cs', tb_service_user_teams := ls'\<rparr>"
    and bc: "list_all (\<lambda>u. su_service_id u = 1) us'" "list_all (team_of_project (tb_projects b)) ts'"
      "list_all (\<lambda>t. st_service_team_id t \<notin> st_service_team_id ` set (tb_service_teams b)) ts'"
      "distinct (map st_service_team_id ts')" "prefix (map row_id (tb_service_user_teams b)) (map row_id ls')"
    unfolding fossa_adds_def by blast
  show ?thesis
  proof (rule fossa_addsI[where us = "us @ us'" and ts = "ts @ ts'" and cs = "cs @ cs'" and ls = ls'])
    show "prefix (map row_id (tb_service_user_teams a)) (map row_id ls')"
      using prefix_order.trans[OF ab(5), of "map row_id ls'"] bc(5) by (simp add: b)
    show "distinct (map st_service_team_id (ts @ ts'))"
      using ab(4) bc(3,4) by (auto simp: b list_all_iff) (metis UnI2 imageI)
  qed (use ab bc in \<open>auto simp: b c list_all_iff\<close>)
qed

lemma fossa_adds_user: "su_service_id u = 1 \<Longrightarrow> fossa_adds d (d\<lparr>tb_service_users := tb_service_users d @ [u]\<rparr>)"
  by (rule fossa_addsI[where us = "[u]" and ts = "[]" and cs = "[]" and ls = "tb_service_user_teams d"]) simp_all

lemma fossa_adds_collaborator: "fossa_adds d (d\<lparr>tb_collaborators := tb_collaborators d @ [c]\<rparr>)"
  by (rule fossa_addsI[where us = "[]" and ts = "[]" and cs = "[c]" and ls = "tb_service_user_teams d"]) simp_all

lemma fossa_adds_team:
  "team_of_project (tb_projects d) t \<Longrightarrow> \<forall>x \<in> set (tb_service_teams d). st_service_team_id x \<noteq> st_service_team_id t \<Longrightarrow>
   fossa_adds d (d\<lparr>tb_service_teams := tb_service_teams d @ [t]\<rparr>)"
  by (rule fossa_addsI[where us = "[]" and ts = "[t]" and cs = "[]" and ls = "tb_service_user_teams d"]) auto

lemma fossa_adds_links:
  "prefix (map row_id (tb_service_user_teams d)) (map row_id ls) \<Longrightarrow> fossa_adds d (d\<lparr>tb_service_user_teams := ls\<rparr>)"
  by (rule fossa_addsI[where us = "[]" and ts = "[]" and cs = "[]" and ls = ls]) simp_all

lemma fossa_adds_same_projects: "fossa_adds d d' \<Longrightarrow> tb_projects d' = tb_projects d"
  by (auto simp: fossa_adds_def)

section \<open>The loader\<close>

context gorm_db
begin

abbreviation loads :: "'w \<Rightarrow> 'w \<Rightarrow> bool" where "loads w w' \<equiv> fossa_adds (cur (tabs w)) (cur (tabs w'))"

lemma rel_loads: "reflp loads" "transp loads"
  by (auto intro: reflpI transpI fossa_adds_trans)

lemma loads_service_user: "keeps loads (first_or_create_service_user G u)"
proof (rule keepsI)
  fix w x w'
  assume r: "run_state (first_or_create_service_user G u) w = (x, w')"
  obtain y where f: "run_state (first_or_create (service_users G)
      (\<lambda>s. su_service_id s = 1 \<and> (us_id u = 0 \<or> su_service_user_id s = us_id u))
      (service_user_defaults (zero_service_user \<lparr>su_service_id := 1, su_service_user_id := us_id u,
         su_github_name := us_github_name u, su_email := us_email u\<rparr>))) w = (y, w')"
    using r by (auto simp: first_or_create_service_user_def wrap_io_def split: prod.splits)
  show "loads w w'"
  proof (cases y)
    case (Inl e)
    then show ?thesis using su.first_or_create_Err f by simp
  next
    case (Inr s)
    have "su_service_id s = 1"
      if "chosen s = chosen (service_user_defaults (zero_service_user \<lparr>su_service_id := 1, su_service_user_id := us_id u,
         su_github_name := us_github_name u, su_email := us_email u\<rparr>))"
      using arg_cong[OF that, of su_service_id] by (simp add: chosen_def service_user_defaults_def)
    then show ?thesis using su.first_or_create_Ok[OF f[unfolded Inr]] by (auto simp del: One_nat_def intro: fossa_adds_user)
  qed
qed

lemma loads_maintainer: "keeps loads (map_fossa_user_to_maintainer G email github)"
  by (rule keepsI) (auto simp: map_fossa_user_to_maintainer_def split: prod.splits sum.splits if_splits dest!: mt.first_tabs)

lemma loads_collaborator: "keeps loads (map_fossa_user_collaborator G email github u)"
proof (rule keepsI)
  fix w x w'
  assume "run_state (map_fossa_user_collaborator G email github u) w = (x, w')"
  then obtain y p c where "run_state (first_or_create (collaborators G) p c) w = (y, w')"
    by (auto simp: map_fossa_user_collaborator_def split: prod.splits)
  then show "loads w w'"
    using cb.first_or_create_Ok[of p c w _ w'] cb.first_or_create_Err[of p c w _ w']
    by (cases y) (auto intro: fossa_adds_collaborator)
qed

text \<open>The projects by their names are the registered ones.\<close>

lemma project_map_entry:
  assumes "run_state (get_project_map_by_name G) w = (Inr ps, w')" and "map_of ps name = Some lp"
  shows "list_ex (\<lambda>p. row_id p = row_id lp \<and> pr_name p = pr_name lp) (tb_projects (cur (tabs w))) \<and> pr_name lp = name"
proof -
  obtain lps where i: "map_indexes pr_name ps (set lps)"
    and l: "\<forall>lp \<in> set lps. \<exists>p \<in> set (tb_projects (cur (tabs w))). \<exists>ms. lp = with_associations ms [] p \<and>
       mset ms = mset (maintainers_of (cur (tabs w)) (row_id p))"
    using project_map_by_name_Ok[OF assms(1)] by blast
  have e: "(name, lp) \<in> set ps" using assms(2) by (rule map_of_SomeD)
  have n: "name = pr_name lp" using i e unfolding map_indexes_def by blast
  have "lp \<in> set lps" using i imageI[OF e, of snd] unfolding map_indexes_def by auto
  then obtain p ms where "p \<in> set (tb_projects (cur (tabs w)))" "lp = with_associations ms [] p" using l by blast
  moreover from this have "row_id p = row_id lp" "pr_name p = pr_name lp"
    by (simp_all add: with_associations_def project.defs)
  ultimately show ?thesis using n unfolding list_ex_iff by blast
qed

lemma project_map_tabs: "run_state (get_project_map_by_name G) w = (x, w') \<Longrightarrow> tabs w' = tabs w"
proof -
  have "run_state (preload_maintainers G ps) w = (x, w') \<Longrightarrow> tabs w' = tabs w" for ps w x w'
    by (induction ps arbitrary: w x) (auto split: prod.splits sum.splits dest!: load_maintainers_Ok load_maintainers_Err)
  then show "run_state (get_project_map_by_name G) w = (x, w') \<Longrightarrow> tabs w' = tabs w"
    by (auto simp: get_project_map_by_name_def split: prod.splits sum.splits dest!: pr.find_tabs)
qed

lemma loads_create_teams:
  assumes "\<forall>name lp. map_of ps name = Some lp \<longrightarrow> pr_name lp = name \<and>
      list_ex (\<lambda>p. row_id p = row_id lp \<and> pr_name p = pr_name lp) (tb_projects (cur (tabs w)))"
    and "run_state (create_teams G ps ts teams errs) w = (x, w')"
  shows "loads w w'"
  using assms
proof (induction ts arbitrary: teams errs w)
  case (Cons team ts)
  obtain i name where t: "team = (i, name)" by (cases team)
  show ?case
  proof (cases "map_of ps name")
    case None
    then show ?thesis using Cons.prems t by simp
  next
    case (Some lp)
    let ?new = "zero_service_team\<lparr>st_service_team_id := i, st_service_id := 1, st_service_team_name := Some name,
                    st_project_id := row_id lp, st_project_name := Some (pr_name lp)\<rparr>"
    obtain r w1 where f: "run_state (first_or_create (service_teams G) (\<lambda>s. st_service_team_id s = i) ?new) w = (r, w1)"
      by fastforce
    have c: "st_service_team_id t = i" "team_of_project (tb_projects (cur (tabs w))) t"
      if "chosen t = chosen ?new" for t
    proof -
      have "st_service_team_id t = i \<and> st_service_id t = 1 \<and> st_service_team_name t = Some name \<and>
          st_project_id t = row_id lp \<and> st_project_name t = Some (pr_name lp)"
        using that by (auto simp: chosen_def dest: arg_cong[of _ _ st_service_team_id] arg_cong[of _ _ st_service_id]
          arg_cong[of _ _ st_service_team_name] arg_cong[of _ _ st_project_id] arg_cong[of _ _ st_project_name])
      then show "st_service_team_id t = i" "team_of_project (tb_projects (cur (tabs w))) t"
        using Cons.prems(1) Some unfolding team_of_project_def list_ex_iff by metis+
    qed
    have l: "loads w w1"
    proof (cases r)
      case (Inl e)
      then show ?thesis using st.first_or_create_Err f by simp
    next
      case (Inr t)
      then show ?thesis
        using st.first_or_create_Ok[OF f[unfolded Inr]] c[of t] by (auto intro!: fossa_adds_team)
    qed
    then have p: "tb_projects (cur (tabs w1)) = tb_projects (cur (tabs w))" by (rule fossa_adds_same_projects)
    obtain ts2 es2 where rest: "run_state (create_teams G ps ts ts2 es2) w1 = (x, w')"
      using Cons.prems(2) f Some t by (cases r) auto
    have "loads w1 w'" using Cons.IH[OF _ rest] Cons.prems(1) unfolding p by blast
    then show ?thesis using l by (rule fossa_adds_trans[rotated])
  qed
qed simp

lemma loads_teams_for_user: "keeps loads (create_service_teams_for_user G teamUsers)"
proof (rule keepsI)
  fix w x w'
  assume r: "run_state (create_service_teams_for_user G teamUsers) w = (x, w')"
  obtain ps w1 where m: "run_state (get_project_map_by_name G) w = (ps, w1)" by fastforce
  have t: "tabs w1 = tabs w" by (rule project_map_tabs[OF m])
  show "loads w w'"
  proof (cases ps)
    case (Inl e)
    then show ?thesis using r m t by (simp add: create_service_teams_for_user_def)
  next
    case (Inr mm)
    then obtain y where "run_state (create_teams G mm teamUsers [] []) w1 = (y, w')"
      using r m by (auto simp: create_service_teams_for_user_def split: prod.splits)
    from loads_create_teams[OF _ this] have "loads w1 w'"
      using project_map_entry[OF m[unfolded Inr]] unfolding t by blast
    then show ?thesis by (simp add: t)
  qed
qed

text \<open>The links: rows are added or filled in, none goes.\<close>

lemma loads_find_link: "keeps loads (find_link G su st)"
proof (rule keepsI)
  fix w x w'
  assume "run_state (find_link G su st) w = (x, w')"
  then show "loads w w'"
    using ut.first_or_create_Ok[of _ _ w _ w'] ut.first_or_create_Err[of _ _ w _ w']
    by (cases x) (fastforce simp: find_link_def intro!: fossa_adds_links)+
qed

lemma loads_create_link: "keeps loads (t_create (service_user_teams G) l)"
proof (rule keepsI)
  fix w x w'
  assume "run_state (t_create (service_user_teams G) l) w = (x, w')"
  then show "loads w w'"
    using ut.create_Ok[of l w _ w'] ut.create_Err[of l w _ w'] by (cases x) (auto intro!: fossa_adds_links)
qed

lemma loads_update_link: "keeps loads (t_update (service_user_teams G) (\<lambda>x. row_id x = row_id l) (\<lambda>_. l))"
proof (rule keepsI)
  fix w x w'
  assume u: "run_state (t_update (service_user_teams G) (\<lambda>x. row_id x = row_id l) (\<lambda>_. l)) w = (x, w')"
  have ids: "map row_id (map (\<lambda>r. if row_id r = row_id l then stamp t l else r) rs) = map row_id rs" for t rs
    by (simp add: stamp_def)
  show "loads w w'"
    using u ut.update_Ok[of _ _ w _ w'] ut.update_Err[of _ _ w _ w']
    by (cases x) (fastforce intro!: fossa_adds_links simp: ids simp del: map_map)+
qed

lemmas loads_intros =
  loads_service_user loads_maintainer loads_collaborator loads_teams_for_user loads_find_link loads_create_link
  loads_update_link keeps_try[OF rel_loads(2) rel_loads(1)] keeps_bind[OF rel_loads(2)] keeps_ret[OF rel_loads(1)]

lemma loads_save_link: "keeps loads (save_link G l)"
  by (auto simp: save_link_def intro!: loads_intros)

lemma loads_link_team: "keeps loads (link_team G su m c st)"
  by (auto simp: link_team_def split: sum.split prod.split bool.split intro!: loads_intros loads_save_link)

lemma loads_link_teams: "keeps loads (link_teams G su m c sts errs)"
  by (induction sts arbitrary: errs) (auto split: outcome.split intro!: loads_intros loads_link_team)

lemma loads_link_service_user: "keeps loads (link_service_user_to_team G su sts m c)"
  by (auto simp: link_service_user_to_team_def split: option.split intro!: loads_intros loads_link_teams)

lemma loads_user: "keeps loads (load_fossa_user G u)"
  by (auto simp: load_fossa_user_def Let_def split: sum.split prod.split intro!: loads_intros loads_link_service_user)

lemma loads_users: "keeps loads (load_fossa_users G us)"
  by (induction us) (auto split: outcome.split intro!: loads_intros loads_user)

end

section \<open>The whole run\<close>

text \<open>Calls to FOSSA are no part of the database.\<close>

locale fossa_feed = gorm_db G tabs for G :: "'w gorm" and tabs :: "'w \<Rightarrow> db" +
  fixes H :: "'w http"
  assumes request_tabs: "run_state (do_request H rq) w = (x, w') \<Longrightarrow> tabs w' = tabs w"
begin

lemma loads_send: "keeps loads (send H cl meth path body)"
  by (rule keepsI) (auto simp: send_def dest!: request_tabs)

lemma loads_fetch_users: "keeps loads (fetch_users fuel H C cl)"
proof -
  have page: "keeps loads (fetch_users_page H C cl p)" for p
    by (auto simp: fetch_users_page_def checked_request_def wrap_io_def split: option.split
        intro!: loads_intros loads_send)
  have "keeps loads (fetch_users_from fuel H C cl p acc)" for p acc
    by (induction fuel arbitrary: p acc) (auto split: sum.split intro!: loads_intros page)
  then show ?thesis by (simp add: fetch_users_def)
qed

lemma loads_fetch_teams: "keeps loads (fetch_teams H C cl)"
  by (auto simp: fetch_teams_def intro!: loads_intros loads_send)

lemma loads_fossa: "keeps loads (load_fossa fuel G H C cl)"
  by (auto simp: load_fossa_def fetch_fossa_data_def split: option.split sum.split prod.split
      intro!: loads_intros loads_fetch_users loads_fetch_teams loads_users)

end

text \<open>
  Loading FOSSA only adds: wherever it fails, ends or panics, the projects, maintainers, companies,
  staff members, services and the audit log are as they were, and so is every account, team and
  collaborator that was there; a new team belongs to a registered project, under the name of that
  project, and has an id no other team has; no link disappears.
\<close>

theorem fossa_loading_only_adds:
  assumes "fossa_feed G tabs H"
    and "run_state (load_fossa fuel G H C cl) w = (x, w')"
  shows "fossa_adds (cur (tabs w)) (cur (tabs w'))"
  using keepsD[OF fossa_feed.loads_fossa[OF assms(1)] assms(2)] .

text \<open>Two accounts in FOSSA: one of a maintainer in the team of a project, one in a team of no project.\<close>

definition feed_users :: "user list" where
  "feed_users =
     [zero_user\<lparr>us_id := 7, us_email := ''ann@acme.io'', us_teams := [(900, ''alpha'')]\<rparr>,
      zero_user\<lparr>us_id := 8, us_email := ''zed@x'', us_teams := [(901, ''ghost'')]\<rparr>]"

definition feed_http :: "mem_world http" where
  "feed_http = \<lparr>new_request_error = (\<lambda>_. None),
     do_request = (\<lambda>rq. ret (Inr \<lparr>hr_code = 200, hr_status = ''200 OK'', hr_body = [], hr_read_error = None\<rparr>))\<rparr>"

definition feed_codec :: codec where
  "feed_codec = demo_codec\<lparr>un_users := (\<lambda>_. Inr feed_users)\<rparr>"

interpretation demo_feed: fossa_feed mem_gorm mw_db feed_http
  by unfold_locales (auto simp: feed_http_def)

definition demo_loaded :: "unit result outcome option \<times> mem_world" where
  "demo_loaded = run_state (load_fossa 1 mem_gorm feed_http feed_codec (new_client ''k'')) demo_world"

theorem fossa_loading_only_adds_witness:
  "fossa_adds (cur (mw_db demo_world)) (cur (mw_db (snd demo_loaded))) \<and>
   map (\<lambda>t. (st_service_team_id t, st_project_id t)) (tb_service_teams (cur (mw_db (snd demo_loaded)))) = [(900, 1)] \<and>
   map su_service_user_id (tb_service_users (cur (mw_db (snd demo_loaded)))) = [7, 8] \<and>
   map (\<lambda>l. (ut_service_team_id l, ut_maintainer_id l)) (tb_service_user_teams (cur (mw_db (snd demo_loaded)))) =
     [(0, Some 1)]"
proof -
  have r: "run_state (load_fossa 1 mem_gorm feed_http feed_codec (new_client ''k'')) demo_world =
      (fst demo_loaded, snd demo_loaded)" by (simp add: demo_loaded_def)
  have t: "map (\<lambda>t. (st_service_team_id t, st_project_id t)) (tb_service_teams (cur (mw_db (snd demo_loaded)))) = [(900, 1)]"
    by code_simp
  have u: "map su_service_user_id (tb_service_users (cur (mw_db (snd demo_loaded)))) = [7, 8]" by code_simp
  have l: "map (\<lambda>l. (ut_service_team_id l, ut_maintainer_id l)) (tb_service_user_teams (cur (mw_db (snd demo_loaded)))) =
     [(0, Some 1)]" by code_simp
  from fossa_loading_only_adds[OF demo_feed.fossa_feed_axioms r] t u l show ?thesis by blast
qed

end
