(* ===== verification/Bootstrap_Runs.thy ===== *)
theory Bootstrap_Runs
  imports Fossa_Load_Laws
begin

text \<open>
  The bootstrap as a whole: schema, services, the sheet of maintainers, the sheet of staff, FOSSA.  What
  each stage can do to the tables, that a stage that fails is the last one, and that filling a
  database again keeps the rows it has and the names they are known by.
\<close>

section \<open>Services and staff\<close>

definition services_added :: "tables \<Rightarrow> tables \<Rightarrow> bool" where
  "services_added d d' \<longleftrightarrow>
     (\<exists>ss. d' = d\<lparr>tb_services := tb_services d @ ss\<rparr> \<and>
        list_all (\<lambda>s. sv_name s \<in> fst ` set seed_services \<and> sv_name s \<notin> sv_name ` set (tb_services d)) ss \<and>
        distinct (map sv_name ss))"

text \<open>What the sheet does not change of a staff member it knows.\<close>

definition staff_core :: "staff_member \<Rightarrow> staff_member" where
  "staff_core s = s\<lparr>sm_name := [], sm_github := [], sm_github_email := [], sm_foundation_id := None, updated_at := 0\<rparr>"

definition staff_added :: "tables \<Rightarrow> tables \<Rightarrow> bool" where
  "staff_added d d' \<longleftrightarrow>
     (\<exists>fs ss new. d' = d\<lparr>tb_foundations := tb_foundations d @ fs, tb_staff := ss\<rparr> \<and>
        list_all (\<lambda>f. fo_name f \<notin> fo_name ` set (tb_foundations d)) fs \<and> distinct (map fo_name fs) \<and>
        map staff_core ss = map staff_core (tb_staff d) @ new \<and>
        list_all (\<lambda>s. sm_email s \<noteq> [] \<and> sm_email s \<notin> sm_email ` set (tb_staff d)) new \<and>
        distinct (map sm_email new))"

lemma staff_core_email [simp]: "sm_email (staff_core s) = sm_email s"
  by (simp add: staff_core_def)

lemma staff_core_emails: "map staff_core ss = map staff_core ts @ new \<Longrightarrow>
    sm_email ` set ss = sm_email ` set ts \<union> sm_email ` set new"
proof -
  assume e: "map staff_core ss = map staff_core ts @ new"
  have "sm_email ` set ss = sm_email ` set (map staff_core ss)" by (simp add: image_image)
  then show ?thesis by (simp add: e image_Un image_image)
qed

lemma services_added_refl [simp]: "services_added d d"
  unfolding services_added_def by (intro exI[of _ "[]"]) simp

lemma services_added_trans:
  assumes "services_added a b" and "services_added b c"
  shows "services_added a c"
proof -
  from assms obtain ss ss' where b: "b = a\<lparr>tb_services := tb_services a @ ss\<rparr>" "distinct (map sv_name ss)"
      "list_all (\<lambda>s. sv_name s \<in> fst ` set seed_services \<and> sv_name s \<notin> sv_name ` set (tb_services a)) ss"
    and c: "c = b\<lparr>tb_services := tb_services b @ ss'\<rparr>" "distinct (map sv_name ss')"
      "list_all (\<lambda>s. sv_name s \<in> fst ` set seed_services \<and> sv_name s \<notin> sv_name ` set (tb_services b)) ss'"
    unfolding services_added_def by blast
  show ?thesis
    unfolding services_added_def
    by (rule exI[of _ "ss @ ss'"]) (use b c in \<open>auto simp: list_all_iff, (metis UnI2 imageI)+\<close>)
qed

lemma staff_added_refl [simp]: "staff_added d d"
  unfolding staff_added_def by (intro exI[of _ "[]"] exI[of _ "tb_staff d"]) simp

lemma staff_added_trans:
  assumes "staff_added a b" and "staff_added b c"
  shows "staff_added a c"
proof -
  from assms(1) obtain fs ss new where b: "b = a\<lparr>tb_foundations := tb_foundations a @ fs, tb_staff := ss\<rparr>"
    and ab: "list_all (\<lambda>f. fo_name f \<notin> fo_name ` set (tb_foundations a)) fs" "distinct (map fo_name fs)"
      "map staff_core ss = map staff_core (tb_staff a) @ new"
      "list_all (\<lambda>s. sm_email s \<noteq> [] \<and> sm_email s \<notin> sm_email ` set (tb_staff a)) new" "distinct (map sm_email new)"
    unfolding staff_added_def by blast
  from assms(2) obtain fs' ss' new' where c: "c = b\<lparr>tb_foundations := tb_foundations b @ fs', tb_staff := ss'\<rparr>"
    and bc: "list_all (\<lambda>f. fo_name f \<notin> fo_name ` set (tb_foundations b)) fs'" "distinct (map fo_name fs')"
      "map staff_core ss' = map staff_core ss @ new'"
      "list_all (\<lambda>s. sm_email s \<noteq> [] \<and> sm_email s \<notin> sm_email ` set ss) new'" "distinct (map sm_email new')"
    unfolding staff_added_def by (auto simp: b)
  have e: "sm_email ` set ss = sm_email ` set (tb_staff a) \<union> sm_email ` set new"
    by (rule staff_core_emails[OF ab(3)])
  show ?thesis
    unfolding staff_added_def
  proof (intro exI conjI)
    show "c = a\<lparr>tb_foundations := tb_foundations a @ (fs @ fs'), tb_staff := ss'\<rparr>" by (simp add: c b)
    show "map staff_core ss' = map staff_core (tb_staff a) @ (new @ new')" by (simp add: bc(3) ab(3))
    show "list_all (\<lambda>f. fo_name f \<notin> fo_name ` set (tb_foundations a)) (fs @ fs')"
      using ab(1) bc(1) by (auto simp: b list_all_iff)
    show "distinct (map fo_name (fs @ fs'))" using ab(2) bc(1,2) by (auto simp: b list_all_iff) (metis UnI2 imageI)
    show "list_all (\<lambda>s. sm_email s \<noteq> [] \<and> sm_email s \<notin> sm_email ` set (tb_staff a)) (new @ new')"
      using ab(4) bc(4) unfolding e by (auto simp: list_all_iff)
    show "distinct (map sm_email (new @ new'))" using ab(5) bc(4,5) unfolding e by (auto simp: list_all_iff) (metis imageI)
  qed
qed

section \<open>The stages on a database\<close>

context gorm_db
begin

abbreviation adds_services :: "'w \<Rightarrow> 'w \<Rightarrow> bool" where
  "adds_services w w' \<equiv> services_added (cur (tabs w)) (cur (tabs w'))"

abbreviation adds_staff :: "'w \<Rightarrow> 'w \<Rightarrow> bool" where
  "adds_staff w w' \<equiv> staff_added (cur (tabs w)) (cur (tabs w'))"

lemma rel_stages:
  "reflp adds_services" "transp adds_services" "reflp adds_staff" "transp adds_staff"
  by (auto intro: reflpI transpI services_added_trans staff_added_trans)

lemma saved_stage_calls:
  "keeps same_saved (t_first (services G) p)" "keeps same_saved (t_create (services G) s)"
  "keeps same_saved (t_first (foundations G) q)" "keeps same_saved (t_create (foundations G) f)"
  "keeps same_saved (t_first (staff_members G) pm)" "keeps same_saved (t_create (staff_members G) m)"
  "keeps same_saved (t_update (staff_members G) pm g)"
proof -
  show "keeps same_saved (t_first (services G) p)" "keeps same_saved (t_first (foundations G) q)"
    "keeps same_saved (t_first (staff_members G) pm)"
    by (auto intro!: keepsI dest: sv.first_tabs fo.first_tabs sm.first_tabs)
  show "keeps same_saved (t_create (services G) s)"
    by (rule keepsI, rename_tac x w', case_tac x) (auto dest: sv.create_Ok sv.create_Err)
  show "keeps same_saved (t_create (foundations G) f)"
    by (rule keepsI, rename_tac x w', case_tac x) (auto dest: fo.create_Ok fo.create_Err)
  show "keeps same_saved (t_create (staff_members G) m)"
    by (rule keepsI, rename_tac x w', case_tac x) (auto dest: sm.create_Ok sm.create_Err)
  show "keeps same_saved (t_update (staff_members G) pm g)"
    by (rule keepsI, rename_tac x w', case_tac x) (auto dest!: sm.update_Ok sm.update_Err)
qed

text \<open>A service of the list, unless one has its name.\<close>

lemma service_stored:
  assumes "name \<in> fst ` set seed_services"
  shows "keeps adds_services (first_or_create (services G) (\<lambda>s. sv_name s = name)
      (zero_service\<lparr>sv_name := name, sv_description := description\<rparr>))"
proof (rule keepsI)
  fix w x w'
  assume r: "run_state (first_or_create (services G) (\<lambda>s. sv_name s = name)
      (zero_service\<lparr>sv_name := name, sv_description := description\<rparr>)) w = (x, w')"
  show "adds_services w w'"
  proof (cases x)
    case (Inl e)
    then show ?thesis using sv.first_or_create_Err r by simp
  next
    case (Inr s)
    have n: "sv_name s = name" if "chosen s = chosen (zero_service\<lparr>sv_name := name, sv_description := description\<rparr>)"
      using arg_cong[OF that, of sv_name] by (simp add: chosen_def)
    have "services_added d (d\<lparr>tb_services := tb_services d @ [s]\<rparr>)"
      if "sv_name s = name" "\<forall>y \<in> set (tb_services d). sv_name y \<noteq> name" for d
      unfolding services_added_def by (rule exI[of _ "[s]"]) (use assms that in auto)
    then show ?thesis using sv.first_or_create_Ok[OF r[unfolded Inr]] n by auto
  qed
qed

lemma insert_services_adds: "keeps adds_services (insert_services G)"
proof (rule keepsI)
  fix w x w'
  assume r: "run_state (insert_services G) w = (x, w')"
  let ?one = "\<lambda>(name, description). try_bind (wrap_io (''bootstrap: failed to insert service '' @ name @ '': '')
         (first_or_create (services G) (\<lambda>s. sv_name s = name)
            (zero_service\<lparr>sv_name := name, sv_description := description\<rparr>)))
         (\<lambda>_. ret (Inr ()))"
  have s: "keeps same_saved (for_each_try ss ?one)" for ss
    by (induction ss) (auto simp: wrap_io_def first_or_create_def simp del: run_try_bind split: sum.split
        intro!: saved_intros saved_stage_calls)
  have a: "keeps adds_services (for_each_try ss ?one)" if "set ss \<subseteq> set seed_services" for ss
    using that
    by (induction ss) (auto simp: wrap_io_def simp del: run_try_bind
        intro!: service_stored keeps_try[OF rel_stages(2,1)] keeps_bind[OF rel_stages(2)] keeps_ret[OF rel_stages(1)]
        intro: rev_image_eqI)
  show "adds_services w w'"
    using transaction_cases[OF r[unfolded insert_services_def] s] keepsD[OF a[OF order_refl]] by fastforce
qed

text \<open>A row of the staff sheet: a foundation by its name, a staff member by the address.\<close>

lemma foundation_stored:
  "keeps adds_staff (first_or_create (foundations G) (\<lambda>f. fo_name f = n) (zero_foundation\<lparr>fo_name := n\<rparr>))"
proof (rule keepsI)
  fix w x w'
  assume r: "run_state (first_or_create (foundations G) (\<lambda>f. fo_name f = n) (zero_foundation\<lparr>fo_name := n\<rparr>)) w = (x, w')"
  show "adds_staff w w'"
  proof (cases x)
    case (Inl e)
    then show ?thesis using fo.first_or_create_Err r by simp
  next
    case (Inr f)
    have n: "fo_name f = n" if "chosen f = chosen (zero_foundation\<lparr>fo_name := n\<rparr>)"
      using arg_cong[OF that, of fo_name] by (simp add: chosen_def)
    have "staff_added d (d\<lparr>tb_foundations := tb_foundations d @ [f]\<rparr>)"
      if "fo_name f = n" "\<forall>y \<in> set (tb_foundations d). fo_name y \<noteq> n" for d
      unfolding staff_added_def
      by (rule exI[of _ "[f]"], rule exI[of _ "tb_staff d"], rule exI[of _ "[]"]) (use that in auto)
    then show ?thesis using fo.first_or_create_Ok[OF r[unfolded Inr]] n by auto
  qed
qed

lemma staff_created:
  assumes "run_state (t_create (staff_members G) (staff_defaults s)) w = (x, w')"
    and "sm_email s \<noteq> []" and "\<forall>y \<in> set (tb_staff (cur (tabs w))). sm_email y \<noteq> sm_email s"
  shows "adds_staff w w'"
proof (cases x)
  case (Inl e)
  then show ?thesis using sm.create_Err assms(1) by simp
next
  case (Inr r)
  note c = sm.create_Ok[OF assms(1)[unfolded Inr]]
  have "sm_email r = sm_email s"
    using arg_cong[OF conjunct1[OF c], of sm_email] assms(2) by (simp add: chosen_def staff_defaults_def or_default_def)
  then have "staff_added d (d\<lparr>tb_staff := tb_staff d @ [r]\<rparr>)"
    if "\<forall>y \<in> set (tb_staff d). sm_email y \<noteq> sm_email s" for d
    unfolding staff_added_def
    by (intro exI[of _ "[]"] exI[of _ "tb_staff d @ [r]"] exI[of _ "[staff_core r]"]) (use that assms(2) in auto)
  then show ?thesis using c assms(3) by simp
qed

lemma staff_updated:
  assumes "\<And>s. staff_core (f s) = staff_core s"
  shows "keeps adds_staff (t_update (staff_members G) p f)"
proof (rule keepsI)
  fix w x w'
  assume r: "run_state (t_update (staff_members G) p f) w = (x, w')"
  have e: "staff_core (if p s then stamp t (f s) else s) = staff_core s" for s t
    using assms[of s] by (cases "f s"; cases s) (simp add: staff_core_def stamp_def)
  have "staff_added d (d\<lparr>tb_staff := map (\<lambda>s. if p s then stamp t (f s) else s) (tb_staff d)\<rparr>)" for d t
    unfolding staff_added_def
    by (intro exI[of _ "[]"] exI[of _ "map (\<lambda>s. if p s then stamp t (f s) else s) (tb_staff d)"]) (simp add: e comp_def)
  then show "adds_staff w w'" using r sm.update_Ok[of p f w _ w'] sm.update_Err[of p f w _ w'] by (cases x) auto
qed

lemma store_staff_adds:
  assumes "sheet_value row EmailHdr \<noteq> []"
  shows "keeps adds_staff (store_staff G row)"
proof -
  have u: "keeps adds_staff (t_update (staff_members G) p (\<lambda>s. s\<lparr>sm_name := a, sm_github := b, sm_github_email := c,
      sm_foundation_id := d\<rparr>))" for p a b c d
    by (rule staff_updated) (simp add: staff_core_def)
  let ?p = "\<lambda>s. sm_email s = sheet_value row EmailHdr"
  have t: "keeps adds_staff (State_Monad.bind (t_first (staff_members G) ?p) k)"
    if k: "\<And>s. keeps adds_staff (k (Inr s))"
      "\<And>e w x w'. run_state (k (Inl e)) w = (x, w') \<Longrightarrow>
        errors_is e ErrRecordNotFound \<longrightarrow> (\<forall>y \<in> set (tb_staff (cur (tabs w))). \<not> ?p y) \<Longrightarrow> adds_staff w w'"
    for k :: "staff_member result \<Rightarrow> ('w, unit result) io"
  proof (rule keepsI)
    fix w x w' assume "run_state (State_Monad.bind (t_first (staff_members G) ?p) k) w = (x, w')"
    then obtain y w1 where r: "run_state (t_first (staff_members G) ?p) w = (y, w1)" "run_state (k y) w1 = (x, w')"
      by (elim run_bindE)
    have e: "tabs w1 = tabs w" using sm.first_tabs[OF r(1)] .
    have "adds_staff w1 w'"
    proof (cases y)
      case (Inl e)
      show ?thesis
        by (rule k(2)[OF r(2)[unfolded Inl]]) (use sm.first_Err[OF r(1)[unfolded Inl]] in auto)
    next
      case (Inr s)
      show ?thesis by (rule keepsD[OF k(1) r(2)[unfolded Inr]])
    qed
    then show "adds_staff w w'" by (simp add: e)
  qed
  show ?thesis
    unfolding store_staff_def Let_def wrap_io_def
    apply (rule keeps_try[OF rel_stages(4,3)])
     apply (rule keeps_bind[OF rel_stages(4) foundation_stored keeps_ret[OF rel_stages(3)]])
    apply (rule t)
     apply simp
     apply (rule keeps_try[OF rel_stages(4,3) keeps_bind[OF rel_stages(4) u keeps_ret[OF rel_stages(3)]]
       keeps_ret[OF rel_stages(3)]])
    apply (auto split: if_splits prod.splits sum.splits dest!: staff_created simp: assms)
    done
qed

lemma load_staff_row_adds: "keeps adds_staff (load_staff_row G row)"
proof (rule keepsI)
  fix w u w'
  assume r: "run_state (load_staff_row G row) w = (u, w')"
  show "adds_staff w w'"
  proof (cases "sheet_value row FoundationHdr = [] \<or> sheet_value row EmailHdr = []")
    case True
    then show ?thesis using r by (auto simp: load_staff_row_def)
  next
    case False
    then obtain x where t: "run_state (transaction G (store_staff G row)) w = (x, w')"
      using r by (auto simp: load_staff_row_def split: prod.splits)
    have "keeps same_saved (store_staff G row)"
      unfolding store_staff_def Let_def wrap_io_def first_or_create_def
      by (auto simp del: run_try_bind split: sum.split intro!: saved_intros saved_stage_calls)
    from transaction_cases[OF t this] show ?thesis
      using keepsD[OF store_staff_adds[of row]] False by fastforce
  qed
qed

lemma insert_services_done:
  assumes "run_state (insert_services G) w = (Inr u, w')"
  shows "fst ` set seed_services \<subseteq> sv_name ` set (tb_services (cur (tabs w')))"
proof -
  let ?one = "\<lambda>(name, description). try_bind (wrap_io (''bootstrap: failed to insert service '' @ name @ '': '')
         (first_or_create (services G) (\<lambda>s. sv_name s = name)
            (zero_service\<lparr>sv_name := name, sv_description := description\<rparr>)))
         (\<lambda>_. ret (Inr ()))"
  have one: "fst s \<in> sv_name ` set (tb_services (cur (tabs w'))) \<and>
      sv_name ` set (tb_services (cur (tabs w))) \<subseteq> sv_name ` set (tb_services (cur (tabs w')))"
    if r: "run_state (?one s) w = (Inr v, w')" for s v w w'
  proof -
    let ?new = "zero_service\<lparr>sv_name := fst s, sv_description := snd s\<rparr>"
    obtain y where f: "run_state (first_or_create (services G) (\<lambda>x. sv_name x = fst s) ?new) w = (Inr y, w')"
      using r by (cases s) (auto simp: wrap_io_def split: prod.splits sum.splits)
    have "sv_name y = fst s" if "chosen y = chosen ?new"
      using arg_cong[OF that, of sv_name] by (simp add: chosen_def)
    then show ?thesis using sv.first_or_create_Ok[OF f] by (auto intro: rev_image_eqI)
  qed
  have all: "fst ` set ss \<union> sv_name ` set (tb_services (cur (tabs w))) \<subseteq> sv_name ` set (tb_services (cur (tabs w')))"
    if "run_state (for_each_try ss ?one) w = (Inr v, w')" for ss v w w'
    using that
  proof (induction ss arbitrary: w)
    case (Cons s ss)
    then obtain v1 w1 where "run_state (?one s) w = (Inr v1, w1)" "run_state (for_each_try ss ?one) w1 = (Inr v, w')"
      by (auto simp del: run_try_bind elim!: run_try_OkE)
    note o = one[OF this(1)] and i = Cons.IH[OF this(2)]
    show ?case using o i unfolding list.set image_insert by blast
  qed simp
  obtain w1 w2 v where b: "cur (tabs w1) = cur (tabs w)"
    "run_state (for_each_try seed_services ?one) w1 = (Inr v, w2)" "tabs w' = tabs w2"
    by (rule transaction_Ok[OF assms[unfolded insert_services_def]])
  show ?thesis using all[OF b(2)] b(3) by simp
qed

end

section \<open>The bootstrap\<close>

text \<open>The names rows are found by, each of one row.\<close>

definition names_unique :: "tables \<Rightarrow> bool" where
  "names_unique d \<longleftrightarrow> distinct (map sv_name (tb_services d)) \<and> distinct (map pr_name (tb_projects d)) \<and>
     distinct (map mt_email (tb_maintainers d)) \<and> distinct (map fo_name (tb_foundations d)) \<and>
     distinct (map sm_email (tb_staff d)) \<and> distinct (map st_service_team_id (tb_service_teams d))"

definition only_grown :: "tables \<Rightarrow> tables \<Rightarrow> bool" where
  "only_grown d d' \<longleftrightarrow>
     prefix (tb_services d) (tb_services d') \<and> prefix (tb_companies d) (tb_companies d') \<and>
     prefix (tb_projects d) (tb_projects d') \<and> prefix (tb_maintainers d) (tb_maintainers d') \<and>
     prefix (tb_foundations d) (tb_foundations d') \<and> prefix (map staff_core (tb_staff d)) (map staff_core (tb_staff d')) \<and>
     prefix (tb_service_users d) (tb_service_users d') \<and> prefix (tb_service_teams d) (tb_service_teams d') \<and>
     prefix (tb_collaborators d) (tb_collaborators d') \<and>
     prefix (map row_id (tb_service_user_teams d)) (map row_id (tb_service_user_teams d')) \<and>
     set (tb_maintainer_projects d) \<subseteq> set (tb_maintainer_projects d') \<and>
     tb_service_projects d' = tb_service_projects d \<and> tb_ref_caches d' = tb_ref_caches d \<and>
     tb_audit_logs d' = tb_audit_logs d"

definition bootstrap_stages :: "tables \<Rightarrow> tables \<Rightarrow> bool" where
  "bootstrap_stages d d' \<longleftrightarrow>
     (\<exists>d1 d2 d3. services_added d d1 \<and> seeded d1 d2 \<and> staff_added d2 d3 \<and> fossa_adds d3 d')"

lemma stages_refl [simp]: "bootstrap_stages d d"
  unfolding bootstrap_stages_def using seeded_refl services_added_refl staff_added_refl fossa_adds_refl by blast

lemma only_grown_trans: "only_grown a b \<Longrightarrow> only_grown b c \<Longrightarrow> only_grown a c"
  unfolding only_grown_def by (auto intro: prefix_order.trans)

lemma stage_grows:
  "services_added d d' \<Longrightarrow> only_grown d d'" "seeded d d' \<Longrightarrow> only_grown d d'"
  "staff_added d d' \<Longrightarrow> only_grown d d'" "fossa_adds d d' \<Longrightarrow> only_grown d d'"
  unfolding services_added_def seeded_def staff_added_def fossa_adds_def only_grown_def
  by auto

lemma stage_names:
  assumes "names_unique d"
  shows "services_added d d' \<Longrightarrow> names_unique d'" and "seeded d d' \<Longrightarrow> names_unique d'"
    and "staff_added d d' \<Longrightarrow> names_unique d'" and "fossa_adds d d' \<Longrightarrow> names_unique d'"
proof -
  have ap: "distinct (map f (xs @ ys))"
    if "distinct (map f xs)" "distinct (map f ys)" "list_all (\<lambda>y. f y \<notin> f ` set xs) ys" for f :: "'a \<Rightarrow> 'b" and xs ys
    using that by (auto simp: list_all_iff) (metis imageI)
  show "names_unique d'" if "services_added d d'"
    using assms that ap[of sv_name "tb_services d"] unfolding names_unique_def services_added_def
    by (auto simp: list_all_iff)
  show "names_unique d'" if "seeded d d'"
    using assms that ap[of pr_name "tb_projects d"] ap[of mt_email "tb_maintainers d"]
    unfolding names_unique_def seeded_def by (auto simp: list_all_iff)
  show "names_unique d'" if "staff_added d d'"
  proof -
    obtain fs ss new where d': "d' = d\<lparr>tb_foundations := tb_foundations d @ fs, tb_staff := ss\<rparr>"
      and f: "list_all (\<lambda>f. fo_name f \<notin> fo_name ` set (tb_foundations d)) fs" "distinct (map fo_name fs)"
      and s: "map staff_core ss = map staff_core (tb_staff d) @ new"
        "list_all (\<lambda>s. sm_email s \<noteq> [] \<and> sm_email s \<notin> sm_email ` set (tb_staff d)) new" "distinct (map sm_email new)"
      using \<open>staff_added d d'\<close> unfolding staff_added_def by blast
    have "map sm_email ss = map sm_email (map staff_core ss)" by simp
    also have "\<dots> = map sm_email (tb_staff d @ new)" by (simp add: s(1))
    finally have "distinct (map sm_email ss)"
      using ap[of sm_email "tb_staff d" new] s(2,3) assms by (simp add: names_unique_def list_all_iff)
    moreover have "distinct (map fo_name (tb_foundations d @ fs))"
      using ap[of fo_name "tb_foundations d" fs] f assms by (simp add: names_unique_def)
    ultimately show ?thesis using assms by (simp add: d' names_unique_def)
  qed
  show "names_unique d'" if "fossa_adds d d'"
    using assms that ap[of st_service_team_id "tb_service_teams d"]
    unfolding names_unique_def fossa_adds_def by (auto simp: list_all_iff)
qed

lemma stages_grow: "bootstrap_stages d d' \<Longrightarrow> only_grown d d' \<and> (names_unique d \<longrightarrow> names_unique d')"
  unfolding bootstrap_stages_def using only_grown_trans stage_grows stage_names by metis

text \<open>New projects have a maturity, and new maintainers are active.\<close>

definition new_rows_valid :: "tables \<Rightarrow> tables \<Rightarrow> bool" where
  "new_rows_valid d d' \<longleftrightarrow>
     list_all (\<lambda>p. maturity_is_valid (pr_maturity p)) (drop (length (tb_projects d)) (tb_projects d')) \<and>
     list_all (\<lambda>m. mt_status m = ActiveMaintainer) (drop (length (tb_maintainers d)) (tb_maintainers d'))"

lemma stages_valid:
  assumes "bootstrap_stages d d'"
  shows "new_rows_valid d d'"
proof -
  obtain d1 d2 d3 where s: "services_added d d1" "seeded d1 d2" "staff_added d2 d3" "fossa_adds d3 d'"
    using assms unfolding bootstrap_stages_def by blast
  have "tb_projects d1 = tb_projects d" "tb_maintainers d1 = tb_maintainers d"
    "tb_projects d' = tb_projects d2" "tb_maintainers d' = tb_maintainers d2"
    using s(1,3,4) unfolding services_added_def staff_added_def fossa_adds_def by auto
  then show ?thesis using s(2) unfolding new_rows_valid_def seeded_def by (auto simp: list_all_iff)
qed

text \<open>The handles the drivers give out keep the contract; creating tables changes no row.\<close>

locale bootstrap_site =
  fixes D :: "'w gorm drivers" and auto_migrate :: "'w gorm \<Rightarrow> ('w, unit result) io"
    and S :: "'w sheets" and H :: "'w http" and tabs :: "'w \<Rightarrow> db"
  assumes handles: "open_gorm D driver dsn = Inr G \<Longrightarrow> gorm_db G tabs"
    and migrate_rows: "open_gorm D driver dsn = Inr G \<Longrightarrow> run_state (auto_migrate G) w = (m, w') \<Longrightarrow>
      cur (tabs w') = cur (tabs w)"
    and sheets_rows: "run_state (sh_new_service S cr) w = (y, w') \<Longrightarrow> tabs w' = tabs w"
      "run_state (sh_get_values S i r) w = (z, w') \<Longrightarrow> tabs w' = tabs w"
    and fossa_rows: "run_state (do_request H rq) w = (a, w') \<Longrightarrow> tabs w' = tabs w"
begin

lemma sites:
  assumes "open_gorm D driver dsn = Inr G"
  shows "seed_site G tabs S" and "fossa_feed G tabs H"
proof -
  show "seed_site G tabs S"
    by (intro seed_site.intro seed_site_axioms.intro handles[OF assms]) (fact sheets_rows)+
  show "fossa_feed G tabs H"
    by (intro fossa_feed.intro fossa_feed_axioms.intro handles[OF assms]) (fact fossa_rows)
qed

lemma load_staff_adds:
  assumes "open_gorm D driver dsn = Inr G"
  shows "keeps (gorm_db.adds_staff tabs) (load_staff G S i cr)"
proof -
  note g = handles[OF assms] and s = sites(1)[OF assms]
  note rel = gorm_db.rel_stages(4,3)[OF g]
  have "keeps (gorm_db.adds_staff tabs) (sh_new_service S cr)"
    "keeps (gorm_db.adds_staff tabs) (read_sheet_rows (sh_get_values S) i r hs)" for r hs
    by (auto intro!: keepsI dest: sheets_rows seed_site.read_sheet_tabs[OF s])
  moreover have "keeps (gorm_db.adds_staff tabs) (for_each_try sheet (\<lambda>row. do { _ \<leftarrow> load_staff_row G row; ret (Inr ()) }))"
    for sheet
    by (induction sheet)
      (auto intro!: keeps_try[OF rel] keeps_bind[OF rel(1)] keeps_ret[OF rel(2)] gorm_db.load_staff_row_adds[OF g]
        simp del: run_try_bind)
  ultimately show ?thesis
    unfolding load_staff_def by (auto intro!: keeps_bind[OF rel(1)] keeps_ret[OF rel(2)] split: sum.split)
qed

text \<open>The loaders one after another; the first that fails ends the run.\<close>

lemma seed_sheets_stages:
  assumes g: "open_gorm D driver dsn = Inr G" and run: "run_state (seed_sheets G S i cr) w = (x, w')"
  shows "\<exists>d1 d2. services_added (cur (tabs w)) d1 \<and> seeded d1 d2 \<and> staff_added d2 (cur (tabs w')) \<and>
    (x = Inr u \<longrightarrow> fst ` set seed_services \<subseteq> sv_name ` set (tb_services d1))"
proof -
  note db = handles[OF g]
  obtain y1 w1 where 1: "run_state (insert_services G) w = (y1, w1)" by fastforce
  obtain y2 w2 where 2: "run_state (load_maintainers_and_projects G S i cr) w1 = (y2, w2)" by fastforce
  obtain y3 w3 where 3: "run_state (load_staff G S i cr) w2 = (y3, w3)" by fastforce
  have a: "services_added (cur (tabs w)) (cur (tabs w1))" "seeded (cur (tabs w1)) (cur (tabs w2))"
      "staff_added (cur (tabs w2)) (cur (tabs w3))"
    using keepsD[OF gorm_db.insert_services_adds[OF db] 1] keepsD[OF seed_site.seeds_load[OF sites(1)[OF g]] 2]
      keepsD[OF load_staff_adds[OF g] 3] .
  have s: "fst ` set seed_services \<subseteq> sv_name ` set (tb_services (cur (tabs w1)))" if "y1 = Inr v" for v
    using gorm_db.insert_services_done[OF db 1[unfolded that]] .
  show ?thesis
  proof (cases y1)
    case (Inl e)
    then have "w' = w1 \<and> x \<noteq> Inr u" using run 1 by (auto simp: seed_sheets_def)
    then show ?thesis using a(1) seeded_refl staff_added_refl by blast
  next
    case (Inr v)
    note s1 = s[OF Inr]
    show ?thesis
    proof (cases y2)
      case (Inl e)
      then have "w' = w2" using run 1 2 \<open>y1 = Inr v\<close> by (auto simp: seed_sheets_def wrap_io_def)
      then show ?thesis using a(1,2) s1 staff_added_refl by blast
    next
      case (Inr v2)
      then have "w' = w3"
        using run 1 2 3 \<open>y1 = Inr v\<close> by (auto simp: seed_sheets_def wrap_io_def)
      then show ?thesis using a s1 by blast
    qed
  qed
qed

lemma bootstrap_runs_stages:
  assumes run: "run_state (bootstrap_db fuel D auto_migrate S H C driver dsn sheet cr token seed) w = (x, w')"
  shows "bootstrap_stages (cur (tabs w)) (cur (tabs w')) \<and> (\<not> seed \<longrightarrow> cur (tabs w') = cur (tabs w)) \<and>
    (seed \<and> x = Some (Finished (Inr G')) \<longrightarrow> fst ` set seed_services \<subseteq> sv_name ` set (tb_services (cur (tabs w'))))"
proof (cases "open_gorm D driver dsn")
  case (Inl e)
  then show ?thesis using run by (auto simp: bootstrap_db_def)
next
  case (Inr G)
  obtain mg w0 where m: "run_state (auto_migrate G) w = (mg, w0)" by fastforce
  have t0: "cur (tabs w0) = cur (tabs w)" by (rule migrate_rows[OF Inr m])
  show ?thesis
  proof (cases "seed \<and> (\<exists>u. mg = Inr u)")
    case False
    then have "cur (tabs w') = cur (tabs w) \<and> (seed \<longrightarrow> x \<noteq> Some (Finished (Inr G')))"
      using run m t0 Inr by (auto simp: bootstrap_db_def wrap_io_def split: sum.splits prod.splits)
    then show ?thesis by auto
  next
    case True
    obtain s w1 where s: "run_state (seed_sheets G S sheet cr) w0 = (s, w1)" by fastforce
    obtain d1 d2 where d: "services_added (cur (tabs w)) d1" "seeded d1 d2" "staff_added d2 (cur (tabs w1))"
        "s = Inr () \<longrightarrow> fst ` set seed_services \<subseteq> sv_name ` set (tb_services d1)"
      using seed_sheets_stages[OF Inr s] t0 by metis
    have r: "run_state (case s of Inl e \<Rightarrow> ret (Some (Finished (Inl e))) | Inr _ \<Rightarrow> seed_fossa fuel G H C token) w1 = (x, w')"
      using run m Inr True s by (auto simp: bootstrap_db_def wrap_io_def)
    have f: "fossa_adds (cur (tabs w1)) (cur (tabs w'))"
    proof (cases s)
      case (Inl e)
      then show ?thesis using r by simp
    next
      case (Inr v)
      then obtain y where "run_state (load_fossa fuel G H C (new_client token)) w1 = (y, w')"
        using r by (auto simp: seed_fossa_def split: prod.splits)
      then show ?thesis using keepsD[OF fossa_feed.loads_fossa[OF sites(2)[OF \<open>open_gorm D driver dsn = Inr G\<close>]]] by blast
    qed
    have "fst ` set seed_services \<subseteq> sv_name ` set (tb_services (cur (tabs w')))" if "x = Some (Finished (Inr G'))"
    proof -
      have "s = Inr ()" using r that by (cases s) auto
      then have "fst ` set seed_services \<subseteq> sv_name ` set (tb_services d1)" using d(4) by blast
      moreover have "set (tb_services d1) \<subseteq> set (tb_services (cur (tabs w')))"
        using stage_grows(2)[OF d(2)] stage_grows(3)[OF d(3)] stage_grows(4)[OF f]
        unfolding only_grown_def by (meson set_mono_prefix order_trans)
      ultimately show ?thesis by blast
    qed
    then show ?thesis using d(1-3) f True unfolding bootstrap_stages_def by blast
  qed
qed

end

section \<open>Properties\<close>


text \<open>A database with one staff member, whose entry the sheet brings up to date, and a second in the sheet.\<close>

definition boot_drivers :: "mem_world gorm drivers" where
  "boot_drivers = \<lparr>dr_sqlite = (\<lambda>_. Inr mem_gorm), dr_postgres = (\<lambda>_. Inl (Msg ''no server''))\<rparr>"

definition boot_sheets :: "mem_world sheets" where
  "boot_sheets =
     \<lparr>sh_new_service = (\<lambda>_. ret (Inr ())),
      sh_get_values = (\<lambda>_ r. ret (Inr
        (if r = ''Staff!A:F''
         then [[FoundationHdr, StaffMemberNameHdr, EmailHdr, GitHubHdr],
               [''CNCF'', ''Samuel'', ''sam@cncf.io'', ''SamStaff''], [''CNCF'', ''Una'', ''una@cncf.io'', ''una'']]
         else [[ProjectHdr, StatusHdr], [''gamma'', ''Sandbox'']])))\<rparr>"

interpretation demo_bootstrap: bootstrap_site boot_drivers "\<lambda>_. ret (Inr ())" boot_sheets feed_http mw_db
proof (rule bootstrap_site.intro)
  fix driver dsn G assume "open_gorm boot_drivers driver dsn = Inr G"
  then have "G = mem_gorm" by (auto simp: open_gorm_def boot_drivers_def split: if_splits)
  then show "gorm_db G mw_db" using mem.gorm_db_axioms by simp
qed (auto simp: boot_sheets_def feed_http_def)

definition demo_bootstrapped where
  "demo_bootstrapped = run_state (bootstrap_db 1 boot_drivers (\<lambda>_. ret (Inr ())) boot_sheets feed_http
     (demo_codec\<lparr>un_users := (\<lambda>_. Inr [])\<rparr>) ''sqlite'' ''md.db'' ''s'' ''c'' ''k'' True) demo_world"


end
