(* ===== verification/Backfill.thy ===== *)
theory Backfill
  imports Bff_Companies Onboarding_Tasks
begin

text \<open>
  \<^verbatim>\<open>cmd/onboarding-backfill/main.go\<close>: projects without an onboarding issue get the one issue of
  the GitHub search that names them.  \<^verbatim>\<open>log.Fatal\<close> is an error result.
\<close>

section \<open>Settings\<close>

record backfill_settings =
  bs_driver :: string
  bs_dsn :: string
  bs_token :: string

text \<open>Unlike the web server, the values are trimmed.\<close>

definition trimmed_env_or :: "(string \<Rightarrow> string) \<Rightarrow> string \<Rightarrow> string \<Rightarrow> string" where
  "trimmed_env_or getenv key fallback = (let v = trim_space (getenv key) in if v \<noteq> [] then v else fallback)"

definition backfill_settings_of :: "(string \<Rightarrow> string) \<Rightarrow> backfill_settings result" where
  "backfill_settings_of getenv =
     (let dbDriver = trimmed_env_or getenv ''MD_DB_DRIVER'' ''sqlite''; dbDSN = trimmed_env_or getenv ''MD_DB_DSN'' [];
          dbPath = trimmed_env_or getenv ''MD_DB_PATH'' ''/data/maintainers.db'' in
      if dbDriver = ''postgres'' \<and> dbDSN = []
      then Inl (Msg ''MD_DB_DSN is required when MD_DB_DRIVER=postgres'')
      else let token = trim_space (getenv ''GITHUB_API_TOKEN'') in
        if token = [] then Inl (Msg ''GITHUB_API_TOKEN is required'')
        else Inr \<lparr>bs_driver = dbDriver, bs_dsn = (if dbDriver = ''postgres'' then dbDSN else dbPath), bs_token = token\<rparr>)"

section \<open>The issues\<close>

record issue_match =
  im_project :: string
  im_url :: string
  im_number :: int
  im_title :: string

text \<open>An issue whose title names no project is skipped.\<close>

definition match_of :: "gh_issue \<Rightarrow> issue_match option" where
  "match_of i =
     (case get_project_name_from_project_title (gi_title i) of
        Inl _ \<Rightarrow> None
      | Inr n \<Rightarrow> Some \<lparr>im_project = n, im_url = gi_url i, im_number = gi_number i, im_title = gi_title i\<rparr>)"

text \<open>The paging loop; page 0 is the first, and a next page of 0 ends it.\<close>

fun fetch_matches_from ::
  "(int \<Rightarrow> ('w, (gh_issue list \<times> int) result) io) \<Rightarrow> nat \<Rightarrow> int \<Rightarrow> issue_match list
     \<Rightarrow> ('w, issue_match list result option) io" where
  "fetch_matches_from search 0 page issues = ret None"
| "fetch_matches_from search (Suc fuel) page issues =
     do { r \<leftarrow> search page;
          case r of
            Inl e \<Rightarrow> ret (Some (Inl e))
          | Inr (result, next_page) \<Rightarrow>
              let issues' = issues @ List.map_filter match_of result in
              if next_page = 0 then ret (Some (Inr issues')) else fetch_matches_from search fuel next_page issues' }"

definition fetch_onboarding_issues where
  "fetch_onboarding_issues search fuel = fetch_matches_from search fuel 0 []"

section \<open>The projects\<close>

definition match_key :: "string \<Rightarrow> string" where "match_key s = to_lower (trim_space s)"

definition issue_map :: "issue_match list \<Rightarrow> (string, issue_match list) gomap" where
  "issue_map issues =
     foldl (\<lambda>m i. let key = match_key (im_project i) in if key = [] then m else map_append key i m) [] issues"

definition lacks_issue :: "project \<Rightarrow> bool" where
  "lacks_issue p \<longleftrightarrow> pr_onboarding_issue p = None \<or> pr_onboarding_issue p = Some []"

text \<open>The counts of updated and skipped projects.\<close>

fun backfill_loop ::
  "'w gorm \<Rightarrow> (string, issue_match list) gomap \<Rightarrow> project list \<Rightarrow> nat \<Rightarrow> nat \<Rightarrow> ('w, nat \<times> nat) io" where
  "backfill_loop G m [] updated skipped = ret (updated, skipped)"
| "backfill_loop G m (p # ps) updated skipped =
     (case map_of m (match_key (pr_name p)) of
        Some [issue] \<Rightarrow>
          do { r \<leftarrow> t_update (projects G) (\<lambda>x. row_id x = row_id p \<and> lacks_issue x)
                      (\<lambda>x. x\<lparr>pr_onboarding_issue := Some (im_url issue)\<rparr>);
               case r of
                 Inl _ \<Rightarrow> backfill_loop G m ps updated skipped
               | Inr _ \<Rightarrow> backfill_loop G m ps (updated + 1) skipped }
      | _ \<Rightarrow> backfill_loop G m ps updated (skipped + 1))"

definition backfill_projects :: "'w gorm \<Rightarrow> issue_match list \<Rightarrow> ('w, (nat \<times> nat \<times> nat) result) io" where
  "backfill_projects G issues =
     do { ps \<leftarrow> t_find (projects G) lacks_issue;
          case ps of
            Inl e \<Rightarrow> ret (Inl (Wrap ''failed to load projects: '' e []))
          | Inr found \<Rightarrow> do { (u, s) \<leftarrow> backfill_loop G (issue_map issues) found 0 0;
                            ret (Inr (u, s, length found)) } }"

text \<open>
  \<open>open_db\<close> is the driver, \<open>search\<close> the GitHub client made from the token.
\<close>

definition backfill ::
  "(string \<Rightarrow> string) \<Rightarrow> (string \<Rightarrow> string \<Rightarrow> 'w gorm result) \<Rightarrow>
   (string \<Rightarrow> int \<Rightarrow> ('w, (gh_issue list \<times> int) result) io) \<Rightarrow> nat \<Rightarrow> ('w, (nat \<times> nat \<times> nat) result option) io" where
  "backfill getenv open_db search fuel =
     (case backfill_settings_of getenv of
        Inl e \<Rightarrow> ret (Some (Inl e))
      | Inr cfg \<Rightarrow>
          (case open_db (bs_driver cfg) (bs_dsn cfg) of
             Inl e \<Rightarrow> ret (Some (Inl (Wrap ''failed to open DB: '' e [])))
           | Inr G \<Rightarrow>
               do { is \<leftarrow> fetch_onboarding_issues (search (bs_token cfg)) fuel;
                    case is of
                      None \<Rightarrow> ret None
                    | Some (Inl e) \<Rightarrow> ret (Some (Inl (Wrap ''failed to fetch onboarding issues: '' e [])))
                    | Some (Inr issues) \<Rightarrow> do { r \<leftarrow> backfill_projects G issues; ret (Some r) } }))"

section \<open>What the backfill does\<close>

lemma issue_map_lookup:
  "map_of (issue_map issues) k =
     (let is = filter (\<lambda>i. match_key (im_project i) = k) issues in if k = [] \<or> is = [] then None else Some is)"
  unfolding issue_map_def
proof (induction issues rule: rev_induct)
  case (snoc x xs)
  then show ?case by (auto simp: Let_def map_append_get split: if_splits)
qed simp

text \<open>
  A project that was filled in: it had no issue, exactly one issue names it, and it has the url of
  that issue; nothing but the time of the update is new besides.
\<close>

definition filled :: "issue_match list \<Rightarrow> project \<Rightarrow> project \<Rightarrow> bool" where
  "filled issues p q \<longleftrightarrow>
     lacks_issue p \<and>
     (\<exists>i t. filter (\<lambda>i. match_key (im_project i) = match_key (pr_name p)) issues = [i] \<and>
        q = stamp t (p\<lparr>pr_onboarding_issue := Some (im_url i)\<rparr>))"

context gorm_db
begin

lemma backfill_loop_rows:
  assumes "run_state (backfill_loop G (issue_map issues) ps u s) w = (x, w')"
    and "distinct (map row_id ps)"
    and "\<forall>p \<in> set ps. \<forall>r \<in> set (tb_projects (cur (tabs w))). row_id r = row_id p \<longrightarrow> r = p"
  shows "\<exists>rs. tabs w' = put_projects rs (tabs w) \<and>
    list_all2 (\<lambda>p q. q = p \<or> row_id p \<in> row_id ` set ps \<and> filled issues p q) (tb_projects (cur (tabs w))) rs"
  using assms
proof (induction ps arbitrary: u s w)
  case Nil
  then show ?case by (intro exI[of _ "tb_projects (cur (tabs w))"]) (simp add: list_all2_refl)
next
  case (Cons p ps)
  have skip: ?case if "run_state (backfill_loop G (issue_map issues) ps u1 s1) w1 = (x, w')" "tabs w1 = tabs w" for u1 s1 w1
    using Cons.IH[OF that(1)] Cons.prems(2,3) that(2)
    by (auto intro: list_all2_mono)
  let ?m = "map_of (issue_map issues) (match_key (pr_name p))"
  show ?case
  proof (cases "\<exists>i. ?m = Some [i]")
    case False
    then have "run_state (backfill_loop G (issue_map issues) ps u (s + 1)) w = (x, w')"
      using Cons.prems(1) by (auto split: option.splits list.splits)
    then show ?thesis by (rule skip) simp
  next
    case True
    then obtain i where i: "?m = Some [i]" by blast
    let ?pred = "\<lambda>r. row_id r = row_id p \<and> lacks_issue r"
    let ?f = "\<lambda>r. r\<lparr>pr_onboarding_issue := Some (im_url i)\<rparr>"
    obtain y w1 where t: "run_state (t_update (projects G) ?pred ?f) w = (y, w1)" by fastforce
    show ?thesis
    proof (cases y)
      case (Inl e)
      then have "run_state (backfill_loop G (issue_map issues) ps u s) w1 = (x, w')"
        using Cons.prems(1) i t by simp
      then show ?thesis by (rule skip) (use pr.update_Err[OF t[unfolded Inl]] in simp)
    next
      case (Inr n)
      obtain tm where tm: "tabs w1 = put_projects
          (map (\<lambda>r. if ?pred r then stamp tm (?f r) else r) (tb_projects (cur (tabs w)))) (tabs w)"
        using pr.update_Ok[OF t[unfolded Inr]] by blast
      have loop: "run_state (backfill_loop G (issue_map issues) ps (u + 1) s) w1 = (x, w')"
        using Cons.prems(1) i t Inr by simp
      have keep: "row_id (if ?pred r then stamp tm (?f r) else r) = row_id r" for r by (simp add: stamp_def)
      have "\<forall>p' \<in> set ps. \<forall>r \<in> set (tb_projects (cur (tabs w1))). row_id r = row_id p' \<longrightarrow> r = p'"
        using Cons.prems(2,3) keep by (auto simp: tm stamp_def split: if_splits)
      from Cons.IH[OF loop _ this] Cons.prems(2) obtain rs where rs: "tabs w' = put_projects rs (tabs w1)"
        "list_all2 (\<lambda>p q. q = p \<or> row_id p \<in> row_id ` set ps \<and> filled issues p q) (tb_projects (cur (tabs w1))) rs"
        by auto
      have one: "filter (\<lambda>k. match_key (im_project k) = match_key (pr_name p)) issues = [i]"
        using i by (simp add: issue_map_lookup Let_def split: if_splits)
      have "list_all2 (\<lambda>r q. q = r \<or> row_id r \<in> row_id ` set (p # ps) \<and> filled issues r q)
          (tb_projects (cur (tabs w))) rs"
        unfolding list_all2_conv_all_nth
      proof (intro conjI allI impI)
        show "length (tb_projects (cur (tabs w))) = length rs" using rs(2) by (simp add: tm list_all2_lengthD[symmetric])
        fix k
        assume k: "k < length (tb_projects (cur (tabs w)))"
        let ?r = "tb_projects (cur (tabs w)) ! k"
        have q: "rs ! k = (if ?pred ?r then stamp tm (?f ?r) else ?r) \<or>
            row_id ?r \<in> row_id ` set ps \<and> filled issues (if ?pred ?r then stamp tm (?f ?r) else ?r) (rs ! k)"
          using list_all2_nthD[OF rs(2), of k] k keep[of ?r] by (simp add: tm)
        show "rs ! k = ?r \<or> row_id ?r \<in> row_id ` set (p # ps) \<and> filled issues ?r (rs ! k)"
        proof (cases "?pred ?r")
          case False
          then have "rs ! k = ?r \<or> row_id ?r \<in> row_id ` set ps \<and> filled issues ?r (rs ! k)"
            using q by (simp only: if_False)
          then show ?thesis by auto
        next
          case True
          then have "?r = p" using Cons.prems(3) k by simp
          then have "rs ! k = stamp tm (?f p)" "lacks_issue p" using q True Cons.prems(2) by auto
          then show ?thesis using one \<open>?r = p\<close> by (auto simp: filled_def)
        qed
      qed
      then show ?thesis using rs(1) tm by auto
    qed
  qed
qed

lemma backfill_projects_rows:
  assumes "distinct (map row_id (tb_projects (cur (tabs w))))"
    and "run_state (backfill_projects G issues) w = (x, w')"
  shows "\<exists>rs. tabs w' = put_projects rs (tabs w) \<and>
    list_all2 (\<lambda>p q. q = p \<or> filled issues p q) (tb_projects (cur (tabs w))) rs"
proof -
  obtain y w1 where f: "run_state (t_find (projects G) lacks_issue) w = (y, w1)" by fastforce
  have t: "tabs w1 = tabs w" by (rule pr.find_tabs[OF f])
  show ?thesis
  proof (cases y)
    case (Inl e)
    then have "tabs w' = tabs w" using assms(2) f t by (simp add: backfill_projects_def)
    then show ?thesis by (intro exI[of _ "tb_projects (cur (tabs w))"]) (simp add: list_all2_refl)
  next
    case (Inr found)
    then obtain u where l: "run_state (backfill_loop G (issue_map issues) found 0 0) w1 = (u, w')"
      using assms(2) f by (auto simp: backfill_projects_def split: prod.splits)
    have m: "mset found = mset (filter lacks_issue (tb_projects (cur (tabs w))))"
      using pr.find_Ok[OF f[unfolded Inr]] by simp
    have "distinct (map row_id (filter lacks_issue (tb_projects (cur (tabs w)))))"
      using assms(1) by (rule distinct_map_filter)
    then have d: "distinct (map row_id found)" using m by (metis mset_map mset_eq_imp_distinct_iff)
    have "set found \<subseteq> set (tb_projects (cur (tabs w)))" using mset_eq_setD[OF m] by auto
    then have "\<forall>p \<in> set found. \<forall>r \<in> set (tb_projects (cur (tabs w1))). row_id r = row_id p \<longrightarrow> r = p"
      using assms(1) t by (auto simp: distinct_map inj_on_def)
    from backfill_loop_rows[OF l d this] show ?thesis unfolding t by (auto intro: list_all2_mono)
  qed
qed

end

text \<open>
  C18: the backfill never overwrites an issue: on a table with distinct ids, every row is afterwards
  as it was, or it lacked an issue, exactly one of the fetched issues names it, and it has the url
  of that issue; nothing else in the database changes.
\<close>

theorem backfill_fills_only_gaps:
  assumes "gorm_db G tabs" and "distinct (map row_id (tb_projects (cur (tabs w))))"
    and "run_state (backfill_projects G issues) w = (x, w')"
  shows "\<exists>rs. tabs w' = put_projects rs (tabs w) \<and>
    list_all2 (\<lambda>p q. q = p \<or> filled issues p q) (tb_projects (cur (tabs w))) rs"
  by (rule gorm_db.backfill_projects_rows[OF assms])

definition demo_issues :: "issue_match list" where
  "demo_issues =
     [\<lparr>im_project = '' Alpha'', im_url = ''u1'', im_number = 1, im_title = ''t''\<rparr>,
      \<lparr>im_project = ''beta'', im_url = ''u2'', im_number = 2, im_title = ''t''\<rparr>,
      \<lparr>im_project = ''beta'', im_url = ''u3'', im_number = 3, im_title = ''t''\<rparr>]"

definition demo_backfilled :: "(nat \<times> nat \<times> nat) result \<times> mem_world" where
  "demo_backfilled = run_state (backfill_projects mem_gorm demo_issues) demo_world"

text \<open>One issue names the first project, two name the second.\<close>

theorem backfill_fills_only_gaps_witness:
  "map pr_onboarding_issue (tb_projects (cur (mw_db (snd demo_backfilled)))) = [Some ''u1'', None] \<and>
   (\<exists>rs. mw_db (snd demo_backfilled) = put_projects rs (mw_db demo_world) \<and>
      list_all2 (\<lambda>p q. q = p \<or> filled demo_issues p q) (tb_projects (cur (mw_db demo_world))) rs)"
proof -
  have d: "distinct (map row_id (tb_projects (cur (mw_db demo_world))))" by code_simp
  have r: "run_state (backfill_projects mem_gorm demo_issues) demo_world = (fst demo_backfilled, snd demo_backfilled)"
    by (simp add: demo_backfilled_def)
  have m: "map pr_onboarding_issue (tb_projects (cur (mw_db (snd demo_backfilled)))) = [Some ''u1'', None]"
    by code_simp
  from backfill_fills_only_gaps[OF mem.gorm_db_axioms d r] m show ?thesis by blast
qed

section \<open>The search ends\<close>

text \<open>A search of \<open>n\<close> pages: GitHub counts them from one, and page 0 stands for the first.\<close>

definition search_page :: "nat \<Rightarrow> int" where "search_page k = (if k = 0 then 0 else int k + 1)"

definition search_serves ::
  "(int \<Rightarrow> ('w, (gh_issue list \<times> int) result) io) \<Rightarrow> (nat \<Rightarrow> gh_issue list) \<Rightarrow> nat \<Rightarrow> bool" where
  "search_serves search page n \<longleftrightarrow>
     (\<forall>k < n. \<forall>w. \<exists>w'. run_state (search (search_page k)) w =
        (Inr (page k, if Suc k = n then 0 else search_page (Suc k)), w'))"

lemma map_filter_append: "List.map_filter f (xs @ ys) = List.map_filter f xs @ List.map_filter f ys"
  by (induction xs) (auto split: option.split)

lemma fetch_matches_from_pages:
  assumes "search_serves search page n"
  shows "k < n \<Longrightarrow> n - k \<le> fuel \<Longrightarrow>
    fst (run_state (fetch_matches_from search fuel (search_page k) acc) w) =
      Some (Inr (acc @ List.map_filter match_of (concat (map page [k..<n]))))"
proof (induction fuel arbitrary: k acc w)
  case (Suc fuel)
  obtain w1 where r: "run_state (search (search_page k)) w =
      (Inr (page k, if Suc k = n then 0 else search_page (Suc k)), w1)"
    using assms Suc.prems(1) unfolding search_serves_def by blast
  have up: "[k..<n] = k # [Suc k..<n]" using Suc.prems(1) by (rule upt_conv_Cons)
  show ?case
  proof (cases "Suc k = n")
    case True
    then show ?thesis using r by (simp add: up map_filter_append Let_def)
  next
    case False
    then have "search_page (Suc k) \<noteq> 0" "Suc k < n" "n - Suc k \<le> fuel"
      using Suc.prems by (auto simp: search_page_def)
    then show ?thesis using r Suc.IH[of "Suc k"] False by (simp add: up map_filter_append Let_def)
  qed
qed simp

text \<open>As many rounds as there are pages are enough, and every match of every page is found, in order.\<close>

lemma fetch_onboarding_issues_ends:
  assumes "search_serves search page n" and "0 < n" and "n \<le> fuel"
  shows "fst (run_state (fetch_onboarding_issues search fuel) w) =
    Some (Inr (List.map_filter match_of (concat (map page [0..<n]))))"
  using fetch_matches_from_pages[OF assms(1,2), of fuel "[]" w] assms(3)
  by (simp add: fetch_onboarding_issues_def search_page_def)

end
