(* ===== verification/Go_Flags.thy ===== *)
theory Go_Flags
  imports Go_Base
begin

text \<open>
  Command lines as package \<^verbatim>\<open>flag\<close> of Go reads them.  A set of flags says of each name what kind it
  is; reading gives the assignments in their order and the rest of the line, or the exit code of
  \<^verbatim>\<open>flag.ExitOnError\<close>: 0 after a request for help, 2 after an error.
\<close>

section \<open>Reading a command line\<close>

text \<open>\<open>Other b ok\<close> is a flag defined by a library: is it boolean, and which values does it take.\<close>

datatype flag_kind = Switch | Text | Other bool "string \<Rightarrow> bool"

definition parse_bool :: "string \<Rightarrow> bool option" where
  "parse_bool s =
     (if s \<in> {''1'', ''t'', ''T'', ''true'', ''TRUE'', ''True''} then Some True
      else if s \<in> {''0'', ''f'', ''F'', ''false'', ''FALSE'', ''False''} then Some False
      else None)"

fun is_switch :: "flag_kind \<Rightarrow> bool" where
  "is_switch Switch = True"
| "is_switch Text = False"
| "is_switch (Other b ok) = b"

fun accepts :: "flag_kind \<Rightarrow> string \<Rightarrow> bool" where
  "accepts Switch v = (parse_bool v \<noteq> None)"
| "accepts Text v = True"
| "accepts (Other b ok) v = ok v"

text \<open>The name of a flag and, after the first \<^verbatim>\<open>=\<close> behind its first byte, its value.\<close>

definition cut_value :: "string \<Rightarrow> string \<times> string option" where
  "cut_value s =
     (let name = takeWhile (\<lambda>c. c \<noteq> CHR ''='') s in
      (name, if name = s then None else Some (drop (Suc (length name)) s)))"

type_synonym assignments = "(string \<times> string) list"

text \<open>\<^verbatim>\<open>parseOne\<close> of the package: no more flags, an exit, or one flag with its value and what follows.\<close>

datatype parse_step = Done "string list" | Exit nat | Seen string string "string list"

definition parse_value :: "flag_kind \<Rightarrow> string \<Rightarrow> string option \<Rightarrow> string list \<Rightarrow> parse_step" where
  "parse_value k name given rest =
     (case (if is_switch k \<and> given = None then Some ''true'' else given) of
        Some v \<Rightarrow> if accepts k v then Seen name v rest else Exit 2
      | None \<Rightarrow> (case rest of [] \<Rightarrow> Exit 2 | v # rest' \<Rightarrow> if accepts k v then Seen name v rest' else Exit 2))"

definition parse_named :: "(string \<times> flag_kind) list \<Rightarrow> string \<Rightarrow> string list \<Rightarrow> parse_step" where
  "parse_named F name0 rest =
     (if name0 = [] \<or> hd name0 = CHR ''-'' \<or> hd name0 = CHR ''='' then Exit 2
      else case map_of F (fst (cut_value name0)) of
             None \<Rightarrow> Exit (if fst (cut_value name0) = ''help'' \<or> fst (cut_value name0) = ''h'' then 0 else 2)
           | Some k \<Rightarrow> parse_value k (fst (cut_value name0)) (snd (cut_value name0)) rest)"

definition parse_one :: "(string \<times> flag_kind) list \<Rightarrow> string list \<Rightarrow> parse_step" where
  "parse_one F line =
     (case line of
        [] \<Rightarrow> Done []
      | s # rest \<Rightarrow>
          if length s < 2 \<or> hd s \<noteq> CHR ''-'' then Done line
          else if s = ''--'' then Done rest
          else parse_named F (if s ! 1 = CHR ''-'' then drop 2 s else drop 1 s) rest)"

lemma parse_one_Seen:
  assumes "parse_one F line = Seen n v rest"
  shows "length rest < length line \<and> (\<exists>k. map_of F n = Some k \<and> accepts k v)"
  using assms
  by (auto simp: parse_one_def parse_named_def parse_value_def split: list.splits if_splits option.splits)

function parse_flags :: "(string \<times> flag_kind) list \<Rightarrow> string list \<Rightarrow> nat + (assignments \<times> string list)" where
  "parse_flags F line =
     (case parse_one F line of
        Done pos \<Rightarrow> Inr ([], pos)
      | Exit c \<Rightarrow> Inl c
      | Seen n v rest \<Rightarrow>
          (case parse_flags F rest of
             Inl c \<Rightarrow> Inl c
           | Inr (asg, pos) \<Rightarrow> Inr ((n, v) # asg, pos)))"
  by pat_completeness auto
termination
  by (relation "measure (\<lambda>(F, line). length line)") (auto dest: parse_one_Seen)

declare parse_flags.simps [simp del]

text \<open>The value of a flag after reading: the last one assigned, or the default.\<close>

definition text_value :: "assignments \<Rightarrow> string \<Rightarrow> string \<Rightarrow> string" where
  "text_value asg name dflt = (case map_of (rev asg) name of None \<Rightarrow> dflt | Some v \<Rightarrow> v)"

definition switch_value :: "assignments \<Rightarrow> string \<Rightarrow> bool \<Rightarrow> bool" where
  "switch_value asg name dflt =
     (case map_of (rev asg) name of None \<Rightarrow> dflt | Some v \<Rightarrow> parse_bool v = Some True)"

section \<open>Laws\<close>

text \<open>A flag written as \<^verbatim>\<open>--name=value\<close>.\<close>

definition flag_name :: "string \<Rightarrow> bool" where
  "flag_name n \<longleftrightarrow> n \<noteq> [] \<and> hd n \<noteq> CHR ''-'' \<and> CHR ''='' \<notin> set n"

definition show_flag :: "string \<times> string \<Rightarrow> string" where
  "show_flag a = ''--'' @ fst a @ ''='' @ snd a"

lemma takeWhile_no: "d \<notin> set n \<Longrightarrow> takeWhile (\<lambda>c. c \<noteq> d) n = n"
  by (induction n) auto

lemma takeWhile_to: "d \<notin> set n \<Longrightarrow> takeWhile (\<lambda>c. c \<noteq> d) (n @ d # v) = n"
  by (induction n) auto

lemma cut_value_shown [simp]: "CHR ''='' \<notin> set n \<Longrightarrow> cut_value (n @ CHR ''='' # v) = (n, Some v)"
  by (simp add: cut_value_def takeWhile_to)

lemma cut_value_alone [simp]: "CHR ''='' \<notin> set n \<Longrightarrow> cut_value n = (n, None)"
  by (simp add: cut_value_def takeWhile_no)

lemma parse_one_shown:
  assumes "flag_name n" "map_of F n = Some k" "accepts k v"
  shows "parse_one F (show_flag (n, v) # rest) = Seen n v rest"
proof -
  have "n \<noteq> []" "CHR ''='' \<notin> set n" "hd n \<noteq> CHR ''-''" using assms(1) by (auto simp: flag_name_def)
  moreover from this have "hd n \<noteq> CHR ''=''" by (metis list.set_sel(1))
  ultimately show ?thesis
    using assms(2,3) by (simp add: parse_one_def show_flag_def parse_named_def parse_value_def)
qed

text \<open>What is printed is read back: assignments to defined flags, then the rest of the line.\<close>

lemma parse_shown_flags:
  assumes "\<forall>(n, v) \<in> set asg. flag_name n \<and> (\<exists>k. map_of F n = Some k \<and> accepts k v)"
  shows "parse_flags F (map show_flag asg @ ''--'' # pos) = Inr (asg, pos)"
  using assms
proof (induction asg)
  case Nil
  then show ?case by (simp add: parse_flags.simps parse_one_def)
next
  case (Cons a asg)
  obtain n v where a: "a = (n, v)" by (cases a)
  then obtain k where "flag_name n" "map_of F n = Some k" "accepts k v" using Cons.prems by auto
  from parse_one_shown[OF this] show ?case using Cons a by (simp add: parse_flags.simps[of F "_ # _"])
qed

text \<open>Every assignment read is one to a defined flag, with a value it takes.\<close>

lemma parsed_are_accepted:
  assumes "parse_flags F line = Inr (asg, pos)" and "(n, v) \<in> set asg"
  shows "\<exists>k. map_of F n = Some k \<and> accepts k v"
  using assms
proof (induction F line arbitrary: asg pos rule: parse_flags.induct)
  case (1 F line)
  show ?case
  proof (cases "parse_one F line")
    case (Seen n' v' rest)
    then obtain asg' where "parse_flags F rest = Inr (asg', pos)" "asg = (n', v') # asg'"
      using "1.prems"(1) by (auto simp: parse_flags.simps[of F line] split: sum.splits)
    then show ?thesis using 1 Seen parse_one_Seen[OF Seen] by auto
  qed (use 1 in \<open>auto simp: parse_flags.simps[of F line]\<close>)
qed

lemma text_value_unset [simp]: "text_value [] name dflt = dflt"
  by (simp add: text_value_def)

lemma switch_value_unset [simp]: "switch_value [] name dflt = dflt"
  by (simp add: switch_value_def)

lemma text_value_last [simp]: "text_value (asg @ [(n, v)]) n dflt = v"
  by (simp add: text_value_def)

lemma text_value_other [simp]: "m \<noteq> n \<Longrightarrow> text_value (asg @ [(m, v)]) n dflt = text_value asg n dflt"
  by (simp add: text_value_def)

lemma switch_value_other [simp]: "m \<noteq> n \<Longrightarrow> switch_value (asg @ [(m, v)]) n dflt = switch_value asg n dflt"
  by (simp add: switch_value_def)

end
