(* ===== verification/Commands.thy ===== *)
theory Commands
  imports Bootstrap Onboarding_Server Go_Flags
begin

text \<open>
  The commands that start the webhook server (\<^verbatim>\<open>main.go\<close> and \<^verbatim>\<open>EventListener.Init\<close>) and migrate the
  database (\<^verbatim>\<open>cmd/migrate\<close>).  \<^verbatim>\<open>log.Fatal\<close> is an error result; the environment is a parameter.
\<close>

section \<open>The webhook server\<close>

record server_flags =
  fl_db_path :: string
  fl_db_driver :: string
  fl_db_dsn :: string
  fl_fossa_env :: string
  fl_webhook_secret :: string
  fl_addr :: string
  fl_repo :: string
  fl_org :: string
  fl_gh_token :: string

definition server_flag_kinds :: "(string \<times> flag_kind) list" where
  "server_flag_kinds =
     [(''db-path'', Text), (''db-driver'', Text), (''db-dsn'', Text), (''fossa-token-env'', Text),
      (''webhook-secret'', Text), (''addr'', Text), (''repo'', Text), (''org'', Text), (''gh-api'', Text)]"

definition server_flags_of :: "assignments \<Rightarrow> server_flags" where
  "server_flags_of asg =
     \<lparr>fl_db_path = text_value asg ''db-path'' ''/data/onboarding.db'',
      fl_db_driver = text_value asg ''db-driver'' ''sqlite'',
      fl_db_dsn = text_value asg ''db-dsn'' [],
      fl_fossa_env = text_value asg ''fossa-token-env'' ''FOSSA_API_TOKEN'',
      fl_webhook_secret = text_value asg ''webhook-secret'' [],
      fl_addr = text_value asg ''addr'' ''2525'',
      fl_repo = text_value asg ''repo'' ''sandbox'',
      fl_org = text_value asg ''org'' ''cncf'',
      fl_gh_token = text_value asg ''gh-api'' []\<rparr>"

text \<open>A flag left at its default, or one that names a variable, is overridden by the environment.\<close>

definition overridden :: "(string \<Rightarrow> string) \<Rightarrow> string \<Rightarrow> string \<Rightarrow> string \<Rightarrow> string" where
  "overridden getenv dflt key flag =
     (let v = (if flag = dflt then getenv key
               else if has_prefix flag ''$'' then getenv (trim_prefix flag ''$'') else [])
      in if v = [] then flag else v)"

record server_settings =
  sg_secret :: string
  sg_driver :: string
  sg_dsn :: string
  sg_fossa_env :: string
  sg_gh_token :: string
  sg_org :: string
  sg_repo :: string
  sg_addr :: string

definition server_settings_of :: "(string \<Rightarrow> string) \<Rightarrow> server_flags \<Rightarrow> server_settings result" where
  "server_settings_of getenv fl =
     (let secret = (if fl_webhook_secret fl = [] then getenv ''GITHUB_WEBHOOK_SECRET'' else fl_webhook_secret fl) in
      if secret = [] then Inl (Msg ''must provide --webhook-secret or set GITHUB_WEBHOOK_SECRET'')
      else if fl_db_driver fl = ''postgres'' \<and> fl_db_dsn fl = []
      then Inl (Msg ''must provide --db-dsn when --db-driver=postgres'')
      else Inr
        \<lparr>sg_secret = secret, sg_driver = fl_db_driver fl,
         sg_dsn = (if fl_db_driver fl = ''postgres'' then fl_db_dsn fl else fl_db_path fl),
         sg_fossa_env = fl_fossa_env fl,
         sg_gh_token = (if fl_gh_token fl = [] then getenv ''GITHUB_API_TOKEN'' else fl_gh_token fl),
         sg_org = overridden getenv ''cncf'' ''ORG'' (fl_org fl),
         sg_repo = overridden getenv ''sandbox'' ''REPO'' (fl_repo fl), sg_addr = fl_addr fl\<rparr>)"

text \<open>
  What \<^verbatim>\<open>Init\<close> sets: the store, the projects as they are now, the FOSSA client and the token of the
  GitHub client.  The organisation and the repository are only logged.
\<close>

definition listener_init ::
  "'w gorm drivers \<Rightarrow> (string \<Rightarrow> string) \<Rightarrow> string \<Rightarrow> string \<Rightarrow> string \<Rightarrow> string \<Rightarrow> string \<Rightarrow> string
     \<Rightarrow> ('w, ('w gorm \<times> listener \<times> client \<times> string) result) io" where
  "listener_init D getenv dbDriver dbDSN fossaVar ghToken org repo =
     (case open_gorm D dbDriver dbDSN of
        Inl e \<Rightarrow> ret (Inl (Wrap ''connect to db: '' e []))
      | Inr G \<Rightarrow>
          do { ps \<leftarrow> get_project_map_by_name G;
               ret (case ps of
                      Inl e \<Rightarrow> Inl (Wrap ''get project map: '' e [])
                    | Inr m \<Rightarrow>
                        (let token = getenv fossaVar in
                         if token = [] then Inl (Msg (''missing required environment variable: '' @ fossaVar))
                         else Inr (G, \<lparr>ls_projects = m\<rparr>, new_client token, ghToken))) })"

text \<open>
  The program: flags, settings, \<^verbatim>\<open>Init\<close>, then \<open>run\<close>, which serves on the address until it fails.
  \<^verbatim>\<open>log.Fatal\<close> ends it with 1.
\<close>

definition server_main ::
  "'w gorm drivers \<Rightarrow> (string \<Rightarrow> string) \<Rightarrow>
   (string \<Rightarrow> 'w gorm \<times> listener \<times> client \<times> string \<Rightarrow> string \<Rightarrow> ('w, unit result) io) \<Rightarrow> string list \<Rightarrow> ('w, nat) io" where
  "server_main D getenv run args =
     (case parse_flags server_flag_kinds args of
        Inl code \<Rightarrow> ret code
      | Inr (asg, _) \<Rightarrow>
          (case server_settings_of getenv (server_flags_of asg) of
             Inl _ \<Rightarrow> ret 1
           | Inr sg \<Rightarrow>
               do { r \<leftarrow> try_bind (listener_init D getenv (sg_driver sg) (sg_dsn sg) (sg_fossa_env sg) (sg_gh_token sg)
                             (sg_org sg) (sg_repo sg)) (\<lambda>listener. run (sg_secret sg) listener (sg_addr sg));
                    ret (case r of Inl _ \<Rightarrow> 1 | Inr _ \<Rightarrow> 0) }))"

text \<open>Without a webhook secret the server does not start, whatever the rest of the command line says.\<close>

lemma no_server_without_secret:
  assumes "parse_flags server_flag_kinds args = Inr (asg, pos)" and "fl_webhook_secret (server_flags_of asg) = []"
    and "getenv ''GITHUB_WEBHOOK_SECRET'' = []"
  shows "run_state (server_main D getenv run args) w = (1, w)"
  using assms by (simp add: server_main_def server_settings_of_def)

text \<open>The deployment names the organisation and the repository by variables; they are looked up.\<close>

lemma deployed_organisation:
  assumes "getenv ''ORG'' = c # cs"
  shows "overridden getenv ''cncf'' ''ORG'' ''$ORG'' = c # cs"
  using assms by (simp add: overridden_def has_prefix_def trim_prefix_def)

section \<open>The migration\<close>

text \<open>
  \<open>auto_migrate\<close> and \<open>exec\<close> are gorm's; the statements are those of the code, byte by byte.
\<close>

definition extension_statements :: "string list" where
  "extension_statements =
     (let nl = [CHR 0x0A]; tab = [CHR 0x09] in
     [''CREATE EXTENSION IF NOT EXISTS pg_trgm'',
      ''CREATE EXTENSION IF NOT EXISTS unaccent'',
      ''CREATE OR REPLACE FUNCTION unaccent_immutable(text)'' @ nl @ tab @ tab @ '' RETURNS text'' @ nl @ tab @ tab @
      '' LANGUAGE sql'' @ nl @ tab @ tab @ '' IMMUTABLE'' @ nl @ tab @ tab @ '' PARALLEL SAFE'' @ nl @ tab @ tab @
      '' AS $$ SELECT unaccent($1); $$''])"

definition index_statements :: "string list" where
  "index_statements =
     (let quotes = [CHR 0x27, CHR 0x27]; quote1 = [CHR 0x27] in
     [''CREATE INDEX IF NOT EXISTS idx_projects_name_trgm ON projects USING gin (lower(name) gin_trgm_ops)'',
      ''CREATE INDEX IF NOT EXISTS idx_projects_ref_trgm ON projects USING gin (lower(maintainer_ref) gin_trgm_ops)'',
      ''CREATE INDEX IF NOT EXISTS idx_projects_dotref_trgm ON projects USING gin (lower(dot_project_yaml_ref) gin_trgm_ops)'',
      ''CREATE INDEX IF NOT EXISTS idx_projects_github_org_trgm ON projects USING gin (lower(git_hub_org) gin_trgm_ops)'',
      ''CREATE INDEX IF NOT EXISTS idx_maintainers_name_trgm ON maintainers USING gin (lower(name) gin_trgm_ops)'',
      ''CREATE INDEX IF NOT EXISTS idx_maintainers_email_trgm ON maintainers USING gin (lower(email) gin_trgm_ops)'',
      ''CREATE INDEX IF NOT EXISTS idx_maintainers_github_trgm ON maintainers USING gin (lower(git_hub_account) gin_trgm_ops)'',
      ''CREATE INDEX IF NOT EXISTS idx_companies_name_trgm ON companies USING gin (lower(name) gin_trgm_ops)'',
      ''ALTER TABLE maintainers ADD COLUMN IF NOT EXISTS search_tsv tsvector GENERATED ALWAYS AS (to_tsvector('' @
      quote1 @ ''simple'' @ quote1 @ '', unaccent_immutable(coalesce(name, '' @ quotes @ '') || '' @ quote1 @ '' '' @
      quote1 @ '' || coalesce(email, '' @ quotes @ '') || '' @ quote1 @ '' '' @ quote1 @
      '' || coalesce(git_hub_account, '' @ quotes @ '')))) STORED'',
      ''ALTER TABLE projects ADD COLUMN IF NOT EXISTS search_tsv tsvector GENERATED ALWAYS AS (to_tsvector('' @
      quote1 @ ''simple'' @ quote1 @ '', unaccent_immutable(coalesce(name, '' @ quotes @ '') || '' @ quote1 @ '' '' @
      quote1 @ '' || coalesce(maintainer_ref, '' @ quotes @ '') || '' @ quote1 @ '' '' @ quote1 @
      '' || coalesce(dot_project_yaml_ref, '' @ quotes @ '') || '' @ quote1 @ '' '' @ quote1 @
      '' || coalesce(git_hub_org, '' @ quotes @ '')))) STORED'',
      ''CREATE INDEX IF NOT EXISTS idx_maintainers_search_tsv ON maintainers USING gin (search_tsv)'',
      ''CREATE INDEX IF NOT EXISTS idx_projects_search_tsv ON projects USING gin (search_tsv)''])"

definition migrate_tables :: "string list" where
  "migrate_tables =
     [''AuditLog'', ''Collaborator'', ''Company'', ''Foundation'', ''FoundationOfficer'', ''StaffMember'', ''Maintainer'',
      ''MaintainerProject'', ''Project'', ''Service'', ''ServiceTeam'', ''ServiceUser'', ''MaintainerRefCache'']"

definition migrate ::
  "(string list \<Rightarrow> ('w, unit result) io) \<Rightarrow> (string \<Rightarrow> ('w, unit result) io) \<Rightarrow> bool \<Rightarrow> ('w, unit result) io" where
  "migrate auto_migrate exec is_postgres =
     try_bind (auto_migrate migrate_tables) (\<lambda>_.
     if \<not> is_postgres then ret (Inr ())
     else try_bind (for_each_try extension_statements exec) (\<lambda>_. for_each_try index_statements exec))"

text \<open>
  The whole command: the environment, the database, the migration.  \<open>is_postgres\<close> is the name of the
  dialect of an open database; \<open>Inl\<close> is \<^verbatim>\<open>log.Fatal\<close>.
\<close>

definition migrate_env_or :: "(string \<Rightarrow> string) \<Rightarrow> string \<Rightarrow> string \<Rightarrow> string" where
  "migrate_env_or getenv key fallback = (let v = trim_space (getenv key) in if v \<noteq> [] then v else fallback)"

definition migrate_command ::
  "'g drivers \<Rightarrow> ('g \<Rightarrow> string list \<Rightarrow> ('w, unit result) io) \<Rightarrow> ('g \<Rightarrow> string \<Rightarrow> ('w, unit result) io) \<Rightarrow> ('g \<Rightarrow> bool) \<Rightarrow>
   (string \<Rightarrow> string) \<Rightarrow> ('w, unit result) io" where
  "migrate_command D auto_migrate exec is_postgres getenv =
     (let dbDriver = migrate_env_or getenv ''MD_DB_DRIVER'' ''sqlite''; dbDSN = migrate_env_or getenv ''MD_DB_DSN'' [];
          dbPath = migrate_env_or getenv ''MD_DB_PATH'' ''/data/maintainers.db'' in
      if dbDriver = ''postgres'' \<and> dbDSN = []
      then ret (Inl (Msg ''MD_DB_DSN is required when MD_DB_DRIVER=postgres''))
      else case open_gorm D dbDriver (if dbDriver = ''postgres'' then dbDSN else dbPath) of
        Inl e \<Rightarrow> ret (Inl (Wrap ''failed to open DB: '' e []))
      | Inr G \<Rightarrow> do { r \<leftarrow> migrate (auto_migrate G) (exec G) (is_postgres G);
                     ret (case r of Inl e \<Rightarrow> Inl (Wrap ''migrate failed: '' e []) | Inr _ \<Rightarrow> Inr ()) })"

end
