(* ===== verification/Bootstrap_Command.thy ===== *)
theory Bootstrap_Command
  imports Bootstrap_Fossa
begin

text \<open>
  The command \<^verbatim>\<open>cmd/bootstrap\<close> with its backups, and \<^verbatim>\<open>cmd/fossa\<close>, which prints the teams of FOSSA.
  \<^verbatim>\<open>log.Fatal\<close> is an error result; the flags, read by cobra, and the environment are parameters.
\<close>

section \<open>Package filepath\<close>

text \<open>\<^verbatim>\<open>Clean\<close>: the elements kept so far are in reverse; \<^verbatim>\<open>..\<close> takes the last one away, if it is a name.\<close>

fun clean_elements :: "bool \<Rightarrow> string list \<Rightarrow> string list \<Rightarrow> string list" where
  "clean_elements rooted kept [] = rev kept"
| "clean_elements rooted kept (e # es) =
     (if e = [] \<or> e = ''.'' then clean_elements rooted kept es
      else if e = ''..'' then
        (case kept of
           k # ks \<Rightarrow> clean_elements rooted (if k = ''..'' then e # kept else ks) es
         | [] \<Rightarrow> clean_elements rooted (if rooted then [] else [e]) es)
      else clean_elements rooted (e # kept) es)"

definition path_clean :: "string \<Rightarrow> string" where
  "path_clean p =
     (let rooted = (p \<noteq> [] \<and> hd p = CHR ''/'');
          text = join (clean_elements rooted [] (split_char (CHR ''/'') p)) ''/'' in
      if rooted then CHR ''/'' # text else if text = [] then ''.'' else text)"

definition path_dir :: "string \<Rightarrow> string" where
  "path_dir p = path_clean (rev (dropWhile (\<lambda>c. c \<noteq> CHR ''/'') (rev p)))"

definition path_base :: "string \<Rightarrow> string" where
  "path_base p =
     (if p = [] then ''.''
      else let b = rev (takeWhile (\<lambda>c. c \<noteq> CHR ''/'') (dropWhile (\<lambda>c. c = CHR ''/'') (rev p)))
           in if b = [] then ''/'' else b)"

definition path_join :: "string \<Rightarrow> string \<Rightarrow> string" where
  "path_join a b = (case filter (\<lambda>e. e \<noteq> []) [a, b] of [] \<Rightarrow> [] | es \<Rightarrow> path_clean (join es ''/''))"

text \<open>A name in the current directory is its own path.\<close>

lemma path_join_here:
  assumes "CHR ''/'' \<notin> set n" "n \<noteq> []" "n \<noteq> ''.''" "n \<noteq> ''..''"
  shows "path_join ''.'' n = n"
  using assms by (simp add: path_join_def path_clean_def Let_def split_char_single split_char_append[of _ "''.''", simplified])

section \<open>The bootstrap command\<close>

record bootstrap_flags =
  bf_db :: string
  bf_db_driver :: string
  bf_db_dsn :: string
  bf_seed :: bool
  bf_backup :: bool
  bf_max_backups :: int

definition default_bootstrap_flags :: bootstrap_flags where
  "default_bootstrap_flags =
     \<lparr>bf_db = ''maintainers.db'', bf_db_driver = ''sqlite'', bf_db_dsn = [], bf_seed = True, bf_backup = True,
      bf_max_backups = 5\<rparr>"

text \<open>The three required variables, then driver and address; an unset flag gives way to the environment.\<close>

definition bootstrap_tokens :: "(string \<Rightarrow> string) \<Rightarrow> (string \<times> string \<times> string) result" where
  "bootstrap_tokens getenv =
     (let missing = List.find (\<lambda>v. getenv v = []) [''MD_WORKSHEET'', ''FOSSA_API_TOKEN'', ''WORKSPACE_CREDENTIALS_FILE''] in
      case missing of
        Some v \<Rightarrow> Inl (Msg (''ERROR: environment variable '' @ v @ '' is not set''))
      | None \<Rightarrow> Inr (getenv ''MD_WORKSHEET'', getenv ''FOSSA_API_TOKEN'', getenv ''WORKSPACE_CREDENTIALS_FILE''))"

definition bootstrap_target :: "(string \<Rightarrow> string) \<Rightarrow> bootstrap_flags \<Rightarrow> (string \<times> string) result" where
  "bootstrap_target getenv fl =
     (let driver = (if bf_db_driver fl = ''sqlite'' \<and> to_lower (getenv ''MD_DB_DRIVER'') = ''postgres''
                    then ''postgres'' else bf_db_driver fl);
          dsn = (if bf_db_dsn fl = [] then getenv ''MD_DB_DSN'' else bf_db_dsn fl) in
      if driver = ''postgres''
      then if dsn = [] then Inl (Msg ''ERROR: --db-dsn or MD_DB_DSN is required when --db-driver=postgres'')
           else Inr (driver, dsn)
      else Inr (driver, bf_db fl))"

text \<open>
  The file system: does a file exist, is it a regular one, open it, create one, copy from one to the
  other, list a directory by its names, remove one file.  A backup is made of a file that exists, named by
  the time; then old backups go.
\<close>

record 'w files =
  fs_exists :: "string \<Rightarrow> ('w, bool) io"
  fs_regular :: "string \<Rightarrow> ('w, bool result) io"
  fs_open :: "string \<Rightarrow> ('w, unit result) io"
  fs_create :: "string \<Rightarrow> ('w, unit result) io"
  fs_read_from :: "string \<Rightarrow> string \<Rightarrow> ('w, unit result) io"
  fs_read_dir :: "string \<Rightarrow> ('w, string list result) io"
  fs_remove :: "string \<Rightarrow> ('w, unit result) io"

text \<open>\<^verbatim>\<open>copyFile\<close>; that a file is closed in the end is left out, a failure there is only logged.\<close>

definition copy_file :: "'w files \<Rightarrow> string \<Rightarrow> string \<Rightarrow> ('w, unit result) io" where
  "copy_file F src dst =
     try_bind (fs_regular F src) (\<lambda>regular.
     if \<not> regular then ret (Inl (Msg (src @ '' is not a regular file'')))
     else try_bind (fs_open F src) (\<lambda>_.
          try_bind (fs_create F dst) (\<lambda>_. fs_read_from F dst src)))"

text \<open>
  Go's \<^verbatim>\<open>backups[:len(backups)-max]\<close> with a negative \<open>max\<close> reaches beyond the length of the slice: it
  panics when it also reaches beyond its capacity, and has empty names in the end when not.  How much
  capacity a slice of \<open>n\<close> appended strings has is the business of the runtime: \<open>capacity n\<close>.
\<close>

definition backups_of :: "string \<Rightarrow> string \<Rightarrow> string list \<Rightarrow> string list" where
  "backups_of dir base names =
     map (path_join dir) (filter (\<lambda>n. has_prefix n (base @ ''.'') \<and> has_suffix n ''.bak'') names)"

definition backups_to_remove :: "(nat \<Rightarrow> nat) \<Rightarrow> string \<Rightarrow> string \<Rightarrow> int \<Rightarrow> string list \<Rightarrow> string list go" where
  "backups_to_remove capacity dir base limit names =
     (let backups = backups_of dir base names in
      if int (length backups) \<le> limit then Return []
      else if 0 \<le> limit then Return (take (length backups - nat limit) (sort backups))
      else if length backups + nat (- limit) \<le> capacity (length backups)
      then Return (sort backups @ replicate (nat (- limit)) [])
      else Panic)"

text \<open>Failures to list the directory or to remove a file are only logged.\<close>

definition prune_old_backups :: "(nat \<Rightarrow> nat) \<Rightarrow> 'w files \<Rightarrow> string \<Rightarrow> int \<Rightarrow> ('w, unit go) io" where
  "prune_old_backups capacity F dbPath limit =
     do { names \<leftarrow> fs_read_dir F (path_dir dbPath);
          case names of
            Inl _ \<Rightarrow> ret (Return ())
          | Inr ns \<Rightarrow>
              (case backups_to_remove capacity (path_dir dbPath) (path_base dbPath) limit ns of
                 Panic \<Rightarrow> ret Panic
               | Return files \<Rightarrow>
                   do { _ \<leftarrow> for_each_try files (\<lambda>f. do { _ \<leftarrow> fs_remove F f; ret (Inr ()) });
                        ret (Return ()) }) }"

text \<open>\<open>timestamp\<close> is the present time in the layout \<^verbatim>\<open>20060102-150405\<close>.\<close>

definition backup_step ::
  "(nat \<Rightarrow> nat) \<Rightarrow> 'w files \<Rightarrow> string \<Rightarrow> bootstrap_flags \<Rightarrow> ('w, unit result go) io" where
  "backup_step capacity F timestamp fl =
     (if \<not> (bf_backup fl \<and> bf_db_driver fl = ''sqlite'') then ret (Return (Inr ()))
      else do { ex \<leftarrow> fs_exists F (bf_db fl);
                if \<not> ex then ret (Return (Inr ()))
                else do { c \<leftarrow> copy_file F (bf_db fl) (bf_db fl @ ''.'' @ timestamp @ ''.bak'');
                          case c of
                            Inl e \<Rightarrow> ret (Return (Inl (Wrap ''failed to create DB backup: '' e [])))
                          | Inr _ \<Rightarrow>
                              do { p \<leftarrow> prune_old_backups capacity F (bf_db fl) (bf_max_backups fl);
                                   ret (case p of Panic \<Rightarrow> Panic | Return _ \<Rightarrow> Return (Inr ())) } } })"

text \<open>The whole command: the three variables, the backup, then driver and address, then the database.\<close>

definition bootstrap_command ::
  "nat \<Rightarrow> (nat \<Rightarrow> nat) \<Rightarrow> 'w gorm drivers \<Rightarrow> ('w gorm \<Rightarrow> ('w, unit result) io) \<Rightarrow> 'w sheets \<Rightarrow> 'w http \<Rightarrow> codec \<Rightarrow>
   'w files \<Rightarrow> (string \<Rightarrow> string) \<Rightarrow> string \<Rightarrow> bootstrap_flags \<Rightarrow> ('w, unit result outcome option) io" where
  "bootstrap_command fuel capacity D auto_migrate S H C F getenv timestamp fl =
     (case bootstrap_tokens getenv of
        Inl e \<Rightarrow> ret (Some (Finished (Inl e)))
      | Inr (spreadsheetID, fossaToken, credentialsPath) \<Rightarrow>
          do { b \<leftarrow> backup_step capacity F timestamp fl;
               case b of
                 Panic \<Rightarrow> ret (Some Panicked)
               | Return (Inl e) \<Rightarrow> ret (Some (Finished (Inl e)))
               | Return (Inr _) \<Rightarrow>
                   (case bootstrap_target getenv fl of
                      Inl e \<Rightarrow> ret (Some (Finished (Inl e)))
                    | Inr (driver, dsn) \<Rightarrow>
                        do { r \<leftarrow> bootstrap_db fuel D auto_migrate S H C driver dsn spreadsheetID credentialsPath
                                    fossaToken (bf_seed fl);
                             ret (case r of
                                    None \<Rightarrow> None
                                  | Some Exited \<Rightarrow> Some Exited
                                  | Some Panicked \<Rightarrow> Some Panicked
                                  | Some (Finished (Inl e)) \<Rightarrow> Some (Finished (Inl (Wrap ''bootstrap failed: '' e [])))
                                  | Some (Finished (Inr _)) \<Rightarrow> Some (Finished (Inr ()))) }) })"

section \<open>The FOSSA command\<close>

text \<open>\<^verbatim>\<open>%3d\<close> and \<^verbatim>\<open>%-20s\<close>: at least that many columns, counted in bytes here.\<close>

definition pad_left :: "nat \<Rightarrow> string \<Rightarrow> string" where
  "pad_left n s = replicate (n - length s) (CHR '' '') @ s"

definition pad_right :: "nat \<Rightarrow> string \<Rightarrow> string" where
  "pad_right n s = s @ replicate (n - length s) (CHR '' '')"

definition team_line :: "team \<Rightarrow> string" where
  "team_line t =
     ''  '' @ pad_left 3 (itoa (tm_id t)) @ ''  '' @ pad_right 20 (tm_name t) @
     ''  users:'' @ pad_left 3 (itoa (int (length (tm_users t)))) @
     ''  projects:'' @ pad_left 3 (itoa (tm_projects t)) @
     ''  releases:'' @ pad_left 3 (itoa (tm_release_groups t)) @ [CHR 0x0A]"

definition emails_listing :: "string list \<Rightarrow> string" where
  "emails_listing emails =
     ''Team members'' @ [CHR 0xE2, CHR 0x80, CHR 0x99] @ '' emails:'' @ [CHR 0x0A] @
     (case emails of [] \<Rightarrow> [] | e # es \<Rightarrow> e @ [CHR 0x0A] @ concat (map (\<lambda>x. '', '' @ x) es)) @ [CHR 0x0A]"

text \<open>
  What the command prints, and how it ends; \<open>prog\<close> is \<^verbatim>\<open>os.Args[0]\<close>, \<open>args\<close> what follows it.
\<close>

definition fossa_command ::
  "'w http \<Rightarrow> codec \<Rightarrow> (string \<Rightarrow> string) \<Rightarrow> string \<Rightarrow> string list \<Rightarrow> ('w, string \<times> unit result) io" where
  "fossa_command H C getenv prog args =
     (let token = getenv ''FOSSA_API_TOKEN'' in
      if token = [] then ret ([], Inl (Msg (''please set $FOSSA_API_TOKEN'' @ [CHR 0x0A])))
      else do { r \<leftarrow> fetch_teams H C (new_client token);
                case r of
                  Inl e \<Rightarrow> ret ([], Inl (Wrap ''error fetching teams: '' e [CHR 0x0A]))
                | Inr teams \<Rightarrow>
                    (let table = ''Your teams:'' @ [CHR 0x0A] @ concat (map team_line teams) in
                     case args of
                       [] \<Rightarrow> ret (table, Inl (Msg (''usage: '' @ prog @ '' <teamName>'' @ [CHR 0x0A])))
                     | teamName # _ \<Rightarrow>
                         (case get_team_id teams teamName of
                            Inl e \<Rightarrow> ret (table, Inl (Wrap ''error fetching team: '' e []))
                          | Inr teamID \<Rightarrow>
                              do { m \<leftarrow> fetch_team_user_emails H C (new_client token) teamID;
                                   ret (case m of
                                          Inl e \<Rightarrow> (table, Inl (Wrap ''error fetching users: '' e []))
                                        | Inr emails \<Rightarrow> (table @ emails_listing emails, Inr ())) })) })"

section \<open>Laws\<close>

text \<open>Without its three variables the command touches nothing, neither file nor database.\<close>

lemma missing_variable_touches_nothing:
  assumes "bootstrap_tokens getenv = Inl e"
  shows "run_state (bootstrap_command fuel capacity D auto_migrate S H C F getenv timestamp fl) w =
    (Some (Finished (Inl e)), w)"
  using assms by (simp add: bootstrap_command_def)

text \<open>A backup that fails stops the command before the database is opened.\<close>

lemma failed_backup_stops_bootstrap:
  assumes "bootstrap_tokens getenv = Inr t"
    and "run_state (backup_step capacity F timestamp fl) w = (Return (Inl e), w')"
  shows "run_state (bootstrap_command fuel capacity D auto_migrate S H C F getenv timestamp fl) w =
    (Some (Finished (Inl e)), w')"
  using assms by (cases t) (simp add: bootstrap_command_def)

lemma sort_split_le: "x \<in> set (take k (sort xs)) \<Longrightarrow> y \<in> set (drop k (sort xs)) \<Longrightarrow> x \<le> y"
  by (metis append_take_drop_id sorted_append sorted_sort)

lemma distinct_backups_here:
  assumes "distinct names" and "\<forall>n \<in> set names. CHR ''/'' \<notin> set n"
  shows "distinct (backups_of ''.'' base names)"
proof -
  have "path_join ''.'' n = n" if "n \<in> set names" "has_suffix n ''.bak''" for n
    using that assms(2) by (intro path_join_here) (auto simp: has_suffix_def has_prefix_def)
  then have "backups_of ''.'' base names = filter (\<lambda>n. has_prefix n (base @ ''.'') \<and> has_suffix n ''.bak'') names"
    by (auto simp: backups_of_def intro: map_idI)
  then show ?thesis using assms(1) by simp
qed

text \<open>
  Pruning the backups of a database in the current directory leaves exactly the allowed number
  of them, or all when there are no more; it removes only backups of this database, and none that
  is newer by its name than one it keeps.
\<close>

theorem prune_keeps_the_newest:
  assumes "0 \<le> limit" and "distinct names" and "\<forall>n \<in> set names. CHR ''/'' \<notin> set n"
  shows "\<exists>gone. backups_to_remove capacity ''.'' base limit names = Return gone \<and> set gone \<subseteq> set (backups_of ''.'' base names) \<and>
    card (set (backups_of ''.'' base names) - set gone) = min (nat limit) (length (backups_of ''.'' base names)) \<and>
    (\<forall>g \<in> set gone. \<forall>k \<in> set (backups_of ''.'' base names) - set gone. g < k)"
proof -
  let ?b = "backups_of ''.'' base names"
  have d: "distinct ?b" using assms(2,3) by (rule distinct_backups_here)
  show ?thesis
  proof (cases "int (length ?b) \<le> limit")
    case True
    then show ?thesis using d by (simp add: backups_to_remove_def Let_def distinct_card)
  next
    case False
    let ?k = "length ?b - nat limit"
    let ?gone = "take ?k (sort ?b)"
    have dk: "set ?gone \<inter> set (drop ?k (sort ?b)) = {}"
      using d by (metis append_take_drop_id distinct_append distinct_sort)
    have "set ?b = set ?gone \<union> set (drop ?k (sort ?b))" by (metis append_take_drop_id set_append set_sort)
    then have kept: "set ?b - set ?gone = set (drop ?k (sort ?b))" using dk by blast
    have card: "card (set (drop ?k (sort ?b))) = nat limit"
      using d False assms(1) by (simp add: distinct_card)
    have less: "g < k" if "g \<in> set ?gone" "k \<in> set (drop ?k (sort ?b))" for g k
      using sort_split_le[OF that] dk that by (metis disjoint_iff order_le_imp_less_or_eq)
    have ret: "backups_to_remove capacity ''.'' base limit names = Return ?gone"
      using False assms(1) by (simp add: backups_to_remove_def Let_def)
    have "set ?gone \<subseteq> set ?b" by (metis set_sort set_take_subset)
    then show ?thesis
      using ret kept card less False by (intro exI[of _ ?gone]) auto
  qed
qed

theorem prune_keeps_the_newest_witness:
  "backups_to_remove (\<lambda>n. n) ''.'' ''m.db'' 1 [''m.db.2.bak'', ''m.db'', ''m.db.1.bak''] = Return [''m.db.1.bak''] \<and>
   (\<exists>gone. backups_to_remove (\<lambda>n. n) ''.'' ''m.db'' 1 [''m.db.2.bak'', ''m.db'', ''m.db.1.bak''] = Return gone \<and>
      set gone \<subseteq> set (backups_of ''.'' ''m.db'' [''m.db.2.bak'', ''m.db'', ''m.db.1.bak'']))"
proof -
  have r: "backups_to_remove (\<lambda>n. n) ''.'' ''m.db'' 1 [''m.db.2.bak'', ''m.db'', ''m.db.1.bak''] = Return [''m.db.1.bak'']"
    by code_simp
  have "(0::int) \<le> 1" "distinct [''m.db.2.bak'', ''m.db'', ''m.db.1.bak'']"
    "\<forall>n \<in> set [''m.db.2.bak'', ''m.db'', ''m.db.1.bak'']. CHR ''/'' \<notin> set n" by simp_all
  from prune_keeps_the_newest[OF this, of "\<lambda>n. n" "''m.db''"] r show ?thesis by blast
qed

text \<open>
  A negative number of backups to keep removes them all, or stops the command with a panic when the
  slice has no room.
\<close>

lemma prune_with_negative_limit:
  assumes "limit < 0"
  shows "backups_to_remove capacity dir base limit names =
    (if length (backups_of dir base names) + nat (- limit) \<le> capacity (length (backups_of dir base names))
     then Return (sort (backups_of dir base names) @ replicate (nat (- limit)) []) else Panic)"
  using assms by (simp add: backups_to_remove_def Let_def)

end
