(* ===== verification/Operator_Main.thy ===== *)
theory Operator_Main
  imports Go_Flags Kdp_Workspaces Code_Scanner
begin

text \<open>
  The entry points of the two operators, \<^verbatim>\<open>kdp-workspaces/cmd/main.go\<close> and \<^verbatim>\<open>code-scanners/cmd/main.go\<close>:
  flags, the options of the controller manager, the controllers, the probes, the exit code.  The manager
  of controller-runtime, the loading of the cluster configuration and the flags of the logger are
  parameters; the registration of the API types in the scheme is left out.
\<close>

section \<open>Flags\<close>

text \<open>Both programs define these; \<open>extra\<close> are the flags of the logger and of the client library.\<close>

definition manager_flag_kinds :: "(string \<times> flag_kind) list" where
  "manager_flag_kinds =
     [(''metrics-bind-address'', Text), (''health-probe-bind-address'', Text), (''leader-elect'', Switch),
      (''metrics-secure'', Switch), (''webhook-cert-path'', Text), (''webhook-cert-name'', Text),
      (''webhook-cert-key'', Text), (''metrics-cert-path'', Text), (''metrics-cert-name'', Text),
      (''metrics-cert-key'', Text), (''enable-http2'', Switch)]"

record manager_flags =
  mf_metrics_addr :: string
  mf_probe_addr :: string
  mf_leader_elect :: bool
  mf_secure_metrics :: bool
  mf_webhook_cert_path :: string
  mf_webhook_cert_name :: string
  mf_webhook_cert_key :: string
  mf_metrics_cert_path :: string
  mf_metrics_cert_name :: string
  mf_metrics_cert_key :: string
  mf_enable_http2 :: bool

definition manager_flags_of :: "assignments \<Rightarrow> manager_flags" where
  "manager_flags_of asg =
     \<lparr>mf_metrics_addr = text_value asg ''metrics-bind-address'' ''0'',
      mf_probe_addr = text_value asg ''health-probe-bind-address'' '':8081'',
      mf_leader_elect = switch_value asg ''leader-elect'' False,
      mf_secure_metrics = switch_value asg ''metrics-secure'' True,
      mf_webhook_cert_path = text_value asg ''webhook-cert-path'' [],
      mf_webhook_cert_name = text_value asg ''webhook-cert-name'' ''tls.crt'',
      mf_webhook_cert_key = text_value asg ''webhook-cert-key'' ''tls.key'',
      mf_metrics_cert_path = text_value asg ''metrics-cert-path'' [],
      mf_metrics_cert_name = text_value asg ''metrics-cert-name'' ''tls.crt'',
      mf_metrics_cert_key = text_value asg ''metrics-cert-key'' ''tls.key'',
      mf_enable_http2 = switch_value asg ''enable-http2'' False\<rparr>"

section \<open>The options of the manager\<close>

record tls_config =
  tc_next_protos :: "string list"

text \<open>A directory with the names of certificate and key in it; empty means the defaults of the library.\<close>

record cert_files =
  ct_dir :: string
  ct_name :: string
  ct_key :: string

record webhook_options =
  wo_tls :: "(tls_config \<Rightarrow> tls_config) list"
  wo_certs :: cert_files

record metrics_options =
  mo_bind_address :: string
  mo_secure_serving :: bool
  mo_tls :: "(tls_config \<Rightarrow> tls_config) list"
  mo_authenticated :: bool
  mo_certs :: cert_files

record manager_options =
  mp_metrics :: metrics_options
  mp_webhook :: webhook_options
  mp_probe_address :: string
  mp_leader_election :: bool
  mp_leader_election_id :: string

definition disable_http2 :: "tls_config \<Rightarrow> tls_config" where
  "disable_http2 c = c\<lparr>tc_next_protos := [''http/1.1'']\<rparr>"

definition tls_opts :: "manager_flags \<Rightarrow> (tls_config \<Rightarrow> tls_config) list" where
  "tls_opts fl = (if \<not> mf_enable_http2 fl then [disable_http2] else [])"

definition no_certs :: cert_files where
  "no_certs = \<lparr>ct_dir = [], ct_name = [], ct_key = []\<rparr>"

definition webhook_server_options :: "manager_flags \<Rightarrow> webhook_options" where
  "webhook_server_options fl =
     \<lparr>wo_tls = tls_opts fl,
      wo_certs =
        (if 0 < length (mf_webhook_cert_path fl)
         then \<lparr>ct_dir = mf_webhook_cert_path fl, ct_name = mf_webhook_cert_name fl, ct_key = mf_webhook_cert_key fl\<rparr>
         else no_certs)\<rparr>"

text \<open>\<open>mo_authenticated\<close>: the filter is \<^verbatim>\<open>WithAuthenticationAndAuthorization\<close>.\<close>

definition metrics_server_options :: "manager_flags \<Rightarrow> metrics_options" where
  "metrics_server_options fl =
     \<lparr>mo_bind_address = mf_metrics_addr fl, mo_secure_serving = mf_secure_metrics fl, mo_tls = tls_opts fl,
      mo_authenticated = mf_secure_metrics fl,
      mo_certs =
        (if 0 < length (mf_metrics_cert_path fl)
         then \<lparr>ct_dir = mf_metrics_cert_path fl, ct_name = mf_metrics_cert_name fl, ct_key = mf_metrics_cert_key fl\<rparr>
         else no_certs)\<rparr>"

definition manager_options_of :: "string \<Rightarrow> manager_flags \<Rightarrow> manager_options" where
  "manager_options_of electionID fl =
     \<lparr>mp_metrics = metrics_server_options fl, mp_webhook = webhook_server_options fl,
      mp_probe_address = mf_probe_addr fl, mp_leader_election = mf_leader_elect fl,
      mp_leader_election_id = electionID\<rparr>"

section \<open>Starting\<close>

text \<open>A controller is its name and its reconciler.\<close>

type_synonym 'w reconciler = "object_key \<Rightarrow> ('w, ctrl_result go) io"

record ('w, 'm) manager_calls =
  mc_config :: "('w, unit result) io"
  mc_new :: "manager_options \<Rightarrow> ('w, 'm result) io"
  mc_controller :: "'m \<Rightarrow> string \<Rightarrow> 'w reconciler \<Rightarrow> ('w, unit result) io"
  mc_healthz :: "'m \<Rightarrow> string \<Rightarrow> ('w, unit result) io"
  mc_readyz :: "'m \<Rightarrow> string \<Rightarrow> ('w, unit result) io"
  mc_start :: "'m \<Rightarrow> ('w, unit result) io"

definition setup_and_start ::
  "('w, 'm) manager_calls \<Rightarrow> 'm \<Rightarrow> (string \<times> 'w reconciler) list \<Rightarrow> ('w, unit result) io" where
  "setup_and_start M mgr controllers =
     try_bind (for_each_try controllers (\<lambda>(name, r). mc_controller M mgr name r)) (\<lambda>_.
     try_bind (mc_healthz M mgr ''healthz'') (\<lambda>_.
     try_bind (mc_readyz M mgr ''readyz'') (\<lambda>_. mc_start M mgr)))"

definition run_manager ::
  "('w, 'm) manager_calls \<Rightarrow> manager_options \<Rightarrow> (string \<times> 'w reconciler) list \<Rightarrow> ('w, nat) io" where
  "run_manager M options controllers =
     do { r \<leftarrow> try_bind (mc_config M) (\<lambda>_. try_bind (mc_new M options) (\<lambda>mgr. setup_and_start M mgr controllers));
          ret (case r of Inl _ \<Rightarrow> 1 | Inr _ \<Rightarrow> 0) }"

section \<open>The workspace operator\<close>

definition kdp_flag_kinds :: "(string \<times> flag_kind) list" where
  "kdp_flag_kinds =
     manager_flag_kinds @
     [(''kcp-configmap-name'', Text), (''kcp-configmap-namespace'', Text), (''kcp-secret-name'', Text),
      (''kcp-secret-namespace'', Text), (''staff-namespace'', Text)]"

text \<open>The reconcilers get their settings from the flags; \<open>E\<close> holds the clients.\<close>

definition kdp_env_of :: "assignments \<Rightarrow> 'w kdp_env \<Rightarrow> 'w kdp_env" where
  "kdp_env_of asg E =
     E\<lparr>ke_config_map_name := text_value asg ''kcp-configmap-name'' ''kdp-workspaces'',
       ke_config_map_namespace := text_value asg ''kcp-configmap-namespace'' ''kdp-workspaces-system'',
       ke_secret_name := text_value asg ''kcp-secret-name'' ''kdp-workspaces'',
       ke_secret_namespace := text_value asg ''kcp-secret-namespace'' ''kdp-workspaces-system'',
       ke_staff_namespace := text_value asg ''staff-namespace'' ''maintainerd''\<rparr>"

definition kdp_main ::
  "('w, 'm) manager_calls \<Rightarrow> (string \<times> flag_kind) list \<Rightarrow> 'w kdp_env \<Rightarrow> string list \<Rightarrow> ('w, nat) io" where
  "kdp_main M extra E args =
     (case parse_flags (kdp_flag_kinds @ extra) args of
        Inl code \<Rightarrow> ret code
      | Inr (asg, _) \<Rightarrow>
          run_manager M (manager_options_of ''8c4b4157.cncf.io'' (manager_flags_of asg))
            [(''Project'', reconcile_project (kdp_env_of asg E)),
             (''StaffMember'', reconcile_staff (kdp_env_of asg E))])"

section \<open>The scanner operator\<close>

definition credentials_namespace :: "(string \<Rightarrow> string) \<Rightarrow> string" where
  "credentials_namespace getenv =
     (let ns = getenv ''POD_NAMESPACE'' in if ns = [] then ''code-scanners'' else ns)"

definition never_panics :: "(object_key \<Rightarrow> ('w, ctrl_result) io) \<Rightarrow> 'w reconciler" where
  "never_panics f key = do { r \<leftarrow> f key; ret (Return r) }"

definition scanners_main ::
  "('w, 'm) manager_calls \<Rightarrow> (string \<times> flag_kind) list \<Rightarrow> (string \<Rightarrow> string) \<Rightarrow> 'w scanner_env \<Rightarrow> 'w snyk_env \<Rightarrow>
   string list \<Rightarrow> ('w, nat) io" where
  "scanners_main M extra getenv E N args =
     (case parse_flags (manager_flag_kinds @ extra) args of
        Inl code \<Rightarrow> ret code
      | Inr (asg, _) \<Rightarrow>
          run_manager M (manager_options_of ''6ad37bec.maintainer-d.cncf.io'' (manager_flags_of asg))
            [(''CodeScannerFossa'',
              never_panics (reconcile_fossa (E\<lparr>se_credentials_namespace := credentials_namespace getenv\<rparr>))),
             (''CodeScannerSnyk'', never_panics (reconcile_snyk N))])"

section \<open>Laws\<close>

text \<open>
  Metrics are served over TLS exactly when callers are authenticated, and that is the default; the
  servers speak HTTP/1.1 only unless the flag asks for HTTP/2.
\<close>

lemma metrics_are_guarded:
  "mo_authenticated (mp_metrics (manager_options_of ident fl)) =
   mo_secure_serving (mp_metrics (manager_options_of ident fl))"
  by (simp add: manager_options_of_def metrics_server_options_def)

lemma default_options_are_safe:
  "mo_authenticated (metrics_server_options (manager_flags_of []))"
  "mo_bind_address (metrics_server_options (manager_flags_of [])) = ''0''"
  "\<not> mf_enable_http2 (manager_flags_of [])"
  by (simp_all add: metrics_server_options_def manager_flags_of_def)

lemma http1_only:
  assumes "\<not> mf_enable_http2 fl"
  shows "tc_next_protos (fold (\<lambda>f c. f c) (mo_tls (mp_metrics (manager_options_of ident fl))) c) = [''http/1.1'']"
    and "tc_next_protos (fold (\<lambda>f c. f c) (wo_tls (mp_webhook (manager_options_of ident fl))) c) = [''http/1.1'']"
  using assms
  by (simp_all add: manager_options_of_def metrics_server_options_def webhook_server_options_def tls_opts_def
      disable_http2_def)

text \<open>The program ends with 0 exactly when every step went well, the manager included.\<close>

lemma run_manager_code:
  assumes "run_state (run_manager M options controllers) w = (code, w')"
  shows "code = 0 \<longleftrightarrow>
    (\<exists>w1 mgr w2. run_state (mc_config M) w = (Inr (), w1) \<and> run_state (mc_new M options) w1 = (Inr mgr, w2) \<and>
      run_state (setup_and_start M mgr controllers) w2 = (Inr (), w'))"
  using assms by (auto simp: run_manager_def split: sum.splits prod.splits)

text \<open>The arguments of the deployments are read, and turn the election of a leader on.\<close>

lemma deployed_arguments:
  "parse_flags (kdp_flag_kinds @ extra) [''--leader-elect'', ''--health-probe-bind-address=:8081''] =
     Inr ([(''leader-elect'', ''true''), (''health-probe-bind-address'', '':8081'')], [])"
  by (simp add: parse_flags.simps parse_one_def parse_named_def parse_value_def cut_value_def kdp_flag_kinds_def
      manager_flag_kinds_def parse_bool_def)

lemma deployed_operator_elects:
  "mf_leader_elect (manager_flags_of [(''leader-elect'', ''true''), (''health-probe-bind-address'', '':8081'')])"
  by (simp add: manager_flags_of_def switch_value_def parse_bool_def)

text \<open>
  The namespace of the secret is set from its flag and read by nothing: the secret is looked up in
  the namespace of the ConfigMap.
\<close>

named_theorems secret_namespace_unused \<open>the namespace of the secret changes nothing\<close>

abbreviation "other_secret E ns \<equiv> E\<lparr>ke_secret_namespace := ns\<rparr>"

lemma get_workspace_secret [secret_namespace_unused]: "get_workspace (other_secret E ns) = get_workspace E"
  by (intro ext) (simp add: get_workspace_def secret_namespace_unused cong: sum.case_cong option.case_cong go.case_cong if_cong)

lemma create_workspace_secret [secret_namespace_unused]: "create_workspace (other_secret E ns) = create_workspace E"
  by (intro ext) (simp add: create_workspace_def secret_namespace_unused cong: sum.case_cong option.case_cong go.case_cong if_cong)

lemma check_ready_secret [secret_namespace_unused]: "check_ready (other_secret E ns) = check_ready E"
  by (intro ext) (simp add: check_ready_def secret_namespace_unused cong: sum.case_cong option.case_cong go.case_cong if_cong)

lemma wait_for_workspace_ready_secret [secret_namespace_unused]: "wait_for_workspace_ready (other_secret E ns) = wait_for_workspace_ready E"
  by (intro ext) (simp add: wait_for_workspace_ready_def secret_namespace_unused cong: sum.case_cong option.case_cong go.case_cong if_cong)

lemma update_condition_secret [secret_namespace_unused]: "update_condition (other_secret E ns) = update_condition E"
  by (intro ext) (simp add: update_condition_def secret_namespace_unused cong: sum.case_cong option.case_cong go.case_cong if_cong)

lemma update_workspace_status_secret [secret_namespace_unused]: "update_workspace_status (other_secret E ns) = update_workspace_status E"
  by (intro ext) (simp add: update_workspace_status_def secret_namespace_unused cong: sum.case_cong option.case_cong go.case_cong if_cong)

lemma report_secret [secret_namespace_unused]: "report (other_secret E ns) = report E"
  by (intro ext) (simp add: report_def secret_namespace_unused cong: sum.case_cong option.case_cong go.case_cong if_cong)

lemma wait_and_publish_secret [secret_namespace_unused]: "wait_and_publish (other_secret E ns) = wait_and_publish E"
  by (intro ext) (simp add: wait_and_publish_def secret_namespace_unused cong: sum.case_cong option.case_cong go.case_cong if_cong)

lemma create_and_wait_secret [secret_namespace_unused]: "create_and_wait (other_secret E ns) = create_and_wait E"
  by (intro ext) (simp add: create_and_wait_def secret_namespace_unused cong: sum.case_cong option.case_cong go.case_cong if_cong)

lemma reconcile_workspace_secret [secret_namespace_unused]: "reconcile_workspace (other_secret E ns) = reconcile_workspace E"
  by (intro ext) (simp add: reconcile_workspace_def secret_namespace_unused cong: sum.case_cong option.case_cong go.case_cong if_cong)

lemma load_config_from_cluster_secret [secret_namespace_unused]: "load_config_from_cluster (other_secret E ns) = load_config_from_cluster E"
  by (intro ext) (simp add: load_config_from_cluster_def secret_namespace_unused cong: sum.case_cong option.case_cong go.case_cong if_cong)

lemma new_kcp_client_secret [secret_namespace_unused]: "new_kcp_client (other_secret E ns) = new_kcp_client E"
  by (intro ext) (simp add: new_kcp_client_def secret_namespace_unused cong: sum.case_cong option.case_cong go.case_cong if_cong)

lemma list_managed_workspaces_secret [secret_namespace_unused]: "list_managed_workspaces (other_secret E ns) = list_managed_workspaces E"
  by (intro ext) (simp add: list_managed_workspaces_def secret_namespace_unused cong: sum.case_cong option.case_cong go.case_cong if_cong)

lemma reconcile_known_secret [secret_namespace_unused]: "reconcile_known (other_secret E ns) = reconcile_known E"
  by (intro ext) (simp add: reconcile_known_def secret_namespace_unused cong: sum.case_cong option.case_cong go.case_cong if_cong)

lemma write_binding_secret [secret_namespace_unused]: "write_binding (other_secret E ns) = write_binding E"
  by (intro ext) (simp add: write_binding_def secret_namespace_unused cong: sum.case_cong option.case_cong go.case_cong if_cong)

lemma create_or_update_staff_binding_secret [secret_namespace_unused]: "create_or_update_staff_binding (other_secret E ns) = create_or_update_staff_binding E"
  by (intro ext) (simp add: create_or_update_staff_binding_def secret_namespace_unused cong: sum.case_cong option.case_cong go.case_cong if_cong)

lemma update_staff_annotations_secret [secret_namespace_unused]: "update_staff_annotations (other_secret E ns) = update_staff_annotations E"
  by (intro ext) (simp add: update_staff_annotations_def secret_namespace_unused cong: sum.case_cong option.case_cong go.case_cong if_cong)

lemma finish_staff_secret [secret_namespace_unused]: "finish_staff (other_secret E ns) = finish_staff E"
  by (intro ext) (simp add: finish_staff_def secret_namespace_unused cong: sum.case_cong option.case_cong go.case_cong if_cong)

lemma bind_all_secret [secret_namespace_unused]: "bind_all (other_secret E ns) cfg subjects wss acc = bind_all E cfg subjects wss acc"
  by (induction E cfg subjects wss acc rule: bind_all.induct)
    (simp_all add: secret_namespace_unused cong: sum.case_cong go.case_cong if_cong)

lemma reconcile_project_secret: "reconcile_project (other_secret E ns) = reconcile_project E"
  by (intro ext) (simp add: reconcile_project_def secret_namespace_unused cong: sum.case_cong)

lemma reconcile_staff_secret: "reconcile_staff (other_secret E ns) = reconcile_staff E"
  by (intro ext) (simp add: reconcile_staff_def secret_namespace_unused cong: sum.case_cong go.case_cong if_cong)

text \<open>So the flag \<^verbatim>\<open>--kcp-secret-namespace\<close> changes nothing the operator does.\<close>

lemma kdp_env_other_secret:
  "kdp_env_of (asg @ [(''kcp-secret-namespace'', ns)]) E = other_secret (kdp_env_of asg E) ns"
  by (simp add: kdp_env_of_def)

lemma secret_namespace_flag_ignored:
  "reconcile_project (kdp_env_of (asg @ [(''kcp-secret-namespace'', ns)]) E) = reconcile_project (kdp_env_of asg E)"
  "reconcile_staff (kdp_env_of (asg @ [(''kcp-secret-namespace'', ns)]) E) = reconcile_staff (kdp_env_of asg E)"
  by (simp_all only: kdp_env_other_secret reconcile_project_secret reconcile_staff_secret)

end
