(* ===== verification/Github_Mock.thy ===== *)
theory Github_Mock
  imports Go_Base
begin

text \<open>
  \<^verbatim>\<open>onboarding/github_mock.go\<close>: the HTTP transport that stands for GitHub in the tests of the webhook
  server.  It keeps the requests, the comments and the labels it was sent, and answers.  A body is a
  reader, shared by everyone who holds the response: \<open>gm_readers\<close> is what every reader has left.
  Each operation holds the lock for its whole length, so it is one step.
\<close>

section \<open>State\<close>

text \<open>A request by its method, its path and what reading its body gives.\<close>

record github_request =
  gq_method :: string
  gq_path :: string
  gq_body :: "string result"

record comment_capture =
  cc_owner :: string
  cc_repo :: string
  cc_issue :: int
  cc_body :: string

record label_capture =
  lc_owner :: string
  lc_repo :: string
  lc_issue :: int
  lc_labels :: "string list"

record mock_response =
  mr_code :: nat
  mr_body :: nat

record github_mock =
  gm_requests :: "github_request list"
  gm_responses :: "(string, mock_response) gomap"
  gm_comments :: "comment_capture list"
  gm_labels :: "label_capture list"
  gm_readers :: "string list"

definition new_mock_transport :: github_mock where
  "new_mock_transport = \<lparr>gm_requests = [], gm_responses = [], gm_comments = [], gm_labels = [], gm_readers = []\<rparr>"

section \<open>Readers\<close>

definition new_reader :: "string \<Rightarrow> github_mock \<Rightarrow> nat \<times> github_mock" where
  "new_reader bytes m = (length (gm_readers m), m\<lparr>gm_readers := gm_readers m @ [bytes]\<rparr>)"

text \<open>Reading a body to its end, as the client does with a response.\<close>

definition read_body :: "nat \<Rightarrow> github_mock \<Rightarrow> string \<times> github_mock" where
  "read_body r m =
     (if r < length (gm_readers m) then gm_readers m ! r else [], m\<lparr>gm_readers := (gm_readers m)[r := []]\<rparr>)"

definition answer :: "nat \<Rightarrow> string \<Rightarrow> github_mock \<Rightarrow> mock_response option result \<times> github_mock" where
  "answer code bytes m =
     (let (r, m') = new_reader bytes m in (Inr (Some \<lparr>mr_code = code, mr_body = r\<rparr>), m'))"

section \<open>The transport\<close>

text \<open>The JSON decoders: the body of a comment, and a list of labels.\<close>

record github_codec =
  gc_comment :: "string \<Rightarrow> string result"
  gc_labels :: "string \<Rightarrow> string list result"

definition is_comment_call :: "github_request \<Rightarrow> bool" where
  "is_comment_call q \<longleftrightarrow>
     gq_method q = ''POST'' \<and> contains (gq_path q) ''/issues/'' \<and> has_suffix (gq_path q) ''/comments''"

definition is_label_call :: "github_request \<Rightarrow> bool" where
  "is_label_call q \<longleftrightarrow>
     gq_method q = ''POST'' \<and> contains (gq_path q) ''/issues/'' \<and> has_suffix (gq_path q) ''/labels''"

text \<open>Owner, repository and issue of a path; nothing when it is too short, an error without a number.\<close>

definition issue_of_path :: "string \<Rightarrow> (string \<times> string \<times> int) option result" where
  "issue_of_path path =
     (let parts = split_char (CHR ''/'') path in
      if 6 \<le> length parts
      then (case atoi (parts ! 5) of
              None \<Rightarrow> Inl (Msg (''strconv.Atoi: parsing '' @ quote (parts ! 5)))
            | Some n \<Rightarrow> Inr (Some (parts ! 2, parts ! 3, n)))
      else Inr None)"

text \<open>A body that is no JSON gives back the error of reading it, which is nil: no response and no error.\<close>

definition capture_comment ::
  "github_codec \<Rightarrow> github_request \<Rightarrow> github_mock \<Rightarrow> mock_response option result \<times> github_mock" where
  "capture_comment C q m =
     (case gq_body q of
        Inl e \<Rightarrow> (Inl e, m)
      | Inr body \<Rightarrow>
          (case gc_comment C body of
             Inl _ \<Rightarrow> (Inr None, m)
           | Inr text \<Rightarrow>
               (case issue_of_path (gq_path q) of
                  Inl e \<Rightarrow> (Inl e, m)
                | Inr None \<Rightarrow> answer 201 (''{'' @ quote ''id'' @ '': 1}'') m
                | Inr (Some (owner, repo, n)) \<Rightarrow>
                    answer 201 (''{'' @ quote ''id'' @ '': 1}'')
                      (m\<lparr>gm_comments := gm_comments m @
                           [\<lparr>cc_owner = owner, cc_repo = repo, cc_issue = n, cc_body = text\<rparr>]\<rparr>))))"

definition capture_labels ::
  "github_codec \<Rightarrow> github_request \<Rightarrow> github_mock \<Rightarrow> mock_response option result \<times> github_mock" where
  "capture_labels C q m =
     (case gq_body q of
        Inl e \<Rightarrow> (Inl e, m)
      | Inr body \<Rightarrow>
          (case gc_labels C body of
             Inl e \<Rightarrow> (Inl e, m)
           | Inr labels \<Rightarrow>
               (case issue_of_path (gq_path q) of
                  Inl e \<Rightarrow> (Inl e, m)
                | Inr None \<Rightarrow> answer 200 (''[{'' @ quote ''name'' @ '': '' @ quote ''test'' @ ''}]'') m
                | Inr (Some (owner, repo, n)) \<Rightarrow>
                    answer 200 (''[{'' @ quote ''name'' @ '': '' @ quote ''test'' @ ''}]'')
                      (m\<lparr>gm_labels := gm_labels m @
                           [\<lparr>lc_owner = owner, lc_repo = repo, lc_issue = n, lc_labels = labels\<rparr>]\<rparr>))))"

text \<open>\<open>Inr None\<close> is a nil response without an error.\<close>

definition round_trip ::
  "github_codec \<Rightarrow> github_request \<Rightarrow> github_mock \<Rightarrow> mock_response option result \<times> github_mock" where
  "round_trip C q m0 =
     (let m = m0\<lparr>gm_requests := gm_requests m0 @ [q]\<rparr> in
      if is_comment_call q then capture_comment C q m
      else if is_label_call q then capture_labels C q m
      else case map_of (gm_responses m) (gq_method q @ '' '' @ gq_path q) of
             Some resp \<Rightarrow> (Inr (Some resp), m)
           | None \<Rightarrow> answer 200 ''{}'' m)"

definition get_created_comments :: "github_mock \<Rightarrow> comment_capture list" where
  "get_created_comments m = gm_comments m"

definition get_added_labels :: "github_mock \<Rightarrow> label_capture list" where
  "get_added_labels m = gm_labels m"

definition get_requests :: "github_mock \<Rightarrow> github_request list" where
  "get_requests m = gm_requests m"

definition reset_mock :: "github_mock \<Rightarrow> github_mock" where
  "reset_mock m = m\<lparr>gm_requests := [], gm_comments := [], gm_labels := []\<rparr>"

definition set_response :: "string \<Rightarrow> string \<Rightarrow> nat \<Rightarrow> string \<Rightarrow> github_mock \<Rightarrow> github_mock" where
  "set_response meth path code bytes m =
     (let (r, m') = new_reader bytes m in
      m'\<lparr>gm_responses := map_put (meth @ '' '' @ path) \<lparr>mr_code = code, mr_body = r\<rparr> (gm_responses m')\<rparr>)"

section \<open>Laws\<close>

text \<open>The comment a request leaves in the record, if any.\<close>

definition comment_of :: "github_codec \<Rightarrow> github_request \<Rightarrow> comment_capture list" where
  "comment_of C q =
     (case (gq_body q, issue_of_path (gq_path q)) of
        (Inr body, Inr (Some (owner, repo, n))) \<Rightarrow>
          (case gc_comment C body of
             Inr text \<Rightarrow>
               if is_comment_call q then [\<lparr>cc_owner = owner, cc_repo = repo, cc_issue = n, cc_body = text\<rparr>] else []
           | Inl _ \<Rightarrow> [])
      | _ \<Rightarrow> [])"

lemma answer_keeps [simp]:
  "gm_requests (snd (answer code bytes m)) = gm_requests m"
  "gm_comments (snd (answer code bytes m)) = gm_comments m"
  "gm_labels (snd (answer code bytes m)) = gm_labels m"
  "gm_responses (snd (answer code bytes m)) = gm_responses m"
  by (simp_all add: answer_def new_reader_def)

lemma round_trip_requests: "gm_requests (snd (round_trip C q m)) = gm_requests m @ [q]"
  by (auto simp: round_trip_def Let_def capture_comment_def capture_labels_def
      split: sum.splits option.splits prod.splits)

lemma round_trip_comments: "gm_comments (snd (round_trip C q m)) = gm_comments m @ comment_of C q"
  by (auto simp: round_trip_def Let_def capture_comment_def capture_labels_def comment_of_def
      split: sum.splits option.splits prod.splits)

text \<open>What a user of the transport does, and the record after any such history.\<close>

datatype mock_step = Trip github_request | Configure string string nat string | Read nat | Reset

fun mock_run :: "github_codec \<Rightarrow> mock_step list \<Rightarrow> github_mock \<Rightarrow> github_mock" where
  "mock_run C [] m = m"
| "mock_run C (Trip q # ss) m = mock_run C ss (snd (round_trip C q m))"
| "mock_run C (Configure meth path code bytes # ss) m = mock_run C ss (set_response meth path code bytes m)"
| "mock_run C (Read r # ss) m = mock_run C ss (snd (read_body r m))"
| "mock_run C (Reset # ss) m = mock_run C ss (reset_mock m)"

text \<open>The requests since the last reset.\<close>

fun since_reset :: "mock_step list \<Rightarrow> github_request list \<Rightarrow> github_request list" where
  "since_reset [] qs = qs"
| "since_reset (Trip q # ss) qs = since_reset ss (qs @ [q])"
| "since_reset (Reset # ss) qs = since_reset ss []"
| "since_reset (Configure meth path code bytes # ss) qs = since_reset ss qs"
| "since_reset (Read r # ss) qs = since_reset ss qs"

lemma record_follows_history:
  assumes "get_created_comments m = concat (map (comment_of C) (get_requests m))"
  shows "get_requests (mock_run C ss m) = since_reset ss (get_requests m) \<and>
    get_created_comments (mock_run C ss m) = concat (map (comment_of C) (since_reset ss (get_requests m)))"
  using assms
proof (induction C ss m rule: mock_run.induct)
  case (2 C q ss m)
  then show ?case
    by (simp add: get_created_comments_def get_requests_def round_trip_comments round_trip_requests)
next
  case (3 C meth path code bytes ss m)
  then show ?case by (simp add: get_created_comments_def get_requests_def set_response_def new_reader_def Let_def)
next
  case (4 C r ss m)
  then show ?case by (simp add: get_created_comments_def get_requests_def read_body_def)
next
  case (5 C ss m)
  then show ?case by (simp add: get_created_comments_def get_requests_def reset_mock_def)
qed simp

text \<open>
  The transport records the comments of the requests since the last reset, in their order, whatever
  else happened.
\<close>

lemma mock_records_the_comments:
  "get_created_comments (mock_run C ss new_mock_transport) =
    concat (map (comment_of C) (since_reset ss []))"
  using record_follows_history[of new_mock_transport C ss]
  by (simp add: get_created_comments_def get_requests_def new_mock_transport_def)

text \<open>A configured response survives a reset, and its body can be read once only.\<close>

lemma reset_keeps_responses: "gm_responses (reset_mock m) = gm_responses m"
  by (simp add: reset_mock_def)

lemma body_is_read_once: "fst (read_body r (snd (read_body r m))) = []"
  by (simp add: read_body_def)

lemma configured_response_is_shared:
  assumes "\<not> is_comment_call q" "\<not> is_label_call q"
    and "map_of (gm_responses m) (gq_method q @ '' '' @ gq_path q) = Some resp"
  shows "fst (round_trip C q m) = Inr (Some resp)"
    and "fst (round_trip C q (snd (read_body (mr_body resp) (snd (round_trip C q m))))) = Inr (Some resp)"
    and "fst (read_body (mr_body resp)
            (snd (round_trip C q (snd (read_body (mr_body resp) (snd (round_trip C q m))))))) = []"
  using assms by (simp_all add: round_trip_def Let_def read_body_def)

text \<open>A comment that is no JSON is answered by nothing: no response, no error.\<close>

lemma malformed_comment_is_lost:
  assumes "is_comment_call q" "gq_body q = Inr body" "gc_comment C body = Inl e"
  shows "fst (round_trip C q m) = Inr None"
  using assms by (simp add: round_trip_def capture_comment_def Let_def)

end
