(* ===== verification/Demo_Seed.thy ===== *)
theory Demo_Seed
  imports Bootstrap Go_Flags
begin

text \<open>
  \<^verbatim>\<open>cmd/web-bff-seed\<close>: the fixed rows the browser tests of the web server run on.  A second run finds
  every row by its key and adds nothing.  \<open>auto_migrate\<close> and \<open>replace\<close> (\<^verbatim>\<open>Association\<close>,
  \<^verbatim>\<open>Replace\<close>) are gorm's; \<^verbatim>\<open>log.Fatal\<close> is an error result.  The present time is read once; all statuses and
  maturities are valid, so storing them does not fail for their sake.
\<close>

definition seed_tables :: "string list" where
  "seed_tables =
     [''AuditLog'', ''Company'', ''Foundation'', ''Project'', ''Maintainer'', ''StaffMember'', ''FoundationOfficer'',
      ''Collaborator'', ''MaintainerProject'', ''MaintainerRefCache'', ''Service'', ''ServiceTeam'', ''ServiceUser'',
      ''ServiceUserTeams'']"

definition seed_staff :: "nat \<Rightarrow> int \<Rightarrow> staff_member" where
  "seed_staff foundation now =
     zero_staff_member
       \<lparr>sm_name := ''Staff Tester'', sm_email := ''staff.tester@example.test'', sm_github := ''staff-tester'',
        sm_github_email := ''staff.tester@github.test'', sm_foundation_id := Some foundation,
        sm_registered_at := Some now\<rparr>"

text \<open>Name, address, account and the address of the account.\<close>

definition seed_people :: "(string \<times> string \<times> string \<times> string) list" where
  "seed_people =
     [(''Antonio Example'', ''antonio.example@test.dev'', ''antonio-example'', ''antonio@example.dev''),
      (''Renee Sample'', ''renee.sample@example.dev'', ''renee-sample'', ''renee@example.dev''),
      (''Alex Example'', ''alex@example.dev'', ''alex-example'', ''alex@example.dev''),
      (''Diego Placeholder'', ''diego.placeholder@test.dev'', ''diego-placeholder'', ''diego@example.dev''),
      (''Jun Example'', ''jun.example@test.dev'', ''jun-example'', ''jun@example.dev''),
      (''Priya Demo'', ''priya.demo@test.dev'', ''priya-demo'', ''priya@example.dev'')]"

definition seed_maintainer :: "nat \<Rightarrow> int \<Rightarrow> string \<times> string \<times> string \<times> string \<Rightarrow> maintainer" where
  "seed_maintainer company now p =
     (case p of (name, email, github, githubEmail) \<Rightarrow>
        zero_maintainer
          \<lparr>mt_name := name, mt_email := email, mt_github := github, mt_github_email := githubEmail,
           mt_status := ActiveMaintainer, mt_company_id := Some company, mt_registered_at := Some now\<rparr>)"

definition seed_projects :: "(string \<times> maturity) list" where
  "seed_projects = [(''Project Atlas'', Graduated), (''Project Beacon'', Incubating), (''Project Comet'', Sandbox)]"

definition seed_project :: "string \<times> maturity \<Rightarrow> project" where
  "seed_project p = zero_project\<lparr>pr_name := fst p, pr_maturity := snd p\<rparr>"

text \<open>The loop: every value is replaced by its row, old or new; the first error ends it.\<close>

fun find_or_create_all ::
  "('w, 'r) table \<Rightarrow> ('r \<Rightarrow> 'r \<Rightarrow> bool) \<Rightarrow> ('r \<Rightarrow> 'r) \<Rightarrow> 'r list \<Rightarrow> ('w, 'r list result) io" where
  "find_or_create_all T same dflt [] = ret (Inr [])"
| "find_or_create_all T same dflt (r # rs) =
     try_bind (first_or_create T (same r) (dflt r)) (\<lambda>x.
     try_bind (find_or_create_all T same dflt rs) (\<lambda>xs. ret (Inr (x # xs))))"

text \<open>The maintainers of the three projects, by their positions in the list.\<close>

definition seed_links :: "(nat \<times> nat list) list" where
  "seed_links = [(0, [0, 1, 2]), (1, [0, 3]), (2, [0, 4, 5])]"

definition seed_rows ::
  "'w gorm \<Rightarrow> (nat \<Rightarrow> nat list \<Rightarrow> ('w, unit result) io) \<Rightarrow> int \<Rightarrow> ('w, unit result) io" where
  "seed_rows G replace now =
     try_bind (wrap_io ''seed: company insert failed: ''
       (first_or_create (companies G) (\<lambda>c. co_name c = ''Example Labs'') (zero_company\<lparr>co_name := ''Example Labs''\<rparr>)))
       (\<lambda>company.
     try_bind (wrap_io ''seed: foundation insert failed: ''
       (first_or_create (foundations G) (\<lambda>f. fo_name f = ''CNCF'') (zero_foundation\<lparr>fo_name := ''CNCF''\<rparr>)))
       (\<lambda>foundation.
     try_bind (wrap_io ''seed: staff insert failed: ''
       (first_or_create (staff_members G) (\<lambda>s. sm_github s = sm_github (seed_staff (row_id foundation) now))
          (staff_defaults (seed_staff (row_id foundation) now))))
       (\<lambda>_.
     try_bind (wrap_io ''seed: maintainer insert failed: ''
       (find_or_create_all (maintainers G) (\<lambda>m x. mt_github x = mt_github m) maintainer_defaults
          (map (seed_maintainer (row_id company) now) seed_people)))
       (\<lambda>ms.
     try_bind (wrap_io ''seed: project insert failed: ''
       (find_or_create_all (projects G) (\<lambda>p x. pr_name x = pr_name p) project_defaults (map seed_project seed_projects)))
       (\<lambda>ps.
     wrap_io ''seed: association failed: ''
       (for_each_try seed_links
          (\<lambda>(p, links). replace (row_id (ps ! p)) (map (\<lambda>i. row_id (ms ! i)) links))))))))"

definition seed_main ::
  "'w gorm drivers \<Rightarrow> ('w gorm \<Rightarrow> string list \<Rightarrow> ('w, unit result) io) \<Rightarrow>
   ('w gorm \<Rightarrow> nat \<Rightarrow> nat list \<Rightarrow> ('w, unit result) io) \<Rightarrow> int \<Rightarrow> string list \<Rightarrow> ('w, nat) io" where
  "seed_main D auto_migrate replace now args =
     (case parse_flags [(''db'', Text)] args of
        Inl code \<Rightarrow> ret code
      | Inr (asg, _) \<Rightarrow>
          (case dr_sqlite D (text_value asg ''db'' ''testdata/maintainerd_test.db'') of
             Inl _ \<Rightarrow> ret 1
           | Inr G \<Rightarrow>
               do { r \<leftarrow> try_bind (wrap_io ''seed: auto-migrate failed: '' (auto_migrate G seed_tables))
                            (\<lambda>_. seed_rows G (replace G) now);
                    ret (case r of Inl _ \<Rightarrow> 1 | Inr _ \<Rightarrow> 0) }))"

section \<open>Laws\<close>

text \<open>The result has one row for every value, so the positions used by the links exist.\<close>

lemma find_or_create_all_length:
  "run_state (find_or_create_all T same dflt rs) w = (Inr xs, w') \<Longrightarrow> length xs = length rs"
  by (induction T same dflt rs arbitrary: w xs rule: find_or_create_all.induct)
    (auto split: sum.splits prod.splits)

lemma seed_links_in_range:
  "\<forall>(p, links) \<in> set seed_links. p < length seed_projects \<and> (\<forall>i \<in> set links. i < length seed_people)"
  by (simp add: seed_links_def seed_projects_def seed_people_def)

text \<open>The database of \<open>Gorm_Memory\<close>, with the links of a project replaced as a whole.\<close>

definition mem_replace :: "nat \<Rightarrow> nat list \<Rightarrow> ('z mem_world_scheme, unit result) io" where
  "mem_replace p ms =
     State (\<lambda>w. (Inr (), w\<lparr>mw_db := (mw_db w)\<lparr>cur := (cur (mw_db w))
       \<lparr>tb_maintainer_projects :=
          filter (\<lambda>l. mp_project_id l \<noteq> p) (tb_maintainer_projects (cur (mw_db w))) @
          map (\<lambda>m. \<lparr>mp_maintainer_id = m, mp_project_id = p\<rparr>) ms\<rparr>\<rparr>\<rparr>))"

text \<open>How many companies, foundations, staff members, maintainers, projects and links there are.\<close>

definition row_counts :: "tables \<Rightarrow> nat list" where
  "row_counts d =
     [length (tb_companies d), length (tb_foundations d), length (tb_staff d), length (tb_maintainers d),
      length (tb_projects d), length (tb_maintainer_projects d)]"

definition empty_world :: mem_world where
  "empty_world =
     (let none = demo_tables\<lparr>tb_companies := [], tb_projects := [], tb_maintainers := [], tb_maintainer_projects := [],
        tb_staff := [], tb_services := []\<rparr>
      in \<lparr>mw_db = \<lparr>cur = none, saved = none\<rparr>, mw_now = 1\<rparr>)"

definition seeded_times :: "nat \<Rightarrow> mem_world" where
  "seeded_times n = ((\<lambda>w. snd (run_state (seed_rows mem_gorm mem_replace 5) w)) ^^ n) empty_world"

text \<open>On an empty database the demo has these rows; seeding again leaves every row as it is.\<close>

lemma seeded_rows: "row_counts (cur (mw_db (seeded_times 1))) = [1, 1, 1, 6, 3, 8]"
  by code_simp

lemma seeding_again: "cur (mw_db (seeded_times 2)) = cur (mw_db (seeded_times 1))"
  by code_simp

end
