(* ===== verification/Spec2Isabelle.thy ===== *)
theory Spec2Isabelle
  imports Bff_Server Webhook_Process Scanner_Runs Api_Objects Staff_Access Kdp_Runs Bootstrap_Runs Backfill Commands Bootstrap_Command
    Operator_Main Github_Mock Demo_Seed
begin

text \<open>
  The verification library of maintainer-d.

  \<^bold>\<open>The program.\<close>  maintainer-d keeps the register of the CNCF projects and their maintainers in a SQL
  database and acts on it from several processes:

  \<^item> the webhook server (\<^verbatim>\<open>main.go\<close>, \<^verbatim>\<open>onboarding/\<close>) listens to GitHub issues and comments, reads
    the check list of an onboarding issue, and signs a project up for FOSSA;
  \<^item> the web server (\<^verbatim>\<open>cmd/web-bff\<close>) logs users in through GitHub and serves the web application:
    projects, maintainers, companies, onboarding issues, audit log and search;
  \<^item> the bootstrap (\<^verbatim>\<open>cmd/bootstrap\<close>, \<^verbatim>\<open>db/bootstrap.go\<close>), the migration and the backfill fill the
    database from work sheets, from FOSSA and from GitHub;
  \<^item> the sync job (\<^verbatim>\<open>cmd/sync\<close>) publishes the database as Kubernetes objects;
  \<^item> operators in the cluster act on such objects: the code scanners (\<^verbatim>\<open>code-scanners/\<close>) create FOSSA
    teams and invite users, the workspace operators (\<^verbatim>\<open>kdp-workspaces/\<close>) create kcp workspaces and
    grant staff access to them.

  They share the store (\<^verbatim>\<open>db/store_impl.go\<close>), the FOSSA client (\<^verbatim>\<open>plugins/fossa\<close>) and the parser of
  maintainer references (\<^verbatim>\<open>refparse\<close>).

  \<^bold>\<open>Conventions.\<close>  Code that touches the outside is a \<open>('w, 'a) io\<close>, a state monad over a world of
  any type; an error is the left side of a sum (\<open>'a result\<close>), a panic a value of \<open>'a go\<close> or
  \<open>'a outcome\<close>.  gorm, HTTP, JSON decoding, net/url, the GitHub and sheets clients and the API servers
  are parameters.  What is relied on is stated by locales: \<open>gorm_table\<close> and \<open>gorm_db\<close> (queries,
  inserts, updates and deletes on tables, transactions), \<open>fossa_iface\<close> (members and invitations),
  \<open>bff_outside\<close>, \<open>bff_world\<close>, \<open>fossa_server\<close>, \<open>sync_site\<close>, \<open>seed_site\<close>, \<open>fossa_feed\<close>, \<open>bootstrap_site\<close> and
  \<open>webhook_site\<close> (calls that are no part of the database),
  \<open>kube_kind\<close> and \<open>kube_listed\<close> (objects of a kind under their keys), \<open>project_site\<close>, \<open>staff_site\<close>, \<open>kdp_site\<close>,
  \<open>scanner_world\<close>, \<open>scanner_site\<close> and \<open>config_map_host\<close> (the clusters of the operators).  Every one is interpreted on
  an executable model: the database of \<open>Gorm_Memory\<close>, the mock client of the repository, the
  in-memory kinds of \<open>K8s_Base\<close>; the witnesses run the code on these.  Logging is left out.

  \<^bold>\<open>Theories.\<close>
  \<^item> \<open>Go_Base\<close>: errors, the monad, loops, maps, the string functions of Go's library, and their laws.
  \<^item> \<open>Model_Types\<close>: \<^verbatim>\<open>model/main.go\<close>.  \<open>Gorm_Iface\<close>, \<open>Gorm_Memory\<close>: the contract and a model of it.
  \<^item> \<open>Sql_Store\<close>, \<open>Store_Laws\<close>, \<open>Store_Reads\<close>: \<^verbatim>\<open>db/store_impl.go\<close>; the effect and atomicity of
    merging companies and of \<^verbatim>\<open>UpsertMaintainer\<close>, valid rows as an invariant of all writes, what the
    reads return.  \<open>Store_History\<close>: what no write takes away.
  \<^item> \<open>Ref_Parse\<close>: \<^verbatim>\<open>refparse\<close>; matching against a reference definition by stand-alone words.
    \<open>Onboarding_Tasks\<close>: \<^verbatim>\<open>onboarding/task.go\<close>.
  \<^item> \<open>Fossa_Client\<close>, \<open>Fossa_Mock\<close>: \<^verbatim>\<open>plugins/fossa/client.go\<close>, \<^verbatim>\<open>onboarding/interfaces.go\<close> and
    \<^verbatim>\<open>fossa_mock.go\<close>; paging collects every user, errors are classified.
  \<^item> \<open>Onboarding_Server\<close>, \<open>Server_Laws\<close>: \<^verbatim>\<open>onboarding/server.go\<close>; a stranger changes nothing, reports
    say what is so.  \<open>Webhook_Runs\<close>: the server over any run of deliveries; what it adds to the
    database, and that strangers change nothing in any run.  \<open>Webhook_Process\<close>: its two routes; a run
    of requests is the run of the deliveries among them.
  \<^item> \<open>Bff_Base\<close>, \<open>Bff_Ref\<close>, \<open>Bff_Sessions\<close>, \<open>Bff_Projects\<close>, \<open>Bff_Onboarding\<close>, \<open>Bff_Maintainers\<close>,
    \<open>Bff_Companies\<close>, \<open>Bff_Lists\<close>, \<open>Bff_Routes\<close>: \<^verbatim>\<open>cmd/web-bff/main.go\<close> in the order of its handlers,
    then its lists, its settings and its routes.  \<open>Bff_Session_Laws\<close>: sessions against their history,
    single use of OAuth states, redirects that stay on the site.  \<open>Bff_Laws\<close>, \<open>Bff_Project_Laws\<close>,
    \<open>Bff_Onboarding_Laws\<close>, \<open>Bff_Lists_Laws\<close>: who may do what, what a change leaves alone, what is
    audited, what lists and pages show.  \<open>Bff_Process\<close>: the server as a whole, its routes bound to their
    handlers over one state of database, sessions, OAuth states and cache, and runs of requests.
    \<open>Bff_Process_Laws\<close>, \<open>Bff_Server\<close>: what holds over every run, who is staff in it, and the one race
    (of the cache of issues) that is modelled step by step.
  \<^item> \<open>K8s_Base\<close>: objects and kinds.  \<open>Code_Scanner\<close>, \<open>Scanner_Laws\<close>: the two scanner operators.
    \<open>Scanner_Runs\<close>: the FOSSA operator over any run; what it does in FOSSA was asked for, what it reports is so.
    \<open>K8s_Sync\<close>, \<open>K8s_Sync_Laws\<close>: the sync job; the cluster shows the database.  \<open>Kdp_Workspaces\<close>,
    \<open>Kdp_Laws\<close>: the kcp client and the workspace operators; access is exactly that of the
    staff objects.  \<open>Api_Json\<close>, \<open>Api_Objects\<close>: \<^verbatim>\<open>apis/maintainers/v1alpha1/types.go\<close>,
    every kind as JSON, which reads back.  \<open>Staff_Access\<close>: the sync job and the staff operator together, from the staff table to the
    access in the workspaces.  \<open>Kdp_Runs\<close>: both workspace operators over any run, with others acting in
    between; what a run can add, and how a project that becomes ready gets its staff.
  \<^item> \<open>Bootstrap\<close>, \<open>Bootstrap_Fossa\<close>, \<open>Bootstrap_Laws\<close>: \<^verbatim>\<open>db/connection.go\<close> and \<^verbatim>\<open>db/bootstrap.go\<close>; reading a
    sheet, rows stored as a whole, seeding that only adds, links that miss their team.
    \<open>Fossa_Load_Laws\<close>: loading FOSSA only adds.  \<open>Bootstrap_Runs\<close>: the bootstrap as a whole, stage by
    stage; it only adds, and names stay unique.  \<open>Backfill\<close>: \<^verbatim>\<open>cmd/onboarding-backfill\<close>.
  \<^item> \<open>Go_Flags\<close>: command lines as package \<^verbatim>\<open>flag\<close> reads them; what is printed is read back.
    \<open>Commands\<close>: \<^verbatim>\<open>main.go\<close>, \<^verbatim>\<open>cmd/migrate\<close>.  \<open>Bootstrap_Command\<close>: \<^verbatim>\<open>cmd/bootstrap\<close> with its backups,
    \<^verbatim>\<open>cmd/fossa\<close>.  \<open>Operator_Main\<close>: the entry points of the two operators.  \<open>Demo_Seed\<close>:
    \<^verbatim>\<open>cmd/web-bff-seed\<close>.  \<open>Github_Mock\<close>: \<^verbatim>\<open>onboarding/github_mock.go\<close>; its record against its history.

  \<^bold>\<open>Bounds and fuel.\<close>  The paging loops (FOSSA users, GitHub issues) end when the other side says so;
  they take fuel, one unit per page, and \<open>None\<close> means still running.  For the users, the issues of
  the web server and those of the backfill as many units as there are pages are shown to be enough.  The wait for a workspace has the number of polls the time limit allows.
  Every other recursion is structural.  Ids and times are unbounded numbers: no arithmetic of the
  program comes near the end of 64 bits, page sizes and offsets being clamped first.

  \<^bold>\<open>Simplifications.\<close>  Strings are bytes, and letters change case within ASCII only.  Soft-deleted rows
  are not visible, so the raw join that would show them (\<^verbatim>\<open>GetProjectsUsingService\<close>) is a parameter.  A
  where clause is the predicate it denotes, except in the lists of the web server, where it is a datum
  handed to a parameter.  Requests run one after another, except in the critical sections of the cache
  of issues; what other processes do between the calls of a handler is the business of the world.

  \<^bold>\<open>Not modelled.\<close>  The front end and its tests; generated code (deep copies, scheme registration);
  the interface \<^verbatim>\<open>db/store.go\<close>, which repeats the signatures of its one implementation; the test helpers.

  \<^bold>\<open>What is open.\<close>  Reconciliations and requests are steps: what another process does between two calls
  of the same step is limited to what the contracts of the locales leave open (the phase of a workspace
  while the operator waits for it).
\<close>

end
